(* ===== verification/Prelude.thy ===== *)
theory Prelude
  imports Main "HOL-Library.AList" "HOL-Library.Multiset"
begin

text \<open>
  Shared vocabulary of the development: the exceptions the program raises, programs as
  state transformers that return a value or an exception, the two proof rules sets over
  them (\<open>keeps\<close> for invariants, \<open>ensures\<close> for pre- and postconditions), and dictionaries
  with insertion order.
\<close>

named_theorems keeps_intros \<open>invariant rules for programs\<close>
named_theorems ensures_intros \<open>pre/postcondition rules for programs\<close>

subsection \<open>Exceptions\<close>

text \<open>
  One constructor per exception class the modelled code raises or catches. Messages are
  kept only where the code reads them back (\<open>str(error)\<close> of a missing prerequisite).
  \<open>OtherError\<close> is any further \<open>Exception\<close>; \<open>Killed\<close> is the end of the process
  (a \<open>BaseException\<close>), which no \<open>except Exception\<close> clause catches.
\<close>

datatype exc =
    TypeError
  | ValueError
  | ValidationError
  | AssertionError
  | ContractValidationError
  | WorkflowTransitionError
  | CapabilityDeniedError
  | AwsBoundaryViolationError
  | IllegalStateTransitionError
  | DurablePrerequisiteError string
  | StorageDependencyError
  | StorageConflictError
  | RemediationDisabledError
  | RemediationEmergencyDisabledError
  | RemediationScopeError
  | RemediationDependencyError
  | RemediationExecutionError
  | RemediationAmbiguousError
  | CircuitOpenError
  | CircuitStateUnavailableError
  | ReadRetryStateUnavailableError
  | CloudResourceNotFoundError
  | CloudAdapterUnavailableError
  | LocalMockPolicyError
  | LocalMockConflictError
  | ModelProviderError
  | ModelProviderTimeoutError
  | ModelProviderRetryableError
  | ModelProviderNonRetryableError
  | OtherError
  | Killed

text \<open>
  \<open>except Exception\<close> and \<open>except ValueError\<close>: \<open>NonZeroContractError\<close> and pydantic's
  \<open>ValidationError\<close> derive from \<open>ValueError\<close>.
\<close>

definition is_exception :: "exc \<Rightarrow> bool" where
  "is_exception e \<longleftrightarrow> e \<noteq> Killed"

fun is_value_error :: "exc \<Rightarrow> bool" where
  "is_value_error ValueError = True"
| "is_value_error ValidationError = True"
| "is_value_error WorkflowTransitionError = True"
| "is_value_error CapabilityDeniedError = True"
| "is_value_error (DurablePrerequisiteError _) = True"
| "is_value_error StorageDependencyError = True"
| "is_value_error StorageConflictError = True"
| "is_value_error _ = False"

subsection \<open>Programs\<close>

text \<open>
  A program runs on a state and ends with a value or an exception; the state it leaves is
  kept in both cases, as Python keeps the effects made before a \<open>raise\<close>.
\<close>

type_synonym ('s, 'a) prog = "'s \<Rightarrow> (exc + 'a) \<times> 's"

definition ret :: "'a \<Rightarrow> ('s, 'a) prog" where
  "ret x = (\<lambda>s. (Inr x, s))"

definition raise :: "exc \<Rightarrow> ('s, 'a) prog" where
  "raise e = (\<lambda>s. (Inl e, s))"

definition andThen :: "('s, 'a) prog \<Rightarrow> ('a \<Rightarrow> ('s, 'b) prog) \<Rightarrow> ('s, 'b) prog" where
  "andThen m k = (\<lambda>s. case m s of (Inr x, s') \<Rightarrow> k x s' | (Inl e, s') \<Rightarrow> (Inl e, s'))"

text \<open>
  \<open>tryThen m h k\<close> is \<open>try: x = m\<close> / \<open>except e: return h(e)\<close> / \<open>else: return k(x)\<close>;
  an exception for which \<open>h\<close> has no clause propagates.
\<close>

definition tryThen ::
    "('s, 'a) prog \<Rightarrow> (exc \<Rightarrow> ('s, 'b) prog option) \<Rightarrow> ('a \<Rightarrow> ('s, 'b) prog) \<Rightarrow> ('s, 'b) prog" where
  "tryThen m h k = (\<lambda>s. case m s of
       (Inr x, s') \<Rightarrow> k x s'
     | (Inl e, s') \<Rightarrow> (case h e of None \<Rightarrow> (Inl e, s') | Some g \<Rightarrow> g s'))"

text \<open>A pure fallible computation as a program.\<close>

definition lift :: "exc + 'a \<Rightarrow> ('s, 'a) prog" where
  "lift r = (\<lambda>s. (r, s))"

lemmas prog_defs = ret_def raise_def andThen_def tryThen_def lift_def

subsection \<open>Invariants of programs\<close>

definition keeps :: "('s \<Rightarrow> bool) \<Rightarrow> ('s, 'a) prog \<Rightarrow> bool" where
  "keeps I m \<longleftrightarrow> (\<forall>s. I s \<longrightarrow> I (snd (m s)))"

lemma keepsD: "keeps I m \<Longrightarrow> I s \<Longrightarrow> I (snd (m s))"
  by (simp add: keeps_def)

lemma keeps_ret [keeps_intros]: "keeps I (ret x)"
  by (simp add: keeps_def ret_def)

lemma keeps_raise [keeps_intros]: "keeps I (raise e)"
  by (simp add: keeps_def raise_def)

lemma keeps_lift [keeps_intros]: "keeps I (lift r)"
  by (simp add: keeps_def lift_def)

lemma keeps_andThen [keeps_intros]:
  "keeps I m \<Longrightarrow> (\<And>x. keeps I (k x)) \<Longrightarrow> keeps I (andThen m k)"
  unfolding keeps_def andThen_def
  by (fastforce split: prod.splits sum.splits)

lemma keeps_tryThen [keeps_intros]:
  assumes "keeps I m" and "\<And>e g. h e = Some g \<Longrightarrow> keeps I g" and "\<And>x. keeps I (k x)"
  shows "keeps I (tryThen m h k)"
  unfolding keeps_def
proof (intro allI impI)
  fix s assume s: "I s"
  obtain r s' where m: "m s = (r, s')" by fastforce
  from keepsD [OF assms(1) s] m have s': "I s'" by simp
  show "I (snd (tryThen m h k s))"
  proof (cases r)
    case (Inl e)
    with m s' assms(2) show ?thesis
      by (auto simp: tryThen_def keeps_def split: option.splits)
  next
    case (Inr x)
    with m s' assms(3) show ?thesis by (simp add: tryThen_def keeps_def)
  qed
qed

lemma keeps_if [keeps_intros]:
  "(b \<Longrightarrow> keeps I m) \<Longrightarrow> (\<not> b \<Longrightarrow> keeps I m') \<Longrightarrow> keeps I (if b then m else m')"
  by simp

lemma keeps_case_option [keeps_intros]:
  "(x = None \<Longrightarrow> keeps I m) \<Longrightarrow> (\<And>y. x = Some y \<Longrightarrow> keeps I (k y)) \<Longrightarrow>
   keeps I (case x of None \<Rightarrow> m | Some y \<Rightarrow> k y)"
  by (simp split: option.splits)

lemma keeps_case_sum [keeps_intros]:
  "(\<And>y. x = Inl y \<Longrightarrow> keeps I (f y)) \<Longrightarrow> (\<And>y. x = Inr y \<Longrightarrow> keeps I (g y)) \<Longrightarrow>
   keeps I (case x of Inl y \<Rightarrow> f y | Inr y \<Rightarrow> g y)"
  by (simp split: sum.splits)

lemma keeps_case_prod [keeps_intros]:
  "(\<And>a b. x = (a, b) \<Longrightarrow> keeps I (f a b)) \<Longrightarrow> keeps I (case x of (a, b) \<Rightarrow> f a b)"
  by (simp split: prod.splits)

lemma keeps_let [keeps_intros]:
  "(\<And>y. y = x \<Longrightarrow> keeps I (k y)) \<Longrightarrow> keeps I (let y = x in k y)"
  by simp

subsection \<open>Pre- and postconditions\<close>

definition ensures ::
    "('s \<Rightarrow> bool) \<Rightarrow> ('s, 'a) prog \<Rightarrow> ('a \<Rightarrow> 's \<Rightarrow> bool) \<Rightarrow> (exc \<Rightarrow> 's \<Rightarrow> bool) \<Rightarrow> bool" where
  "ensures P m Q E \<longleftrightarrow>
     (\<forall>s. P s \<longrightarrow> (case m s of (Inr x, s') \<Rightarrow> Q x s' | (Inl e, s') \<Rightarrow> E e s'))"

lemma ensures_valueD: "ensures P m Q E \<Longrightarrow> P s \<Longrightarrow> m s = (Inr x, s') \<Longrightarrow> Q x s'"
  by (fastforce simp: ensures_def)

lemma ensures_errorD: "ensures P m Q E \<Longrightarrow> P s \<Longrightarrow> m s = (Inl e, s') \<Longrightarrow> E e s'"
  by (fastforce simp: ensures_def)

lemma ensures_conseq:
  assumes "ensures P' m Q' E'" and "\<And>s. P s \<Longrightarrow> P' s"
    and "\<And>x s. Q' x s \<Longrightarrow> Q x s" and "\<And>e s. E' e s \<Longrightarrow> E e s"
  shows "ensures P m Q E"
  using assms unfolding ensures_def by (fastforce split: prod.splits sum.splits)

lemma ensures_ret [ensures_intros]: "(\<And>s. P s \<Longrightarrow> Q x s) \<Longrightarrow> ensures P (ret x) Q E"
  by (simp add: ensures_def ret_def)

lemma ensures_raise [ensures_intros]: "(\<And>s. P s \<Longrightarrow> E e s) \<Longrightarrow> ensures P (raise e) Q E"
  by (simp add: ensures_def raise_def)

lemma ensures_andThen:
  assumes "ensures P m M E" and "\<And>x. ensures (M x) (k x) Q E"
  shows "ensures P (andThen m k) Q E"
  using assms unfolding ensures_def andThen_def
  by (fastforce split: prod.splits sum.splits)

lemma ensures_tryThen:
  assumes "ensures P m M F" and "\<And>x. ensures (M x) (k x) Q E"
    and "\<And>e g. h e = Some g \<Longrightarrow> ensures (F e) g Q E"
    and "\<And>e s. h e = None \<Longrightarrow> F e s \<Longrightarrow> E e s"
  shows "ensures P (tryThen m h k) Q E"
  unfolding ensures_def
proof (intro allI impI)
  fix s assume s: "P s"
  obtain r s' where m: "m s = (r, s')" by fastforce
  show "case tryThen m h k s of (Inr x, s') \<Rightarrow> Q x s' | (Inl e, s') \<Rightarrow> E e s'"
  proof (cases r)
    case (Inl e)
    with ensures_errorD [OF assms(1) s] m have "F e s'" by simp
    with Inl m assms(3,4) show ?thesis
      by (fastforce simp: tryThen_def ensures_def split: option.splits)
  next
    case (Inr x)
    with ensures_valueD [OF assms(1) s] m have "M x s'" by simp
    with Inr m assms(2) show ?thesis by (simp add: tryThen_def ensures_def)
  qed
qed

lemma ensures_if:
  "(b \<Longrightarrow> ensures P m Q E) \<Longrightarrow> (\<not> b \<Longrightarrow> ensures P m' Q E) \<Longrightarrow>
   ensures P (if b then m else m') Q E"
  by simp

lemma ensures_case_option:
  "(x = None \<Longrightarrow> ensures P m Q E) \<Longrightarrow> (\<And>y. x = Some y \<Longrightarrow> ensures P (k y) Q E) \<Longrightarrow>
   ensures P (case x of None \<Rightarrow> m | Some y \<Rightarrow> k y) Q E"
  by (simp split: option.splits)

lemma ensures_case_sum:
  "(\<And>y. x = Inl y \<Longrightarrow> ensures P (f y) Q E) \<Longrightarrow> (\<And>y. x = Inr y \<Longrightarrow> ensures P (g y) Q E) \<Longrightarrow>
   ensures P (case x of Inl y \<Rightarrow> f y | Inr y \<Rightarrow> g y) Q E"
  by (simp split: sum.splits)

lemma ensures_frame_pure:
  "(\<And>s. P s \<Longrightarrow> b) \<Longrightarrow> (b \<Longrightarrow> ensures P m Q E) \<Longrightarrow> ensures P m Q E"
  by (auto simp: ensures_def)

subsection \<open>Dictionaries\<close>

text \<open>
  A Python dictionary is an association list in insertion order: \<open>d[k] = v\<close> replaces in
  place or appends, \<open>d.get(k)\<close> is \<open>map_of\<close>, \<open>len(d)\<close> is the length.
\<close>

type_synonym ('k, 'v) dict = "('k \<times> 'v) list"

abbreviation dget :: "('k, 'v) dict \<Rightarrow> 'k \<Rightarrow> 'v option" where
  "dget \<equiv> map_of"

abbreviation dput :: "'k \<Rightarrow> 'v \<Rightarrow> ('k, 'v) dict \<Rightarrow> ('k, 'v) dict" where
  "dput \<equiv> AList.update"

definition dict_ok :: "('k, 'v) dict \<Rightarrow> bool" where
  "dict_ok d \<longleftrightarrow> distinct (map fst d)"

lemma dget_dput [simp]: "dget (dput k v d) x = (if x = k then Some v else dget d x)"
  by (simp add: update_conv')

lemma dict_ok_Nil [simp]: "dict_ok []"
  by (simp add: dict_ok_def)

lemma dict_ok_dput [simp]: "dict_ok d \<Longrightarrow> dict_ok (dput k v d)"
  by (simp add: dict_ok_def distinct_update)

lemma length_dput: "length (dput k v d) = (if dget d k = None then Suc (length d) else length d)"
  by (induction d) auto

lemma dict_set_dget: "dict_ok d \<Longrightarrow> (k, v) \<in> set d \<longleftrightarrow> dget d k = Some v"
  by (simp add: dict_ok_def)

text \<open>\<open>d.update(e)\<close> and \<open>{**d, ...}\<close>.\<close>

definition dmerge :: "('k, 'v) dict \<Rightarrow> ('k, 'v) dict \<Rightarrow> ('k, 'v) dict" where
  "dmerge d e = fold (\<lambda>(k, v). dput k v) e d"

lemma dict_ok_dmerge [simp]: "dict_ok d \<Longrightarrow> dict_ok (dmerge d e)"
  unfolding dmerge_def by (induction e arbitrary: d) auto

text \<open>The same entries in some order, as after a reload from a sorted snapshot.\<close>

definition same_table :: "('k, 'v) dict \<Rightarrow> ('k, 'v) dict \<Rightarrow> bool" where
  "same_table t t' \<longleftrightarrow> dict_ok t \<and> mset t' = mset t"

lemma same_table_dict_ok: "same_table t t' \<Longrightarrow> dict_ok t'"
  unfolding same_table_def dict_ok_def
  by (metis mset_eq_imp_distinct_iff mset_map)

lemma same_table_dget:
  assumes "same_table t t'" shows "dget t' = dget t"
proof -
  have "set t = set t'" using assms by (metis same_table_def set_mset_mset)
  moreover have "distinct (map fst t)" "distinct (map fst t')"
    using assms same_table_dict_ok [OF assms] by (simp_all add: same_table_def dict_ok_def)
  ultimately show ?thesis by (metis map_of_inject_set)
qed

lemma same_table_length: "same_table t t' \<Longrightarrow> length t' = length t"
  unfolding same_table_def by (metis size_mset)

lemma same_table_count:
  "same_table t t' \<Longrightarrow> length (filter P (map fst t')) = length (filter P (map fst t))"
  unfolding same_table_def by (metis mset_filter mset_map size_mset)

lemma same_table_refl: "dict_ok t \<Longrightarrow> same_table t t"
  by (simp add: same_table_def)

end
