(* ===== verification/Canonical_Json.thy ===== *)
theory Canonical_Json
  imports Prelude "HOL-Library.List_Lexorder" "HOL-Library.Char_ord"
begin

text \<open>
  The JSON values the program exchanges and hashes, and the canonical rendering every digest
  is taken over: \<open>json.dumps(payload, allow_nan=False, ensure_ascii=True,
  separators=(",", ":"), sort_keys=True)\<close>. Numbers are integers (no float enters a modelled
  payload) and characters are the code points below 256.
\<close>

datatype json =
    JNull
  | JBool bool
  | JInt int
  | JStr string
  | JArr "json list"
  | JObj "(string \<times> json) list"

subsection \<open>Dynamic reads\<close>

text \<open>\<open>x.get(k)\<close> of a mapping; \<open>None\<close> and a missing key are both \<open>JNull\<close> to the reader.\<close>

definition jget :: "(string \<times> json) list \<Rightarrow> string \<Rightarrow> json" where
  "jget d k = (case dget d k of None \<Rightarrow> JNull | Some v \<Rightarrow> v)"

subsection \<open>Canonical rendering\<close>

definition hex_digit :: "nat \<Rightarrow> char" where
  "hex_digit n = (if n < 10 then char_of (48 + n) else char_of (87 + n))"

text \<open>
  The escapes of \<open>ensure_ascii\<close>: quote, backslash, the named controls, and \<open>\\u00xx\<close> for
  every other code point outside \<open>' '..'~'\<close>.
\<close>

definition escape_char :: "char \<Rightarrow> string" where
  "escape_char c =
     (let n = of_char c :: nat; b = char_of (92 :: nat) in
      if n = 34 then [b, char_of (34 :: nat)]
      else if n = 92 then [b, b]
      else if n = 10 then [b, CHR ''n'']
      else if n = 13 then [b, CHR ''r'']
      else if n = 9 then [b, CHR ''t'']
      else if n = 12 then [b, CHR ''f'']
      else if n = 8 then [b, CHR ''b'']
      else if n < 32 \<or> 126 < n
        then [b, CHR ''u'', CHR ''0'', CHR ''0'', hex_digit (n div 16), hex_digit (n mod 16)]
      else [c])"

definition quote_string :: "string \<Rightarrow> string" where
  "quote_string s = [char_of (34 :: nat)] @ concat (map escape_char s) @ [char_of (34 :: nat)]"

fun digits_nat :: "nat \<Rightarrow> string" where
  "digits_nat n =
     (if n < 10 then [char_of (48 + n)] else digits_nat (n div 10) @ [char_of (48 + n mod 10)])"

declare digits_nat.simps [simp del]

definition digits_int :: "int \<Rightarrow> string" where
  "digits_int i = (if i < 0 then CHR ''-'' # digits_nat (nat (- i)) else digits_nat (nat i))"

fun join_comma :: "string list \<Rightarrow> string" where
  "join_comma [] = []"
| "join_comma [x] = x"
| "join_comma (x # y # zs) = x @ CHR '','' # join_comma (y # zs)"

lemma size_snd_JObj [termination_simp]:
  "(k, v) \<in> set kvs \<Longrightarrow> size v < Suc (size_list (size_prod (\<lambda>_. 0) size) kvs)"
  by (induction kvs) auto

fun dumps :: "json \<Rightarrow> string" where
  "dumps JNull = ''null''"
| "dumps (JBool b) = (if b then ''true'' else ''false'')"
| "dumps (JInt i) = digits_int i"
| "dumps (JStr s) = quote_string s"
| "dumps (JArr xs) = ''['' @ join_comma (map dumps xs) @ '']''"
| "dumps (JObj kvs) =
     ''{'' @ join_comma (map (\<lambda>(k, t). quote_string k @ '':'' @ t)
               (sort_key fst (map (\<lambda>(k, v). (k, dumps v)) kvs))) @ ''}''"

subsection \<open>Platform functions\<close>

text \<open>
  The functions of the platform that the program uses as black boxes: SHA-256 in hexadecimal,
  \<open>datetime.isoformat\<close> of a UTC instant (microseconds since the epoch) with its parser, and
  the text pydantic gives an instant in JSON. A \<open>datetime\<close> is timezone-aware at offset zero,
  aware at another offset, or naive; the integer is its instant in microseconds. They are arguments of every definition that uses
  them; nothing is assumed of them except in a theorem that says so.
\<close>

datatype datetime = Utc int | Offset int | Naive int

record Platform =
  sha256_hex :: "string \<Rightarrow> string"
  isoformat :: "int \<Rightarrow> string"
  fromisoformat :: "string \<Rightarrow> datetime option"
  json_datetime :: "int \<Rightarrow> string"

definition compute_evidence_digest :: "Platform \<Rightarrow> json \<Rightarrow> string" where
  "compute_evidence_digest L payload = sha256_hex L (dumps payload)"

text \<open>
  A platform for closed examples: a fixed digest and decimal instants without a parser.
\<close>

definition example_platform :: Platform where
  "example_platform =
     \<lparr>sha256_hex = (\<lambda>_. replicate 64 (CHR ''a'')), isoformat = digits_int,
      fromisoformat = (\<lambda>_. None), json_datetime = digits_int\<rparr>"

end
