(* ===== verification/Identifiers.thy ===== *)
theory Identifiers
  imports Canonical_Json
begin

text \<open>
  The constrained text and identifier types of \<open>nz/identifiers.py\<close> and
  \<open>domain/identifiers.py\<close> as executable predicates, and the UTC check of timestamps. An
  identifier is its canonical text, so \<open>str(uuid)\<close> is the identifier itself.
\<close>

type_synonym uuid = string

subsection \<open>Character classes\<close>

definition code :: "char \<Rightarrow> nat" where
  "code c = of_char c"

definition is_digit :: "char \<Rightarrow> bool" where
  "is_digit c \<longleftrightarrow> 48 \<le> code c \<and> code c \<le> 57"

definition is_lower :: "char \<Rightarrow> bool" where
  "is_lower c \<longleftrightarrow> 97 \<le> code c \<and> code c \<le> 122"

definition is_upper :: "char \<Rightarrow> bool" where
  "is_upper c \<longleftrightarrow> 65 \<le> code c \<and> code c \<le> 90"

definition is_lower_hex :: "char \<Rightarrow> bool" where
  "is_lower_hex c \<longleftrightarrow> is_digit c \<or> (97 \<le> code c \<and> code c \<le> 102)"

definition is_alnum :: "char \<Rightarrow> bool" where
  "is_alnum c \<longleftrightarrow> is_digit c \<or> is_lower c \<or> is_upper c"

text \<open>The whitespace \<open>str.strip()\<close> removes, among code points below 256.\<close>

definition is_space :: "char \<Rightarrow> bool" where
  "is_space c \<longleftrightarrow> (9 \<le> code c \<and> code c \<le> 13) \<or> (28 \<le> code c \<and> code c \<le> 32)
     \<or> code c = 133 \<or> code c = 160"

definition strip :: "string \<Rightarrow> string" where
  "strip s = rev (dropWhile is_space (rev (dropWhile is_space s)))"

subsection \<open>Identifier shapes\<close>

text \<open>A canonical UUID text of version 7 and the RFC 4122 variant.\<close>

definition uuid7 :: "uuid \<Rightarrow> bool" where
  "uuid7 s \<longleftrightarrow> length s = 36
     \<and> (\<forall>i \<in> set [8, 13, 18, 23]. s ! i = CHR ''-'')
     \<and> list_all is_lower_hex (filter (\<lambda>c. c \<noteq> CHR ''-'') s)
     \<and> length (filter (\<lambda>c. c \<noteq> CHR ''-'') s) = 32
     \<and> s ! 14 = CHR ''7''
     \<and> s ! 19 \<in> set ''89ab''"

definition validate_correlation_id :: "uuid \<Rightarrow> exc + uuid" where
  "validate_correlation_id s = (if uuid7 s then Inr s else Inl ContractValidationError)"

definition non_empty_text :: "string \<Rightarrow> bool" where
  "non_empty_text s \<longleftrightarrow> 1 \<le> length s \<and> length s \<le> 512 \<and> strip s = s"

definition identifier_tail_char :: "char \<Rightarrow> bool" where
  "identifier_tail_char c \<longleftrightarrow> is_alnum c \<or> c \<in> set ''._:#/-''"

fun identifier_text :: "string \<Rightarrow> bool" where
  "identifier_text [] = False"
| "identifier_text (c # cs) = (is_alnum c \<and> list_all identifier_tail_char cs)"

definition short_identifier :: "string \<Rightarrow> bool" where
  "short_identifier s \<longleftrightarrow> length s \<le> 256 \<and> identifier_text s"

definition idempotency_key_text :: "string \<Rightarrow> bool" where
  "idempotency_key_text s \<longleftrightarrow> 16 \<le> length s \<and> length s \<le> 256 \<and> identifier_text s"

definition sha256_digest :: "string \<Rightarrow> bool" where
  "sha256_digest s \<longleftrightarrow> length s = 64 \<and> list_all is_lower_hex s"

text \<open>\<open>prefix + [0-9a-f]{8}([0-9a-f]{9})?\<close>, the shape of AWS resource identifiers.\<close>

definition aws_resource_id :: "string \<Rightarrow> string \<Rightarrow> bool" where
  "aws_resource_id pre s \<longleftrightarrow> take (length pre) s = pre
     \<and> list_all is_lower_hex (drop (length pre) s)
     \<and> (length s = length pre + 8 \<or> length s = length pre + 17)"

definition ec2_instance_id :: "string \<Rightarrow> bool" where
  "ec2_instance_id s \<longleftrightarrow> aws_resource_id ''i-'' s"

subsection \<open>Timestamps\<close>

text \<open>A contract keeps only UTC datetimes, so stored timestamps are instants.\<close>

definition require_utc :: "datetime \<Rightarrow> exc + int" where
  "require_utc d = (case d of Utc t \<Rightarrow> Inr t | _ \<Rightarrow> Inl ValueError)"

text \<open>The same check as a field validator: pydantic reports it as a validation error.\<close>

definition utc_field :: "datetime \<Rightarrow> exc + int" where
  "utc_field d = (case d of Utc t \<Rightarrow> Inr t | _ \<Rightarrow> Inl ValidationError)"

text \<open>\<open>d < t\<close> for a stored UTC instant \<open>t\<close>: comparing naive with aware raises.\<close>

definition before_instant :: "datetime \<Rightarrow> int \<Rightarrow> exc + bool" where
  "before_instant d t = (case d of Utc x \<Rightarrow> Inr (x < t) | Offset x \<Rightarrow> Inr (x < t)
     | Naive _ \<Rightarrow> Inl TypeError)"

lemma require_utc_Inr [simp]: "require_utc d = Inr t \<longleftrightarrow> d = Utc t"
  by (auto simp: require_utc_def split: datetime.splits)

lemma utc_field_Inr [simp]: "utc_field d = Inr t \<longleftrightarrow> d = Utc t"
  by (auto simp: utc_field_def split: datetime.splits)

lemma utc_field_Utc [simp]: "utc_field (Utc t) = Inr t"
  by simp

lemma uuid7_nonempty: "uuid7 s \<Longrightarrow> s \<noteq> []"
  by (auto simp: uuid7_def)

text \<open>A shape that admits another: every idempotency key is a short identifier.\<close>

lemma idempotency_key_short: "idempotency_key_text s \<Longrightarrow> short_identifier s"
  by (simp add: idempotency_key_text_def short_identifier_def)

lemma short_identifier_not_space:
  "short_identifier s \<Longrightarrow> \<exists>c cs. s = c # cs \<and> is_alnum c"
  by (cases s) (auto simp: short_identifier_def)

end
