(* ===== verification/Uuid_Text.thy ===== *)
theory Uuid_Text
  imports Identifiers
begin

text \<open>
  \<open>validate_correlation_id\<close> of \<open>domain/identifiers.py\<close> on the values a tool call carries: the
  text forms Python's \<open>UUID\<close> accepts (braces, \<open>urn:uuid:\<close>, missing dashes, the spellings of
  \<open>int(s, 16)\<close>) and the canonical text of the result. Canonical text is read back unchanged.
\<close>

subsection \<open>The text forms of a UUID\<close>

text \<open>\<open>s.replace(p, '')\<close> for a non-empty \<open>p\<close>.\<close>

function remove_all :: "string \<Rightarrow> string \<Rightarrow> string" where
  "remove_all p s =
     (if s = [] \<or> p = [] then s
      else if take (length p) s = p then remove_all p (drop (length p) s)
      else hd s # remove_all p (tl s))"
  by pat_completeness auto

termination
  by (relation "measure (\<lambda>(p, s). length s)") auto

declare remove_all.simps [simp del]

text \<open>\<open>s.strip('{}')\<close>.\<close>

definition strip_braces :: "string \<Rightarrow> string" where
  "strip_braces s = (let brace = (\<lambda>c. c = CHR ''{'' \<or> c = CHR ''}'') in
     rev (dropWhile brace (rev (dropWhile brace s))))"

definition hex_value :: "char \<Rightarrow> nat option" where
  "hex_value c = (if is_digit c then Some (code c - 48)
     else if 97 \<le> code c \<and> code c \<le> 102 then Some (code c - 87)
     else if 65 \<le> code c \<and> code c \<le> 70 then Some (code c - 55) else None)"

text \<open>\<open>int(s, 16)\<close>: blanks around, a sign, the prefix \<open>0x\<close>, and single underscores between digits.\<close>

fun read_hex :: "bool \<Rightarrow> nat \<Rightarrow> string \<Rightarrow> nat option" where
  "read_hex after_digit acc [] = (if after_digit then Some acc else None)"
| "read_hex after_digit acc (c # cs) =
     (if c = CHR ''_'' then (if after_digit then read_hex False acc cs else None)
      else (case hex_value c of None \<Rightarrow> None | Some d \<Rightarrow> read_hex True (acc * 16 + d) cs))"

definition int_space :: "char \<Rightarrow> bool" where
  "int_space c \<longleftrightarrow> (9 \<le> code c \<and> code c \<le> 13) \<or> code c \<in> set [32, 133, 160]"

definition drop_sign :: "string \<Rightarrow> string" where
  "drop_sign s = (case s of [] \<Rightarrow> [] | c # cs \<Rightarrow> if c = CHR ''+'' then cs else s)"

definition drop_prefix :: "string \<Rightarrow> string" where
  "drop_prefix s =
     (if length s \<ge> 2 \<and> s ! 0 = CHR ''0'' \<and> (s ! 1 = CHR ''x'' \<or> s ! 1 = CHR ''X'')
      then (if 2 < length s \<and> s ! 2 = CHR ''_'' then drop 3 s else drop 2 s) else s)"

text \<open>No minus sign reaches the conversion, so the value is a natural number.\<close>

definition int16 :: "string \<Rightarrow> nat option" where
  "int16 s = read_hex False 0 (drop_prefix (drop_sign
     (rev (dropWhile int_space (rev (dropWhile int_space s))))))"

fun hex_digits :: "nat \<Rightarrow> nat \<Rightarrow> string" where
  "hex_digits 0 v = []"
| "hex_digits (Suc n) v = hex_digits n (v div 16) @ [hex_digit (v mod 16)]"

text \<open>\<open>str(UUID(int=v))\<close>.\<close>

definition uuid_text :: "nat \<Rightarrow> uuid" where
  "uuid_text v = (let h = hex_digits 32 v in
     take 8 h @ CHR ''-'' # take 4 (drop 8 h) @ CHR ''-'' # take 4 (drop 12 h)
     @ CHR ''-'' # take 4 (drop 16 h) @ CHR ''-'' # drop 20 h)"

text \<open>\<open>UUID(s)\<close>: the canonical text of the parsed value, \<open>None\<close> for a \<open>ValueError\<close>.\<close>

definition parse_uuid :: "string \<Rightarrow> uuid option" where
  "parse_uuid s =
     (let h = filter (\<lambda>c. c \<noteq> CHR ''-'') (strip_braces (remove_all ''uuid:'' (remove_all ''urn:'' s)))
      in if length h \<noteq> 32 then None
         else (case int16 h of None \<Rightarrow> None | Some v \<Rightarrow> Some (uuid_text v)))"

text \<open>\<open>validate_correlation_id\<close> on a value that is not a \<open>UUID\<close> object already.\<close>

fun correlation_id_of :: "json \<Rightarrow> exc + uuid" where
  "correlation_id_of (JStr s) = (case parse_uuid s of
     None \<Rightarrow> Inl ContractValidationError
   | Some u \<Rightarrow> validate_correlation_id u)"
| "correlation_id_of _ = Inl ContractValidationError"

lemma correlation_id_uuid7: "correlation_id_of v = Inr u \<Longrightarrow> uuid7 u"
  by (cases v) (auto simp: validate_correlation_id_def split: option.splits if_splits)

subsection \<open>Canonical text is its own value\<close>

lemma remove_all_absent: "p \<noteq> [] \<Longrightarrow> hd p \<notin> set s \<Longrightarrow> remove_all p s = s"
proof (induction s)
  case Nil
  then show ?case by (simp add: remove_all.simps)
next
  case (Cons c cs)
  then have "take (length p) (c # cs) \<noteq> p" by (cases p) auto
  with Cons show ?case by (simp add: remove_all.simps [of p "c # cs"])
qed

lemma dropWhile_none: "list_all (\<lambda>c. \<not> P c) s \<Longrightarrow> dropWhile P s = s"
  by (cases s) auto

lemma strip_none: "list_all (\<lambda>c. \<not> P c) s \<Longrightarrow> rev (dropWhile P (rev (dropWhile P s))) = s"
  by (simp add: dropWhile_none list_all_iff)

lemma lower_hex_code: "is_lower_hex c \<Longrightarrow> (48 \<le> code c \<and> code c \<le> 57) \<or> (97 \<le> code c \<and> code c \<le> 102)"
  by (auto simp: is_lower_hex_def is_digit_def)

lemma hex_value_lower: "is_lower_hex c \<Longrightarrow> \<exists>d < 16. hex_value c = Some d \<and> hex_digit d = c"
  by (intro exI [of _ "if is_digit c then code c - 48 else code c - 87"])
    (auto simp: is_lower_hex_def is_digit_def hex_value_def hex_digit_def code_def)

lemma lower_hex_not: "is_lower_hex c \<Longrightarrow> code c \<noteq> code x \<Longrightarrow> c \<noteq> x"
  by auto

fun hex_number :: "nat \<Rightarrow> string \<Rightarrow> nat" where
  "hex_number acc [] = acc"
| "hex_number acc (c # cs) = hex_number (acc * 16 + the (hex_value c)) cs"

lemma read_hex_lower: "list_all is_lower_hex s \<Longrightarrow> b \<or> s \<noteq> [] \<Longrightarrow> read_hex b acc s = Some (hex_number acc s)"
proof (induction s arbitrary: b acc)
  case Nil
  then show ?case by simp
next
  case (Cons c cs)
  then have c: "is_lower_hex c" by simp
  with hex_value_lower obtain d where "hex_value c = Some d" by blast
  moreover have "c \<noteq> CHR ''_''" using lower_hex_code [OF c] by (auto simp: code_def)
  ultimately show ?case using Cons by simp
qed

lemma hex_number_append: "hex_number acc (s @ [c]) = hex_number acc s * 16 + the (hex_value c)"
  by (induction s arbitrary: acc) auto

lemma hex_digits_number: "list_all is_lower_hex s \<Longrightarrow> hex_digits (length s) (hex_number 0 s) = s"
proof (induction s rule: rev_induct)
  case Nil
  then show ?case by simp
next
  case (snoc c cs)
  then have "is_lower_hex c" by simp
  with hex_value_lower obtain d where "hex_value c = Some d" "hex_digit d = c" "d < 16" by blast
  with snoc show ?case by (simp add: hex_number_append)
qed

text \<open>A canonical text is five dash-free groups.\<close>

lemma uuid7_groups:
  assumes "uuid7 s"
  defines "h \<equiv> filter (\<lambda>c. c \<noteq> CHR ''-'') s"
  shows "s = take 8 h @ CHR ''-'' # take 4 (drop 8 h) @ CHR ''-'' # take 4 (drop 12 h)
     @ CHR ''-'' # take 4 (drop 16 h) @ CHR ''-'' # drop 20 h"
proof -
  let ?P = "\<lambda>c. c \<noteq> CHR ''-''"
  from assms have len: "length s = 36" "length h = 32"
    and dash: "s ! 8 = CHR ''-''" "s ! 13 = CHR ''-''" "s ! 18 = CHR ''-''" "s ! 23 = CHR ''-''"
    by (auto simp: uuid7_def)
  define a b c d e where parts: "a = take 8 s" "b = take 4 (drop 9 s)" "c = take 4 (drop 14 s)"
    "d = take 4 (drop 19 s)" "e = drop 24 s"
  have split: "drop n s = take k (drop n s) @ CHR ''-'' # drop (Suc (n + k)) s"
    if "s ! (n + k) = CHR ''-''" "n + k < 36" for n k
    using that len(1) by (metis Cons_nth_drop_Suc append_take_drop_id drop_drop add.commute)
  have s: "s = a @ CHR ''-'' # b @ CHR ''-'' # c @ CHR ''-'' # d @ CHR ''-'' # e"
    using split [of 0 8] split [of 9 4] split [of 14 4] split [of 19 4] dash
    by (simp add: parts numeral_eq_Suc)
  have l: "length a = 8" "length b = 4" "length c = 4" "length d = 4" "length e = 12"
    using len(1) by (simp_all add: parts)
  have h: "h = filter ?P a @ filter ?P b @ filter ?P c @ filter ?P d @ filter ?P e"
    unfolding h_def by (subst s) simp
  have le: "length (filter ?P x) \<le> length x" for x by (rule length_filter_le)
  have "length (filter ?P a) = length a \<and> length (filter ?P b) = length b
    \<and> length (filter ?P c) = length c \<and> length (filter ?P d) = length d
    \<and> length (filter ?P e) = length e"
    using len(2) l le [of a] le [of b] le [of c] le [of d] le [of e] unfolding h by simp
  then have full: "filter ?P a = a" "filter ?P b = b" "filter ?P c = c" "filter ?P d = d" "filter ?P e = e"
    by (metis filter_id_conv filter_True length_filter_less less_irrefl)+
  have "h = a @ b @ c @ d @ e" using h full by simp
  with s l show ?thesis by simp
qed

lemma int16_lower: "list_all is_lower_hex h \<Longrightarrow> h \<noteq> [] \<Longrightarrow> int16 h = Some (hex_number 0 h)"
proof -
  assume h: "list_all is_lower_hex h" "h \<noteq> []"
  have sp: "list_all (\<lambda>c. \<not> int_space c) h"
    using h(1) by (auto simp: list_all_iff int_space_def dest!: lower_hex_code)
  have "hd h \<noteq> CHR ''+''"
    using h by (cases h) (auto simp: code_def dest!: lower_hex_code)
  then have sign: "drop_sign h = h" by (cases h) (auto simp: drop_sign_def)
  have "drop_prefix h = h"
  proof -
    have "h ! 1 \<noteq> CHR ''x'' \<and> h ! 1 \<noteq> CHR ''X''" if "2 \<le> length h"
    proof -
      have "is_lower_hex (h ! 1)" using h(1) that by (simp add: list_all_length)
      then show ?thesis by (auto simp: code_def dest!: lower_hex_code)
    qed
    then show ?thesis by (auto simp: drop_prefix_def)
  qed
  with sign sp h show ?thesis by (simp add: int16_def strip_none read_hex_lower)
qed

lemma correlation_id_canonical:
  assumes "uuid7 s"
  shows "correlation_id_of (JStr s) = Inr s"
proof -
  define h where "h = filter (\<lambda>c. c \<noteq> CHR ''-'') s"
  from assms have h: "list_all is_lower_hex h" "length h = 32" by (auto simp: uuid7_def h_def)
  have chars: "is_lower_hex c \<or> c = CHR ''-''" if "c \<in> set s" for c
    using that h(1) by (auto simp: h_def list_all_iff)
  have u: "CHR ''u'' \<notin> set s" using chars [of "CHR ''u''"] by (auto simp: is_lower_hex_def is_digit_def code_def)
  have br: "list_all (\<lambda>c. \<not> (c = CHR ''{'' \<or> c = CHR ''}'')) s"
    unfolding list_all_iff using chars by (fastforce simp: code_def dest!: lower_hex_code)
  have "h \<noteq> []" using h(2) by auto
  then have "parse_uuid s = Some (uuid_text (hex_number 0 h))"
    using u h int16_lower [OF h(1)]
    by (auto simp: parse_uuid_def remove_all_absent strip_braces_def strip_none [OF br] h_def [symmetric] Let_def)
  moreover have "uuid_text (hex_number 0 h) = s"
    using uuid7_groups [OF assms] hex_digits_number [OF h(1)] h(2)
    by (simp add: uuid_text_def h_def [symmetric] Let_def)
  ultimately show ?thesis using assms by (simp add: validate_correlation_id_def)
qed

end
