(* ===== verification/Nz_Enums.thy ===== *)
theory Nz_Enums
  imports Prelude "HOL-Library.List_Lexorder" "HOL-Library.Char_ord"
begin

text \<open>
  The closed vocabularies of \<open>nz/enums.py\<close> and \<open>domain/enums.py\<close>: one datatype per
  \<open>StrEnum\<close>, constructors as in the source, and its \<open>.value\<close> as a function. The workflow
  states are an instance of \<open>enum\<close> (so that quantifiers over them evaluate) and the cloud
  findings of \<open>linorder\<close> in the order of their values, the canonical order of evidence.
\<close>

subsection \<open>Domain\<close>

text \<open>Explicit lifecycle state for a bounded execution.\<close>

datatype ExecutionState =
    INIT | RUNNING | PENDING | SUCCESS | FAIL

fun ExecutionState_value :: "ExecutionState \<Rightarrow> string" where
  "ExecutionState_value ExecutionState.INIT = ''INIT''"
| "ExecutionState_value ExecutionState.RUNNING = ''RUNNING''"
| "ExecutionState_value ExecutionState.PENDING = ''PENDING''"
| "ExecutionState_value ExecutionState.SUCCESS = ''SUCCESS''"
| "ExecutionState_value ExecutionState.FAIL = ''FAIL''"

text \<open>Maximum authority available to an operation.\<close>

datatype AuthorityGate =
    AUTO | PLAN_AND_CONFIRM | NEVER_AUTONOMOUS

fun AuthorityGate_value :: "AuthorityGate \<Rightarrow> string" where
  "AuthorityGate_value AuthorityGate.AUTO = ''AUTO''"
| "AuthorityGate_value AuthorityGate.PLAN_AND_CONFIRM = ''PLAN_AND_CONFIRM''"
| "AuthorityGate_value AuthorityGate.NEVER_AUTONOMOUS = ''NEVER_AUTONOMOUS''"

subsection \<open>Workflow\<close>

text \<open>Canonical lifecycle for the bounded idle-EC2 remediation workflow.\<close>

datatype WorkflowState =
    RECEIVED | INVESTIGATING | EVIDENCE_READY | REMEDIATION_PROPOSED | AWAITING_APPROVAL
  | APPROVED | EXECUTING | VERIFYING | NO_ACTION_REQUIRED | RECOMMENDATION_ONLY
  | SUCCESS_WITH_EVIDENCE | DENIED_BY_HUMAN | DENIED_BY_POLICY | MODEL_OUTPUT_INVALID
  | AMBIGUOUS_RESULT | DEPENDENCY_UNAVAILABLE | BUDGET_EXHAUSTED | EXECUTION_FAILED
  | VERIFICATION_FAILED | RECOVERY_REQUIRED

fun WorkflowState_value :: "WorkflowState \<Rightarrow> string" where
  "WorkflowState_value WorkflowState.RECEIVED = ''RECEIVED''"
| "WorkflowState_value WorkflowState.INVESTIGATING = ''INVESTIGATING''"
| "WorkflowState_value WorkflowState.EVIDENCE_READY = ''EVIDENCE_READY''"
| "WorkflowState_value WorkflowState.REMEDIATION_PROPOSED = ''REMEDIATION_PROPOSED''"
| "WorkflowState_value WorkflowState.AWAITING_APPROVAL = ''AWAITING_APPROVAL''"
| "WorkflowState_value WorkflowState.APPROVED = ''APPROVED''"
| "WorkflowState_value WorkflowState.EXECUTING = ''EXECUTING''"
| "WorkflowState_value WorkflowState.VERIFYING = ''VERIFYING''"
| "WorkflowState_value WorkflowState.NO_ACTION_REQUIRED = ''NO_ACTION_REQUIRED''"
| "WorkflowState_value WorkflowState.RECOMMENDATION_ONLY = ''RECOMMENDATION_ONLY''"
| "WorkflowState_value WorkflowState.SUCCESS_WITH_EVIDENCE = ''SUCCESS_WITH_EVIDENCE''"
| "WorkflowState_value WorkflowState.DENIED_BY_HUMAN = ''DENIED_BY_HUMAN''"
| "WorkflowState_value WorkflowState.DENIED_BY_POLICY = ''DENIED_BY_POLICY''"
| "WorkflowState_value WorkflowState.MODEL_OUTPUT_INVALID = ''MODEL_OUTPUT_INVALID''"
| "WorkflowState_value WorkflowState.AMBIGUOUS_RESULT = ''AMBIGUOUS_RESULT''"
| "WorkflowState_value WorkflowState.DEPENDENCY_UNAVAILABLE = ''DEPENDENCY_UNAVAILABLE''"
| "WorkflowState_value WorkflowState.BUDGET_EXHAUSTED = ''BUDGET_EXHAUSTED''"
| "WorkflowState_value WorkflowState.EXECUTION_FAILED = ''EXECUTION_FAILED''"
| "WorkflowState_value WorkflowState.VERIFICATION_FAILED = ''VERIFICATION_FAILED''"
| "WorkflowState_value WorkflowState.RECOVERY_REQUIRED = ''RECOVERY_REQUIRED''"

text \<open>Closed policy catalog; entries do not create executable tools.\<close>

datatype Capability =
    INSPECT_INSTANCE | READ_UTILIZATION_METRICS | BUILD_REMEDIATION_EVIDENCE
  | STOP_SANDBOX_INSTANCE | VERIFY_INSTANCE_STATE | QUERY_RESOURCE | PLAN_REMEDIATION
  | RELEASE_ELASTIC_IP | REVOKE_PUBLIC_INGRESS | TERMINATE_INSTANCES | START_INSTANCES
  | REBOOT_INSTANCES | MODIFY_INSTANCE_ATTRIBUTE | CREATE_TAGS | DELETE_TAGS | IAM_MUTATION
  | SSM_COMMAND_EXECUTION | FILESYSTEM_ACCESS | CREDENTIAL_ACCESS | UNSAFE_STOP_OPTIONS
  | STORAGE_DATABASE_DELETION | SECURITY_GROUP_NETWORK_OPENING | SHELL_EXECUTION
  | ARBITRARY_CODE_EXECUTION | ARBITRARY_URL_FETCH | OUTSIDE_SANDBOX_SCOPE

fun Capability_value :: "Capability \<Rightarrow> string" where
  "Capability_value Capability.INSPECT_INSTANCE = ''inspect_instance''"
| "Capability_value Capability.READ_UTILIZATION_METRICS = ''read_utilization_metrics''"
| "Capability_value Capability.BUILD_REMEDIATION_EVIDENCE = ''build_remediation_evidence''"
| "Capability_value Capability.STOP_SANDBOX_INSTANCE = ''stop_sandbox_instance''"
| "Capability_value Capability.VERIFY_INSTANCE_STATE = ''verify_instance_state''"
| "Capability_value Capability.QUERY_RESOURCE = ''query_resource''"
| "Capability_value Capability.PLAN_REMEDIATION = ''plan_remediation''"
| "Capability_value Capability.RELEASE_ELASTIC_IP = ''ReleaseAddress''"
| "Capability_value Capability.REVOKE_PUBLIC_INGRESS = ''RevokeSecurityGroupIngress''"
| "Capability_value Capability.TERMINATE_INSTANCES = ''TerminateInstances''"
| "Capability_value Capability.START_INSTANCES = ''StartInstances''"
| "Capability_value Capability.REBOOT_INSTANCES = ''RebootInstances''"
| "Capability_value Capability.MODIFY_INSTANCE_ATTRIBUTE = ''ModifyInstanceAttribute''"
| "Capability_value Capability.CREATE_TAGS = ''CreateTags''"
| "Capability_value Capability.DELETE_TAGS = ''DeleteTags''"
| "Capability_value Capability.IAM_MUTATION = ''IAM_MUTATION''"
| "Capability_value Capability.SSM_COMMAND_EXECUTION = ''SSM_COMMAND_EXECUTION''"
| "Capability_value Capability.FILESYSTEM_ACCESS = ''FILESYSTEM_ACCESS''"
| "Capability_value Capability.CREDENTIAL_ACCESS = ''CREDENTIAL_ACCESS''"
| "Capability_value Capability.UNSAFE_STOP_OPTIONS = ''UNSAFE_STOP_OPTIONS''"
| "Capability_value Capability.STORAGE_DATABASE_DELETION = ''STORAGE_DATABASE_DELETION''"
| "Capability_value Capability.SECURITY_GROUP_NETWORK_OPENING = ''SECURITY_GROUP_NETWORK_OPENING''"
| "Capability_value Capability.SHELL_EXECUTION = ''SHELL_EXECUTION''"
| "Capability_value Capability.ARBITRARY_CODE_EXECUTION = ''ARBITRARY_CODE_EXECUTION''"
| "Capability_value Capability.ARBITRARY_URL_FETCH = ''ARBITRARY_URL_FETCH''"
| "Capability_value Capability.OUTSIDE_SANDBOX_SCOPE = ''OUTSIDE_SANDBOX_SCOPE''"

text \<open>Persistence state of a proposal, kept separate from approval.\<close>

datatype ProposalState =
    PROPOSED | AWAITING_APPROVAL | SUPERSEDED

fun ProposalState_value :: "ProposalState \<Rightarrow> string" where
  "ProposalState_value ProposalState.PROPOSED = ''PROPOSED''"
| "ProposalState_value ProposalState.AWAITING_APPROVAL = ''AWAITING_APPROVAL''"
| "ProposalState_value ProposalState.SUPERSEDED = ''SUPERSEDED''"

text \<open>Explicit human decision; absence is represented by no approval record.\<close>

datatype ApprovalDecision =
    APPROVED | DENIED

fun ApprovalDecision_value :: "ApprovalDecision \<Rightarrow> string" where
  "ApprovalDecision_value ApprovalDecision.APPROVED = ''APPROVED''"
| "ApprovalDecision_value ApprovalDecision.DENIED = ''DENIED''"

text \<open>Failure categories that must survive control and storage boundaries.\<close>

datatype FailureKind =
    VALIDATION_FAILURE | POLICY_DENIAL | AMBIGUOUS_RESULT | DEPENDENCY_UNAVAILABLE
  | BUDGET_EXHAUSTION | EXECUTION_FAILURE | VERIFICATION_FAILURE | RECOVERY_REQUIREMENT
  | ILLEGAL_STATE_TRANSITION | PROVIDER_FAILURE | TOOL_ADAPTER_FAILURE | STORAGE_FAILURE
  | IDEMPOTENCY_CONFLICT | NOT_FOUND | CONFIGURATION_ERROR

fun FailureKind_value :: "FailureKind \<Rightarrow> string" where
  "FailureKind_value FailureKind.VALIDATION_FAILURE = ''VALIDATION_FAILURE''"
| "FailureKind_value FailureKind.POLICY_DENIAL = ''POLICY_DENIAL''"
| "FailureKind_value FailureKind.AMBIGUOUS_RESULT = ''AMBIGUOUS_RESULT''"
| "FailureKind_value FailureKind.DEPENDENCY_UNAVAILABLE = ''DEPENDENCY_UNAVAILABLE''"
| "FailureKind_value FailureKind.BUDGET_EXHAUSTION = ''BUDGET_EXHAUSTION''"
| "FailureKind_value FailureKind.EXECUTION_FAILURE = ''EXECUTION_FAILURE''"
| "FailureKind_value FailureKind.VERIFICATION_FAILURE = ''VERIFICATION_FAILURE''"
| "FailureKind_value FailureKind.RECOVERY_REQUIREMENT = ''RECOVERY_REQUIREMENT''"
| "FailureKind_value FailureKind.ILLEGAL_STATE_TRANSITION = ''ILLEGAL_STATE_TRANSITION''"
| "FailureKind_value FailureKind.PROVIDER_FAILURE = ''PROVIDER_FAILURE''"
| "FailureKind_value FailureKind.TOOL_ADAPTER_FAILURE = ''TOOL_ADAPTER_FAILURE''"
| "FailureKind_value FailureKind.STORAGE_FAILURE = ''STORAGE_FAILURE''"
| "FailureKind_value FailureKind.IDEMPOTENCY_CONFLICT = ''IDEMPOTENCY_CONFLICT''"
| "FailureKind_value FailureKind.NOT_FOUND = ''NOT_FOUND''"
| "FailureKind_value FailureKind.CONFIGURATION_ERROR = ''CONFIGURATION_ERROR''"

text \<open>Discriminator for explicit success and failure results.\<close>

datatype ResultStatus =
    SUCCESS | FAILURE

fun ResultStatus_value :: "ResultStatus \<Rightarrow> string" where
  "ResultStatus_value ResultStatus.SUCCESS = ''SUCCESS''"
| "ResultStatus_value ResultStatus.FAILURE = ''FAILURE''"

text \<open>Durable outcome of a future consequential action.\<close>

datatype ActionOutcome =
    SUCCEEDED | FAILED | AMBIGUOUS | RECONCILIATION_REQUIRED

fun ActionOutcome_value :: "ActionOutcome \<Rightarrow> string" where
  "ActionOutcome_value ActionOutcome.SUCCEEDED = ''SUCCEEDED''"
| "ActionOutcome_value ActionOutcome.FAILED = ''FAILED''"
| "ActionOutcome_value ActionOutcome.AMBIGUOUS = ''AMBIGUOUS''"
| "ActionOutcome_value ActionOutcome.RECONCILIATION_REQUIRED = ''RECONCILIATION_REQUIRED''"

text \<open>Lifecycle of a semantic idempotency ownership record.\<close>

datatype IdempotencyStatus =
    REGISTERED | COMPLETED | FAILED | RECONCILIATION_REQUIRED

fun IdempotencyStatus_value :: "IdempotencyStatus \<Rightarrow> string" where
  "IdempotencyStatus_value IdempotencyStatus.REGISTERED = ''REGISTERED''"
| "IdempotencyStatus_value IdempotencyStatus.COMPLETED = ''COMPLETED''"
| "IdempotencyStatus_value IdempotencyStatus.FAILED = ''FAILED''"
| "IdempotencyStatus_value IdempotencyStatus.RECONCILIATION_REQUIRED = ''RECONCILIATION_REQUIRED''"

text \<open>Provider acknowledgement is explicitly not verified completion.\<close>

datatype ExecutionAcknowledgementStatus =
    ACCEPTED

fun ExecutionAcknowledgementStatus_value :: "ExecutionAcknowledgementStatus \<Rightarrow> string" where
  "ExecutionAcknowledgementStatus_value ExecutionAcknowledgementStatus.ACCEPTED = ''ACCEPTED''"

text \<open>Explicit result of independent post-action EC2 read-back.\<close>

datatype VerificationDisposition =
    VERIFIED | STILL_TRANSITIONING | MISMATCH

fun VerificationDisposition_value :: "VerificationDisposition \<Rightarrow> string" where
  "VerificationDisposition_value VerificationDisposition.VERIFIED = ''VERIFIED''"
| "VerificationDisposition_value VerificationDisposition.STILL_TRANSITIONING = ''STILL_TRANSITIONING''"
| "VerificationDisposition_value VerificationDisposition.MISMATCH = ''MISMATCH''"

text \<open>How independent stopped-state proof is bound to durable execution truth.\<close>

datatype VerificationProofOrigin =
    EXECUTION_ACKNOWLEDGEMENT | RECOVERY_READ_BACK

fun VerificationProofOrigin_value :: "VerificationProofOrigin \<Rightarrow> string" where
  "VerificationProofOrigin_value VerificationProofOrigin.EXECUTION_ACKNOWLEDGEMENT = ''EXECUTION_ACKNOWLEDGEMENT''"
| "VerificationProofOrigin_value VerificationProofOrigin.RECOVERY_READ_BACK = ''RECOVERY_READ_BACK''"

text \<open>Normalized EC2 states relevant to the bounded workflow.\<close>

datatype ObservedInstanceState =
    PENDING | RUNNING | STOPPING | STOPPED

fun ObservedInstanceState_value :: "ObservedInstanceState \<Rightarrow> string" where
  "ObservedInstanceState_value ObservedInstanceState.PENDING = ''pending''"
| "ObservedInstanceState_value ObservedInstanceState.RUNNING = ''running''"
| "ObservedInstanceState_value ObservedInstanceState.STOPPING = ''stopping''"
| "ObservedInstanceState_value ObservedInstanceState.STOPPED = ''stopped''"

text \<open>Append-oriented audit events for workflow and tool evidence.\<close>

datatype AuditEventType =
    RUN_CREATED | STATE_TRANSITIONED | PROPOSAL_CREATED | APPROVAL_REQUESTED
  | APPROVAL_RECORDED | IDEMPOTENCY_REGISTERED | EXECUTION_REQUESTED
  | EXECUTION_ACKNOWLEDGED | VERIFICATION_STARTED | VERIFICATION_OBSERVED | CHECKPOINT_SAVED
  | TOOL_OBSERVED | MODEL_OBSERVED | VERIFICATION_RECORDED | RECOVERY_CLASSIFIED
  | RECOVERY_OBSERVED | RECOVERY_COMPLETED | RECOVERY_DEFERRED | POLICY_DENIED
  | MODEL_OUTPUT_REJECTED | BUDGET_UPDATED | BUDGET_EXHAUSTED | RESOURCE_QUERIED
  | REMEDIATION_PLANNED | NO_ACTION_RECORDED | RECOMMENDATION_RECORDED

fun AuditEventType_value :: "AuditEventType \<Rightarrow> string" where
  "AuditEventType_value AuditEventType.RUN_CREATED = ''RUN_CREATED''"
| "AuditEventType_value AuditEventType.STATE_TRANSITIONED = ''STATE_TRANSITIONED''"
| "AuditEventType_value AuditEventType.PROPOSAL_CREATED = ''PROPOSAL_CREATED''"
| "AuditEventType_value AuditEventType.APPROVAL_REQUESTED = ''APPROVAL_REQUESTED''"
| "AuditEventType_value AuditEventType.APPROVAL_RECORDED = ''APPROVAL_RECORDED''"
| "AuditEventType_value AuditEventType.IDEMPOTENCY_REGISTERED = ''IDEMPOTENCY_REGISTERED''"
| "AuditEventType_value AuditEventType.EXECUTION_REQUESTED = ''EXECUTION_REQUESTED''"
| "AuditEventType_value AuditEventType.EXECUTION_ACKNOWLEDGED = ''EXECUTION_ACKNOWLEDGED''"
| "AuditEventType_value AuditEventType.VERIFICATION_STARTED = ''VERIFICATION_STARTED''"
| "AuditEventType_value AuditEventType.VERIFICATION_OBSERVED = ''VERIFICATION_OBSERVED''"
| "AuditEventType_value AuditEventType.CHECKPOINT_SAVED = ''CHECKPOINT_SAVED''"
| "AuditEventType_value AuditEventType.TOOL_OBSERVED = ''TOOL_OBSERVED''"
| "AuditEventType_value AuditEventType.MODEL_OBSERVED = ''MODEL_OBSERVED''"
| "AuditEventType_value AuditEventType.VERIFICATION_RECORDED = ''VERIFICATION_RECORDED''"
| "AuditEventType_value AuditEventType.RECOVERY_CLASSIFIED = ''RECOVERY_CLASSIFIED''"
| "AuditEventType_value AuditEventType.RECOVERY_OBSERVED = ''RECOVERY_OBSERVED''"
| "AuditEventType_value AuditEventType.RECOVERY_COMPLETED = ''RECOVERY_COMPLETED''"
| "AuditEventType_value AuditEventType.RECOVERY_DEFERRED = ''RECOVERY_DEFERRED''"
| "AuditEventType_value AuditEventType.POLICY_DENIED = ''POLICY_DENIED''"
| "AuditEventType_value AuditEventType.MODEL_OUTPUT_REJECTED = ''MODEL_OUTPUT_REJECTED''"
| "AuditEventType_value AuditEventType.BUDGET_UPDATED = ''BUDGET_UPDATED''"
| "AuditEventType_value AuditEventType.BUDGET_EXHAUSTED = ''BUDGET_EXHAUSTED''"
| "AuditEventType_value AuditEventType.RESOURCE_QUERIED = ''RESOURCE_QUERIED''"
| "AuditEventType_value AuditEventType.REMEDIATION_PLANNED = ''REMEDIATION_PLANNED''"
| "AuditEventType_value AuditEventType.NO_ACTION_RECORDED = ''NO_ACTION_RECORDED''"
| "AuditEventType_value AuditEventType.RECOMMENDATION_RECORDED = ''RECOMMENDATION_RECORDED''"

text \<open>Provider-neutral resource kinds supported by the local CloudSecOps read model.\<close>

datatype CloudResourceType =
    EC2_INSTANCE | ELASTIC_IP | SECURITY_GROUP

fun CloudResourceType_value :: "CloudResourceType \<Rightarrow> string" where
  "CloudResourceType_value CloudResourceType.EC2_INSTANCE = ''AWS::EC2::Instance''"
| "CloudResourceType_value CloudResourceType.ELASTIC_IP = ''AWS::EC2::EIP''"
| "CloudResourceType_value CloudResourceType.SECURITY_GROUP = ''AWS::EC2::SecurityGroup''"

text \<open>Closed deterministic findings derived from normalized resource evidence.\<close>

datatype CloudFinding =
    UNATTACHED_ELASTIC_IP | OVERLY_PERMISSIVE_INGRESS | REQUIRED_TAGS_MISSING | CLEAN

fun CloudFinding_value :: "CloudFinding \<Rightarrow> string" where
  "CloudFinding_value CloudFinding.UNATTACHED_ELASTIC_IP = ''UNATTACHED_ELASTIC_IP''"
| "CloudFinding_value CloudFinding.OVERLY_PERMISSIVE_INGRESS = ''OVERLY_PERMISSIVE_INGRESS''"
| "CloudFinding_value CloudFinding.REQUIRED_TAGS_MISSING = ''REQUIRED_TAGS_MISSING''"
| "CloudFinding_value CloudFinding.CLEAN = ''CLEAN''"

text \<open>Closed proposal operations; entries are data and do not expose execution.\<close>

datatype RemediationOperation =
    RELEASE_ELASTIC_IP | REVOKE_PUBLIC_INGRESS | APPLY_REQUIRED_TAGS

fun RemediationOperation_value :: "RemediationOperation \<Rightarrow> string" where
  "RemediationOperation_value RemediationOperation.RELEASE_ELASTIC_IP = ''RELEASE_ELASTIC_IP''"
| "RemediationOperation_value RemediationOperation.REVOKE_PUBLIC_INGRESS = ''REVOKE_PUBLIC_INGRESS''"
| "RemediationOperation_value RemediationOperation.APPLY_REQUIRED_TAGS = ''APPLY_REQUIRED_TAGS''"

text \<open>Explicit result of deterministic remediation planning.\<close>

datatype PlanDisposition =
    PROPOSAL | NO_ACTION | NON_EXECUTABLE_RECOMMENDATION

fun PlanDisposition_value :: "PlanDisposition \<Rightarrow> string" where
  "PlanDisposition_value PlanDisposition.PROPOSAL = ''PROPOSAL''"
| "PlanDisposition_value PlanDisposition.NO_ACTION = ''NO_ACTION''"
| "PlanDisposition_value PlanDisposition.NON_EXECUTABLE_RECOMMENDATION = ''NON_EXECUTABLE_RECOMMENDATION''"

text \<open>What a later recovery controller can infer from durable state.\<close>

datatype RecoveryDisposition =
    NEW_RUN | SAFE_RESUMABLE | AWAITING_APPROVAL | RECONCILIATION_REQUIRED | TERMINAL_RUN

fun RecoveryDisposition_value :: "RecoveryDisposition \<Rightarrow> string" where
  "RecoveryDisposition_value RecoveryDisposition.NEW_RUN = ''NEW_RUN''"
| "RecoveryDisposition_value RecoveryDisposition.SAFE_RESUMABLE = ''SAFE_RESUMABLE''"
| "RecoveryDisposition_value RecoveryDisposition.AWAITING_APPROVAL = ''AWAITING_APPROVAL''"
| "RecoveryDisposition_value RecoveryDisposition.RECONCILIATION_REQUIRED = ''RECONCILIATION_REQUIRED''"
| "RecoveryDisposition_value RecoveryDisposition.TERMINAL_RUN = ''TERMINAL_RUN''"

subsection \<open>Terminal states\<close>

definition TERMINAL_WORKFLOW_STATES :: "WorkflowState set" where
  "TERMINAL_WORKFLOW_STATES =
     {WorkflowState.SUCCESS_WITH_EVIDENCE, WorkflowState.NO_ACTION_REQUIRED,
      WorkflowState.RECOMMENDATION_ONLY, WorkflowState.DENIED_BY_HUMAN,
      WorkflowState.DENIED_BY_POLICY, WorkflowState.MODEL_OUTPUT_INVALID,
      WorkflowState.AMBIGUOUS_RESULT, WorkflowState.DEPENDENCY_UNAVAILABLE,
      WorkflowState.BUDGET_EXHAUSTED, WorkflowState.EXECUTION_FAILED,
      WorkflowState.VERIFICATION_FAILED}"

subsection \<open>Class instances\<close>

instantiation WorkflowState :: enum
begin

definition enum_WorkflowState :: "WorkflowState list" where
  "enum_WorkflowState =
     [WorkflowState.RECEIVED, WorkflowState.INVESTIGATING, WorkflowState.EVIDENCE_READY,
      WorkflowState.REMEDIATION_PROPOSED, WorkflowState.AWAITING_APPROVAL, WorkflowState.APPROVED,
      WorkflowState.EXECUTING, WorkflowState.VERIFYING, WorkflowState.NO_ACTION_REQUIRED,
      WorkflowState.RECOMMENDATION_ONLY, WorkflowState.SUCCESS_WITH_EVIDENCE, WorkflowState.DENIED_BY_HUMAN,
      WorkflowState.DENIED_BY_POLICY, WorkflowState.MODEL_OUTPUT_INVALID, WorkflowState.AMBIGUOUS_RESULT,
      WorkflowState.DEPENDENCY_UNAVAILABLE, WorkflowState.BUDGET_EXHAUSTED, WorkflowState.EXECUTION_FAILED,
      WorkflowState.VERIFICATION_FAILED, WorkflowState.RECOVERY_REQUIRED]"

definition enum_all_WorkflowState :: "(WorkflowState \<Rightarrow> bool) \<Rightarrow> bool" where
  "enum_all_WorkflowState P \<longleftrightarrow> list_all P enum_class.enum"

definition enum_ex_WorkflowState :: "(WorkflowState \<Rightarrow> bool) \<Rightarrow> bool" where
  "enum_ex_WorkflowState P \<longleftrightarrow> list_ex P enum_class.enum"

instance
proof
  have all: "x \<in> set (enum_class.enum :: WorkflowState list)" for x
    by (cases x) (simp_all add: enum_WorkflowState_def)
  then show univ: "(UNIV :: WorkflowState set) = set enum_class.enum"
    by blast
  show "distinct (enum_class.enum :: WorkflowState list)"
    by (simp add: enum_WorkflowState_def)
  show "enum_class.enum_all P \<longleftrightarrow> Ball UNIV P" for P :: "WorkflowState \<Rightarrow> bool"
    unfolding enum_all_WorkflowState_def list_all_iff univ ..
  show "enum_class.enum_ex P \<longleftrightarrow> Bex UNIV P" for P :: "WorkflowState \<Rightarrow> bool"
    unfolding enum_ex_WorkflowState_def list_ex_iff univ ..
qed

end

instantiation CloudFinding :: linorder
begin

definition less_eq_CloudFinding :: "CloudFinding \<Rightarrow> CloudFinding \<Rightarrow> bool" where
  "less_eq_CloudFinding a b \<longleftrightarrow> CloudFinding_value a \<le> CloudFinding_value b"

definition less_CloudFinding :: "CloudFinding \<Rightarrow> CloudFinding \<Rightarrow> bool" where
  "less_CloudFinding a b \<longleftrightarrow> CloudFinding_value a < CloudFinding_value b"

instance
proof
  have inj: "a = b" if "CloudFinding_value a = CloudFinding_value b" for a b
    using that by (cases a; cases b) simp_all
  show "a \<le> b \<Longrightarrow> b \<le> a \<Longrightarrow> a = b" for a b :: CloudFinding
    using inj by (simp add: less_eq_CloudFinding_def)
qed (auto simp: less_eq_CloudFinding_def less_CloudFinding_def)

end

end
