(* ===== verification/Workflow.thy ===== *)
theory Workflow
  imports Nz_Enums
begin

text \<open>
  The application-owned transition table of \<open>nz/transitions.py\<close> and the graph facts the rest
  of the development rests on: terminal states are absorbing, no transition goes back to an
  earlier phase, execution starts only from an approved run and success only from
  verification. That a success is also approved is not a fact of the table (recovery leads
  to verification from several states) but of the durable store's guards.
\<close>

subsection \<open>Transition table\<close>

definition COMMON_INVESTIGATION_FAILURES :: "WorkflowState set" where
  "COMMON_INVESTIGATION_FAILURES =
     {WorkflowState.DENIED_BY_POLICY, WorkflowState.MODEL_OUTPUT_INVALID,
      WorkflowState.AMBIGUOUS_RESULT, WorkflowState.DEPENDENCY_UNAVAILABLE,
      WorkflowState.BUDGET_EXHAUSTED, WorkflowState.RECOVERY_REQUIRED}"

fun ALLOWED_WORKFLOW_TRANSITIONS :: "WorkflowState \<Rightarrow> WorkflowState set" where
  "ALLOWED_WORKFLOW_TRANSITIONS WorkflowState.RECEIVED =
     {WorkflowState.INVESTIGATING, WorkflowState.DENIED_BY_POLICY,
      WorkflowState.MODEL_OUTPUT_INVALID, WorkflowState.DEPENDENCY_UNAVAILABLE,
      WorkflowState.BUDGET_EXHAUSTED}"
| "ALLOWED_WORKFLOW_TRANSITIONS WorkflowState.INVESTIGATING =
     {WorkflowState.EVIDENCE_READY} \<union> COMMON_INVESTIGATION_FAILURES"
| "ALLOWED_WORKFLOW_TRANSITIONS WorkflowState.EVIDENCE_READY =
     {WorkflowState.REMEDIATION_PROPOSED, WorkflowState.NO_ACTION_REQUIRED,
      WorkflowState.RECOMMENDATION_ONLY, WorkflowState.DENIED_BY_POLICY}
     \<union> COMMON_INVESTIGATION_FAILURES"
| "ALLOWED_WORKFLOW_TRANSITIONS WorkflowState.REMEDIATION_PROPOSED =
     {WorkflowState.AWAITING_APPROVAL, WorkflowState.DENIED_BY_POLICY,
      WorkflowState.DEPENDENCY_UNAVAILABLE, WorkflowState.RECOVERY_REQUIRED}"
| "ALLOWED_WORKFLOW_TRANSITIONS WorkflowState.AWAITING_APPROVAL =
     {WorkflowState.APPROVED, WorkflowState.DENIED_BY_HUMAN, WorkflowState.DENIED_BY_POLICY,
      WorkflowState.MODEL_OUTPUT_INVALID, WorkflowState.DEPENDENCY_UNAVAILABLE,
      WorkflowState.BUDGET_EXHAUSTED, WorkflowState.RECOVERY_REQUIRED}"
| "ALLOWED_WORKFLOW_TRANSITIONS WorkflowState.APPROVED =
     {WorkflowState.EXECUTING, WorkflowState.DEPENDENCY_UNAVAILABLE,
      WorkflowState.RECOVERY_REQUIRED}"
| "ALLOWED_WORKFLOW_TRANSITIONS WorkflowState.EXECUTING =
     {WorkflowState.VERIFYING, WorkflowState.DENIED_BY_POLICY, WorkflowState.EXECUTION_FAILED,
      WorkflowState.AMBIGUOUS_RESULT, WorkflowState.DEPENDENCY_UNAVAILABLE,
      WorkflowState.BUDGET_EXHAUSTED, WorkflowState.RECOVERY_REQUIRED}"
| "ALLOWED_WORKFLOW_TRANSITIONS WorkflowState.VERIFYING =
     {WorkflowState.SUCCESS_WITH_EVIDENCE, WorkflowState.DENIED_BY_POLICY,
      WorkflowState.MODEL_OUTPUT_INVALID, WorkflowState.VERIFICATION_FAILED,
      WorkflowState.AMBIGUOUS_RESULT, WorkflowState.DEPENDENCY_UNAVAILABLE,
      WorkflowState.BUDGET_EXHAUSTED, WorkflowState.RECOVERY_REQUIRED}"
| "ALLOWED_WORKFLOW_TRANSITIONS WorkflowState.RECOVERY_REQUIRED =
     {WorkflowState.VERIFYING, WorkflowState.DENIED_BY_POLICY,
      WorkflowState.DEPENDENCY_UNAVAILABLE, WorkflowState.VERIFICATION_FAILED}"
| "ALLOWED_WORKFLOW_TRANSITIONS _ = {}"

definition validate_workflow_transition ::
    "WorkflowState \<Rightarrow> WorkflowState \<Rightarrow> exc + WorkflowState" where
  "validate_workflow_transition current_state next_state =
     (if next_state \<notin> ALLOWED_WORKFLOW_TRANSITIONS current_state
      then Inl WorkflowTransitionError else Inr next_state)"

lemmas workflow_table_simps =
  COMMON_INVESTIGATION_FAILURES_def TERMINAL_WORKFLOW_STATES_def

subsection \<open>The transition relation\<close>

inductive workflow_step :: "WorkflowState \<Rightarrow> WorkflowState \<Rightarrow> bool" where
  step: "validate_workflow_transition s t = Inr u \<Longrightarrow> workflow_step s u"

code_pred workflow_step .

inductive_simps workflow_step_iff: "workflow_step s t"

inductive workflow_path :: "WorkflowState \<Rightarrow> WorkflowState list \<Rightarrow> bool" where
  path_start: "workflow_path s [s]"
| path_step: "workflow_path s (t # p) \<Longrightarrow> workflow_step t u \<Longrightarrow> workflow_path s (u # t # p)"

inductive_cases workflow_path_snocE: "workflow_path s (u # t # p)"

lemma workflow_step_allowed [simp]:
  "workflow_step s t \<longleftrightarrow> t \<in> ALLOWED_WORKFLOW_TRANSITIONS s"
  by (auto simp: workflow_step_iff validate_workflow_transition_def)

lemma terminal_iff_no_successor:
  "s \<in> TERMINAL_WORKFLOW_STATES \<longleftrightarrow> ALLOWED_WORKFLOW_TRANSITIONS s = {}"
  by (cases s) (auto simp: workflow_table_simps)

subsection \<open>Order of the consequential states\<close>

text \<open>
  The phase of a state: no transition goes back to an earlier phase. Recovery and
  verification share one phase, because recovery may re-enter verification.
\<close>

fun phase :: "WorkflowState \<Rightarrow> nat" where
  "phase WorkflowState.RECEIVED = 0"
| "phase WorkflowState.INVESTIGATING = 1"
| "phase WorkflowState.EVIDENCE_READY = 2"
| "phase WorkflowState.REMEDIATION_PROPOSED = 3"
| "phase WorkflowState.AWAITING_APPROVAL = 4"
| "phase WorkflowState.APPROVED = 5"
| "phase WorkflowState.EXECUTING = 6"
| "phase WorkflowState.VERIFYING = 7"
| "phase WorkflowState.RECOVERY_REQUIRED = 7"
| "phase _ = 8"

lemma phase_mono: "t \<in> ALLOWED_WORKFLOW_TRANSITIONS s \<Longrightarrow> phase s \<le> phase t"
  by (cases s) (auto simp: workflow_table_simps)

lemma phase_strict_before_verification:
  "t \<in> ALLOWED_WORKFLOW_TRANSITIONS s \<Longrightarrow> phase s < 7 \<Longrightarrow> phase s < phase t"
  by (cases s) (auto simp: workflow_table_simps)

lemma executing_only_from_approved:
  "WorkflowState.EXECUTING \<in> ALLOWED_WORKFLOW_TRANSITIONS s \<longleftrightarrow> s = WorkflowState.APPROVED"
  by (cases s) (auto simp: workflow_table_simps)

lemma approved_only_from_awaiting:
  "WorkflowState.APPROVED \<in> ALLOWED_WORKFLOW_TRANSITIONS s \<longleftrightarrow>
   s = WorkflowState.AWAITING_APPROVAL"
  by (cases s) (auto simp: workflow_table_simps)

lemma success_only_from_verifying:
  "WorkflowState.SUCCESS_WITH_EVIDENCE \<in> ALLOWED_WORKFLOW_TRANSITIONS s \<longleftrightarrow>
   s = WorkflowState.VERIFYING"
  by (cases s) (auto simp: workflow_table_simps)

lemma verifying_only_from:
  "WorkflowState.VERIFYING \<in> ALLOWED_WORKFLOW_TRANSITIONS s \<longleftrightarrow>
   s = WorkflowState.EXECUTING \<or> s = WorkflowState.RECOVERY_REQUIRED"
  by (cases s) (auto simp: workflow_table_simps)

lemma workflow_path_phase: "workflow_path s p \<Longrightarrow> p \<noteq> [] \<and> sorted_wrt (\<ge>) (map phase p)"
proof (induction rule: workflow_path.induct)
  case (path_step s t p u)
  then have "phase t \<le> phase u" by (simp add: phase_mono)
  with path_step.IH show ?case by auto
qed simp

text \<open>A state of an early phase occurs once on a path.\<close>

lemma workflow_path_once:
  "workflow_path s p \<Longrightarrow> phase x < 7 \<Longrightarrow> count_list p x \<le> 1"
proof (induction rule: workflow_path.induct)
  case (path_step s t p u)
  show ?case
  proof (cases "u = x")
    case True
    with path_step.hyps path_step.prems
    have "t \<in> set (t # p) \<and> phase t < phase x"
      using phase_strict_before_verification [of u t] phase_mono [of u t] by fastforce
    moreover have "\<forall>y \<in> set (t # p). phase y \<le> phase t"
      using workflow_path_phase [OF path_step.hyps(1)] by auto
    ultimately have "x \<notin> set (t # p)" by force
    with True show ?thesis by (auto simp: count_list_0_iff)
  qed (use path_step in simp)
qed simp

end
