(* ===== verification/Authority.thy ===== *)
theory Authority
  imports Nz_Enums
begin

text \<open>
  Authority policy: the capability table of \<open>nz/authority.py\<close>, the AWS operation boundary of
  \<open>domain/aws_boundary.py\<close>, the execution lifecycle of \<open>domain/transitions.py\<close> with the
  approval records of \<open>domain/approval.py\<close>, and the failure types of \<open>nz/errors.py\<close> with the
  failure-to-state map of \<open>safety/failures.py\<close>.
\<close>

subsection \<open>Capability authority\<close>

fun CAPABILITY_AUTHORITY :: "Capability \<Rightarrow> AuthorityGate" where
  "CAPABILITY_AUTHORITY Capability.INSPECT_INSTANCE = AuthorityGate.AUTO"
| "CAPABILITY_AUTHORITY Capability.READ_UTILIZATION_METRICS = AuthorityGate.AUTO"
| "CAPABILITY_AUTHORITY Capability.BUILD_REMEDIATION_EVIDENCE = AuthorityGate.AUTO"
| "CAPABILITY_AUTHORITY Capability.STOP_SANDBOX_INSTANCE = AuthorityGate.PLAN_AND_CONFIRM"
| "CAPABILITY_AUTHORITY Capability.VERIFY_INSTANCE_STATE = AuthorityGate.AUTO"
| "CAPABILITY_AUTHORITY Capability.QUERY_RESOURCE = AuthorityGate.AUTO"
| "CAPABILITY_AUTHORITY Capability.PLAN_REMEDIATION = AuthorityGate.PLAN_AND_CONFIRM"
| "CAPABILITY_AUTHORITY Capability.RELEASE_ELASTIC_IP = AuthorityGate.PLAN_AND_CONFIRM"
| "CAPABILITY_AUTHORITY Capability.REVOKE_PUBLIC_INGRESS = AuthorityGate.PLAN_AND_CONFIRM"
| "CAPABILITY_AUTHORITY Capability.TERMINATE_INSTANCES = AuthorityGate.NEVER_AUTONOMOUS"
| "CAPABILITY_AUTHORITY Capability.START_INSTANCES = AuthorityGate.NEVER_AUTONOMOUS"
| "CAPABILITY_AUTHORITY Capability.REBOOT_INSTANCES = AuthorityGate.NEVER_AUTONOMOUS"
| "CAPABILITY_AUTHORITY Capability.MODIFY_INSTANCE_ATTRIBUTE = AuthorityGate.NEVER_AUTONOMOUS"
| "CAPABILITY_AUTHORITY Capability.CREATE_TAGS = AuthorityGate.NEVER_AUTONOMOUS"
| "CAPABILITY_AUTHORITY Capability.DELETE_TAGS = AuthorityGate.NEVER_AUTONOMOUS"
| "CAPABILITY_AUTHORITY Capability.IAM_MUTATION = AuthorityGate.NEVER_AUTONOMOUS"
| "CAPABILITY_AUTHORITY Capability.SSM_COMMAND_EXECUTION = AuthorityGate.NEVER_AUTONOMOUS"
| "CAPABILITY_AUTHORITY Capability.FILESYSTEM_ACCESS = AuthorityGate.NEVER_AUTONOMOUS"
| "CAPABILITY_AUTHORITY Capability.CREDENTIAL_ACCESS = AuthorityGate.NEVER_AUTONOMOUS"
| "CAPABILITY_AUTHORITY Capability.UNSAFE_STOP_OPTIONS = AuthorityGate.NEVER_AUTONOMOUS"
| "CAPABILITY_AUTHORITY Capability.STORAGE_DATABASE_DELETION = AuthorityGate.NEVER_AUTONOMOUS"
| "CAPABILITY_AUTHORITY Capability.SECURITY_GROUP_NETWORK_OPENING =
     AuthorityGate.NEVER_AUTONOMOUS"
| "CAPABILITY_AUTHORITY Capability.SHELL_EXECUTION = AuthorityGate.NEVER_AUTONOMOUS"
| "CAPABILITY_AUTHORITY Capability.ARBITRARY_CODE_EXECUTION = AuthorityGate.NEVER_AUTONOMOUS"
| "CAPABILITY_AUTHORITY Capability.ARBITRARY_URL_FETCH = AuthorityGate.NEVER_AUTONOMOUS"
| "CAPABILITY_AUTHORITY Capability.OUTSIDE_SANDBOX_SCOPE = AuthorityGate.NEVER_AUTONOMOUS"

definition authority_for_capability :: "Capability \<Rightarrow> exc + AuthorityGate" where
  "authority_for_capability c = Inr (CAPABILITY_AUTHORITY c)"

definition require_capability_authority ::
    "Capability \<Rightarrow> AuthorityGate \<Rightarrow> exc + AuthorityGate" where
  "require_capability_authority c claimed =
     (case authority_for_capability c of
        Inl e \<Rightarrow> Inl e
      | Inr required \<Rightarrow>
          if claimed \<noteq> required then Inl CapabilityDeniedError else Inr required)"

lemma require_capability_authority_Inr [simp]:
  "require_capability_authority c g = Inr g' \<longleftrightarrow> g = CAPABILITY_AUTHORITY c \<and> g' = g"
  by (auto simp: require_capability_authority_def authority_for_capability_def)

subsection \<open>AWS operation boundary\<close>

datatype AwsOperationClass = READ_ONLY | MUTATION

datatype AwsOperation = INSPECT_INSTANCE | STOP_SANDBOX_INSTANCE

datatype HumanApprovalState = NOT_GRANTED | GRANTED

record AwsOperationAssessment =
  as_operation :: AwsOperation
  as_operation_class :: AwsOperationClass
  as_may_propose :: bool
  as_may_execute :: bool
  as_human_approval_required :: bool
  as_human_approval_granted :: bool

fun classify_aws_operation :: "AwsOperation \<Rightarrow> AwsOperationClass" where
  "classify_aws_operation AwsOperation.INSPECT_INSTANCE = AwsOperationClass.READ_ONLY"
| "classify_aws_operation AwsOperation.STOP_SANDBOX_INSTANCE = AwsOperationClass.MUTATION"

text \<open>The gates of the mutating operations; a read has no entry in the table.\<close>

fun REQUIRED_MUTATION_GATES :: "AwsOperation \<Rightarrow> AuthorityGate option" where
  "REQUIRED_MUTATION_GATES AwsOperation.STOP_SANDBOX_INSTANCE =
     Some AuthorityGate.PLAN_AND_CONFIRM"
| "REQUIRED_MUTATION_GATES AwsOperation.INSPECT_INSTANCE = None"

definition assess_aws_operation ::
    "AwsOperation \<Rightarrow> AuthorityGate \<Rightarrow> bool \<Rightarrow> HumanApprovalState \<Rightarrow> exc + AwsOperationAssessment"
where
  "assess_aws_operation operation gate aws_mutations_enabled human_approval =
     (let operation_class = classify_aws_operation operation;
          approval_granted = (human_approval = HumanApprovalState.GRANTED)
      in if operation_class = AwsOperationClass.READ_ONLY then
           Inr \<lparr>as_operation = operation, as_operation_class = operation_class,
                as_may_propose = True,
                as_may_execute = (case gate of AuthorityGate.AUTO \<Rightarrow> True
                   | AuthorityGate.PLAN_AND_CONFIRM \<Rightarrow> approval_granted
                   | AuthorityGate.NEVER_AUTONOMOUS \<Rightarrow> False),
                as_human_approval_required = (gate \<noteq> AuthorityGate.AUTO),
                as_human_approval_granted = approval_granted\<rparr>
         else if gate = AuthorityGate.AUTO then Inl AwsBoundaryViolationError
         else (case REQUIRED_MUTATION_GATES operation of
                 None \<Rightarrow> Inl OtherError
               | Some required_gate \<Rightarrow>
                   if gate \<noteq> required_gate then Inl AwsBoundaryViolationError
                   else Inr \<lparr>as_operation = operation, as_operation_class = operation_class,
                          as_may_propose = True,
                          as_may_execute = (aws_mutations_enabled \<and> approval_granted),
                          as_human_approval_required = True,
                          as_human_approval_granted = approval_granted\<rparr>))"

subsection \<open>Execution lifecycle of the first-generation domain\<close>

fun ALLOWED_TRANSITIONS :: "ExecutionState \<Rightarrow> ExecutionState set" where
  "ALLOWED_TRANSITIONS ExecutionState.INIT = {ExecutionState.RUNNING}"
| "ALLOWED_TRANSITIONS ExecutionState.RUNNING =
     {ExecutionState.PENDING, ExecutionState.SUCCESS, ExecutionState.FAIL}"
| "ALLOWED_TRANSITIONS ExecutionState.PENDING = {ExecutionState.RUNNING, ExecutionState.FAIL}"
| "ALLOWED_TRANSITIONS ExecutionState.SUCCESS = {}"
| "ALLOWED_TRANSITIONS ExecutionState.FAIL = {}"

definition validate_state_transition ::
    "ExecutionState \<Rightarrow> ExecutionState \<Rightarrow> exc + ExecutionState" where
  "validate_state_transition current_state next_state =
     (if next_state \<notin> ALLOWED_TRANSITIONS current_state
      then Inl IllegalStateTransitionError else Inr next_state)"

datatype ApprovalStatus = NOT_REQUIRED | PENDING_APPROVAL | APPROVED | REJECTED

definition validate_pending_approval_mapping ::
    "ExecutionState \<Rightarrow> ApprovalStatus \<Rightarrow> exc + unit" where
  "validate_pending_approval_mapping execution_state approval_status =
     (if approval_status = ApprovalStatus.PENDING_APPROVAL
         \<and> execution_state \<noteq> ExecutionState.PENDING
      then Inl ContractValidationError else Inr ())"

subsection \<open>Failures and control results\<close>

record FailureDetail =
  f_kind :: FailureKind
  f_code :: string
  f_message :: string
  f_retryable :: bool

definition failure :: "FailureKind \<Rightarrow> string \<Rightarrow> string \<Rightarrow> bool \<Rightarrow> FailureDetail" where
  "failure kind code message retryable =
     \<lparr>f_kind = kind, f_code = code, f_message = message, f_retryable = retryable\<rparr>"

text \<open>
  A control result is a value or a failure, never both and never neither: the shape its
  validator enforces. \<open>ControlResult.succeeded\<close> and \<open>.failed\<close> are the constructors.
\<close>

datatype 'a ControlResult = Succeeded 'a | Failed FailureDetail

fun FAILURE_WORKFLOW_STATE :: "FailureKind \<Rightarrow> WorkflowState" where
  "FAILURE_WORKFLOW_STATE FailureKind.VALIDATION_FAILURE = WorkflowState.MODEL_OUTPUT_INVALID"
| "FAILURE_WORKFLOW_STATE FailureKind.POLICY_DENIAL = WorkflowState.DENIED_BY_POLICY"
| "FAILURE_WORKFLOW_STATE FailureKind.AMBIGUOUS_RESULT = WorkflowState.AMBIGUOUS_RESULT"
| "FAILURE_WORKFLOW_STATE FailureKind.DEPENDENCY_UNAVAILABLE =
     WorkflowState.DEPENDENCY_UNAVAILABLE"
| "FAILURE_WORKFLOW_STATE FailureKind.BUDGET_EXHAUSTION = WorkflowState.BUDGET_EXHAUSTED"
| "FAILURE_WORKFLOW_STATE FailureKind.EXECUTION_FAILURE = WorkflowState.EXECUTION_FAILED"
| "FAILURE_WORKFLOW_STATE FailureKind.VERIFICATION_FAILURE = WorkflowState.VERIFICATION_FAILED"
| "FAILURE_WORKFLOW_STATE FailureKind.RECOVERY_REQUIREMENT = WorkflowState.RECOVERY_REQUIRED"
| "FAILURE_WORKFLOW_STATE FailureKind.ILLEGAL_STATE_TRANSITION = WorkflowState.RECOVERY_REQUIRED"
| "FAILURE_WORKFLOW_STATE FailureKind.PROVIDER_FAILURE = WorkflowState.DEPENDENCY_UNAVAILABLE"
| "FAILURE_WORKFLOW_STATE FailureKind.TOOL_ADAPTER_FAILURE =
     WorkflowState.DEPENDENCY_UNAVAILABLE"
| "FAILURE_WORKFLOW_STATE FailureKind.STORAGE_FAILURE = WorkflowState.DEPENDENCY_UNAVAILABLE"
| "FAILURE_WORKFLOW_STATE FailureKind.IDEMPOTENCY_CONFLICT = WorkflowState.RECOVERY_REQUIRED"
| "FAILURE_WORKFLOW_STATE FailureKind.NOT_FOUND = WorkflowState.AMBIGUOUS_RESULT"
| "FAILURE_WORKFLOW_STATE FailureKind.CONFIGURATION_ERROR = WorkflowState.DENIED_BY_POLICY"

definition workflow_state_for_failure :: "FailureDetail \<Rightarrow> WorkflowState" where
  "workflow_state_for_failure f = FAILURE_WORKFLOW_STATE (f_kind f)"

datatype BoundaryRisk = READ_ONLY | DURABLE_CONTROL | MUTATION_OUTCOME_UNKNOWN

definition redacted_unknown_failure :: "BoundaryRisk \<Rightarrow> FailureDetail" where
  "redacted_unknown_failure boundary =
     (if boundary = BoundaryRisk.MUTATION_OUTCOME_UNKNOWN then
        failure FailureKind.RECOVERY_REQUIREMENT ''MUTATION_OUTCOME_UNKNOWN''
          ''Mutation outcome is unknown and requires durable reconciliation'' False
      else if boundary = BoundaryRisk.DURABLE_CONTROL then
        failure FailureKind.DEPENDENCY_UNAVAILABLE ''DURABLE_CONTROL_UNAVAILABLE''
          ''Durable control dependency is unavailable'' True
      else
        failure FailureKind.DEPENDENCY_UNAVAILABLE ''READ_DEPENDENCY_UNAVAILABLE''
          ''Read-only dependency is unavailable'' True)"

end
