(* ===== verification/Redaction.thy ===== *)
theory Redaction
  imports Identifiers "HOL-Library.Sublist"
begin

text \<open>
  Secret detection of \<open>nz/redaction.py\<close>: the nine compiled patterns as regular expressions
  with word boundaries, and \<open>contains_sensitive_material\<close> as a search over the canonical
  rendering. A match is computed on a configuration: the character before the position and
  the text after it.
\<close>

subsection \<open>Regular expressions with look-around\<close>

datatype rx =
    Eps
  | Chr "char \<Rightarrow> bool"
  | Seq rx rx
  | Alt rx rx
  | Star rx
  | WordBoundary
  | AtEnd

type_synonym cfg = "char option \<times> string"

definition is_word :: "char \<Rightarrow> bool" where
  "is_word c \<longleftrightarrow> is_alnum c \<or> c = CHR ''_''
     \<or> code c \<in> set [170, 178, 179, 181, 185, 186, 188, 189, 190]
     \<or> (192 \<le> code c \<and> code c \<noteq> 215 \<and> code c \<noteq> 247)"

definition word_before :: "cfg \<Rightarrow> bool" where
  "word_before x = (case fst x of None \<Rightarrow> False | Some c \<Rightarrow> is_word c)"

definition word_after :: "cfg \<Rightarrow> bool" where
  "word_after x = (case snd x of [] \<Rightarrow> False | c # _ \<Rightarrow> is_word c)"

fun iterate :: "nat \<Rightarrow> (cfg \<Rightarrow> cfg list) \<Rightarrow> cfg \<Rightarrow> cfg list" where
  "iterate 0 f x = [x]"
| "iterate (Suc n) f x =
     x # concat (map (iterate n f) (filter (\<lambda>y. length (snd y) < length (snd x)) (f x)))"

text \<open>All positions where a match that starts at the configuration can end.\<close>

fun ends :: "rx \<Rightarrow> cfg \<Rightarrow> cfg list" where
  "ends Eps x = [x]"
| "ends (Chr p) x = (case snd x of [] \<Rightarrow> [] | c # cs \<Rightarrow> if p c then [(Some c, cs)] else [])"
| "ends (Seq r q) x = concat (map (ends q) (ends r x))"
| "ends (Alt r q) x = ends r x @ ends q x"
| "ends (Star r) x = iterate (length (snd x)) (ends r) x"
| "ends WordBoundary x = (if word_before x \<noteq> word_after x then [x] else [])"
| "ends AtEnd x = (if snd x = [] \<or> snd x = [CHR 0x0A] then [x] else [])"

fun search_from :: "rx \<Rightarrow> char option \<Rightarrow> string \<Rightarrow> bool" where
  "search_from r b [] = (ends r (b, []) \<noteq> [])"
| "search_from r b (c # cs) = (ends r (b, c # cs) \<noteq> [] \<or> search_from r (Some c) cs)"

definition search :: "rx \<Rightarrow> string \<Rightarrow> bool" where
  "search r s = search_from r None s"

subsection \<open>Pattern vocabulary\<close>

definition lit :: "char \<Rightarrow> rx" where
  "lit c = Chr (\<lambda>x. x = c)"

definition lower_char :: "char \<Rightarrow> char" where
  "lower_char c = (if is_upper c then char_of (code c + 32) else c)"

text \<open>A character of an \<open>(?i)\<close> pattern, given in lower case.\<close>

definition ilit :: "char \<Rightarrow> rx" where
  "ilit c = Chr (\<lambda>x. lower_char x = c)"

fun seqs :: "rx list \<Rightarrow> rx" where
  "seqs [] = Eps"
| "seqs [r] = r"
| "seqs (r # q # rs) = Seq r (seqs (q # rs))"

fun alts :: "rx \<Rightarrow> rx list \<Rightarrow> rx" where
  "alts r [] = r"
| "alts r (q # rs) = Alt r (alts q rs)"

definition word :: "string \<Rightarrow> rx" where
  "word s = seqs (map lit s)"

definition iword :: "string \<Rightarrow> rx" where
  "iword s = seqs (map ilit s)"

fun times :: "nat \<Rightarrow> rx \<Rightarrow> rx" where
  "times 0 r = Eps"
| "times (Suc n) r = Seq r (times n r)"

definition at_least :: "nat \<Rightarrow> rx \<Rightarrow> rx" where
  "at_least n r = Seq (times n r) (Star r)"

fun up_to :: "nat \<Rightarrow> rx \<Rightarrow> rx" where
  "up_to 0 r = Eps"
| "up_to (Suc n) r = Alt Eps (Seq r (up_to n r))"

definition between :: "nat \<Rightarrow> nat \<Rightarrow> rx \<Rightarrow> rx" where
  "between m n r = Seq (times m r) (up_to (n - m) r)"

definition spaces :: rx where
  "spaces = Star (Chr is_space)"

definition backslash :: char where
  "backslash = char_of (92 :: nat)"

definition path_sep :: rx where
  "path_sep = Chr (\<lambda>c. c = CHR ''/'' \<or> c = backslash)"

subsection \<open>The patterns\<close>

definition SENSITIVE_PATTERNS :: "rx list" where
  "SENSITIVE_PATTERNS =
    [seqs [WordBoundary, Alt (word ''AKIA'') (word ''ASIA''),
           times 16 (Chr (\<lambda>c. is_digit c \<or> is_upper c)), WordBoundary],
     seqs [WordBoundary, iword ''bearer'', at_least 1 (Chr is_space),
           at_least 8 (Chr (\<lambda>c. is_alnum c \<or> c \<in> set ''._~+/=-''))],
     seqs [WordBoundary, iword ''authorization'', spaces, lit CHR '':'', spaces,
           at_least 4 (Chr (\<lambda>c. c \<notin> set [CHR 0x0D, CHR 0x0A, CHR '','', CHR '';'']))],
     seqs [WordBoundary, word ''sk-'',
           at_least 8 (Chr (\<lambda>c. is_alnum c \<or> c = CHR ''_'' \<or> c = CHR ''-'')), WordBoundary],
     seqs [WordBoundary, Alt (word ''ghp'') (word ''github_pat''), lit CHR ''_'',
           at_least 8 (Chr (\<lambda>c. is_alnum c \<or> c = CHR ''_'')), WordBoundary],
     seqs [word ''-----BEGIN '', Star (Chr (\<lambda>c. is_upper c \<or> c = CHR '' '')),
           word ''PRIVATE KEY-----''],
     seqs [WordBoundary,
           alts (iword ''password'') [iword ''passwd'', iword ''pwd'', iword ''token'',
             iword ''secret'', seqs [iword ''api'', Alt Eps (Chr (\<lambda>c. c \<in> set ''_-'')),
             iword ''key'']],
           spaces, Chr (\<lambda>c. c \<in> set ''=:''), spaces,
           at_least 4 (Chr (\<lambda>c. \<not> is_space c \<and> c \<notin> set '',;''))],
     seqs [iword ''http'', Alt Eps (ilit CHR ''s''), word ''://'',
           between 1 128 (Chr (\<lambda>c. c \<noteq> CHR ''/'' \<and> \<not> is_space c \<and> c \<notin> set '':@'')),
           lit CHR '':'',
           between 1 256 (Chr (\<lambda>c. c \<noteq> CHR ''/'' \<and> \<not> is_space c \<and> c \<noteq> CHR ''@'')),
           lit CHR ''@''],
     seqs [path_sep,
           alts (seqs [iword ''.aws'', path_sep, iword ''credentials''])
             [seqs [iword ''.ssh'', path_sep, iword ''id_'',
                at_least 1 (Chr (\<lambda>c. is_alnum c \<or> c = CHR ''_''))],
              iword ''.env''],
           Alt WordBoundary AtEnd]]"

definition sensitive_text :: "string \<Rightarrow> bool" where
  "sensitive_text s = list_ex (\<lambda>r. search r s) SENSITIVE_PATTERNS"

definition contains_sensitive_material :: "json \<Rightarrow> bool" where
  "contains_sensitive_material v =
     sensitive_text (case v of JStr s \<Rightarrow> s | _ \<Rightarrow> dumps v)"

subsection \<open>Properties of the matcher\<close>

lemma iterate_suffix:
  assumes "\<And>x y. y \<in> set (f x) \<Longrightarrow> \<exists>p. snd x = p @ snd y"
  shows "y \<in> set (iterate n f x) \<Longrightarrow> \<exists>p. snd x = p @ snd y"
proof (induction n arbitrary: x)
  case (Suc n)
  from Suc.prems consider "y = x" | z where "z \<in> set (f x)" "y \<in> set (iterate n f z)"
    by auto
  then show ?case
  proof cases
    case 2
    with assms [of z x] Suc.IH [of z] show ?thesis by (metis append.assoc)
  qed simp
qed simp

text \<open>A match consumes a prefix of the text after its start.\<close>

lemma ends_suffix: "y \<in> set (ends r x) \<Longrightarrow> \<exists>p. snd x = p @ snd y"
proof (induction r arbitrary: x y)
  case (Seq r q)
  then obtain z where "z \<in> set (ends r x)" "y \<in> set (ends q z)" by auto
  with Seq.IH(1) [of z x] Seq.IH(2) [of y z] show ?case by (metis append.assoc)
next
  case (Star r)
  then show ?case using iterate_suffix [of "ends r"] by auto
qed (auto split: list.splits if_splits)

lemma search_iff: "search_from r b s \<longleftrightarrow>
   (\<exists>p t. s = p @ t \<and> ends r (if p = [] then b else Some (last p), t) \<noteq> [])"
proof (induction s arbitrary: b)
  case (Cons c cs)
  show ?case (is "?L \<longleftrightarrow> (\<exists>p t. ?R p t)")
  proof
    assume ?L
    then consider "ends r (b, c # cs) \<noteq> []" | "search_from r (Some c) cs" by auto
    then show "\<exists>p t. ?R p t"
    proof cases
      case 1
      then show ?thesis by (rule_tac x = "[]" in exI, rule_tac x = "c # cs" in exI) simp
    next
      case 2
      then obtain p t where "cs = p @ t" "ends r (if p = [] then Some c else Some (last p), t) \<noteq> []"
        using Cons.IH by blast
      then show ?thesis by (rule_tac x = "c # p" in exI, rule_tac x = t in exI) (auto split: if_splits)
    qed
  next
    assume "\<exists>p t. ?R p t"
    then obtain p t where p: "?R p t" by blast
    show ?L
    proof (cases p)
      case Nil
      with p show ?thesis by (cases t) auto
    next
      case (Cons d q)
      with p have "cs = q @ t" "ends r (if q = [] then Some c else Some (last q), t) \<noteq> []"
        by (auto split: if_splits)
      then have "search_from r (Some c) cs" using Cons.IH by blast
      then show ?thesis by simp
    qed
  qed
qed simp

subsection \<open>Texts no pattern can match\<close>

text \<open>
  The texts a pattern can consume, its zero-width assertions left out. Facts about a concrete
  pattern follow by inversion, so that plain texts are shown clean without running a matcher.
\<close>

fun consumes :: "rx \<Rightarrow> string \<Rightarrow> bool" where
  "consumes Eps p = (p = [])"
| "consumes (Chr P) p = (\<exists>c. p = [c] \<and> P c)"
| "consumes (Seq r q) p = (\<exists>u v. p = u @ v \<and> consumes r u \<and> consumes q v)"
| "consumes (Alt r q) p = (consumes r p \<or> consumes q p)"
| "consumes (Star r) p = (\<exists>us. p = concat us \<and> (\<forall>u \<in> set us. consumes r u))"
| "consumes WordBoundary p = (p = [])"
| "consumes AtEnd p = (p = [])"

lemma iterate_consumes:
  assumes "\<And>x y. y \<in> set (f x) \<Longrightarrow> \<exists>p. snd x = p @ snd y \<and> consumes r p"
  shows "y \<in> set (iterate n f x) \<Longrightarrow> \<exists>p. snd x = p @ snd y \<and> consumes (Star r) p"
proof (induction n arbitrary: x)
  case 0
  then show ?case by (auto intro: exI [of _ "[] :: string list"])
next
  case (Suc n)
  from Suc.prems consider "y = x" | z where "z \<in> set (f x)" "y \<in> set (iterate n f z)"
    by auto
  then show ?case
  proof cases
    case 1
    then show ?thesis by (auto intro: exI [of _ "[] :: string list"])
  next
    case 2
    from assms [OF 2(1)] obtain u where u: "snd x = u @ snd z" "consumes r u" by blast
    from Suc.IH [OF 2(2)] obtain us where
      us: "snd z = concat us @ snd y" "\<forall>u \<in> set us. consumes r u" by auto
    from u us have "snd x = concat (u # us) @ snd y \<and> (\<forall>v \<in> set (u # us). consumes r v)"
      by simp
    then show ?thesis by (metis consumes.simps(5))
  qed
qed

lemma ends_consumes: "y \<in> set (ends r x) \<Longrightarrow> \<exists>p. snd x = p @ snd y \<and> consumes r p"
proof (induction r arbitrary: x y)
  case (Alt r q)
  then consider "y \<in> set (ends r x)" | "y \<in> set (ends q x)" by auto
  then show ?case using Alt.IH [of y x] by cases auto
next
  case (Seq r q)
  then obtain z where "z \<in> set (ends r x)" "y \<in> set (ends q z)" by auto
  with Seq.IH(1) [of z x] Seq.IH(2) [of y z] obtain u v where
    "snd x = (u @ v) @ snd y" "consumes r u" "consumes q v" by auto
  then show ?case by (metis consumes.simps(3))
next
  case (Star r)
  then show ?case using iterate_consumes [of "ends r" r y] by (simp del: consumes.simps)
qed (auto split: list.splits if_splits)

lemma search_consumes:
  assumes "search r s"
  obtains a p b where "s = a @ p @ b" and "consumes r p"
proof -
  from assms obtain a t where s: "s = a @ t"
    and "ends r (if a = [] then None else Some (last a), t) \<noteq> []"
    unfolding search_def search_iff by blast
  then obtain y where "y \<in> set (ends r (if a = [] then None else Some (last a), t))"
    by (meson last_in_set)
  from ends_consumes [OF this] s that show ?thesis by force
qed

lemma consumes_seqs_Cons:
  "consumes (seqs (r # rs)) p \<longleftrightarrow> (\<exists>u v. p = u @ v \<and> consumes r u \<and> consumes (seqs rs) v)"
  by (cases rs) auto

lemma consumes_word [simp]: "consumes (word w) p \<longleftrightarrow> p = w"
  unfolding word_def
proof (induction w arbitrary: p)
  case (Cons c w)
  then show ?case by (auto simp: consumes_seqs_Cons lit_def simp del: seqs.simps(2,3))
qed simp

lemma consumes_iword [simp]: "consumes (iword w) p \<longleftrightarrow> map lower_char p = w"
  unfolding iword_def
proof (induction w arbitrary: p)
  case (Cons c w)
  have "consumes (seqs (map ilit (c # w))) p \<longleftrightarrow>
      (\<exists>u v. p = u @ v \<and> (\<exists>d. u = [d] \<and> lower_char d = c) \<and> map lower_char v = w)"
    by (simp only: list.map consumes_seqs_Cons Cons.IH ilit_def consumes.simps)
  also have "\<dots> \<longleftrightarrow> (\<exists>d v. p = d # v \<and> lower_char d = c \<and> map lower_char v = w)"
    by (metis append_Cons append_Nil)
  also have "\<dots> \<longleftrightarrow> map lower_char p = c # w"
    by (cases p) auto
  finally show ?case .
qed simp

text \<open>
  Plain text: no blank, \<open>=\<close>, \<open>@\<close>, slash or backslash, no colon after a letter that ends a keyword,
  and none of the key prefixes.
\<close>

fun colons_apart :: "string \<Rightarrow> bool" where
  "colons_apart (a # b # s) =
     ((b = CHR '':'' \<longrightarrow> lower_char a \<notin> set ''dnty'') \<and> colons_apart (b # s))"
| "colons_apart _ = True"

definition plain_text :: "string \<Rightarrow> bool" where
  "plain_text s \<longleftrightarrow>
     list_all (\<lambda>c. \<not> is_space c \<and> c \<notin> {CHR ''='', CHR ''@'', CHR ''/'', backslash}) s
     \<and> colons_apart s
     \<and> \<not> sublist ''KIA'' s \<and> \<not> sublist ''SIA'' s \<and> \<not> sublist ''sk-'' s
     \<and> \<not> sublist ''ghp_'' s \<and> \<not> sublist ''pat_'' s"

lemma sublist_middle: "sublist w p \<Longrightarrow> sublist w (a @ p @ b)"
  by (auto simp: sublist_def) (metis append.assoc)

lemma colons_apart_middle: "colons_apart (a @ x # CHR '':'' # b) \<Longrightarrow> lower_char x \<notin> set ''dnty''"
proof (induction a)
  case (Cons c a)
  then show ?case by (cases a) (simp_all split: if_splits)
qed simp

lemma consumes_spaces:
  assumes "consumes spaces p" and "list_all (\<lambda>c. \<not> is_space c) p"
  shows "p = []"
proof -
  from assms(1) obtain us where us: "p = concat us" "\<forall>u \<in> set us. \<exists>c. u = [c] \<and> is_space c"
    by (auto simp: spaces_def)
  show ?thesis
  proof (cases us)
    case (Cons u vs)
    with us assms(2) show ?thesis by auto
  qed (use us in simp)
qed

lemma map_lower_char_last:
  assumes "map lower_char u = w @ [x]"
  obtains v c where "u = v @ [c]" and "lower_char c = x"
  using assms by (metis append_is_Nil_conv list.map_disc_iff map_append last_map last_snoc list.distinct(1)
      append_butlast_last_id)

lemma plain_text_chars:
  assumes "plain_text s" and "s = a @ p @ b"
  shows "\<forall>c \<in> set p. \<not> is_space c \<and> c \<noteq> CHR ''='' \<and> c \<noteq> CHR ''@'' \<and> c \<noteq> CHR ''/'' \<and> c \<noteq> backslash"
  using assms by (auto simp: plain_text_def list_all_iff)

lemma plain_text_colon:
  assumes "plain_text s" and "s = a @ (u @ c # CHR '':'' # v) @ b"
  shows "lower_char c \<notin> set ''dnty''"
  using assms colons_apart_middle [of "a @ u" c "v @ b"] by (simp add: plain_text_def)

lemma plain_text_sublist:
  assumes "plain_text s" and "s = a @ p @ b"
    and "w \<in> {''KIA'', ''SIA'', ''sk-'', ''ghp_'', ''pat_''}"
  shows "\<not> sublist w p"
  using assms sublist_middle [of w p a b] by (auto simp: plain_text_def)

text \<open>A keyword, optional blanks and a separator: in plain text the separator is no colon.\<close>

lemma plain_keyword:
  assumes "plain_text s" and "s = a @ (u @ p @ d # v) @ b"
    and "map lower_char u = w @ [x]" and "x \<in> set ''dnty''" and "consumes spaces p"
  shows "d \<noteq> CHR '':'' \<and> d \<noteq> CHR ''=''"
proof -
  have "list_all (\<lambda>c. \<not> is_space c) p"
    using plain_text_chars [OF assms(1,2)] by (auto simp: list_all_iff)
  with assms(5) have p: "p = []" by (rule consumes_spaces)
  from assms(3) obtain y c where u: "u = y @ [c]" and c: "lower_char c = x"
    by (rule map_lower_char_last)
  have "d \<noteq> CHR '':''"
  proof
    assume "d = CHR '':''"
    with plain_text_colon [OF assms(1), of a y c v b] assms(2,4) p u c show False by simp
  qed
  moreover have "d \<noteq> CHR ''=''" using plain_text_chars [OF assms(1,2)] by auto
  ultimately show ?thesis ..
qed

lemma ball_nine: "(\<forall>r \<in> set [a,b,c,d,e,f,g,h,i]. P r) \<longleftrightarrow> P a \<and> P b \<and> P c \<and> P d \<and> P e \<and> P f \<and> P g \<and> P h \<and> P i" by simp

lemma keyword_letters:
  "CHR ''n'' \<in> set ''dnty''" "CHR ''d'' \<in> set ''dnty''" "CHR ''t'' \<in> set ''dnty''" "CHR ''y'' \<in> set ''dnty''"
  by simp_all

lemma plain_no_access_key: assumes "plain_text s" "s = a @ p @ b" shows "\<not> consumes (seqs [WordBoundary, Alt (word ''AKIA'') (word ''ASIA''),
           times 16 (Chr (\<lambda>c. is_digit c \<or> is_upper c)), WordBoundary]) p"
proof
  assume "consumes (seqs [WordBoundary, Alt (word ''AKIA'') (word ''ASIA''),
           times 16 (Chr (\<lambda>c. is_digit c \<or> is_upper c)), WordBoundary]) p"
  then obtain v where "p = ''A'' @ ''KIA'' @ v \<or> p = ''A'' @ ''SIA'' @ v"
    unfolding consumes_seqs_Cons consumes.simps(4,6) consumes_word by auto
  then have "sublist ''KIA'' p \<or> sublist ''SIA'' p" by (metis sublist_appendI)
  with plain_text_sublist [OF assms] show False by blast
qed

lemma plain_no_bearer: assumes "plain_text s" "s = a @ p @ b" shows "\<not> consumes (seqs [WordBoundary, iword ''bearer'', at_least 1 (Chr is_space), r]) p"
proof
  assume "consumes (seqs [WordBoundary, iword ''bearer'', at_least 1 (Chr is_space), r]) p"
  then obtain c where "c \<in> set p" "is_space c"
    unfolding consumes_seqs_Cons at_least_def One_nat_def times.simps consumes.simps by fastforce
  with plain_text_chars [OF assms] show False by blast
qed

lemma keyword_separator:
  assumes "consumes (seqs [WordBoundary, k, spaces, Chr P, r, t]) p"
  shows "\<exists>u q d v. p = u @ q @ d # v \<and> consumes k u \<and> consumes spaces q \<and> P d"
proof -
  from assms obtain u q d v where "p = u @ q @ [d] @ v" "consumes k u" "consumes spaces q" "P d"
    unfolding consumes_seqs_Cons consumes.simps(2,6) by blast
  then show ?thesis by (intro exI [of _ u] exI [of _ q] exI [of _ d] exI [of _ v]) simp
qed

lemma plain_no_authorization: assumes "plain_text s" "s = a @ p @ b"
 shows "\<not> consumes (seqs [WordBoundary, iword ''authorization'', spaces, lit CHR '':'', spaces, r]) p"
proof
  assume "consumes (seqs [WordBoundary, iword ''authorization'', spaces, lit CHR '':'', spaces, r]) p"
  from keyword_separator [OF this [unfolded lit_def]] obtain u q d v where
    p: "p = u @ q @ d # v" "consumes (iword ''authorization'') u" "consumes spaces q" "d = CHR '':''"
    by blast
  from p(2) have "map lower_char u = ''authorizatio'' @ ''n''"
    unfolding consumes_iword by simp
  from plain_keyword [OF assms(1) _ this keyword_letters(1) p(3)] assms(2) p(1,4)
  show False by blast
qed

lemma plain_no_sk_key: assumes "plain_text s" "s = a @ p @ b"
 shows "\<not> consumes (seqs [WordBoundary, word ''sk-'', r, WordBoundary]) p"
proof
  assume "consumes (seqs [WordBoundary, word ''sk-'', r, WordBoundary]) p"
  then obtain v where "p = [] @ ''sk-'' @ v"
    unfolding consumes_seqs_Cons consumes.simps(6) consumes_word by auto
  then have "sublist ''sk-'' p" by (metis sublist_appendI)
  with plain_text_sublist [OF assms] show False by blast
qed

lemma plain_no_github_token: assumes "plain_text s" "s = a @ p @ b"
 shows "\<not> consumes (seqs [WordBoundary, Alt (word ''ghp'') (word ''github_pat''), lit CHR ''_'', r, WordBoundary]) p"
proof
  assume "consumes (seqs [WordBoundary, Alt (word ''ghp'') (word ''github_pat''), lit CHR ''_'', r, WordBoundary]) p"
  then obtain v where "p = [] @ ''ghp_'' @ v \<or> p = ''github_'' @ ''pat_'' @ v"
    unfolding consumes_seqs_Cons consumes.simps(4,6) consumes_word lit_def consumes.simps(2) by auto
  then have "sublist ''ghp_'' p \<or> sublist ''pat_'' p" by (metis sublist_appendI)
  with plain_text_sublist [OF assms] show False by blast
qed

lemma plain_no_private_key: assumes "plain_text s" "s = a @ p @ b"
 shows "\<not> consumes (seqs [word ''-----BEGIN '', r, t]) p"
proof
  assume "consumes (seqs [word ''-----BEGIN '', r, t]) p"
  then have "CHR '' '' \<in> set p"
    unfolding consumes_seqs_Cons consumes_word by auto
  moreover have "is_space CHR '' ''" by (simp add: is_space_def code_def)
  ultimately show False using plain_text_chars [OF assms] by blast
qed

definition ends_lower :: "string \<Rightarrow> bool" where
  "ends_lower k \<longleftrightarrow> (\<exists>y u w x. k = y @ u \<and> map lower_char u = w @ [x] \<and> x \<in> set ''dnty'')"

lemma consumes_alts: "consumes (alts r rs) k \<longleftrightarrow> consumes r k \<or> (\<exists>q \<in> set rs. consumes q k)"
  by (induction rs arbitrary: r) auto

lemma ends_lower_iword:
  assumes "consumes (iword w) k" and "last w \<in> set ''dnty''" and "w \<noteq> []"
  shows "ends_lower k"
proof -
  from assms(1) have "map lower_char k = butlast w @ [last w]"
    using assms(3) by (simp add: consumes_iword)
  with assms(2) show ?thesis unfolding ends_lower_def by (metis append_Nil)
qed

lemma ends_lower_seq:
  assumes "consumes (seqs [r, q, iword w]) k" and "last w \<in> set ''dnty''" and "w \<noteq> []"
  shows "ends_lower k"
proof -
  from assms(1) obtain y z u where "k = (y @ z) @ u" "consumes (iword w) u"
    by (simp add: consumes_seqs_Cons del: consumes_iword) (metis append.assoc)
  with ends_lower_iword [OF _ assms(2,3), of u] show ?thesis
    unfolding ends_lower_def by (metis append.assoc)
qed

lemma keyword_ends:
  assumes "consumes (alts (iword ''password'') [iword ''passwd'', iword ''pwd'', iword ''token'',
    iword ''secret'', seqs [iword ''api'', Alt Eps (Chr P), iword ''key'']]) k"
  shows "ends_lower k"
proof -
  let ?q = "seqs [iword ''api'', Alt Eps (Chr P), iword ''key'']"
  have "ends_lower k" if "consumes (iword w) k"
      "w \<in> {''password'', ''passwd'', ''pwd'', ''token'', ''secret''}" for w
    using that ends_lower_iword keyword_letters by auto
  moreover have "ends_lower k" if "consumes ?q k"
    using ends_lower_seq [OF that] keyword_letters by simp
  moreover have "(\<exists>w \<in> {''password'', ''passwd'', ''pwd'', ''token'', ''secret''}.
      consumes (iword w) k) \<or> consumes ?q k"
    using assms by (simp only: consumes_alts list.set bex_simps insert_iff empty_iff) simp
  ultimately show ?thesis by blast
qed

lemma plain_no_password: assumes "plain_text s" "s = a @ p @ b"
 shows "\<not> consumes (seqs [WordBoundary,
           alts (iword ''password'') [iword ''passwd'', iword ''pwd'', iword ''token'',
             iword ''secret'', seqs [iword ''api'', Alt Eps (Chr P), iword ''key'']],
           spaces, Chr (\<lambda>c. c \<in> set ''=:''), spaces, r]) p" (is "\<not> consumes ?r p")
proof
  assume "consumes ?r p"
  from keyword_separator [OF this] obtain k q d v where
    p: "p = k @ q @ d # v" "consumes spaces q" "d \<in> set ''=:''"
    and k: "consumes (alts (iword ''password'') [iword ''passwd'', iword ''pwd'', iword ''token'',
      iword ''secret'', seqs [iword ''api'', Alt Eps (Chr P), iword ''key'']]) k"
    by (elim exE conjE)
  from keyword_ends [OF k] obtain y u w x where u: "k = y @ u" "map lower_char u = w @ [x]" "x \<in> set ''dnty''"
    unfolding ends_lower_def by blast
  have "s = (a @ y) @ (u @ q @ d # v) @ b" using assms(2) p(1) u(1) by simp
  from plain_keyword [OF assms(1) this u(2,3) p(2)] p(3) show False by simp
qed

lemma plain_no_url_credentials: assumes "plain_text s" "s = a @ p @ b"
 shows "\<not> consumes (seqs [iword ''http'', r, word ''://'', t, t1, t2, t3]) p"
proof
  assume "consumes (seqs [iword ''http'', r, word ''://'', t, t1, t2, t3]) p"
  then have "CHR ''/'' \<in> set p"
    unfolding consumes_seqs_Cons consumes_word by auto
  then show False using plain_text_chars [OF assms] by blast
qed

lemma plain_no_secret_file: assumes "plain_text s" "s = a @ p @ b"
 shows "\<not> consumes (seqs [path_sep, r, t]) p"
proof
  assume "consumes (seqs [path_sep, r, t]) p"
  then have "CHR ''/'' \<in> set p \<or> backslash \<in> set p"
    unfolding consumes_seqs_Cons path_sep_def consumes.simps(2) by auto
  then show False using plain_text_chars [OF assms] by blast
qed

text \<open>Plain text matches none of the nine patterns.\<close>

lemma plain_text_clean:
  assumes "plain_text s" shows "\<not> sensitive_text s"
proof
  assume "sensitive_text s"
  then obtain r where r: "r \<in> set SENSITIVE_PATTERNS" "search r s"
    by (auto simp: sensitive_text_def list_ex_iff)
  from r(2) obtain a p b where s: "s = a @ p @ b" and p: "consumes r p" by (rule search_consumes)
  note no = plain_no_access_key plain_no_bearer plain_no_authorization plain_no_sk_key plain_no_github_token plain_no_private_key plain_no_password plain_no_url_credentials plain_no_secret_file
  have "\<forall>r \<in> set SENSITIVE_PATTERNS. \<not> consumes r p"
    unfolding SENSITIVE_PATTERNS_def ball_nine by (intro conjI no [OF assms s])
  with r(1) p show False by blast
qed
end
