(* ===== verification/Contracts.thy ===== *)
theory Contracts
  imports Workflow Authority Redaction
begin

text \<open>
  The contracts of \<open>nz/contracts.py\<close> for the EC2 stop workflow: one record per model, one
  validity predicate per model (its field constraints and its validators together), and the
  factories. Building a model is \<open>validated\<close>: the value when it is valid, a
  \<open>ValidationError\<close> otherwise. Timestamps inside a model are UTC instants; a timestamp that
  comes from a caller is a \<open>datetime\<close> and passes \<open>utc_field\<close>.
\<close>

definition validated :: "('a \<Rightarrow> bool) \<Rightarrow> 'a \<Rightarrow> exc + 'a" where
  "validated P x = (if P x then Inr x else Inl ValidationError)"

lemma validated_Inr [simp]: "validated P x = Inr y \<longleftrightarrow> y = x \<and> P x"
  by (auto simp: validated_def)

lemma validated_valid [simp]: "P x \<Longrightarrow> validated P x = Inr x"
  by simp

lemma validated_Inl: "validated P x = Inl e \<longleftrightarrow> e = ValidationError \<and> \<not> P x"
  by (auto simp: validated_def)

fun optional :: "('a \<Rightarrow> bool) \<Rightarrow> 'a option \<Rightarrow> bool" where
  "optional P None = True"
| "optional P (Some x) = P x"

fun JOpt :: "string option \<Rightarrow> json" where
  "JOpt None = JNull"
| "JOpt (Some s) = JStr s"

definition zero_digest :: string where
  "zero_digest = replicate 64 (CHR ''0'')"

subsection \<open>Run\<close>

record BudgetCounters =
  b_max_turns :: int
  b_max_tokens :: int
  b_max_elapsed_seconds :: int
  b_turns_used :: int
  b_tokens_used :: int
  b_elapsed_milliseconds_used :: int

definition valid_budget :: "BudgetCounters \<Rightarrow> bool" where
  "valid_budget b \<longleftrightarrow>
     0 < b_max_turns b \<and> b_max_turns b \<le> 1000
     \<and> 0 < b_max_tokens b \<and> b_max_tokens b \<le> 10000000
     \<and> 0 < b_max_elapsed_seconds b \<and> b_max_elapsed_seconds b \<le> 3600
     \<and> 0 \<le> b_turns_used b \<and> 0 \<le> b_tokens_used b
     \<and> 0 \<le> b_elapsed_milliseconds_used b \<and> b_elapsed_milliseconds_used b \<le> 3600000
     \<and> b_turns_used b \<le> b_max_turns b
     \<and> b_tokens_used b \<le> b_max_tokens b
     \<and> b_elapsed_milliseconds_used b \<le> b_max_elapsed_seconds b * 1000"

record Run =
  r_run_id :: uuid
  r_trace_id :: uuid
  r_correlation_id :: uuid
  r_idempotency_key :: string
  r_state :: WorkflowState
  r_created_at :: int
  r_updated_at :: int
  r_budget :: BudgetCounters
  r_version :: int

definition valid_run :: "Run \<Rightarrow> bool" where
  "valid_run r \<longleftrightarrow>
     uuid7 (r_run_id r) \<and> uuid7 (r_trace_id r) \<and> uuid7 (r_correlation_id r)
     \<and> idempotency_key_text (r_idempotency_key r)
     \<and> valid_budget (r_budget r) \<and> 0 < r_version r
     \<and> r_created_at r \<le> r_updated_at r"

definition Run_new ::
    "uuid \<Rightarrow> uuid \<Rightarrow> uuid \<Rightarrow> string \<Rightarrow> datetime \<Rightarrow> BudgetCounters \<Rightarrow> exc + Run" where
  "Run_new run_id trace_id correlation_id idempotency_key created_at budget =
     (case utc_field created_at of Inl e \<Rightarrow> Inl e
      | Inr t \<Rightarrow> validated valid_run
          \<lparr>r_run_id = run_id, r_trace_id = trace_id, r_correlation_id = correlation_id,
           r_idempotency_key = idempotency_key, r_state = WorkflowState.RECEIVED,
           r_created_at = t, r_updated_at = t, r_budget = budget, r_version = 1\<rparr>)"

definition transition_run :: "Run \<Rightarrow> WorkflowState \<Rightarrow> datetime \<Rightarrow> exc + Run" where
  "transition_run run next_state updated_at =
     (case validate_workflow_transition (r_state run) next_state of Inl e \<Rightarrow> Inl e
      | Inr valid_state \<Rightarrow> (case require_utc updated_at of Inl e \<Rightarrow> Inl e
      | Inr valid_time \<Rightarrow>
          if valid_time < r_updated_at run then Inl ValueError
          else validated valid_run
            (run\<lparr>r_state := valid_state, r_updated_at := valid_time,
                 r_version := r_version run + 1\<rparr>)))"

subsection \<open>Target, precondition and proposal\<close>

record ActionTarget =
  tg_resource_type :: string
  tg_resource_id :: string
  tg_region :: string
  tg_sandbox_scope :: string
  tg_required_tag_key :: string
  tg_required_tag_value :: string

definition valid_target :: "ActionTarget \<Rightarrow> bool" where
  "valid_target t \<longleftrightarrow>
     tg_resource_type t = ''AWS::EC2::Instance'' \<and> ec2_instance_id (tg_resource_id t)
     \<and> tg_region t = ''eu-central-1'' \<and> short_identifier (tg_sandbox_scope t)
     \<and> short_identifier (tg_required_tag_key t) \<and> short_identifier (tg_required_tag_value t)"

definition target_json :: "ActionTarget \<Rightarrow> json" where
  "target_json t = JObj
     [(''resource_type'', JStr (tg_resource_type t)), (''resource_id'', JStr (tg_resource_id t)),
      (''region'', JStr (tg_region t)), (''sandbox_scope'', JStr (tg_sandbox_scope t)),
      (''required_tag_key'', JStr (tg_required_tag_key t)),
      (''required_tag_value'', JStr (tg_required_tag_value t))]"

record ExpectedPrecondition =
  pc_instance_state :: ObservedInstanceState
  pc_observed_at :: int
  pc_evidence_hash :: string

definition valid_precondition :: "ExpectedPrecondition \<Rightarrow> bool" where
  "valid_precondition c \<longleftrightarrow> sha256_digest (pc_evidence_hash c)"

record ActionProposal =
  p_proposal_id :: uuid
  p_run_id :: uuid
  p_action :: Capability
  p_target :: ActionTarget
  p_expected_precondition :: ExpectedPrecondition
  p_authority :: AuthorityGate
  p_state :: ProposalState
  p_evidence_hash :: string
  p_created_at :: int

definition valid_proposal :: "ActionProposal \<Rightarrow> bool" where
  "valid_proposal p \<longleftrightarrow>
     uuid7 (p_proposal_id p) \<and> uuid7 (p_run_id p) \<and> valid_target (p_target p)
     \<and> valid_precondition (p_expected_precondition p) \<and> sha256_digest (p_evidence_hash p)
     \<and> p_action p = Capability.STOP_SANDBOX_INSTANCE
     \<and> require_capability_authority (p_action p) (p_authority p) = Inr (p_authority p)
     \<and> pc_instance_state (p_expected_precondition p) = ObservedInstanceState.RUNNING
     \<and> p_evidence_hash p = pc_evidence_hash (p_expected_precondition p)"

text \<open>A proposal never authorizes execution.\<close>

definition authorizes_execution :: "ActionProposal \<Rightarrow> bool" where
  "authorizes_execution p = False"

subsection \<open>Approval, result and acknowledgement\<close>

record Approval =
  a_proposal_id :: uuid
  a_run_id :: uuid
  a_action :: Capability
  a_target :: ActionTarget
  a_evidence_hash :: string
  a_interrupt_id :: string
  a_request_hash :: string
  a_decision :: ApprovalDecision
  a_decided_at :: int
  a_actor_session_id :: string
  a_decision_nonce :: string

definition valid_approval :: "Approval \<Rightarrow> bool" where
  "valid_approval a \<longleftrightarrow>
     uuid7 (a_proposal_id a) \<and> uuid7 (a_run_id a) \<and> valid_target (a_target a)
     \<and> sha256_digest (a_evidence_hash a) \<and> non_empty_text (a_interrupt_id a)
     \<and> sha256_digest (a_request_hash a) \<and> short_identifier (a_actor_session_id a)
     \<and> non_empty_text (a_decision_nonce a)
     \<and> 16 \<le> length (a_decision_nonce a) \<and> length (a_decision_nonce a) \<le> 256
     \<and> a_action a = Capability.STOP_SANDBOX_INSTANCE"

record ActionResult =
  ar_outcome :: ActionOutcome
  ar_observed_state :: "ObservedInstanceState option"
  ar_evidence_hash :: "string option"
  ar_failure :: "FailureDetail option"

definition valid_action_result :: "ActionResult \<Rightarrow> bool" where
  "valid_action_result a \<longleftrightarrow>
     optional sha256_digest (ar_evidence_hash a)
     \<and> (if ar_outcome a = ActionOutcome.SUCCEEDED
        then ar_observed_state a \<noteq> None \<and> ar_evidence_hash a \<noteq> None \<and> ar_failure a = None
        else ar_failure a \<noteq> None)"

record ExecutionAcknowledgement =
  k_status :: ExecutionAcknowledgementStatus
  k_proposal_id :: uuid
  k_run_id :: uuid
  k_action :: Capability
  k_target :: ActionTarget
  k_previous_state :: ObservedInstanceState
  k_current_state :: ObservedInstanceState
  k_request_reference :: "string option"
  k_acknowledged_at :: int
  k_acknowledgement_hash :: string

definition valid_acknowledgement :: "ExecutionAcknowledgement \<Rightarrow> bool" where
  "valid_acknowledgement k \<longleftrightarrow>
     k_status k = ExecutionAcknowledgementStatus.ACCEPTED
     \<and> uuid7 (k_proposal_id k) \<and> uuid7 (k_run_id k)
     \<and> k_action k = Capability.STOP_SANDBOX_INSTANCE \<and> valid_target (k_target k)
     \<and> k_previous_state k = ObservedInstanceState.RUNNING
     \<and> k_current_state k \<in> {ObservedInstanceState.STOPPING, ObservedInstanceState.STOPPED}
     \<and> optional non_empty_text (k_request_reference k)
     \<and> sha256_digest (k_acknowledgement_hash k)"

subsection \<open>Verification evidence\<close>

record VerificationEvidence =
  v_evidence_id :: uuid
  v_proposal_id :: uuid
  v_run_id :: uuid
  v_trace_id :: uuid
  v_correlation_id :: uuid
  v_disposition :: VerificationDisposition
  v_action :: Capability
  v_target :: ActionTarget
  v_observed_state :: ObservedInstanceState
  v_verified_at :: int
  v_proof_origin :: VerificationProofOrigin
  v_execution_acknowledgement_hash :: "string option"
  v_recovery_observation_hash :: "string option"
  v_observation_hash :: string
  v_request_reference :: "string option"
  v_evidence_hash :: string

definition evidence_payload :: "Platform \<Rightarrow> VerificationEvidence \<Rightarrow> json" where
  "evidence_payload L v = JObj
     ([(''action'', JStr (Capability_value (v_action v))),
       (''correlation_id'', JStr (v_correlation_id v)),
       (''disposition'', JStr (VerificationDisposition_value (v_disposition v))),
       (''observation_hash'', JStr (v_observation_hash v)),
       (''observed_state'', JStr (ObservedInstanceState_value (v_observed_state v))),
       (''proposal_id'', JStr (v_proposal_id v)),
       (''request_reference'', JOpt (v_request_reference v)),
       (''run_id'', JStr (v_run_id v)),
       (''target'', target_json (v_target v)),
       (''trace_id'', JStr (v_trace_id v)),
       (''verified_at'', JStr (isoformat L (v_verified_at v)))]
      @ (if v_proof_origin v = VerificationProofOrigin.EXECUTION_ACKNOWLEDGEMENT
         then [(''execution_acknowledgement_hash'', JOpt (v_execution_acknowledgement_hash v))]
         else [(''proof_origin'', JStr (VerificationProofOrigin_value (v_proof_origin v))),
               (''recovery_observation_hash'', JOpt (v_recovery_observation_hash v))]))"

definition proof_fields_ok :: "VerificationEvidence \<Rightarrow> bool" where
  "proof_fields_ok v \<longleftrightarrow>
     (if v_proof_origin v = VerificationProofOrigin.EXECUTION_ACKNOWLEDGEMENT
      then v_execution_acknowledgement_hash v \<noteq> None \<and> v_recovery_observation_hash v = None
      else v_recovery_observation_hash v \<noteq> None \<and> v_execution_acknowledgement_hash v = None)"

definition valid_evidence :: "Platform \<Rightarrow> VerificationEvidence \<Rightarrow> bool" where
  "valid_evidence L v \<longleftrightarrow>
     uuid7 (v_evidence_id v) \<and> uuid7 (v_proposal_id v) \<and> uuid7 (v_run_id v)
     \<and> uuid7 (v_trace_id v) \<and> uuid7 (v_correlation_id v)
     \<and> v_disposition v = VerificationDisposition.VERIFIED
     \<and> v_action v = Capability.STOP_SANDBOX_INSTANCE \<and> valid_target (v_target v)
     \<and> v_observed_state v = ObservedInstanceState.STOPPED
     \<and> optional sha256_digest (v_execution_acknowledgement_hash v)
     \<and> optional sha256_digest (v_recovery_observation_hash v)
     \<and> sha256_digest (v_observation_hash v) \<and> optional non_empty_text (v_request_reference v)
     \<and> sha256_digest (v_evidence_hash v)
     \<and> proof_fields_ok v
     \<and> v_evidence_hash v = compute_evidence_digest L (evidence_payload L v)"

definition VerificationEvidence_create ::
    "Platform \<Rightarrow> uuid \<Rightarrow> ActionProposal \<Rightarrow> Run \<Rightarrow> int \<Rightarrow> ExecutionAcknowledgement \<Rightarrow> string
     \<Rightarrow> exc + VerificationEvidence" where
  "VerificationEvidence_create L evidence_id proposal run verified_at acknowledgement observation_hash =
     (if p_run_id proposal \<noteq> r_run_id run
         \<or> k_proposal_id acknowledgement \<noteq> p_proposal_id proposal
         \<or> k_run_id acknowledgement \<noteq> r_run_id run
         \<or> k_target acknowledgement \<noteq> p_target proposal
      then Inl ValueError
      else
       let provisional =
         \<lparr>v_evidence_id = evidence_id, v_proposal_id = p_proposal_id proposal,
          v_run_id = r_run_id run, v_trace_id = r_trace_id run,
          v_correlation_id = r_correlation_id run,
          v_disposition = VerificationDisposition.VERIFIED,
          v_action = Capability.STOP_SANDBOX_INSTANCE, v_target = p_target proposal,
          v_observed_state = ObservedInstanceState.STOPPED, v_verified_at = verified_at,
          v_proof_origin = VerificationProofOrigin.EXECUTION_ACKNOWLEDGEMENT,
          v_execution_acknowledgement_hash = Some (k_acknowledgement_hash acknowledgement),
          v_recovery_observation_hash = None, v_observation_hash = observation_hash,
          v_request_reference = k_request_reference acknowledgement,
          v_evidence_hash = zero_digest\<rparr>
       in validated (valid_evidence L)
            (provisional\<lparr>v_evidence_hash :=
               compute_evidence_digest L (evidence_payload L provisional)\<rparr>))"

definition VerificationEvidence_create_from_recovery ::
    "Platform \<Rightarrow> uuid \<Rightarrow> ActionProposal \<Rightarrow> Run \<Rightarrow> int \<Rightarrow> string \<Rightarrow> exc + VerificationEvidence" where
  "VerificationEvidence_create_from_recovery L evidence_id proposal run verified_at observation_hash =
     (if p_run_id proposal \<noteq> r_run_id run then Inl ValueError
      else
       let provisional =
         \<lparr>v_evidence_id = evidence_id, v_proposal_id = p_proposal_id proposal,
          v_run_id = r_run_id run, v_trace_id = r_trace_id run,
          v_correlation_id = r_correlation_id run,
          v_disposition = VerificationDisposition.VERIFIED,
          v_action = Capability.STOP_SANDBOX_INSTANCE, v_target = p_target proposal,
          v_observed_state = ObservedInstanceState.STOPPED, v_verified_at = verified_at,
          v_proof_origin = VerificationProofOrigin.RECOVERY_READ_BACK,
          v_execution_acknowledgement_hash = None,
          v_recovery_observation_hash = Some observation_hash,
          v_observation_hash = observation_hash, v_request_reference = None,
          v_evidence_hash = zero_digest\<rparr>
       in validated (valid_evidence L)
            (provisional\<lparr>v_evidence_hash :=
               compute_evidence_digest L (evidence_payload L provisional)\<rparr>))"

subsection \<open>Idempotency records\<close>

record IdempotencyRecord =
  i_idempotency_key :: string
  i_proposal_id :: uuid
  i_action_fingerprint :: string
  i_status :: IdempotencyStatus
  i_execution_acknowledgement :: "ExecutionAcknowledgement option"
  i_action_result :: "ActionResult option"
  i_registered_at :: int
  i_completed_at :: "int option"

definition valid_idempotency :: "IdempotencyRecord \<Rightarrow> bool" where
  "valid_idempotency i \<longleftrightarrow>
     idempotency_key_text (i_idempotency_key i) \<and> uuid7 (i_proposal_id i)
     \<and> sha256_digest (i_action_fingerprint i)
     \<and> optional valid_acknowledgement (i_execution_acknowledgement i)
     \<and> optional valid_action_result (i_action_result i)
     \<and> (if i_status i = IdempotencyStatus.REGISTERED
        then i_action_result i = None \<and> i_completed_at i = None
        else i_action_result i \<noteq> None
          \<and> (case i_completed_at i of None \<Rightarrow> False | Some t \<Rightarrow> i_registered_at i \<le> t))"

subsection \<open>Audit events\<close>

record AuditEvent =
  e_event_id :: uuid
  e_run_id :: uuid
  e_type :: AuditEventType
  e_timestamp :: int
  e_source :: string
  e_tool_name :: "string option"
  e_model_id :: "string option"
  e_redacted_payload_hash :: string
  e_metadata :: "(string, string) dict"

definition SENSITIVE_TERMS :: "string list" where
  "SENSITIVE_TERMS = [''credential'', ''password'', ''secret'', ''token'']"

definition metadata_json :: "(string, string) dict \<Rightarrow> json" where
  "metadata_json m = JObj (map (\<lambda>(k, v). (k, JStr v)) m)"

definition safe_metadata :: "(string, string) dict \<Rightarrow> bool" where
  "safe_metadata m \<longleftrightarrow>
     list_all (\<lambda>(k, v). \<not> list_ex (\<lambda>term. sublist term (map lower_char k)) SENSITIVE_TERMS) m
     \<and> \<not> contains_sensitive_material (metadata_json m)"

definition valid_audit_event :: "AuditEvent \<Rightarrow> bool" where
  "valid_audit_event e \<longleftrightarrow>
     uuid7 (e_event_id e) \<and> uuid7 (e_run_id e) \<and> short_identifier (e_source e)
     \<and> optional short_identifier (e_tool_name e) \<and> optional non_empty_text (e_model_id e)
     \<and> sha256_digest (e_redacted_payload_hash e)
     \<and> list_all (\<lambda>(k, v). short_identifier k \<and> non_empty_text v) (e_metadata e)
     \<and> safe_metadata (e_metadata e)"

subsection \<open>Facts about the contracts\<close>

lemma transition_run_Inr:
  assumes "transition_run run next_state updated_at = Inr run'"
  shows "\<exists>t. updated_at = Utc t \<and> r_updated_at run \<le> t
    \<and> run' = run\<lparr>r_state := next_state, r_updated_at := t, r_version := r_version run + 1\<rparr>
    \<and> next_state \<in> ALLOWED_WORKFLOW_TRANSITIONS (r_state run) \<and> valid_run run'"
  using assms
  by (auto simp: transition_run_def validate_workflow_transition_def
      split: sum.splits if_splits)

text \<open>
  Building evidence from linked records yields a valid, linked proof exactly when its parts
  are valid: the hash is the digest of its own content.
\<close>

lemma evidence_payload_hash [simp]:
  "evidence_payload L (v\<lparr>v_evidence_hash := h\<rparr>) = evidence_payload L v"
  by (simp add: evidence_payload_def)

lemma VerificationEvidence_create_Inr:
  assumes "VerificationEvidence_create L eid p run t k h = Inr v"
  shows "valid_evidence L v \<and> v_evidence_id v = eid \<and> v_proposal_id v = p_proposal_id p
    \<and> v_run_id v = r_run_id run \<and> v_trace_id v = r_trace_id run
    \<and> v_correlation_id v = r_correlation_id run \<and> v_target v = p_target p
    \<and> v_verified_at v = t
    \<and> v_proof_origin v = VerificationProofOrigin.EXECUTION_ACKNOWLEDGEMENT
    \<and> v_execution_acknowledgement_hash v = Some (k_acknowledgement_hash k)
    \<and> p_run_id p = r_run_id run \<and> k_proposal_id k = p_proposal_id p
    \<and> k_run_id k = r_run_id run \<and> k_target k = p_target p"
  using assms by (auto simp: VerificationEvidence_create_def Let_def split: if_splits)

lemma VerificationEvidence_create_from_recovery_Inr:
  assumes "VerificationEvidence_create_from_recovery L eid p run t h = Inr v"
  shows "valid_evidence L v \<and> v_evidence_id v = eid \<and> v_proposal_id v = p_proposal_id p
    \<and> v_run_id v = r_run_id run \<and> v_trace_id v = r_trace_id run
    \<and> v_correlation_id v = r_correlation_id run \<and> v_target v = p_target p
    \<and> v_verified_at v = t
    \<and> v_proof_origin v = VerificationProofOrigin.RECOVERY_READ_BACK
    \<and> v_execution_acknowledgement_hash v = None
    \<and> p_run_id p = r_run_id run"
  using assms by (auto simp: VerificationEvidence_create_from_recovery_def Let_def split: if_splits)

end
