(* ===== verification/Local_Contracts.thy ===== *)
theory Local_Contracts
  imports Contracts
begin

text \<open>
  The contracts of the provider-neutral local workflow of \<open>nz/contracts.py\<close>: normalized
  resources, their evidence, remediation proposals and plans, and the records of one local
  human-approved mutation. Every record that carries a hash is valid only when the hash is
  the digest of its own canonical payload.
\<close>

subsection \<open>IPv4 text\<close>

text \<open>
  The validators store \<open>str(ipaddress...)\<close>, so a stored address or network is in canonical
  form: four decimal octets without leading zeros and, for a network, a prefix length with no
  host bits set.
\<close>

fun split_at :: "char \<Rightarrow> string \<Rightarrow> string list" where
  "split_at d [] = [[]]"
| "split_at d (c # cs) =
     (if c = d then [] # split_at d cs
      else (case split_at d cs of [] \<Rightarrow> [[c]] | w # ws \<Rightarrow> (c # w) # ws))"

definition decimal :: "string \<Rightarrow> nat" where
  "decimal s = foldl (\<lambda>n c. 10 * n + (code c - 48)) 0 s"

definition canonical_decimal :: "nat \<Rightarrow> string \<Rightarrow> bool" where
  "canonical_decimal m s \<longleftrightarrow> s \<noteq> [] \<and> list_all is_digit s
     \<and> (hd s \<noteq> CHR ''0'' \<or> length s = 1) \<and> length s \<le> 3 \<and> decimal s \<le> m"

definition ipv4_octets :: "string \<Rightarrow> nat list option" where
  "ipv4_octets s = (let ws = split_at CHR ''.'' s in
     if length ws = 4 \<and> list_all (canonical_decimal 255) ws then Some (map decimal ws) else None)"

definition ipv4_value :: "nat list \<Rightarrow> nat" where
  "ipv4_value os = foldl (\<lambda>n b. 256 * n + b) 0 os"

definition ipv4_address :: "string \<Rightarrow> bool" where
  "ipv4_address s \<longleftrightarrow> ipv4_octets s \<noteq> None"

definition ipv4_network :: "string \<Rightarrow> bool" where
  "ipv4_network s = (case split_at CHR ''/'' s of
     [a, p] \<Rightarrow> (case ipv4_octets a of None \<Rightarrow> False
       | Some os \<Rightarrow> canonical_decimal 32 p \<and> 2 ^ (32 - decimal p) dvd ipv4_value os)
     | _ \<Rightarrow> False)"

subsection \<open>Resources\<close>

record ResourceQuery =
  q_resource_type :: CloudResourceType
  q_resource_id :: string
  q_region :: string

fun resource_id_prefix :: "CloudResourceType \<Rightarrow> string" where
  "resource_id_prefix CloudResourceType.EC2_INSTANCE = ''i-''"
| "resource_id_prefix CloudResourceType.ELASTIC_IP = ''eipalloc-''"
| "resource_id_prefix CloudResourceType.SECURITY_GROUP = ''sg-''"

definition valid_query :: "ResourceQuery \<Rightarrow> bool" where
  "valid_query q \<longleftrightarrow> short_identifier (q_resource_id q) \<and> short_identifier (q_region q)
     \<and> aws_resource_id (resource_id_prefix (q_resource_type q)) (q_resource_id q)"

record SecurityGroupRule =
  sr_ip_protocol :: string
  sr_cidr_ipv4 :: string
  sr_from_port :: "int option"
  sr_to_port :: "int option"

definition valid_port :: "int option \<Rightarrow> bool" where
  "valid_port p = optional (\<lambda>n. 0 \<le> n \<and> n \<le> 65535) p"

definition valid_rule :: "SecurityGroupRule \<Rightarrow> bool" where
  "valid_rule r \<longleftrightarrow>
     non_empty_text (sr_ip_protocol r) \<and> non_empty_text (sr_cidr_ipv4 r)
     \<and> ipv4_network (sr_cidr_ipv4 r)
     \<and> valid_port (sr_from_port r) \<and> valid_port (sr_to_port r)
     \<and> (if sr_ip_protocol r = ''-1'' then sr_from_port r = None \<and> sr_to_port r = None
        else (case (sr_from_port r, sr_to_port r) of
            (Some f, Some t) \<Rightarrow> f \<le> t | _ \<Rightarrow> False))"

type_synonym tags = "(string, string) dict"

definition valid_tags :: "tags \<Rightarrow> bool" where
  "valid_tags m \<longleftrightarrow> dict_ok m \<and> list_all (\<lambda>(k, v). short_identifier k \<and> non_empty_text v) m"

record Ec2Resource =
  x_resource_id :: string
  x_region :: string
  x_state :: string
  x_instance_type :: string
  x_tags :: tags

record ElasticIpResource =
  y_resource_id :: string
  y_region :: string
  y_public_ip :: string
  y_association_id :: "string option"
  y_tags :: tags

record SecurityGroupResource =
  z_resource_id :: string
  z_region :: string
  z_vpc_id :: string
  z_inbound_rules :: "SecurityGroupRule list"
  z_outbound_rules :: "SecurityGroupRule list"
  z_tags :: tags

datatype CloudResource = Ec2 Ec2Resource | Eip ElasticIpResource | Sg SecurityGroupResource

fun res_type :: "CloudResource \<Rightarrow> CloudResourceType" where
  "res_type (Ec2 _) = CloudResourceType.EC2_INSTANCE"
| "res_type (Eip _) = CloudResourceType.ELASTIC_IP"
| "res_type (Sg _) = CloudResourceType.SECURITY_GROUP"

fun res_id :: "CloudResource \<Rightarrow> string" where
  "res_id (Ec2 x) = x_resource_id x"
| "res_id (Eip y) = y_resource_id y"
| "res_id (Sg z) = z_resource_id z"

fun res_region :: "CloudResource \<Rightarrow> string" where
  "res_region (Ec2 x) = x_region x"
| "res_region (Eip y) = y_region y"
| "res_region (Sg z) = z_region z"

fun res_tags :: "CloudResource \<Rightarrow> tags" where
  "res_tags (Ec2 x) = x_tags x"
| "res_tags (Eip y) = y_tags y"
| "res_tags (Sg z) = z_tags z"

fun valid_resource :: "CloudResource \<Rightarrow> bool" where
  "valid_resource (Ec2 x) \<longleftrightarrow> aws_resource_id ''i-'' (x_resource_id x)
     \<and> short_identifier (x_region x)
     \<and> x_state x \<in> {''pending'', ''running'', ''stopping'', ''stopped'', ''terminated''}
     \<and> short_identifier (x_instance_type x) \<and> valid_tags (x_tags x)"
| "valid_resource (Eip y) \<longleftrightarrow> aws_resource_id ''eipalloc-'' (y_resource_id y)
     \<and> short_identifier (y_region y) \<and> non_empty_text (y_public_ip y)
     \<and> ipv4_address (y_public_ip y)
     \<and> optional (aws_resource_id ''eipassoc-'') (y_association_id y) \<and> valid_tags (y_tags y)"
| "valid_resource (Sg z) \<longleftrightarrow> aws_resource_id ''sg-'' (z_resource_id z)
     \<and> short_identifier (z_region z) \<and> aws_resource_id ''vpc-'' (z_vpc_id z)
     \<and> list_all valid_rule (z_inbound_rules z) \<and> list_all valid_rule (z_outbound_rules z)
     \<and> valid_tags (z_tags z)"

text \<open>
  Equality of the models as Python has it: dictionaries are equal in any order of their entries,
  and a file that was sealed gives its dictionaries back in sorted order.
\<close>

definition same_dict :: "('k, 'v) dict \<Rightarrow> ('k, 'v) dict \<Rightarrow> bool" where
  "same_dict a b \<longleftrightarrow> length a = length b \<and> list_all (\<lambda>(k, v). dget b k = Some v) a"

fun same_resource :: "CloudResource \<Rightarrow> CloudResource \<Rightarrow> bool" where
  "same_resource (Ec2 a) (Ec2 b) \<longleftrightarrow> a\<lparr>x_tags := []\<rparr> = b\<lparr>x_tags := []\<rparr> \<and> same_dict (x_tags a) (x_tags b)"
| "same_resource (Eip a) (Eip b) \<longleftrightarrow> a\<lparr>y_tags := []\<rparr> = b\<lparr>y_tags := []\<rparr> \<and> same_dict (y_tags a) (y_tags b)"
| "same_resource (Sg a) (Sg b) \<longleftrightarrow> a\<lparr>z_tags := []\<rparr> = b\<lparr>z_tags := []\<rparr> \<and> same_dict (z_tags a) (z_tags b)"
| "same_resource _ _ \<longleftrightarrow> False"

fun same_optional_resource :: "CloudResource option \<Rightarrow> CloudResource option \<Rightarrow> bool" where
  "same_optional_resource None None \<longleftrightarrow> True"
| "same_optional_resource (Some a) (Some b) \<longleftrightarrow> same_resource a b"
| "same_optional_resource _ _ \<longleftrightarrow> False"

definition tags_json :: "tags \<Rightarrow> json" where
  "tags_json m = JObj (map (\<lambda>(k, v). (k, JStr v)) m)"

fun JOptInt :: "int option \<Rightarrow> json" where
  "JOptInt None = JNull"
| "JOptInt (Some n) = JInt n"

definition rule_json :: "SecurityGroupRule \<Rightarrow> json" where
  "rule_json r = JObj
     [(''ip_protocol'', JStr (sr_ip_protocol r)), (''cidr_ipv4'', JStr (sr_cidr_ipv4 r)),
      (''from_port'', JOptInt (sr_from_port r)), (''to_port'', JOptInt (sr_to_port r))]"

fun resource_json :: "CloudResource \<Rightarrow> json" where
  "resource_json (Ec2 x) = JObj
     [(''resource_type'', JStr (CloudResourceType_value CloudResourceType.EC2_INSTANCE)),
      (''resource_id'', JStr (x_resource_id x)), (''region'', JStr (x_region x)),
      (''state'', JStr (x_state x)), (''instance_type'', JStr (x_instance_type x)),
      (''tags'', tags_json (x_tags x))]"
| "resource_json (Eip y) = JObj
     [(''resource_type'', JStr (CloudResourceType_value CloudResourceType.ELASTIC_IP)),
      (''resource_id'', JStr (y_resource_id y)), (''region'', JStr (y_region y)),
      (''public_ip'', JStr (y_public_ip y)), (''association_id'', JOpt (y_association_id y)),
      (''tags'', tags_json (y_tags y))]"
| "resource_json (Sg z) = JObj
     [(''resource_type'', JStr (CloudResourceType_value CloudResourceType.SECURITY_GROUP)),
      (''resource_id'', JStr (z_resource_id z)), (''region'', JStr (z_region z)),
      (''vpc_id'', JStr (z_vpc_id z)),
      (''inbound_rules'', JArr (map rule_json (z_inbound_rules z))),
      (''outbound_rules'', JArr (map rule_json (z_outbound_rules z))),
      (''tags'', tags_json (z_tags z))]"

subsection \<open>Resource evidence\<close>

record ResourceProvenance =
  pv_run_id :: uuid
  pv_trace_id :: uuid
  pv_correlation_id :: uuid
  pv_source :: string
  pv_adapter :: string
  pv_resource_type :: CloudResourceType
  pv_resource_id :: string
  pv_observed_fields :: "string list"
  pv_observed_at :: int

definition valid_provenance :: "ResourceProvenance \<Rightarrow> bool" where
  "valid_provenance p \<longleftrightarrow>
     uuid7 (pv_run_id p) \<and> uuid7 (pv_trace_id p) \<and> uuid7 (pv_correlation_id p)
     \<and> pv_source p = ''query_resource'' \<and> short_identifier (pv_adapter p)
     \<and> short_identifier (pv_resource_id p)
     \<and> pv_observed_fields p \<noteq> [] \<and> list_all non_empty_text (pv_observed_fields p)
     \<and> sorted_wrt (<) (pv_observed_fields p)"

definition provenance_json :: "Platform \<Rightarrow> ResourceProvenance \<Rightarrow> json" where
  "provenance_json L p = JObj
     [(''run_id'', JStr (pv_run_id p)), (''trace_id'', JStr (pv_trace_id p)),
      (''correlation_id'', JStr (pv_correlation_id p)), (''source'', JStr (pv_source p)),
      (''adapter'', JStr (pv_adapter p)),
      (''resource_type'', JStr (CloudResourceType_value (pv_resource_type p))),
      (''resource_id'', JStr (pv_resource_id p)),
      (''observed_fields'', JArr (map JStr (pv_observed_fields p))),
      (''observed_at'', JStr (json_datetime L (pv_observed_at p)))]"

record ResourceEvidence =
  re_run_id :: uuid
  re_trace_id :: uuid
  re_correlation_id :: uuid
  re_resource :: CloudResource
  re_findings :: "CloudFinding list"
  re_provenance :: ResourceProvenance
  re_observed_at :: int
  re_authority :: AuthorityGate
  re_evidence_hash :: string

definition resource_evidence_payload :: "Platform \<Rightarrow> ResourceEvidence \<Rightarrow> json" where
  "resource_evidence_payload L e = JObj
     [(''authority'', JStr (AuthorityGate_value (re_authority e))),
      (''correlation_id'', JStr (re_correlation_id e)),
      (''findings'', JArr (map (JStr \<circ> CloudFinding_value) (re_findings e))),
      (''observed_at'', JStr (isoformat L (re_observed_at e))),
      (''provenance'', provenance_json L (re_provenance e)),
      (''resource'', resource_json (re_resource e)),
      (''run_id'', JStr (re_run_id e)),
      (''trace_id'', JStr (re_trace_id e))]"

definition provenance_bound :: "ResourceEvidence \<Rightarrow> bool" where
  "provenance_bound e \<longleftrightarrow> (let p = re_provenance e in
     re_run_id e = pv_run_id p \<and> re_trace_id e = pv_trace_id p
     \<and> re_correlation_id e = pv_correlation_id p
     \<and> res_type (re_resource e) = pv_resource_type p
     \<and> res_id (re_resource e) = pv_resource_id p \<and> re_observed_at e = pv_observed_at p)"

definition valid_resource_evidence :: "Platform \<Rightarrow> ResourceEvidence \<Rightarrow> bool" where
  "valid_resource_evidence L e \<longleftrightarrow>
     uuid7 (re_run_id e) \<and> uuid7 (re_trace_id e) \<and> uuid7 (re_correlation_id e)
     \<and> valid_resource (re_resource e) \<and> re_findings e \<noteq> []
     \<and> valid_provenance (re_provenance e) \<and> re_authority e = AuthorityGate.AUTO
     \<and> sha256_digest (re_evidence_hash e)
     \<and> provenance_bound e
     \<and> (CloudFinding.CLEAN \<in> set (re_findings e) \<longrightarrow> re_findings e = [CloudFinding.CLEAN])
     \<and> sorted_wrt (\<lambda>a b. CloudFinding_value a < CloudFinding_value b) (re_findings e)
     \<and> re_evidence_hash e = compute_evidence_digest L (resource_evidence_payload L e)"

definition stable_fingerprint :: "Platform \<Rightarrow> ResourceEvidence \<Rightarrow> string" where
  "stable_fingerprint L e = compute_evidence_digest L (JObj
     [(''findings'', JArr (map (JStr \<circ> CloudFinding_value) (re_findings e))),
      (''resource'', resource_json (re_resource e))])"

definition ResourceEvidence_create ::
    "Platform \<Rightarrow> Run \<Rightarrow> CloudResource \<Rightarrow> CloudFinding list \<Rightarrow> ResourceProvenance \<Rightarrow> int
     \<Rightarrow> exc + ResourceEvidence" where
  "ResourceEvidence_create L run resource findings provenance observed_at =
     (let provisional = \<lparr>re_run_id = r_run_id run, re_trace_id = r_trace_id run,
        re_correlation_id = r_correlation_id run, re_resource = resource,
        re_findings = findings, re_provenance = provenance, re_observed_at = observed_at,
        re_authority = AuthorityGate.AUTO, re_evidence_hash = zero_digest\<rparr>
      in validated (valid_resource_evidence L) (provisional\<lparr>re_evidence_hash :=
           compute_evidence_digest L (resource_evidence_payload L provisional)\<rparr>))"

subsection \<open>Remediation proposals and plans\<close>

record RemediationProposal =
  rp_proposal_id :: uuid
  rp_run_id :: uuid
  rp_correlation_id :: uuid
  rp_operation_type :: RemediationOperation
  rp_target_resource_type :: CloudResourceType
  rp_target_resource_id :: string
  rp_normalized_parameters :: "(string, json) dict"
  rp_authority_class :: AuthorityGate
  rp_evidence_hash :: string
  rp_evidence_fingerprint :: string
  rp_risk_summary :: string
  rp_created_at :: int
  rp_expires_at :: int
  rp_proposal_hash :: string
  rp_status :: ProposalState
  rp_version :: int

fun operation_policy :: "RemediationOperation \<Rightarrow> CloudResourceType \<times> AuthorityGate" where
  "operation_policy RemediationOperation.RELEASE_ELASTIC_IP =
     (CloudResourceType.ELASTIC_IP, AuthorityGate.PLAN_AND_CONFIRM)"
| "operation_policy RemediationOperation.REVOKE_PUBLIC_INGRESS =
     (CloudResourceType.SECURITY_GROUP, AuthorityGate.PLAN_AND_CONFIRM)"
| "operation_policy RemediationOperation.APPLY_REQUIRED_TAGS =
     (CloudResourceType.EC2_INSTANCE, AuthorityGate.NEVER_AUTONOMOUS)"

definition action_payload :: "RemediationProposal \<Rightarrow> json" where
  "action_payload p = JObj
     [(''authority_class'', JStr (AuthorityGate_value (rp_authority_class p))),
      (''evidence_fingerprint'', JStr (rp_evidence_fingerprint p)),
      (''normalized_parameters'', JObj (rp_normalized_parameters p)),
      (''operation_type'', JStr (RemediationOperation_value (rp_operation_type p))),
      (''target_resource_id'', JStr (rp_target_resource_id p)),
      (''target_resource_type'',
         JStr (CloudResourceType_value (rp_target_resource_type p)))]"

definition valid_remediation_proposal :: "Platform \<Rightarrow> RemediationProposal \<Rightarrow> bool" where
  "valid_remediation_proposal L p \<longleftrightarrow>
     uuid7 (rp_proposal_id p) \<and> uuid7 (rp_run_id p) \<and> uuid7 (rp_correlation_id p)
     \<and> short_identifier (rp_target_resource_id p)
     \<and> rp_normalized_parameters p \<noteq> [] \<and> dict_ok (rp_normalized_parameters p)
     \<and> list_all (short_identifier \<circ> fst) (rp_normalized_parameters p)
     \<and> sha256_digest (rp_evidence_hash p) \<and> sha256_digest (rp_evidence_fingerprint p)
     \<and> non_empty_text (rp_risk_summary p) \<and> sha256_digest (rp_proposal_hash p)
     \<and> 0 < rp_version p
     \<and> (rp_target_resource_type p, rp_authority_class p) = operation_policy (rp_operation_type p)
     \<and> rp_created_at p < rp_expires_at p
     \<and> rp_proposal_hash p = compute_evidence_digest L (action_payload p)"

definition RemediationProposal_create ::
    "Platform \<Rightarrow> uuid \<Rightarrow> ResourceEvidence \<Rightarrow> RemediationOperation \<Rightarrow> (string, json) dict
     \<Rightarrow> AuthorityGate \<Rightarrow> string \<Rightarrow> datetime \<Rightarrow> datetime \<Rightarrow> exc + RemediationProposal" where
  "RemediationProposal_create L proposal_id evidence operation_type normalized_parameters
       authority_class risk_summary created_at expires_at =
     (case utc_field created_at of Inl e \<Rightarrow> Inl e
      | Inr created \<Rightarrow> (case utc_field expires_at of Inl e \<Rightarrow> Inl e
      | Inr expires \<Rightarrow>
        (let provisional =
           \<lparr>rp_proposal_id = proposal_id, rp_run_id = re_run_id evidence,
            rp_correlation_id = re_correlation_id evidence,
            rp_operation_type = operation_type,
            rp_target_resource_type = res_type (re_resource evidence),
            rp_target_resource_id = res_id (re_resource evidence),
            rp_normalized_parameters = normalized_parameters,
            rp_authority_class = authority_class,
            rp_evidence_hash = re_evidence_hash evidence,
            rp_evidence_fingerprint = stable_fingerprint L evidence,
            rp_risk_summary = risk_summary, rp_created_at = created, rp_expires_at = expires,
            rp_proposal_hash = zero_digest, rp_status = ProposalState.PROPOSED,
            rp_version = 1\<rparr>
         in validated (valid_remediation_proposal L) (provisional\<lparr>rp_proposal_hash :=
              compute_evidence_digest L (action_payload provisional)\<rparr>))))"

record RemediationPlan =
  pl_disposition :: PlanDisposition
  pl_evidence_hash :: string
  pl_proposal :: "RemediationProposal option"
  pl_reason :: string

definition valid_plan :: "RemediationPlan \<Rightarrow> bool" where
  "valid_plan p \<longleftrightarrow> sha256_digest (pl_evidence_hash p) \<and> non_empty_text (pl_reason p)
     \<and> (if pl_disposition p = PlanDisposition.NO_ACTION then pl_proposal p = None
        else (case pl_proposal p of None \<Rightarrow> False
          | Some q \<Rightarrow> rp_evidence_hash q = pl_evidence_hash p
            \<and> (pl_disposition p = PlanDisposition.PROPOSAL
                 \<longrightarrow> rp_authority_class q = AuthorityGate.PLAN_AND_CONFIRM)
            \<and> (pl_disposition p = PlanDisposition.NON_EXECUTABLE_RECOMMENDATION
                 \<longrightarrow> rp_authority_class q = AuthorityGate.NEVER_AUTONOMOUS)))"

subsection \<open>Local approval\<close>

record LocalApprovalRequestRecord =
  lq_request_id :: uuid
  lq_proposal_id :: uuid
  lq_run_id :: uuid
  lq_correlation_id :: uuid
  lq_proposal_hash :: string
  lq_evidence_hash :: string
  lq_proposal_version :: int
  lq_operation_type :: RemediationOperation
  lq_target_resource_type :: CloudResourceType
  lq_target_resource_id :: string
  lq_actor_session_id :: string
  lq_decision_nonce_hash :: string
  lq_requested_at :: int
  lq_expires_at :: int
  lq_request_hash :: string

definition request_payload :: "Platform \<Rightarrow> LocalApprovalRequestRecord \<Rightarrow> json" where
  "request_payload L q = JObj
     [(''actor_session_id'', JStr (lq_actor_session_id q)),
      (''correlation_id'', JStr (lq_correlation_id q)),
      (''decision_nonce_hash'', JStr (lq_decision_nonce_hash q)),
      (''evidence_hash'', JStr (lq_evidence_hash q)),
      (''expires_at'', JStr (isoformat L (lq_expires_at q))),
      (''operation_type'', JStr (RemediationOperation_value (lq_operation_type q))),
      (''proposal_hash'', JStr (lq_proposal_hash q)),
      (''proposal_id'', JStr (lq_proposal_id q)),
      (''proposal_version'', JInt (lq_proposal_version q)),
      (''request_id'', JStr (lq_request_id q)),
      (''run_id'', JStr (lq_run_id q)),
      (''target_resource_id'', JStr (lq_target_resource_id q)),
      (''target_resource_type'', JStr (CloudResourceType_value (lq_target_resource_type q)))]"

definition valid_local_request :: "Platform \<Rightarrow> LocalApprovalRequestRecord \<Rightarrow> bool" where
  "valid_local_request L q \<longleftrightarrow>
     uuid7 (lq_request_id q) \<and> uuid7 (lq_proposal_id q) \<and> uuid7 (lq_run_id q)
     \<and> uuid7 (lq_correlation_id q) \<and> sha256_digest (lq_proposal_hash q)
     \<and> sha256_digest (lq_evidence_hash q) \<and> 0 < lq_proposal_version q
     \<and> short_identifier (lq_target_resource_id q) \<and> short_identifier (lq_actor_session_id q)
     \<and> sha256_digest (lq_decision_nonce_hash q) \<and> sha256_digest (lq_request_hash q)
     \<and> lq_requested_at q < lq_expires_at q
     \<and> lq_request_hash q = compute_evidence_digest L (request_payload L q)"

definition LocalApprovalRequestRecord_create ::
    "Platform \<Rightarrow> uuid \<Rightarrow> RemediationProposal \<Rightarrow> string \<Rightarrow> string \<Rightarrow> int \<Rightarrow> int
     \<Rightarrow> exc + LocalApprovalRequestRecord" where
  "LocalApprovalRequestRecord_create L request_id proposal actor_session_id
       decision_nonce_hash requested_at expires_at =
     (if rp_authority_class proposal \<noteq> AuthorityGate.PLAN_AND_CONFIRM then Inl ValueError
      else if rp_status proposal \<noteq> ProposalState.AWAITING_APPROVAL then Inl ValueError
      else if expires_at > rp_expires_at proposal then Inl ValueError
      else
       let provisional =
         \<lparr>lq_request_id = request_id, lq_proposal_id = rp_proposal_id proposal,
          lq_run_id = rp_run_id proposal, lq_correlation_id = rp_correlation_id proposal,
          lq_proposal_hash = rp_proposal_hash proposal,
          lq_evidence_hash = rp_evidence_hash proposal,
          lq_proposal_version = rp_version proposal,
          lq_operation_type = rp_operation_type proposal,
          lq_target_resource_type = rp_target_resource_type proposal,
          lq_target_resource_id = rp_target_resource_id proposal,
          lq_actor_session_id = actor_session_id,
          lq_decision_nonce_hash = decision_nonce_hash, lq_requested_at = requested_at,
          lq_expires_at = expires_at, lq_request_hash = zero_digest\<rparr>
       in validated (valid_local_request L) (provisional\<lparr>lq_request_hash :=
            compute_evidence_digest L (request_payload L provisional)\<rparr>))"

record LocalApprovalDecisionRecord =
  la_request_id :: uuid
  la_proposal_id :: uuid
  la_run_id :: uuid
  la_request_hash :: string
  la_proposal_hash :: string
  la_evidence_hash :: string
  la_proposal_version :: int
  la_decision :: ApprovalDecision
  la_actor_session_id :: string
  la_decision_nonce_hash :: string
  la_decided_at :: int
  la_decision_hash :: string

definition decision_payload :: "Platform \<Rightarrow> LocalApprovalDecisionRecord \<Rightarrow> json" where
  "decision_payload L a = JObj
     [(''actor_session_id'', JStr (la_actor_session_id a)),
      (''decided_at'', JStr (isoformat L (la_decided_at a))),
      (''decision'', JStr (ApprovalDecision_value (la_decision a))),
      (''decision_nonce_hash'', JStr (la_decision_nonce_hash a)),
      (''evidence_hash'', JStr (la_evidence_hash a)),
      (''proposal_hash'', JStr (la_proposal_hash a)),
      (''proposal_id'', JStr (la_proposal_id a)),
      (''proposal_version'', JInt (la_proposal_version a)),
      (''request_hash'', JStr (la_request_hash a)),
      (''request_id'', JStr (la_request_id a)),
      (''run_id'', JStr (la_run_id a))]"

definition valid_local_decision :: "Platform \<Rightarrow> LocalApprovalDecisionRecord \<Rightarrow> bool" where
  "valid_local_decision L a \<longleftrightarrow>
     uuid7 (la_request_id a) \<and> uuid7 (la_proposal_id a) \<and> uuid7 (la_run_id a)
     \<and> sha256_digest (la_request_hash a) \<and> sha256_digest (la_proposal_hash a)
     \<and> sha256_digest (la_evidence_hash a) \<and> 0 < la_proposal_version a
     \<and> short_identifier (la_actor_session_id a) \<and> sha256_digest (la_decision_nonce_hash a)
     \<and> sha256_digest (la_decision_hash a)
     \<and> la_decision_hash a = compute_evidence_digest L (decision_payload L a)"

definition LocalApprovalDecisionRecord_create ::
    "Platform \<Rightarrow> LocalApprovalRequestRecord \<Rightarrow> ApprovalDecision \<Rightarrow> datetime
     \<Rightarrow> exc + LocalApprovalDecisionRecord" where
  "LocalApprovalDecisionRecord_create L request decision decided_at =
     (case utc_field decided_at of Inl e \<Rightarrow> Inl e
      | Inr decided \<Rightarrow>
       (let provisional =
          \<lparr>la_request_id = lq_request_id request, la_proposal_id = lq_proposal_id request,
           la_run_id = lq_run_id request, la_request_hash = lq_request_hash request,
           la_proposal_hash = lq_proposal_hash request,
           la_evidence_hash = lq_evidence_hash request,
           la_proposal_version = lq_proposal_version request, la_decision = decision,
           la_actor_session_id = lq_actor_session_id request,
           la_decision_nonce_hash = lq_decision_nonce_hash request,
           la_decided_at = decided, la_decision_hash = zero_digest\<rparr>
        in validated (valid_local_decision L) (provisional\<lparr>la_decision_hash :=
             compute_evidence_digest L (decision_payload L provisional)\<rparr>)))"

end
