(* ===== verification/Checkpoints.thy ===== *)
theory Checkpoints
  imports Local_Contracts
begin

text \<open>
  The write-before-execute intent, the mutation receipt and the read-back proof of a local
  mutation, and the checkpoint that binds them to their proposal and approval
  (\<open>nz/contracts.py\<close>). The checkpoint validator is a chain of bindings: each record is
  accepted only beside the record it depends on, with the same identities and hashes.
\<close>

subsection \<open>Intent\<close>

record LocalExecutionIntent =
  li_run_id :: uuid
  li_proposal_id :: uuid
  li_proposal_hash :: string
  li_evidence_hash :: string
  li_decision_hash :: string
  li_operation_type :: RemediationOperation
  li_target_resource_type :: CloudResourceType
  li_target_resource_id :: string
  li_idempotency_key :: string
  li_registered_at :: int
  li_intent_hash :: string

definition intent_payload :: "Platform \<Rightarrow> LocalExecutionIntent \<Rightarrow> json" where
  "intent_payload L i = JObj
     [(''decision_hash'', JStr (li_decision_hash i)),
      (''evidence_hash'', JStr (li_evidence_hash i)),
      (''idempotency_key'', JStr (li_idempotency_key i)),
      (''operation_type'', JStr (RemediationOperation_value (li_operation_type i))),
      (''proposal_hash'', JStr (li_proposal_hash i)),
      (''proposal_id'', JStr (li_proposal_id i)),
      (''registered_at'', JStr (isoformat L (li_registered_at i))),
      (''run_id'', JStr (li_run_id i)),
      (''target_resource_id'', JStr (li_target_resource_id i)),
      (''target_resource_type'', JStr (CloudResourceType_value (li_target_resource_type i)))]"

definition valid_intent :: "Platform \<Rightarrow> LocalExecutionIntent \<Rightarrow> bool" where
  "valid_intent L i \<longleftrightarrow>
     uuid7 (li_run_id i) \<and> uuid7 (li_proposal_id i) \<and> sha256_digest (li_proposal_hash i)
     \<and> sha256_digest (li_evidence_hash i) \<and> sha256_digest (li_decision_hash i)
     \<and> short_identifier (li_target_resource_id i)
     \<and> idempotency_key_text (li_idempotency_key i) \<and> sha256_digest (li_intent_hash i)
     \<and> li_operation_type i \<noteq> RemediationOperation.APPLY_REQUIRED_TAGS
     \<and> li_intent_hash i = compute_evidence_digest L (intent_payload L i)"

definition LocalExecutionIntent_create ::
    "Platform \<Rightarrow> RemediationProposal \<Rightarrow> LocalApprovalDecisionRecord \<Rightarrow> datetime
     \<Rightarrow> exc + LocalExecutionIntent" where
  "LocalExecutionIntent_create L proposal approval registered_at =
     (if la_decision approval \<noteq> ApprovalDecision.APPROVED then Inl ValueError
      else if la_proposal_id approval \<noteq> rp_proposal_id proposal
         \<or> la_run_id approval \<noteq> rp_run_id proposal
         \<or> la_proposal_hash approval \<noteq> rp_proposal_hash proposal
         \<or> la_evidence_hash approval \<noteq> rp_evidence_hash proposal
         \<or> la_proposal_version approval \<noteq> rp_version proposal then Inl ValueError
      else (case utc_field registered_at of Inl e \<Rightarrow> Inl e
       | Inr registered \<Rightarrow>
         (let provisional =
            \<lparr>li_run_id = rp_run_id proposal, li_proposal_id = rp_proposal_id proposal,
             li_proposal_hash = rp_proposal_hash proposal,
             li_evidence_hash = rp_evidence_hash proposal,
             li_decision_hash = la_decision_hash approval,
             li_operation_type = rp_operation_type proposal,
             li_target_resource_type = rp_target_resource_type proposal,
             li_target_resource_id = rp_target_resource_id proposal,
             li_idempotency_key = ''local-exec:'' @ rp_proposal_hash proposal,
             li_registered_at = registered, li_intent_hash = zero_digest\<rparr>
          in validated (valid_intent L) (provisional\<lparr>li_intent_hash :=
               compute_evidence_digest L (intent_payload L provisional)\<rparr>))))"

subsection \<open>Receipt\<close>

record LocalExecutionReceipt =
  lr_run_id :: uuid
  lr_proposal_id :: uuid
  lr_proposal_hash :: string
  lr_evidence_hash :: string
  lr_decision_hash :: string
  lr_intent_hash :: string
  lr_idempotency_key :: string
  lr_operation_type :: RemediationOperation
  lr_target_resource_type :: CloudResourceType
  lr_target_resource_id :: string
  lr_before_resource :: CloudResource
  lr_after_resource :: "CloudResource option"
  lr_executed_at :: int
  lr_receipt_hash :: string

definition optional_resource_json :: "CloudResource option \<Rightarrow> json" where
  "optional_resource_json r = (case r of None \<Rightarrow> JNull | Some x \<Rightarrow> resource_json x)"

definition receipt_payload :: "Platform \<Rightarrow> LocalExecutionReceipt \<Rightarrow> json" where
  "receipt_payload L r = JObj
     [(''after_resource'', optional_resource_json (lr_after_resource r)),
      (''before_resource'', resource_json (lr_before_resource r)),
      (''decision_hash'', JStr (lr_decision_hash r)),
      (''evidence_hash'', JStr (lr_evidence_hash r)),
      (''executed_at'', JStr (isoformat L (lr_executed_at r))),
      (''idempotency_key'', JStr (lr_idempotency_key r)),
      (''intent_hash'', JStr (lr_intent_hash r)),
      (''operation_type'', JStr (RemediationOperation_value (lr_operation_type r))),
      (''proposal_hash'', JStr (lr_proposal_hash r)),
      (''proposal_id'', JStr (lr_proposal_id r)),
      (''run_id'', JStr (lr_run_id r)),
      (''target_resource_id'', JStr (lr_target_resource_id r)),
      (''target_resource_type'', JStr (CloudResourceType_value (lr_target_resource_type r)))]"

text \<open>
  The validator's walk \<open>any(rule == expected for rule in iter)\<close> consumes the iterator up to and
  including the first equal rule.
\<close>

fun remaining_after :: "'a \<Rightarrow> 'a list \<Rightarrow> 'a list option" where
  "remaining_after x [] = None"
| "remaining_after x (y # ys) = (if y = x then Some ys else remaining_after x ys)"

fun ordered_subset :: "'a list \<Rightarrow> 'a list \<Rightarrow> bool" where
  "ordered_subset [] before = True"
| "ordered_subset (x # xs) before = (case remaining_after x before of
     None \<Rightarrow> False | Some rest \<Rightarrow> ordered_subset xs rest)"

fun mutation_effect_ok ::
    "RemediationOperation \<Rightarrow> CloudResource \<Rightarrow> CloudResource option \<Rightarrow> bool" where
  "mutation_effect_ok RemediationOperation.RELEASE_ELASTIC_IP (Eip y) after \<longleftrightarrow>
     y_association_id y = None \<and> after = None"
| "mutation_effect_ok RemediationOperation.REVOKE_PUBLIC_INGRESS (Sg b) (Some (Sg a)) \<longleftrightarrow>
     z_resource_id a = z_resource_id b \<and> z_region a = z_region b \<and> z_vpc_id a = z_vpc_id b
     \<and> z_outbound_rules a = z_outbound_rules b \<and> same_dict (z_tags a) (z_tags b)
     \<and> length (z_inbound_rules a) < length (z_inbound_rules b)
     \<and> ordered_subset (z_inbound_rules a) (z_inbound_rules b)"
| "mutation_effect_ok _ _ _ = False"

definition valid_receipt :: "Platform \<Rightarrow> LocalExecutionReceipt \<Rightarrow> bool" where
  "valid_receipt L r \<longleftrightarrow>
     uuid7 (lr_run_id r) \<and> uuid7 (lr_proposal_id r) \<and> sha256_digest (lr_proposal_hash r)
     \<and> sha256_digest (lr_evidence_hash r) \<and> sha256_digest (lr_decision_hash r)
     \<and> sha256_digest (lr_intent_hash r) \<and> idempotency_key_text (lr_idempotency_key r)
     \<and> short_identifier (lr_target_resource_id r)
     \<and> valid_resource (lr_before_resource r) \<and> optional valid_resource (lr_after_resource r)
     \<and> sha256_digest (lr_receipt_hash r)
     \<and> res_type (lr_before_resource r) = lr_target_resource_type r
     \<and> res_id (lr_before_resource r) = lr_target_resource_id r
     \<and> mutation_effect_ok (lr_operation_type r) (lr_before_resource r) (lr_after_resource r)
     \<and> lr_receipt_hash r = compute_evidence_digest L (receipt_payload L r)"

subsection \<open>Read-back proof\<close>

record LocalVerificationEvidence =
  lv_run_id :: uuid
  lv_proposal_id :: uuid
  lv_receipt_hash :: string
  lv_operation_type :: RemediationOperation
  lv_target_resource_type :: CloudResourceType
  lv_target_resource_id :: string
  lv_observed_absent :: bool
  lv_observed_resource :: "CloudResource option"
  lv_verified_at :: int
  lv_verification_hash :: string

definition verification_payload :: "Platform \<Rightarrow> LocalVerificationEvidence \<Rightarrow> json" where
  "verification_payload L v = JObj
     [(''observed_absent'', JBool (lv_observed_absent v)),
      (''observed_resource'', optional_resource_json (lv_observed_resource v)),
      (''operation_type'', JStr (RemediationOperation_value (lv_operation_type v))),
      (''proposal_id'', JStr (lv_proposal_id v)),
      (''receipt_hash'', JStr (lv_receipt_hash v)),
      (''run_id'', JStr (lv_run_id v)),
      (''target_resource_id'', JStr (lv_target_resource_id v)),
      (''target_resource_type'', JStr (CloudResourceType_value (lv_target_resource_type v))),
      (''verified_at'', JStr (isoformat L (lv_verified_at v)))]"

definition observation_ok :: "LocalVerificationEvidence \<Rightarrow> bool" where
  "observation_ok v = (case lv_operation_type v of
     RemediationOperation.RELEASE_ELASTIC_IP \<Rightarrow>
       lv_observed_absent v \<and> lv_observed_resource v = None
   | RemediationOperation.REVOKE_PUBLIC_INGRESS \<Rightarrow>
       \<not> lv_observed_absent v
       \<and> (case lv_observed_resource v of
            Some (Sg z) \<Rightarrow> z_resource_id z = lv_target_resource_id v
              \<and> CloudResourceType.SECURITY_GROUP = lv_target_resource_type v
          | _ \<Rightarrow> False)
   | RemediationOperation.APPLY_REQUIRED_TAGS \<Rightarrow> False)"

definition valid_local_verification :: "Platform \<Rightarrow> LocalVerificationEvidence \<Rightarrow> bool" where
  "valid_local_verification L v \<longleftrightarrow>
     uuid7 (lv_run_id v) \<and> uuid7 (lv_proposal_id v) \<and> sha256_digest (lv_receipt_hash v)
     \<and> short_identifier (lv_target_resource_id v)
     \<and> optional valid_resource (lv_observed_resource v)
     \<and> sha256_digest (lv_verification_hash v)
     \<and> observation_ok v
     \<and> lv_verification_hash v = compute_evidence_digest L (verification_payload L v)"

subsection \<open>Checkpoint\<close>

record Checkpoint =
  c_run_id :: uuid
  c_last_safe_state :: WorkflowState
  c_resume_metadata :: "(string, json) dict"
  c_tool_result_hashes :: "(string, string) dict"
  c_resource_evidence :: "ResourceEvidence option"
  c_remediation_proposal :: "RemediationProposal option"
  c_local_approval_request :: "LocalApprovalRequestRecord option"
  c_local_approval :: "LocalApprovalDecisionRecord option"
  c_local_execution_intent :: "LocalExecutionIntent option"
  c_local_execution_receipt :: "LocalExecutionReceipt option"
  c_local_verification :: "LocalVerificationEvidence option"
  c_created_at :: int
  c_version :: int

definition proposal_bound ::
    "uuid \<Rightarrow> ResourceEvidence option \<Rightarrow> RemediationProposal \<Rightarrow> bool" where
  "proposal_bound run_id evidence p = (case evidence of None \<Rightarrow> False
     | Some e \<Rightarrow> rp_run_id p = run_id \<and> re_run_id e = run_id
        \<and> rp_correlation_id p = re_correlation_id e \<and> rp_evidence_hash p = re_evidence_hash e)"

definition request_bound ::
    "uuid \<Rightarrow> RemediationProposal option \<Rightarrow> LocalApprovalRequestRecord \<Rightarrow> bool" where
  "request_bound run_id proposal q = (case proposal of None \<Rightarrow> False
     | Some p \<Rightarrow> lq_run_id q = run_id \<and> lq_correlation_id q = rp_correlation_id p
        \<and> lq_proposal_id q = rp_proposal_id p \<and> lq_proposal_hash q = rp_proposal_hash p
        \<and> lq_evidence_hash q = rp_evidence_hash p \<and> lq_proposal_version q = rp_version p
        \<and> lq_operation_type q = rp_operation_type p
        \<and> lq_target_resource_type q = rp_target_resource_type p
        \<and> lq_target_resource_id q = rp_target_resource_id p)"

definition approval_bound ::
    "uuid \<Rightarrow> LocalApprovalRequestRecord option \<Rightarrow> LocalApprovalDecisionRecord \<Rightarrow> bool" where
  "approval_bound run_id request a = (case request of None \<Rightarrow> False
     | Some q \<Rightarrow> la_run_id a = run_id \<and> la_request_id a = lq_request_id q
        \<and> la_request_hash a = lq_request_hash q \<and> la_proposal_id a = lq_proposal_id q
        \<and> la_proposal_hash a = lq_proposal_hash q \<and> la_evidence_hash a = lq_evidence_hash q
        \<and> la_proposal_version a = lq_proposal_version q
        \<and> la_actor_session_id a = lq_actor_session_id q
        \<and> la_decision_nonce_hash a = lq_decision_nonce_hash q
        \<and> lq_requested_at q \<le> la_decided_at a \<and> la_decided_at a \<le> lq_expires_at q)"

definition intent_bound ::
    "uuid \<Rightarrow> RemediationProposal option \<Rightarrow> LocalApprovalDecisionRecord option
     \<Rightarrow> LocalExecutionIntent \<Rightarrow> bool" where
  "intent_bound run_id proposal approval i = (case (proposal, approval) of
     (Some p, Some a) \<Rightarrow> la_decision a = ApprovalDecision.APPROVED
        \<and> li_run_id i = run_id \<and> li_proposal_id i = rp_proposal_id p
        \<and> li_proposal_hash i = rp_proposal_hash p \<and> li_evidence_hash i = rp_evidence_hash p
        \<and> li_decision_hash i = la_decision_hash a \<and> li_operation_type i = rp_operation_type p
        \<and> li_target_resource_type i = rp_target_resource_type p
        \<and> li_target_resource_id i = rp_target_resource_id p
        \<and> li_idempotency_key i = ''local-exec:'' @ rp_proposal_hash p
        \<and> la_decided_at a \<le> li_registered_at i \<and> li_registered_at i \<le> rp_expires_at p
   | _ \<Rightarrow> False)"

definition receipt_bound ::
    "uuid \<Rightarrow> LocalExecutionIntent option \<Rightarrow> LocalExecutionReceipt \<Rightarrow> bool" where
  "receipt_bound run_id intent r = (case intent of None \<Rightarrow> False
     | Some i \<Rightarrow> lr_run_id r = run_id \<and> lr_proposal_id r = li_proposal_id i
        \<and> lr_proposal_hash r = li_proposal_hash i \<and> lr_evidence_hash r = li_evidence_hash i
        \<and> lr_decision_hash r = li_decision_hash i \<and> lr_intent_hash r = li_intent_hash i
        \<and> lr_idempotency_key r = li_idempotency_key i
        \<and> lr_operation_type r = li_operation_type i
        \<and> lr_target_resource_type r = li_target_resource_type i
        \<and> lr_target_resource_id r = li_target_resource_id i
        \<and> li_registered_at i \<le> lr_executed_at r)"

definition verification_bound ::
    "uuid \<Rightarrow> LocalExecutionReceipt option \<Rightarrow> LocalVerificationEvidence \<Rightarrow> bool" where
  "verification_bound run_id receipt v = (case receipt of None \<Rightarrow> False
     | Some r \<Rightarrow> lv_run_id v = run_id \<and> lv_proposal_id v = lr_proposal_id r
        \<and> lv_receipt_hash v = lr_receipt_hash r \<and> lv_operation_type v = lr_operation_type r
        \<and> lv_target_resource_type v = lr_target_resource_type r
        \<and> lv_target_resource_id v = lr_target_resource_id r
        \<and> same_optional_resource (lv_observed_resource v) (lr_after_resource r)
        \<and> lr_executed_at r \<le> lv_verified_at v)"

definition checkpoint_bindings :: "Checkpoint \<Rightarrow> bool" where
  "checkpoint_bindings c \<longleftrightarrow>
     c_last_safe_state c \<notin> {WorkflowState.EXECUTING, WorkflowState.VERIFYING}
     \<and> optional (proposal_bound (c_run_id c) (c_resource_evidence c)) (c_remediation_proposal c)
     \<and> optional (request_bound (c_run_id c) (c_remediation_proposal c))
         (c_local_approval_request c)
     \<and> optional (approval_bound (c_run_id c) (c_local_approval_request c)) (c_local_approval c)
     \<and> optional (intent_bound (c_run_id c) (c_remediation_proposal c) (c_local_approval c))
         (c_local_execution_intent c)
     \<and> optional (receipt_bound (c_run_id c) (c_local_execution_intent c))
         (c_local_execution_receipt c)
     \<and> optional (verification_bound (c_run_id c) (c_local_execution_receipt c))
         (c_local_verification c)"

definition valid_checkpoint :: "Platform \<Rightarrow> Checkpoint \<Rightarrow> bool" where
  "valid_checkpoint L c \<longleftrightarrow>
     uuid7 (c_run_id c) \<and> dict_ok (c_resume_metadata c) \<and> dict_ok (c_tool_result_hashes c)
     \<and> list_all (\<lambda>(k, h). short_identifier k \<and> sha256_digest h) (c_tool_result_hashes c)
     \<and> optional (valid_resource_evidence L) (c_resource_evidence c)
     \<and> optional (valid_remediation_proposal L) (c_remediation_proposal c)
     \<and> optional (valid_local_request L) (c_local_approval_request c)
     \<and> optional (valid_local_decision L) (c_local_approval c)
     \<and> optional (valid_intent L) (c_local_execution_intent c)
     \<and> optional (valid_receipt L) (c_local_execution_receipt c)
     \<and> optional (valid_local_verification L) (c_local_verification c)
     \<and> 0 < c_version c \<and> checkpoint_bindings c"

subsection \<open>Ordered subsets\<close>

lemma remaining_after_Some:
  "remaining_after x ys = Some zs \<Longrightarrow> \<exists>us. ys = us @ x # zs \<and> x \<notin> set us"
proof (induction ys)
  case (Cons y ys)
  show ?case
  proof (cases "y = x")
    case True
    with Cons.prems show ?thesis by (auto intro: exI [of _ "[]"])
  next
    case False
    with Cons obtain us where "ys = us @ x # zs" "x \<notin> set us" by auto
    with False show ?thesis by (intro exI [of _ "y # us"]) simp
  qed
qed simp

lemma ordered_subset_sound: "ordered_subset xs ys \<Longrightarrow> subseq xs ys"
proof (induction xs ys rule: ordered_subset.induct)
  case (2 x xs before)
  then obtain rest where r: "remaining_after x before = Some rest" "ordered_subset xs rest"
    by (auto split: option.splits)
  from 2(1) [OF r] have sub: "subseq (x # xs) (x # rest)" by (rule subseq_Cons2)
  obtain us where us: "before = us @ x # rest" using remaining_after_Some [OF r(1)] by blast
  show ?case unfolding us by (rule list_emb_append2 [OF sub])
qed simp

text \<open>The greedy walk is complete: it accepts every subsequence.\<close>

lemma ordered_subset_complete: "subseq xs ys \<Longrightarrow> ordered_subset xs ys"
proof (induction ys arbitrary: xs)
  case (Cons y ys)
  show ?case
  proof (cases xs)
    case xs: (Cons x xs')
    show ?thesis
    proof (cases "x = y")
      case True
      with Cons xs show ?thesis by simp
    next
      case False
      with Cons.prems xs have "subseq xs ys" by simp
      from Cons.IH [OF this] xs False show ?thesis by (simp split: option.splits)
    qed
  qed simp
qed (auto dest: list_emb_length)

lemma ordered_subset_iff: "ordered_subset xs ys \<longleftrightarrow> subseq xs ys"
  using ordered_subset_sound ordered_subset_complete by blast

lemma optional_iff: "optional P x \<longleftrightarrow> (\<forall>y. x = Some y \<longrightarrow> P y)"
  by (cases x) auto

lemmas bound_defs = proposal_bound_def request_bound_def approval_bound_def intent_bound_def
  receipt_bound_def verification_bound_def

lemma checkpoint_chain:
  assumes "checkpoint_bindings c" and "c_local_execution_intent c = Some i"
  shows "\<exists>e p q a. c_resource_evidence c = Some e \<and> c_remediation_proposal c = Some p
    \<and> c_local_approval_request c = Some q \<and> c_local_approval c = Some a
    \<and> la_decision a = ApprovalDecision.APPROVED \<and> la_proposal_hash a = rp_proposal_hash p
    \<and> la_request_hash a = lq_request_hash q
    \<and> li_proposal_hash i = rp_proposal_hash p \<and> li_evidence_hash i = re_evidence_hash e
    \<and> li_run_id i = c_run_id c
    \<and> li_target_resource_id i = rp_target_resource_id p
    \<and> lq_requested_at q \<le> la_decided_at a \<and> la_decided_at a \<le> lq_expires_at q
    \<and> la_decided_at a \<le> li_registered_at i \<and> li_registered_at i \<le> rp_expires_at p"
  using assms unfolding checkpoint_bindings_def
  by (auto simp: optional_iff bound_defs split: option.splits)

lemma checkpoint_receipt_chain:
  assumes "checkpoint_bindings c" and "c_local_execution_receipt c = Some r"
  shows "\<exists>i. c_local_execution_intent c = Some i \<and> lr_intent_hash r = li_intent_hash i
    \<and> lr_proposal_hash r = li_proposal_hash i \<and> lr_target_resource_id r = li_target_resource_id i
    \<and> lr_run_id r = c_run_id c \<and> li_registered_at i \<le> lr_executed_at r"
  using assms unfolding checkpoint_bindings_def
  by (auto simp: optional_iff bound_defs split: option.splits)

lemma checkpoint_verification_chain:
  assumes "checkpoint_bindings c" and "c_local_verification c = Some v"
  shows "\<exists>r. c_local_execution_receipt c = Some r \<and> lv_receipt_hash v = lr_receipt_hash r
    \<and> same_optional_resource (lv_observed_resource v) (lr_after_resource r) \<and> lv_operation_type v = lr_operation_type r
    \<and> lr_executed_at r \<le> lv_verified_at v"
  using assms unfolding checkpoint_bindings_def
  by (auto simp: optional_iff bound_defs split: option.splits)

lemma valid_receipt_effect:
  assumes "valid_receipt L r"
  shows "(lr_operation_type r = RemediationOperation.RELEASE_ELASTIC_IP \<and> lr_after_resource r = None
      \<and> (\<exists>y. lr_before_resource r = Eip y \<and> y_association_id y = None))
    \<or> (lr_operation_type r = RemediationOperation.REVOKE_PUBLIC_INGRESS
      \<and> (\<exists>b a. lr_before_resource r = Sg b \<and> lr_after_resource r = Some (Sg a)
          \<and> subseq (z_inbound_rules a) (z_inbound_rules b)
          \<and> length (z_inbound_rules a) < length (z_inbound_rules b)
          \<and> same_resource (Sg a) (Sg (b\<lparr>z_inbound_rules := z_inbound_rules a\<rparr>))))"
proof -
  from assms have "mutation_effect_ok (lr_operation_type r) (lr_before_resource r) (lr_after_resource r)"
    by (simp add: valid_receipt_def)
  then show ?thesis
    by (cases "(lr_operation_type r, lr_before_resource r, lr_after_resource r)"
        rule: mutation_effect_ok.cases) (auto simp: ordered_subset_iff)
qed

end
