(* ===== verification/Durable_Memory.thy ===== *)
theory Durable_Memory
  imports Checkpoints "HOL-Library.Product_Lexorder"
begin

text \<open>
  The authoritative durable records: \<open>InMemoryTestDurableTruthRepository\<close> of
  \<open>persistence/memory.py\<close> with the pure helpers \<open>durable_logic.py\<close> and
  \<open>semantic_idempotency.py\<close>. Every operation is a program on the repository; a refused
  operation leaves the repository as it was.
\<close>

subsection \<open>Semantic idempotency\<close>

definition precondition_json :: "Platform \<Rightarrow> ExpectedPrecondition \<Rightarrow> json" where
  "precondition_json L c = JObj
     [(''instance_state'', JStr (ObservedInstanceState_value (pc_instance_state c))),
      (''observed_at'', JStr (json_datetime L (pc_observed_at c))),
      (''evidence_hash'', JStr (pc_evidence_hash c))]"

definition derive_action_fingerprint :: "Platform \<Rightarrow> ActionProposal \<Rightarrow> string" where
  "derive_action_fingerprint L p = compute_evidence_digest L (JObj
     [(''run_id'', JStr (p_run_id p)),
      (''action'', JStr (Capability_value (p_action p))),
      (''target'', target_json (p_target p)),
      (''expected_precondition'', precondition_json L (p_expected_precondition p)),
      (''authority'', JStr (AuthorityGate_value (p_authority p))),
      (''evidence_hash'', JStr (p_evidence_hash p))])"

definition derive_idempotency_key :: "Platform \<Rightarrow> ActionProposal \<Rightarrow> string" where
  "derive_idempotency_key L p = ''action/'' @ derive_action_fingerprint L p"

definition build_idempotency_record ::
    "Platform \<Rightarrow> ActionProposal \<Rightarrow> datetime \<Rightarrow> exc + IdempotencyRecord" where
  "build_idempotency_record L p registered_at =
     (if p_state p \<noteq> ProposalState.AWAITING_APPROVAL
      then Inl (DurablePrerequisiteError ''proposal must be durably awaiting approval'')
      else (case utc_field registered_at of Inl e \<Rightarrow> Inl e
       | Inr t \<Rightarrow> validated valid_idempotency
           \<lparr>i_idempotency_key = derive_idempotency_key L p, i_proposal_id = p_proposal_id p,
            i_action_fingerprint = derive_action_fingerprint L p,
            i_status = IdempotencyStatus.REGISTERED, i_execution_acknowledgement = None,
            i_action_result = None, i_registered_at = t, i_completed_at = None\<rparr>))"

subsection \<open>Provider-neutral record logic\<close>

definition validate_approval_binding :: "ActionProposal \<Rightarrow> Approval \<Rightarrow> exc + unit" where
  "validate_approval_binding p a =
     (if a_proposal_id a \<noteq> p_proposal_id p \<or> a_run_id a \<noteq> p_run_id p
         \<or> a_action a \<noteq> p_action p \<or> a_target a \<noteq> p_target p
         \<or> a_evidence_hash a \<noteq> p_evidence_hash p
      then Inl StorageConflictError else Inr ())"

definition completed_idempotency_status :: "ActionResult \<Rightarrow> IdempotencyStatus" where
  "completed_idempotency_status r =
     (if ar_outcome r = ActionOutcome.SUCCEEDED then IdempotencyStatus.COMPLETED
      else if ar_outcome r = ActionOutcome.FAILED then IdempotencyStatus.FAILED
      else IdempotencyStatus.RECONCILIATION_REQUIRED)"

fun allowed_proposal_states :: "ProposalState \<Rightarrow> ProposalState set" where
  "allowed_proposal_states ProposalState.PROPOSED =
     {ProposalState.AWAITING_APPROVAL, ProposalState.SUPERSEDED}"
| "allowed_proposal_states ProposalState.AWAITING_APPROVAL = {ProposalState.SUPERSEDED}"
| "allowed_proposal_states ProposalState.SUPERSEDED = {}"

definition transitioned_proposal :: "ActionProposal \<Rightarrow> ProposalState \<Rightarrow> exc + ActionProposal" where
  "transitioned_proposal p next_state =
     (if next_state \<notin> allowed_proposal_states (p_state p) then Inl StorageConflictError
      else validated valid_proposal (p\<lparr>p_state := next_state\<rparr>))"

subsection \<open>The repository\<close>

record Repo =
  d_runs :: "(uuid, Run) dict"
  d_proposals :: "(uuid, ActionProposal) dict"
  d_approvals :: "(uuid, Approval) dict"
  d_idempotency :: "(string, IdempotencyRecord) dict"
  d_checkpoints :: "(uuid, Checkpoint) dict"
  d_audit_events :: "(uuid \<times> uuid, AuditEvent) dict"
  d_verification_evidence :: "(uuid \<times> uuid, VerificationEvidence) dict"

definition empty_repo :: Repo where
  "empty_repo = \<lparr>d_runs = [], d_proposals = [], d_approvals = [], d_idempotency = [],
     d_checkpoints = [], d_audit_events = [], d_verification_evidence = []\<rparr>"

definition MAX_DURABLE_RUNS :: nat where
  "MAX_DURABLE_RUNS = 2048"

definition MAX_AUDIT_EVENTS_PER_RUN :: nat where
  "MAX_AUDIT_EVENTS_PER_RUN = 1024"

abbreviation conflict :: "('s, 'a) prog" where
  "conflict \<equiv> raise StorageConflictError"

definition repo_create_run :: "Run \<Rightarrow> (Repo, Run) prog" where
  "repo_create_run run d =
     (if r_version run \<noteq> 1 \<or> r_state run \<noteq> WorkflowState.RECEIVED then conflict d
      else if dget (d_runs d) (r_run_id run) \<noteq> None then conflict d
      else if MAX_DURABLE_RUNS \<le> length (d_runs d) then conflict d
      else (Inr run, d\<lparr>d_runs := dput (r_run_id run) run (d_runs d)\<rparr>))"

definition repo_get_run :: "uuid \<Rightarrow> (Repo, Run option) prog" where
  "repo_get_run run_id d = (Inr (dget (d_runs d) run_id), d)"

text \<open>The two proofs of a human decision a decision transition accepts.\<close>

definition legacy_decision_valid :: "Repo \<Rightarrow> uuid \<Rightarrow> uuid \<Rightarrow> ApprovalDecision \<Rightarrow> bool" where
  "legacy_decision_valid d run_id pid expected_decision =
     (case (dget (d_proposals d) pid, dget (d_approvals d) pid) of
        (Some p, Some a) \<Rightarrow> p_run_id p = run_id \<and> p_state p = ProposalState.AWAITING_APPROVAL
          \<and> a_decision a = expected_decision
      | _ \<Rightarrow> False)"

definition local_decision_valid :: "Repo \<Rightarrow> uuid \<Rightarrow> uuid \<Rightarrow> ApprovalDecision \<Rightarrow> bool" where
  "local_decision_valid d run_id pid expected_decision =
     (case dget (d_checkpoints d) run_id of None \<Rightarrow> False
      | Some c \<Rightarrow> (case (c_remediation_proposal c, c_local_approval c) of
          (Some p, Some a) \<Rightarrow> rp_proposal_id p = pid \<and> rp_run_id p = run_id
            \<and> rp_status p = ProposalState.AWAITING_APPROVAL
            \<and> la_proposal_id a = pid \<and> la_run_id a = run_id \<and> la_decision a = expected_decision
        | _ \<Rightarrow> False))"

text \<open>The two proofs of a verified outcome the success transition accepts.\<close>

definition legacy_proof_valid :: "Platform \<Rightarrow> Repo \<Rightarrow> uuid \<Rightarrow> uuid \<Rightarrow> bool" where
  "legacy_proof_valid L d run_id pid =
     (case (dget (d_proposals d) pid, dget (d_verification_evidence d) (run_id, pid)) of
        (Some p, Some v) \<Rightarrow> v_run_id v = run_id
          \<and> v_observed_state v = ObservedInstanceState.STOPPED
          \<and> (case dget (d_idempotency d) (derive_idempotency_key L p) of None \<Rightarrow> False
             | Some i \<Rightarrow> i_status i = IdempotencyStatus.COMPLETED
                \<and> (case i_action_result i of None \<Rightarrow> False
                   | Some r \<Rightarrow> ar_evidence_hash r = Some (v_evidence_hash v)))
      | _ \<Rightarrow> False)"

definition local_proof_valid :: "Repo \<Rightarrow> uuid \<Rightarrow> uuid \<Rightarrow> bool" where
  "local_proof_valid d run_id pid =
     (case dget (d_checkpoints d) run_id of None \<Rightarrow> False
      | Some c \<Rightarrow> (case (c_remediation_proposal c, c_local_execution_receipt c,
                        c_local_verification c) of
          (Some p, Some r, Some v) \<Rightarrow> rp_proposal_id p = pid \<and> rp_run_id p = run_id
            \<and> lr_proposal_id r = pid \<and> lr_run_id r = run_id
            \<and> lv_proposal_id v = pid \<and> lv_run_id v = run_id
            \<and> lv_receipt_hash v = lr_receipt_hash r
        | _ \<Rightarrow> False))"

definition decision_guard ::
    "Repo \<Rightarrow> uuid \<Rightarrow> WorkflowState \<Rightarrow> uuid option \<Rightarrow> bool" where
  "decision_guard d run_id next_state approval_proposal_id =
     (if next_state \<in> {WorkflowState.APPROVED, WorkflowState.DENIED_BY_HUMAN} then
        (case approval_proposal_id of None \<Rightarrow> False
         | Some pid \<Rightarrow>
             let expected_decision =
               (if next_state = WorkflowState.APPROVED then ApprovalDecision.APPROVED
                else ApprovalDecision.DENIED)
             in legacy_decision_valid d run_id pid expected_decision
                \<or> local_decision_valid d run_id pid expected_decision)
      else True)"

definition success_guard ::
    "Platform \<Rightarrow> Repo \<Rightarrow> uuid \<Rightarrow> WorkflowState \<Rightarrow> uuid option \<Rightarrow> bool" where
  "success_guard L d run_id next_state verification_proposal_id =
     (if next_state = WorkflowState.SUCCESS_WITH_EVIDENCE then
        (case verification_proposal_id of None \<Rightarrow> False
         | Some pid \<Rightarrow> legacy_proof_valid L d run_id pid \<or> local_proof_valid d run_id pid)
      else True)"

definition repo_transition_run ::
    "Platform \<Rightarrow> uuid \<Rightarrow> WorkflowState \<Rightarrow> WorkflowState \<Rightarrow> int \<Rightarrow> datetime
     \<Rightarrow> uuid option \<Rightarrow> uuid option \<Rightarrow> (Repo, Run) prog" where
  "repo_transition_run L run_id next_state expected_state expected_version updated_at
       approval_proposal_id verification_proposal_id d =
     (case dget (d_runs d) run_id of None \<Rightarrow> conflict d
      | Some current \<Rightarrow>
          if r_state current \<noteq> expected_state \<or> r_version current \<noteq> expected_version then conflict d
          else if \<not> decision_guard d run_id next_state approval_proposal_id then conflict d
          else if \<not> success_guard L d run_id next_state verification_proposal_id then conflict d
          else (case transition_run current next_state updated_at of
              Inl e \<Rightarrow> raise e d
            | Inr updated \<Rightarrow> (Inr updated, d\<lparr>d_runs := dput run_id updated (d_runs d)\<rparr>)))"

definition repo_create_proposal :: "ActionProposal \<Rightarrow> (Repo, ActionProposal) prog" where
  "repo_create_proposal p d =
     (if p_state p \<noteq> ProposalState.PROPOSED then conflict d
      else if dget (d_proposals d) (p_proposal_id p) \<noteq> None then conflict d
      else (Inr p, d\<lparr>d_proposals := dput (p_proposal_id p) p (d_proposals d)\<rparr>))"

definition budget_monotone :: "BudgetCounters \<Rightarrow> BudgetCounters \<Rightarrow> bool" where
  "budget_monotone old new \<longleftrightarrow>
     b_max_turns new = b_max_turns old \<and> b_max_tokens new = b_max_tokens old
     \<and> b_max_elapsed_seconds new = b_max_elapsed_seconds old
     \<and> b_turns_used old \<le> b_turns_used new \<and> b_tokens_used old \<le> b_tokens_used new
     \<and> b_elapsed_milliseconds_used old \<le> b_elapsed_milliseconds_used new"

definition repo_update_run_budget ::
    "uuid \<Rightarrow> BudgetCounters \<Rightarrow> int \<Rightarrow> datetime \<Rightarrow> (Repo, Run) prog" where
  "repo_update_run_budget run_id budget expected_version updated_at d =
     (if expected_version \<le> 0 then raise TypeError d
      else (case dget (d_runs d) run_id of None \<Rightarrow> conflict d
       | Some current \<Rightarrow>
          if r_version current \<noteq> expected_version then conflict d
          else if \<not> budget_monotone (r_budget current) budget then conflict d
          else (case before_instant updated_at (r_updated_at current) of
              Inl e \<Rightarrow> raise e d
            | Inr True \<Rightarrow> conflict d
            | Inr False \<Rightarrow> (case utc_field updated_at of
                Inl e \<Rightarrow> raise e d
              | Inr t \<Rightarrow> (case validated valid_run (current\<lparr>r_budget := budget,
                    r_updated_at := t, r_version := r_version current + 1\<rparr>) of
                  Inl e \<Rightarrow> raise e d
                | Inr updated \<Rightarrow>
                    (Inr updated, d\<lparr>d_runs := dput run_id updated (d_runs d)\<rparr>))))))"

definition repo_get_proposal :: "uuid \<Rightarrow> (Repo, ActionProposal option) prog" where
  "repo_get_proposal pid d = (Inr (dget (d_proposals d) pid), d)"

definition repo_transition_proposal ::
    "uuid \<Rightarrow> ProposalState \<Rightarrow> ProposalState \<Rightarrow> (Repo, ActionProposal) prog" where
  "repo_transition_proposal pid next_state expected_state d =
     (case dget (d_proposals d) pid of None \<Rightarrow> conflict d
      | Some current \<Rightarrow>
          if p_state current \<noteq> expected_state then conflict d
          else (case transitioned_proposal current next_state of
              Inl e \<Rightarrow> raise e d
            | Inr updated \<Rightarrow>
                (Inr updated, d\<lparr>d_proposals := dput pid updated (d_proposals d)\<rparr>)))"

definition repo_create_approval :: "Approval \<Rightarrow> (Repo, Approval) prog" where
  "repo_create_approval a d =
     (case dget (d_proposals d) (a_proposal_id a) of None \<Rightarrow> conflict d
      | Some p \<Rightarrow>
          if p_state p \<noteq> ProposalState.AWAITING_APPROVAL then conflict d
          else (case validate_approval_binding p a of
              Inl e \<Rightarrow> raise e d
            | Inr _ \<Rightarrow> (case dget (d_approvals d) (a_proposal_id a) of
                Some existing \<Rightarrow> if existing = a then (Inr existing, d) else conflict d
              | None \<Rightarrow>
                  (Inr a, d\<lparr>d_approvals := dput (a_proposal_id a) a (d_approvals d)\<rparr>))))"

definition repo_get_approval :: "uuid \<Rightarrow> (Repo, Approval option) prog" where
  "repo_get_approval pid d = (Inr (dget (d_approvals d) pid), d)"

definition repo_register_idempotency ::
    "Platform \<Rightarrow> IdempotencyRecord \<Rightarrow> (Repo, IdempotencyRecord) prog" where
  "repo_register_idempotency L record d =
     (case dget (d_idempotency d) (i_idempotency_key record) of
        Some existing \<Rightarrow>
          if i_proposal_id existing \<noteq> i_proposal_id record
             \<or> i_action_fingerprint existing \<noteq> i_action_fingerprint record
          then conflict d else (Inr existing, d)
      | None \<Rightarrow> (case dget (d_proposals d) (i_proposal_id record) of None \<Rightarrow> conflict d
          | Some p \<Rightarrow>
              if p_state p \<noteq> ProposalState.AWAITING_APPROVAL
                 \<or> i_action_fingerprint record \<noteq> derive_action_fingerprint L p
                 \<or> i_idempotency_key record \<noteq> derive_idempotency_key L p
              then conflict d
              else (case dget (d_approvals d) (i_proposal_id record) of None \<Rightarrow> conflict d
                | Some a \<Rightarrow>
                    if a_decision a \<noteq> ApprovalDecision.APPROVED then conflict d
                    else (case dget (d_runs d) (p_run_id p) of None \<Rightarrow> conflict d
                      | Some run \<Rightarrow>
                          if r_state run \<noteq> WorkflowState.APPROVED then conflict d
                          else (Inr record, d\<lparr>d_idempotency :=
                              dput (i_idempotency_key record) record (d_idempotency d)\<rparr>)))))"

definition repo_get_idempotency :: "string \<Rightarrow> (Repo, IdempotencyRecord option) prog" where
  "repo_get_idempotency key d = (Inr (dget (d_idempotency d) key), d)"

definition repo_complete_idempotency ::
    "string \<Rightarrow> ActionResult \<Rightarrow> datetime \<Rightarrow> IdempotencyStatus \<Rightarrow> (Repo, IdempotencyRecord) prog"
  where
  "repo_complete_idempotency key result completed_at expected_status d =
     (case dget (d_idempotency d) key of None \<Rightarrow> conflict d
      | Some current \<Rightarrow>
          if i_status current \<noteq> expected_status then conflict d
          else (case utc_field completed_at of Inl e \<Rightarrow> raise e d
           | Inr t \<Rightarrow> (case validated valid_idempotency (current\<lparr>
                  i_status := completed_idempotency_status result,
                  i_action_result := Some result, i_completed_at := Some t\<rparr>) of
                Inl e \<Rightarrow> raise e d
              | Inr updated \<Rightarrow>
                  (Inr updated, d\<lparr>d_idempotency := dput key updated (d_idempotency d)\<rparr>))))"

definition repo_record_execution_acknowledgement ::
    "string \<Rightarrow> ExecutionAcknowledgement \<Rightarrow> IdempotencyStatus \<Rightarrow> (Repo, IdempotencyRecord) prog"
  where
  "repo_record_execution_acknowledgement key k expected_status d =
     (case dget (d_idempotency d) key of None \<Rightarrow> conflict d
      | Some current \<Rightarrow>
          if i_status current \<noteq> expected_status then conflict d
          else (case i_execution_acknowledgement current of
              Some existing \<Rightarrow> if existing = k then (Inr current, d) else conflict d
            | None \<Rightarrow>
                if k_proposal_id k \<noteq> i_proposal_id current then conflict d
                else (let updated = current\<lparr>i_execution_acknowledgement := Some k\<rparr> in
                  (Inr updated, d\<lparr>d_idempotency := dput key updated (d_idempotency d)\<rparr>))))"

definition repo_save_checkpoint ::
    "Checkpoint \<Rightarrow> int option \<Rightarrow> (Repo, Checkpoint) prog" where
  "repo_save_checkpoint c expected_version d =
     (case dget (d_checkpoints d) (c_run_id c) of
        None \<Rightarrow>
          if expected_version \<noteq> None \<or> c_version c \<noteq> 1 then conflict d
          else (Inr c, d\<lparr>d_checkpoints := dput (c_run_id c) c (d_checkpoints d)\<rparr>)
      | Some current \<Rightarrow>
          if expected_version \<noteq> Some (c_version current) \<or> c_version c \<noteq> c_version current + 1
          then conflict d
          else (Inr c, d\<lparr>d_checkpoints := dput (c_run_id c) c (d_checkpoints d)\<rparr>))"

definition repo_get_checkpoint :: "uuid \<Rightarrow> (Repo, Checkpoint option) prog" where
  "repo_get_checkpoint run_id d = (Inr (dget (d_checkpoints d) run_id), d)"

definition count_audit_events :: "uuid \<Rightarrow> Repo \<Rightarrow> nat" where
  "count_audit_events run_id d =
     length (filter (\<lambda>k. fst k = run_id) (map fst (d_audit_events d)))"

definition repo_append_audit_event :: "AuditEvent \<Rightarrow> (Repo, AuditEvent) prog" where
  "repo_append_audit_event e d =
     (let key = (e_run_id e, e_event_id e) in
      if dget (d_audit_events d) key \<noteq> None then conflict d
      else if MAX_AUDIT_EVENTS_PER_RUN \<le> count_audit_events (e_run_id e) d then conflict d
      else (Inr e, d\<lparr>d_audit_events := dput key e (d_audit_events d)\<rparr>))"

definition repo_get_audit_event :: "uuid \<Rightarrow> uuid \<Rightarrow> (Repo, AuditEvent option) prog" where
  "repo_get_audit_event run_id event_id d = (Inr (dget (d_audit_events d) (run_id, event_id)), d)"

definition list_audit_events :: "uuid \<Rightarrow> int \<Rightarrow> Repo \<Rightarrow> exc + AuditEvent list" where
  "list_audit_events run_id limit d =
     (if \<not> (1 \<le> limit \<and> limit \<le> 256) then Inl ValueError
      else Inr (take (nat limit)
        (sort_key (\<lambda>e. (e_timestamp e, e_event_id e))
          (map snd (filter (\<lambda>(k, e). fst k = run_id) (d_audit_events d))))))"

text \<open>The two ways a verification proof can match the durable action record.\<close>

definition acknowledgement_matches ::
    "IdempotencyRecord option \<Rightarrow> VerificationEvidence \<Rightarrow> bool" where
  "acknowledgement_matches idempotency v \<longleftrightarrow>
     v_proof_origin v = VerificationProofOrigin.EXECUTION_ACKNOWLEDGEMENT
     \<and> (case idempotency of None \<Rightarrow> False
        | Some i \<Rightarrow> (case i_execution_acknowledgement i of None \<Rightarrow> False
           | Some k \<Rightarrow> Some (k_acknowledgement_hash k) = v_execution_acknowledgement_hash v))"

definition recovery_matches ::
    "IdempotencyRecord option \<Rightarrow> Approval option \<Rightarrow> VerificationEvidence \<Rightarrow> bool" where
  "recovery_matches idempotency approval v \<longleftrightarrow>
     v_proof_origin v = VerificationProofOrigin.RECOVERY_READ_BACK
     \<and> (case idempotency of None \<Rightarrow> False
        | Some i \<Rightarrow> i_status i = IdempotencyStatus.REGISTERED
            \<and> i_execution_acknowledgement i = None)
     \<and> (case approval of None \<Rightarrow> False
        | Some a \<Rightarrow> a_decision a = ApprovalDecision.APPROVED \<and> a_run_id a = v_run_id v
            \<and> a_target a = v_target v)"

definition evidence_guard :: "Platform \<Rightarrow> Repo \<Rightarrow> VerificationEvidence \<Rightarrow> bool" where
  "evidence_guard L d v =
     (case (dget (d_proposals d) (v_proposal_id v), dget (d_runs d) (v_run_id v)) of
        (Some p, Some run) \<Rightarrow>
          (let idempotency = dget (d_idempotency d) (derive_idempotency_key L p) in
           r_state run = WorkflowState.VERIFYING
           \<and> p_run_id p = v_run_id v \<and> p_target p = v_target v
           \<and> r_trace_id run = v_trace_id v \<and> r_correlation_id run = v_correlation_id v
           \<and> idempotency \<noteq> None
           \<and> (acknowledgement_matches idempotency v
              \<or> recovery_matches idempotency (dget (d_approvals d) (v_proposal_id v)) v))
      | _ \<Rightarrow> False)"

definition repo_create_verification_evidence ::
    "Platform \<Rightarrow> VerificationEvidence \<Rightarrow> (Repo, VerificationEvidence) prog" where
  "repo_create_verification_evidence L v d =
     (let key = (v_run_id v, v_proposal_id v) in
      case dget (d_verification_evidence d) key of
        Some existing \<Rightarrow> if existing = v then (Inr existing, d) else conflict d
      | None \<Rightarrow>
          if \<not> evidence_guard L d v then conflict d
          else (Inr v, d\<lparr>d_verification_evidence := dput key v (d_verification_evidence d)\<rparr>))"

definition repo_get_verification_evidence ::
    "uuid \<Rightarrow> uuid \<Rightarrow> (Repo, VerificationEvidence option) prog" where
  "repo_get_verification_evidence run_id pid d =
     (Inr (dget (d_verification_evidence d) (run_id, pid)), d)"

end
