(* ===== verification/Durable_Invariants.thy ===== *)
theory Durable_Invariants
  imports Durable_Memory
begin

text \<open>
  What the repository promises over time. \<open>repo_write\<close> is one call of a mutating operation
  with contract-valid arguments; \<open>history\<close> is a run of the store from its empty state, newest
  state first. The invariant \<open>repo_ok\<close> ties the records together, and \<open>evolves\<close> says what
  a later state keeps of an earlier one.
\<close>

subsection \<open>Calls of the repository\<close>

text \<open>A store rebuilt from its snapshot holds the same records in another order.\<close>

definition same_records :: "Repo \<Rightarrow> Repo \<Rightarrow> bool" where
  "same_records d d' \<longleftrightarrow>
     same_table (d_runs d) (d_runs d') \<and> same_table (d_proposals d) (d_proposals d')
     \<and> same_table (d_approvals d) (d_approvals d')
     \<and> same_table (d_idempotency d) (d_idempotency d')
     \<and> same_table (d_checkpoints d) (d_checkpoints d')
     \<and> same_table (d_audit_events d) (d_audit_events d')
     \<and> same_table (d_verification_evidence d) (d_verification_evidence d')"

lemma same_records_dget:
  assumes "same_records d d'"
  shows "dget (d_runs d') = dget (d_runs d)" "dget (d_proposals d') = dget (d_proposals d)"
    "dget (d_approvals d') = dget (d_approvals d)"
    "dget (d_idempotency d') = dget (d_idempotency d)"
    "dget (d_checkpoints d') = dget (d_checkpoints d)"
    "dget (d_audit_events d') = dget (d_audit_events d)"
    "dget (d_verification_evidence d') = dget (d_verification_evidence d)"
  using assms same_table_dget by (auto simp: same_records_def)

lemma same_records_dict_ok:
  assumes "same_records d d'"
  shows "dict_ok (d_runs d')" "dict_ok (d_proposals d')" "dict_ok (d_approvals d')"
    "dict_ok (d_idempotency d')" "dict_ok (d_checkpoints d')" "dict_ok (d_audit_events d')"
    "dict_ok (d_verification_evidence d')"
  using assms same_table_dict_ok by (auto simp: same_records_def)

lemma same_records_length:
  assumes "same_records d d'"
  shows "length (d_runs d') = length (d_runs d)"
    and "count_audit_events rid d' = count_audit_events rid d"
  using assms same_table_length same_table_count
  by (auto simp: same_records_def count_audit_events_def)

lemmas same_records_simps = same_records_dget same_records_dict_ok same_records_length

inductive repo_write :: "Platform \<Rightarrow> Repo \<Rightarrow> Repo \<Rightarrow> bool" for L where
  create_run: "valid_run r \<Longrightarrow> repo_create_run r d = (x, d') \<Longrightarrow> repo_write L d d'"
| transition_run: "repo_transition_run L rid s es ev t ap vp d = (x, d') \<Longrightarrow> repo_write L d d'"
| update_run_budget:
    "valid_budget b \<Longrightarrow> repo_update_run_budget rid b ev t d = (x, d') \<Longrightarrow> repo_write L d d'"
| create_proposal: "valid_proposal p \<Longrightarrow> repo_create_proposal p d = (y, d') \<Longrightarrow> repo_write L d d'"
| transition_proposal: "repo_transition_proposal pid ps eps d = (y, d') \<Longrightarrow> repo_write L d d'"
| create_approval: "valid_approval a \<Longrightarrow> repo_create_approval a d = (z, d') \<Longrightarrow> repo_write L d d'"
| register_idempotency:
    "valid_idempotency i \<Longrightarrow> i_status i = IdempotencyStatus.REGISTERED \<Longrightarrow>
     i_execution_acknowledgement i = None \<Longrightarrow>
     repo_register_idempotency L i d = (w, d') \<Longrightarrow> repo_write L d d'"
| complete_idempotency:
    "valid_action_result res \<Longrightarrow>
     repo_complete_idempotency key res t IdempotencyStatus.REGISTERED d = (w, d') \<Longrightarrow>
     repo_write L d d'"
| record_acknowledgement:
    "valid_acknowledgement k \<Longrightarrow>
     repo_record_execution_acknowledgement key k IdempotencyStatus.REGISTERED d = (w, d') \<Longrightarrow>
     repo_write L d d'"
| save_checkpoint:
    "valid_checkpoint L c \<Longrightarrow> repo_save_checkpoint c cv d = (u, d') \<Longrightarrow> repo_write L d d'"
| append_audit_event:
    "valid_audit_event e \<Longrightarrow> repo_append_audit_event e d = (q, d') \<Longrightarrow> repo_write L d d'"
| create_verification_evidence:
    "valid_evidence L v \<Longrightarrow> repo_create_verification_evidence L v d = (m, d') \<Longrightarrow>
     repo_write L d d'"
| reloaded: "same_records d d' \<Longrightarrow> repo_write L d d'"

inductive history :: "Platform \<Rightarrow> Repo list \<Rightarrow> bool" for L where
  start: "history L [empty_repo]"
| later: "history L (d # ds) \<Longrightarrow> repo_write L d d' \<Longrightarrow> history L (d' # d # ds)"

subsection \<open>What a write changes\<close>

text \<open>One lemma per operation: a successful call and the state it leaves.\<close>

lemma create_run_Inr:
  "repo_create_run r d = (Inr x, d') \<longleftrightarrow>
     x = r \<and> r_version r = 1 \<and> r_state r = WorkflowState.RECEIVED
     \<and> dget (d_runs d) (r_run_id r) = None \<and> length (d_runs d) < MAX_DURABLE_RUNS
     \<and> d' = d\<lparr>d_runs := dput (r_run_id r) r (d_runs d)\<rparr>"
  by (auto simp: repo_create_run_def raise_def)

lemma repo_transition_run_Inr:
  assumes "repo_transition_run L rid s es ev t ap vp d = (Inr x, d')"
  shows "\<exists>current. dget (d_runs d) rid = Some current \<and> r_state current = es
    \<and> r_version current = ev \<and> decision_guard d rid s ap \<and> success_guard L d rid s vp
    \<and> transition_run current s t = Inr x \<and> d' = d\<lparr>d_runs := dput rid x (d_runs d)\<rparr>"
  using assms by (auto simp: repo_transition_run_def raise_def split: option.splits if_splits sum.splits)

lemma repo_update_run_budget_Inr:
  assumes "repo_update_run_budget rid b ev t d = (Inr x, d')"
  shows "\<exists>current u. dget (d_runs d) rid = Some current \<and> r_version current = ev
    \<and> budget_monotone (r_budget current) b \<and> t = Utc u \<and> r_updated_at current \<le> u
    \<and> x = current\<lparr>r_budget := b, r_updated_at := u, r_version := r_version current + 1\<rparr>
    \<and> valid_run x \<and> d' = d\<lparr>d_runs := dput rid x (d_runs d)\<rparr>"
  using assms
  by (cases t) (auto simp: repo_update_run_budget_def raise_def before_instant_def validated_def
      split: option.splits if_splits sum.splits bool.splits)

lemma create_proposal_Inr:
  "repo_create_proposal p d = (Inr x, d') \<longleftrightarrow>
     x = p \<and> p_state p = ProposalState.PROPOSED \<and> dget (d_proposals d) (p_proposal_id p) = None
     \<and> d' = d\<lparr>d_proposals := dput (p_proposal_id p) p (d_proposals d)\<rparr>"
  by (auto simp: repo_create_proposal_def raise_def)

lemma transition_proposal_Inr:
  assumes "repo_transition_proposal pid ps eps d = (Inr x, d')"
  shows "\<exists>current. dget (d_proposals d) pid = Some current \<and> p_state current = eps
    \<and> ps \<in> allowed_proposal_states eps \<and> x = current\<lparr>p_state := ps\<rparr> \<and> valid_proposal x
    \<and> d' = d\<lparr>d_proposals := dput pid x (d_proposals d)\<rparr>"
  using assms by (auto simp: repo_transition_proposal_def transitioned_proposal_def raise_def
      split: option.splits if_splits sum.splits)

lemma create_approval_Inr:
  assumes "repo_create_approval a d = (Inr x, d')"
  shows "\<exists>p. dget (d_proposals d) (a_proposal_id a) = Some p
    \<and> p_state p = ProposalState.AWAITING_APPROVAL \<and> validate_approval_binding p a = Inr ()
    \<and> x = a \<and> (dget (d_approvals d) (a_proposal_id a) = Some a \<and> d' = d
       \<or> dget (d_approvals d) (a_proposal_id a) = None
         \<and> d' = d\<lparr>d_approvals := dput (a_proposal_id a) a (d_approvals d)\<rparr>)"
  using assms by (auto simp: repo_create_approval_def raise_def
      split: option.splits if_splits sum.splits)

lemma register_idempotency_Inr:
  assumes "repo_register_idempotency L i d = (Inr x, d')"
  shows "(dget (d_idempotency d) (i_idempotency_key i) = Some x \<and> d' = d
      \<and> i_proposal_id x = i_proposal_id i \<and> i_action_fingerprint x = i_action_fingerprint i)
    \<or> (\<exists>p a run. dget (d_idempotency d) (i_idempotency_key i) = None
      \<and> dget (d_proposals d) (i_proposal_id i) = Some p
      \<and> p_state p = ProposalState.AWAITING_APPROVAL
      \<and> i_action_fingerprint i = derive_action_fingerprint L p
      \<and> i_idempotency_key i = derive_idempotency_key L p
      \<and> dget (d_approvals d) (i_proposal_id i) = Some a
      \<and> a_decision a = ApprovalDecision.APPROVED
      \<and> dget (d_runs d) (p_run_id p) = Some run \<and> r_state run = WorkflowState.APPROVED
      \<and> x = i
      \<and> d' = d\<lparr>d_idempotency := dput (i_idempotency_key i) i (d_idempotency d)\<rparr>)"
  using assms by (auto simp: repo_register_idempotency_def raise_def
      split: option.splits if_splits)

lemma complete_idempotency_Inr:
  assumes "repo_complete_idempotency key res t es d = (Inr x, d')"
  shows "\<exists>current u. dget (d_idempotency d) key = Some current \<and> i_status current = es
    \<and> t = Utc u \<and> x = current\<lparr>i_status := completed_idempotency_status res,
        i_action_result := Some res, i_completed_at := Some u\<rparr> \<and> valid_idempotency x
    \<and> d' = d\<lparr>d_idempotency := dput key x (d_idempotency d)\<rparr>"
  using assms by (auto simp: repo_complete_idempotency_def raise_def
      split: option.splits if_splits sum.splits)

lemma record_acknowledgement_Inr:
  assumes "repo_record_execution_acknowledgement key k es d = (Inr x, d')"
  shows "\<exists>current. dget (d_idempotency d) key = Some current \<and> i_status current = es
    \<and> (i_execution_acknowledgement current = Some k \<and> x = current \<and> d' = d
      \<or> i_execution_acknowledgement current = None \<and> k_proposal_id k = i_proposal_id current
        \<and> x = current\<lparr>i_execution_acknowledgement := Some k\<rparr>
        \<and> d' = d\<lparr>d_idempotency := dput key x (d_idempotency d)\<rparr>)"
  using assms by (auto simp: repo_record_execution_acknowledgement_def raise_def Let_def
      split: option.splits if_splits)

lemma save_checkpoint_Inr:
  assumes "repo_save_checkpoint c ev d = (Inr x, d')"
  shows "x = c \<and> d' = d\<lparr>d_checkpoints := dput (c_run_id c) c (d_checkpoints d)\<rparr>
    \<and> (case dget (d_checkpoints d) (c_run_id c) of None \<Rightarrow> c_version c = 1
       | Some old \<Rightarrow> c_version c = c_version old + 1)"
  using assms by (auto simp: repo_save_checkpoint_def raise_def split: option.splits if_splits)

lemma append_audit_event_Inr:
  assumes "repo_append_audit_event e d = (Inr x, d')"
  shows "x = e \<and> dget (d_audit_events d) (e_run_id e, e_event_id e) = None
    \<and> count_audit_events (e_run_id e) d < MAX_AUDIT_EVENTS_PER_RUN
    \<and> d' = d\<lparr>d_audit_events := dput (e_run_id e, e_event_id e) e (d_audit_events d)\<rparr>"
  using assms by (auto simp: repo_append_audit_event_def raise_def Let_def split: if_splits)

lemma create_evidence_Inr:
  assumes "repo_create_verification_evidence L v d = (Inr x, d')"
  shows "x = v \<and> (dget (d_verification_evidence d) (v_run_id v, v_proposal_id v) = Some v \<and> d' = d
    \<or> dget (d_verification_evidence d) (v_run_id v, v_proposal_id v) = None \<and> evidence_guard L d v
      \<and> d' = d\<lparr>d_verification_evidence :=
          dput (v_run_id v, v_proposal_id v) v (d_verification_evidence d)\<rparr>)"
  using assms by (auto simp: repo_create_verification_evidence_def raise_def Let_def
      split: option.splits if_splits)

text \<open>A refused call changes nothing.\<close>

lemmas repo_write_defs = repo_create_run_def repo_transition_run_def repo_update_run_budget_def
  repo_create_proposal_def repo_transition_proposal_def repo_create_approval_def
  repo_register_idempotency_def repo_complete_idempotency_def
  repo_record_execution_acknowledgement_def repo_save_checkpoint_def repo_append_audit_event_def
  repo_create_verification_evidence_def raise_def Let_def

lemma refused_unchanged:
  "repo_create_run r d = (Inl e, d') \<Longrightarrow> d' = d"
  "repo_transition_run L rid s es ev t ap vp d = (Inl e, d') \<Longrightarrow> d' = d"
  "repo_update_run_budget rid b ev t d = (Inl e, d') \<Longrightarrow> d' = d"
  "repo_create_proposal p d = (Inl e, d') \<Longrightarrow> d' = d"
  "repo_transition_proposal pid ps eps d = (Inl e, d') \<Longrightarrow> d' = d"
  "repo_create_approval a d = (Inl e, d') \<Longrightarrow> d' = d"
  "repo_register_idempotency L i d = (Inl e, d') \<Longrightarrow> d' = d"
  "repo_complete_idempotency key res t ist d = (Inl e, d') \<Longrightarrow> d' = d"
  "repo_record_execution_acknowledgement key k ist d = (Inl e, d') \<Longrightarrow> d' = d"
  "repo_save_checkpoint c cv d = (Inl e, d') \<Longrightarrow> d' = d"
  "repo_append_audit_event v d = (Inl e, d') \<Longrightarrow> d' = d"
  "repo_create_verification_evidence L m d = (Inl e, d') \<Longrightarrow> d' = d"
  by (auto simp: repo_write_defs split: option.splits if_splits sum.splits bool.splits)

text \<open>The change an effective write makes, with the conditions it was made under.\<close>

inductive effect :: "Platform \<Rightarrow> Repo \<Rightarrow> Repo \<Rightarrow> bool" for L where
  unchanged: "effect L d d"
| reordered: "same_records d d' \<Longrightarrow> effect L d d'"
| new_run: "valid_run r \<Longrightarrow> r_version r = 1 \<Longrightarrow> r_state r = WorkflowState.RECEIVED \<Longrightarrow>
    dget (d_runs d) (r_run_id r) = None \<Longrightarrow> length (d_runs d) < MAX_DURABLE_RUNS \<Longrightarrow>
    effect L d (d\<lparr>d_runs := dput (r_run_id r) r (d_runs d)\<rparr>)"
| run_moved: "dget (d_runs d) rid = Some r \<Longrightarrow> decision_guard d rid s ap \<Longrightarrow>
    success_guard L d rid s vp \<Longrightarrow> s \<in> ALLOWED_WORKFLOW_TRANSITIONS (r_state r) \<Longrightarrow>
    r_updated_at r \<le> t \<Longrightarrow> valid_run r' \<Longrightarrow>
    r' = r\<lparr>r_state := s, r_updated_at := t, r_version := r_version r + 1\<rparr> \<Longrightarrow>
    effect L d (d\<lparr>d_runs := dput rid r' (d_runs d)\<rparr>)"
| budget_spent: "dget (d_runs d) rid = Some r \<Longrightarrow> budget_monotone (r_budget r) b \<Longrightarrow>
    r_updated_at r \<le> t \<Longrightarrow> valid_run r' \<Longrightarrow>
    r' = r\<lparr>r_budget := b, r_updated_at := t, r_version := r_version r + 1\<rparr> \<Longrightarrow>
    effect L d (d\<lparr>d_runs := dput rid r' (d_runs d)\<rparr>)"
| new_proposal: "valid_proposal p \<Longrightarrow> p_state p = ProposalState.PROPOSED \<Longrightarrow>
    dget (d_proposals d) (p_proposal_id p) = None \<Longrightarrow>
    effect L d (d\<lparr>d_proposals := dput (p_proposal_id p) p (d_proposals d)\<rparr>)"
| proposal_moved: "dget (d_proposals d) pid = Some p \<Longrightarrow>
    ps \<in> allowed_proposal_states (p_state p) \<Longrightarrow> valid_proposal (p\<lparr>p_state := ps\<rparr>) \<Longrightarrow>
    effect L d (d\<lparr>d_proposals := dput pid (p\<lparr>p_state := ps\<rparr>) (d_proposals d)\<rparr>)"
| new_approval: "valid_approval a \<Longrightarrow> dget (d_proposals d) (a_proposal_id a) = Some p \<Longrightarrow>
    p_state p = ProposalState.AWAITING_APPROVAL \<Longrightarrow> validate_approval_binding p a = Inr () \<Longrightarrow>
    dget (d_approvals d) (a_proposal_id a) = None \<Longrightarrow>
    effect L d (d\<lparr>d_approvals := dput (a_proposal_id a) a (d_approvals d)\<rparr>)"
| registered: "valid_idempotency i \<Longrightarrow> i_status i = IdempotencyStatus.REGISTERED \<Longrightarrow>
    i_execution_acknowledgement i = None \<Longrightarrow>
    dget (d_idempotency d) (i_idempotency_key i) = None \<Longrightarrow>
    dget (d_proposals d) (i_proposal_id i) = Some p \<Longrightarrow>
    p_state p = ProposalState.AWAITING_APPROVAL \<Longrightarrow>
    i_action_fingerprint i = derive_action_fingerprint L p \<Longrightarrow>
    i_idempotency_key i = derive_idempotency_key L p \<Longrightarrow>
    dget (d_approvals d) (i_proposal_id i) = Some a \<Longrightarrow>
    a_decision a = ApprovalDecision.APPROVED \<Longrightarrow>
    dget (d_runs d) (p_run_id p) = Some run \<Longrightarrow> r_state run = WorkflowState.APPROVED \<Longrightarrow>
    effect L d (d\<lparr>d_idempotency := dput (i_idempotency_key i) i (d_idempotency d)\<rparr>)"
| completed: "dget (d_idempotency d) key = Some i \<Longrightarrow> i_status i = IdempotencyStatus.REGISTERED \<Longrightarrow>
    valid_action_result res \<Longrightarrow> valid_idempotency i' \<Longrightarrow>
    i' = i\<lparr>i_status := completed_idempotency_status res, i_action_result := Some res,
           i_completed_at := Some u\<rparr> \<Longrightarrow>
    effect L d (d\<lparr>d_idempotency := dput key i' (d_idempotency d)\<rparr>)"
| acknowledged: "dget (d_idempotency d) key = Some i \<Longrightarrow> i_status i = IdempotencyStatus.REGISTERED \<Longrightarrow>
    valid_acknowledgement k \<Longrightarrow> i_execution_acknowledgement i = None \<Longrightarrow>
    k_proposal_id k = i_proposal_id i \<Longrightarrow>
    effect L d (d\<lparr>d_idempotency :=
      dput key (i\<lparr>i_execution_acknowledgement := Some k\<rparr>) (d_idempotency d)\<rparr>)"
| checkpointed: "valid_checkpoint L c \<Longrightarrow>
    (case dget (d_checkpoints d) (c_run_id c) of None \<Rightarrow> c_version c = 1
     | Some old \<Rightarrow> c_version c = c_version old + 1) \<Longrightarrow>
    effect L d (d\<lparr>d_checkpoints := dput (c_run_id c) c (d_checkpoints d)\<rparr>)"
| audited: "valid_audit_event e \<Longrightarrow> dget (d_audit_events d) (e_run_id e, e_event_id e) = None \<Longrightarrow>
    count_audit_events (e_run_id e) d < MAX_AUDIT_EVENTS_PER_RUN \<Longrightarrow>
    effect L d (d\<lparr>d_audit_events := dput (e_run_id e, e_event_id e) e (d_audit_events d)\<rparr>)"
| proved: "valid_evidence L v \<Longrightarrow>
    dget (d_verification_evidence d) (v_run_id v, v_proposal_id v) = None \<Longrightarrow>
    evidence_guard L d v \<Longrightarrow>
    effect L d (d\<lparr>d_verification_evidence :=
      dput (v_run_id v, v_proposal_id v) v (d_verification_evidence d)\<rparr>)"

lemma write_effect:
  assumes "repo_write L d d'" shows "effect L d d'"
  using assms
proof cases
  case (create_run r x)
  then show ?thesis
    by (cases x) (auto dest: refused_unchanged simp: create_run_Inr intro: effect.intros)
next
  case (transition_run rid s es ev t ap vp x)
  then show ?thesis
    by (cases x) (auto dest!: refused_unchanged repo_transition_run_Inr transition_run_Inr
        intro: effect.unchanged effect.run_moved)
next
  case (update_run_budget b rid ev t x)
  then show ?thesis
    by (cases x) (auto dest!: refused_unchanged repo_update_run_budget_Inr
        intro: effect.unchanged effect.budget_spent)
next
  case (create_proposal p y)
  then show ?thesis
    by (cases y) (auto dest: refused_unchanged simp: create_proposal_Inr intro: effect.intros)
next
  case (transition_proposal pid ps eps y)
  then show ?thesis
    by (cases y) (auto dest!: refused_unchanged transition_proposal_Inr
        intro: effect.unchanged effect.proposal_moved)
next
  case (create_approval a z)
  then show ?thesis
    by (cases z) (auto dest!: refused_unchanged create_approval_Inr
        intro: effect.unchanged effect.new_approval)
next
  case (register_idempotency i w)
  then show ?thesis
    by (cases w) (auto dest!: refused_unchanged register_idempotency_Inr
        intro: effect.unchanged effect.registered)
next
  case (complete_idempotency res key t w)
  then show ?thesis
    by (cases w) (auto dest!: refused_unchanged complete_idempotency_Inr
        intro: effect.unchanged effect.completed)
next
  case (record_acknowledgement k key w)
  then show ?thesis
    by (cases w) (auto dest!: refused_unchanged record_acknowledgement_Inr
        intro: effect.unchanged effect.acknowledged)
next
  case (save_checkpoint c cv u)
  then show ?thesis
    by (cases u) (auto dest!: refused_unchanged save_checkpoint_Inr
        intro: effect.unchanged effect.checkpointed)
next
  case (append_audit_event e q)
  then show ?thesis
    by (cases q) (auto dest!: refused_unchanged append_audit_event_Inr
        intro: effect.unchanged effect.audited)
next
  case (create_verification_evidence v m)
  then show ?thesis
    by (cases m) (auto dest!: refused_unchanged create_evidence_Inr
        intro: effect.unchanged effect.proved)
next
  case reloaded
  then show ?thesis by (rule effect.reordered)
qed

subsection \<open>The invariant\<close>

definition runs_ok :: "Repo \<Rightarrow> bool" where
  "runs_ok d \<longleftrightarrow> dict_ok (d_runs d) \<and> length (d_runs d) \<le> MAX_DURABLE_RUNS
     \<and> (\<forall>k r. dget (d_runs d) k = Some r \<longrightarrow> r_run_id r = k \<and> valid_run r)"

definition proposals_ok :: "Repo \<Rightarrow> bool" where
  "proposals_ok d \<longleftrightarrow> dict_ok (d_proposals d)
     \<and> (\<forall>k p. dget (d_proposals d) k = Some p \<longrightarrow> p_proposal_id p = k \<and> valid_proposal p)"

text \<open>A decision belongs to a stored proposal with the same content that was put forward.\<close>

definition approvals_ok :: "Repo \<Rightarrow> bool" where
  "approvals_ok d \<longleftrightarrow> dict_ok (d_approvals d)
     \<and> (\<forall>k a. dget (d_approvals d) k = Some a \<longrightarrow> a_proposal_id a = k \<and> valid_approval a
         \<and> (\<exists>p. dget (d_proposals d) k = Some p \<and> validate_approval_binding p a = Inr ()
              \<and> p_state p \<noteq> ProposalState.PROPOSED))"

text \<open>An idempotency record belongs to an approved proposal whose run was approved.\<close>

definition owned_by_approval :: "Platform \<Rightarrow> Repo \<Rightarrow> IdempotencyRecord \<Rightarrow> bool" where
  "owned_by_approval L d i \<longleftrightarrow>
     (\<exists>p a run. dget (d_proposals d) (i_proposal_id i) = Some p
        \<and> i_idempotency_key i = derive_idempotency_key L p
        \<and> dget (d_approvals d) (i_proposal_id i) = Some a
        \<and> a_decision a = ApprovalDecision.APPROVED
        \<and> dget (d_runs d) (p_run_id p) = Some run
        \<and> phase WorkflowState.APPROVED \<le> phase (r_state run))"

definition idempotency_ok :: "Platform \<Rightarrow> Repo \<Rightarrow> bool" where
  "idempotency_ok L d \<longleftrightarrow> dict_ok (d_idempotency d)
     \<and> (\<forall>k i. dget (d_idempotency d) k = Some i \<longrightarrow> i_idempotency_key i = k
          \<and> valid_idempotency i \<and> owned_by_approval L d i
          \<and> optional (\<lambda>x. k_proposal_id x = i_proposal_id i) (i_execution_acknowledgement i))"

definition checkpoints_ok :: "Platform \<Rightarrow> Repo \<Rightarrow> bool" where
  "checkpoints_ok L d \<longleftrightarrow> dict_ok (d_checkpoints d)
     \<and> (\<forall>k c. dget (d_checkpoints d) k = Some c \<longrightarrow> c_run_id c = k \<and> valid_checkpoint L c)"

definition audit_ok :: "Repo \<Rightarrow> bool" where
  "audit_ok d \<longleftrightarrow> dict_ok (d_audit_events d)
     \<and> (\<forall>k e. dget (d_audit_events d) k = Some e \<longrightarrow> (e_run_id e, e_event_id e) = k
          \<and> valid_audit_event e)
     \<and> (\<forall>rid. count_audit_events rid d \<le> MAX_AUDIT_EVENTS_PER_RUN)"

text \<open>A verification proof belongs to a proposal whose action was registered.\<close>

definition evidence_ok :: "Platform \<Rightarrow> Repo \<Rightarrow> bool" where
  "evidence_ok L d \<longleftrightarrow> dict_ok (d_verification_evidence d)
     \<and> (\<forall>k v. dget (d_verification_evidence d) k = Some v \<longrightarrow> (v_run_id v, v_proposal_id v) = k
          \<and> valid_evidence L v
          \<and> (\<exists>p i. dget (d_proposals d) (v_proposal_id v) = Some p \<and> p_run_id p = v_run_id v
               \<and> p_target p = v_target v
               \<and> dget (d_idempotency d) (derive_idempotency_key L p) = Some i))"

definition repo_ok :: "Platform \<Rightarrow> Repo \<Rightarrow> bool" where
  "repo_ok L d \<longleftrightarrow> runs_ok d \<and> proposals_ok d \<and> approvals_ok d \<and> idempotency_ok L d
     \<and> checkpoints_ok L d \<and> audit_ok d \<and> evidence_ok L d"

lemmas repo_ok_defs = runs_ok_def proposals_ok_def approvals_ok_def idempotency_ok_def
  checkpoints_ok_def audit_ok_def evidence_ok_def

text \<open>A proposal's semantic identity does not depend on its state.\<close>

lemma fingerprint_state [simp]:
  "derive_action_fingerprint L (p\<lparr>p_state := s\<rparr>) = derive_action_fingerprint L p"
  by (simp add: derive_action_fingerprint_def)

lemma idempotency_key_state [simp]:
  "derive_idempotency_key L (p\<lparr>p_state := s\<rparr>) = derive_idempotency_key L p"
  by (simp add: derive_idempotency_key_def)

lemma approval_binding_state [simp]:
  "validate_approval_binding (p\<lparr>p_state := s\<rparr>) a = validate_approval_binding p a"
  by (simp add: validate_approval_binding_def)

lemma allowed_proposal_not_proposed:
  "s \<in> allowed_proposal_states t \<Longrightarrow> s \<noteq> ProposalState.PROPOSED"
  by (cases t) auto

lemma count_append:
  assumes "dget (d_audit_events d) (e_run_id e, e_event_id e) = None"
  shows "count_audit_events rid (d\<lparr>d_audit_events := dput (e_run_id e, e_event_id e) e (d_audit_events d)\<rparr>)
    = count_audit_events rid d + (if e_run_id e = rid then 1 else 0)"
proof -
  have "map fst (dput k x xs) = map fst xs @ [k]" if "dget xs k = None" for k x and xs :: "((uuid \<times> uuid) \<times> AuditEvent) list"
    using that by (induction xs) (auto split: if_splits)
  with assms show ?thesis by (simp add: count_audit_events_def)
qed

lemma empty_repo_ok: "repo_ok L empty_repo"
  by (simp add: repo_ok_def repo_ok_defs empty_repo_def count_audit_events_def)

lemma runs_ok_effect:
  assumes "effect L d d'" and "runs_ok d" shows "runs_ok d'"
  using assms by (cases rule: effect.cases) (auto simp: runs_ok_def length_dput same_records_simps split: if_splits)

lemma proposals_ok_effect:
  assumes "effect L d d'" and "proposals_ok d" shows "proposals_ok d'"
  using assms by (cases rule: effect.cases) (auto simp: proposals_ok_def same_records_simps split: if_splits)

lemma checkpoints_ok_effect:
  assumes "effect L d d'" and "checkpoints_ok L d" shows "checkpoints_ok L d'"
  using assms by (cases rule: effect.cases) (auto simp: checkpoints_ok_def same_records_simps split: if_splits)

lemma audit_ok_effect:
  assumes "effect L d d'" and "audit_ok d" shows "audit_ok d'"
  using assms(1)
proof cases
  case reordered
  with assms(2) show ?thesis by (simp add: audit_ok_def same_records_simps)
next
  case (audited e)
  with assms(2) show ?thesis
    by (auto simp: audit_ok_def count_append Suc_le_eq split: if_splits)
qed (use assms(2) in \<open>auto simp: audit_ok_def same_records_simps count_audit_events_def\<close>)

text \<open>Proposals are kept, up to their state.\<close>

lemma proposal_kept:
  assumes "effect L d d'" and "dget (d_proposals d) k = Some p"
  shows "\<exists>s. dget (d_proposals d') k = Some (p\<lparr>p_state := s\<rparr>)
    \<and> (s = p_state p \<or> s \<in> allowed_proposal_states (p_state p))"
  using assms
  by (cases rule: effect.cases) (auto simp: same_records_simps intro: exI [of _ "p_state p"] split: if_splits)

text \<open>A human decision is never replaced.\<close>

lemma approval_kept:
  assumes "effect L d d'" and "dget (d_approvals d) k = Some a"
  shows "dget (d_approvals d') k = Some a"
  using assms by (cases rule: effect.cases) (auto simp: same_records_simps)

lemma run_kept:
  assumes "effect L d d'" and "dget (d_runs d) k = Some r"
  shows "\<exists>r'. dget (d_runs d') k = Some r'
    \<and> (r_state r' = r_state r \<or> r_state r' \<in> ALLOWED_WORKFLOW_TRANSITIONS (r_state r))"
  using assms by (cases rule: effect.cases) (auto simp: same_records_simps)

lemma approvals_ok_effect:
  assumes eff: "effect L d d'" and ok: "approvals_ok d" shows "approvals_ok d'"
proof -
  have old: "\<exists>p. dget (d_proposals d') k = Some p \<and> validate_approval_binding p a = Inr ()
      \<and> p_state p \<noteq> ProposalState.PROPOSED"
    if a: "dget (d_approvals d) k = Some a" for k a
  proof -
    from ok a obtain p where p: "dget (d_proposals d) k = Some p"
      "validate_approval_binding p a = Inr ()" "p_state p \<noteq> ProposalState.PROPOSED"
      by (auto simp: approvals_ok_def)
    with proposal_kept [OF eff p(1)] show ?thesis
      by (auto dest: allowed_proposal_not_proposed)
  qed
  show ?thesis
  proof (cases "d_approvals d' = d_approvals d \<or> same_records d d'")
    case True
    with old ok show ?thesis by (auto simp: approvals_ok_def same_records_simps)
  next
    case False
    with eff obtain a p where a: "valid_approval a" "dget (d_proposals d) (a_proposal_id a) = Some p"
      "p_state p = ProposalState.AWAITING_APPROVAL" "validate_approval_binding p a = Inr ()"
      "d' = d\<lparr>d_approvals := dput (a_proposal_id a) a (d_approvals d)\<rparr>"
      by (cases rule: effect.cases) auto
    with old ok show ?thesis by (auto simp: approvals_ok_def split: if_splits)
  qed
qed

lemma owned_kept:
  assumes eff: "effect L d d'" and own: "owned_by_approval L d i"
  shows "owned_by_approval L d' i"
proof -
  from own obtain p a run where o: "dget (d_proposals d) (i_proposal_id i) = Some p"
    "i_idempotency_key i = derive_idempotency_key L p"
    "dget (d_approvals d) (i_proposal_id i) = Some a" "a_decision a = ApprovalDecision.APPROVED"
    "dget (d_runs d) (p_run_id p) = Some run" "phase WorkflowState.APPROVED \<le> phase (r_state run)"
    by (auto simp: owned_by_approval_def)
  from proposal_kept [OF eff o(1)] approval_kept [OF eff o(3)] run_kept [OF eff o(5)] o(2,4,6)
  show ?thesis
    unfolding owned_by_approval_def by (fastforce dest: phase_mono)
qed

lemma owned_field [simp]:
  "owned_by_approval L d (i\<lparr>i_status := x\<rparr>) = owned_by_approval L d i"
  "owned_by_approval L d (i\<lparr>i_action_result := y\<rparr>) = owned_by_approval L d i"
  "owned_by_approval L d (i\<lparr>i_completed_at := z\<rparr>) = owned_by_approval L d i"
  "owned_by_approval L d (i\<lparr>i_execution_acknowledgement := w\<rparr>) = owned_by_approval L d i"
  by (simp_all add: owned_by_approval_def)

lemma idempotency_ok_effect:
  assumes eff: "effect L d d'" and ok: "idempotency_ok L d" shows "idempotency_ok L d'"
proof -
  have old: "i_idempotency_key i = k \<and> valid_idempotency i \<and> owned_by_approval L d' i
      \<and> optional (\<lambda>x. k_proposal_id x = i_proposal_id i) (i_execution_acknowledgement i)"
    if "dget (d_idempotency d) k = Some i" for k i
    using that ok owned_kept [OF eff] by (auto simp: idempotency_ok_def)
  from ok have dict: "dict_ok (d_idempotency d)" by (simp add: idempotency_ok_def)
  show ?thesis
    using eff
  proof cases
    case reordered
    with old show ?thesis by (simp add: idempotency_ok_def same_records_simps)
  next
    case (registered i p a run)
    then have "owned_by_approval L d i" by (auto simp: owned_by_approval_def)
    then have "owned_by_approval L d' i" by (rule owned_kept [OF eff])
    with registered old dict show ?thesis by (auto simp: idempotency_ok_def split: if_splits)
  next
    case (completed key i res i' u)
    with old [of key i] old dict show ?thesis by (auto simp: idempotency_ok_def split: if_splits)
  next
    case (acknowledged key i k)
    with old [of key i] have "valid_idempotency (i\<lparr>i_execution_acknowledgement := Some k\<rparr>)"
      by (auto simp: valid_idempotency_def)
    with acknowledged old [of key i] old dict show ?thesis
      by (auto simp: idempotency_ok_def split: if_splits)
  qed (use old dict in \<open>simp_all add: idempotency_ok_def\<close>)
qed

lemma idempotency_kept:
  assumes "effect L d d'" and "dget (d_idempotency d) k = Some i"
  shows "\<exists>i'. dget (d_idempotency d') k = Some i'"
  using assms by (cases rule: effect.cases) (auto simp: same_records_simps)

lemma evidence_ok_effect:
  assumes eff: "effect L d d'" and ok: "evidence_ok L d" shows "evidence_ok L d'"
proof -
  have keep: "\<exists>p i. dget (d_proposals d') (v_proposal_id v) = Some p \<and> p_run_id p = v_run_id v
      \<and> p_target p = v_target v \<and> dget (d_idempotency d') (derive_idempotency_key L p) = Some i"
    if "dget (d_proposals d) (v_proposal_id v) = Some p" "p_run_id p = v_run_id v"
      "p_target p = v_target v" "dget (d_idempotency d) (derive_idempotency_key L p) = Some i"
    for v p i
    using proposal_kept [OF eff that(1)] idempotency_kept [OF eff that(4)] that(2,3) by auto
  have old: "(v_run_id v, v_proposal_id v) = k \<and> valid_evidence L v
      \<and> (\<exists>p i. dget (d_proposals d') (v_proposal_id v) = Some p \<and> p_run_id p = v_run_id v
        \<and> p_target p = v_target v \<and> dget (d_idempotency d') (derive_idempotency_key L p) = Some i)"
    if v: "dget (d_verification_evidence d) k = Some v" for k v
    using v ok keep unfolding evidence_ok_def by blast
  from ok have dict: "dict_ok (d_verification_evidence d)" by (simp add: evidence_ok_def)
  show ?thesis
  proof (cases "d_verification_evidence d' = d_verification_evidence d \<or> same_records d d'")
    case True
    with old dict show ?thesis
      by (elim disjE) (simp_all add: evidence_ok_def same_records_simps)
  next
    case False
    with eff obtain v where v: "valid_evidence L v" "evidence_guard L d v"
      "d' = d\<lparr>d_verification_evidence := dput (v_run_id v, v_proposal_id v) v (d_verification_evidence d)\<rparr>"
      by (cases rule: effect.cases) auto
    from v(2) obtain p i where "dget (d_proposals d) (v_proposal_id v) = Some p"
      "p_run_id p = v_run_id v" "p_target p = v_target v"
      "dget (d_idempotency d) (derive_idempotency_key L p) = Some i"
      by (auto simp: evidence_guard_def Let_def split: option.splits)
    from keep [OF this] old dict v show ?thesis
      by (simp add: evidence_ok_def) blast
  qed
qed

lemma repo_ok_effect: "effect L d d' \<Longrightarrow> repo_ok L d \<Longrightarrow> repo_ok L d'"
  by (simp add: repo_ok_def runs_ok_effect proposals_ok_effect approvals_ok_effect
      idempotency_ok_effect checkpoints_ok_effect audit_ok_effect evidence_ok_effect)

lemma repo_ok_write: "repo_write L d d' \<Longrightarrow> repo_ok L d \<Longrightarrow> repo_ok L d'"
  using write_effect repo_ok_effect by blast

lemma repo_ok_history: "history L ds \<Longrightarrow> d \<in> set ds \<Longrightarrow> repo_ok L d"
proof (induction arbitrary: d rule: history.induct)
  case (later d ds d')
  then show ?case using repo_ok_write by (metis list.set_intros(1) set_ConsD)
qed (simp add: empty_repo_ok)

subsection \<open>Evolution\<close>

text \<open>What a later state keeps of one run: its identity, and an order on the rest.\<close>

definition run_evolves :: "Run \<Rightarrow> Run \<Rightarrow> bool" where
  "run_evolves r r' \<longleftrightarrow>
     r_run_id r' = r_run_id r \<and> r_trace_id r' = r_trace_id r
     \<and> r_correlation_id r' = r_correlation_id r \<and> r_idempotency_key r' = r_idempotency_key r
     \<and> r_created_at r' = r_created_at r \<and> r_updated_at r \<le> r_updated_at r'
     \<and> r_version r \<le> r_version r' \<and> (r_version r' = r_version r \<longrightarrow> r' = r)
     \<and> budget_monotone (r_budget r) (r_budget r')
     \<and> workflow_step\<^sup>*\<^sup>* (r_state r) (r_state r')"

fun proposal_rank :: "ProposalState \<Rightarrow> nat" where
  "proposal_rank ProposalState.PROPOSED = 0"
| "proposal_rank ProposalState.AWAITING_APPROVAL = 1"
| "proposal_rank ProposalState.SUPERSEDED = 2"

definition proposal_evolves :: "ActionProposal \<Rightarrow> ActionProposal \<Rightarrow> bool" where
  "proposal_evolves p p' \<longleftrightarrow>
     p' = p\<lparr>p_state := p_state p'\<rparr> \<and> proposal_rank (p_state p) \<le> proposal_rank (p_state p')"

text \<open>A resolved record is final; a registered one keeps its owner and its acknowledgement.\<close>

definition idempotency_evolves :: "IdempotencyRecord \<Rightarrow> IdempotencyRecord \<Rightarrow> bool" where
  "idempotency_evolves i i' \<longleftrightarrow>
     i_proposal_id i' = i_proposal_id i \<and> i_action_fingerprint i' = i_action_fingerprint i
     \<and> i_registered_at i' = i_registered_at i
     \<and> (i_status i \<noteq> IdempotencyStatus.REGISTERED \<longrightarrow> i' = i)
     \<and> (i_execution_acknowledgement i \<noteq> None \<longrightarrow>
          i_execution_acknowledgement i' = i_execution_acknowledgement i)"

definition checkpoint_evolves :: "Checkpoint \<Rightarrow> Checkpoint \<Rightarrow> bool" where
  "checkpoint_evolves c c' \<longleftrightarrow>
     c_version c \<le> c_version c' \<and> (c_version c' = c_version c \<longrightarrow> c' = c)"

definition table_evolves :: "('v \<Rightarrow> 'v \<Rightarrow> bool) \<Rightarrow> ('k, 'v) dict \<Rightarrow> ('k, 'v) dict \<Rightarrow> bool" where
  "table_evolves R t t' \<longleftrightarrow> (\<forall>k v. dget t k = Some v \<longrightarrow> (\<exists>v'. dget t' k = Some v' \<and> R v v'))"

definition evolves :: "Repo \<Rightarrow> Repo \<Rightarrow> bool" where
  "evolves d d' \<longleftrightarrow>
     table_evolves run_evolves (d_runs d) (d_runs d')
     \<and> table_evolves proposal_evolves (d_proposals d) (d_proposals d')
     \<and> table_evolves (=) (d_approvals d) (d_approvals d')
     \<and> table_evolves idempotency_evolves (d_idempotency d) (d_idempotency d')
     \<and> table_evolves checkpoint_evolves (d_checkpoints d) (d_checkpoints d')
     \<and> table_evolves (=) (d_audit_events d) (d_audit_events d')
     \<and> table_evolves (=) (d_verification_evidence d) (d_verification_evidence d')"

lemma evolves_get:
  assumes "evolves d d'"
  shows "dget (d_runs d) k = Some r \<Longrightarrow> \<exists>r'. dget (d_runs d') k = Some r' \<and> run_evolves r r'"
    and "dget (d_proposals d) k = Some p \<Longrightarrow>
      \<exists>p'. dget (d_proposals d') k = Some p' \<and> proposal_evolves p p'"
    and "dget (d_approvals d) k = Some a \<Longrightarrow> dget (d_approvals d') k = Some a"
    and "dget (d_idempotency d) k = Some i \<Longrightarrow>
      \<exists>i'. dget (d_idempotency d') k = Some i' \<and> idempotency_evolves i i'"
    and "dget (d_checkpoints d) k = Some c \<Longrightarrow>
      \<exists>c'. dget (d_checkpoints d') k = Some c' \<and> checkpoint_evolves c c'"
    and "dget (d_audit_events d) kk = Some e \<Longrightarrow> dget (d_audit_events d') kk = Some e"
    and "dget (d_verification_evidence d) kk = Some v \<Longrightarrow>
      dget (d_verification_evidence d') kk = Some v"
  using assms by (cases kk; auto simp: evolves_def table_evolves_def)+

lemma table_evolves_put:
  assumes "\<And>v. dget t k = Some v \<Longrightarrow> R v w" and "\<And>x. R x x"
  shows "table_evolves R t (dput k w t)"
  using assms by (auto simp: table_evolves_def)

lemma table_evolves_replace:
  assumes "dget t k = Some v" and "R v w" and "\<And>x. R x x"
  shows "table_evolves R t (dput k w t)"
  using assms by (auto simp: table_evolves_def)

lemma table_evolves_new:
  assumes "dget t k = None" and "\<And>x. R x x"
  shows "table_evolves R t (dput k w t)"
  using assms by (auto simp: table_evolves_def)

lemma table_evolves_refl: "(\<And>x. R x x) \<Longrightarrow> table_evolves R t t"
  by (auto simp: table_evolves_def)

lemma table_evolves_trans:
  assumes "\<And>x y z. R x y \<Longrightarrow> R y z \<Longrightarrow> R x z"
    and "table_evolves R t t'" and "table_evolves R t' t''"
  shows "table_evolves R t t''"
  using assms unfolding table_evolves_def by meson

lemma budget_monotone_refl [simp]: "budget_monotone b b"
  by (simp add: budget_monotone_def)

lemma record_refl [simp]:
  "run_evolves r r" "proposal_evolves p p" "idempotency_evolves i i" "checkpoint_evolves c c"
  by (simp_all add: run_evolves_def proposal_evolves_def idempotency_evolves_def
      checkpoint_evolves_def)

lemma run_evolves_trans: "run_evolves r r' \<Longrightarrow> run_evolves r' r'' \<Longrightarrow> run_evolves r r''"
  unfolding run_evolves_def budget_monotone_def
  by (auto intro: rtranclp_trans)

lemma proposal_evolves_trans:
  "proposal_evolves p p' \<Longrightarrow> proposal_evolves p' p'' \<Longrightarrow> proposal_evolves p p''"
  by (cases p; cases p'; cases p'') (auto simp: proposal_evolves_def)

lemma idempotency_evolves_trans:
  "idempotency_evolves i i' \<Longrightarrow> idempotency_evolves i' i'' \<Longrightarrow> idempotency_evolves i i''"
  unfolding idempotency_evolves_def by auto

lemma checkpoint_evolves_trans:
  "checkpoint_evolves c c' \<Longrightarrow> checkpoint_evolves c' c'' \<Longrightarrow> checkpoint_evolves c c''"
  unfolding checkpoint_evolves_def by force

lemma evolves_refl [simp]: "evolves d d"
  by (simp add: evolves_def table_evolves_refl)

lemma evolves_trans: "evolves d d' \<Longrightarrow> evolves d' d'' \<Longrightarrow> evolves d d''"
  unfolding evolves_def
  by (blast intro: table_evolves_trans [where R = run_evolves] run_evolves_trans
      table_evolves_trans [where R = proposal_evolves] proposal_evolves_trans
      table_evolves_trans [where R = idempotency_evolves] idempotency_evolves_trans
      table_evolves_trans [where R = checkpoint_evolves] checkpoint_evolves_trans
      table_evolves_trans [where R = "(=)"])

lemma allowed_proposal_rank:
  "s \<in> allowed_proposal_states t \<Longrightarrow> proposal_rank t \<le> proposal_rank s"
  by (cases t) auto

lemma evolves_effect:
  assumes "effect L d d'" shows "evolves d d'"
  using assms
proof cases
  case reordered
  then show ?thesis by (simp add: evolves_def table_evolves_def same_records_simps)
next
  case (run_moved rid r s ap vp t r')
  then have "run_evolves r r'" by (auto simp: run_evolves_def)
  with run_moved(2) have "table_evolves run_evolves (d_runs d) (dput rid r' (d_runs d))"
    by (rule table_evolves_replace) simp
  with run_moved(1) show ?thesis by (simp add: evolves_def table_evolves_refl)
next
  case (budget_spent rid r b t r')
  then have "run_evolves r r'" by (auto simp: run_evolves_def)
  with budget_spent(2) have "table_evolves run_evolves (d_runs d) (dput rid r' (d_runs d))"
    by (rule table_evolves_replace) simp
  with budget_spent(1) show ?thesis by (simp add: evolves_def table_evolves_refl)
next
  case (proposal_moved pid p ps)
  then have "proposal_evolves p (p\<lparr>p_state := ps\<rparr>)"
    by (simp add: proposal_evolves_def allowed_proposal_rank)
  with proposal_moved(2)
  have "table_evolves proposal_evolves (d_proposals d) (dput pid (p\<lparr>p_state := ps\<rparr>) (d_proposals d))"
    by (rule table_evolves_replace) simp
  with proposal_moved(1) show ?thesis by (simp add: evolves_def table_evolves_refl)
next
  case (completed key i res i' u)
  then have "idempotency_evolves i i'" by (simp add: idempotency_evolves_def)
  with completed(2)
  have "table_evolves idempotency_evolves (d_idempotency d) (dput key i' (d_idempotency d))"
    by (rule table_evolves_replace) simp
  with completed(1) show ?thesis by (simp add: evolves_def table_evolves_refl)
next
  case (acknowledged key i k)
  then have "idempotency_evolves i (i\<lparr>i_execution_acknowledgement := Some k\<rparr>)"
    by (simp add: idempotency_evolves_def)
  with acknowledged(2) have "table_evolves idempotency_evolves (d_idempotency d)
      (dput key (i\<lparr>i_execution_acknowledgement := Some k\<rparr>) (d_idempotency d))"
    by (rule table_evolves_replace) simp
  with acknowledged(1) show ?thesis by (simp add: evolves_def table_evolves_refl)
next
  case (checkpointed c)
  have "table_evolves checkpoint_evolves (d_checkpoints d) (dput (c_run_id c) c (d_checkpoints d))"
    by (rule table_evolves_put) (use checkpointed in \<open>auto simp: checkpoint_evolves_def\<close>)
  with checkpointed(1) show ?thesis by (simp add: evolves_def table_evolves_refl)
qed (simp_all add: evolves_def table_evolves_refl table_evolves_new)

lemma evolves_write: "repo_write L d d' \<Longrightarrow> evolves d d'"
  using write_effect evolves_effect by blast

text \<open>A history evolves from every earlier state to every later one.\<close>

lemma evolves_history:
  "history L (d # ds) \<Longrightarrow> d0 \<in> set (d # ds) \<Longrightarrow> evolves d0 d"
proof (induction "d # ds" arbitrary: d ds rule: history.induct)
  case (later d ds d')
  then show ?case using evolves_write evolves_trans by (metis evolves_refl set_ConsD)
qed simp

lemma workflow_reach_phase: "workflow_step\<^sup>*\<^sup>* s t \<Longrightarrow> phase s \<le> phase t"
  by (induction rule: rtranclp_induct) (auto dest: phase_mono)

lemma workflow_reach_terminal:
  "workflow_step\<^sup>*\<^sup>* s t \<Longrightarrow> s \<in> TERMINAL_WORKFLOW_STATES \<Longrightarrow> t = s"
  by (induction rule: rtranclp_induct) (auto simp: terminal_iff_no_successor)

subsection \<open>Claims about every history\<close>

lemma history_tail: "history L (xs @ d # ds) \<Longrightarrow> history L (d # ds)"
proof (induction xs)
  case (Cons x xs)
  then have "history L ((x # xs) @ d # ds)" by simp
  then show ?case
  proof cases
    case (later e es)
    with Cons.IH show ?thesis by (cases xs) auto
  qed simp
qed simp

lemma history_step:
  "history L (d' # d # ds) \<Longrightarrow> repo_write L d d' \<and> history L (d # ds)"
  by (auto elim: history.cases)

lemma history_single: "history L [d] \<Longrightarrow> d = empty_repo"
  by (auto elim: history.cases)

text \<open>Entering a guarded state happens through the transition that checks its guard.\<close>

lemma effect_enters_approved:
  assumes "effect L d d'" and "dget (d_runs d') rid = Some r"
    and "r_state r = WorkflowState.APPROVED"
  shows "(\<exists>r0. dget (d_runs d) rid = Some r0 \<and> r_state r0 = WorkflowState.APPROVED)
    \<or> (\<exists>pid. legacy_decision_valid d rid pid ApprovalDecision.APPROVED
         \<or> local_decision_valid d rid pid ApprovalDecision.APPROVED)"
  using assms
  by (cases rule: effect.cases)
    (auto simp: decision_guard_def same_records_simps split: if_splits option.splits)

lemma effect_enters_executing:
  assumes "effect L d d'" and "dget (d_runs d') rid = Some r"
    and "r_state r = WorkflowState.EXECUTING"
  shows "\<exists>r0. dget (d_runs d) rid = Some r0
    \<and> r_state r0 \<in> {WorkflowState.APPROVED, WorkflowState.EXECUTING}"
  using assms
  by (cases rule: effect.cases) (auto simp: executing_only_from_approved same_records_simps split: if_splits)

lemma effect_enters_success:
  assumes "effect L d d'" and "dget (d_runs d') rid = Some r"
    and "r_state r = WorkflowState.SUCCESS_WITH_EVIDENCE"
  shows "(\<exists>r0. dget (d_runs d) rid = Some r0 \<and> r_state r0 = WorkflowState.SUCCESS_WITH_EVIDENCE)
    \<or> (\<exists>pid. legacy_proof_valid L d rid pid \<or> local_proof_valid d rid pid)"
  using assms
  by (cases rule: effect.cases) (auto simp: success_guard_def same_records_simps split: if_splits option.splits)

text \<open>C4: a run is approved or executing only if, at some earlier moment, the store held a
  human approval of a proposal of that run (an EC2 decision or a local one).\<close>

theorem execution_needs_human_decision:
  assumes "history L (d # ds)" and "dget (d_runs d) rid = Some r"
    and "r_state r \<in> {WorkflowState.APPROVED, WorkflowState.EXECUTING}"
  shows "\<exists>d0 \<in> set ds. \<exists>pid. legacy_decision_valid d0 rid pid ApprovalDecision.APPROVED
    \<or> local_decision_valid d0 rid pid ApprovalDecision.APPROVED"
  using assms
proof (induction ds arbitrary: d r)
  case Nil
  then show ?case using history_single by (fastforce simp: empty_repo_def)
next
  case (Cons d0 ds)
  from history_step [OF Cons.prems(1)] have eff: "effect L d0 d" and h: "history L (d0 # ds)"
    by (simp_all add: write_effect)
  have earlier: ?case if "dget (d_runs d0) rid = Some r0"
      "r_state r0 \<in> {WorkflowState.APPROVED, WorkflowState.EXECUTING}" for r0
    using Cons.IH [OF h that] by auto
  show ?case
    using Cons.prems(3) effect_enters_approved [OF eff Cons.prems(2)]
      effect_enters_executing [OF eff Cons.prems(2)] earlier by auto
qed

lemma evidence_ok_get:
  assumes "evidence_ok L d" and "dget (d_verification_evidence d) k = Some v"
  shows "(v_run_id v, v_proposal_id v) = k \<and> valid_evidence L v
    \<and> (\<exists>p. dget (d_proposals d) (v_proposal_id v) = Some p \<and> p_run_id p = v_run_id v
        \<and> p_target p = v_target v)"
  using assms unfolding evidence_ok_def by blast

lemma legacy_proof_approved:
  assumes ok: "repo_ok L d" and pf: "legacy_proof_valid L d rid pid"
  shows "\<exists>p v q a. dget (d_proposals d) pid = Some p \<and> p_run_id p = rid
    \<and> dget (d_verification_evidence d) (rid, pid) = Some v \<and> v_target v = p_target p
    \<and> v_observed_state v = ObservedInstanceState.STOPPED
    \<and> dget (d_proposals d) (a_proposal_id a) = Some q
    \<and> derive_idempotency_key L q = derive_idempotency_key L p
    \<and> dget (d_approvals d) (a_proposal_id a) = Some a
    \<and> a_decision a = ApprovalDecision.APPROVED"
proof -
  from pf obtain p v i where p: "dget (d_proposals d) pid = Some p"
    and v: "dget (d_verification_evidence d) (rid, pid) = Some v"
    and i: "dget (d_idempotency d) (derive_idempotency_key L p) = Some i"
    and st: "v_observed_state v = ObservedInstanceState.STOPPED"
    by (auto simp: legacy_proof_valid_def split: option.splits)
  from ok i have "i_idempotency_key i = derive_idempotency_key L p" "owned_by_approval L d i"
    by (auto simp: repo_ok_def idempotency_ok_def)
  then obtain q a where q: "dget (d_proposals d) (i_proposal_id i) = Some q"
    "derive_idempotency_key L q = derive_idempotency_key L p"
    "dget (d_approvals d) (i_proposal_id i) = Some a" "a_decision a = ApprovalDecision.APPROVED"
    by (auto simp: owned_by_approval_def)
  with ok have "a_proposal_id a = i_proposal_id i" by (auto simp: repo_ok_def approvals_ok_def)
  moreover have "p_run_id p = rid \<and> v_target v = p_target p"
    using evidence_ok_get [of L d "(rid, pid)" v] ok v p by (auto simp: repo_ok_def)
  ultimately show ?thesis using p v q st
    by (intro exI [of _ p] exI [of _ v] exI [of _ q] exI [of _ a]) simp
qed

lemma local_proof_approved:
  assumes ok: "repo_ok L d" and pf: "local_proof_valid d rid pid"
  shows "\<exists>c v r a. dget (d_checkpoints d) rid = Some c \<and> c_local_verification c = Some v
    \<and> c_local_execution_receipt c = Some r \<and> c_local_approval c = Some a
    \<and> la_decision a = ApprovalDecision.APPROVED \<and> la_proposal_hash a = lr_proposal_hash r
    \<and> lv_receipt_hash v = lr_receipt_hash r \<and> same_optional_resource (lv_observed_resource v) (lr_after_resource r)"
proof -
  from pf obtain c r v where c: "dget (d_checkpoints d) rid = Some c"
    "c_local_execution_receipt c = Some r" "c_local_verification c = Some v"
    by (auto simp: local_proof_valid_def split: option.splits)
  with ok have b: "checkpoint_bindings c"
    by (auto simp: repo_ok_def checkpoints_ok_def valid_checkpoint_def)
  from checkpoint_verification_chain [OF b c(3)] checkpoint_receipt_chain [OF b c(2)] c(2)
  obtain i where i: "c_local_execution_intent c = Some i" "lr_proposal_hash r = li_proposal_hash i"
    "lv_receipt_hash v = lr_receipt_hash r" "same_optional_resource (lv_observed_resource v) (lr_after_resource r)"
    by auto
  from checkpoint_chain [OF b i(1)] obtain a where
    "c_local_approval c = Some a" "la_decision a = ApprovalDecision.APPROVED"
    "la_proposal_hash a = li_proposal_hash i" by auto
  with c i show ?thesis by auto
qed

text \<open>C5: a run that reports success was preceded by a state with an independent proof of the
  outcome (the stopped instance, or the read-back of the local mutation) and a recorded human
  approval of the same action.\<close>

theorem success_needs_approved_proof:
  assumes "history L (d # ds)" and "dget (d_runs d) rid = Some r"
    and "r_state r = WorkflowState.SUCCESS_WITH_EVIDENCE"
  shows "\<exists>d0 \<in> set ds.
    (\<exists>pid p v q a. dget (d_proposals d0) pid = Some p \<and> p_run_id p = rid
      \<and> dget (d_verification_evidence d0) (rid, pid) = Some v \<and> v_target v = p_target p
      \<and> v_observed_state v = ObservedInstanceState.STOPPED
      \<and> dget (d_proposals d0) (a_proposal_id a) = Some q
      \<and> derive_idempotency_key L q = derive_idempotency_key L p
      \<and> dget (d_approvals d0) (a_proposal_id a) = Some a
      \<and> a_decision a = ApprovalDecision.APPROVED)
    \<or> (\<exists>c v k a. dget (d_checkpoints d0) rid = Some c \<and> c_local_verification c = Some v
      \<and> c_local_execution_receipt c = Some k \<and> c_local_approval c = Some a
      \<and> la_decision a = ApprovalDecision.APPROVED \<and> la_proposal_hash a = lr_proposal_hash k
      \<and> lv_receipt_hash v = lr_receipt_hash k \<and> same_optional_resource (lv_observed_resource v) (lr_after_resource k))"
    (is "\<exists>d0 \<in> set ds. ?P d0")
  using assms
proof (induction ds arbitrary: d r)
  case Nil
  then show ?case using history_single by (fastforce simp: empty_repo_def)
next
  case (Cons d0 ds)
  from history_step [OF Cons.prems(1)] have eff: "effect L d0 d" and h: "history L (d0 # ds)"
    by (simp_all add: write_effect)
  have ok: "repo_ok L d0" using repo_ok_history [OF h] by simp
  from effect_enters_success [OF eff Cons.prems(2,3)] consider
    r0 where "dget (d_runs d0) rid = Some r0" "r_state r0 = WorkflowState.SUCCESS_WITH_EVIDENCE"
    | pid where "legacy_proof_valid L d0 rid pid" | pid where "local_proof_valid d0 rid pid"
    by blast
  then show ?case
  proof cases
    case 1
    from Cons.IH [OF h this] show ?thesis by auto
  next
    case 2
    from legacy_proof_approved [OF ok this] have "?P d0" by blast
    then show ?thesis by (rule bexI [of _ d0]) simp
  next
    case 3
    from local_proof_approved [OF ok this] have "?P d0" by blast
    then show ?thesis by (rule bexI [of _ d0]) simp
  qed
qed

text \<open>C27: human decisions, audit events and verification proofs are write-once, run identity
  and budget caps are fixed, versions and counters only grow, proposals only advance, and a
  resolved idempotency record is final, between any two states of a history.\<close>

theorem history_is_append_only:
  assumes "history L (xs @ d1 # ys)" and "d0 \<in> set ys"
  shows "evolves d0 d1"
  using evolves_history [OF history_tail [OF assms(1)]] assms(2) by simp

text \<open>A run enters EXECUTING at most once: when a later state of the run is no longer
  executing, no state after it is executing, or approved, again.\<close>

theorem executing_at_most_once:
  assumes "history L (xs @ d1 # ys)" and "d0 \<in> set ys" and "d2 \<in> set xs"
    and "dget (d_runs d0) rid = Some r0" and "r_state r0 = WorkflowState.EXECUTING"
    and "dget (d_runs d1) rid = Some r1" and "r_state r1 \<noteq> WorkflowState.EXECUTING"
    and "dget (d_runs d2) rid = Some r2"
  shows "r_state r2 \<notin> {WorkflowState.APPROVED, WorkflowState.EXECUTING}"
proof -
  have "run_evolves r0 r1"
    using evolves_get(1) [OF evolves_history [OF history_tail [OF assms(1)]]] assms(2,4,6)
    by fastforce
  then have "workflow_step\<^sup>*\<^sup>* (r_state r0) (r_state r1)" by (simp add: run_evolves_def)
  then have late: "7 \<le> phase (r_state r1)"
  proof (cases rule: converse_rtranclpE)
    case base
    with assms(5,7) show ?thesis by simp
  next
    case (step y)
    then have "phase (r_state r0) < phase y"
      using phase_strict_before_verification [of y "r_state r0"] assms(5) by simp
    with workflow_reach_phase [OF step(2)] assms(5) show ?thesis by simp
  qed
  from assms(3) obtain us vs where xs: "xs = us @ d2 # vs" by (meson split_list)
  with assms(1) have "history L (d2 # vs @ d1 # ys)" by (metis history_tail append.assoc append_Cons)
  then have "evolves d1 d2" by (rule evolves_history) simp
  then have "run_evolves r1 r2" using evolves_get(1) assms(6,8) by fastforce
  then have "phase (r_state r1) \<le> phase (r_state r2)"
    by (simp add: run_evolves_def workflow_reach_phase)
  with late show ?thesis by auto
qed

text \<open>no lost update: once a transition or a budget update has consumed a run version,
  every later transition that expects the same version is refused and changes nothing.\<close>

theorem stale_version_refused:
  assumes "repo_transition_run L rid s es ev t ap vp d = (Inr r, d1)" and "evolves d1 d2"
  shows "repo_transition_run L rid s' es' ev t' ap' vp' d2 = (Inl StorageConflictError, d2)"
proof -
  from repo_transition_run_Inr [OF assms(1)] obtain current where
    c: "r_version current = ev" "transition_run current s t = Inr r"
    "d1 = d\<lparr>d_runs := dput rid r (d_runs d)\<rparr>" by auto
  from transition_run_Inr [OF c(2)] c(1) have "r_version r = ev + 1" by auto
  moreover from c(3) have "dget (d_runs d1) rid = Some r" by simp
  from evolves_get(1) [OF assms(2) this] obtain r2 where
    "dget (d_runs d2) rid = Some r2" "r_version r \<le> r_version r2"
    by (auto simp: run_evolves_def)
  ultimately show ?thesis by (simp add: repo_transition_run_def raise_def)
qed

text \<open>One semantic action has one owner: once a key is registered, registering it for
  another proposal is refused at every later time, and registering it again for the owner
  returns the stored record and writes nothing.\<close>

theorem idempotency_single_owner:
  assumes "dget (d_idempotency d) (i_idempotency_key j) = Some i" and "evolves d d'"
  shows "(i_proposal_id j \<noteq> i_proposal_id i \<longrightarrow>
      repo_register_idempotency L j d' = (Inl StorageConflictError, d'))
    \<and> (i_proposal_id j = i_proposal_id i \<and> i_action_fingerprint j = i_action_fingerprint i \<longrightarrow>
      (\<exists>i'. repo_register_idempotency L j d' = (Inr i', d') \<and> idempotency_evolves i i'))"
  using evolves_get(4) [OF assms(2,1)]
  by (auto simp: repo_register_idempotency_def raise_def idempotency_evolves_def)

end
