(* ===== verification/Durable_Interface.thy ===== *)
theory Durable_Interface
  imports Durable_Invariants
begin

text \<open>
  \<open>persistence/durable_repository.py\<close>: the repository protocol as a record of programs over
  any state, and the contract its clients rely on. A call behaves as the atomic repository
  operation at some moment, between writes of other clients, or it fails with a storage
  error, in which case nobody knows whether it was carried out.
\<close>

subsection \<open>The protocol\<close>

record 's DurableTruthRepository =
  op_create_run :: "Run \<Rightarrow> ('s, Run) prog"
  op_get_run :: "uuid \<Rightarrow> ('s, Run option) prog"
  op_transition_run :: "uuid \<Rightarrow> WorkflowState \<Rightarrow> WorkflowState \<Rightarrow> int \<Rightarrow> datetime
     \<Rightarrow> uuid option \<Rightarrow> uuid option \<Rightarrow> ('s, Run) prog"
  op_update_run_budget :: "uuid \<Rightarrow> BudgetCounters \<Rightarrow> int \<Rightarrow> datetime \<Rightarrow> ('s, Run) prog"
  op_create_proposal :: "ActionProposal \<Rightarrow> ('s, ActionProposal) prog"
  op_get_proposal :: "uuid \<Rightarrow> ('s, ActionProposal option) prog"
  op_transition_proposal :: "uuid \<Rightarrow> ProposalState \<Rightarrow> ProposalState \<Rightarrow> ('s, ActionProposal) prog"
  op_create_approval :: "Approval \<Rightarrow> ('s, Approval) prog"
  op_get_approval :: "uuid \<Rightarrow> ('s, Approval option) prog"
  op_register_idempotency :: "IdempotencyRecord \<Rightarrow> ('s, IdempotencyRecord) prog"
  op_get_idempotency :: "string \<Rightarrow> ('s, IdempotencyRecord option) prog"
  op_complete_idempotency :: "string \<Rightarrow> ActionResult \<Rightarrow> datetime \<Rightarrow> ('s, IdempotencyRecord) prog"
  op_record_execution_acknowledgement ::
    "string \<Rightarrow> ExecutionAcknowledgement \<Rightarrow> ('s, IdempotencyRecord) prog"
  op_save_checkpoint :: "Checkpoint \<Rightarrow> int option \<Rightarrow> ('s, Checkpoint) prog"
  op_get_checkpoint :: "uuid \<Rightarrow> ('s, Checkpoint option) prog"
  op_append_audit_event :: "AuditEvent \<Rightarrow> ('s, AuditEvent) prog"
  op_get_audit_event :: "uuid \<Rightarrow> uuid \<Rightarrow> ('s, AuditEvent option) prog"
  op_create_verification_evidence :: "VerificationEvidence \<Rightarrow> ('s, VerificationEvidence) prog"
  op_get_verification_evidence :: "uuid \<Rightarrow> uuid \<Rightarrow> ('s, VerificationEvidence option) prog"

subsection \<open>Later states of the store\<close>

abbreviation later :: "Platform \<Rightarrow> Repo \<Rightarrow> Repo \<Rightarrow> bool" where
  "later L \<equiv> (repo_write L)\<^sup>*\<^sup>*"

lemma later_evolves: "later L d d' \<Longrightarrow> evolves d d'"
  by (induction rule: rtranclp_induct) (auto dest: evolves_write intro: evolves_trans)

lemma later_ok: "later L d d' \<Longrightarrow> repo_ok L d \<Longrightarrow> repo_ok L d'"
  by (induction rule: rtranclp_induct) (auto dest: repo_ok_write)

lemma history_later:
  assumes "later L d d'" and "history L (d # ds)"
  shows "\<exists>es. history L (d' # es) \<and> set (d # ds) \<subseteq> set (d' # es)"
  using assms
proof (induction rule: rtranclp_induct)
  case (step d1 d2)
  then obtain es where "history L (d1 # es)" "set (d # ds) \<subseteq> set (d1 # es)" by blast
  with step.hyps(2) show ?case by (intro exI [of _ "d1 # es"]) (auto intro: history.later)
qed blast

lemma later_write: "repo_write L d d' \<Longrightarrow> later L d d'"
  by (rule r_into_rtranclp)

subsection \<open>The contract of a call\<close>

text \<open>A storage error, or the end of the process during the call.\<close>

definition fault :: "exc \<Rightarrow> bool" where
  "fault e \<longleftrightarrow> e = StorageDependencyError \<or> e = Killed"

text \<open>
  \<open>view\<close> is the stored truth in a state, \<open>rest\<close> the part of the state a call of the store
  does not touch.
\<close>

definition performs ::
    "Platform \<Rightarrow> ('s \<Rightarrow> Repo) \<Rightarrow> ('s \<Rightarrow> 'r) \<Rightarrow> ('s, 'a) prog \<Rightarrow> (Repo, 'a) prog \<Rightarrow> bool" where
  "performs L view rest m op \<longleftrightarrow>
     (\<forall>s x s'. m s = (x, s') \<longrightarrow> rest s' = rest s \<and> later L (view s) (view s')
        \<and> ((\<exists>d d2. later L (view s) d \<and> op d = (x, d2) \<and> later L d2 (view s'))
           \<or> (\<exists>e. x = Inl e \<and> fault e)))"

text \<open>A program that only other clients' writes accompany, and that leaves \<open>rest\<close> alone.\<close>

definition bystander ::
    "Platform \<Rightarrow> ('s \<Rightarrow> Repo) \<Rightarrow> ('s \<Rightarrow> 'r) \<Rightarrow> ('s, 'a) prog \<Rightarrow> bool" where
  "bystander L view rest m \<longleftrightarrow>
     (\<forall>s x s'. m s = (x, s') \<longrightarrow> rest s' = rest s \<and> later L (view s) (view s'))"

lemma performsD:
  assumes "performs L view rest m op" and "m s = (x, s')"
  shows "rest s' = rest s" and "later L (view s) (view s')"
    and "x = Inr y \<Longrightarrow> \<exists>d d2. later L (view s) d \<and> op d = (Inr y, d2) \<and> later L d2 (view s')"
    and "x = Inl e \<Longrightarrow> fault e \<or> (\<exists>d. later L (view s) d \<and> fst (op d) = Inl e)"
proof -
  from assms have p: "rest s' = rest s \<and> later L (view s) (view s')
      \<and> ((\<exists>d d2. later L (view s) d \<and> op d = (x, d2) \<and> later L d2 (view s'))
         \<or> (\<exists>e. x = Inl e \<and> fault e))"
    unfolding performs_def by blast
  then show "rest s' = rest s" and "later L (view s) (view s')" by blast+
  show "\<exists>d d2. later L (view s) d \<and> op d = (Inr y, d2) \<and> later L d2 (view s')" if "x = Inr y"
    using p that by blast
  show "fault e \<or> (\<exists>d. later L (view s) d \<and> fst (op d) = Inl e)" if "x = Inl e"
    using p that by (metis fst_conv sum.inject(1))
qed

lemma performs_bystander: "performs L view rest m op \<Longrightarrow> bystander L view rest m"
  unfolding performs_def bystander_def by blast

lemma bystanderD:
  assumes "bystander L view rest m" and "m s = (x, s')"
  shows "rest s' = rest s" and "later L (view s) (view s')"
  using assms unfolding bystander_def by blast+

text \<open>Bystanders compose, so a handler without the executor is one by its syntax.\<close>

named_theorems bystander_intros \<open>rules for programs that only touch the store\<close>

lemma bystander_ret [bystander_intros]: "bystander L view rest (ret x)"
  by (simp add: bystander_def ret_def)

lemma bystander_raise [bystander_intros]: "bystander L view rest (raise e)"
  by (simp add: bystander_def raise_def)

lemma bystander_lift [bystander_intros]: "bystander L view rest (lift r)"
  by (simp add: bystander_def lift_def)

lemma bystander_andThen [bystander_intros]:
  assumes "bystander L view rest m" and "\<And>x. bystander L view rest (k x)"
  shows "bystander L view rest (andThen m k)"
  unfolding bystander_def
proof (intro allI impI)
  fix s x s' assume run: "andThen m k s = (x, s')"
  obtain r s1 where m: "m s = (r, s1)" by fastforce
  note first = bystanderD [OF assms(1) m]
  show "rest s' = rest s \<and> later L (view s) (view s')"
  proof (cases r)
    case (Inl e)
    with run m first show ?thesis by (simp add: andThen_def)
  next
    case (Inr y)
    with run m have "k y s1 = (x, s')" by (simp add: andThen_def)
    from bystanderD [OF assms(2) this] first show ?thesis by (auto intro: rtranclp_trans)
  qed
qed

lemma bystander_tryThen [bystander_intros]:
  assumes "bystander L view rest m" and "\<And>e g. h e = Some g \<Longrightarrow> bystander L view rest g"
    and "\<And>x. bystander L view rest (k x)"
  shows "bystander L view rest (tryThen m h k)"
  unfolding bystander_def
proof (intro allI impI)
  fix s x s' assume run: "tryThen m h k s = (x, s')"
  obtain r s1 where m: "m s = (r, s1)" by fastforce
  note first = bystanderD [OF assms(1) m]
  show "rest s' = rest s \<and> later L (view s) (view s')"
  proof (cases r)
    case (Inl e)
    show ?thesis
    proof (cases "h e")
      case None
      with Inl run m first show ?thesis by (simp add: tryThen_def)
    next
      case (Some g)
      with Inl run m have "g s1 = (x, s')" by (simp add: tryThen_def)
      from bystanderD [OF assms(2) [OF Some] this] first show ?thesis
        by (auto intro: rtranclp_trans)
    qed
  next
    case (Inr y)
    with run m have "k y s1 = (x, s')" by (simp add: tryThen_def)
    from bystanderD [OF assms(3) this] first show ?thesis by (auto intro: rtranclp_trans)
  qed
qed

lemma bystander_if [bystander_intros]:
  "(b \<Longrightarrow> bystander L view rest m) \<Longrightarrow> (\<not> b \<Longrightarrow> bystander L view rest m') \<Longrightarrow>
   bystander L view rest (if b then m else m')"
  by simp

lemma bystander_option [bystander_intros]:
  "(x = None \<Longrightarrow> bystander L view rest m) \<Longrightarrow> (\<And>y. x = Some y \<Longrightarrow> bystander L view rest (k y)) \<Longrightarrow>
   bystander L view rest (case x of None \<Rightarrow> m | Some y \<Rightarrow> k y)"
  by (simp split: option.splits)

lemma bystander_sum [bystander_intros]:
  "(\<And>y. x = Inl y \<Longrightarrow> bystander L view rest (f y)) \<Longrightarrow>
   (\<And>y. x = Inr y \<Longrightarrow> bystander L view rest (g y)) \<Longrightarrow>
   bystander L view rest (case x of Inl y \<Rightarrow> f y | Inr y \<Rightarrow> g y)"
  by (simp split: sum.splits)

lemma bystander_prod [bystander_intros]:
  "(\<And>a b. x = (a, b) \<Longrightarrow> bystander L view rest (f a b)) \<Longrightarrow>
   bystander L view rest (case x of (a, b) \<Rightarrow> f a b)"
  by (simp split: prod.splits)

lemma bystander_let [bystander_intros]:
  "(\<And>y. bystander L view rest (k y)) \<Longrightarrow> bystander L view rest (let y = x in k y)"
  by simp

text \<open>Splitting a completed run of a composed program.\<close>

lemma andThen_InrE:
  assumes "andThen m k s = (Inr y, s')"
  obtains x s1 where "m s = (Inr x, s1)" and "k x s1 = (Inr y, s')"
  using assms by (auto simp: andThen_def split: prod.splits sum.splits)

lemma andThen_eqE:
  assumes "andThen m k s = (r, s')"
  obtains e where "m s = (Inl e, s')" and "r = Inl e"
    | x s1 where "m s = (Inr x, s1)" and "k x s1 = (r, s')"
  using assms by (auto simp: andThen_def split: prod.splits sum.splits)

lemma tryThen_eqE:
  assumes "tryThen m h k s = (r, s')"
  obtains e where "m s = (Inl e, s')" and "h e = None" and "r = Inl e"
    | e g s1 where "m s = (Inl e, s1)" and "h e = Some g" and "g s1 = (r, s')"
    | x s1 where "m s = (Inr x, s1)" and "k x s1 = (r, s')"
  using assms by (auto simp: tryThen_def split: prod.splits sum.splits option.splits)

lemma lift_eqE:
  assumes "lift r s = (x, s')" obtains "x = r" and "s' = s"
  using assms by (auto simp: lift_def)

lemma ret_eqE:
  assumes "ret v s = (x, s')" obtains "x = Inr v" and "s' = s"
  using assms by (auto simp: ret_def)

subsection \<open>The contract of a repository\<close>

locale durable_truth =
  fixes L :: Platform
    and R :: "'s DurableTruthRepository"
    and view :: "'s \<Rightarrow> Repo"
    and rest :: "'s \<Rightarrow> 'r"
  assumes create_run:
      "valid_run run \<Longrightarrow> performs L view rest (op_create_run R run) (repo_create_run run)"
    and get_run: "performs L view rest (op_get_run R rid) (repo_get_run rid)"
    and transition: "performs L view rest (op_transition_run R rid s es ev t ap vp)
      (repo_transition_run L rid s es ev t ap vp)"
    and update_run_budget: "valid_budget b \<Longrightarrow>
      performs L view rest (op_update_run_budget R rid b ev t) (repo_update_run_budget rid b ev t)"
    and create_proposal: "valid_proposal p \<Longrightarrow>
      performs L view rest (op_create_proposal R p) (repo_create_proposal p)"
    and get_proposal: "performs L view rest (op_get_proposal R pid) (repo_get_proposal pid)"
    and transition_proposal: "performs L view rest (op_transition_proposal R pid ps eps)
      (repo_transition_proposal pid ps eps)"
    and create_approval: "valid_approval a \<Longrightarrow>
      performs L view rest (op_create_approval R a) (repo_create_approval a)"
    and get_approval: "performs L view rest (op_get_approval R pid) (repo_get_approval pid)"
    and register_idempotency: "valid_idempotency i \<Longrightarrow>
      i_status i = IdempotencyStatus.REGISTERED \<Longrightarrow> i_execution_acknowledgement i = None \<Longrightarrow>
      performs L view rest (op_register_idempotency R i) (repo_register_idempotency L i)"
    and get_idempotency:
      "performs L view rest (op_get_idempotency R key) (repo_get_idempotency key)"
    and complete_idempotency: "valid_action_result res \<Longrightarrow>
      performs L view rest (op_complete_idempotency R key res t)
        (repo_complete_idempotency key res t IdempotencyStatus.REGISTERED)"
    and record_acknowledgement: "valid_acknowledgement k \<Longrightarrow>
      performs L view rest (op_record_execution_acknowledgement R key k)
        (repo_record_execution_acknowledgement key k IdempotencyStatus.REGISTERED)"
    and save_checkpoint: "valid_checkpoint L c \<Longrightarrow>
      performs L view rest (op_save_checkpoint R c cv) (repo_save_checkpoint c cv)"
    and get_checkpoint:
      "performs L view rest (op_get_checkpoint R rid) (repo_get_checkpoint rid)"
    and append_audit_event: "valid_audit_event e \<Longrightarrow>
      performs L view rest (op_append_audit_event R e) (repo_append_audit_event e)"
    and get_audit_event:
      "performs L view rest (op_get_audit_event R rid eid) (repo_get_audit_event rid eid)"
    and create_evidence: "valid_evidence L v \<Longrightarrow>
      performs L view rest (op_create_verification_evidence R v)
        (repo_create_verification_evidence L v)"
    and get_evidence: "performs L view rest (op_get_verification_evidence R rid pid)
      (repo_get_verification_evidence rid pid)"
begin

lemmas store_bystander = create_run [THEN performs_bystander] get_run [THEN performs_bystander]
  transition [THEN performs_bystander] update_run_budget [THEN performs_bystander]
  create_proposal [THEN performs_bystander] get_proposal [THEN performs_bystander]
  transition_proposal [THEN performs_bystander] create_approval [THEN performs_bystander]
  get_approval [THEN performs_bystander] register_idempotency [THEN performs_bystander]
  get_idempotency [THEN performs_bystander] complete_idempotency [THEN performs_bystander]
  record_acknowledgement [THEN performs_bystander] save_checkpoint [THEN performs_bystander]
  get_checkpoint [THEN performs_bystander] append_audit_event [THEN performs_bystander]
  get_audit_event [THEN performs_bystander] create_evidence [THEN performs_bystander]
  get_evidence [THEN performs_bystander]

text \<open>What a successful read tells about the store now.\<close>

lemma get_run_result:
  assumes "op_get_run R rid s = (Inr (Some r), s')"
  shows "\<exists>r'. dget (d_runs (view s')) rid = Some r' \<and> run_evolves r r'"
proof -
  from performsD(3) [OF get_run assms refl] obtain d d2 where
    d: "repo_get_run rid d = (Inr (Some r), d2)" "later L d2 (view s')" by blast
  then have "dget (d_runs d2) rid = Some r" by (auto simp: repo_get_run_def)
  with later_evolves [OF d(2)] show ?thesis by (rule evolves_get(1))
qed

lemma get_proposal_result:
  assumes "op_get_proposal R pid s = (Inr (Some p), s')"
  shows "\<exists>p'. dget (d_proposals (view s')) pid = Some p' \<and> proposal_evolves p p'"
proof -
  from performsD(3) [OF get_proposal assms refl] obtain d d2 where
    d: "repo_get_proposal pid d = (Inr (Some p), d2)" "later L d2 (view s')" by blast
  then have "dget (d_proposals d2) pid = Some p" by (auto simp: repo_get_proposal_def)
  with later_evolves [OF d(2)] show ?thesis by (rule evolves_get(2))
qed

lemma get_approval_result:
  assumes "op_get_approval R pid s = (Inr (Some a), s')"
  shows "dget (d_approvals (view s')) pid = Some a"
proof -
  from performsD(3) [OF get_approval assms refl] obtain d d2 where
    d: "repo_get_approval pid d = (Inr (Some a), d2)" "later L d2 (view s')" by blast
  then have "dget (d_approvals d2) pid = Some a" by (auto simp: repo_get_approval_def)
  with later_evolves [OF d(2)] show ?thesis by (rule evolves_get(3))
qed

text \<open>A key that is registered is found, whatever other clients do.\<close>

lemma get_idempotency_present:
  assumes "op_get_idempotency R key s = (Inr x, s')" and "dget (d_idempotency (view s)) key = Some i"
  shows "\<exists>i'. x = Some i' \<and> idempotency_evolves i i'"
proof -
  from performsD(3) [OF get_idempotency assms(1) refl] obtain d where
    d: "later L (view s) d" "fst (repo_get_idempotency key d) = Inr x" by fastforce
  from evolves_get(4) [OF later_evolves [OF d(1)] assms(2)] d(2) show ?thesis
    by (auto simp: repo_get_idempotency_def)
qed

end

subsection \<open>The in-memory repository implements the protocol\<close>

definition mem_repository :: "Platform \<Rightarrow> Repo DurableTruthRepository" where
  "mem_repository L =
     \<lparr>op_create_run = repo_create_run,
      op_get_run = repo_get_run,
      op_transition_run = repo_transition_run L,
      op_update_run_budget = repo_update_run_budget,
      op_create_proposal = repo_create_proposal,
      op_get_proposal = repo_get_proposal,
      op_transition_proposal = repo_transition_proposal,
      op_create_approval = repo_create_approval,
      op_get_approval = repo_get_approval,
      op_register_idempotency = repo_register_idempotency L,
      op_get_idempotency = repo_get_idempotency,
      op_complete_idempotency =
        (\<lambda>key res t. repo_complete_idempotency key res t IdempotencyStatus.REGISTERED),
      op_record_execution_acknowledgement =
        (\<lambda>key k. repo_record_execution_acknowledgement key k IdempotencyStatus.REGISTERED),
      op_save_checkpoint = repo_save_checkpoint,
      op_get_checkpoint = repo_get_checkpoint,
      op_append_audit_event = repo_append_audit_event,
      op_get_audit_event = repo_get_audit_event,
      op_create_verification_evidence = repo_create_verification_evidence L,
      op_get_verification_evidence = repo_get_verification_evidence\<rparr>"

lemma performs_write:
  assumes "\<And>d x d'. op d = (x, d') \<Longrightarrow> repo_write L d d'"
  shows "performs L (\<lambda>d. d) (\<lambda>_. ()) op op"
  unfolding performs_def using assms by (auto dest: later_write)

lemma performs_read:
  assumes "\<And>d. snd (op d) = d"
  shows "performs L (\<lambda>d. d) (\<lambda>_. ()) op op"
  unfolding performs_def using assms by (metis rtranclp.rtrancl_refl snd_conv)

lemma mem_reads:
  "snd (repo_get_run rid d) = d" "snd (repo_get_proposal pid d) = d"
  "snd (repo_get_approval pid d) = d" "snd (repo_get_idempotency key d) = d"
  "snd (repo_get_checkpoint rid d) = d" "snd (repo_get_audit_event rid eid d) = d"
  "snd (repo_get_verification_evidence rid pid d) = d"
  by (simp_all add: repo_get_run_def repo_get_proposal_def repo_get_approval_def
      repo_get_idempotency_def repo_get_checkpoint_def repo_get_audit_event_def
      repo_get_verification_evidence_def)

interpretation mem: durable_truth L "mem_repository L" "\<lambda>d. d" "\<lambda>_. ()" for L
  by unfold_locales (auto simp: mem_repository_def mem_reads performs_read
      intro!: performs_write intro: repo_write.intros)

end
