(* ===== verification/Policy.thy ===== *)
theory Policy
  imports Uuid_Text Durable_Interface
begin

text \<open>
  \<open>safety/policy.py\<close>: the default-deny policy in front of every tool call, with the identity
  and target models of \<open>cloudops/models.py\<close> it compares the durable records with. Tool name
  and input are the dynamic values of the call.
\<close>

subsection \<open>Decisions\<close>

datatype PolicyDisposition = ALLOW | REQUIRE_CONFIRMATION | DENY

record PolicyDecision =
  pd_disposition :: PolicyDisposition
  pd_capability :: "Capability option"
  pd_authority :: "AuthorityGate option"
  pd_terminal_state :: "WorkflowState option"
  pd_failure :: "FailureDetail option"

definition valid_failure_detail :: "FailureDetail \<Rightarrow> bool" where
  "valid_failure_detail f \<longleftrightarrow> short_identifier (f_code f) \<and> non_empty_text (f_message f)"

definition valid_policy_decision :: "PolicyDecision \<Rightarrow> bool" where
  "valid_policy_decision d \<longleftrightarrow> optional valid_failure_detail (pd_failure d)
     \<and> (if pd_disposition d = DENY then pd_failure d \<noteq> None \<and> pd_terminal_state d \<noteq> None
        else pd_failure d = None \<and> pd_terminal_state d = None)"

subsection \<open>Tool tables\<close>

definition TOOL_CAPABILITY :: "(string, Capability) dict" where
  "TOOL_CAPABILITY = map (\<lambda>c. (Capability_value c, c))
     [Capability.INSPECT_INSTANCE, Capability.READ_UTILIZATION_METRICS,
      Capability.BUILD_REMEDIATION_EVIDENCE, Capability.STOP_SANDBOX_INSTANCE,
      Capability.VERIFY_INSTANCE_STATE]"

definition STRUCTURALLY_DENIED_TOOL :: "(string, Capability) dict" where
  "STRUCTURALLY_DENIED_TOOL =
     [(''CreateTags'', Capability.CREATE_TAGS),
      (''DeleteTags'', Capability.DELETE_TAGS),
      (''ModifyInstanceAttribute'', Capability.MODIFY_INSTANCE_ATTRIBUTE),
      (''RebootInstances'', Capability.REBOOT_INSTANCES),
      (''SendCommand'', Capability.SSM_COMMAND_EXECUTION),
      (''StartInstances'', Capability.START_INSTANCES),
      (''TerminateInstances'', Capability.TERMINATE_INSTANCES),
      (''create_tags'', Capability.CREATE_TAGS),
      (''credentials'', Capability.CREDENTIAL_ACCESS),
      (''delete_tags'', Capability.DELETE_TAGS),
      (''fetch_url'', Capability.ARBITRARY_URL_FETCH),
      (''filesystem'', Capability.FILESYSTEM_ACCESS),
      (''iam_mutation'', Capability.IAM_MUTATION),
      (''modify_instance_attribute'', Capability.MODIFY_INSTANCE_ATTRIBUTE),
      (''python'', Capability.ARBITRARY_CODE_EXECUTION),
      (''reboot_instances'', Capability.REBOOT_INSTANCES),
      (''shell'', Capability.SHELL_EXECUTION),
      (''ssm_send_command'', Capability.SSM_COMMAND_EXECUTION),
      (''start_instances'', Capability.START_INSTANCES),
      (''terminate_instances'', Capability.TERMINATE_INSTANCES)]"

definition INSTANCE_TOOLS :: "Capability set" where
  "INSTANCE_TOOLS = {Capability.INSPECT_INSTANCE, Capability.READ_UTILIZATION_METRICS,
     Capability.BUILD_REMEDIATION_EVIDENCE}"

subsection \<open>The policy object\<close>

record InvestigationIdentity =
  id_run_id :: uuid
  id_trace_id :: uuid
  id_correlation_id :: uuid

definition valid_identity :: "InvestigationIdentity \<Rightarrow> bool" where
  "valid_identity i \<longleftrightarrow> uuid7 (id_run_id i) \<and> uuid7 (id_trace_id i) \<and> uuid7 (id_correlation_id i)"

record SandboxTarget =
  st_instance_id :: string
  st_region :: string
  st_required_tag_key :: string
  st_required_tag_value :: string

record 's DefaultDenyToolPolicy =
  po_identity :: InvestigationIdentity
  po_target :: SandboxTarget
  po_repository :: "'s DurableTruthRepository option"

record DurableContext =
  dc_proposal :: ActionProposal
  dc_run :: Run
  dc_approval :: "Approval option"

subsection \<open>Denials\<close>

fun denied_state :: "FailureKind \<Rightarrow> exc + WorkflowState" where
  "denied_state FailureKind.POLICY_DENIAL = Inr WorkflowState.DENIED_BY_POLICY"
| "denied_state FailureKind.VALIDATION_FAILURE = Inr WorkflowState.MODEL_OUTPUT_INVALID"
| "denied_state FailureKind.DEPENDENCY_UNAVAILABLE = Inr WorkflowState.DEPENDENCY_UNAVAILABLE"
| "denied_state _ = Inl OtherError"

definition denied_authority :: "Capability option \<Rightarrow> AuthorityGate" where
  "denied_authority capability = (case capability of
       None \<Rightarrow> AuthorityGate.NEVER_AUTONOMOUS
     | Some c \<Rightarrow> if c \<in> INSTANCE_TOOLS \<union> {Capability.VERIFY_INSTANCE_STATE} then AuthorityGate.AUTO
         else if c = Capability.STOP_SANDBOX_INSTANCE then AuthorityGate.PLAN_AND_CONFIRM
         else AuthorityGate.NEVER_AUTONOMOUS)"

definition policy_deny ::
    "Capability option \<Rightarrow> FailureKind \<Rightarrow> string \<Rightarrow> string \<Rightarrow> ('s, PolicyDecision) prog" where
  "policy_deny capability kind reason message =
     (case denied_state kind of Inl e \<Rightarrow> raise e
      | Inr state \<Rightarrow> lift (validated valid_policy_decision
          \<lparr>pd_disposition = DENY, pd_capability = capability,
           pd_authority = Some (denied_authority capability), pd_terminal_state = Some state,
           pd_failure = Some (failure kind reason message (kind = FailureKind.DEPENDENCY_UNAVAILABLE))\<rparr>))"

definition schema_denial :: "Capability \<Rightarrow> string \<Rightarrow> ('s, PolicyDecision) prog" where
  "schema_denial capability message =
     policy_deny (Some capability) FailureKind.VALIDATION_FAILURE ''TOOL_SCHEMA_INVALID'' message"

definition permit_decision ::
    "PolicyDisposition \<Rightarrow> Capability \<Rightarrow> AuthorityGate \<Rightarrow> ('s, PolicyDecision) prog" where
  "permit_decision disposition capability authority = lift (validated valid_policy_decision
     \<lparr>pd_disposition = disposition, pd_capability = Some capability, pd_authority = Some authority,
      pd_terminal_state = None, pd_failure = None\<rparr>)"

subsection \<open>Evaluation\<close>

definition evaluate_instance_read ::
    "'s DefaultDenyToolPolicy \<Rightarrow> Capability \<Rightarrow> json \<Rightarrow> ('s, PolicyDecision) prog" where
  "evaluate_instance_read P capability instance_id =
     (case instance_id of
        JStr i \<Rightarrow>
          if i \<noteq> st_instance_id (po_target P)
          then policy_deny (Some capability) FailureKind.POLICY_DENIAL ''SANDBOX_SCOPE_DENIED''
                 ''Read target is outside the configured sandbox scope''
          else permit_decision ALLOW capability AuthorityGate.AUTO
      | _ \<Rightarrow> schema_denial capability ''instance_id must be a string'')"

text \<open>The comparison of the durable records with the identity and target of the policy.\<close>

definition same_context :: "'s DefaultDenyToolPolicy \<Rightarrow> ActionProposal \<Rightarrow> Run \<Rightarrow> bool" where
  "same_context P proposal run \<longleftrightarrow>
     p_run_id proposal = id_run_id (po_identity P) \<and> r_run_id run = id_run_id (po_identity P)
     \<and> r_trace_id run = id_trace_id (po_identity P)
     \<and> r_correlation_id run = id_correlation_id (po_identity P)
     \<and> p_action proposal = Capability.STOP_SANDBOX_INSTANCE
     \<and> tg_resource_id (p_target proposal) = st_instance_id (po_target P)
     \<and> tg_region (p_target proposal) = st_region (po_target P)
     \<and> tg_required_tag_key (p_target proposal) = st_required_tag_key (po_target P)
     \<and> tg_required_tag_value (p_target proposal) = st_required_tag_value (po_target P)
     \<and> p_authority proposal = AuthorityGate.PLAN_AND_CONFIRM
     \<and> p_evidence_hash proposal = pc_evidence_hash (p_expected_precondition proposal)"

definition approval_fits :: "ActionProposal \<Rightarrow> Approval \<Rightarrow> bool" where
  "approval_fits proposal approval \<longleftrightarrow>
     a_proposal_id approval = p_proposal_id proposal \<and> a_run_id approval = p_run_id proposal
     \<and> a_action approval = p_action proposal \<and> a_target approval = p_target proposal
     \<and> a_evidence_hash approval = p_evidence_hash proposal"

text \<open>\<open>_durable_context\<close>: \<open>Inl\<close> is the returned denial.\<close>

definition read_context ::
    "'s DurableTruthRepository \<Rightarrow> uuid \<Rightarrow> uuid
     \<Rightarrow> ('s, ActionProposal option \<times> Run option \<times> Approval option) prog" where
  "read_context R proposal_id run_id =
     andThen (op_get_proposal R proposal_id) (\<lambda>proposal.
     andThen (op_get_run R run_id) (\<lambda>run.
     andThen (op_get_approval R proposal_id) (\<lambda>approval. ret (proposal, run, approval))))"

definition context_denial ::
    "Capability \<Rightarrow> FailureKind \<Rightarrow> string \<Rightarrow> string \<Rightarrow> ('s, PolicyDecision + DurableContext) prog" where
  "context_denial capability kind reason message =
     andThen (policy_deny (Some capability) kind reason message) (\<lambda>d. ret (Inl d))"

definition durable_context ::
    "'s DefaultDenyToolPolicy \<Rightarrow> Capability \<Rightarrow> uuid \<Rightarrow> ('s, PolicyDecision + DurableContext) prog" where
  "durable_context P capability proposal_id =
     (case po_repository P of
        None \<Rightarrow> context_denial capability FailureKind.POLICY_DENIAL ''DURABLE_AUTHORITY_ABSENT''
                  ''Durable proposal authority is unavailable''
      | Some R \<Rightarrow>
          tryThen (read_context R proposal_id (id_run_id (po_identity P)))
            (\<lambda>e. if is_exception e
                 then Some (context_denial capability FailureKind.DEPENDENCY_UNAVAILABLE
                        ''DURABLE_POLICY_UNAVAILABLE'' ''Durable policy prerequisites are unavailable'')
                 else None)
            (\<lambda>(found_proposal, found_run, found_approval).
              case (found_proposal, found_run) of
                (Some proposal, Some run) \<Rightarrow>
                  if \<not> same_context P proposal run
                  then context_denial capability FailureKind.POLICY_DENIAL ''CROSS_CONTEXT_DENIED''
                         ''Durable proposal does not match this run, action, evidence, or sandbox''
                  else if \<not> optional (approval_fits proposal) found_approval
                  then context_denial capability FailureKind.POLICY_DENIAL ''APPROVAL_BINDING_DENIED''
                         ''Durable approval binding is stale or belongs to another context''
                  else ret (Inr \<lparr>dc_proposal = proposal, dc_run = run, dc_approval = found_approval\<rparr>)
              | _ \<Rightarrow> context_denial capability FailureKind.POLICY_DENIAL ''DURABLE_REFERENCE_DENIED''
                       ''Tool request lacks a matching durable run and proposal''))"

definition approved_decision :: "Approval option \<Rightarrow> bool" where
  "approved_decision approval = (case approval of None \<Rightarrow> False
     | Some a \<Rightarrow> a_decision a = ApprovalDecision.APPROVED)"

definition evaluate_stop :: "'s DefaultDenyToolPolicy \<Rightarrow> uuid \<Rightarrow> ('s, PolicyDecision) prog" where
  "evaluate_stop P proposal_id =
     andThen (durable_context P Capability.STOP_SANDBOX_INSTANCE proposal_id) (\<lambda>found.
       case found of Inl denial \<Rightarrow> ret denial
       | Inr c \<Rightarrow>
         if p_state (dc_proposal c) = ProposalState.AWAITING_APPROVAL
            \<and> r_state (dc_run c) = WorkflowState.AWAITING_APPROVAL \<and> dc_approval c = None
         then permit_decision REQUIRE_CONFIRMATION Capability.STOP_SANDBOX_INSTANCE
                AuthorityGate.PLAN_AND_CONFIRM
         else if p_state (dc_proposal c) = ProposalState.AWAITING_APPROVAL
            \<and> r_state (dc_run c) = WorkflowState.APPROVED \<and> approved_decision (dc_approval c)
         then permit_decision ALLOW Capability.STOP_SANDBOX_INSTANCE AuthorityGate.PLAN_AND_CONFIRM
         else policy_deny (Some Capability.STOP_SANDBOX_INSTANCE) FailureKind.POLICY_DENIAL
                ''STOP_PREREQUISITES_DENIED''
                ''Stop requires the exact awaiting confirmation or durable approved context'')"

definition evaluate_verification :: "'s DefaultDenyToolPolicy \<Rightarrow> uuid \<Rightarrow> ('s, PolicyDecision) prog" where
  "evaluate_verification P proposal_id =
     andThen (durable_context P Capability.VERIFY_INSTANCE_STATE proposal_id) (\<lambda>found.
       case found of Inl denial \<Rightarrow> ret denial
       | Inr c \<Rightarrow>
         if r_state (dc_run c) \<notin> {WorkflowState.VERIFYING, WorkflowState.RECOVERY_REQUIRED,
              WorkflowState.SUCCESS_WITH_EVIDENCE} \<or> \<not> approved_decision (dc_approval c)
         then policy_deny (Some Capability.VERIFY_INSTANCE_STATE) FailureKind.POLICY_DENIAL
                ''VERIFICATION_CONTEXT_DENIED''
                ''Verification requires the approved durable target in a verification state''
         else permit_decision ALLOW Capability.VERIFY_INSTANCE_STATE AuthorityGate.AUTO)"

definition tool_lookup :: "(string, Capability) dict \<Rightarrow> json \<Rightarrow> Capability option" where
  "tool_lookup table tool_name = (case tool_name of JStr s \<Rightarrow> dget table s | _ \<Rightarrow> None)"

definition unknown_tool :: "json \<Rightarrow> ('s, PolicyDecision) prog" where
  "unknown_tool tool_name =
     (let denied = tool_lookup STRUCTURALLY_DENIED_TOOL tool_name in
      policy_deny denied FailureKind.POLICY_DENIAL
        (if denied \<noteq> None then ''NEVER_AUTONOMOUS_DENIED'' else ''UNKNOWN_TOOL_DENIED'')
        (if denied \<noteq> None
         then ''NEVER_AUTONOMOUS capability is structurally denied before dispatch''
         else ''Unknown tool or capability is denied before dispatch''))"

definition policy_evaluate ::
    "'s DefaultDenyToolPolicy \<Rightarrow> json \<Rightarrow> json \<Rightarrow> ('s, PolicyDecision) prog" where
  "policy_evaluate P tool_name tool_input =
     (case tool_lookup TOOL_CAPABILITY tool_name of
        None \<Rightarrow> unknown_tool tool_name
      | Some capability \<Rightarrow>
          (case tool_input of
             JObj d \<Rightarrow>
               (let expected_key = (if capability \<in> INSTANCE_TOOLS then ''instance_id'' else ''proposal_id'')
                in if fst ` set d \<noteq> {expected_key} then
                     (if expected_key \<notin> fst ` set d
                      then schema_denial capability ''Required tool identifier is missing''
                      else policy_deny (Some capability) FailureKind.POLICY_DENIAL
                             ''PRIVILEGED_FIELD_DENIED''
                             ''Extra or confused tool fields are denied before dispatch'')
                   else if capability \<in> INSTANCE_TOOLS
                   then evaluate_instance_read P capability (jget d expected_key)
                   else (case correlation_id_of (jget d expected_key) of
                       Inl e \<Rightarrow> schema_denial capability ''proposal_id must be an RFC UUIDv7''
                     | Inr proposal_id \<Rightarrow>
                         if capability = Capability.STOP_SANDBOX_INSTANCE
                         then evaluate_stop P proposal_id
                         else evaluate_verification P proposal_id))
           | _ \<Rightarrow> schema_denial capability ''Tool input must be an exact object''))"

subsection \<open>Every answer is a well-formed decision\<close>

text \<open>\<open>decides G m\<close>: unless the process ends, \<open>m\<close> returns a value with \<open>G\<close>.\<close>

definition decides :: "('a \<Rightarrow> bool) \<Rightarrow> ('s, 'a) prog \<Rightarrow> bool" where
  "decides G m \<longleftrightarrow> (\<forall>s r s'. m s = (r, s') \<longrightarrow> r = Inl Killed \<or> (\<exists>x. r = Inr x \<and> G x))"

named_theorems decides_intros \<open>rules for programs that end with a decision\<close>

lemma decidesD: "decides G m \<Longrightarrow> m s = (r, s') \<Longrightarrow> r = Inl Killed \<or> (\<exists>x. r = Inr x \<and> G x)"
  unfolding decides_def by blast

lemma decides_ret [decides_intros]: "G x \<Longrightarrow> decides G (ret x)"
  by (simp add: decides_def ret_def)

lemma decides_andThen:
  assumes "decides H m" and "\<And>x. H x \<Longrightarrow> decides G (k x)"
  shows "decides G (andThen m k)"
  unfolding decides_def
proof (intro allI impI)
  fix s r s' assume run: "andThen m k s = (r, s')"
  obtain y s1 where m: "m s = (y, s1)" by fastforce
  from decidesD [OF assms(1) m] show "r = Inl Killed \<or> (\<exists>x. r = Inr x \<and> G x)"
  proof (elim disjE exE conjE)
    assume "y = Inl Killed"
    with run m show ?thesis by (simp add: andThen_def)
  next
    fix x assume x: "y = Inr x" "H x"
    with run m have "k x s1 = (r, s')" by (simp add: andThen_def)
    from decidesD [OF assms(2) [OF x(2)] this] show ?thesis .
  qed
qed

lemma decides_if [decides_intros]:
  "(b \<Longrightarrow> decides G m) \<Longrightarrow> (\<not> b \<Longrightarrow> decides G m') \<Longrightarrow> decides G (if b then m else m')"
  by simp

lemma decides_tryThen:
  assumes "decides G g" and "\<And>x. decides G (k x)"
  shows "decides G (tryThen m (\<lambda>e. if is_exception e then Some g else None) k)"
  unfolding decides_def
proof (intro allI impI)
  fix s r s' assume run: "tryThen m (\<lambda>e. if is_exception e then Some g else None) k s = (r, s')"
  obtain y s1 where m: "m s = (y, s1)" by fastforce
  show "r = Inl Killed \<or> (\<exists>x. r = Inr x \<and> G x)"
  proof (cases y)
    case (Inl e)
    show ?thesis
    proof (cases "is_exception e")
      case True
      with run m Inl have "g s1 = (r, s')" by (simp add: tryThen_def)
      from decidesD [OF assms(1) this] show ?thesis .
    next
      case False
      with run m Inl show ?thesis by (simp add: tryThen_def is_exception_def)
    qed
  next
    case (Inr x)
    with run m have "k x s1 = (r, s')" by (simp add: tryThen_def)
    from decidesD [OF assms(2) this] show ?thesis .
  qed
qed

text \<open>
  The capabilities the policy reports; the decision carries the authority of the central
  capability table and, when it denies, the state of the central failure table.
\<close>

definition typed_decision :: "PolicyDecision \<Rightarrow> bool" where
  "typed_decision d \<longleftrightarrow> valid_policy_decision d
     \<and> pd_authority d = Some (case pd_capability d of
           None \<Rightarrow> AuthorityGate.NEVER_AUTONOMOUS | Some c \<Rightarrow> CAPABILITY_AUTHORITY c)
     \<and> pd_terminal_state d = map_option workflow_state_for_failure (pd_failure d)"

definition reported_capability :: "Capability option \<Rightarrow> bool" where
  "reported_capability c \<longleftrightarrow> denied_authority c
     = (case c of None \<Rightarrow> AuthorityGate.NEVER_AUTONOMOUS | Some c \<Rightarrow> CAPABILITY_AUTHORITY c)"

lemma tool_lookup_set: "tool_lookup t n = Some c \<Longrightarrow> c \<in> set (map snd t)"
  by (cases n) (auto simp: tool_lookup_def dest!: map_of_SomeD intro: rev_image_eqI)

lemma all_reported:
  "list_all (\<lambda>c. reported_capability (Some c)) (map snd TOOL_CAPABILITY)"
  "list_all (\<lambda>c. reported_capability (Some c)) (map snd STRUCTURALLY_DENIED_TOOL)"
  by code_simp+

lemma tool_capability: "tool_lookup TOOL_CAPABILITY n = Some c \<Longrightarrow> reported_capability (Some c)"
  using all_reported(1) tool_lookup_set unfolding list_all_iff by blast

lemma denied_capability: "reported_capability (tool_lookup STRUCTURALLY_DENIED_TOOL n)"
proof (cases "tool_lookup STRUCTURALLY_DENIED_TOOL n")
  case None
  then show ?thesis by (simp add: reported_capability_def denied_authority_def)
next
  case (Some c)
  with all_reported(2) tool_lookup_set [OF Some] show ?thesis unfolding list_all_iff by auto
qed

lemma decides_deny:
  assumes "reported_capability c" and "short_identifier reason" and "non_empty_text message"
    and "kind \<in> {FailureKind.POLICY_DENIAL, FailureKind.VALIDATION_FAILURE, FailureKind.DEPENDENCY_UNAVAILABLE}"
  shows "decides typed_decision (policy_deny c kind reason message)"
  using assms
  by (auto simp: policy_deny_def decides_def lift_def validated_def valid_policy_decision_def
      valid_failure_detail_def failure_def typed_decision_def reported_capability_def
      workflow_state_for_failure_def)

lemma decides_permit:
  "disposition \<noteq> DENY \<Longrightarrow> authority = CAPABILITY_AUTHORITY c \<Longrightarrow>
   decides typed_decision (permit_decision disposition c authority)"
  by (simp add: permit_decision_def decides_def lift_def validated_def valid_policy_decision_def
      typed_decision_def)

text \<open>The texts of the denials are valid.\<close>

lemma reason_texts:
  "list_all short_identifier [''NEVER_AUTONOMOUS_DENIED'', ''UNKNOWN_TOOL_DENIED'',
     ''PRIVILEGED_FIELD_DENIED'', ''SANDBOX_SCOPE_DENIED'', ''DURABLE_AUTHORITY_ABSENT'',
     ''DURABLE_POLICY_UNAVAILABLE'', ''DURABLE_REFERENCE_DENIED'', ''CROSS_CONTEXT_DENIED'',
     ''APPROVAL_BINDING_DENIED'', ''STOP_PREREQUISITES_DENIED'', ''VERIFICATION_CONTEXT_DENIED'',
     ''TOOL_SCHEMA_INVALID'']"
  by code_simp

lemma message_texts:
  "list_all non_empty_text
    [''NEVER_AUTONOMOUS capability is structurally denied before dispatch'',
     ''Unknown tool or capability is denied before dispatch'',
     ''Tool input must be an exact object'', ''Required tool identifier is missing'',
     ''Extra or confused tool fields are denied before dispatch'',
     ''instance_id must be a string'', ''Read target is outside the configured sandbox scope'',
     ''proposal_id must be an RFC UUIDv7'', ''Durable proposal authority is unavailable'',
     ''Durable policy prerequisites are unavailable'',
     ''Tool request lacks a matching durable run and proposal'',
     ''Durable proposal does not match this run, action, evidence, or sandbox'',
     ''Durable approval binding is stale or belongs to another context'',
     ''Stop requires the exact awaiting confirmation or durable approved context'',
     ''Verification requires the approved durable target in a verification state'']"
  by code_simp

lemmas denial_texts = reason_texts [unfolded list.pred_inject] message_texts [unfolded list.pred_inject]

text \<open>A context is found or a typed denial is returned.\<close>

definition context_found :: "PolicyDecision + DurableContext \<Rightarrow> bool" where
  "context_found x \<longleftrightarrow> (case x of Inl d \<Rightarrow> typed_decision d | Inr _ \<Rightarrow> True)"

definition policy_kind :: "FailureKind \<Rightarrow> bool" where
  "policy_kind k \<longleftrightarrow> k \<in> {FailureKind.POLICY_DENIAL, FailureKind.VALIDATION_FAILURE,
     FailureKind.DEPENDENCY_UNAVAILABLE}"

lemma policy_kinds [simp]: "policy_kind FailureKind.POLICY_DENIAL"
  "policy_kind FailureKind.VALIDATION_FAILURE" "policy_kind FailureKind.DEPENDENCY_UNAVAILABLE"
  by (simp_all add: policy_kind_def)

lemma decides_denial:
  assumes "reported_capability c" and "policy_kind kind"
    and "short_identifier reason" and "non_empty_text message"
  shows "decides typed_decision (policy_deny c kind reason message)"
  using decides_deny [OF assms(1,3,4)] assms(2) unfolding policy_kind_def by blast

lemma decides_context_denial:
  assumes "reported_capability (Some c)" and "policy_kind kind"
    and "short_identifier reason" and "non_empty_text message"
  shows "decides context_found (context_denial c kind reason message)"
  unfolding context_denial_def
  by (rule decides_andThen [OF decides_denial [OF assms]]) (simp add: decides_def ret_def context_found_def)

lemma decides_context:
  assumes c: "reported_capability (Some c)"
  shows "decides context_found (durable_context P c pid)"
proof (cases "po_repository P")
  case None
  then show ?thesis
    by (simp add: durable_context_def decides_context_denial c denial_texts)
next
  case (Some R)
  show ?thesis
    unfolding durable_context_def Some option.case
    by (rule decides_tryThen)
      (auto simp: decides_context_denial c denial_texts decides_if decides_ret context_found_def
        split: option.splits)
qed

lemma decides_stop: "decides typed_decision (evaluate_stop P pid)"
proof -
  have c: "reported_capability (Some Capability.STOP_SANDBOX_INSTANCE)" by code_simp
  show ?thesis
    unfolding evaluate_stop_def
    by (rule decides_andThen [OF decides_context [OF c]])
      (auto simp: context_found_def c denial_texts intro!: decides_if decides_ret decides_permit decides_denial
        split: sum.splits)
qed

lemma decides_verification: "decides typed_decision (evaluate_verification P pid)"
proof -
  have c: "reported_capability (Some Capability.VERIFY_INSTANCE_STATE)" by code_simp
  show ?thesis
    unfolding evaluate_verification_def
    by (rule decides_andThen [OF decides_context [OF c]])
      (auto simp: context_found_def c denial_texts intro!: decides_if decides_ret decides_permit decides_denial
        split: sum.splits)
qed

lemma decides_schema:
  "reported_capability (Some c) \<Longrightarrow> non_empty_text message \<Longrightarrow>
   decides typed_decision (schema_denial c message)"
  unfolding schema_denial_def by (rule decides_denial) (simp_all add: denial_texts)

lemma instance_authority: "c \<in> INSTANCE_TOOLS \<Longrightarrow> CAPABILITY_AUTHORITY c = AuthorityGate.AUTO"
  by (auto simp: INSTANCE_TOOLS_def)

lemma decides_instance:
  assumes "reported_capability (Some c)" and "c \<in> INSTANCE_TOOLS"
  shows "decides typed_decision (evaluate_instance_read P c v)"
  unfolding evaluate_instance_read_def using assms
  by (cases v) (auto simp: denial_texts instance_authority
      intro!: decides_schema decides_if decides_denial decides_permit)

text \<open>The policy answers every request, whatever the tool name, the input and the state of the
  store, with a well-formed decision (only the end of the process stops it), whose authority is
  that of the central capability table and whose denial state is that of the central failure
  table.\<close>

theorem policy_decision_typed:
  "case fst (policy_evaluate P tool_name tool_input s) of
     Inl e \<Rightarrow> e = Killed
   | Inr d \<Rightarrow> valid_policy_decision d
       \<and> pd_authority d = Some (case pd_capability d of
           None \<Rightarrow> AuthorityGate.NEVER_AUTONOMOUS | Some c \<Rightarrow> CAPABILITY_AUTHORITY c)
       \<and> pd_terminal_state d = map_option workflow_state_for_failure (pd_failure d)"
proof -
  have "decides typed_decision (policy_evaluate P tool_name tool_input)"
  proof (cases "tool_lookup TOOL_CAPABILITY tool_name")
    case None
    show ?thesis
      unfolding policy_evaluate_def None option.case unknown_tool_def Let_def
      by (rule decides_denial [OF denied_capability]) (simp_all add: denial_texts)
  next
    case (Some c)
    note c = tool_capability [OF Some]
    show ?thesis
    proof (cases tool_input)
      case (JObj d)
      show ?thesis
        unfolding policy_evaluate_def Some option.case JObj json.case Let_def
      proof (intro decides_if)
        show "decides typed_decision (schema_denial c ''Required tool identifier is missing'')"
          by (rule decides_schema [OF c]) (simp add: denial_texts)
        show "decides typed_decision (policy_deny (Some c) FailureKind.POLICY_DENIAL
            ''PRIVILEGED_FIELD_DENIED'' ''Extra or confused tool fields are denied before dispatch'')"
          by (rule decides_denial [OF c]) (simp_all add: denial_texts)
        show "decides typed_decision (evaluate_instance_read P c v)" if "c \<in> INSTANCE_TOOLS" for v
          by (rule decides_instance [OF c that])
        show "decides typed_decision (case r of
            Inl e \<Rightarrow> schema_denial c ''proposal_id must be an RFC UUIDv7''
          | Inr pid \<Rightarrow> if c = Capability.STOP_SANDBOX_INSTANCE then evaluate_stop P pid
              else evaluate_verification P pid)" for r :: "exc + uuid"
        proof (cases r)
          case (Inl e)
          show ?thesis unfolding Inl sum.case
            by (rule decides_schema [OF c]) (simp add: denial_texts)
        next
          case (Inr pid)
          show ?thesis unfolding Inr sum.case
            by (rule decides_if) (rule decides_stop, rule decides_verification)
        qed
      qed
    qed (simp_all add: policy_evaluate_def Some c denial_texts decides_schema)
  qed
  from decidesD [OF this surjective_pairing, of s] show ?thesis by (auto simp: typed_decision_def)
qed

subsection \<open>What is not denied\<close>

lemma deny_denies: "policy_deny c kind reason message s = (Inr d, s') \<Longrightarrow> pd_disposition d = DENY"
  by (cases "denied_state kind") (auto simp: policy_deny_def raise_def lift_def)

lemma schema_denies: "schema_denial c message s = (Inr d, s') \<Longrightarrow> pd_disposition d = DENY"
  unfolding schema_denial_def by (rule deny_denies)

lemma permit_permits:
  "permit_decision disposition c authority s = (Inr d, s') \<Longrightarrow>
   pd_disposition d = disposition \<and> pd_capability d = Some c \<and> s' = s"
  by (auto simp: permit_decision_def lift_def)

lemma context_denial_denies:
  "context_denial c kind reason message s = (Inr x, s') \<Longrightarrow> \<exists>d. x = Inl d \<and> pd_disposition d = DENY"
  by (auto simp: context_denial_def andThen_def ret_def dest: deny_denies split: prod.splits sum.splits)

lemma context_cases:
  assumes "durable_context P c pid s = (Inr x, s')"
  obtains (denied) d where "x = Inl d" "pd_disposition d = DENY"
    | (found) R p r a where "po_repository P = Some R"
      "read_context R pid (id_run_id (po_identity P)) s = (Inr (Some p, Some r, a), s')"
      "x = Inr \<lparr>dc_proposal = p, dc_run = r, dc_approval = a\<rparr>" "same_context P p r"
      "optional (approval_fits p) a"
proof (cases "po_repository P")
  case None
  with assms have "context_denial c FailureKind.POLICY_DENIAL ''DURABLE_AUTHORITY_ABSENT''
      ''Durable proposal authority is unavailable'' s = (Inr x, s')"
    by (simp only: durable_context_def option.case)
  from context_denial_denies [OF this] that(1) show ?thesis by blast
next
  case (Some R)
  note run = assms [unfolded durable_context_def Some option.case tryThen_def]
  obtain y s1 where y: "read_context R pid (id_run_id (po_identity P)) s = (y, s1)" by fastforce
  show ?thesis
  proof (cases y)
    case (Inl e)
    with run y have "context_denial c FailureKind.DEPENDENCY_UNAVAILABLE ''DURABLE_POLICY_UNAVAILABLE''
        ''Durable policy prerequisites are unavailable'' s1 = (Inr x, s')"
      by (simp split: if_splits)
    from context_denial_denies [OF this] that(1) show ?thesis by blast
  next
    case (Inr z)
    obtain fp fr fa where z: "z = (fp, fr, fa)" by (cases z)
    note run' = run [unfolded y Inr z prod.case sum.case]
    show ?thesis
    proof (cases "\<exists>p r. fp = Some p \<and> fr = Some r")
      case False
      then have "fp = None \<or> fr = None" by (cases fp; cases fr) auto
      with run' have "context_denial c FailureKind.POLICY_DENIAL ''DURABLE_REFERENCE_DENIED''
          ''Tool request lacks a matching durable run and proposal'' s1 = (Inr x, s')"
        by (cases fp; cases fr) (simp_all only: prod.case option.case simp_thms option.distinct)
      from context_denial_denies [OF this] that(1) show ?thesis by blast
    next
      case True
      then obtain p r where pr: "fp = Some p" "fr = Some r" by blast
      note run2 = run' [unfolded pr option.case]
      show ?thesis
      proof (cases "same_context P p r \<and> optional (approval_fits p) fa")
        case True
        with run2 have "x = Inr \<lparr>dc_proposal = p, dc_run = r, dc_approval = fa\<rparr>" "s' = s1"
          by (simp_all add: ret_def)
        with that(2) [OF Some] y Inr z pr True show ?thesis by simp
      next
        case False
        with run2 obtain reason message where
          "context_denial c FailureKind.POLICY_DENIAL reason message s1 = (Inr x, s')"
          by (cases "same_context P p r") simp_all
        from context_denial_denies [OF this] that(1) show ?thesis by blast
      qed
    qed
  qed
qed

lemma stop_cases:
  assumes "evaluate_stop P pid s = (Inr d, s')" and "pd_disposition d \<noteq> DENY"
  obtains R p r a where "po_repository P = Some R"
    "read_context R pid (id_run_id (po_identity P)) s = (Inr (Some p, Some r, a), s')"
    "same_context P p r" "optional (approval_fits p) a"
    "p_state p = ProposalState.AWAITING_APPROVAL"
    "pd_disposition d = ALLOW \<longrightarrow> r_state r = WorkflowState.APPROVED \<and> approved_decision a"
    "pd_disposition d = REQUIRE_CONFIRMATION \<longrightarrow> r_state r = WorkflowState.AWAITING_APPROVAL \<and> a = None"
proof -
  obtain y s1 where y: "durable_context P Capability.STOP_SANDBOX_INSTANCE pid s = (y, s1)" by fastforce
  with assms(1) obtain x where x: "y = Inr x" by (cases y) (auto simp: evaluate_stop_def andThen_def)
  note run = assms(1) [unfolded evaluate_stop_def andThen_def y x prod.case sum.case]
  from y [unfolded x] show ?thesis
  proof (cases rule: context_cases)
    case (denied d')
    with run assms(2) show ?thesis by (simp add: ret_def)
  next
    case (found R p r a)
    note run' = run [unfolded found(3) sum.case DurableContext.simps]
    show ?thesis
    proof (cases "p_state p = ProposalState.AWAITING_APPROVAL \<and> r_state r = WorkflowState.AWAITING_APPROVAL \<and> a = None")
      case True
      with run' have "permit_decision REQUIRE_CONFIRMATION Capability.STOP_SANDBOX_INSTANCE
          AuthorityGate.PLAN_AND_CONFIRM s1 = (Inr d, s')" by simp
      from permit_permits [OF this] True found show ?thesis by (intro that) auto
    next
      case no: False
      show ?thesis
      proof (cases "p_state p = ProposalState.AWAITING_APPROVAL \<and> r_state r = WorkflowState.APPROVED \<and> approved_decision a")
        case True
        with run' no have "permit_decision ALLOW Capability.STOP_SANDBOX_INSTANCE
            AuthorityGate.PLAN_AND_CONFIRM s1 = (Inr d, s')" by simp
        from permit_permits [OF this] True found show ?thesis by (intro that) auto
      next
        case False
        from deny_denies [OF run' [unfolded if_not_P [OF no] if_not_P [OF False]]] assms(2)
        show ?thesis by contradiction
      qed
    qed
  qed
qed

definition identifier_key :: "Capability \<Rightarrow> string" where
  "identifier_key c = (if c \<in> INSTANCE_TOOLS then ''instance_id'' else ''proposal_id'')"

lemma evaluate_cases:
  assumes "policy_evaluate P tool_name tool_input s = (Inr d, s')" and "pd_disposition d \<noteq> DENY"
  obtains c fields where "tool_lookup TOOL_CAPABILITY tool_name = Some c" "tool_input = JObj fields"
    "fst ` set fields = {identifier_key c}"
    "if c \<in> INSTANCE_TOOLS then evaluate_instance_read P c (jget fields (identifier_key c)) s = (Inr d, s')
     else \<exists>pid. correlation_id_of (jget fields (identifier_key c)) = Inr pid
       \<and> (if c = Capability.STOP_SANDBOX_INSTANCE then evaluate_stop P pid s = (Inr d, s')
          else evaluate_verification P pid s = (Inr d, s'))"
proof (cases "tool_lookup TOOL_CAPABILITY tool_name")
  case None
  note run = assms(1) [unfolded policy_evaluate_def None option.case unknown_tool_def Let_def]
  from deny_denies [OF run] assms(2) show ?thesis by contradiction
next
  case (Some c)
  note run = assms(1) [unfolded policy_evaluate_def Some option.case]
  show ?thesis
  proof (cases tool_input)
    case (JObj fields)
    note run' = run [unfolded JObj json.case identifier_key_def [symmetric] Let_def]
    show ?thesis
    proof (cases "fst ` set fields = {identifier_key c}")
      case False
      note run2 = run' [unfolded if_P [OF False]]
      show ?thesis
      proof (cases "identifier_key c \<notin> fst ` set fields")
        case True
        from schema_denies [OF run2 [unfolded if_P [OF True]]] assms(2) show ?thesis by contradiction
      next
        case False
        from deny_denies [OF run2 [unfolded if_not_P [OF False]]] assms(2) show ?thesis by contradiction
      qed
    next
      case True
      then have keys: "\<not> (fst ` set fields \<noteq> {identifier_key c})" by simp
      note run2 = run' [unfolded if_not_P [OF keys]]
      show ?thesis
      proof (cases "c \<in> INSTANCE_TOOLS")
        case inst: True
        from run2 [unfolded if_P [OF inst]] that [OF Some JObj True] inst show ?thesis by simp
      next
        case inst: False
        note run3 = run2 [unfolded if_not_P [OF inst]]
        show ?thesis
        proof (cases "correlation_id_of (jget fields (identifier_key c))")
          case (Inl e)
          from schema_denies [OF run3 [unfolded Inl sum.case]] assms(2) show ?thesis by contradiction
        next
          case (Inr pid)
          from run3 [unfolded Inr sum.case] that [OF Some JObj True] inst Inr show ?thesis
            by (simp split: if_splits)
        qed
      qed
    qed
  qed (use schema_denies [of c "''Tool input must be an exact object''" s d s'] run assms(2) in auto)
qed

lemma instance_read_cases:
  assumes "evaluate_instance_read P c v s = (Inr d, s')" and "pd_disposition d \<noteq> DENY"
  shows "v = JStr (st_instance_id (po_target P)) \<and> pd_disposition d = ALLOW"
proof (cases v)
  case (JStr i)
  note run = assms(1) [unfolded evaluate_instance_read_def JStr json.case]
  show ?thesis
  proof (cases "i = st_instance_id (po_target P)")
    case True
    then have "\<not> i \<noteq> st_instance_id (po_target P)" by simp
    from permit_permits [OF run [unfolded if_not_P [OF this]]] True JStr show ?thesis by simp
  next
    case False
    from deny_denies [OF run [unfolded if_P [OF False]]] assms(2) show ?thesis by contradiction
  qed
qed (use assms schema_denies [of c "''instance_id must be a string''" s d s']
    in \<open>auto simp: evaluate_instance_read_def\<close>)

lemma verification_repository:
  assumes "evaluate_verification P pid s = (Inr d, s')" and "pd_disposition d \<noteq> DENY"
  shows "po_repository P \<noteq> None"
proof -
  obtain y s1 where y: "durable_context P Capability.VERIFY_INSTANCE_STATE pid s = (y, s1)" by fastforce
  with assms(1) obtain x where x: "y = Inr x" by (cases y) (auto simp: evaluate_verification_def andThen_def)
  note run = assms(1) [unfolded evaluate_verification_def andThen_def y x prod.case sum.case]
  from y [unfolded x] show ?thesis
  proof (cases rule: context_cases)
    case (denied d')
    with run assms(2) show ?thesis by (simp add: ret_def)
  qed simp
qed

lemma tool_capability_cases:
  "tool_lookup TOOL_CAPABILITY n = Some c \<Longrightarrow> n = JStr (Capability_value c)
     \<and> c \<in> INSTANCE_TOOLS \<union> {Capability.STOP_SANDBOX_INSTANCE, Capability.VERIFY_INSTANCE_STATE}"
  by (cases n) (auto simp: tool_lookup_def TOOL_CAPABILITY_def INSTANCE_TOOLS_def split: if_splits)

text \<open>C26: Default deny: a request that is not denied names one of the five known tools exactly, and
  its input is an object with exactly the one identifier that tool takes: the configured
  instance, or a well-formed UUIDv7 with a durable repository behind the policy.\<close>

theorem policy_default_deny:
  assumes "policy_evaluate P tool_name tool_input s = (Inr d, s')" and "pd_disposition d \<noteq> DENY"
  shows "\<exists>c fields. tool_name = JStr (Capability_value c) \<and> tool_input = JObj fields
    \<and> (if c \<in> INSTANCE_TOOLS
       then fst ` set fields = {''instance_id''} \<and> pd_disposition d = ALLOW
            \<and> jget fields ''instance_id'' = JStr (st_instance_id (po_target P))
       else c \<in> {Capability.STOP_SANDBOX_INSTANCE, Capability.VERIFY_INSTANCE_STATE}
            \<and> fst ` set fields = {''proposal_id''} \<and> po_repository P \<noteq> None
            \<and> (\<exists>pid. correlation_id_of (jget fields ''proposal_id'') = Inr pid \<and> uuid7 pid))"
  using assms
proof (rule evaluate_cases)
  fix c fields
  assume c: "tool_lookup TOOL_CAPABILITY tool_name = Some c" "tool_input = JObj fields"
    "fst ` set fields = {identifier_key c}"
    and run: "if c \<in> INSTANCE_TOOLS
      then evaluate_instance_read P c (jget fields (identifier_key c)) s = (Inr d, s')
      else \<exists>pid. correlation_id_of (jget fields (identifier_key c)) = Inr pid
       \<and> (if c = Capability.STOP_SANDBOX_INSTANCE then evaluate_stop P pid s = (Inr d, s')
          else evaluate_verification P pid s = (Inr d, s'))"
  note n = tool_capability_cases [OF c(1)]
  show ?thesis
  proof (cases "c \<in> INSTANCE_TOOLS")
    case True
    with run have "evaluate_instance_read P c (jget fields (identifier_key c)) s = (Inr d, s')" by simp
    from instance_read_cases [OF this assms(2)] True c n show ?thesis
      by (intro exI [of _ c] exI [of _ fields]) (simp add: identifier_key_def)
  next
    case False
    with run obtain pid where pid: "correlation_id_of (jget fields (identifier_key c)) = Inr pid"
      "evaluate_stop P pid s = (Inr d, s') \<or> evaluate_verification P pid s = (Inr d, s')"
      by (auto split: if_splits)
    from pid(2) have "po_repository P \<noteq> None"
    proof
      assume "evaluate_stop P pid s = (Inr d, s')"
      from stop_cases [OF this assms(2)] show ?thesis by (metis option.distinct(1))
    qed (rule verification_repository [OF _ assms(2)])
    with False c n pid(1) correlation_id_uuid7 [OF pid(1)] show ?thesis
      by (intro exI [of _ c] exI [of _ fields]) (auto simp: identifier_key_def)
  qed
qed

subsection \<open>A stop is allowed only on a durable human approval\<close>

context durable_truth
begin

lemma policy_stop_approved:
  assumes "po_repository P = Some R" and "evaluate_stop P pid s = (Inr d, s')" and "pd_disposition d = ALLOW"
  shows "\<exists>e r a. later L (view s) e \<and> later L e (view s')
    \<and> dget (d_runs e) (id_run_id (po_identity P)) = Some r \<and> r_state r = WorkflowState.APPROVED
    \<and> dget (d_approvals (view s')) pid = Some a \<and> a_decision a = ApprovalDecision.APPROVED
    \<and> a_run_id a = id_run_id (po_identity P) \<and> a_action a = Capability.STOP_SANDBOX_INSTANCE
    \<and> tg_resource_id (a_target a) = st_instance_id (po_target P)"
proof -
  have "pd_disposition d \<noteq> DENY" using assms(3) by simp
  from assms(2) this show ?thesis
  proof (rule stop_cases)
    fix R' p r a
    assume R': "po_repository P = Some R'"
      and read: "read_context R' pid (id_run_id (po_identity P)) s = (Inr (Some p, Some r, a), s')"
      and fits: "same_context P p r" "optional (approval_fits p) a"
      and ok: "pd_disposition d = ALLOW \<longrightarrow> r_state r = WorkflowState.APPROVED \<and> approved_decision a"
    have R: "R' = R" using R' assms(1) by simp
    from ok assms(3) obtain ap where ap: "a = Some ap" "a_decision ap = ApprovalDecision.APPROVED"
      and r: "r_state r = WorkflowState.APPROVED"
      by (auto simp: approved_decision_def split: option.splits)
    from read [unfolded R] obtain s1 s2 where
      s1: "op_get_proposal R pid s = (Inr (Some p), s1)" and
      s2: "op_get_run R (id_run_id (po_identity P)) s1 = (Inr (Some r), s2)" and
      s3: "op_get_approval R pid s2 = (Inr (Some ap), s')"
      by (auto simp: read_context_def andThen_def ret_def ap split: prod.splits sum.splits)
    from performsD(3) [OF get_run s2 refl] obtain e where
      e: "later L (view s1) e" "later L e (view s2)" "dget (d_runs e) (id_run_id (po_identity P)) = Some r"
      by (auto simp: repo_get_run_def)
    have "later L (view s) e" using performsD(2) [OF get_proposal s1] e(1) by (rule rtranclp_trans)
    moreover have "later L e (view s')" using e(2) performsD(2) [OF get_approval s3] by (rule rtranclp_trans)
    moreover have "dget (d_approvals (view s')) pid = Some ap" by (rule get_approval_result [OF s3])
    moreover have "a_run_id ap = id_run_id (po_identity P) \<and> a_action ap = Capability.STOP_SANDBOX_INSTANCE
        \<and> tg_resource_id (a_target ap) = st_instance_id (po_target P)"
      using fits ap by (simp add: same_context_def approval_fits_def)
    ultimately show ?thesis using e(3) r ap(2) by blast
  qed
qed

end

end
