(* ===== verification/Prerequisites.thy ===== *)
theory Prerequisites
  imports Durable_Interface
begin

text \<open>
  \<open>persistence/prerequisites.py\<close> and \<open>persistence/recovery.py\<close>: the durable proof an
  executor needs, loaded and checked over any repository, the registration of semantic
  ownership, and the classification of a durable state after a restart.
\<close>

record ApprovedActionPrerequisites =
  pq_run :: Run
  pq_proposal :: ActionProposal
  pq_approval :: Approval
  pq_idempotency :: IdempotencyRecord
  pq_checkpoint :: Checkpoint

definition require_approved_records ::
    "'s DurableTruthRepository \<Rightarrow> uuid \<Rightarrow> ('s, Run \<times> ActionProposal \<times> Approval) prog" where
  "require_approved_records R proposal_id =
     andThen (op_get_proposal R proposal_id) (\<lambda>found.
     case found of None \<Rightarrow> raise (DurablePrerequisiteError ''durable proposal is required'')
     | Some proposal \<Rightarrow>
       if p_state proposal \<noteq> ProposalState.AWAITING_APPROVAL
       then raise (DurablePrerequisiteError ''proposal is not durably awaiting approval'')
       else andThen (op_get_approval R (p_proposal_id proposal)) (\<lambda>decision.
         case decision of
           None \<Rightarrow> raise (DurablePrerequisiteError ''missing approval must not authorize execution'')
         | Some approval \<Rightarrow>
           if a_decision approval \<noteq> ApprovalDecision.APPROVED
           then raise (DurablePrerequisiteError ''human decision does not approve execution'')
           else andThen (op_get_run R (p_run_id proposal)) (\<lambda>current.
             case current of
               None \<Rightarrow> raise (DurablePrerequisiteError ''durable run state must be APPROVED'')
             | Some run \<Rightarrow>
               if r_state run \<noteq> WorkflowState.APPROVED
               then raise (DurablePrerequisiteError ''durable run state must be APPROVED'')
               else ret (run, proposal, approval))))"

definition register_approved_action ::
    "Platform \<Rightarrow> 's DurableTruthRepository \<Rightarrow> uuid \<Rightarrow> datetime \<Rightarrow> ('s, IdempotencyRecord) prog" where
  "register_approved_action L R proposal_id registered_at =
     andThen (require_approved_records R proposal_id) (\<lambda>(_, proposal, _).
     andThen (lift (build_idempotency_record L proposal registered_at))
       (op_register_idempotency R))"

definition load_execution_prerequisites ::
    "Platform \<Rightarrow> 's DurableTruthRepository \<Rightarrow> uuid \<Rightarrow> ('s, ApprovedActionPrerequisites) prog" where
  "load_execution_prerequisites L R proposal_id =
     andThen (require_approved_records R proposal_id) (\<lambda>(run, proposal, approval).
     andThen (op_get_idempotency R (derive_idempotency_key L proposal)) (\<lambda>registered.
     case registered of
       None \<Rightarrow> raise (DurablePrerequisiteError ''durable idempotency registration is required'')
     | Some idempotency \<Rightarrow>
       if i_proposal_id idempotency \<noteq> p_proposal_id proposal
          \<or> i_status idempotency \<noteq> IdempotencyStatus.REGISTERED
       then raise (DurablePrerequisiteError ''idempotency ownership is inconsistent'')
       else andThen (op_get_checkpoint R (r_run_id run)) (\<lambda>saved.
         case saved of
           None \<Rightarrow> raise (DurablePrerequisiteError ''approved safe checkpoint is required'')
         | Some checkpoint \<Rightarrow>
           if c_last_safe_state checkpoint \<noteq> WorkflowState.APPROVED
           then raise (DurablePrerequisiteError ''approved safe checkpoint is required'')
           else if dget (c_tool_result_hashes checkpoint) ''build_remediation_evidence''
                  \<noteq> Some (p_evidence_hash proposal)
           then raise (DurablePrerequisiteError
                  ''approved safe checkpoint must retain the proposal evidence hash'')
           else ret \<lparr>pq_run = run, pq_proposal = proposal, pq_approval = approval,
                     pq_idempotency = idempotency, pq_checkpoint = checkpoint\<rparr>)))"

definition classify_recovery :: "Run option \<Rightarrow> Checkpoint option \<Rightarrow> RecoveryDisposition" where
  "classify_recovery run checkpoint =
     (case run of None \<Rightarrow> RecoveryDisposition.NEW_RUN
      | Some r \<Rightarrow>
          if r_state r \<in> TERMINAL_WORKFLOW_STATES then RecoveryDisposition.TERMINAL_RUN
          else if r_state r = WorkflowState.AWAITING_APPROVAL
          then RecoveryDisposition.AWAITING_APPROVAL
          else if r_state r \<in> {WorkflowState.EXECUTING, WorkflowState.VERIFYING}
          then RecoveryDisposition.RECONCILIATION_REQUIRED
          else (case checkpoint of None \<Rightarrow> RecoveryDisposition.RECONCILIATION_REQUIRED
            | Some c \<Rightarrow>
                if c_run_id c \<noteq> r_run_id r \<or> c_last_safe_state c \<noteq> r_state r
                then RecoveryDisposition.RECONCILIATION_REQUIRED
                else RecoveryDisposition.SAFE_RESUMABLE))"

subsection \<open>What the checks establish\<close>

lemma build_idempotency_record_Inr:
  assumes "build_idempotency_record L p t = Inr i"
  shows "valid_idempotency i \<and> i_status i = IdempotencyStatus.REGISTERED
    \<and> i_execution_acknowledgement i = None \<and> i_idempotency_key i = derive_idempotency_key L p
    \<and> i_proposal_id i = p_proposal_id p \<and> i_action_fingerprint i = derive_action_fingerprint L p
    \<and> p_state p = ProposalState.AWAITING_APPROVAL"
  using assms by (auto simp: build_idempotency_record_def split: if_splits sum.splits)

text \<open>
  The facts of the store behind a prerequisites bundle. Run, proposal and idempotency record
  are as they were when they were read; the decision is the stored one for ever.
\<close>

definition prerequisites_hold :: "Platform \<Rightarrow> Repo \<Rightarrow> uuid \<Rightarrow> ApprovedActionPrerequisites \<Rightarrow> bool" where
  "prerequisites_hold L d pid q \<longleftrightarrow>
     (\<exists>p' r' i'. dget (d_proposals d) pid = Some p' \<and> proposal_evolves (pq_proposal q) p'
        \<and> dget (d_approvals d) pid = Some (pq_approval q)
        \<and> dget (d_runs d) (p_run_id (pq_proposal q)) = Some r' \<and> run_evolves (pq_run q) r'
        \<and> dget (d_idempotency d) (derive_idempotency_key L (pq_proposal q)) = Some i'
        \<and> idempotency_evolves (pq_idempotency q) i')
     \<and> p_proposal_id (pq_proposal q) = pid
     \<and> p_state (pq_proposal q) = ProposalState.AWAITING_APPROVAL
     \<and> a_decision (pq_approval q) = ApprovalDecision.APPROVED
     \<and> validate_approval_binding (pq_proposal q) (pq_approval q) = Inr ()
     \<and> r_run_id (pq_run q) = p_run_id (pq_proposal q)
     \<and> r_state (pq_run q) = WorkflowState.APPROVED
     \<and> i_idempotency_key (pq_idempotency q) = derive_idempotency_key L (pq_proposal q)
     \<and> i_proposal_id (pq_idempotency q) = pid
     \<and> i_status (pq_idempotency q) = IdempotencyStatus.REGISTERED
     \<and> c_last_safe_state (pq_checkpoint q) = WorkflowState.APPROVED
     \<and> dget (c_tool_result_hashes (pq_checkpoint q)) ''build_remediation_evidence''
         = Some (p_evidence_hash (pq_proposal q))"

lemma proposal_evolves_fields:
  assumes "proposal_evolves p p'"
  shows "p_proposal_id p' = p_proposal_id p" "p_run_id p' = p_run_id p" "p_target p' = p_target p"
    "p_evidence_hash p' = p_evidence_hash p" "p_action p' = p_action p"
    "p_expected_precondition p' = p_expected_precondition p"
    "derive_idempotency_key L p' = derive_idempotency_key L p"
    "derive_action_fingerprint L p' = derive_action_fingerprint L p"
    "validate_approval_binding p' a = validate_approval_binding p a"
proof -
  obtain x where "p' = p\<lparr>p_state := x\<rparr>" using assms by (auto simp: proposal_evolves_def)
  then show "p_proposal_id p' = p_proposal_id p" "p_run_id p' = p_run_id p"
    "p_target p' = p_target p" "p_evidence_hash p' = p_evidence_hash p" "p_action p' = p_action p"
    "p_expected_precondition p' = p_expected_precondition p"
    "derive_idempotency_key L p' = derive_idempotency_key L p"
    "derive_action_fingerprint L p' = derive_action_fingerprint L p"
    "validate_approval_binding p' a = validate_approval_binding p a"
    by simp_all
qed

lemma approvals_ok_get:
  assumes "approvals_ok d" and "dget (d_approvals d) k = Some a" and "dget (d_proposals d) k = Some p"
  shows "a_proposal_id a = k \<and> validate_approval_binding p a = Inr ()"
proof -
  from assms(1,2) obtain p' where "dget (d_proposals d) k = Some p'"
    "validate_approval_binding p' a = Inr ()" "a_proposal_id a = k"
    unfolding approvals_ok_def by blast
  with assms(3) show ?thesis by simp
qed

context durable_truth begin

lemma require_approved_bystander [bystander_intros]:
  "bystander L view rest (require_approved_records R pid)"
  unfolding require_approved_records_def by (intro bystander_intros store_bystander)

lemma load_prerequisites_bystander [bystander_intros]:
  "bystander L view rest (load_execution_prerequisites L R pid)"
  unfolding load_execution_prerequisites_def by (intro bystander_intros store_bystander)

lemma register_approved_bystander [bystander_intros]:
  "bystander L view rest (register_approved_action L R pid t)"
  unfolding register_approved_action_def bystander_def
proof (intro allI impI)
  fix s x s'
  assume "andThen (require_approved_records R pid) (\<lambda>(_, proposal, _).
    andThen (lift (build_idempotency_record L proposal t)) (op_register_idempotency R)) s = (x, s')"
  then show "rest s' = rest s \<and> later L (view s) (view s')"
  proof (cases rule: andThen_eqE)
    case (1 e)
    with bystanderD [OF require_approved_bystander] show ?thesis by blast
  next
    case (2 y s1)
    obtain run p a where y: "y = (run, p, a)" by (cases y)
    have "bystander L view rest
        (andThen (lift (build_idempotency_record L p t)) (op_register_idempotency R))"
    proof (cases "build_idempotency_record L p t")
      case (Inl e)
      then show ?thesis by (simp add: andThen_def lift_def bystander_def)
    next
      case (Inr i)
      with build_idempotency_record_Inr [OF Inr] store_bystander(10) show ?thesis
        by (simp add: andThen_def lift_def)
    qed
    from bystanderD [OF this] 2 y bystanderD [OF require_approved_bystander 2(1)] show ?thesis
      by (auto intro: rtranclp_trans)
  qed
qed

lemma require_approved_result:
  assumes "require_approved_records R pid s = (Inr (run, p, a), s')" and "repo_ok L (view s)"
  shows "\<exists>p' r'. dget (d_proposals (view s')) pid = Some p' \<and> proposal_evolves p p'
    \<and> dget (d_approvals (view s')) pid = Some a
    \<and> dget (d_runs (view s')) (p_run_id p) = Some r' \<and> run_evolves run r'
    \<and> p_proposal_id p = pid \<and> p_state p = ProposalState.AWAITING_APPROVAL
    \<and> a_decision a = ApprovalDecision.APPROVED \<and> validate_approval_binding p a = Inr ()
    \<and> r_run_id run = p_run_id p \<and> r_state run = WorkflowState.APPROVED"
proof -
  from assms(1) obtain s1 s2 where
    g: "op_get_proposal R pid s = (Inr (Some p), s1)" "p_state p = ProposalState.AWAITING_APPROVAL"
    "op_get_approval R (p_proposal_id p) s1 = (Inr (Some a), s2)"
    "a_decision a = ApprovalDecision.APPROVED"
    "op_get_run R (p_run_id p) s2 = (Inr (Some run), s')" "r_state run = WorkflowState.APPROVED"
    unfolding require_approved_records_def
    by (auto elim!: andThen_InrE simp: raise_def ret_def split: option.splits if_splits)
  have l1: "later L (view s1) (view s2)" and l2: "later L (view s2) (view s')"
    and l0: "later L (view s) (view s1)"
    using performsD(2) [OF get_approval g(3)] performsD(2) [OF get_run g(5)]
      performsD(2) [OF get_proposal g(1)] by simp_all
  have ok: "repo_ok L (view s')"
    using assms(2) l0 l1 l2 later_ok by blast
  from get_proposal_result [OF g(1)] obtain p1 where
    p1: "dget (d_proposals (view s1)) pid = Some p1" "proposal_evolves p p1" by blast
  from evolves_get(2) [OF later_evolves [OF rtranclp_trans [OF l1 l2]] p1(1)] p1(2)
  obtain p' where p': "dget (d_proposals (view s')) pid = Some p'" "proposal_evolves p p'"
    using proposal_evolves_trans by blast
  with ok have "p_proposal_id p' = pid" by (auto simp: repo_ok_def proposals_ok_def)
  then have pid: "p_proposal_id p = pid" using proposal_evolves_fields(1) [OF p'(2)] by simp
  from get_approval_result [OF g(3)] pid
  have a: "dget (d_approvals (view s')) pid = Some a"
    using evolves_get(3) [OF later_evolves [OF l2]] by simp
  from get_run_result [OF g(5)] obtain r' where
    r': "dget (d_runs (view s')) (p_run_id p) = Some r'" "run_evolves run r'" by blast
  with ok have "r_run_id run = p_run_id p" by (auto simp: repo_ok_def runs_ok_def run_evolves_def)
  moreover have "validate_approval_binding p' a = Inr ()"
    using approvals_ok_get [OF _ a p'(1)] ok by (simp add: repo_ok_def)
  ultimately show ?thesis
    using p' a r' g(2,4,6) pid proposal_evolves_fields(9) [OF p'(2)] by auto
qed

lemma load_prerequisites_result:
  assumes run: "load_execution_prerequisites L R pid s = (Inr q, s')" and ok: "repo_ok L (view s)"
  shows "prerequisites_hold L (view s') pid q"
proof -
  from run obtain run p a s1 i s2 c where
    g: "require_approved_records R pid s = (Inr (run, p, a), s1)"
    "op_get_idempotency R (derive_idempotency_key L p) s1 = (Inr (Some i), s2)"
    "i_proposal_id i = p_proposal_id p" "i_status i = IdempotencyStatus.REGISTERED"
    "op_get_checkpoint R (r_run_id run) s2 = (Inr (Some c), s')"
    "c_last_safe_state c = WorkflowState.APPROVED"
    "dget (c_tool_result_hashes c) ''build_remediation_evidence'' = Some (p_evidence_hash p)"
    and q: "q = \<lparr>pq_run = run, pq_proposal = p, pq_approval = a, pq_idempotency = i,
      pq_checkpoint = c\<rparr>"
    unfolding load_execution_prerequisites_def
    by (auto elim!: andThen_InrE simp: raise_def ret_def split: option.splits if_splits prod.splits)
  from require_approved_result [OF g(1) ok] obtain p1 r1 where
    r: "dget (d_proposals (view s1)) pid = Some p1" "proposal_evolves p p1"
    "dget (d_approvals (view s1)) pid = Some a"
    "dget (d_runs (view s1)) (p_run_id p) = Some r1" "run_evolves run r1"
    "p_proposal_id p = pid" "p_state p = ProposalState.AWAITING_APPROVAL"
    "a_decision a = ApprovalDecision.APPROVED" "validate_approval_binding p a = Inr ()"
    "r_run_id run = p_run_id p" "r_state run = WorkflowState.APPROVED" by blast
  have l0: "later L (view s) (view s1)"
    using bystanderD [OF require_approved_bystander g(1)] by blast
  from performsD(3) [OF get_idempotency g(2) refl] obtain d d2 where
    d: "later L (view s1) d" "repo_get_idempotency (derive_idempotency_key L p) d = (Inr (Some i), d2)"
    "later L d2 (view s2)" by blast
  then have di: "d2 = d" "dget (d_idempotency d) (derive_idempotency_key L p) = Some i"
    by (auto simp: repo_get_idempotency_def)
  have "later L (view s2) (view s')" using performsD(2) [OF get_checkpoint g(5)] .
  with d(3) di have ld: "later L d (view s')" by (auto intro: rtranclp_trans)
  have "repo_ok L d" using ok l0 d(1) later_ok by blast
  with di have key: "i_idempotency_key i = derive_idempotency_key L p"
    by (auto simp: repo_ok_def idempotency_ok_def)
  have ev: "evolves (view s1) (view s')" using later_evolves [OF rtranclp_trans [OF d(1) ld]] .
  from evolves_get(4) [OF later_evolves [OF ld] di(2)] obtain i' where
    "dget (d_idempotency (view s')) (derive_idempotency_key L p) = Some i'"
    "idempotency_evolves i i'" by blast
  moreover from evolves_get(2) [OF ev r(1)] r(2) obtain p' where
    "dget (d_proposals (view s')) pid = Some p'" "proposal_evolves p p'"
    using proposal_evolves_trans by blast
  moreover from evolves_get(1) [OF ev r(4)] r(5) obtain r' where
    "dget (d_runs (view s')) (p_run_id p) = Some r'" "run_evolves run r'"
    using run_evolves_trans by blast
  ultimately show ?thesis
    using evolves_get(3) [OF ev r(3)] r(6-) g(3,4,6,7) key q
    unfolding prerequisites_hold_def by auto
qed

end

subsection \<open>Claims\<close>

text \<open>C32: over a quiescent repository the proof bundle is loaded exactly when every durable
  prerequisite holds, and then it contains the stored records; otherwise the load is refused
  and nothing changes.\<close>

theorem prerequisites_exact:
  assumes "repo_ok L d"
  shows "load_execution_prerequisites L (mem_repository L) pid d = (Inr q, d') \<longleftrightarrow>
    d' = d
    \<and> dget (d_proposals d) pid = Some (pq_proposal q)
    \<and> p_state (pq_proposal q) = ProposalState.AWAITING_APPROVAL
    \<and> dget (d_approvals d) pid = Some (pq_approval q)
    \<and> a_decision (pq_approval q) = ApprovalDecision.APPROVED
    \<and> dget (d_runs d) (p_run_id (pq_proposal q)) = Some (pq_run q)
    \<and> r_state (pq_run q) = WorkflowState.APPROVED
    \<and> dget (d_idempotency d) (derive_idempotency_key L (pq_proposal q)) = Some (pq_idempotency q)
    \<and> i_proposal_id (pq_idempotency q) = pid
    \<and> i_status (pq_idempotency q) = IdempotencyStatus.REGISTERED
    \<and> dget (d_checkpoints d) (p_run_id (pq_proposal q)) = Some (pq_checkpoint q)
    \<and> c_last_safe_state (pq_checkpoint q) = WorkflowState.APPROVED
    \<and> dget (c_tool_result_hashes (pq_checkpoint q)) ''build_remediation_evidence''
        = Some (p_evidence_hash (pq_proposal q))" (is "?load \<longleftrightarrow> ?facts")
proof -
  have pid: "p_proposal_id p = pid" if "dget (d_proposals d) pid = Some p" for p
    using assms that by (auto simp: repo_ok_def proposals_ok_def)
  have rid: "r_run_id r = k" if "dget (d_runs d) k = Some r" for r k
    using assms that by (auto simp: repo_ok_def runs_ok_def)
  show ?thesis
    using pid rid
    by (cases q) (auto simp: load_execution_prerequisites_def require_approved_records_def
        mem_repository_def repo_get_proposal_def repo_get_approval_def repo_get_run_def
        repo_get_idempotency_def repo_get_checkpoint_def prog_defs split: option.splits)
qed

text \<open>a restart is classified as safely resumable only with a checkpoint of the same run
  in the same state, and never in a terminal, approval-waiting or side-effect state.\<close>

theorem classify_recovery_safe:
  "classify_recovery run checkpoint = RecoveryDisposition.SAFE_RESUMABLE \<longleftrightarrow>
    (\<exists>r c. run = Some r \<and> checkpoint = Some c \<and> c_run_id c = r_run_id r
      \<and> c_last_safe_state c = r_state r
      \<and> r_state r \<notin> TERMINAL_WORKFLOW_STATES \<union> {WorkflowState.AWAITING_APPROVAL,
          WorkflowState.EXECUTING, WorkflowState.VERIFYING})"
  by (auto simp: classify_recovery_def split: option.splits)

end
