(* ===== verification/Stop_Coordinator.thy ===== *)
theory Stop_Coordinator
  imports Prerequisites
begin

text \<open>
  \<open>remediation/models.py\<close>, \<open>remediation/command.py\<close> and \<open>remediation/coordinator.py\<close>: the
  coordinator that claims durable execution ownership, calls the private executor at most
  once, and records the outcome. Its collaborators (repository, executor, clock, event ids)
  are the fields of the record, as in the class.
\<close>

subsection \<open>Audit events of a coordinator\<close>

text \<open>
  \<open>_append_event\<close>: the event id is drawn first, then the timestamp; the model is validated
  before the repository is called.
\<close>

definition emit_event ::
    "'s DurableTruthRepository \<Rightarrow> ('s, datetime) prog \<Rightarrow> ('s, uuid) prog \<Rightarrow> string \<Rightarrow> string option
     \<Rightarrow> uuid \<Rightarrow> AuditEventType \<Rightarrow> string \<Rightarrow> (string, string) dict \<Rightarrow> ('s, unit) prog" where
  "emit_event R clock ids source tool run_id event_type payload_hash metadata =
     andThen ids (\<lambda>event_id. andThen clock (\<lambda>now.
     case utc_field now of Inl e \<Rightarrow> raise e
     | Inr timestamp \<Rightarrow>
        (case validated valid_audit_event
            \<lparr>e_event_id = event_id, e_run_id = run_id, e_type = event_type,
             e_timestamp = timestamp, e_source = source, e_tool_name = tool, e_model_id = None,
             e_redacted_payload_hash = payload_hash, e_metadata = metadata\<rparr> of
           Inl e \<Rightarrow> raise e
         | Inr event \<Rightarrow> andThen (op_append_audit_event R event) (\<lambda>_. ret ()))))"

definition run_metadata :: "Run \<Rightarrow> (string, string) dict \<Rightarrow> (string, string) dict" where
  "run_metadata run metadata = dmerge metadata
     [(''trace_id'', r_trace_id run), (''correlation_id'', r_correlation_id run)]"

definition storage_errors :: "exc set" where
  "storage_errors = {StorageConflictError, StorageDependencyError}"

subsection \<open>The command\<close>

record StopExecutionCommand =
  sc_proposal_id :: uuid
  sc_run_id :: uuid
  sc_trace_id :: uuid
  sc_correlation_id :: uuid
  sc_action :: Capability
  sc_target :: ActionTarget
  sc_expected_precondition :: ExpectedPrecondition
  sc_evidence_hash :: string
  sc_approval_request_hash :: string
  sc_approval_actor_session_id :: string
  sc_approval_decision_nonce_hash :: string
  sc_idempotency_key :: string
  sc_issued_at :: int

definition valid_command :: "StopExecutionCommand \<Rightarrow> bool" where
  "valid_command c \<longleftrightarrow>
     uuid7 (sc_proposal_id c) \<and> uuid7 (sc_run_id c) \<and> uuid7 (sc_trace_id c)
     \<and> uuid7 (sc_correlation_id c) \<and> sc_action c = Capability.STOP_SANDBOX_INSTANCE
     \<and> valid_target (sc_target c) \<and> valid_precondition (sc_expected_precondition c)
     \<and> sha256_digest (sc_evidence_hash c) \<and> sha256_digest (sc_approval_request_hash c)
     \<and> short_identifier (sc_approval_actor_session_id c)
     \<and> sha256_digest (sc_approval_decision_nonce_hash c)
     \<and> idempotency_key_text (sc_idempotency_key c)
     \<and> sc_evidence_hash c = pc_evidence_hash (sc_expected_precondition c)"

definition build_stop_execution_command ::
    "Platform \<Rightarrow> ApprovedActionPrerequisites \<Rightarrow> datetime \<Rightarrow> exc + StopExecutionCommand" where
  "build_stop_execution_command L q issued_at =
     (case utc_field issued_at of Inl e \<Rightarrow> Inl e
      | Inr t \<Rightarrow> validated valid_command
          \<lparr>sc_proposal_id = p_proposal_id (pq_proposal q), sc_run_id = r_run_id (pq_run q),
           sc_trace_id = r_trace_id (pq_run q), sc_correlation_id = r_correlation_id (pq_run q),
           sc_action = p_action (pq_proposal q), sc_target = p_target (pq_proposal q),
           sc_expected_precondition = p_expected_precondition (pq_proposal q),
           sc_evidence_hash = p_evidence_hash (pq_proposal q),
           sc_approval_request_hash = a_request_hash (pq_approval q),
           sc_approval_actor_session_id = a_actor_session_id (pq_approval q),
           sc_approval_decision_nonce_hash = sha256_hex L (a_decision_nonce (pq_approval q)),
           sc_idempotency_key = i_idempotency_key (pq_idempotency q), sc_issued_at = t\<rparr>)"

subsection \<open>The coordinator\<close>

record 's StopSandboxInstanceCoordinator =
  co_repository :: "'s DurableTruthRepository"
  co_executor :: "StopExecutionCommand \<Rightarrow> ('s, ExecutionAcknowledgement) prog"
  co_clock :: "('s, datetime) prog"
  co_event_id_factory :: "('s, uuid) prog"

type_synonym ('s, 'a) handler = "('s, 'a ControlResult) prog"

definition stop_append_event ::
    "'s StopSandboxInstanceCoordinator \<Rightarrow> Run \<Rightarrow> AuditEventType \<Rightarrow> string \<Rightarrow> (string, string) dict
     \<Rightarrow> ('s, unit) prog" where
  "stop_append_event C run event_type payload_hash metadata =
     emit_event (co_repository C) (co_clock C) (co_event_id_factory C)
       ''nz-remediation-orchestrator'' (Some ''stop_sandbox_instance'') (r_run_id run)
       event_type payload_hash (run_metadata run metadata)"

definition stop_mark_recovery_required ::
    "'s StopSandboxInstanceCoordinator \<Rightarrow> uuid \<Rightarrow> string \<Rightarrow> string
     \<Rightarrow> ('s, ExecutionAcknowledgement) handler" where
  "stop_mark_recovery_required C run_id reason message =
     (let result = ret (Failed (failure FailureKind.RECOVERY_REQUIREMENT reason message False)) in
      tryThen
        (andThen (op_get_run (co_repository C) run_id) (\<lambda>current.
         case current of None \<Rightarrow> ret ()
         | Some run \<Rightarrow>
             if r_state run \<in> {WorkflowState.APPROVED, WorkflowState.EXECUTING}
             then andThen (co_clock C) (\<lambda>now.
                  andThen (op_transition_run (co_repository C) (r_run_id run)
                    WorkflowState.RECOVERY_REQUIRED (r_state run) (r_version run) now None None)
                  (\<lambda>_. ret ()))
             else ret ()))
        (\<lambda>e. if e \<in> storage_errors then Some result else None)
        (\<lambda>_. result))"

definition stop_persist_execution_failure ::
    "Platform \<Rightarrow> 's StopSandboxInstanceCoordinator \<Rightarrow> Run \<Rightarrow> string \<Rightarrow> FailureDetail \<Rightarrow> ActionOutcome
     \<Rightarrow> ('s, ExecutionAcknowledgement) handler" where
  "stop_persist_execution_failure L C run key f outcome =
     tryThen
       (andThen
         (if f_kind f = FailureKind.POLICY_DENIAL
          then stop_append_event C run AuditEventType.POLICY_DENIED
                 (compute_evidence_digest L (JObj [(''code'', JStr (f_code f)),
                    (''kind'', JStr (FailureKind_value (f_kind f)))]))
                 [(''policy_code'', f_code f)]
          else ret ()) (\<lambda>_.
        andThen (lift (validated valid_action_result
           \<lparr>ar_outcome = outcome, ar_observed_state = None, ar_evidence_hash = None,
            ar_failure = Some f\<rparr>)) (\<lambda>result.
        andThen (co_clock C) (\<lambda>completed_at.
        andThen (op_complete_idempotency (co_repository C) key result completed_at) (\<lambda>_.
        andThen (co_clock C) (\<lambda>updated_at.
        op_transition_run (co_repository C) (r_run_id run) (workflow_state_for_failure f)
          WorkflowState.EXECUTING (r_version run) updated_at None None))))))
       (\<lambda>e. if e \<in> storage_errors
            then Some (ret (Failed (failure FailureKind.RECOVERY_REQUIREMENT
                   ''EXECUTION_FAILURE_DURABILITY_FAILED''
                   ''Execution failure could not be durably reconciled'' False)))
            else None)
       (\<lambda>_. ret (Failed f))"

text \<open>The branch of \<open>execute\<close> for a key that is already registered.\<close>

definition stop_reconcile_existing ::
    "'s StopSandboxInstanceCoordinator \<Rightarrow> ActionProposal \<Rightarrow> string \<Rightarrow> IdempotencyRecord
     \<Rightarrow> ('s, ExecutionAcknowledgement) handler" where
  "stop_reconcile_existing C proposal key existing =
     (if i_proposal_id existing \<noteq> p_proposal_id proposal \<or> i_idempotency_key existing \<noteq> key
      then ret (Failed (failure FailureKind.RECOVERY_REQUIREMENT ''IDEMPOTENCY_OWNERSHIP_CONFLICT''
             ''Durable idempotency ownership is inconsistent'' False))
      else (case i_execution_acknowledgement existing of
        Some acknowledgement \<Rightarrow>
          tryThen (op_get_run (co_repository C) (p_run_id proposal))
            (\<lambda>e. if e = StorageDependencyError
                 then Some (ret (Failed (failure FailureKind.DEPENDENCY_UNAVAILABLE
                        ''RUN_RECONCILIATION_UNAVAILABLE''
                        ''Durable run reconciliation is unavailable'' True)))
                 else None)
            (\<lambda>existing_run.
              case existing_run of
                Some run \<Rightarrow>
                  if r_state run \<in> {WorkflowState.VERIFYING, WorkflowState.SUCCESS_WITH_EVIDENCE}
                  then ret (Succeeded acknowledgement)
                  else stop_mark_recovery_required C (p_run_id proposal)
                         ''ACKNOWLEDGEMENT_STATE_UNRECONCILED''
                         ''Execution acknowledgement exists without a safe verifying state''
              | None \<Rightarrow> stop_mark_recovery_required C (p_run_id proposal)
                         ''ACKNOWLEDGEMENT_STATE_UNRECONCILED''
                         ''Execution acknowledgement exists without a safe verifying state'')
      | None \<Rightarrow>
          if i_status existing = IdempotencyStatus.REGISTERED
          then stop_mark_recovery_required C (p_run_id proposal) ''IDEMPOTENCY_IN_PROGRESS''
                 ''Unresolved in-progress mutation must not be blindly replayed''
          else (case i_action_result existing of
              Some res \<Rightarrow> (case ar_failure res of
                  Some f \<Rightarrow> ret (Failed f)
                | None \<Rightarrow> ret (Failed (failure FailureKind.RECOVERY_REQUIREMENT
                    ''IDEMPOTENCY_RESULT_UNRECONCILED''
                    ''Existing action result requires reconciliation'' False)))
            | None \<Rightarrow> ret (Failed (failure FailureKind.RECOVERY_REQUIREMENT
                    ''IDEMPOTENCY_RESULT_UNRECONCILED''
                    ''Existing action result requires reconciliation'' False)))))"

text \<open>The write-before-execute block: ownership, prerequisites, EXECUTING, command, audit.\<close>

definition stop_claim_execution ::
    "Platform \<Rightarrow> 's StopSandboxInstanceCoordinator \<Rightarrow> ActionProposal \<Rightarrow> uuid
     \<Rightarrow> ('s, IdempotencyRecord \<times> Run \<times> StopExecutionCommand) prog" where
  "stop_claim_execution L C proposal proposal_id =
     andThen (co_clock C) (\<lambda>registered_at.
     andThen (register_approved_action L (co_repository C) proposal_id registered_at) (\<lambda>idempotency.
     andThen (load_execution_prerequisites L (co_repository C) proposal_id) (\<lambda>prerequisites.
     andThen (co_clock C) (\<lambda>updated_at.
     andThen (op_transition_run (co_repository C) (r_run_id (pq_run prerequisites))
       WorkflowState.EXECUTING WorkflowState.APPROVED (r_version (pq_run prerequisites))
       updated_at None None) (\<lambda>run.
     andThen (co_clock C) (\<lambda>issued_at.
     andThen (lift (build_stop_execution_command L prerequisites issued_at)) (\<lambda>command.
     andThen (stop_append_event C run AuditEventType.EXECUTION_REQUESTED
       (i_action_fingerprint idempotency) [(''proposal_id'', p_proposal_id proposal)]) (\<lambda>_.
     ret (idempotency, run, command)))))))))"

text \<open>The failure each executor error is mapped to, and its action outcome.\<close>

fun execution_failure :: "exc \<Rightarrow> (FailureDetail \<times> ActionOutcome) option" where
  "execution_failure RemediationEmergencyDisabledError = Some (failure FailureKind.POLICY_DENIAL
     ''EXECUTOR_EMERGENCY_DISABLED''
     ''Independent executor emergency control denied the mutation'' False, ActionOutcome.FAILED)"
| "execution_failure RemediationDisabledError = Some (failure FailureKind.POLICY_DENIAL
     ''SANDBOX_EXECUTION_DENIED''
     ''Private executor rejected configuration, scope, or precondition'' False,
     ActionOutcome.FAILED)"
| "execution_failure RemediationScopeError = Some (failure FailureKind.POLICY_DENIAL
     ''SANDBOX_EXECUTION_DENIED''
     ''Private executor rejected configuration, scope, or precondition'' False,
     ActionOutcome.FAILED)"
| "execution_failure RemediationDependencyError = Some (failure FailureKind.DEPENDENCY_UNAVAILABLE
     ''STOP_DEPENDENCY_UNAVAILABLE''
     ''Private executor dependency is unavailable before safe acknowledgement'' True,
     ActionOutcome.FAILED)"
| "execution_failure RemediationExecutionError = Some (failure FailureKind.EXECUTION_FAILURE
     ''STOP_EXECUTION_FAILED''
     ''StopInstances returned an explicit unsuccessful outcome'' False, ActionOutcome.FAILED)"
| "execution_failure RemediationAmbiguousError = Some (failure FailureKind.RECOVERY_REQUIREMENT
     ''STOP_ACKNOWLEDGEMENT_AMBIGUOUS''
     ''Mutation acknowledgement is unknown and requires reconciliation'' False,
     ActionOutcome.AMBIGUOUS)"
| "execution_failure Killed = None"
| "execution_failure _ = Some (failure FailureKind.RECOVERY_REQUIREMENT
     ''STOP_EXECUTOR_UNEXPECTED_FAILURE''
     ''Private executor failed without a safe acknowledgement'' False, ActionOutcome.AMBIGUOUS)"

definition stop_record_acknowledgement ::
    "'s StopSandboxInstanceCoordinator \<Rightarrow> ActionProposal \<Rightarrow> IdempotencyRecord \<Rightarrow> Run
     \<Rightarrow> ExecutionAcknowledgement \<Rightarrow> ('s, ExecutionAcknowledgement) handler" where
  "stop_record_acknowledgement C proposal idempotency run acknowledgement =
     tryThen
       (andThen (op_record_execution_acknowledgement (co_repository C)
          (i_idempotency_key idempotency) acknowledgement) (\<lambda>_.
        andThen (co_clock C) (\<lambda>updated_at.
        andThen (op_transition_run (co_repository C) (r_run_id run) WorkflowState.VERIFYING
          WorkflowState.EXECUTING (r_version run) updated_at None None) (\<lambda>verifying.
        stop_append_event C verifying AuditEventType.EXECUTION_ACKNOWLEDGED
          (k_acknowledgement_hash acknowledgement)
          [(''proposal_id'', p_proposal_id proposal)]))))
       (\<lambda>e. if e \<in> storage_errors
            then Some (stop_mark_recovery_required C (r_run_id run)
                   ''EXECUTION_ACK_DURABILITY_FAILED''
                   ''Executor acknowledgement could not be durably reconciled'')
            else None)
       (\<lambda>_. ret (Succeeded acknowledgement))"

definition stop_run_executor ::
    "Platform \<Rightarrow> 's StopSandboxInstanceCoordinator \<Rightarrow> ActionProposal
     \<Rightarrow> IdempotencyRecord \<times> Run \<times> StopExecutionCommand \<Rightarrow> ('s, ExecutionAcknowledgement) handler"
  where
  "stop_run_executor L C proposal = (\<lambda>(idempotency, run, command).
     tryThen (co_executor C command)
       (\<lambda>e. case execution_failure e of
          None \<Rightarrow> None
        | Some (f, outcome) \<Rightarrow>
            Some (stop_persist_execution_failure L C run (i_idempotency_key idempotency) f outcome))
       (stop_record_acknowledgement C proposal idempotency run))"

definition stop_execute_unclaimed ::
    "Platform \<Rightarrow> 's StopSandboxInstanceCoordinator \<Rightarrow> ActionProposal \<Rightarrow> uuid
     \<Rightarrow> ('s, ExecutionAcknowledgement) handler" where
  "stop_execute_unclaimed L C proposal proposal_id =
     tryThen (stop_claim_execution L C proposal proposal_id)
       (\<lambda>e. case e of
          DurablePrerequisiteError message \<Rightarrow>
            Some (ret (Failed (failure FailureKind.POLICY_DENIAL
              ''EXECUTION_PREREQUISITES_DENIED'' message False)))
        | StorageConflictError \<Rightarrow>
            Some (stop_mark_recovery_required C (p_run_id proposal)
              ''EXECUTION_OWNERSHIP_CONFLICT''
              ''Durable execution ownership could not be established safely'')
        | StorageDependencyError \<Rightarrow>
            Some (ret (Failed (failure FailureKind.DEPENDENCY_UNAVAILABLE
              ''EXECUTION_DURABILITY_UNAVAILABLE''
              ''Durable write-before-execute state is unavailable'' True)))
        | _ \<Rightarrow> None)
       (stop_run_executor L C proposal)"

text \<open>The whole handler.\<close>

definition stop_execute ::
    "Platform \<Rightarrow> 's StopSandboxInstanceCoordinator \<Rightarrow> uuid \<Rightarrow> ('s, ExecutionAcknowledgement) handler"
  where
  "stop_execute L C proposal_id =
     tryThen (op_get_proposal (co_repository C) proposal_id)
       (\<lambda>e. if e = StorageDependencyError
            then Some (ret (Failed (failure FailureKind.DEPENDENCY_UNAVAILABLE
                   ''PROPOSAL_LOOKUP_UNAVAILABLE''
                   ''Durable proposal lookup is unavailable'' True)))
            else None)
       (\<lambda>found. case found of
          None \<Rightarrow> ret (Failed (failure FailureKind.VALIDATION_FAILURE ''PROPOSAL_NOT_FOUND''
                   ''Durable proposal is required'' False))
        | Some proposal \<Rightarrow>
            tryThen (op_get_idempotency (co_repository C) (derive_idempotency_key L proposal))
              (\<lambda>e. if e = StorageDependencyError
                   then Some (ret (Failed (failure FailureKind.DEPENDENCY_UNAVAILABLE
                          ''IDEMPOTENCY_LOOKUP_UNAVAILABLE''
                          ''Durable idempotency lookup is unavailable'' True)))
                   else None)
              (\<lambda>known. case known of
                 Some existing \<Rightarrow>
                   stop_reconcile_existing C proposal (derive_idempotency_key L proposal) existing
               | None \<Rightarrow> stop_execute_unclaimed L C proposal proposal_id))"

subsection \<open>The environment of the coordinator\<close>

text \<open>
  The clock and the id factory touch neither the store nor \<open>rest\<close>; the executor may take any
  time, in which other clients write, and returns only contract-valid acknowledgements.
  \<open>rest\<close> stands for what only the executor changes, such as the requests EC2 has received.
\<close>

locale stop_environment = durable_truth L R view rest
  for L :: Platform and R :: "'s DurableTruthRepository" and view :: "'s \<Rightarrow> Repo"
    and rest :: "'s \<Rightarrow> 'r" +
  fixes C :: "'s StopSandboxInstanceCoordinator"
  assumes repository: "co_repository C = R"
    and clock: "bystander L view rest (co_clock C)"
    and event_ids: "bystander L view rest (co_event_id_factory C)"
    and executor_store: "co_executor C c s = (x, s') \<Longrightarrow> later L (view s) (view s')"
    and executor_valid: "co_executor C c s = (Inr k, s') \<Longrightarrow> valid_acknowledgement k"

context durable_truth begin

lemma emit_event_bystander:
  assumes "bystander L view rest clk" and "bystander L view rest ids"
  shows "bystander L view rest (emit_event R clk ids source tool rid ty h md)"
  unfolding emit_event_def
  by (intro bystander_intros assms append_audit_event [THEN performs_bystander])
    (auto simp: validated_def split: if_splits)

lemma complete_result_bystander:
  assumes "\<And>r. validated valid_action_result x = Inr r \<Longrightarrow> bystander L view rest (k r)"
  shows "bystander L view rest (andThen (lift (validated valid_action_result x)) k)"
  using assms by (cases "validated valid_action_result x")
    (auto simp: bystander_def andThen_def lift_def)

end

context stop_environment begin

lemma stop_append_event_bystander [bystander_intros]:
  "bystander L view rest (stop_append_event C run ty h md)"
  unfolding stop_append_event_def repository
  by (rule emit_event_bystander [OF clock event_ids])

lemma stop_mark_recovery_bystander [bystander_intros]:
  "bystander L view rest (stop_mark_recovery_required C rid reason message)"
  unfolding stop_mark_recovery_required_def repository Let_def
  by (intro bystander_intros store_bystander clock) (auto split: if_splits intro: bystander_intros)

lemma stop_persist_failure_bystander [bystander_intros]:
  "bystander L view rest (stop_persist_execution_failure L C run key f outcome)"
  unfolding stop_persist_execution_failure_def repository
  by (intro bystander_intros complete_result_bystander store_bystander clock)
    (auto split: if_splits intro: bystander_intros)

lemma stop_reconcile_bystander [bystander_intros]:
  "bystander L view rest (stop_reconcile_existing C p key existing)"
  unfolding stop_reconcile_existing_def repository
  by (intro bystander_intros store_bystander clock) (auto split: if_splits intro: bystander_intros)

lemma stop_claim_bystander [bystander_intros]:
  "bystander L view rest (stop_claim_execution L C p pid)"
  unfolding stop_claim_execution_def repository
  by (intro bystander_intros store_bystander clock)

lemma stop_record_ack_bystander:
  assumes "valid_acknowledgement k"
  shows "bystander L view rest (stop_record_acknowledgement C p i run k)"
  unfolding stop_record_acknowledgement_def repository
  by (intro bystander_intros record_acknowledgement [THEN performs_bystander] assms store_bystander clock)
    (auto split: if_splits intro: bystander_intros)

text \<open>
  The moment of the claim: the transition to EXECUTING, at which the human decision and the
  registration of the action are in the store, and from which the command is built.
\<close>

end

definition authorized_claim ::
    "Platform \<Rightarrow> Repo \<Rightarrow> Repo \<Rightarrow> uuid \<Rightarrow> StopExecutionCommand \<Rightarrow> bool" where
  "authorized_claim L d d' pid c \<longleftrightarrow>
     (\<exists>p a i v t r. repo_transition_run L (sc_run_id c) WorkflowState.EXECUTING
          WorkflowState.APPROVED v t None None d = (Inr r, d')
        \<and> dget (d_proposals d) pid = Some p \<and> p_run_id p = sc_run_id c
        \<and> dget (d_approvals d) pid = Some a \<and> a_decision a = ApprovalDecision.APPROVED
        \<and> validate_approval_binding p a = Inr ()
        \<and> dget (d_idempotency d) (derive_idempotency_key L p) = Some i \<and> i_proposal_id i = pid
        \<and> sc_proposal_id c = pid \<and> sc_action c = p_action p \<and> sc_target c = p_target p
        \<and> sc_expected_precondition c = p_expected_precondition p
        \<and> sc_evidence_hash c = p_evidence_hash p
        \<and> sc_approval_request_hash c = a_request_hash a
        \<and> sc_approval_actor_session_id c = a_actor_session_id a
        \<and> sc_idempotency_key c = derive_idempotency_key L p \<and> valid_command c)"

context stop_environment begin

lemma stop_claim_result:
  assumes run: "stop_claim_execution L C p pid s = (Inr (i, r, c), s')" and ok: "repo_ok L (view s)"
  shows "\<exists>d d'. later L (view s) d \<and> authorized_claim L d d' pid c \<and> later L d' (view s')"
proof -
  from run obtain s1 t1 i1 s2 q s3 t2 s4 s5 t3 s6 where
    g: "co_clock C s = (Inr t1, s1)"
    "register_approved_action L R pid t1 s1 = (Inr i1, s2)"
    "load_execution_prerequisites L R pid s2 = (Inr q, s3)"
    "co_clock C s3 = (Inr t2, s4)"
    "op_transition_run R (r_run_id (pq_run q)) WorkflowState.EXECUTING WorkflowState.APPROVED
      (r_version (pq_run q)) t2 None None s4 = (Inr r, s5)"
    "co_clock C s5 = (Inr t3, s6)"
    "build_stop_execution_command L q t3 = Inr c"
    "stop_append_event C r AuditEventType.EXECUTION_REQUESTED (i_action_fingerprint i1)
      [(''proposal_id'', p_proposal_id p)] s6 = (Inr (), s')"
    unfolding stop_claim_execution_def repository
    by (auto elim!: andThen_InrE simp: lift_def ret_def)
  note l = bystanderD(2) [OF clock g(1)] bystanderD(2) [OF register_approved_bystander g(2)]
    bystanderD(2) [OF load_prerequisites_bystander g(3)] bystanderD(2) [OF clock g(4)]
    performsD(2) [OF transition g(5)] bystanderD(2) [OF clock g(6)]
    bystanderD(2) [OF stop_append_event_bystander g(8)]
  have "repo_ok L (view s2)" using ok l(1,2) later_ok by blast
  from load_prerequisites_result [OF g(3) this]
  have pre: "prerequisites_hold L (view s3) pid q" .
  from performsD(3) [OF transition g(5) refl] obtain d d2 where
    d: "later L (view s4) d" "later L d2 (view s5)"
    "repo_transition_run L (r_run_id (pq_run q)) WorkflowState.EXECUTING WorkflowState.APPROVED
      (r_version (pq_run q)) t2 None None d = (Inr r, d2)" by blast
  have ev: "evolves (view s3) d" using later_evolves [OF rtranclp_trans [OF l(4) d(1)]] .
  from pre obtain p3 i3 where h: "dget (d_proposals (view s3)) pid = Some p3"
    "proposal_evolves (pq_proposal q) p3" "dget (d_approvals (view s3)) pid = Some (pq_approval q)"
    "dget (d_idempotency (view s3)) (derive_idempotency_key L (pq_proposal q)) = Some i3"
    "idempotency_evolves (pq_idempotency q) i3"
    "p_proposal_id (pq_proposal q) = pid" "a_decision (pq_approval q) = ApprovalDecision.APPROVED"
    "validate_approval_binding (pq_proposal q) (pq_approval q) = Inr ()"
    "r_run_id (pq_run q) = p_run_id (pq_proposal q)" "i_proposal_id (pq_idempotency q) = pid"
    "i_idempotency_key (pq_idempotency q) = derive_idempotency_key L (pq_proposal q)"
    by (auto simp: prerequisites_hold_def)
  from evolves_get(2) [OF ev h(1)] h(2) obtain p' where
    p': "dget (d_proposals d) pid = Some p'" "proposal_evolves (pq_proposal q) p'"
    using proposal_evolves_trans by blast
  note f = proposal_evolves_fields [OF p'(2)]
  from evolves_get(4) [OF ev h(4)] h(5,10) obtain i' where
    i': "dget (d_idempotency d) (derive_idempotency_key L p') = Some i'" "i_proposal_id i' = pid"
    by (auto simp: f idempotency_evolves_def)
  have c: "sc_run_id c = p_run_id (pq_proposal q) \<and> sc_proposal_id c = pid \<and> sc_action c = p_action p'
      \<and> sc_target c = p_target p' \<and> sc_expected_precondition c = p_expected_precondition p'
      \<and> sc_evidence_hash c = p_evidence_hash p' \<and> sc_approval_request_hash c = a_request_hash (pq_approval q)
      \<and> sc_approval_actor_session_id c = a_actor_session_id (pq_approval q)
      \<and> sc_idempotency_key c = derive_idempotency_key L p' \<and> valid_command c"
    using g(7) h(6,9,11) by (auto simp: build_stop_execution_command_def f split: sum.splits)
  have "authorized_claim L d d2 pid c"
    unfolding authorized_claim_def using d(3) p' i' c h(7,8,9) evolves_get(3) [OF ev h(3)] f
    by (intro exI [of _ p'] exI [of _ "pq_approval q"] exI [of _ i'] exI [of _ "r_version (pq_run q)"]
        exI [of _ t2] exI [of _ r]) simp
  moreover have "later L (view s) d" using l(1-4) d(1) by (meson rtranclp_trans)
  moreover have "later L d2 (view s')" using d(2) l(6,7) by (meson rtranclp_trans)
  ultimately show ?thesis by blast
qed

end

text \<open>
  A program that calls the executor at most once, and only after an authorized claim; \<open>rest\<close>
  changes only in that call.
\<close>

definition calls_guarded ::
    "Platform \<Rightarrow> 's StopSandboxInstanceCoordinator \<Rightarrow> ('s \<Rightarrow> Repo) \<Rightarrow> ('s \<Rightarrow> 'r) \<Rightarrow> uuid
     \<Rightarrow> ('s, 'a) prog \<Rightarrow> bool" where
  "calls_guarded L C view rest pid m \<longleftrightarrow>
     (\<forall>s x s'. m s = (x, s') \<longrightarrow> repo_ok L (view s) \<longrightarrow>
        later L (view s) (view s')
        \<and> (rest s' = rest s
           \<or> (\<exists>c s1 y s2 d d'. co_executor C c s1 = (y, s2) \<and> rest s1 = rest s \<and> rest s' = rest s2
               \<and> later L (view s) d \<and> authorized_claim L d d' pid c \<and> later L d' (view s1) \<and> later L (view s1) (view s'))))"

context stop_environment begin

lemma guarded_bystander: "bystander L view rest m \<Longrightarrow> calls_guarded L C view rest pid m"
  unfolding calls_guarded_def using bystanderD by metis

lemma guarded_tryThen:
  assumes "bystander L view rest m"
    and "\<And>e g. h e = Some g \<Longrightarrow> calls_guarded L C view rest pid g"
    and "\<And>x. calls_guarded L C view rest pid (k x)"
  shows "calls_guarded L C view rest pid (tryThen m h k)"
  unfolding calls_guarded_def
proof (intro allI impI)
  fix s x s' assume run: "tryThen m h k s = (x, s')" and ok: "repo_ok L (view s)"
  have next_ok: "later L (view s) (view s') \<and> (rest s' = rest s
      \<or> (\<exists>c s1 y s2 d d'. co_executor C c s1 = (y, s2) \<and> rest s1 = rest s \<and> rest s' = rest s2
         \<and> later L (view s) d \<and> authorized_claim L d d' pid c \<and> later L d' (view s1) \<and> later L (view s1) (view s')))"
    if "m s = (r, t)" "calls_guarded L C view rest pid g" "g t = (x, s')" for r t g
  proof -
    note b = bystanderD [OF assms(1) that(1)]
    with ok later_ok have "repo_ok L (view t)" by blast
    with that(2,3) have "later L (view t) (view s') \<and> (rest s' = rest t
      \<or> (\<exists>c s1 y s2 d d'. co_executor C c s1 = (y, s2) \<and> rest s1 = rest t \<and> rest s' = rest s2
         \<and> later L (view t) d \<and> authorized_claim L d d' pid c \<and> later L d' (view s1) \<and> later L (view s1) (view s')))"
      unfolding calls_guarded_def by blast
    with b show ?thesis by (metis rtranclp_trans)
  qed
  from run show "later L (view s) (view s') \<and> (rest s' = rest s
      \<or> (\<exists>c s1 y s2 d d'. co_executor C c s1 = (y, s2) \<and> rest s1 = rest s \<and> rest s' = rest s2
         \<and> later L (view s) d \<and> authorized_claim L d d' pid c \<and> later L d' (view s1) \<and> later L (view s1) (view s')))"
  proof (cases rule: tryThen_eqE)
    case (1 e)
    with bystanderD [OF assms(1) 1(1)] show ?thesis by simp
  next
    case (2 e g t)
    then show ?thesis using next_ok assms(2) by blast
  next
    case (3 y t)
    then show ?thesis using next_ok assms(3) by blast
  qed
qed

lemma after_executor:
  assumes "stop_run_executor L C p (i, r, c) s = (x, s')"
  shows "\<exists>y s2. co_executor C c s = (y, s2) \<and> rest s' = rest s2 \<and> later L (view s) (view s')"
proof -
  obtain y s2 where e: "co_executor C c s = (y, s2)" by fastforce
  have cont: "rest s' = rest s2 \<and> later L (view s) (view s')"
    if "bystander L view rest m" "m s2 = (x, s')" for m :: "('s, ExecutionAcknowledgement) handler"
    using bystanderD [OF that] executor_store [OF e] by (auto intro: rtranclp_trans)
  from assms e have "rest s' = rest s2 \<and> later L (view s) (view s')"
    unfolding stop_run_executor_def prod.case
  proof (cases rule: tryThen_eqE)
    case (1 err)
    with e executor_store [OF e] show ?thesis by simp
  next
    case (2 err g t)
    with e have "g s2 = (x, s')" by simp
    moreover from 2(2) have "bystander L view rest g"
      by (auto split: option.splits intro: bystander_intros)
    ultimately show ?thesis using cont by blast
  next
    case (3 k t)
    with e have "stop_record_acknowledgement C p i r k s2 = (x, s')" "co_executor C c s = (Inr k, s2)"
      by simp_all
    with cont [OF stop_record_ack_bystander [OF executor_valid]] show ?thesis by blast
  qed
  with e show ?thesis by blast
qed

lemma unclaimed_guarded: "calls_guarded L C view rest pid (stop_execute_unclaimed L C p pid)"
  unfolding calls_guarded_def
proof (intro allI impI)
  fix s x s'
  assume run: "stop_execute_unclaimed L C p pid s = (x, s')" and ok: "repo_ok L (view s)"
  from run show "later L (view s) (view s') \<and> (rest s' = rest s
      \<or> (\<exists>c s1 y s2 d d'. co_executor C c s1 = (y, s2) \<and> rest s1 = rest s \<and> rest s' = rest s2
         \<and> later L (view s) d \<and> authorized_claim L d d' pid c \<and> later L d' (view s1) \<and> later L (view s1) (view s')))"
    unfolding stop_execute_unclaimed_def
  proof (cases rule: tryThen_eqE)
    case (1 e)
    with bystanderD [OF stop_claim_bystander 1(1)] show ?thesis by simp
  next
    case (2 e g t)
    from 2(2) have "bystander L view rest g"
      by (cases e) (auto intro: bystander_intros)
    from bystanderD [OF this 2(3)] bystanderD [OF stop_claim_bystander 2(1)] show ?thesis
      by (auto intro: rtranclp_trans)
  next
    case (3 y t)
    obtain i r c where y: "y = (i, r, c)" by (cases y)
    note b = bystanderD [OF stop_claim_bystander 3(1)]
    from stop_claim_result [OF 3(1) [unfolded y] ok] obtain d d' where
      d: "later L (view s) d" "authorized_claim L d d' pid c" "later L d' (view t)" by blast
    from after_executor [OF 3(2) [unfolded y]] obtain z s2 where
      "co_executor C c t = (z, s2)" "rest s' = rest s2" "later L (view t) (view s')" by blast
    with b d show ?thesis by (metis rtranclp_trans)
  qed
qed

lemma stop_execute_guarded: "calls_guarded L C view rest pid (stop_execute L C pid)"
  unfolding stop_execute_def repository
proof (intro guarded_tryThen get_proposal [THEN performs_bystander]
    get_idempotency [THEN performs_bystander], goal_cases)
  case (1 e g)
  then show ?case by (auto split: if_splits intro: guarded_bystander bystander_intros)
next
  case (2 found)
  show ?case
  proof (cases found)
    case None
    then show ?thesis by (simp add: guarded_bystander bystander_ret)
  next
    case (Some p)
    have "calls_guarded L C view rest pid
       (case known of Some existing \<Rightarrow>
            stop_reconcile_existing C p (derive_idempotency_key L p) existing
        | None \<Rightarrow> stop_execute_unclaimed L C p pid)" for known
      by (cases known) (auto intro: guarded_bystander stop_reconcile_bystander unclaimed_guarded)
    then show ?thesis unfolding Some option.case
      by (intro guarded_tryThen get_idempotency [THEN performs_bystander])
        (auto split: if_splits intro: guarded_bystander bystander_intros)
  qed
qed

text \<open>A key that is already registered stops the coordinator before the executor.\<close>

lemma registered_never_replayed:
  assumes run: "stop_execute L C pid s = (x, s')"
    and p: "dget (d_proposals (view s)) pid = Some p"
    and i: "dget (d_idempotency (view s)) (derive_idempotency_key L p) = Some i"
  shows "rest s' = rest s"
  using run unfolding stop_execute_def repository
proof (cases rule: tryThen_eqE)
  case (1 e)
  with performsD [OF get_proposal 1(1)] show ?thesis by simp
next
  case (2 e g s1)
  then have "bystander L view rest g" by (auto split: if_splits intro: bystander_intros)
  from bystanderD [OF this 2(3)] performsD [OF get_proposal 2(1)] show ?thesis by simp
next
  case (3 found s1)
  note l1 = performsD(1,2) [OF get_proposal 3(1)]
  from performsD(3) [OF get_proposal 3(1) refl] obtain d where
    d: "later L (view s) d" "fst (repo_get_proposal pid d) = Inr found" by fastforce
  from evolves_get(2) [OF later_evolves [OF d(1)] p] d(2) obtain q where
    q: "found = Some q" "proposal_evolves p q" by (auto simp: repo_get_proposal_def)
  have key: "derive_idempotency_key L q = derive_idempotency_key L p"
    using proposal_evolves_fields(7) [OF q(2)] by simp
  from 3(2) [unfolded q(1) option.case] show ?thesis
  proof (cases rule: tryThen_eqE)
    case (1 e)
    with performsD [OF get_idempotency 1(1)] l1 show ?thesis by simp
  next
    case (2 e g s2)
    then have "bystander L view rest g" by (auto split: if_splits intro: bystander_intros)
    from bystanderD [OF this 2(3)] performsD [OF get_idempotency 2(1)] l1 show ?thesis by simp
  next
    case (3 known s2)
    from evolves_get(4) [OF later_evolves [OF l1(2)] i] obtain i1 where
      "dget (d_idempotency (view s1)) (derive_idempotency_key L q) = Some i1" by (auto simp: key)
    from get_idempotency_present [OF 3(1) this] obtain i2 where "known = Some i2" by blast
    with 3(2) have "stop_reconcile_existing C q (derive_idempotency_key L q) i2 s2 = (x, s')" by simp
    from bystanderD [OF stop_reconcile_bystander this] performsD [OF get_idempotency 3(1)] l1
    show ?thesis by simp
  qed
qed

end

end
