(* ===== verification/Executor.thy ===== *)
theory Executor
  imports Stop_Coordinator Redaction
begin

text \<open>
  \<open>remediation/executor.py\<close>, \<open>remediation/emergency.py\<close> and \<open>config/remediation.py\<close>: the
  private executor that owns the only EC2 mutation, its emergency veto and its settings. EC2
  is a party that answers each request with a value or an exception; every exchange is logged
  in the state, so that what was sent is part of what the theorems speak about.
\<close>

subsection \<open>EC2 and the environment of the executor\<close>

datatype Ec2Request = DescribeInstances "string list" | StopInstances "string list" bool

text \<open>
  An answer is a response, an exception with the value of its \<open>response\<close> attribute
  (\<open>JNull\<close> when it has none), or the end of the process during the call.
\<close>

datatype Ec2Reply = Response json | Raised json | Died

record Ec2World =
  ec_log :: "(Ec2Request \<times> Ec2Reply) list"
  ec_replies :: "Ec2Reply list"
  ec_environment :: "(exc + json) list"
  ec_clock :: "datetime list"
  ec_event_ids :: "uuid list"

text \<open>
  A request takes the next answer of the script (no answer left: an exception without a
  response); the log is in the order of sending.
\<close>

definition ec2_call :: "Ec2Request \<Rightarrow> 'a Ec2World_scheme \<Rightarrow> Ec2Reply \<times> 'a Ec2World_scheme" where
  "ec2_call q w =
     (let reply = (case ec_replies w of [] \<Rightarrow> Raised JNull | r # rs \<Rightarrow> r)
      in (reply, w\<lparr>ec_log := ec_log w @ [(q, reply)], ec_replies := tl (ec_replies w)\<rparr>))"

text \<open>\<open>reader(EMERGENCY_EXECUTION_DISABLED_ENV)\<close>: the next value (unset once exhausted).\<close>

definition read_environment :: "('a Ec2World_scheme, json) prog" where
  "read_environment w =
     (case ec_environment w of [] \<Rightarrow> Inr JNull | x # xs \<Rightarrow> x,
      w\<lparr>ec_environment := tl (ec_environment w)\<rparr>)"

definition read_clock :: "('a Ec2World_scheme, datetime) prog" where
  "read_clock w = (case ec_clock w of
       [] \<Rightarrow> (Inl OtherError, w)
     | t # ts \<Rightarrow> (Inr t, w\<lparr>ec_clock := ts\<rparr>))"

definition draw_event_id :: "('a Ec2World_scheme, uuid) prog" where
  "draw_event_id w = (case ec_event_ids w of
       [] \<Rightarrow> (Inl OtherError, w)
     | i # is \<Rightarrow> (Inr i, w\<lparr>ec_event_ids := is\<rparr>))"

subsection \<open>Settings\<close>

record SandboxRemediationSettings =
  rs_instance_id :: string
  rs_required_tag_key :: string
  rs_required_tag_value :: string
  rs_region :: string
  rs_aws_mutations_enabled :: bool
  rs_allow_live_sandbox_stop :: bool

definition bounded_text :: "nat \<Rightarrow> string \<Rightarrow> bool" where
  "bounded_text maximum s \<longleftrightarrow> strip s \<noteq> [] \<and> s = strip s \<and> length s \<le> maximum"

text \<open>\<open>SandboxTarget\<close> of \<open>cloudops/models.py\<close>, built from the settings.\<close>

definition valid_sandbox_target :: "SandboxRemediationSettings \<Rightarrow> bool" where
  "valid_sandbox_target s \<longleftrightarrow> ec2_instance_id (rs_instance_id s)
     \<and> rs_region s = ''eu-central-1'' \<and> bounded_text 128 (rs_required_tag_key s)
     \<and> bounded_text 256 (rs_required_tag_value s)"

text \<open>\<open>__post_init__\<close>: the target model rejects first, then the region is compared again.\<close>

definition validated_settings ::
    "SandboxRemediationSettings \<Rightarrow> exc + SandboxRemediationSettings" where
  "validated_settings s =
     (if \<not> valid_sandbox_target s then Inl ValidationError
      else if rs_region s \<noteq> ''eu-central-1'' then Inl ContractValidationError
      else Inr s)"

definition live_execution_enabled :: "SandboxRemediationSettings \<Rightarrow> bool" where
  "live_execution_enabled s \<longleftrightarrow> rs_aws_mutations_enabled s \<and> rs_allow_live_sandbox_stop s"

text \<open>\<open>os.environ\<close> as a dictionary of strings; a missing switch is off.\<close>

definition strict_boolean :: "(string, string) dict \<Rightarrow> string \<Rightarrow> exc + bool" where
  "strict_boolean env name = (case dget env name of
       None \<Rightarrow> Inr False
     | Some v \<Rightarrow> if map lower_char v = ''true'' then Inr True
                else if map lower_char v = ''false'' then Inr False
                else Inl ContractValidationError)"

definition getenv :: "(string, string) dict \<Rightarrow> string \<Rightarrow> string \<Rightarrow> string" where
  "getenv env name d = (case dget env name of None \<Rightarrow> d | Some v \<Rightarrow> v)"

definition settings_from_environment ::
    "(string, string) dict \<Rightarrow> exc + SandboxRemediationSettings" where
  "settings_from_environment env =
     (case dget env ''SANDBOX_INSTANCE_ID'' of
        None \<Rightarrow> Inl ContractValidationError
      | Some instance \<Rightarrow>
          (case strict_boolean env ''AWS_MUTATIONS_ENABLED'' of Inl e \<Rightarrow> Inl e | Inr mutations \<Rightarrow>
          (case strict_boolean env ''AIOA_ALLOW_LIVE_SANDBOX_STOP'' of Inl e \<Rightarrow> Inl e | Inr stop \<Rightarrow>
           validated_settings
             \<lparr>rs_instance_id = instance,
              rs_required_tag_key = getenv env ''SANDBOX_TAG_KEY'' ''AIOACloudOpsSandbox'',
              rs_required_tag_value = getenv env ''SANDBOX_TAG_VALUE'' ''true'',
              rs_region = getenv env ''SANDBOX_REGION'' ''eu-central-1'',
              rs_aws_mutations_enabled = mutations, rs_allow_live_sandbox_stop = stop\<rparr>)))"

subsection \<open>The emergency veto\<close>

definition assert_writes_enabled :: "('a Ec2World_scheme, unit) prog" where
  "assert_writes_enabled = tryThen read_environment
     (\<lambda>e. if is_exception e then Some (raise RemediationEmergencyDisabledError) else None)
     (\<lambda>v. if v \<noteq> JStr ''false'' then raise RemediationEmergencyDisabledError else ret ())"

definition emergency_denial_payload :: json where
  "emergency_denial_payload = JObj
     [(''status'', JStr ''DENIED_BY_POLICY''), (''code'', JStr ''EXECUTOR_EMERGENCY_DISABLED'')]"

text \<open>Dictionary equality ignores the order of the keys.\<close>

definition is_emergency_denial_payload :: "json \<Rightarrow> bool" where
  "is_emergency_denial_payload payload = (case payload of
       JObj d \<Rightarrow> length d = 2 \<and> dget d ''status'' = Some (JStr ''DENIED_BY_POLICY'')
         \<and> dget d ''code'' = Some (JStr ''EXECUTOR_EMERGENCY_DISABLED'')
     | _ \<Rightarrow> False)"

subsection \<open>Reading EC2 answers\<close>

definition mapping_get :: "json \<Rightarrow> string \<Rightarrow> json" where
  "mapping_get v k = (case v of JObj d \<Rightarrow> jget d k | _ \<Rightarrow> JNull)"

definition aws_error_code :: "json \<Rightarrow> string option" where
  "aws_error_code response =
     (case mapping_get (mapping_get response ''Error'') ''Code'' of JStr c \<Rightarrow> Some c | _ \<Rightarrow> None)"

fun is_mapping :: "json \<Rightarrow> bool" where
  "is_mapping (JObj d) = True"
| "is_mapping _ = False"

fun collect_instances :: "json list \<Rightarrow> exc + json list" where
  "collect_instances [] = Inr []"
| "collect_instances (r # rs) =
     (case mapping_get r ''Instances'' of
        JArr xs \<Rightarrow> if list_all is_mapping xs
          then (case collect_instances rs of Inl e \<Rightarrow> Inl e | Inr ys \<Rightarrow> Inr (xs @ ys))
          else Inl RemediationDependencyError
      | _ \<Rightarrow> Inl RemediationDependencyError)"

definition single_instance :: "json \<Rightarrow> exc + json" where
  "single_instance response =
     (case mapping_get response ''Reservations'' of
        JArr rs \<Rightarrow> (case collect_instances rs of
            Inl e \<Rightarrow> Inl e
          | Inr [x] \<Rightarrow> Inr x
          | Inr _ \<Rightarrow> Inl RemediationScopeError)
      | _ \<Rightarrow> Inl RemediationDependencyError)"

text \<open>
  The tag dictionary, of which only the entries with string keys can be looked up; a list or
  a mapping as key is unhashable. A later tag replaces an earlier one.
\<close>

fun tag_map :: "json list \<Rightarrow> exc + (string, json) dict" where
  "tag_map [] = Inr []"
| "tag_map (JObj tag # tags) =
     (case tag_map tags of
        Inl e \<Rightarrow> Inl e
      | Inr later_tags \<Rightarrow> (case jget tag ''Key'' of
            JStr k \<Rightarrow> Inr (if dget later_tags k = None then dput k (jget tag ''Value'') later_tags
                         else later_tags)
          | JArr _ \<Rightarrow> Inl TypeError
          | JObj _ \<Rightarrow> Inl TypeError
          | _ \<Rightarrow> Inr later_tags))"
| "tag_map (_ # tags) = tag_map tags"

definition check_scope :: "SandboxRemediationSettings \<Rightarrow> json \<Rightarrow> exc + unit" where
  "check_scope s instance =
     (if mapping_get instance ''InstanceId'' \<noteq> JStr (rs_instance_id s) then Inl RemediationScopeError
      else if mapping_get (mapping_get instance ''State'') ''Name'' \<noteq> JStr ''running''
        then Inl RemediationScopeError
      else if mapping_get instance ''RootDeviceType'' \<noteq> JStr ''ebs'' then Inl RemediationScopeError
      else (case mapping_get instance ''Tags'' of
          JArr tags \<Rightarrow> (case tag_map tags of
              Inl e \<Rightarrow> Inl e
            | Inr m \<Rightarrow> if jget m (rs_required_tag_key s) \<noteq> JStr (rs_required_tag_value s)
                       then Inl RemediationScopeError else Inr ())
        | _ \<Rightarrow> Inl RemediationScopeError))"

text \<open>
  The acknowledgement: the current state and the request reference. Testing membership of an
  unhashable value in a set raises \<open>TypeError\<close>.
\<close>

definition read_acknowledgement ::
    "string \<Rightarrow> json \<Rightarrow> exc + ObservedInstanceState \<times> string option" where
  "read_acknowledgement instance_id response =
     (case mapping_get response ''StoppingInstances'' of
        JArr [transition] \<Rightarrow>
          if \<not> is_mapping transition \<or> mapping_get transition ''InstanceId'' \<noteq> JStr instance_id
          then Inl RemediationAmbiguousError
          else if mapping_get (mapping_get transition ''PreviousState'') ''Name'' \<noteq> JStr ''running''
          then Inl RemediationAmbiguousError
          else
            (let reference = (case mapping_get (mapping_get response ''ResponseMetadata'') ''RequestId''
                 of JStr r \<Rightarrow> Some r | _ \<Rightarrow> None)
             in case mapping_get (mapping_get transition ''CurrentState'') ''Name'' of
                  JArr _ \<Rightarrow> Inl TypeError
                | JObj _ \<Rightarrow> Inl TypeError
                | JStr c \<Rightarrow> if c = ''stopping'' then Inr (ObservedInstanceState.STOPPING, reference)
                     else if c = ''stopped'' then Inr (ObservedInstanceState.STOPPED, reference)
                     else Inl RemediationAmbiguousError
                | _ \<Rightarrow> Inl RemediationAmbiguousError)
      | _ \<Rightarrow> Inl RemediationAmbiguousError)"

subsection \<open>The executor\<close>

definition outside_scope :: "SandboxRemediationSettings \<Rightarrow> StopExecutionCommand \<Rightarrow> bool" where
  "outside_scope s c \<longleftrightarrow> tg_resource_id (sc_target c) \<noteq> rs_instance_id s
     \<or> tg_region (sc_target c) \<noteq> rs_region s
     \<or> tg_required_tag_key (sc_target c) \<noteq> rs_required_tag_key s
     \<or> tg_required_tag_value (sc_target c) \<noteq> rs_required_tag_value s"

definition describe_sandbox :: "SandboxRemediationSettings \<Rightarrow> ('a Ec2World_scheme, json) prog" where
  "describe_sandbox s w =
     (case ec2_call (DescribeInstances [rs_instance_id s]) w of
        (Response r, w') \<Rightarrow> (single_instance r, w')
      | (Raised _, w') \<Rightarrow> (Inl RemediationDependencyError, w')
      | (Died, w') \<Rightarrow> (Inl Killed, w'))"

definition dry_run :: "SandboxRemediationSettings \<Rightarrow> ('a Ec2World_scheme, unit) prog" where
  "dry_run s w =
     (case ec2_call (StopInstances [rs_instance_id s] True) w of
        (Response _, w') \<Rightarrow> (Inl RemediationDependencyError, w')
      | (Raised r, w') \<Rightarrow>
          (if aws_error_code r \<noteq> Some ''DryRunOperation'' then Inl RemediationDependencyError
           else Inr (), w')
      | (Died, w') \<Rightarrow> (Inl Killed, w'))"

definition real_stop ::
    "SandboxRemediationSettings \<Rightarrow>
     ('a Ec2World_scheme, ObservedInstanceState \<times> string option) prog" where
  "real_stop s w =
     (case ec2_call (StopInstances [rs_instance_id s] False) w of
        (Response r, w') \<Rightarrow> (read_acknowledgement (rs_instance_id s) r, w')
      | (Raised r, w') \<Rightarrow>
          (Inl (if aws_error_code r = None then RemediationAmbiguousError
                else RemediationExecutionError), w')
      | (Died, w') \<Rightarrow> (Inl Killed, w'))"

definition build_acknowledgement ::
    "Platform \<Rightarrow> StopExecutionCommand \<Rightarrow> ObservedInstanceState \<Rightarrow> string option \<Rightarrow> datetime
     \<Rightarrow> exc + ExecutionAcknowledgement" where
  "build_acknowledgement L c current reference now =
     (case utc_field now of Inl e \<Rightarrow> Inl e
      | Inr t \<Rightarrow> validated valid_acknowledgement
          \<lparr>k_status = ExecutionAcknowledgementStatus.ACCEPTED,
           k_proposal_id = sc_proposal_id c, k_run_id = sc_run_id c, k_action = sc_action c,
           k_target = sc_target c, k_previous_state = ObservedInstanceState.RUNNING,
           k_current_state = current, k_request_reference = reference, k_acknowledged_at = t,
           k_acknowledgement_hash = compute_evidence_digest L (JObj
             [(''proposal_id'', JStr (sc_proposal_id c)), (''run_id'', JStr (sc_run_id c)),
              (''action'', JStr (Capability_value (sc_action c))),
              (''target'', target_json (sc_target c)), (''previous_state'', JStr ''running''),
              (''current_state'', JStr (ObservedInstanceState_value current)),
              (''request_reference'', JOpt reference),
              (''acknowledged_at'', JStr (isoformat L t))])\<rparr>)"

definition executor_execute ::
    "Platform \<Rightarrow> SandboxRemediationSettings \<Rightarrow> StopExecutionCommand
     \<Rightarrow> ('a Ec2World_scheme, ExecutionAcknowledgement) prog" where
  "executor_execute L s c =
     (if \<not> live_execution_enabled s then raise RemediationDisabledError
      else if outside_scope s c then raise RemediationScopeError
      else if pc_instance_state (sc_expected_precondition c) \<noteq> ObservedInstanceState.RUNNING
        then raise RemediationScopeError
      else andThen (describe_sandbox s) (\<lambda>instance.
           andThen (lift (check_scope s instance)) (\<lambda>_.
           andThen assert_writes_enabled (\<lambda>_.
           andThen (dry_run s) (\<lambda>_.
           andThen assert_writes_enabled (\<lambda>_.
           andThen (real_stop s) (\<lambda>(current, reference).
           andThen read_clock (\<lambda>now.
           lift (build_acknowledgement L c current reference now)))))))))"

subsection \<open>What was sent\<close>

text \<open>A request that changes EC2: a stop that is not a dry run.\<close>

fun mutating :: "Ec2Request \<times> Ec2Reply \<Rightarrow> bool" where
  "mutating (StopInstances ids dry, reply) = (\<not> dry)"
| "mutating (DescribeInstances ids, reply) = False"

definition real_stops :: "'a Ec2World_scheme \<Rightarrow> (Ec2Request \<times> Ec2Reply) list" where
  "real_stops w = filter mutating (ec_log w)"

lemma ec2_call_eq:
  assumes "ec2_call q w = (reply, w')"
  shows "ec_log w' = ec_log w @ [(q, reply)]" "ec_environment w' = ec_environment w"
    "ec_clock w' = ec_clock w"
  using assms by (auto simp: ec2_call_def Let_def)

lemma assert_writes_eq:
  assumes "assert_writes_enabled w = (r, w')"
  shows "ec_log w' = ec_log w" "ec_environment w' = tl (ec_environment w)" "ec_clock w' = ec_clock w"
    and "r = Inr () \<longleftrightarrow> (\<exists>rest. ec_environment w = Inr (JStr ''false'') # rest)"
    and "r = Inl e \<Longrightarrow> e = RemediationEmergencyDisabledError \<or> e = Killed"
  using assms by (auto simp: assert_writes_enabled_def read_environment_def tryThen_def raise_def
      ret_def is_exception_def split: list.splits sum.splits if_splits)

lemma describe_sandbox_eq:
  assumes "describe_sandbox s w = (r, w')"
  shows "\<exists>reply. ec_log w' = ec_log w @ [(DescribeInstances [rs_instance_id s], reply)]
      \<and> ec_environment w' = ec_environment w
      \<and> (\<forall>i. r = Inr i \<longrightarrow> (\<exists>v. reply = Response v \<and> single_instance v = Inr i))
      \<and> (\<forall>e. r = Inl e \<longrightarrow> e \<in> {RemediationDependencyError, RemediationScopeError, Killed})"
proof -
  obtain reply w1 where c: "ec2_call (DescribeInstances [rs_instance_id s]) w = (reply, w1)" by fastforce
  have coll: "collect_instances rs = Inl e \<Longrightarrow> e = RemediationDependencyError" for rs e
    by (induction rs) (auto split: json.splits if_splits sum.splits)
  have single: "single_instance v = Inl e \<Longrightarrow> e \<in> {RemediationDependencyError, RemediationScopeError}" for v e
    by (auto simp: single_instance_def dest: coll split: json.splits sum.splits list.splits)
  from assms c have "w' = w1" by (auto simp: describe_sandbox_def split: Ec2Reply.splits)
  with ec2_call_eq [OF c] assms c single show ?thesis
    by (intro exI [of _ reply]) (auto simp: describe_sandbox_def split: Ec2Reply.splits)
qed

lemma check_scope_errors:
  "check_scope s i = Inl e \<Longrightarrow> e \<in> {RemediationScopeError, TypeError}"
proof -
  have "tag_map ts = Inl e' \<Longrightarrow> e' = TypeError" for ts e'
    by (induction ts rule: tag_map.induct) (auto split: sum.splits json.splits if_splits)
  then show "check_scope s i = Inl e \<Longrightarrow> e \<in> {RemediationScopeError, TypeError}"
    by (auto simp: check_scope_def split: if_splits json.splits sum.splits)
qed

lemma dry_run_eq:
  assumes "dry_run s w = (r, w')"
  shows "\<exists>reply. ec_log w' = ec_log w @ [(StopInstances [rs_instance_id s] True, reply)]
      \<and> ec_environment w' = ec_environment w
      \<and> (\<forall>u. r = Inr u \<longrightarrow> (\<exists>v. reply = Raised v \<and> aws_error_code v = Some ''DryRunOperation''))
      \<and> (\<forall>e. r = Inl e \<longrightarrow> e \<in> {RemediationDependencyError, Killed})"
proof -
  obtain reply w1 where c: "ec2_call (StopInstances [rs_instance_id s] True) w = (reply, w1)" by fastforce
  from assms c have "w' = w1" by (auto simp: dry_run_def split: Ec2Reply.splits)
  with ec2_call_eq [OF c] assms c show ?thesis
    by (intro exI [of _ reply]) (auto simp: dry_run_def split: Ec2Reply.splits if_splits)
qed

lemma read_acknowledgement_errors:
  "read_acknowledgement i v = Inl e \<Longrightarrow> e \<in> {RemediationAmbiguousError, TypeError}"
  by (auto simp: read_acknowledgement_def Let_def
      split: json.splits list.splits if_splits)

lemma real_stop_eq:
  assumes "real_stop s w = (r, w')"
  shows "\<exists>reply. ec_log w' = ec_log w @ [(StopInstances [rs_instance_id s] False, reply)]
      \<and> ec_environment w' = ec_environment w \<and> ec_clock w' = ec_clock w
      \<and> (\<forall>a. r = Inr a \<longrightarrow> (\<exists>v. reply = Response v \<and> read_acknowledgement (rs_instance_id s) v = Inr a))
      \<and> (\<forall>e. r = Inl e \<longrightarrow> e \<in> {RemediationAmbiguousError, RemediationExecutionError, TypeError, Killed}
            \<and> (e = RemediationExecutionError \<longrightarrow> (\<exists>v c. reply = Raised v \<and> aws_error_code v = Some c)))"
proof -
  obtain reply w1 where c: "ec2_call (StopInstances [rs_instance_id s] False) w = (reply, w1)" by fastforce
  from assms c have "w' = w1" by (auto simp: real_stop_def split: Ec2Reply.splits)
  with ec2_call_eq [OF c] assms c show ?thesis
    by (intro exI [of _ reply])
      (auto simp: real_stop_def dest: read_acknowledgement_errors split: Ec2Reply.splits if_splits)
qed

text \<open>
  When the executor may send the stop: both opt-ins, the configured target, a running
  precondition, a fresh answer that shows the one tagged running instance, two negative
  answers of the emergency veto and an authorized dry run.
\<close>

definition stop_justified ::
    "SandboxRemediationSettings \<Rightarrow> StopExecutionCommand \<Rightarrow> (exc + json) list \<Rightarrow> json \<Rightarrow> json \<Rightarrow> bool" where
  "stop_justified s c env described refused \<longleftrightarrow>
     live_execution_enabled s \<and> \<not> outside_scope s c
     \<and> pc_instance_state (sc_expected_precondition c) = ObservedInstanceState.RUNNING
     \<and> (\<exists>i. single_instance described = Inr i \<and> check_scope s i = Inr ())
     \<and> take 2 env = [Inr (JStr ''false''), Inr (JStr ''false'')]
     \<and> aws_error_code refused = Some ''DryRunOperation''"

lemma executor_run:
  assumes run: "executor_execute L s c w = (x, w')"
  shows "(\<exists>e sent. x = Inl e \<and> ec_log w' = ec_log w @ sent \<and> list_all (Not \<circ> mutating) sent
        \<and> e \<in> {RemediationDisabledError, RemediationScopeError, RemediationDependencyError,
              RemediationEmergencyDisabledError, TypeError, Killed})
     \<or> (\<exists>v r reply. stop_justified s c (ec_environment w) v r
        \<and> ec_log w' = ec_log w @ [(DescribeInstances [rs_instance_id s], Response v),
              (StopInstances [rs_instance_id s] True, Raised r),
              (StopInstances [rs_instance_id s] False, reply)]
        \<and> (\<forall>k. x = Inr k \<longrightarrow> (\<exists>v current reference now. reply = Response v
              \<and> read_acknowledgement (rs_instance_id s) v = Inr (current, reference)
              \<and> build_acknowledgement L c current reference now = Inr k))
        \<and> (\<forall>e. x = Inl e \<longrightarrow> e \<in> {RemediationAmbiguousError, RemediationExecutionError, TypeError,
              ValidationError, OtherError, Killed}))" (is "?quiet \<or> ?sent")
proof (cases "live_execution_enabled s \<and> \<not> outside_scope s c
      \<and> pc_instance_state (sc_expected_precondition c) = ObservedInstanceState.RUNNING")
  case False
  with run have ?quiet
    by (intro exI [of _ "projl x"] exI [of _ "[]"]) (auto simp: executor_execute_def raise_def split: if_splits)
  then show ?thesis ..
next
  case enabled: True
  with run have run1: "andThen (describe_sandbox s) (\<lambda>instance.
           andThen (lift (check_scope s instance)) (\<lambda>_.
           andThen assert_writes_enabled (\<lambda>_.
           andThen (dry_run s) (\<lambda>_.
           andThen assert_writes_enabled (\<lambda>_.
           andThen (real_stop s) (\<lambda>(current, reference).
           andThen read_clock (\<lambda>now.
           lift (build_acknowledgement L c current reference now)))))))) w = (x, w')"
    by (simp add: executor_execute_def)
  have quiet: ?quiet if "x = Inl e" "ec_log w' = ec_log w @ sent" "list_all (Not \<circ> mutating) sent"
    "e \<in> {RemediationDisabledError, RemediationScopeError, RemediationDependencyError,
              RemediationEmergencyDisabledError, TypeError, Killed}" for e sent
    using that by blast
  from run1 show ?thesis
  proof (cases rule: andThen_eqE)
    case (1 e)
    from describe_sandbox_eq [OF 1(1)] 1(2) show ?thesis
      by (intro disjI1, elim exE, intro quiet) auto
  next
    case (2 i w1)
    from describe_sandbox_eq [OF 2(1)] obtain v where
      d: "ec_log w1 = ec_log w @ [(DescribeInstances [rs_instance_id s], Response v)]"
        "ec_environment w1 = ec_environment w" "single_instance v = Inr i" by auto
    from 2(2) show ?thesis
    proof (cases rule: andThen_eqE)
      case (1 e)
      then have "w' = w1" "check_scope s i = Inl e" by (auto simp: lift_def)
      with d 1 check_scope_errors show ?thesis by (intro disjI1 quiet) auto
    next
      case (2 u w2)
      then have sc: "w2 = w1" "check_scope s i = Inr ()" by (auto simp: lift_def)
      from 2(2) show ?thesis
      proof (cases rule: andThen_eqE)
        case (1 e)
        with assert_writes_eq [OF 1(1)] d sc show ?thesis by (intro disjI1 quiet) auto
      next
        case (2 u w3)
        note a1 = assert_writes_eq [OF 2(1)]
        from 2(2) show ?thesis
        proof (cases rule: andThen_eqE)
          case (1 e)
          with dry_run_eq [OF 1(1)] a1 d sc show ?thesis
            by (intro disjI1, elim exE conjE, intro quiet) auto
        next
          case (2 u w4)
          from dry_run_eq [OF 2(1)] obtain r where
            dr: "ec_log w4 = ec_log w3 @ [(StopInstances [rs_instance_id s] True, Raised r)]"
              "ec_environment w4 = ec_environment w3" "aws_error_code r = Some ''DryRunOperation''"
            by auto
          from 2(2) show ?thesis
          proof (cases rule: andThen_eqE)
            case (1 e)
            with assert_writes_eq [OF 1(1)] dr a1 d sc show ?thesis by (intro disjI1 quiet) auto
          next
            case (2 u w5)
            note a2 = assert_writes_eq [OF 2(1)]
            have just: "stop_justified s c (ec_environment w) v r"
              unfolding stop_justified_def using enabled d sc dr a1(2,4) a2(4)
              by (auto simp: numeral_2_eq_2)
            have log: "ec_log w5 = ec_log w @ [(DescribeInstances [rs_instance_id s], Response v),
              (StopInstances [rs_instance_id s] True, Raised r)]"
              using a2(1) dr(1) a1(1) d(1) sc(1) by simp
            from 2(2) show ?thesis
            proof (cases rule: andThen_eqE)
              case (1 e)
              from real_stop_eq [OF 1(1)] 1(2) just log show ?thesis by (intro disjI2) auto
            next
              case (2 y w6)
              obtain current reference where y: "y = (current, reference)" by (cases y)
              from real_stop_eq [OF 2(1)] y obtain v3 where
                s3: "ec_log w6 = ec_log w5 @ [(StopInstances [rs_instance_id s] False, Response v3)]"
                  "read_acknowledgement (rs_instance_id s) v3 = Inr (current, reference)" by auto
              have "ec_log w' = ec_log w6
                \<and> (\<forall>k. x = Inr k \<longrightarrow> (\<exists>now. build_acknowledgement L c current reference now = Inr k))
                \<and> (\<forall>e. x = Inl e \<longrightarrow> e \<in> {OtherError, ValidationError})"
                using 2(2) unfolding y prod.case
                by (auto simp: andThen_def read_clock_def lift_def build_acknowledgement_def
                    utc_field_def validated_def split: list.splits datetime.splits if_splits)
              with s3 log just show ?thesis
                by (intro disjI2 exI [of _ v] exI [of _ r] exI [of _ "Response v3"]) auto
            qed
          qed
        qed
      qed
    qed
  qed
qed

lemma executor_sends_guarded:
  assumes "executor_execute L s c w = (x, w')"
  shows "real_stops w' = real_stops w
    \<or> (\<exists>reply v r. real_stops w' = real_stops w
          @ [(StopInstances [tg_resource_id (sc_target c)] False, reply)]
        \<and> stop_justified s c (ec_environment w) v r)"
  using executor_run [OF assms]
proof (elim disjE exE conjE)
  fix sent assume "ec_log w' = ec_log w @ sent" "list_all (Not \<circ> mutating) sent"
  then have "real_stops w' = real_stops w"
    by (auto simp: real_stops_def list_all_iff filter_empty_conv)
  then show ?thesis ..
next
  fix v r reply
  assume "stop_justified s c (ec_environment w) v r"
    "ec_log w' = ec_log w @ [(DescribeInstances [rs_instance_id s], Response v),
              (StopInstances [rs_instance_id s] True, Raised r),
              (StopInstances [rs_instance_id s] False, reply)]"
  then show ?thesis
    by (intro disjI2 exI [of _ reply] exI [of _ v] exI [of _ r])
      (simp add: real_stops_def stop_justified_def outside_scope_def)
qed

subsection \<open>Claims\<close>


text \<open>C31: the error class tells whether the stop was sent: a disabled, vetoed, out-of-scope or
  dependency failure means that no real stop left the process, an ambiguous or provider
  failure means that exactly one did.\<close>

theorem executor_failure_classes:
  assumes "executor_execute L s c w = (Inl e, w')"
  shows "(e \<in> {RemediationDisabledError, RemediationEmergencyDisabledError,
              RemediationScopeError, RemediationDependencyError}
          \<longrightarrow> real_stops w' = real_stops w)
    \<and> (e \<in> {RemediationAmbiguousError, RemediationExecutionError}
          \<longrightarrow> (\<exists>reply. real_stops w' = real_stops w
                @ [(StopInstances [tg_resource_id (sc_target c)] False, reply)]))"
  using executor_run [OF assms]
proof (elim disjE exE conjE)
  fix e' sent assume "Inl e = (Inl e' :: exc + ExecutionAcknowledgement)"
    "ec_log w' = ec_log w @ sent" "list_all (Not \<circ> mutating) sent"
    "e' \<in> {RemediationDisabledError, RemediationScopeError, RemediationDependencyError,
              RemediationEmergencyDisabledError, TypeError, Killed}"
  then show ?thesis by (auto simp: real_stops_def list_all_iff filter_empty_conv)
next
  fix v r reply
  assume "stop_justified s c (ec_environment w) v r"
    "ec_log w' = ec_log w @ [(DescribeInstances [rs_instance_id s], Response v),
              (StopInstances [rs_instance_id s] True, Raised r),
              (StopInstances [rs_instance_id s] False, reply)]"
    "\<forall>f. Inl e = (Inl f :: exc + ExecutionAcknowledgement) \<longrightarrow>
       f \<in> {RemediationAmbiguousError, RemediationExecutionError, TypeError,
              ValidationError, OtherError, Killed}"
  then show ?thesis by (auto simp: real_stops_def stop_justified_def outside_scope_def)
qed

text \<open>an acknowledgement is returned only for an EC2 answer that names exactly the target,
  leaving the running state for stopping or stopped, and it binds the command it answers.\<close>

theorem executor_acknowledges_target:
  assumes "executor_execute L s c w = (Inr k, w')"
  shows "valid_acknowledgement k \<and> k_proposal_id k = sc_proposal_id c
    \<and> k_run_id k = sc_run_id c \<and> k_target k = sc_target c
    \<and> (\<exists>answer t. last (ec_log w') = (StopInstances [tg_resource_id (k_target k)] False, Response answer)
        \<and> mapping_get answer ''StoppingInstances'' = JArr [t]
        \<and> mapping_get t ''InstanceId'' = JStr (tg_resource_id (k_target k))
        \<and> mapping_get (mapping_get t ''PreviousState'') ''Name'' = JStr ''running''
        \<and> mapping_get (mapping_get t ''CurrentState'') ''Name''
            = JStr (ObservedInstanceState_value (k_current_state k)))"
  using executor_run [OF assms]
proof (elim disjE exE conjE)
  fix v r reply
  assume just: "stop_justified s c (ec_environment w) v r"
    and log: "ec_log w' = ec_log w @ [(DescribeInstances [rs_instance_id s], Response v),
              (StopInstances [rs_instance_id s] True, Raised r),
              (StopInstances [rs_instance_id s] False, reply)]"
    and built: "\<forall>k'. Inr k = (Inr k' :: exc + ExecutionAcknowledgement) \<longrightarrow>
        (\<exists>v current reference now. reply = Response v
              \<and> read_acknowledgement (rs_instance_id s) v = Inr (current, reference)
              \<and> build_acknowledgement L c current reference now = Inr k')"
  from built obtain answer current reference now where
    b: "reply = Response answer"
      "read_acknowledgement (rs_instance_id s) answer = Inr (current, reference)"
      "build_acknowledgement L c current reference now = Inr k" by blast
  have id: "rs_instance_id s = tg_resource_id (sc_target c)"
    using just by (simp add: stop_justified_def outside_scope_def)
  from b(3) have k: "valid_acknowledgement k" "k_proposal_id k = sc_proposal_id c"
    "k_run_id k = sc_run_id c" "k_target k = sc_target c" "k_current_state k = current"
    by (auto simp: build_acknowledgement_def split: sum.splits)
  from b(2) obtain t where "mapping_get answer ''StoppingInstances'' = JArr [t]"
    "mapping_get t ''InstanceId'' = JStr (rs_instance_id s)"
    "mapping_get (mapping_get t ''PreviousState'') ''Name'' = JStr ''running''"
    "mapping_get (mapping_get t ''CurrentState'') ''Name'' = JStr (ObservedInstanceState_value current)"
    by (auto simp: read_acknowledgement_def Let_def split: json.splits list.splits if_splits)
  with k log b(1) id show ?thesis by simp
qed simp

text \<open>A switch that is present and spelled ``true'' in any case.\<close>

definition switched_on :: "(string, string) dict \<Rightarrow> string \<Rightarrow> bool" where
  "switched_on env name \<longleftrightarrow>
     (case dget env name of None \<Rightarrow> False | Some v \<Rightarrow> map lower_char v = ''true'')"

lemma strict_boolean_switch: "strict_boolean env n = Inr x \<Longrightarrow> switched_on env n \<longleftrightarrow> x"
  by (auto simp: strict_boolean_def switched_on_def split: option.splits if_splits)

text \<open>in a configuration that loads, live execution is on exactly when both switches are
  present and spelled ``true''.\<close>

theorem live_execution_explicit:
  assumes "settings_from_environment env = Inr s"
  shows "live_execution_enabled s \<longleftrightarrow>
    switched_on env ''AWS_MUTATIONS_ENABLED'' \<and> switched_on env ''AIOA_ALLOW_LIVE_SANDBOX_STOP''"
proof -
  obtain inst where i: "dget env ''SANDBOX_INSTANCE_ID'' = Some inst"
    using assms by (cases "dget env ''SANDBOX_INSTANCE_ID''") (simp_all add: settings_from_environment_def)
  obtain m where m: "strict_boolean env ''AWS_MUTATIONS_ENABLED'' = Inr m"
    using assms by (cases "strict_boolean env ''AWS_MUTATIONS_ENABLED''")
      (simp_all add: settings_from_environment_def i)
  obtain t where t: "strict_boolean env ''AIOA_ALLOW_LIVE_SANDBOX_STOP'' = Inr t"
    using assms by (cases "strict_boolean env ''AIOA_ALLOW_LIVE_SANDBOX_STOP''")
      (simp_all add: settings_from_environment_def i m)
  have checked: "validated_settings z = Inr s \<Longrightarrow> z = s" for z
    by (simp add: validated_settings_def split: if_splits)
  from assms [unfolded settings_from_environment_def i m t option.case sum.case, THEN checked]
  have "rs_aws_mutations_enabled s = m" "rs_allow_live_sandbox_stop s = t"
    by auto
  then show ?thesis
    using strict_boolean_switch [OF m] strict_boolean_switch [OF t] by (simp only: live_execution_enabled_def)
qed

end
