(* ===== verification/Local_Store.thy ===== *)
theory Local_Store
  imports Durable_Interface
begin

text \<open>
  \<open>persistence/local.py\<close> with \<open>export_snapshot\<close> and \<open>from_snapshot\<close> of
  \<open>persistence/memory.py\<close>: the repository kept in one file that every call reads whole under
  a lock and replaces atomically. Records reach the file as validated models and come back as
  validated models, so a snapshot is a list of records per table. Other processes and failures
  of the file system act through a schedule.
\<close>

subsection \<open>Snapshots\<close>

record Snapshot =
  s_runs :: "Run list"
  s_proposals :: "ActionProposal list"
  s_approvals :: "Approval list"
  s_idempotency :: "IdempotencyRecord list"
  s_checkpoints :: "Checkpoint list"
  s_audit_events :: "AuditEvent list"
  s_verification_evidence :: "VerificationEvidence list"

definition sorted_values :: "('k :: linorder, 'v) dict \<Rightarrow> 'v list" where
  "sorted_values t = map snd (sort_key fst t)"

definition export_snapshot :: "Repo \<Rightarrow> Snapshot" where
  "export_snapshot d =
     \<lparr>s_runs = sorted_values (d_runs d), s_proposals = sorted_values (d_proposals d),
      s_approvals = sorted_values (d_approvals d), s_idempotency = sorted_values (d_idempotency d),
      s_checkpoints = sorted_values (d_checkpoints d),
      s_audit_events = sorted_values (d_audit_events d),
      s_verification_evidence = sorted_values (d_verification_evidence d)\<rparr>"

text \<open>\<open>{key(record): record for record in records}\<close>.\<close>

definition table_of :: "('v \<Rightarrow> 'k) \<Rightarrow> 'v list \<Rightarrow> ('k, 'v) dict" where
  "table_of key xs = fold (\<lambda>x. dput (key x) x) xs []"

definition event_key :: "AuditEvent \<Rightarrow> uuid \<times> uuid" where
  "event_key e = (e_run_id e, e_event_id e)"

definition evidence_key :: "VerificationEvidence \<Rightarrow> uuid \<times> uuid" where
  "evidence_key v = (v_run_id v, v_proposal_id v)"

definition restored :: "Snapshot \<Rightarrow> Repo" where
  "restored s =
     \<lparr>d_runs = table_of r_run_id (s_runs s), d_proposals = table_of p_proposal_id (s_proposals s),
      d_approvals = table_of a_proposal_id (s_approvals s),
      d_idempotency = table_of i_idempotency_key (s_idempotency s),
      d_checkpoints = table_of c_run_id (s_checkpoints s),
      d_audit_events = table_of event_key (s_audit_events s),
      d_verification_evidence = table_of evidence_key (s_verification_evidence s)\<rparr>"

definition MAX_SNAPSHOT_RECORDS :: nat where
  "MAX_SNAPSHOT_RECORDS = 65536"

text \<open>\<open>records(name, model)\<close>: a bounded list of records that satisfy their contract.\<close>

definition records_ok :: "('v \<Rightarrow> bool) \<Rightarrow> 'v list \<Rightarrow> bool" where
  "records_ok valid xs \<longleftrightarrow> length xs \<le> MAX_SNAPSHOT_RECORDS \<and> list_all valid xs"

definition typed_records :: "Platform \<Rightarrow> Snapshot \<Rightarrow> bool" where
  "typed_records L s \<longleftrightarrow> records_ok valid_run (s_runs s) \<and> records_ok valid_proposal (s_proposals s)
     \<and> records_ok valid_approval (s_approvals s) \<and> records_ok valid_idempotency (s_idempotency s)
     \<and> records_ok (valid_checkpoint L) (s_checkpoints s)
     \<and> records_ok valid_audit_event (s_audit_events s)
     \<and> records_ok (valid_evidence L) (s_verification_evidence s)"

definition unique_identities :: "Snapshot \<Rightarrow> Repo \<Rightarrow> bool" where
  "unique_identities s d \<longleftrightarrow> length (s_runs s) = length (d_runs d)
     \<and> length (s_proposals s) = length (d_proposals d)
     \<and> length (s_approvals s) = length (d_approvals d)
     \<and> length (s_idempotency s) = length (d_idempotency d)
     \<and> length (s_checkpoints s) = length (d_checkpoints d)
     \<and> length (s_audit_events s) = length (d_audit_events d)
     \<and> length (s_verification_evidence s) = length (d_verification_evidence d)"

definition references_ok :: "Snapshot \<Rightarrow> Repo \<Rightarrow> bool" where
  "references_ok s d \<longleftrightarrow> list_all (\<lambda>p. dget (d_runs d) (p_run_id p) \<noteq> None) (s_proposals s)
     \<and> list_all (\<lambda>a. dget (d_proposals d) (a_proposal_id a) \<noteq> None) (s_approvals s)
     \<and> list_all (\<lambda>c. dget (d_runs d) (c_run_id c) \<noteq> None) (s_checkpoints s)
     \<and> list_all (\<lambda>e. dget (d_runs d) (e_run_id e) \<noteq> None) (s_audit_events s)"

definition within_capacity :: "Snapshot \<Rightarrow> bool" where
  "within_capacity s \<longleftrightarrow> length (s_runs s) \<le> MAX_DURABLE_RUNS
     \<and> list_all (\<lambda>e. count_list (map e_run_id (s_audit_events s)) (e_run_id e)
          \<le> MAX_AUDIT_EVENTS_PER_RUN) (s_audit_events s)"

definition from_snapshot :: "Platform \<Rightarrow> Snapshot \<Rightarrow> exc + Repo" where
  "from_snapshot L s =
     (if typed_records L s \<and> unique_identities s (restored s) \<and> references_ok s (restored s)
         \<and> within_capacity s
      then Inr (restored s) else Inl StorageDependencyError)"

subsection \<open>The file\<close>

datatype StateFile = Absent | Sealed Snapshot

definition load_file :: "Platform \<Rightarrow> StateFile \<Rightarrow> exc + Repo" where
  "load_file L f = (case f of Absent \<Rightarrow> Inr empty_repo | Sealed s \<Rightarrow> from_snapshot L s)"

text \<open>
  What may go wrong in one call: the lock or the read fails, the write fails before or after
  \<open>os.replace\<close> took effect (also the size limit), or the process ends at one of these points.
\<close>

datatype IoEvent = Quiet | LockFails | ReadFails | WriteFails | SyncFails | DiesEarly | DiesLate

definition file_read :: "Platform \<Rightarrow> (Repo, 'a) prog \<Rightarrow> IoEvent \<Rightarrow> (StateFile, 'a) prog" where
  "file_read L op io f =
     (if io = LockFails \<or> io = ReadFails then (Inl StorageDependencyError, f)
      else if io = DiesEarly \<or> io = DiesLate then (Inl Killed, f)
      else (case load_file L f of Inl e \<Rightarrow> (Inl e, f) | Inr d \<Rightarrow> (fst (op d), f)))"

definition file_mutate :: "Platform \<Rightarrow> (Repo, 'a) prog \<Rightarrow> IoEvent \<Rightarrow> (StateFile, 'a) prog" where
  "file_mutate L op io f =
     (if io = LockFails \<or> io = ReadFails then (Inl StorageDependencyError, f)
      else if io = DiesEarly then (Inl Killed, f)
      else (case load_file L f of
          Inl e \<Rightarrow> (Inl e, f)
        | Inr d \<Rightarrow> (case op d of
              (Inl e, _) \<Rightarrow> (Inl e, f)
            | (Inr x, d') \<Rightarrow>
                if io = WriteFails then (Inl StorageDependencyError, f)
                else if io = SyncFails
                  then (Inl StorageDependencyError, Sealed (export_snapshot d'))
                else if io = DiesLate then (Inl Killed, Sealed (export_snapshot d'))
                else (Inr x, Sealed (export_snapshot d')))))"

subsection \<open>Restoring a snapshot\<close>

lemma table_of_fold: "fold (\<lambda>x. dput (key x) x) xs t =
    (if distinct (map fst t @ map key xs) then t @ map (\<lambda>x. (key x, x)) xs
     else fold (\<lambda>x. dput (key x) x) xs t)"
proof (induction xs arbitrary: t)
  case (Cons x xs)
  have "dput (key x) x t = t @ [(key x, x)]" if "key x \<notin> fst ` set t"
    using that by (induction t) auto
  with Cons.IH [of "t @ [(key x, x)]"] show ?case by auto
qed simp

lemma table_of_distinct: "distinct (map key xs) \<Longrightarrow> table_of key xs = map (\<lambda>x. (key x, x)) xs"
  using table_of_fold [of key xs "[]"] by (simp add: table_of_def)

lemma dict_ok_fold: "dict_ok t \<Longrightarrow> dict_ok (fold (\<lambda>x. dput (key x) x) xs t)"
  by (induction xs arbitrary: t) simp_all

lemma dict_ok_table_of [simp]: "dict_ok (table_of key xs)"
  unfolding table_of_def by (rule dict_ok_fold) simp

lemma keyed_fold:
  "(\<forall>k v. dget t k = Some v \<longrightarrow> key v = k) \<Longrightarrow>
   dget (fold (\<lambda>x. dput (key x) x) xs t) k = Some v \<Longrightarrow> key v = k"
proof (induction xs arbitrary: t)
  case (Cons x xs)
  from Cons.prems(1) have "\<forall>k v. dget (dput (key x) x t) k = Some v \<longrightarrow> key v = k"
    by (simp split: if_splits)
  from Cons.IH [OF this] Cons.prems(2) show ?case by simp
qed simp

lemma keyed_table_of: "dget (table_of key xs) k = Some v \<Longrightarrow> key v = k"
  unfolding table_of_def by (rule keyed_fold [where t = "[]"]) simp_all

text \<open>A table whose keys are those of its records survives the round trip up to order.\<close>

definition keyed :: "('v \<Rightarrow> 'k) \<Rightarrow> ('k, 'v) dict \<Rightarrow> bool" where
  "keyed key t \<longleftrightarrow> dict_ok t \<and> (\<forall>k v. dget t k = Some v \<longrightarrow> key v = k)"

lemma keyed_table [simp]: "keyed key (table_of key xs)"
  unfolding keyed_def using keyed_table_of [of key xs] by simp

lemma keyed_dput: "keyed key t \<Longrightarrow> key v = k \<Longrightarrow> keyed key (dput k v t)"
  by (simp add: keyed_def)

lemma keyed_entries: "keyed key t \<Longrightarrow> (k, v) \<in> set t \<Longrightarrow> key v = k"
  by (auto simp: keyed_def dict_set_dget)

lemma sorted_values_keys:
  assumes "keyed key t"
  shows "map (\<lambda>x. (key x, x)) (sorted_values t) = sort_key fst t"
proof -
  have "map (\<lambda>x. (key (snd x), snd x)) (sort_key fst t) = sort_key fst t"
    using keyed_entries [OF assms] by (intro map_idI) auto
  then show ?thesis by (simp add: sorted_values_def comp_def)
qed

lemma distinct_sorted_values:
  assumes "keyed key t" shows "distinct (map key (sorted_values t))"
proof -
  have "map key (sorted_values t) = map fst (sort_key fst t)"
    using arg_cong [OF sorted_values_keys [OF assms], of "map fst"] by (simp add: comp_def)
  moreover have "mset (map fst (sort_key fst t)) = mset (map fst t)" by simp
  moreover have "distinct (map fst t)" using assms by (simp add: keyed_def dict_ok_def)
  ultimately show ?thesis by (metis mset_eq_imp_distinct_iff)
qed

lemma table_of_sorted_values:
  assumes "keyed key t"
  shows "table_of key (sorted_values t) = sort_key fst t" "same_table t (table_of key (sorted_values t))"
proof -
  show "table_of key (sorted_values t) = sort_key fst t"
    using table_of_distinct [OF distinct_sorted_values [OF assms]] sorted_values_keys [OF assms] by simp
  then show "same_table t (table_of key (sorted_values t))"
    using assms by (simp add: same_table_def keyed_def)
qed

lemma length_sorted_values [simp]: "length (sorted_values t) = length t"
  by (simp add: sorted_values_def)

lemma set_sorted_values: "set (sorted_values t) = snd ` set t"
  by (simp add: sorted_values_def)

definition keys_ok :: "Repo \<Rightarrow> bool" where
  "keys_ok d \<longleftrightarrow> keyed r_run_id (d_runs d) \<and> keyed p_proposal_id (d_proposals d)
     \<and> keyed a_proposal_id (d_approvals d) \<and> keyed i_idempotency_key (d_idempotency d)
     \<and> keyed c_run_id (d_checkpoints d) \<and> keyed event_key (d_audit_events d)
     \<and> keyed evidence_key (d_verification_evidence d)"

lemma keys_ok_restored: "keys_ok (restored s)"
  by (simp add: keys_ok_def restored_def)

lemma keys_ok_empty: "keys_ok empty_repo"
  by (simp add: keys_ok_def empty_repo_def keyed_def)

lemma keys_ok_repo_ok: "repo_ok L d \<Longrightarrow> keys_ok d"
  by (simp add: repo_ok_def repo_ok_defs keys_ok_def keyed_def event_key_def evidence_key_def)

lemma keys_ok_effect: "effect L d d' \<Longrightarrow> keys_ok d \<Longrightarrow> keys_ok d'"
proof (induction rule: effect.induct)
  case (reordered d d')
  then show ?case by (simp add: keys_ok_def keyed_def same_records_simps)
qed (simp_all add: keys_ok_def keyed_dput event_key_def evidence_key_def keyed_def)

lemma restored_export_snapshot:
  assumes "keys_ok d" shows "same_records d (restored (export_snapshot d))"
  using assms
  by (simp add: keys_ok_def same_records_def restored_def export_snapshot_def table_of_sorted_values(2))

subsection \<open>Other processes\<close>

text \<open>One mutating call of another process, with its arguments.\<close>

datatype RepoCall =
    CreateRun Run
  | TransitionRun uuid WorkflowState WorkflowState int datetime "uuid option" "uuid option"
  | UpdateRunBudget uuid BudgetCounters int datetime
  | CreateProposal ActionProposal
  | TransitionProposal uuid ProposalState ProposalState
  | CreateApproval Approval
  | RegisterIdempotency IdempotencyRecord
  | CompleteIdempotency string ActionResult datetime
  | RecordAcknowledgement string ExecutionAcknowledgement
  | SaveCheckpoint Checkpoint "int option"
  | AppendAuditEvent AuditEvent
  | CreateEvidence VerificationEvidence

text \<open>Arguments are validated models; a new registration is open.\<close>

fun valid_call :: "Platform \<Rightarrow> RepoCall \<Rightarrow> bool" where
  "valid_call L (CreateRun r) = valid_run r"
| "valid_call L (UpdateRunBudget rid b ev t) = valid_budget b"
| "valid_call L (CreateProposal p) = valid_proposal p"
| "valid_call L (CreateApproval a) = valid_approval a"
| "valid_call L (RegisterIdempotency i) = (valid_idempotency i
     \<and> i_status i = IdempotencyStatus.REGISTERED \<and> i_execution_acknowledgement i = None)"
| "valid_call L (CompleteIdempotency key res t) = valid_action_result res"
| "valid_call L (RecordAcknowledgement key k) = valid_acknowledgement k"
| "valid_call L (SaveCheckpoint c cv) = valid_checkpoint L c"
| "valid_call L (AppendAuditEvent e) = valid_audit_event e"
| "valid_call L (CreateEvidence v) = valid_evidence L v"
| "valid_call L _ = True"

definition discard :: "('s, 'a) prog \<Rightarrow> ('s, unit) prog" where
  "discard m = andThen m (\<lambda>_. ret ())"

fun run_call :: "Platform \<Rightarrow> RepoCall \<Rightarrow> (Repo, unit) prog" where
  "run_call L (CreateRun r) = discard (repo_create_run r)"
| "run_call L (TransitionRun rid s es ev t ap vp) =
     discard (repo_transition_run L rid s es ev t ap vp)"
| "run_call L (UpdateRunBudget rid b ev t) = discard (repo_update_run_budget rid b ev t)"
| "run_call L (CreateProposal p) = discard (repo_create_proposal p)"
| "run_call L (TransitionProposal pid ps eps) = discard (repo_transition_proposal pid ps eps)"
| "run_call L (CreateApproval a) = discard (repo_create_approval a)"
| "run_call L (RegisterIdempotency i) = discard (repo_register_idempotency L i)"
| "run_call L (CompleteIdempotency key res t) =
     discard (repo_complete_idempotency key res t IdempotencyStatus.REGISTERED)"
| "run_call L (RecordAcknowledgement key k) =
     discard (repo_record_execution_acknowledgement key k IdempotencyStatus.REGISTERED)"
| "run_call L (SaveCheckpoint c cv) = discard (repo_save_checkpoint c cv)"
| "run_call L (AppendAuditEvent e) = discard (repo_append_audit_event e)"
| "run_call L (CreateEvidence v) = discard (repo_create_verification_evidence L v)"

definition external_call :: "Platform \<Rightarrow> RepoCall \<Rightarrow> StateFile \<Rightarrow> StateFile" where
  "external_call L c f = (if valid_call L c then snd (file_mutate L (run_call L c) Quiet f) else f)"

subsection \<open>The repository on the file\<close>

text \<open>
  The state of the store: the file, and for each coming call the calls of other processes that
  get the lock first and what goes wrong. An empty schedule means no interference.
\<close>

record FileWorld =
  fw_file :: StateFile
  fw_schedule :: "(RepoCall list \<times> IoEvent) list"

definition file_call ::
    "Platform \<Rightarrow> (IoEvent \<Rightarrow> (StateFile, 'a) prog) \<Rightarrow> (FileWorld, 'a) prog" where
  "file_call L m w =
     (let (others, io) = (case fw_schedule w of [] \<Rightarrow> ([], Quiet) | e # es \<Rightarrow> e);
          (x, f) = m io (fold (external_call L) others (fw_file w))
      in (x, w\<lparr>fw_file := f, fw_schedule := tl (fw_schedule w)\<rparr>))"

abbreviation mutate_call :: "Platform \<Rightarrow> (Repo, 'a) prog \<Rightarrow> (FileWorld, 'a) prog" where
  "mutate_call L op \<equiv> file_call L (file_mutate L op)"

abbreviation read_call :: "Platform \<Rightarrow> (Repo, 'a) prog \<Rightarrow> (FileWorld, 'a) prog" where
  "read_call L op \<equiv> file_call L (file_read L op)"

definition file_repository :: "Platform \<Rightarrow> FileWorld DurableTruthRepository" where
  "file_repository L =
     \<lparr>op_create_run = (\<lambda>r. mutate_call L (repo_create_run r)),
      op_get_run = (\<lambda>rid. read_call L (repo_get_run rid)),
      op_transition_run = (\<lambda>rid s es ev t ap vp.
        mutate_call L (repo_transition_run L rid s es ev t ap vp)),
      op_update_run_budget = (\<lambda>rid b ev t. mutate_call L (repo_update_run_budget rid b ev t)),
      op_create_proposal = (\<lambda>p. mutate_call L (repo_create_proposal p)),
      op_get_proposal = (\<lambda>pid. read_call L (repo_get_proposal pid)),
      op_transition_proposal = (\<lambda>pid ps eps. mutate_call L (repo_transition_proposal pid ps eps)),
      op_create_approval = (\<lambda>a. mutate_call L (repo_create_approval a)),
      op_get_approval = (\<lambda>pid. read_call L (repo_get_approval pid)),
      op_register_idempotency = (\<lambda>i. mutate_call L (repo_register_idempotency L i)),
      op_get_idempotency = (\<lambda>key. read_call L (repo_get_idempotency key)),
      op_complete_idempotency = (\<lambda>key res t.
        mutate_call L (repo_complete_idempotency key res t IdempotencyStatus.REGISTERED)),
      op_record_execution_acknowledgement = (\<lambda>key k.
        mutate_call L (repo_record_execution_acknowledgement key k IdempotencyStatus.REGISTERED)),
      op_save_checkpoint = (\<lambda>c cv. mutate_call L (repo_save_checkpoint c cv)),
      op_get_checkpoint = (\<lambda>rid. read_call L (repo_get_checkpoint rid)),
      op_append_audit_event = (\<lambda>e. mutate_call L (repo_append_audit_event e)),
      op_get_audit_event = (\<lambda>rid eid. read_call L (repo_get_audit_event rid eid)),
      op_create_verification_evidence = (\<lambda>v.
        mutate_call L (repo_create_verification_evidence L v)),
      op_get_verification_evidence = (\<lambda>rid pid.
        read_call L (repo_get_verification_evidence rid pid))\<rparr>"

text \<open>The bounded reads that are not part of the protocol.\<close>

definition file_list_audit_events :: "Platform \<Rightarrow> uuid \<Rightarrow> int \<Rightarrow> (FileWorld, AuditEvent list) prog" where
  "file_list_audit_events L rid limit = read_call L (\<lambda>d. (list_audit_events rid limit d, d))"

text \<open>
  \<open>read_run_snapshot\<close>: run, checkpoint, timeline and digest under one lock; \<open>digest\<close> stands for
  the SHA-256 value the seal binds to the snapshot. A store without a file has no digest.
\<close>

record LocalRunSnapshot =
  ls_run :: "Run option"
  ls_checkpoint :: "Checkpoint option"
  ls_audit_events :: "AuditEvent list"
  ls_audit_event_count :: nat
  ls_snapshot_sha256 :: string

definition read_run_snapshot ::
    "Platform \<Rightarrow> (Snapshot \<Rightarrow> string) \<Rightarrow> uuid \<Rightarrow> int \<Rightarrow> IoEvent \<Rightarrow> (StateFile, LocalRunSnapshot) prog"
  where
  "read_run_snapshot L digest rid limit io f =
     (if io = LockFails \<or> io = ReadFails then (Inl StorageDependencyError, f)
      else if io = DiesEarly \<or> io = DiesLate then (Inl Killed, f)
      else (case f of
          Absent \<Rightarrow> (Inl StorageDependencyError, f)
        | Sealed s \<Rightarrow> (case from_snapshot L s of
            Inl e \<Rightarrow> (Inl e, f)
          | Inr d \<Rightarrow> (case list_audit_events rid limit d of
              Inl e \<Rightarrow> (Inl e, f)
            | Inr events \<Rightarrow> (Inr \<lparr>ls_run = dget (d_runs d) rid,
                 ls_checkpoint = dget (d_checkpoints d) rid, ls_audit_events = events,
                 ls_audit_event_count = count_audit_events rid d,
                 ls_snapshot_sha256 = digest s\<rparr>, f)))))"

subsection \<open>The file implements the contract\<close>

definition file_view :: "StateFile \<Rightarrow> Repo" where
  "file_view f = (case f of Absent \<Rightarrow> empty_repo | Sealed s \<Rightarrow> restored s)"

lemma load_file_view: "load_file L f = Inr d \<Longrightarrow> d = file_view f"
  by (auto simp: load_file_def file_view_def from_snapshot_def split: StateFile.splits if_splits)

lemma load_file_error: "load_file L f = Inl e \<Longrightarrow> e = StorageDependencyError"
  by (auto simp: load_file_def from_snapshot_def split: StateFile.splits if_splits)

lemma keys_ok_view: "keys_ok (file_view f)"
  by (simp add: file_view_def keys_ok_empty keys_ok_restored split: StateFile.splits)

definition lawful :: "Platform \<Rightarrow> (Repo, 'a) prog \<Rightarrow> bool" where
  "lawful L op \<longleftrightarrow> (\<forall>d x d'. op d = (x, d') \<longrightarrow> repo_write L d d' \<and> (\<forall>e. x = Inl e \<longrightarrow> d' = d))"

lemma lawfulD:
  assumes "lawful L op" and "op d = (x, d')"
  shows "repo_write L d d'" and "x = Inl e \<Longrightarrow> d' = d"
  using assms unfolding lawful_def by blast+

lemma written_later:
  assumes "lawful L op" and "op (file_view f) = (x, d')"
  shows "later L d' (file_view (Sealed (export_snapshot d')))"
    and "later L (file_view f) (file_view (Sealed (export_snapshot d')))"
proof -
  from assms have w: "repo_write L (file_view f) d'" by (rule lawfulD)
  have "keys_ok d'" using write_effect [OF w] keys_ok_view keys_ok_effect by blast
  then have "repo_write L d' (restored (export_snapshot d'))"
    by (intro repo_write.reloaded restored_export_snapshot)
  then show "later L d' (file_view (Sealed (export_snapshot d')))"
    by (simp add: file_view_def later_write)
  with w show "later L (file_view f) (file_view (Sealed (export_snapshot d')))"
    by (meson converse_rtranclp_into_rtranclp)
qed

lemma file_mutate_performs:
  assumes op: "lawful L op" and run: "file_mutate L op io f = (x, f')"
  shows "later L (file_view f) (file_view f')
    \<and> ((\<exists>d2. op (file_view f) = (x, d2) \<and> later L d2 (file_view f')) \<or> (\<exists>e. x = Inl e \<and> fault e))"
proof (cases "io \<in> {LockFails, ReadFails, DiesEarly}")
  case True
  with run show ?thesis by (auto simp: file_mutate_def fault_def split: if_splits)
next
  case alive: False
  show ?thesis
  proof (cases "load_file L f")
    case (Inl e)
    with run alive load_file_error [OF Inl] show ?thesis
      by (auto simp: file_mutate_def fault_def split: if_splits)
  next
    case (Inr d)
    then have d: "d = file_view f" by (rule load_file_view)
    obtain y d' where o: "op (file_view f) = (y, d')" by fastforce
    show ?thesis
    proof (cases y)
      case (Inl e)
      with lawfulD(2) [OF op o] run alive Inr d o show ?thesis
        by (auto simp: file_mutate_def split: if_splits)
    next
      case (Inr z)
      with run alive \<open>load_file L f = Inr d\<close> d o written_later [OF op o] show ?thesis
        by (auto simp: file_mutate_def fault_def split: if_splits)
    qed
  qed
qed

lemma lawful_discard: "lawful L op \<Longrightarrow> lawful L (discard op)"
  unfolding lawful_def discard_def andThen_def ret_def
  by (fastforce split: prod.splits sum.splits)

lemma lawful_ops:
  "valid_run r \<Longrightarrow> lawful L (repo_create_run r)"
  "lawful L (repo_transition_run L rid s es ev t ap vp)"
  "valid_budget b \<Longrightarrow> lawful L (repo_update_run_budget rid b ev t)"
  "valid_proposal p \<Longrightarrow> lawful L (repo_create_proposal p)"
  "lawful L (repo_transition_proposal pid ps eps)"
  "valid_approval a \<Longrightarrow> lawful L (repo_create_approval a)"
  "valid_idempotency i \<Longrightarrow> i_status i = IdempotencyStatus.REGISTERED \<Longrightarrow>
     i_execution_acknowledgement i = None \<Longrightarrow> lawful L (repo_register_idempotency L i)"
  "valid_action_result res \<Longrightarrow>
     lawful L (repo_complete_idempotency key res t IdempotencyStatus.REGISTERED)"
  "valid_acknowledgement k \<Longrightarrow>
     lawful L (repo_record_execution_acknowledgement key k IdempotencyStatus.REGISTERED)"
  "valid_checkpoint L c \<Longrightarrow> lawful L (repo_save_checkpoint c cv)"
  "valid_audit_event e \<Longrightarrow> lawful L (repo_append_audit_event e)"
  "valid_evidence L v \<Longrightarrow> lawful L (repo_create_verification_evidence L v)"
  unfolding lawful_def by (auto intro: repo_write.intros dest: refused_unchanged)

lemma external_later: "later L (file_view f) (file_view (external_call L c f))"
proof (cases "valid_call L c")
  case True
  then have "lawful L (run_call L c)"
    by (cases c) (simp_all add: lawful_discard lawful_ops)
  moreover obtain x f' where "file_mutate L (run_call L c) Quiet f = (x, f')" by fastforce
  ultimately show ?thesis using file_mutate_performs True by (fastforce simp: external_call_def)
qed (simp add: external_call_def)

lemma externals_later: "later L (file_view f) (file_view (fold (external_call L) cs f))"
  by (induction cs arbitrary: f) (auto intro: rtranclp_trans external_later)

lemma file_call_performs:
  assumes "\<And>io f x f'. m io f = (x, f') \<Longrightarrow> later L (file_view f) (file_view f')
    \<and> ((\<exists>d2. op (file_view f) = (x, d2) \<and> later L d2 (file_view f')) \<or> (\<exists>e. x = Inl e \<and> fault e))"
  shows "performs L (\<lambda>w. file_view (fw_file w)) (\<lambda>_. ()) (file_call L m) op"
  unfolding performs_def
proof (intro allI impI)
  fix w x w' assume run: "file_call L m w = (x, w')"
  obtain cs io where e: "(case fw_schedule w of [] \<Rightarrow> ([], Quiet) | e # es \<Rightarrow> e) = (cs, io)" by fastforce
  obtain y f' where m: "m io (fold (external_call L) cs (fw_file w)) = (y, f')" by fastforce
  from run e m have w': "x = y" "fw_file w' = f'" by (auto simp: file_call_def)
  note l = externals_later [of L "fw_file w" cs]
  from assms [OF m] l show "() = () \<and> later L (file_view (fw_file w)) (file_view (fw_file w'))
     \<and> ((\<exists>d d2. later L (file_view (fw_file w)) d \<and> op d = (x, d2) \<and> later L d2 (file_view (fw_file w')))
        \<or> (\<exists>e. x = Inl e \<and> fault e))"
    unfolding w' by (blast intro: rtranclp_trans)
qed

lemma mutate_call_performs:
  "lawful L op \<Longrightarrow> performs L (\<lambda>w. file_view (fw_file w)) (\<lambda>_. ()) (mutate_call L op) op"
  by (rule file_call_performs) (rule file_mutate_performs)

lemma read_call_performs:
  assumes "\<And>d. snd (op d) = d"
  shows "performs L (\<lambda>w. file_view (fw_file w)) (\<lambda>_. ()) (read_call L op) op"
proof (rule file_call_performs)
  fix io f x f' assume run: "file_read L op io f = (x, f')"
  have "op (file_view f) = (fst (op (file_view f)), file_view f)" using assms by (metis prod.collapse)
  with run show "later L (file_view f) (file_view f')
    \<and> ((\<exists>d2. op (file_view f) = (x, d2) \<and> later L d2 (file_view f')) \<or> (\<exists>e. x = Inl e \<and> fault e))"
    by (cases "load_file L f")
      (auto simp: file_read_def fault_def dest: load_file_view load_file_error split: if_splits)
qed

interpretation local_store: durable_truth L "file_repository L" "\<lambda>w. file_view (fw_file w)" "\<lambda>_. ()" for L
  by unfold_locales
    (simp_all add: file_repository_def mem_reads read_call_performs mutate_call_performs lawful_ops)

subsection \<open>Which repositories can be reopened\<close>

definition no_orphans :: "Repo \<Rightarrow> bool" where
  "no_orphans d \<longleftrightarrow> (\<forall>k p. dget (d_proposals d) k = Some p \<longrightarrow> dget (d_runs d) (p_run_id p) \<noteq> None)
     \<and> (\<forall>k c. dget (d_checkpoints d) k = Some c \<longrightarrow> dget (d_runs d) (c_run_id c) \<noteq> None)
     \<and> (\<forall>k e. dget (d_audit_events d) k = Some e \<longrightarrow> dget (d_runs d) (e_run_id e) \<noteq> None)"

definition within_snapshot_bounds :: "Repo \<Rightarrow> bool" where
  "within_snapshot_bounds d \<longleftrightarrow> length (d_proposals d) \<le> MAX_SNAPSHOT_RECORDS
     \<and> length (d_approvals d) \<le> MAX_SNAPSHOT_RECORDS \<and> length (d_idempotency d) \<le> MAX_SNAPSHOT_RECORDS
     \<and> length (d_checkpoints d) \<le> MAX_SNAPSHOT_RECORDS
     \<and> length (d_audit_events d) \<le> MAX_SNAPSHOT_RECORDS
     \<and> length (d_verification_evidence d) \<le> MAX_SNAPSHOT_RECORDS"

lemma list_all_sorted_values:
  assumes "dict_ok t"
  shows "list_all P (sorted_values t) \<longleftrightarrow> (\<forall>k v. dget t k = Some v \<longrightarrow> P v)"
  using assms by (auto simp: list_all_iff set_sorted_values dict_set_dget [symmetric] image_iff)

lemma length_table_of_sorted: "keyed key t \<Longrightarrow> length (table_of key (sorted_values t)) = length t"
  by (simp add: table_of_sorted_values)

lemma sorted_values_again: "sorted_values (sort_key fst t) = sorted_values t"
  by (simp add: sorted_values_def sort_key_id_if_sorted)

lemma typed_export:
  assumes ok: "repo_ok L d" and b: "within_snapshot_bounds d"
  shows "typed_records L (export_snapshot d)"
proof -
  have runs: "length (d_runs d) \<le> MAX_SNAPSHOT_RECORDS"
    using ok by (simp add: repo_ok_def runs_ok_def MAX_DURABLE_RUNS_def MAX_SNAPSHOT_RECORDS_def)
  show ?thesis
    using ok b runs
    by (simp add: typed_records_def records_ok_def export_snapshot_def list_all_sorted_values
        repo_ok_def repo_ok_defs within_snapshot_bounds_def)
qed

lemma capacity_export:
  assumes ok: "repo_ok L d" shows "within_capacity (export_snapshot d)"
proof -
  have keyed: "keyed event_key (d_audit_events d)" using keys_ok_repo_ok [OF ok] by (simp add: keys_ok_def)
  have "count_list (map e_run_id (sorted_values (d_audit_events d))) rid = count_audit_events rid d" for rid
  proof -
    have "map e_run_id (sorted_values (d_audit_events d))
        = map fst (map fst (sort_key fst (d_audit_events d)))"
      by (subst sorted_values_keys [OF keyed, symmetric]) (simp add: event_key_def comp_def)
    then have "mset (map e_run_id (sorted_values (d_audit_events d)))
        = mset (map fst (map fst (d_audit_events d)))" by simp
    then have "count_list (map e_run_id (sorted_values (d_audit_events d))) rid
        = count_list (map fst (map fst (d_audit_events d))) rid"
      by (metis count_mset)
    also have "\<dots> = count_audit_events rid d"
      by (simp add: count_audit_events_def count_list_eq_length_filter filter_map comp_def)
        (metis (mono_tags, lifting) length_map filter_cong)
    finally show ?thesis .
  qed
  with ok show ?thesis
    by (simp add: within_capacity_def export_snapshot_def list_all_iff repo_ok_def runs_ok_def audit_ok_def)
qed

lemma restored_lengths:
  assumes "keys_ok d" shows "unique_identities (export_snapshot d) (restored (export_snapshot d))"
  using assms by (simp add: keys_ok_def unique_identities_def restored_def export_snapshot_def
      length_table_of_sorted)

lemma references_export:
  assumes ok: "repo_ok L d" and n: "no_orphans d"
  shows "references_ok (export_snapshot d) (restored (export_snapshot d))"
proof -
  note same = same_records_dget [OF restored_export_snapshot [OF keys_ok_repo_ok [OF ok]]]
  have "list_all (\<lambda>a. dget (d_proposals d) (a_proposal_id a) \<noteq> None) (sorted_values (d_approvals d))"
    using ok by (auto simp: list_all_sorted_values repo_ok_def approvals_ok_def)
  with ok n show ?thesis
    unfolding references_ok_def same
    by (simp add: export_snapshot_def list_all_sorted_values repo_ok_def repo_ok_defs no_orphans_def)
qed

lemma export_restored:
  assumes "keys_ok d" shows "export_snapshot (restored (export_snapshot d)) = export_snapshot d"
  using assms by (simp add: keys_ok_def export_snapshot_def restored_def table_of_sorted_values
      sorted_values_again)

lemma file_write_facts:
  assumes "file_mutate L op io f = (Inr y, f')"
  shows "\<exists>d'. op (file_view f) = (Inr y, d') \<and> f' = Sealed (export_snapshot d')"
  using assms
  by (cases "load_file L f"; cases "op (projr (load_file L f))"; cases "fst (op (projr (load_file L f)))")
    (auto simp: file_mutate_def dest: load_file_view split: if_splits)

subsection \<open>Claims\<close>

text \<open>C29: the snapshot round trip. A consistent repository whose records all belong to stored runs
  is reopened from its own snapshot with exactly the same records, and exporting it again gives
  the same snapshot, so the digest of the file does not depend on insertion order.\<close>

theorem snapshot_roundtrip:
  assumes "repo_ok L d" and "no_orphans d" and "within_snapshot_bounds d"
  shows "\<exists>d'. from_snapshot L (export_snapshot d) = Inr d' \<and> same_records d d'
    \<and> export_snapshot d' = export_snapshot d"
  using typed_export [OF assms(1,3)] capacity_export [OF assms(1)] references_export [OF assms(1,2)]
    restored_lengths [OF keys_ok_repo_ok [OF assms(1)]]
    restored_export_snapshot [OF keys_ok_repo_ok [OF assms(1)]]
    export_restored [OF keys_ok_repo_ok [OF assms(1)]]
  by (simp add: from_snapshot_def)


text \<open>C28: the file refines the in-memory repository. Every valid call, with any interruption, takes
  the stored truth to a later one, and an acknowledged call left exactly the records the
  in-memory operation leaves.\<close>

theorem local_store_refines_memory:
  assumes "valid_call L c" and "file_mutate L (run_call L c) io f = (x, f')"
  shows "later L (file_view f) (file_view f')
    \<and> (x = Inr () \<longrightarrow> (\<exists>d'. run_call L c (file_view f) = (Inr (), d') \<and> same_records d' (file_view f')))"
proof -
  have law: "lawful L (run_call L c)"
    using assms(1) by (cases c) (simp_all add: lawful_discard lawful_ops)
  have "\<exists>d'. run_call L c (file_view f) = (Inr (), d') \<and> same_records d' (file_view f')" if "x = Inr ()"
  proof -
    from file_write_facts [OF assms(2) [unfolded that]] obtain d' where
      d: "run_call L c (file_view f) = (Inr (), d')" "f' = Sealed (export_snapshot d')" by blast
    have "keys_ok d'"
      using write_effect [OF lawfulD(1) [OF law d(1)]] keys_ok_view keys_ok_effect by blast
    with d show ?thesis by (simp add: file_view_def restored_export_snapshot)
  qed
  with file_mutate_performs [OF law assms(2)] show ?thesis by blast
qed


end
