(* ===== verification/Stop_System.thy ===== *)
theory Stop_System
  imports Executor Local_Store
begin

text \<open>
  The stop path put together: \<open>StopSandboxInstanceCoordinator\<close> over the file-backed repository
  with \<open>Ec2SandboxStopExecutor\<close> as its executor. The state is the store and, beside it, EC2
  with the environment, the clock and the identifiers of the process.
\<close>

subsection \<open>Components side by side\<close>

definition on_store :: "('s, 'a) prog \<Rightarrow> ('s \<times> 'w, 'a) prog" where
  "on_store m = (\<lambda>(s, w). case m s of (x, s') \<Rightarrow> (x, s', w))"

definition on_process :: "('w, 'a) prog \<Rightarrow> ('s \<times> 'w, 'a) prog" where
  "on_process m = (\<lambda>(s, w). case m w of (x, w') \<Rightarrow> (x, s, w'))"

definition store_side :: "'s DurableTruthRepository \<Rightarrow> ('s \<times> 'w) DurableTruthRepository" where
  "store_side R =
     \<lparr>op_create_run = on_store \<circ> op_create_run R, op_get_run = on_store \<circ> op_get_run R,
      op_transition_run = (\<lambda>a b c d e f g. on_store (op_transition_run R a b c d e f g)),
      op_update_run_budget = (\<lambda>a b c d. on_store (op_update_run_budget R a b c d)),
      op_create_proposal = on_store \<circ> op_create_proposal R,
      op_get_proposal = on_store \<circ> op_get_proposal R,
      op_transition_proposal = (\<lambda>a b c. on_store (op_transition_proposal R a b c)),
      op_create_approval = on_store \<circ> op_create_approval R,
      op_get_approval = on_store \<circ> op_get_approval R,
      op_register_idempotency = on_store \<circ> op_register_idempotency R,
      op_get_idempotency = on_store \<circ> op_get_idempotency R,
      op_complete_idempotency = (\<lambda>a b c. on_store (op_complete_idempotency R a b c)),
      op_record_execution_acknowledgement =
        (\<lambda>a b. on_store (op_record_execution_acknowledgement R a b)),
      op_save_checkpoint = (\<lambda>a b. on_store (op_save_checkpoint R a b)),
      op_get_checkpoint = on_store \<circ> op_get_checkpoint R,
      op_append_audit_event = on_store \<circ> op_append_audit_event R,
      op_get_audit_event = (\<lambda>a b. on_store (op_get_audit_event R a b)),
      op_create_verification_evidence = on_store \<circ> op_create_verification_evidence R,
      op_get_verification_evidence = (\<lambda>a b. on_store (op_get_verification_evidence R a b))\<rparr>"

lemma on_store_performs:
  assumes "performs L view rest m op"
  shows "performs L (view \<circ> fst) (\<lambda>s. f (snd s)) (on_store m) op"
  using assms unfolding performs_def on_store_def
  by (fastforce split: prod.splits)

lemma on_process_bystander:
  assumes "\<And>w x w'. m w = (x, w') \<Longrightarrow> f w' = f w"
  shows "bystander L (view \<circ> fst) (\<lambda>s. f (snd s)) (on_process m)"
  using assms unfolding bystander_def on_process_def by (auto split: prod.splits)

lemma store_side_durable_truth:
  assumes "durable_truth L R view rest"
  shows "durable_truth L (store_side R) (view \<circ> fst) (\<lambda>s. f (snd s))"
  by (rule durable_truth.intro; simp add: store_side_def;
      intro on_store_performs [where rest = rest] durable_truth.create_run [OF assms] durable_truth.get_run [OF assms]
      durable_truth.transition [OF assms] durable_truth.update_run_budget [OF assms]
      durable_truth.create_proposal [OF assms] durable_truth.get_proposal [OF assms]
      durable_truth.transition_proposal [OF assms] durable_truth.create_approval [OF assms]
      durable_truth.get_approval [OF assms] durable_truth.register_idempotency [OF assms]
      durable_truth.get_idempotency [OF assms] durable_truth.complete_idempotency [OF assms]
      durable_truth.record_acknowledgement [OF assms] durable_truth.save_checkpoint [OF assms]
      durable_truth.get_checkpoint [OF assms] durable_truth.append_audit_event [OF assms]
      durable_truth.get_audit_event [OF assms] durable_truth.create_evidence [OF assms]
      durable_truth.get_evidence [OF assms]; assumption?)

subsection \<open>The stop path\<close>

type_synonym StopSystem = "FileWorld \<times> Ec2World"

definition stop_system ::
    "Platform \<Rightarrow> SandboxRemediationSettings \<Rightarrow> StopSystem StopSandboxInstanceCoordinator" where
  "stop_system L settings =
     \<lparr>co_repository = store_side (file_repository L),
      co_executor = (\<lambda>c. on_process (executor_execute L settings c)),
      co_clock = on_process read_clock, co_event_id_factory = on_process draw_event_id\<rparr>"

definition truth :: "StopSystem \<Rightarrow> Repo" where
  "truth = file_view \<circ> fw_file \<circ> fst"

definition stops_sent :: "StopSystem \<Rightarrow> (Ec2Request \<times> Ec2Reply) list" where
  "stops_sent s = real_stops (snd s)"

lemma executor_acknowledgement_valid:
  "executor_execute L s c w = (Inr k, w') \<Longrightarrow> valid_acknowledgement k"
  using executor_run by (fastforce simp: build_acknowledgement_def split: sum.splits)

lemma real_stops_log: "ec_log w' = ec_log w \<Longrightarrow> real_stops w' = real_stops w"
  by (simp add: real_stops_def)

interpretation stop: stop_environment L "store_side (file_repository L)" truth stops_sent
    "stop_system L settings" for L settings
proof -
  have "durable_truth L (store_side (file_repository L)) ((\<lambda>w. file_view (fw_file w)) \<circ> fst) (\<lambda>s. real_stops (snd s))"
    by (rule store_side_durable_truth) (rule local_store.durable_truth_axioms)
  then have store: "durable_truth L (store_side (file_repository L)) truth stops_sent"
    by (simp add: truth_def stops_sent_def [abs_def] comp_def)
  have clocks: "bystander L truth stops_sent (on_process read_clock)"
    "bystander L truth stops_sent (on_process draw_event_id)"
    unfolding truth_def stops_sent_def [abs_def]
    by (rule on_process_bystander,
        auto simp: read_clock_def draw_event_id_def real_stops_def split: list.splits)+
  show "stop_environment L (store_side (file_repository L)) truth stops_sent (stop_system L settings)"
  proof (intro stop_environment.intro stop_environment_axioms.intro store)
    fix c s x s' assume "co_executor (stop_system L settings) c s = (x, s')"
    then show "later L (truth s) (truth s')"
      by (cases s) (auto simp: stop_system_def on_process_def truth_def split: prod.splits)
  next
    fix c s k s' assume "co_executor (stop_system L settings) c s = (Inr k, s')"
    then show "valid_acknowledgement k"
      by (cases s) (auto simp: stop_system_def on_process_def
          dest: executor_acknowledgement_valid split: prod.splits)
  qed (simp_all add: stop_system_def clocks)
qed

lemma executor_sends:
  assumes "co_executor (stop_system L settings) c s = (x, s')"
  shows "stops_sent s' = stops_sent s
    \<or> (\<exists>reply v r env. stops_sent s' = stops_sent s
          @ [(StopInstances [tg_resource_id (sc_target c)] False, reply)]
        \<and> stop_justified settings c env v r)"
proof -
  obtain fw ec where s: "s = (fw, ec)" by (cases s)
  obtain y ec' where e: "executor_execute L settings c ec = (y, ec')" by fastforce
  with assms s have "s' = (fw, ec')" by (simp add: stop_system_def on_process_def)
  with executor_sends_guarded [OF e] s show ?thesis by (auto simp: stops_sent_def)
qed

lemma authorized_claim_registered:
  assumes "authorized_claim L d d' pid c"
  shows "\<exists>p i. dget (d_proposals d') pid = Some p \<and> dget (d_idempotency d') (derive_idempotency_key L p) = Some i
    \<and> p_run_id p = sc_run_id c"
proof -
  from assms obtain p a i v t r where
    tr: "repo_transition_run L (sc_run_id c) WorkflowState.EXECUTING WorkflowState.APPROVED v t None None d
      = (Inr r, d')"
    and p: "dget (d_proposals d) pid = Some p" "p_run_id p = sc_run_id c"
    and i: "dget (d_idempotency d) (derive_idempotency_key L p) = Some i"
    unfolding authorized_claim_def by blast
  from repo_transition_run_Inr [OF tr] have "d_proposals d' = d_proposals d" "d_idempotency d' = d_idempotency d"
    by auto
  with p i show ?thesis by auto
qed

text \<open>
  A claim moves its run past APPROVED for ever.
\<close>

lemma claim_phase:
  assumes "authorized_claim L d d' pid c"
  shows "\<exists>r r'. dget (d_runs d) (sc_run_id c) = Some r \<and> r_state r = WorkflowState.APPROVED
    \<and> dget (d_runs d') (sc_run_id c) = Some r' \<and> r_state r' = WorkflowState.EXECUTING"
proof -
  from assms obtain v t r where
    tr: "repo_transition_run L (sc_run_id c) WorkflowState.EXECUTING WorkflowState.APPROVED v t None None d
      = (Inr r, d')" unfolding authorized_claim_def by blast
  from repo_transition_run_Inr [OF tr] obtain current where
    "dget (d_runs d) (sc_run_id c) = Some current" "r_state current = WorkflowState.APPROVED"
    "transition_run current WorkflowState.EXECUTING t = Inr r"
    "d' = d\<lparr>d_runs := dput (sc_run_id c) r (d_runs d)\<rparr>" by blast
  then show ?thesis by (auto dest: transition_run_Inr)
qed

subsection \<open>Claims\<close>

text \<open>C2: across all interleavings with other processes and all storage failures, one execution
  request makes EC2 receive at most one real stop, for the target of the proposal a human
  approved, and only after the run was durably moved from APPROVED to EXECUTING with the
  approval and the idempotency registration of exactly this action stored.\<close>

theorem stop_sent_only_after_claim:
  assumes "stop_execute L (stop_system L settings) pid s = (x, s')" and "repo_ok L (truth s)"
  shows "stops_sent s' = stops_sent s
    \<or> (\<exists>c d d' p reply. later L (truth s) d \<and> authorized_claim L d d' pid c \<and> later L d' (truth s')
        \<and> dget (d_proposals d) pid = Some p
        \<and> stops_sent s' = stops_sent s @ [(StopInstances [tg_resource_id (p_target p)] False, reply)]
        \<and> live_execution_enabled settings \<and> rs_instance_id settings = tg_resource_id (p_target p))"
proof (cases "stops_sent s' = stops_sent s")
  case False
  from stop.stop_execute_guarded assms False obtain c s1 y s2 d d' where
    e: "co_executor (stop_system L settings) c s1 = (y, s2)" "stops_sent s1 = stops_sent s"
      "stops_sent s' = stops_sent s2"
    and d: "later L (truth s) d" "authorized_claim L d d' pid c" "later L d' (truth s1)"
      "later L (truth s1) (truth s')"
    unfolding calls_guarded_def by blast
  from d(2) obtain p where p: "dget (d_proposals d) pid = Some p" "sc_target c = p_target p"
    unfolding authorized_claim_def by blast
  from executor_sends [OF e(1)] False e obtain reply v r env where
    "stops_sent s' = stops_sent s @ [(StopInstances [tg_resource_id (p_target p)] False, reply)]"
    "stop_justified settings c env v r" by (auto simp: p)
  moreover have "later L d' (truth s')" using d(3,4) by (rule rtranclp_trans)
  ultimately show ?thesis using d(1,2) p
    by (intro disjI2 exI [of _ c] exI [of _ d] exI [of _ d'] exI [of _ p] exI [of _ reply])
      (auto simp: stop_justified_def outside_scope_def)
qed simp

text \<open>C7: a registered action is never sent again: once the idempotency key of the proposal is in
  the store, an execution request of that proposal sends no stop, whatever the record says,
  however often the process was restarted and whatever fails.\<close>

theorem registered_action_never_restopped:
  assumes "stop_execute L (stop_system L settings) pid s = (x, s')"
    and "dget (d_proposals (truth s)) pid = Some p"
    and "dget (d_idempotency (truth s)) (derive_idempotency_key L p) = Some i"
  shows "stops_sent s' = stops_sent s"
  using stop.registered_never_replayed [OF assms] .


text \<open>C6: at most one claim per run: after a run was claimed for one action, no action of that run,
  the same or another, is ever claimed again.\<close>

theorem run_claimed_at_most_once:
  assumes "authorized_claim L d d' pid c" and "later L d' e"
  shows "\<not> (\<exists>e' pid' c'. authorized_claim L e e' pid' c' \<and> sc_run_id c' = sc_run_id c)"
proof
  assume "\<exists>e' pid' c'. authorized_claim L e e' pid' c' \<and> sc_run_id c' = sc_run_id c"
  then obtain e' pid' c' where other: "authorized_claim L e e' pid' c'" "sc_run_id c' = sc_run_id c"
    by blast
  from claim_phase [OF assms(1)] obtain r where
    r: "dget (d_runs d') (sc_run_id c) = Some r" "r_state r = WorkflowState.EXECUTING" by blast
  from claim_phase [OF other(1)] other(2) obtain q where
    q: "dget (d_runs e) (sc_run_id c) = Some q" "r_state q = WorkflowState.APPROVED" by auto
  from evolves_get(1) [OF later_evolves [OF assms(2)] r(1)] q(1) have "run_evolves r q" by auto
  then have "workflow_step\<^sup>*\<^sup>* WorkflowState.EXECUTING WorkflowState.APPROVED"
    using r(2) q(2) by (simp add: run_evolves_def)
  from workflow_reach_phase [OF this] show False by simp
qed

end
