(* ===== verification/Examples.thy ===== *)
theory Examples
  imports Durable_Invariants
begin

text \<open>
  One complete, successful EC2 stop on concrete records: contract-valid values, the calls of
  the store in the order the workflow makes them, and the history they produce. The
  witnesses of the other theories use these values.
\<close>

subsection \<open>Values\<close>

abbreviation ex_L :: Platform where
  "ex_L \<equiv> example_platform"

definition ex_uuid :: "char \<Rightarrow> uuid" where
  "ex_uuid c = ''01890000-0000-7000-8000-00000000000'' @ [c]"

definition ex_hash :: string where
  "ex_hash = replicate 64 (CHR ''a'')"

definition ex_budget :: BudgetCounters where
  "ex_budget = \<lparr>b_max_turns = 10, b_max_tokens = 1000, b_max_elapsed_seconds = 60,
     b_turns_used = 0, b_tokens_used = 0, b_elapsed_milliseconds_used = 0\<rparr>"

definition ex_run :: Run where
  "ex_run = \<lparr>r_run_id = ex_uuid CHR ''1'', r_trace_id = ex_uuid CHR ''2'',
     r_correlation_id = ex_uuid CHR ''3'', r_idempotency_key = ''request/0000000001'',
     r_state = WorkflowState.RECEIVED, r_created_at = 100, r_updated_at = 100,
     r_budget = ex_budget, r_version = 1\<rparr>"

definition ex_target :: ActionTarget where
  "ex_target = \<lparr>tg_resource_type = ''AWS::EC2::Instance'', tg_resource_id = ''i-00000001'',
     tg_region = ''eu-central-1'', tg_sandbox_scope = ''sandbox'',
     tg_required_tag_key = ''AIOACloudOpsSandbox'', tg_required_tag_value = ''true''\<rparr>"

definition ex_proposal :: ActionProposal where
  "ex_proposal = \<lparr>p_proposal_id = ex_uuid CHR ''4'', p_run_id = ex_uuid CHR ''1'',
     p_action = Capability.STOP_SANDBOX_INSTANCE, p_target = ex_target,
     p_expected_precondition = \<lparr>pc_instance_state = ObservedInstanceState.RUNNING,
       pc_observed_at = 105, pc_evidence_hash = ex_hash\<rparr>,
     p_authority = AuthorityGate.PLAN_AND_CONFIRM, p_state = ProposalState.PROPOSED,
     p_evidence_hash = ex_hash, p_created_at = 106\<rparr>"

definition ex_approval :: Approval where
  "ex_approval = \<lparr>a_proposal_id = ex_uuid CHR ''4'', a_run_id = ex_uuid CHR ''1'',
     a_action = Capability.STOP_SANDBOX_INSTANCE, a_target = ex_target,
     a_evidence_hash = ex_hash, a_interrupt_id = ''interrupt-1'', a_request_hash = ex_hash,
     a_decision = ApprovalDecision.APPROVED, a_decided_at = 110,
     a_actor_session_id = ''operator'', a_decision_nonce = ''nonce-0123456789''\<rparr>"

definition ex_key :: string where
  "ex_key = ''action/'' @ ex_hash"

definition ex_registration :: IdempotencyRecord where
  "ex_registration = \<lparr>i_idempotency_key = ex_key, i_proposal_id = ex_uuid CHR ''4'',
     i_action_fingerprint = ex_hash, i_status = IdempotencyStatus.REGISTERED,
     i_execution_acknowledgement = None, i_action_result = None, i_registered_at = 112,
     i_completed_at = None\<rparr>"

definition ex_checkpoint :: Checkpoint where
  "ex_checkpoint = \<lparr>c_run_id = ex_uuid CHR ''1'', c_last_safe_state = WorkflowState.APPROVED,
     c_resume_metadata = [], c_tool_result_hashes = [(''build_remediation_evidence'', ex_hash)],
     c_resource_evidence = None, c_remediation_proposal = None,
     c_local_approval_request = None, c_local_approval = None,
     c_local_execution_intent = None, c_local_execution_receipt = None,
     c_local_verification = None, c_created_at = 113, c_version = 1\<rparr>"

definition ex_acknowledgement :: ExecutionAcknowledgement where
  "ex_acknowledgement = \<lparr>k_status = ExecutionAcknowledgementStatus.ACCEPTED,
     k_proposal_id = ex_uuid CHR ''4'', k_run_id = ex_uuid CHR ''1'',
     k_action = Capability.STOP_SANDBOX_INSTANCE, k_target = ex_target,
     k_previous_state = ObservedInstanceState.RUNNING,
     k_current_state = ObservedInstanceState.STOPPING, k_request_reference = None,
     k_acknowledged_at = 115, k_acknowledgement_hash = ex_hash\<rparr>"

definition ex_evidence :: VerificationEvidence where
  "ex_evidence = \<lparr>v_evidence_id = ex_uuid CHR ''5'', v_proposal_id = ex_uuid CHR ''4'',
     v_run_id = ex_uuid CHR ''1'', v_trace_id = ex_uuid CHR ''2'',
     v_correlation_id = ex_uuid CHR ''3'',
     v_disposition = VerificationDisposition.VERIFIED,
     v_action = Capability.STOP_SANDBOX_INSTANCE, v_target = ex_target,
     v_observed_state = ObservedInstanceState.STOPPED, v_verified_at = 118,
     v_proof_origin = VerificationProofOrigin.EXECUTION_ACKNOWLEDGEMENT,
     v_execution_acknowledgement_hash = Some ex_hash, v_recovery_observation_hash = None,
     v_observation_hash = ex_hash, v_request_reference = None, v_evidence_hash = ex_hash\<rparr>"

definition ex_result :: ActionResult where
  "ex_result = \<lparr>ar_outcome = ActionOutcome.SUCCEEDED,
     ar_observed_state = Some ObservedInstanceState.STOPPED, ar_evidence_hash = Some ex_hash,
     ar_failure = None\<rparr>"

lemma ex_digest [simp]: "compute_evidence_digest ex_L j = ex_hash"
  by (simp add: compute_evidence_digest_def example_platform_def ex_hash_def)

lemma ex_digest_key [simp]:
  "derive_action_fingerprint ex_L p = ex_hash" "derive_idempotency_key ex_L p = ex_key"
  by (simp_all add: derive_action_fingerprint_def derive_idempotency_key_def ex_key_def)

lemma ex_valid_budget: "valid_budget ex_budget"
  by (simp add: valid_budget_def ex_budget_def)

lemma ex_valid_run: "valid_run ex_run"
  by code_simp

lemma ex_valid_proposal: "valid_proposal ex_proposal"
  by code_simp

lemma ex_valid_approval: "valid_approval ex_approval"
  by code_simp

lemma ex_valid_registration: "valid_idempotency ex_registration"
  by code_simp

lemma ex_valid_checkpoint: "valid_checkpoint ex_L ex_checkpoint"
  by code_simp

lemma ex_valid_acknowledgement: "valid_acknowledgement ex_acknowledgement"
  by code_simp

lemma ex_uuid_ok [simp]:
  "uuid7 (ex_uuid CHR ''1'')" "uuid7 (ex_uuid CHR ''2'')" "uuid7 (ex_uuid CHR ''3'')"
  "uuid7 (ex_uuid CHR ''4'')" "uuid7 (ex_uuid CHR ''5'')" "uuid7 (ex_uuid CHR ''6'')"
  by code_simp+

lemma ex_hash_ok [simp]: "sha256_digest ex_hash"
  by code_simp

lemma ex_target_ok [simp]: "valid_target ex_target"
  by code_simp

lemma ex_valid_evidence: "valid_evidence ex_L ex_evidence"
  by (simp add: valid_evidence_def ex_evidence_def proof_fields_ok_def)

lemma ex_valid_result: "valid_action_result ex_result"
  by code_simp

lemmas ex_valid = ex_valid_run ex_valid_proposal ex_valid_approval ex_valid_registration
  ex_valid_checkpoint ex_valid_acknowledgement ex_valid_evidence ex_valid_result

subsection \<open>The workflow as calls of the store\<close>

definition ex_run_at :: "WorkflowState \<Rightarrow> int \<Rightarrow> Run" where
  "ex_run_at s v = ex_run\<lparr>r_state := s, r_updated_at := 99 + v, r_version := v\<rparr>"

definition ex_completed :: IdempotencyRecord where
  "ex_completed = ex_registration\<lparr>i_execution_acknowledgement := Some ex_acknowledgement,
     i_status := IdempotencyStatus.COMPLETED, i_action_result := Some ex_result,
     i_completed_at := Some 120\<rparr>"

fun ex_row :: "'k \<Rightarrow> 'v option \<Rightarrow> ('k, 'v) dict" where
  "ex_row k None = []"
| "ex_row k (Some v) = [(k, v)]"

text \<open>The store with at most one record of each kind.\<close>

definition ex_repo :: "WorkflowState \<Rightarrow> int \<Rightarrow> ProposalState option \<Rightarrow> Approval option
    \<Rightarrow> Checkpoint option \<Rightarrow> IdempotencyRecord option \<Rightarrow> VerificationEvidence option \<Rightarrow> Repo" where
  "ex_repo s v ps a c i e =
     \<lparr>d_runs = [(ex_uuid CHR ''1'', ex_run_at s v)],
      d_proposals = ex_row (ex_uuid CHR ''4'') (map_option (\<lambda>x. ex_proposal\<lparr>p_state := x\<rparr>) ps),
      d_approvals = ex_row (ex_uuid CHR ''4'') a, d_idempotency = ex_row ex_key i,
      d_checkpoints = ex_row (ex_uuid CHR ''1'') c, d_audit_events = [],
      d_verification_evidence = ex_row (ex_uuid CHR ''1'', ex_uuid CHR ''4'') e\<rparr>"

lemmas ex_defs = ex_run_def ex_target_def ex_proposal_def ex_approval_def ex_registration_def
  ex_checkpoint_def ex_acknowledgement_def ex_evidence_def ex_result_def ex_completed_def

lemma ex_valid_run_at: "1 \<le> v \<Longrightarrow> valid_run (ex_run_at s v)"
  using ex_valid_run by (simp add: valid_run_def ex_run_at_def ex_run_def)

definition ex_move :: "WorkflowState \<Rightarrow> WorkflowState \<Rightarrow> int \<Rightarrow> uuid option \<Rightarrow> uuid option
    \<Rightarrow> Repo \<Rightarrow> Repo" where
  "ex_move s t v ap vp d =
     snd (repo_transition_run ex_L (ex_uuid CHR ''1'') t s v (Utc (100 + v)) ap vp d)"

lemma ex_move_eq:
  assumes "t \<in> ALLOWED_WORKFLOW_TRANSITIONS s" and "1 \<le> v"
    and "decision_guard (ex_repo s v ps a c i e) (ex_uuid CHR ''1'') t ap"
    and "success_guard ex_L (ex_repo s v ps a c i e) (ex_uuid CHR ''1'') t vp"
  shows "ex_move s t v ap vp (ex_repo s v ps a c i e) = ex_repo t (v + 1) ps a c i e"
proof -
  have "transition_run (ex_run_at s v) t (Utc (100 + v)) = Inr (ex_run_at t (v + 1))"
    using assms(1,2) ex_valid_run_at [of "v + 1" t]
    by (simp add: transition_run_def validate_workflow_transition_def require_utc_def ex_run_at_def)
  with assms(3,4) show ?thesis
    by (simp add: ex_move_def repo_transition_run_def) (simp add: ex_repo_def ex_run_at_def)
qed

definition ex_calls :: "(Repo \<Rightarrow> Repo) list" where
  "ex_calls =
    [\<lambda>d. snd (repo_create_run ex_run d),
     ex_move WorkflowState.RECEIVED WorkflowState.INVESTIGATING 1 None None,
     ex_move WorkflowState.INVESTIGATING WorkflowState.EVIDENCE_READY 2 None None,
     ex_move WorkflowState.EVIDENCE_READY WorkflowState.REMEDIATION_PROPOSED 3 None None,
     \<lambda>d. snd (repo_create_proposal ex_proposal d),
     \<lambda>d. snd (repo_transition_proposal (ex_uuid CHR ''4'') ProposalState.AWAITING_APPROVAL
                ProposalState.PROPOSED d),
     ex_move WorkflowState.REMEDIATION_PROPOSED WorkflowState.AWAITING_APPROVAL 4 None None,
     \<lambda>d. snd (repo_create_approval ex_approval d),
     ex_move WorkflowState.AWAITING_APPROVAL WorkflowState.APPROVED 5
       (Some (ex_uuid CHR ''4'')) None,
     \<lambda>d. snd (repo_save_checkpoint ex_checkpoint None d),
     \<lambda>d. snd (repo_register_idempotency ex_L ex_registration d),
     ex_move WorkflowState.APPROVED WorkflowState.EXECUTING 6 None None,
     \<lambda>d. snd (repo_record_execution_acknowledgement ex_key ex_acknowledgement
                IdempotencyStatus.REGISTERED d),
     ex_move WorkflowState.EXECUTING WorkflowState.VERIFYING 7 None None,
     \<lambda>d. snd (repo_create_verification_evidence ex_L ex_evidence d),
     \<lambda>d. snd (repo_complete_idempotency ex_key ex_result (Utc 120)
                IdempotencyStatus.REGISTERED d),
     ex_move WorkflowState.VERIFYING WorkflowState.SUCCESS_WITH_EVIDENCE 8 None
       (Some (ex_uuid CHR ''4''))]"

fun run_calls :: "(Repo \<Rightarrow> Repo) list \<Rightarrow> Repo list \<Rightarrow> Repo list" where
  "run_calls [] ds = ds"
| "run_calls (f # fs) ds = run_calls fs (f (hd ds) # ds)"

lemma run_calls_history:
  assumes "\<forall>f \<in> set fs. \<forall>d. repo_write L d (f d)" and "history L ds"
  shows "history L (run_calls fs ds)"
  using assms
proof (induction fs ds rule: run_calls.induct)
  case (2 f fs ds)
  from 2(3) obtain e es where "ds = e # es" by (cases ds) (auto elim: history.cases)
  with 2 show ?case by (simp add: history.later)
qed simp

lemma ex_registration_new:
  "i_status ex_registration = IdempotencyStatus.REGISTERED"
  "i_execution_acknowledgement ex_registration = None"
  by (simp_all add: ex_registration_def)

lemma ex_calls_write: "\<forall>f \<in> set ex_calls. \<forall>d. repo_write ex_L d (f d)"
  unfolding ex_calls_def ex_move_def
  by (simp add: repo_write.create_run [OF ex_valid_run, OF surjective_pairing]
      repo_write.transition_run [OF surjective_pairing]
      repo_write.create_proposal [OF ex_valid_proposal, OF surjective_pairing]
      repo_write.transition_proposal [OF surjective_pairing]
      repo_write.create_approval [OF ex_valid_approval, OF surjective_pairing]
      repo_write.save_checkpoint [OF ex_valid_checkpoint, OF surjective_pairing]
      repo_write.register_idempotency [OF ex_valid_registration ex_registration_new surjective_pairing]
      repo_write.record_acknowledgement [OF ex_valid_acknowledgement, OF surjective_pairing]
      repo_write.create_verification_evidence [OF ex_valid_evidence, OF surjective_pairing]
      repo_write.complete_idempotency [OF ex_valid_result, OF surjective_pairing])

abbreviation ex_waiting where "ex_waiting \<equiv> Some ProposalState.AWAITING_APPROVAL"

text \<open>The seventeen calls, one after the other.\<close>

lemma ex_call_create: "snd (repo_create_run ex_run empty_repo)
    = ex_repo WorkflowState.RECEIVED 1 None None None None None"
  by (simp add: repo_create_run_def empty_repo_def MAX_DURABLE_RUNS_def ex_repo_def ex_run_at_def
      ex_run_def)

lemma ex_call_proposal: "snd (repo_create_proposal ex_proposal (ex_repo s v None a c i e))
    = ex_repo s v (Some ProposalState.PROPOSED) a c i e"
  by (simp add: repo_create_proposal_def ex_repo_def ex_proposal_def)

lemma ex_call_awaiting:
  "snd (repo_transition_proposal (ex_uuid CHR ''4'') ProposalState.AWAITING_APPROVAL
      ProposalState.PROPOSED (ex_repo s v (Some ProposalState.PROPOSED) a c i e))
    = ex_repo s v ex_waiting a c i e"
proof -
  have "valid_proposal (ex_proposal\<lparr>p_state := ProposalState.AWAITING_APPROVAL\<rparr>)"
    using ex_valid_proposal by (simp add: valid_proposal_def) metis
  then show ?thesis
    by (simp add: repo_transition_proposal_def ex_repo_def transitioned_proposal_def)
qed

lemma ex_call_approval: "snd (repo_create_approval ex_approval (ex_repo s v ex_waiting None c i e))
    = ex_repo s v ex_waiting (Some ex_approval) c i e"
  by (simp add: repo_create_approval_def ex_repo_def validate_approval_binding_def
      ex_approval_def ex_proposal_def)

lemma ex_call_checkpoint: "snd (repo_save_checkpoint ex_checkpoint None (ex_repo s v ps a None i e))
    = ex_repo s v ps a (Some ex_checkpoint) i e"
  by (simp add: repo_save_checkpoint_def ex_repo_def ex_checkpoint_def)

lemma ex_call_register: "snd (repo_register_idempotency ex_L ex_registration
      (ex_repo WorkflowState.APPROVED v ex_waiting (Some ex_approval) c None e))
    = ex_repo WorkflowState.APPROVED v ex_waiting (Some ex_approval) c (Some ex_registration) e"
  by (simp add: repo_register_idempotency_def ex_repo_def ex_registration_def ex_approval_def
      ex_proposal_def ex_run_at_def)

lemma ex_call_acknowledge: "snd (repo_record_execution_acknowledgement ex_key ex_acknowledgement
      IdempotencyStatus.REGISTERED (ex_repo s v ps a c (Some ex_registration) e))
    = ex_repo s v ps a c
       (Some (ex_registration\<lparr>i_execution_acknowledgement := Some ex_acknowledgement\<rparr>)) e"
  by (simp add: repo_record_execution_acknowledgement_def ex_repo_def ex_registration_def
      ex_acknowledgement_def Let_def)

lemma ex_call_evidence: "snd (repo_create_verification_evidence ex_L ex_evidence
      (ex_repo WorkflowState.VERIFYING v ex_waiting a c
       (Some (ex_registration\<lparr>i_execution_acknowledgement := Some ex_acknowledgement\<rparr>)) None))
    = ex_repo WorkflowState.VERIFYING v ex_waiting a c
       (Some (ex_registration\<lparr>i_execution_acknowledgement := Some ex_acknowledgement\<rparr>))
       (Some ex_evidence)"
  by (simp add: repo_create_verification_evidence_def ex_repo_def evidence_guard_def
      acknowledgement_matches_def Let_def ex_evidence_def ex_proposal_def ex_run_at_def ex_run_def
      ex_acknowledgement_def)

lemma ex_valid_completed: "valid_idempotency ex_completed"
  using ex_valid_registration ex_valid_acknowledgement ex_valid_result
  by (simp add: valid_idempotency_def ex_completed_def ex_registration_def)

lemma ex_call_complete: "snd (repo_complete_idempotency ex_key ex_result (Utc 120)
      IdempotencyStatus.REGISTERED (ex_repo s v ps a c
       (Some (ex_registration\<lparr>i_execution_acknowledgement := Some ex_acknowledgement\<rparr>)) e))
    = ex_repo s v ps a c (Some ex_completed) e"
  using ex_valid_completed
  by (simp add: repo_complete_idempotency_def ex_repo_def completed_idempotency_status_def
      ex_completed_def ex_registration_def ex_result_def)

lemma ex_guard_free:
  "t \<notin> {WorkflowState.APPROVED, WorkflowState.DENIED_BY_HUMAN} \<Longrightarrow> decision_guard d rid t ap"
  "t \<noteq> WorkflowState.SUCCESS_WITH_EVIDENCE \<Longrightarrow> success_guard L d rid t vp"
  by (simp_all add: decision_guard_def success_guard_def)

lemma ex_guard_approved: "decision_guard
    (ex_repo s v ex_waiting (Some ex_approval) c i e) (ex_uuid CHR ''1'')
    WorkflowState.APPROVED (Some (ex_uuid CHR ''4''))"
  by (simp add: decision_guard_def legacy_decision_valid_def ex_repo_def ex_proposal_def
      ex_approval_def)

lemma ex_guard_success: "success_guard ex_L
    (ex_repo s v ex_waiting a c (Some ex_completed) (Some ex_evidence)) (ex_uuid CHR ''1'')
    WorkflowState.SUCCESS_WITH_EVIDENCE (Some (ex_uuid CHR ''4''))"
  by (simp add: success_guard_def legacy_proof_valid_def ex_repo_def ex_proposal_def
      ex_evidence_def ex_completed_def ex_result_def)

definition ex_acked :: IdempotencyRecord where
  "ex_acked = ex_registration\<lparr>i_execution_acknowledgement := Some ex_acknowledgement\<rparr>"

definition ex_history :: "Repo list" where
  "ex_history = run_calls ex_calls [empty_repo]"

lemma ex_history_ok: "history ex_L ex_history"
  unfolding ex_history_def
  by (rule run_calls_history [OF ex_calls_write history.start])

lemma ex_history_eq: "ex_history =
  [ex_repo WorkflowState.SUCCESS_WITH_EVIDENCE 9 ex_waiting (Some ex_approval)
     (Some ex_checkpoint) (Some ex_completed) (Some ex_evidence),
   ex_repo WorkflowState.VERIFYING 8 ex_waiting (Some ex_approval)
     (Some ex_checkpoint) (Some ex_completed) (Some ex_evidence),
   ex_repo WorkflowState.VERIFYING 8 ex_waiting (Some ex_approval)
     (Some ex_checkpoint) (Some ex_acked) (Some ex_evidence),
   ex_repo WorkflowState.VERIFYING 8 ex_waiting (Some ex_approval)
     (Some ex_checkpoint) (Some ex_acked) None,
   ex_repo WorkflowState.EXECUTING 7 ex_waiting (Some ex_approval)
     (Some ex_checkpoint) (Some ex_acked) None,
   ex_repo WorkflowState.EXECUTING 7 ex_waiting (Some ex_approval)
     (Some ex_checkpoint) (Some ex_registration) None,
   ex_repo WorkflowState.APPROVED 6 ex_waiting (Some ex_approval)
     (Some ex_checkpoint) (Some ex_registration) None,
   ex_repo WorkflowState.APPROVED 6 ex_waiting (Some ex_approval) (Some ex_checkpoint) None None,
   ex_repo WorkflowState.APPROVED 6 ex_waiting (Some ex_approval) None None None,
   ex_repo WorkflowState.AWAITING_APPROVAL 5 ex_waiting (Some ex_approval) None None None,
   ex_repo WorkflowState.AWAITING_APPROVAL 5 ex_waiting None None None None,
   ex_repo WorkflowState.REMEDIATION_PROPOSED 4 ex_waiting None None None None,
   ex_repo WorkflowState.REMEDIATION_PROPOSED 4 (Some ProposalState.PROPOSED) None None None None,
   ex_repo WorkflowState.REMEDIATION_PROPOSED 4 None None None None None,
   ex_repo WorkflowState.EVIDENCE_READY 3 None None None None None,
   ex_repo WorkflowState.INVESTIGATING 2 None None None None None,
   ex_repo WorkflowState.RECEIVED 1 None None None None None,
   empty_repo]"
  unfolding ex_history_def ex_calls_def ex_acked_def
  by (simp add: ex_call_create ex_call_proposal ex_call_awaiting ex_call_approval
      ex_call_checkpoint ex_call_register ex_call_acknowledge ex_call_evidence ex_call_complete
      ex_move_eq ex_guard_free ex_guard_approved ex_guard_success workflow_table_simps)

subsection \<open>Witnesses for the claims about histories\<close>

lemma ex_history_from:
  assumes "n < 18"
  shows "history ex_L (ex_history ! n # drop (Suc n) ex_history)"
proof -
  have "length ex_history = 18" by (simp add: ex_history_eq)
  with assms have "ex_history = take n ex_history @ ex_history ! n # drop (Suc n) ex_history"
    by (simp add: id_take_nth_drop)
  with ex_history_ok show ?thesis by (metis history_tail)
qed

lemma ex_repo_run [simp]:
  "dget (d_runs (ex_repo s v ps a c i e)) (ex_uuid CHR ''1'') = Some (ex_run_at s v)"
  by (simp add: ex_repo_def)

lemma ex_run_at_state [simp]: "r_state (ex_run_at s v) = s" "r_version (ex_run_at s v) = v"
  by (simp_all add: ex_run_at_def)

theorem execution_needs_human_decision_witness:
  "\<exists>d0 \<in> set (drop 5 ex_history). \<exists>pid.
     legacy_decision_valid d0 (ex_uuid CHR ''1'') pid ApprovalDecision.APPROVED
     \<or> local_decision_valid d0 (ex_uuid CHR ''1'') pid ApprovalDecision.APPROVED"
  using execution_needs_human_decision [of ex_L "ex_history ! 4" "drop 5 ex_history"
      "ex_uuid CHR ''1''" "ex_run_at WorkflowState.EXECUTING 7"] ex_history_from [of 4]
  by (simp add: ex_history_eq)

theorem success_needs_approved_proof_witness:
  "\<exists>d0 \<in> set (drop (Suc 0) ex_history). \<exists>pid p v q a. dget (d_proposals d0) pid = Some p
     \<and> dget (d_verification_evidence d0) (ex_uuid CHR ''1'', pid) = Some v
     \<and> v_observed_state v = ObservedInstanceState.STOPPED
     \<and> dget (d_approvals d0) (a_proposal_id a) = Some a
     \<and> a_decision a = ApprovalDecision.APPROVED
     \<and> derive_idempotency_key ex_L q = derive_idempotency_key ex_L p"
proof -
  have no_local: "\<not> (\<exists>c v. dget (d_checkpoints d0) (ex_uuid CHR ''1'') = Some c
      \<and> c_local_verification c = Some v)" if "d0 \<in> set (drop (Suc 0) ex_history)" for d0
    using that by (auto simp: ex_history_eq ex_repo_def ex_checkpoint_def empty_repo_def)
  have run: "dget (d_runs (ex_history ! 0)) (ex_uuid CHR ''1'')
      = Some (ex_run_at WorkflowState.SUCCESS_WITH_EVIDENCE 9)"
    by (simp add: ex_history_eq)
  have "history ex_L (ex_history ! 0 # drop (Suc 0) ex_history)" by (rule ex_history_from) simp
  from success_needs_approved_proof [OF this run ex_run_at_state(1)] show ?thesis
  proof (elim bexE disjE exE conjE)
    fix d0 pid p v q a
    assume "d0 \<in> set (drop (Suc 0) ex_history)" "dget (d_proposals d0) pid = Some p"
      "dget (d_verification_evidence d0) (ex_uuid CHR ''1'', pid) = Some v"
      "v_observed_state v = ObservedInstanceState.STOPPED"
      "derive_idempotency_key ex_L q = derive_idempotency_key ex_L p"
      "dget (d_approvals d0) (a_proposal_id a) = Some a" "a_decision a = ApprovalDecision.APPROVED"
    then show ?thesis
      by (intro bexI [of _ d0] exI [of _ pid] exI [of _ p] exI [of _ v] exI [of _ q] exI [of _ a] conjI)
  qed (use no_local in blast)
qed

theorem history_is_append_only_witness:
  "evolves (ex_history ! 10) (ex_history ! 2)"
proof -
  have h: "history ex_L ([ex_history ! 0, ex_history ! 1] @ ex_history ! 2 # drop 3 ex_history)"
    using ex_history_ok by (simp add: ex_history_eq)
  have "ex_history ! 10 \<in> set (drop 3 ex_history)" by (simp add: ex_history_eq)
  from history_is_append_only [OF h this] show ?thesis .
qed

theorem executing_at_most_once_witness:
  "r_state (ex_run_at WorkflowState.SUCCESS_WITH_EVIDENCE 9)
     \<notin> {WorkflowState.APPROVED, WorkflowState.EXECUTING}"
proof -
  have h: "history ex_L ([ex_history ! 0, ex_history ! 1] @ ex_history ! 2 # drop 3 ex_history)"
    using ex_history_ok by (simp add: ex_history_eq)
  show ?thesis
    by (rule executing_at_most_once [OF h, of "ex_history ! 4" "ex_history ! 0" "ex_uuid CHR ''1''"
          "ex_run_at WorkflowState.EXECUTING 7" "ex_run_at WorkflowState.VERIFYING 8"])
      (simp_all add: ex_history_eq)
qed

theorem stale_version_refused_witness:
  "repo_transition_run ex_L (ex_uuid CHR ''1'') WorkflowState.EXECUTING WorkflowState.APPROVED 6
     (Utc 200) None None
     (ex_repo WorkflowState.EXECUTING 7 ex_waiting (Some ex_approval) None None None)
   = (Inl StorageConflictError,
      ex_repo WorkflowState.EXECUTING 7 ex_waiting (Some ex_approval) None None None)"
proof -
  have "transition_run (ex_run_at WorkflowState.APPROVED 6) WorkflowState.EXECUTING (Utc 106)
      = Inr (ex_run_at WorkflowState.EXECUTING 7)"
    using ex_valid_run_at [of 7 WorkflowState.EXECUTING]
    by (simp add: transition_run_def validate_workflow_transition_def require_utc_def ex_run_at_def)
  then have "repo_transition_run ex_L (ex_uuid CHR ''1'') WorkflowState.EXECUTING
      WorkflowState.APPROVED 6 (Utc 106) None None
      (ex_repo WorkflowState.APPROVED 6 ex_waiting (Some ex_approval) None None None)
    = (Inr (ex_run_at WorkflowState.EXECUTING 7),
       ex_repo WorkflowState.EXECUTING 7 ex_waiting (Some ex_approval) None None None)"
    by (simp add: repo_transition_run_def ex_guard_free) (simp add: ex_repo_def)
  from stale_version_refused [OF this evolves_refl] show ?thesis .
qed

theorem idempotency_single_owner_witness:
  "repo_register_idempotency ex_L (ex_registration\<lparr>i_proposal_id := ex_uuid CHR ''6''\<rparr>)
     (ex_history ! 6) = (Inl StorageConflictError, ex_history ! 6)"
  using idempotency_single_owner [of "ex_history ! 6"
      "ex_registration\<lparr>i_proposal_id := ex_uuid CHR ''6''\<rparr>" ex_registration "ex_history ! 6" ex_L]
  by (simp add: ex_history_eq ex_repo_def ex_registration_def ex_uuid_def)

end
