(* ===== verification/Plain_Metadata.thy ===== *)
theory Plain_Metadata
  imports Contracts
begin

text \<open>
  Metadata made of identifiers, digits and dashes: its canonical rendering is free of everything
  the secret detection looks for.
\<close>

subsection \<open>Words\<close>

definition tame_chars :: string where
  "tame_chars = ''abcdefghijklmnopqrstuvwxyzABCDEFGHIJKLMNOPQRSTUVWXYZ0123456789_-:''"

definition plain_word :: "string \<Rightarrow> bool" where
  "plain_word s \<longleftrightarrow> set s \<subseteq> set tame_chars \<and> colons_apart s
     \<and> \<not> sublist ''KIA'' s \<and> \<not> sublist ''SIA'' s \<and> \<not> sublist ''sk-'' s
     \<and> \<not> sublist ''ghp_'' s \<and> \<not> sublist ''pat_'' s"

abbreviation dquote :: char where
  "dquote \<equiv> CHR 0x22"

lemma dquote_of: "char_of (34 :: nat) = dquote"
  by code_simp

declare dquote_of [simp]

lemma tame_escape: "list_all (\<lambda>c. escape_char c = [c]) tame_chars"
  by code_simp

lemma tame_no_space: "list_all (\<lambda>c. \<not> is_space c) tame_chars"
  by code_simp

lemma tame_marks: "list_all (\<lambda>c. c \<notin> {CHR ''='', CHR ''@'', CHR ''/'', backslash}) tame_chars"
  by code_simp

lemma tame_char:
  assumes "c \<in> set tame_chars"
  shows "escape_char c = [c]" and "\<not> is_space c" and "c \<notin> {CHR ''='', CHR ''@'', CHR ''/'', backslash}"
  using assms tame_escape tame_no_space tame_marks by (auto simp: list_all_iff)

lemma tame_punctuation: "list_all (\<lambda>c. \<not> is_space c \<and> c \<notin> {CHR ''='', CHR ''@'', CHR ''/'', backslash})
    [dquote, CHR '','', CHR ''{'', CHR ''}'', CHR '':'']"
  by code_simp

lemma plain_quote: "plain_word s \<Longrightarrow> quote_string s = dquote # s @ [dquote]"
proof -
  assume "plain_word s"
  then have "set s \<subseteq> set tame_chars" by (simp add: plain_word_def)
  then have "concat (map escape_char s) = s" by (induction s) (simp_all add: tame_char)
  then show ?thesis by (simp add: quote_string_def)
qed

lemma colons_apart_append:
  assumes "colons_apart a" and "colons_apart b"
    and "b \<noteq> [] \<Longrightarrow> hd b = CHR '':'' \<Longrightarrow> a \<noteq> [] \<Longrightarrow> lower_char (last a) \<notin> set ''dnty''"
  shows "colons_apart (a @ b)"
  using assms
proof (induction a)
  case (Cons x a)
  show ?case
  proof (cases a)
    case Nil
    with Cons.prems show ?thesis by (cases b) auto
  next
    case (Cons y c)
    with Cons.IH Cons.prems show ?thesis by auto
  qed
qed simp

lemma lower_dquote: "lower_char dquote \<notin> set ''dnty''"
  by code_simp

lemma colon_not_dquote [simp]: "dquote \<noteq> CHR '':''"
  by simp

lemma sublist_split:
  assumes "sublist w (a @ p # b)" and "p \<notin> set w"
  shows "sublist w a \<or> sublist w b"
  using assms by (auto simp: sublist_append sublist_Cons_right prefix_Cons suffix_append append_eq_append_conv2 Cons_eq_append_conv elim!: prefixE)

lemma plain_word_text: "plain_word s \<Longrightarrow> plain_text s"
  using tame_char by (fastforce simp: plain_word_def plain_text_def list_all_iff)


subsection \<open>Concatenation\<close>

lemma punctuation_fresh:
  assumes "p \<in> {dquote, CHR '','', CHR ''{'', CHR ''}'', CHR '':''}"
  shows "p \<notin> set ''KIA'' \<union> set ''SIA'' \<union> set ''sk-'' \<union> set ''ghp_'' \<union> set ''pat_''"
  using assms by auto

lemma plain_text_join:
  assumes "plain_text a" and "plain_text b" and "p \<in> {dquote, CHR '','', CHR ''{'', CHR ''}'', CHR '':''}"
    and "p = CHR '':'' \<Longrightarrow> a \<noteq> [] \<and> last a = dquote"
    and "b \<noteq> [] \<Longrightarrow> hd b = CHR '':'' \<Longrightarrow> p = dquote"
  shows "plain_text (a @ p # b)"
proof -
  have "colons_apart [p]" by simp
  then have "colons_apart (p # b)" using colons_apart_append [of "[p]" b] assms lower_dquote by (auto simp: plain_text_def)
  then have "colons_apart (a @ p # b)" using colons_apart_append [of a "p # b"] assms lower_dquote by (auto simp: plain_text_def)
  moreover have "\<not> is_space p \<and> p \<notin> {CHR ''='', CHR ''@'', CHR ''/'', backslash}"
    using assms(3) tame_punctuation by (auto simp: list_all_iff)
  moreover have "\<not> sublist w (a @ p # b)" if "w \<in> {''KIA'', ''SIA'', ''sk-'', ''ghp_'', ''pat_''}" for w
    using sublist_split [of w a p b] that punctuation_fresh [OF assms(3)] assms(1,2) by (auto simp: plain_text_def)
  ultimately show ?thesis using assms(1,2) by (auto simp: plain_text_def list_all_iff)
qed

definition plain_item :: "string \<Rightarrow> bool" where
  "plain_item s \<longleftrightarrow> plain_text s \<and> s \<noteq> [] \<and> hd s \<noteq> CHR '':''"

lemma plain_text_Nil: "plain_text []"
  by (simp add: plain_text_def sublist_def)

lemma plain_member:
  assumes "plain_word k" and "plain_word v"
  shows "plain_item (quote_string k @ '':'' @ quote_string v)"
proof -
  have q: "plain_text (dquote # s @ [dquote])" if "plain_word s" for s
    using plain_text_join [of "[]" "s @ [dquote]" dquote]  plain_text_join [of s "[]" dquote]
      plain_word_text [OF that] plain_text_Nil by auto
  have "plain_text ((dquote # k @ [dquote]) @ CHR '':'' # (dquote # v @ [dquote]))"
    by (rule plain_text_join) (use q assms in auto)
  then show ?thesis using assms by (simp add: plain_item_def plain_quote)
qed

lemma plain_join_comma:
  "list_all plain_item xs \<Longrightarrow> plain_text (join_comma xs) \<and> (xs \<noteq> [] \<longrightarrow> plain_item (join_comma xs))"
proof (induction xs rule: join_comma.induct)
  case (3 x y zs)
  then have "plain_item x" "plain_item (join_comma (y # zs))" by simp_all
  moreover from this have "plain_text (x @ CHR '','' # join_comma (y # zs))"
    by (intro plain_text_join) (auto simp: plain_item_def)
  ultimately show ?case by (auto simp: plain_item_def)
qed (auto simp: plain_text_Nil plain_item_def)

lemma plain_braces:
  assumes "plain_text s" and "s \<noteq> [] \<Longrightarrow> hd s \<noteq> CHR '':''"
  shows "plain_text (''{'' @ s @ ''}'')"
proof -
  have "plain_text (s @ CHR ''}'' # [])"
    by (rule plain_text_join) (use assms plain_text_Nil in auto)
  then have "plain_text ([] @ CHR ''{'' # (s @ ''}''))"
    by (intro plain_text_join) (use assms plain_text_Nil in \<open>auto simp: hd_append split: if_splits\<close>)
  then show ?thesis by simp
qed

lemma plain_metadata:
  assumes "list_all (\<lambda>(k, v). plain_word k \<and> plain_word v) md"
  shows "plain_text (dumps (metadata_json md))"
proof -
  let ?items = "map (\<lambda>(k, t). quote_string k @ '':'' @ t)
      (sort_key fst (map (\<lambda>(k, v). (k, dumps v)) (map (\<lambda>(k, v). (k, JStr v)) md)))"
  have "plain_item x" if "x \<in> set ?items" for x
  proof -
    from that obtain k v where "(k, v) \<in> set md" "x = quote_string k @ '':'' @ quote_string v" by auto
    with assms plain_member show ?thesis by (auto simp: list_all_iff simp del: append.simps)
  qed
  then have j: "plain_text (join_comma ?items)" and i: "?items \<noteq> [] \<Longrightarrow> plain_item (join_comma ?items)"
    using plain_join_comma [of ?items] by (auto simp: list_all_iff)
  have h: "join_comma ?items \<noteq> [] \<Longrightarrow> hd (join_comma ?items) \<noteq> CHR '':''"
    using i by (cases "?items = []") (auto simp: plain_item_def)
  show ?thesis using plain_braces [OF j h] by (simp add: metadata_json_def)
qed


text \<open>Metadata an audit event accepts.\<close>

definition clean_metadata :: "(string, string) dict \<Rightarrow> bool" where
  "clean_metadata md \<longleftrightarrow> list_all (\<lambda>(k, v). plain_word k \<and> plain_word v) md
     \<and> list_all (\<lambda>(k, v). \<not> list_ex (\<lambda>term. sublist term (map lower_char k)) SENSITIVE_TERMS) md
     \<and> list_all (\<lambda>(k, v). short_identifier k \<and> non_empty_text v) md"

lemma clean_metadata_safe: "clean_metadata md \<Longrightarrow> safe_metadata md"
  using plain_text_clean [OF plain_metadata]
  by (simp add: safe_metadata_def contains_sensitive_material_def metadata_json_def clean_metadata_def)

lemma clean_event_valid:
  assumes "clean_metadata (e_metadata e)" and "uuid7 (e_event_id e)" and "uuid7 (e_run_id e)" and "short_identifier (e_source e)"
    and "e_tool_name e = None" and "e_model_id e = None" and "sha256_digest (e_redacted_payload_hash e)"
  shows "valid_audit_event e"
  using assms clean_metadata_safe [OF assms(1)] by (simp add: valid_audit_event_def clean_metadata_def)

end
