(* ===== verification/Stop_Examples.thy ===== *)
theory Stop_Examples
  imports Stop_System Examples Plain_Metadata
begin

text \<open>
  One execution of the whole stop path on concrete data: the store as the approval flow leaves
  it, a sandbox that is running and tagged, and a process that ends during the real
  \<open>StopInstances\<close> call. The witnesses of the claims about the stop path evaluate it.
\<close>

subsection \<open>The store\<close>

definition settled :: "Platform \<Rightarrow> Repo \<Rightarrow> bool" where
  "settled L d \<longleftrightarrow> from_snapshot L (export_snapshot d) = Inr d"

definition store_at :: "Repo \<Rightarrow> FileWorld" where
  "store_at d = \<lparr>fw_file = Sealed (export_snapshot d), fw_schedule = []\<rparr>"

lemma read_at:
  "settled L d \<Longrightarrow> on_store (read_call L op) (store_at d, w) = (fst (op d), store_at d, w)"
  by (simp add: on_store_def file_call_def store_at_def file_read_def load_file_def settled_def)

lemma write_at:
  "settled L d \<Longrightarrow> on_store (mutate_call L op) (store_at d, w)
    = (case op d of (Inl e, d') \<Rightarrow> (Inl e, store_at d, w) | (Inr x, d') \<Rightarrow> (Inr x, store_at d', w))"
  by (simp add: on_store_def file_call_def store_at_def file_mutate_def load_file_def settled_def
      split: prod.splits sum.splits)

lemma truth_at: "settled L d \<Longrightarrow> truth (store_at d, w) = d"
  by (auto simp: truth_def store_at_def file_view_def settled_def from_snapshot_def split: if_splits)

definition rows_sorted :: "Repo \<Rightarrow> bool" where
  "rows_sorted d \<longleftrightarrow> sorted (map fst (d_runs d)) \<and> sorted (map fst (d_proposals d))
     \<and> sorted (map fst (d_approvals d)) \<and> sorted (map fst (d_idempotency d))
     \<and> sorted (map fst (d_checkpoints d)) \<and> sorted (map fst (d_audit_events d))
     \<and> sorted (map fst (d_verification_evidence d))"

lemma settledI:
  assumes "repo_ok L d" and "no_orphans d" and "within_snapshot_bounds d" and "rows_sorted d"
  shows "settled L d"
proof -
  have "restored (export_snapshot d) = d"
    using keys_ok_repo_ok [OF assms(1)] assms(4)
    by (simp add: restored_def export_snapshot_def keys_ok_def rows_sorted_def
        table_of_sorted_values(1) sort_key_id_if_sorted)
  with typed_export [OF assms(1,3)] capacity_export [OF assms(1)] references_export [OF assms(1,2)]
    restored_lengths [OF keys_ok_repo_ok [OF assms(1)]]
  show ?thesis by (simp add: settled_def from_snapshot_def)
qed

definition ex_event :: AuditEvent where
  "ex_event = \<lparr>e_event_id = ex_uuid CHR ''5'', e_run_id = ex_uuid CHR ''1'',
     e_type = AuditEventType.EXECUTION_REQUESTED, e_timestamp = 114,
     e_source = ''nz-remediation-orchestrator'', e_tool_name = Some ''stop_sandbox_instance'',
     e_model_id = None, e_redacted_payload_hash = ex_hash,
     e_metadata = [(''proposal_id'', ex_uuid CHR ''4''), (''trace_id'', ex_uuid CHR ''2''),
        (''correlation_id'', ex_uuid CHR ''3'')]\<rparr>"

lemma ex_event_plain: "plain_text (dumps (metadata_json (e_metadata ex_event)))"
  by (rule plain_metadata) (simp add: ex_event_def ex_uuid_def plain_word_def tame_chars_def sublist_code)

lemma ex_event_valid: "valid_audit_event ex_event"
proof -
  have "\<not> contains_sensitive_material (metadata_json (e_metadata ex_event))"
    using plain_text_clean [OF ex_event_plain] by (simp add: contains_sensitive_material_def metadata_json_def)
  moreover have "list_all (\<lambda>(k, v). \<not> list_ex (\<lambda>term. sublist term (map lower_char k)) SENSITIVE_TERMS)
      (e_metadata ex_event)" by code_simp
  moreover have "list_all (\<lambda>(k, v). short_identifier k \<and> non_empty_text v) (e_metadata ex_event)"
    by code_simp
  moreover have "short_identifier (e_source ex_event)" "optional short_identifier (e_tool_name ex_event)"
    by code_simp+
  ultimately show ?thesis
    by (simp add: valid_audit_event_def safe_metadata_def ex_event_def [THEN arg_cong [where f = e_event_id]])
      (simp add: ex_event_def)
qed

abbreviation ex_approved where
  "ex_approved i \<equiv> ex_repo WorkflowState.APPROVED 6 ex_waiting (Some ex_approval) (Some ex_checkpoint) i None"

definition ex_claimed :: Repo where
  "ex_claimed = ex_repo WorkflowState.EXECUTING 7 ex_waiting (Some ex_approval) (Some ex_checkpoint)
     (Some ex_registration) None"

definition ex_audited :: Repo where
  "ex_audited = ex_claimed\<lparr>d_audit_events := [((ex_uuid CHR ''1'', ex_uuid CHR ''5''), ex_event)]\<rparr>"

lemma ex_ok: "repo_ok ex_L (ex_approved None)" "repo_ok ex_L (ex_approved (Some ex_registration))"
  "repo_ok ex_L ex_claimed" "repo_ok ex_L ex_audited"
proof -
  show a: "repo_ok ex_L (ex_approved None)" "repo_ok ex_L (ex_approved (Some ex_registration))"
    "repo_ok ex_L ex_claimed"
    by (rule repo_ok_history [OF ex_history_ok], simp add: ex_history_eq ex_claimed_def)+
  have "repo_append_audit_event ex_event ex_claimed = (Inr ex_event, ex_audited)"
    by (simp add: repo_append_audit_event_def ex_audited_def ex_claimed_def ex_repo_def ex_event_def
        count_audit_events_def MAX_AUDIT_EVENTS_PER_RUN_def)
  from repo_ok_write [OF repo_write.append_audit_event [OF ex_event_valid this] a(3)]
  show "repo_ok ex_L ex_audited" .
qed

lemma ex_settled: "settled ex_L (ex_approved None)" "settled ex_L (ex_approved (Some ex_registration))"
  "settled ex_L ex_claimed" "settled ex_L ex_audited"
  by (rule settledI [OF ex_ok(1)] settledI [OF ex_ok(2)] settledI [OF ex_ok(3)] settledI [OF ex_ok(4)];
      simp add: no_orphans_def within_snapshot_bounds_def rows_sorted_def ex_audited_def ex_claimed_def
        ex_repo_def MAX_SNAPSHOT_RECORDS_def ex_proposal_def ex_checkpoint_def ex_event_def)+

subsection \<open>The process\<close>

definition ex_settings :: SandboxRemediationSettings where
  "ex_settings = \<lparr>rs_instance_id = ''i-00000001'', rs_required_tag_key = ''AIOACloudOpsSandbox'',
     rs_required_tag_value = ''true'', rs_region = ''eu-central-1'',
     rs_aws_mutations_enabled = True, rs_allow_live_sandbox_stop = True\<rparr>"

definition ex_described :: json where
  "ex_described = JObj [(''Reservations'', JArr [JObj [(''Instances'', JArr [JObj
     [(''InstanceId'', JStr ''i-00000001''), (''State'', JObj [(''Name'', JStr ''running'')]),
      (''RootDeviceType'', JStr ''ebs''),
      (''Tags'', JArr [JObj [(''Key'', JStr ''AIOACloudOpsSandbox''), (''Value'', JStr ''true'')]])]])]])]"

definition ex_refused :: json where
  "ex_refused = JObj [(''Error'', JObj [(''Code'', JStr ''DryRunOperation'')])]"

definition ex_process :: "Ec2Reply \<Rightarrow> Ec2World" where
  "ex_process answer = \<lparr>ec_log = [], ec_replies = [Response ex_described, Raised ex_refused, answer],
     ec_environment = [Inr (JStr ''false''), Inr (JStr ''false'')],
     ec_clock = [Utc 112, Utc 106, Utc 113, Utc 114, Utc 115, Utc 107, Utc 116],
     ec_event_ids = [ex_uuid CHR ''5'', ex_uuid CHR ''6'']\<rparr>"

definition ex_command :: StopExecutionCommand where
  "ex_command = \<lparr>sc_proposal_id = ex_uuid CHR ''4'', sc_run_id = ex_uuid CHR ''1'',
     sc_trace_id = ex_uuid CHR ''2'', sc_correlation_id = ex_uuid CHR ''3'',
     sc_action = Capability.STOP_SANDBOX_INSTANCE, sc_target = ex_target,
     sc_expected_precondition = p_expected_precondition ex_proposal, sc_evidence_hash = ex_hash,
     sc_approval_request_hash = ex_hash, sc_approval_actor_session_id = ''operator'',
     sc_approval_decision_nonce_hash = ex_hash, sc_idempotency_key = ex_key, sc_issued_at = 113\<rparr>"

lemma ex_scope: "single_instance ex_described = Inr (JObj
     [(''InstanceId'', JStr ''i-00000001''), (''State'', JObj [(''Name'', JStr ''running'')]),
      (''RootDeviceType'', JStr ''ebs''),
      (''Tags'', JArr [JObj [(''Key'', JStr ''AIOACloudOpsSandbox''), (''Value'', JStr ''true'')]])])"
  by code_simp

lemma ex_scope_ok: "check_scope ex_settings (JObj
     [(''InstanceId'', JStr ''i-00000001''), (''State'', JObj [(''Name'', JStr ''running'')]),
      (''RootDeviceType'', JStr ''ebs''),
      (''Tags'', JArr [JObj [(''Key'', JStr ''AIOACloudOpsSandbox''), (''Value'', JStr ''true'')]])])
   = Inr ()"
  by code_simp

lemma ex_code: "aws_error_code ex_refused = Some ''DryRunOperation''"
  by code_simp

lemma ex_enabled: "live_execution_enabled ex_settings" "\<not> outside_scope ex_settings ex_command"
  by code_simp+

text \<open>The state after the two harmless requests; what remains is the real stop.\<close>

definition ex_cleared :: "Ec2Reply \<Rightarrow> Ec2World \<Rightarrow> Ec2World" where
  "ex_cleared answer w = w\<lparr>ec_log := [(DescribeInstances [''i-00000001''], Response ex_described),
        (StopInstances [''i-00000001''] True, Raised ex_refused)],
      ec_replies := [answer], ec_environment := []\<rparr>"

lemma ex_executor:
  assumes "ec_log w = []" and "ec_replies w = [Response ex_described, Raised ex_refused, answer]"
    and "ec_environment w = [Inr (JStr ''false''), Inr (JStr ''false'')]"
  shows "executor_execute L ex_settings ex_command w =
    andThen (real_stop ex_settings) (\<lambda>(current, reference). andThen read_clock (\<lambda>now.
      lift (build_acknowledgement L ex_command current reference now))) (ex_cleared answer w)"
proof -
  have id: "rs_instance_id ex_settings = ''i-00000001''" by (simp add: ex_settings_def)
  have pre: "pc_instance_state (sc_expected_precondition ex_command) = ObservedInstanceState.RUNNING"
    by (simp add: ex_command_def ex_proposal_def)
  show ?thesis
    using assms
    by (simp add: executor_execute_def ex_enabled pre andThen_def describe_sandbox_def ec2_call_def id
        ex_scope ex_scope_ok lift_def assert_writes_enabled_def tryThen_def read_environment_def ret_def
        dry_run_def ex_code ex_cleared_def Let_def)
qed

definition ex_sent :: "Ec2Reply \<Rightarrow> Ec2World \<Rightarrow> Ec2World" where
  "ex_sent answer w = w\<lparr>ec_log := [(DescribeInstances [''i-00000001''], Response ex_described),
        (StopInstances [''i-00000001''] True, Raised ex_refused), (StopInstances [''i-00000001''] False, answer)],
      ec_replies := [], ec_environment := []\<rparr>"

lemma ex_call: "ec2_call (StopInstances [rs_instance_id ex_settings] False) (ex_cleared answer w)
    = (answer, ex_sent answer w)"
  by (simp add: ec2_call_def ex_cleared_def ex_sent_def ex_settings_def)

lemma ex_executor_dies:
  assumes "ec_log w = []" and "ec_replies w = [Response ex_described, Raised ex_refused, Died]"
    and "ec_environment w = [Inr (JStr ''false''), Inr (JStr ''false'')]"
  shows "executor_execute L ex_settings ex_command w = (Inl Killed, ex_sent Died w)"
  by (simp add: ex_executor [OF assms] andThen_def real_stop_def ex_call)

lemma ex_executor_ambiguous:
  "executor_execute ex_L ex_settings ex_command (ex_process (Raised JNull))
     = (Inl RemediationAmbiguousError, ex_sent (Raised JNull) (ex_process (Raised JNull)))"
proof -
  have "aws_error_code JNull = None" by code_simp
  then show ?thesis
    by (subst ex_executor [where answer = "Raised JNull"]) (simp_all add: ex_process_def andThen_def real_stop_def ex_call)
qed

definition ex_stopping :: json where
  "ex_stopping = JObj [(''StoppingInstances'', JArr [JObj [(''InstanceId'', JStr ''i-00000001''),
     (''PreviousState'', JObj [(''Name'', JStr ''running'')]),
     (''CurrentState'', JObj [(''Name'', JStr ''stopping'')])]])]"

lemma ex_executor_acknowledges:
  "\<exists>w'. executor_execute ex_L ex_settings ex_command (ex_process (Response ex_stopping))
     = (Inr (ex_acknowledgement\<lparr>k_acknowledged_at := 112\<rparr>), w') \<and> ec_log w' =
       [(DescribeInstances [''i-00000001''], Response ex_described),
        (StopInstances [''i-00000001''] True, Raised ex_refused),
        (StopInstances [''i-00000001''] False, Response ex_stopping)]"
proof -
  have r: "read_acknowledgement (rs_instance_id ex_settings) ex_stopping
      = Inr (ObservedInstanceState.STOPPING, None)" by code_simp
  have v: "valid_acknowledgement (ex_acknowledgement\<lparr>k_acknowledged_at := 112\<rparr>)" by code_simp
  have "build_acknowledgement ex_L ex_command ObservedInstanceState.STOPPING None (Utc 112)
      = Inr (ex_acknowledgement\<lparr>k_acknowledged_at := 112\<rparr>)"
    using v by (simp add: build_acknowledgement_def ex_command_def ex_acknowledgement_def)
  with r show ?thesis
    by (subst ex_executor [where answer = "Response ex_stopping"])
      (simp_all add: ex_process_def andThen_def real_stop_def ex_call read_clock_def lift_def ex_sent_def)
qed

subsection \<open>The run\<close>

abbreviation ex_system :: "StopSystem StopSandboxInstanceCoordinator" where
  "ex_system \<equiv> stop_system ex_L ex_settings"

abbreviation ex_pid :: uuid where
  "ex_pid \<equiv> ex_uuid CHR ''4''"

definition ex_start :: StopSystem where
  "ex_start = (store_at (ex_approved None), ex_process Died)"

lemma ex_reads:
  "fst (repo_get_proposal ex_pid (ex_approved i)) = Inr (Some (ex_proposal\<lparr>p_state := ProposalState.AWAITING_APPROVAL\<rparr>))"
  "fst (repo_get_approval ex_pid (ex_approved i)) = Inr (Some ex_approval)"
  "fst (repo_get_run (ex_uuid CHR ''1'') (ex_approved i)) = Inr (Some (ex_run_at WorkflowState.APPROVED 6))"
  "fst (repo_get_idempotency ex_key (ex_approved None)) = Inr None"
  "fst (repo_get_idempotency ex_key (ex_approved (Some ex_registration))) = Inr (Some ex_registration)"
  "fst (repo_get_checkpoint (ex_uuid CHR ''1'') (ex_approved i)) = Inr (Some ex_checkpoint)"
  by (simp_all add: repo_get_proposal_def repo_get_approval_def repo_get_run_def
      repo_get_idempotency_def repo_get_checkpoint_def ex_repo_def)

lemma ex_writes:
  "repo_register_idempotency ex_L ex_registration (ex_approved None)
     = (Inr ex_registration, ex_approved (Some ex_registration))"
  "repo_transition_run ex_L (ex_uuid CHR ''1'') WorkflowState.EXECUTING WorkflowState.APPROVED 6
     (Utc 106) None None (ex_approved (Some ex_registration))
     = (Inr (ex_run_at WorkflowState.EXECUTING 7), ex_claimed)"
  "repo_append_audit_event ex_event ex_claimed = (Inr ex_event, ex_audited)"
proof -
  show "repo_register_idempotency ex_L ex_registration (ex_approved None)
     = (Inr ex_registration, ex_approved (Some ex_registration))"
    by (simp add: repo_register_idempotency_def ex_repo_def ex_registration_def ex_approval_def
      ex_proposal_def ex_run_at_def)
  have "transition_run (ex_run_at WorkflowState.APPROVED 6) WorkflowState.EXECUTING (Utc 106)
      = Inr (ex_run_at WorkflowState.EXECUTING 7)"
    using ex_valid_run_at [of 7 WorkflowState.EXECUTING]
    by (simp add: transition_run_def validate_workflow_transition_def require_utc_def ex_run_at_def)
  then show "repo_transition_run ex_L (ex_uuid CHR ''1'') WorkflowState.EXECUTING WorkflowState.APPROVED 6
     (Utc 106) None None (ex_approved (Some ex_registration))
     = (Inr (ex_run_at WorkflowState.EXECUTING 7), ex_claimed)"
    by (simp add: repo_transition_run_def ex_guard_free ex_claimed_def) (simp add: ex_repo_def)
  show "repo_append_audit_event ex_event ex_claimed = (Inr ex_event, ex_audited)"
    by (simp add: repo_append_audit_event_def ex_audited_def ex_claimed_def ex_repo_def ex_event_def
        count_audit_events_def MAX_AUDIT_EVENTS_PER_RUN_def)
qed

lemma ex_fields:
  "p_state (ex_proposal\<lparr>p_state := s\<rparr>) = s" "p_proposal_id (ex_proposal\<lparr>p_state := s\<rparr>) = ex_pid"
  "p_run_id (ex_proposal\<lparr>p_state := s\<rparr>) = ex_uuid CHR ''1''" "a_decision ex_approval = ApprovalDecision.APPROVED"
  "p_evidence_hash (ex_proposal\<lparr>p_state := s\<rparr>) = ex_hash"
  "i_proposal_id ex_registration = ex_pid" "i_status ex_registration = IdempotencyStatus.REGISTERED"
  "i_action_fingerprint ex_registration = ex_hash"
  "r_run_id (ex_run_at ws v) = ex_uuid CHR ''1''" "c_last_safe_state ex_checkpoint = WorkflowState.APPROVED"
  "dget (c_tool_result_hashes ex_checkpoint) ''build_remediation_evidence'' = Some ex_hash"
  by (simp_all add: ex_proposal_def ex_approval_def ex_registration_def ex_run_at_def ex_run_def ex_checkpoint_def)

lemma ex_build:
  "build_idempotency_record ex_L (ex_proposal\<lparr>p_state := ProposalState.AWAITING_APPROVAL\<rparr>) (Utc 112)
     = Inr ex_registration"
  using ex_valid_registration
  by (simp add: build_idempotency_record_def ex_fields ex_registration_def)

lemma ex_command_built:
  "build_stop_execution_command ex_L
     \<lparr>pq_run = ex_run_at WorkflowState.APPROVED 6,
      pq_proposal = ex_proposal\<lparr>p_state := ProposalState.AWAITING_APPROVAL\<rparr>,
      pq_approval = ex_approval, pq_idempotency = ex_registration, pq_checkpoint = ex_checkpoint\<rparr>
     (Utc 113) = Inr ex_command"
proof -
  have "valid_command ex_command" by code_simp
  then show ?thesis
    by (simp add: build_stop_execution_command_def ex_command_def ex_fields ex_proposal_def
        ex_approval_def ex_registration_def ex_run_at_def ex_run_def example_platform_def ex_hash_def)
qed

lemma ex_records: "require_approved_records (store_side (file_repository ex_L)) ex_pid
     (store_at (ex_approved i), w)
   = (Inr (ex_run_at WorkflowState.APPROVED 6, ex_proposal\<lparr>p_state := ProposalState.AWAITING_APPROVAL\<rparr>,
        ex_approval), store_at (ex_approved i), w)"
  if "settled ex_L (ex_approved i)"
  using that
  by (simp add: require_approved_records_def store_side_def file_repository_def andThen_def read_at
      ex_reads ex_fields ret_def)

lemma ex_registered: "register_approved_action ex_L (store_side (file_repository ex_L)) ex_pid (Utc 112)
     (store_at (ex_approved None), w) = (Inr ex_registration, store_at (ex_approved (Some ex_registration)), w)"
  by (simp add: register_approved_action_def andThen_def ex_records ex_settled lift_def ex_build)
    (simp add: store_side_def file_repository_def write_at ex_settled ex_writes)

lemma ex_loaded: "load_execution_prerequisites ex_L (store_side (file_repository ex_L)) ex_pid
     (store_at (ex_approved (Some ex_registration)), w)
   = (Inr \<lparr>pq_run = ex_run_at WorkflowState.APPROVED 6,
      pq_proposal = ex_proposal\<lparr>p_state := ProposalState.AWAITING_APPROVAL\<rparr>,
      pq_approval = ex_approval, pq_idempotency = ex_registration, pq_checkpoint = ex_checkpoint\<rparr>,
      store_at (ex_approved (Some ex_registration)), w)"
  by (simp add: load_execution_prerequisites_def andThen_def ex_records ex_settled)
    (simp add: store_side_def file_repository_def read_at ex_settled ex_reads ex_fields ret_def andThen_def)

lemma ex_tick: "ec_clock w = t # ts \<Longrightarrow>
   on_process read_clock (f, w) = (Inr t, f, w\<lparr>ec_clock := ts\<rparr>)"
  by (simp add: on_process_def read_clock_def)

lemma ex_append: "stop_append_event ex_system (ex_run_at WorkflowState.EXECUTING 7)
     AuditEventType.EXECUTION_REQUESTED ex_hash [(''proposal_id'', ex_pid)]
     (store_at ex_claimed, w)
   = (Inr (), store_at ex_audited, w\<lparr>ec_event_ids := is, ec_clock := ts\<rparr>)"
  if "ec_event_ids w = ex_uuid CHR ''5'' # is" "ec_clock w = Utc 114 # ts"
proof -
  have md: "run_metadata (ex_run_at WorkflowState.EXECUTING 7) [(''proposal_id'', ex_pid)] = e_metadata ex_event"
    by (simp add: run_metadata_def dmerge_def ex_event_def ex_run_at_def ex_run_def)
  have ev: "\<lparr>e_event_id = ex_uuid CHR ''5'', e_run_id = ex_uuid CHR ''1'',
      e_type = AuditEventType.EXECUTION_REQUESTED, e_timestamp = 114,
      e_source = ''nz-remediation-orchestrator'', e_tool_name = Some ''stop_sandbox_instance'',
      e_model_id = None, e_redacted_payload_hash = ex_hash, e_metadata = e_metadata ex_event\<rparr> = ex_event"
    by (simp add: ex_event_def)
  have v: "validated valid_audit_event ex_event = Inr ex_event"
    by (simp add: validated_def ex_event_valid)
  show ?thesis
    using that
    by (simp add: stop_append_event_def emit_event_def stop_system_def andThen_def ex_tick
        on_process_def draw_event_id_def read_clock_def md ex_fields ev v
        store_side_def file_repository_def write_at ex_settled ex_writes ret_def)
qed

lemma ex_claim: "stop_claim_execution ex_L ex_system
     (ex_proposal\<lparr>p_state := ProposalState.AWAITING_APPROVAL\<rparr>) ex_pid (store_at (ex_approved None), ex_process a)
   = (Inr (ex_registration, ex_run_at WorkflowState.EXECUTING 7, ex_command), store_at ex_audited,
      (ex_process a)\<lparr>ec_clock := [Utc 115, Utc 107, Utc 116], ec_event_ids := [ex_uuid CHR ''6'']\<rparr>)"
proof -
  have co: "co_clock ex_system = on_process read_clock" "co_repository ex_system = store_side (file_repository ex_L)"
    by (simp_all add: stop_system_def)
  have move: "op_transition_run (store_side (file_repository ex_L)) (ex_uuid CHR ''1'') WorkflowState.EXECUTING
      WorkflowState.APPROVED 6 (Utc 106) None None (store_at (ex_approved (Some ex_registration)), w)
      = (Inr (ex_run_at WorkflowState.EXECUTING 7), store_at ex_claimed, w)" for w :: Ec2World
    by (simp add: store_side_def file_repository_def write_at ex_settled ex_writes)
  show ?thesis
    by (simp add: stop_claim_execution_def andThen_def co ex_tick ex_process_def ex_registered ex_loaded
        move ex_fields lift_def ex_command_built ex_append ret_def)
qed

lemma ex_stop: "stop_execute ex_L ex_system ex_pid ex_start
   = (Inl Killed, store_at ex_audited,
      ex_sent Died ((ex_process Died)\<lparr>ec_clock := [Utc 115, Utc 107, Utc 116], ec_event_ids := [ex_uuid CHR ''6'']\<rparr>))"
proof -
  have co: "co_repository ex_system = store_side (file_repository ex_L)"
    "co_executor ex_system = (\<lambda>c. on_process (executor_execute ex_L ex_settings c))"
    by (simp_all add: stop_system_def)
  have r: "op_get_proposal (store_side (file_repository ex_L)) ex_pid (store_at (ex_approved None), w)
      = (Inr (Some (ex_proposal\<lparr>p_state := ProposalState.AWAITING_APPROVAL\<rparr>)), store_at (ex_approved None), w)"
    "op_get_idempotency (store_side (file_repository ex_L)) ex_key (store_at (ex_approved None), w)
      = (Inr None, store_at (ex_approved None), w)" for w :: Ec2World
    by (simp_all add: store_side_def file_repository_def read_at ex_settled ex_reads)
  have d: "on_process (executor_execute ex_L ex_settings ex_command) (f, (ex_process Died)\<lparr>ec_clock := ts, ec_event_ids := is\<rparr>)
      = (Inl Killed, f, ex_sent Died ((ex_process Died)\<lparr>ec_clock := ts, ec_event_ids := is\<rparr>))" for f :: FileWorld and ts "is"
    unfolding on_process_def prod.case
    by (subst ex_executor_dies) (simp_all add: ex_process_def)
  show ?thesis
    by (simp add: stop_execute_def co tryThen_def ex_start_def r stop_execute_unclaimed_def ex_claim
        stop_run_executor_def d)
qed

subsection \<open>Witnesses\<close>

lemma ex_authorized: "authorized_claim ex_L (ex_approved (Some ex_registration)) ex_claimed ex_pid ex_command"
proof -
  let ?p = "ex_proposal\<lparr>p_state := ProposalState.AWAITING_APPROVAL\<rparr>"
  have cmd: "valid_command ex_command" by code_simp
  have ids: "sc_run_id ex_command = ex_uuid CHR ''1''" by (simp add: ex_command_def)
  have stored: "dget (d_proposals (ex_approved (Some ex_registration))) ex_pid = Some ?p"
    "dget (d_approvals (ex_approved (Some ex_registration))) ex_pid = Some ex_approval"
    "dget (d_idempotency (ex_approved (Some ex_registration))) ex_key = Some ex_registration"
    by (simp_all add: ex_repo_def)
  have bound: "validate_approval_binding ex_proposal ex_approval = Inr ()"
    by (simp add: validate_approval_binding_def ex_approval_def ex_proposal_def)
  have fields: "sc_proposal_id ex_command = ex_pid" "sc_action ex_command = p_action ?p"
    "sc_target ex_command = p_target ?p"
    "sc_expected_precondition ex_command = p_expected_precondition ?p"
    "sc_evidence_hash ex_command = p_evidence_hash ?p"
    "sc_approval_request_hash ex_command = a_request_hash ex_approval"
    "sc_approval_actor_session_id ex_command = a_actor_session_id ex_approval"
    "sc_idempotency_key ex_command = ex_key"
    by (simp_all add: ex_command_def ex_proposal_def ex_approval_def)
  show ?thesis
    unfolding authorized_claim_def ids
    by (intro exI [of _ ?p] exI [of _ ex_approval] exI [of _ ex_registration] exI [of _ 6]
        exI [of _ "Utc 106"] exI [of _ "ex_run_at WorkflowState.EXECUTING 7"])
      (simp add: ex_writes(2) stored bound fields cmd ex_fields)
qed

lemma ex_stops: "stops_sent (store_at d, ex_process a) = []"
  "stops_sent (store_at d, ex_sent Died w) = [(StopInstances [''i-00000001''] False, Died)]"
  by (simp_all add: stops_sent_def real_stops_def ex_process_def ex_sent_def)

lemma ex_start_ok: "repo_ok ex_L (truth ex_start)"
  by (simp add: ex_start_def truth_at [OF ex_settled(1)] ex_ok)

theorem stop_sent_only_after_claim_witness:
  "stops_sent (snd (stop_execute ex_L ex_system ex_pid ex_start)) \<noteq> stops_sent ex_start
   \<and> (\<exists>c d d'. later ex_L (truth ex_start) d \<and> authorized_claim ex_L d d' ex_pid c)"
  using stop_sent_only_after_claim [OF ex_stop ex_start_ok] ex_stop
  by (auto simp: ex_stops) (simp_all add: ex_start_def ex_stops)

theorem registered_action_never_restopped_witness:
  "stops_sent (snd (stop_execute ex_L ex_system ex_pid (store_at ex_audited, ex_process Died)))
   = stops_sent (store_at ex_audited, ex_process Died)"
  by (rule registered_action_never_restopped [where p = "ex_proposal\<lparr>p_state := ProposalState.AWAITING_APPROVAL\<rparr>"
        and i = ex_registration, OF surjective_pairing])
    (simp_all add: truth_at [OF ex_settled(4)] ex_audited_def [THEN arg_cong [where f = d_proposals]]
      ex_audited_def [THEN arg_cong [where f = d_idempotency]] ex_claimed_def ex_repo_def)


theorem run_claimed_at_most_once_witness:
  "\<not> (\<exists>e' pid' c'. authorized_claim ex_L ex_claimed e' pid' c' \<and> sc_run_id c' = sc_run_id ex_command)"
  by (rule run_claimed_at_most_once [OF ex_authorized rtranclp.rtrancl_refl])


theorem executor_failure_classes_witness:
  "real_stops (ex_sent (Raised JNull) (ex_process (Raised JNull)))
     = [(StopInstances [''i-00000001''] False, Raised JNull)]
   \<and> real_stops (ex_process Died) = []"
  using executor_failure_classes [OF ex_executor_ambiguous]
  by (simp add: real_stops_def ex_process_def ex_sent_def ex_command_def ex_target_def)

theorem executor_acknowledges_target_witness:
  "\<exists>answer t. mapping_get answer ''StoppingInstances'' = JArr [t]
     \<and> mapping_get t ''InstanceId'' = JStr (tg_resource_id ex_target)"
proof -
  obtain w' where "executor_execute ex_L ex_settings ex_command (ex_process (Response ex_stopping))
     = (Inr (ex_acknowledgement\<lparr>k_acknowledged_at := 112\<rparr>), w')"
    using ex_executor_acknowledges by blast
  from executor_acknowledges_target [OF this] show ?thesis
    by (auto simp: ex_acknowledgement_def)
qed

definition ex_environment :: "(string, string) dict" where
  "ex_environment = [(''SANDBOX_INSTANCE_ID'', ''i-00000001''), (''AWS_MUTATIONS_ENABLED'', ''True''),
     (''AIOA_ALLOW_LIVE_SANDBOX_STOP'', ''true'')]"

theorem live_execution_explicit_witness:
  "switched_on ex_environment ''AWS_MUTATIONS_ENABLED''
   \<and> switched_on ex_environment ''AIOA_ALLOW_LIVE_SANDBOX_STOP''"
proof -
  have "settings_from_environment ex_environment = Inr ex_settings" by code_simp
  from live_execution_explicit [OF this] show ?thesis by (simp add: ex_enabled)
qed

theorem snapshot_roundtrip_witness:
  "\<exists>d'. from_snapshot ex_L (export_snapshot ex_audited) = Inr d' \<and> same_records ex_audited d'
     \<and> export_snapshot d' = export_snapshot ex_audited"
  by (rule snapshot_roundtrip [OF ex_ok(4)])
    (simp_all add: no_orphans_def within_snapshot_bounds_def ex_audited_def ex_claimed_def
        ex_repo_def MAX_SNAPSHOT_RECORDS_def ex_proposal_def ex_checkpoint_def ex_event_def)

lemma ex_first_write: "file_mutate ex_L (run_call ex_L (CreateRun ex_run)) Quiet Absent
   = (Inr (), Sealed (export_snapshot (ex_repo WorkflowState.RECEIVED 1 None None None None None)))"
  by (simp add: file_mutate_def load_file_def discard_def andThen_def ret_def repo_create_run_def empty_repo_def
      MAX_DURABLE_RUNS_def ex_repo_def ex_run_at_def ex_run_def)


theorem local_store_refines_memory_witness:
  "\<exists>d'. run_call ex_L (CreateRun ex_run) empty_repo = (Inr (), d')
     \<and> same_records d' (restored (export_snapshot (ex_repo WorkflowState.RECEIVED 1 None None None None None)))"
  using local_store_refines_memory [OF _ ex_first_write] by (simp add: ex_valid_run file_view_def)


theorem prerequisites_exact_witness:
  "\<exists>q. load_execution_prerequisites ex_L (mem_repository ex_L) ex_pid (ex_approved (Some ex_registration))
     = (Inr q, ex_approved (Some ex_registration)) \<and> pq_approval q = ex_approval"
proof -
  let ?q = "\<lparr>pq_run = ex_run_at WorkflowState.APPROVED 6,
      pq_proposal = ex_proposal\<lparr>p_state := ProposalState.AWAITING_APPROVAL\<rparr>,
      pq_approval = ex_approval, pq_idempotency = ex_registration, pq_checkpoint = ex_checkpoint\<rparr>"
  have "load_execution_prerequisites ex_L (mem_repository ex_L) ex_pid (ex_approved (Some ex_registration))
     = (Inr ?q, ex_approved (Some ex_registration))"
    by (subst prerequisites_exact [OF ex_ok(2)]) (simp add: ex_repo_def ex_fields)
  then show ?thesis by (intro exI [of _ ?q]) simp
qed

end
