(* ===== verification/Policy_Examples.thy ===== *)
theory Policy_Examples
  imports Policy Stop_Examples
begin

text \<open>
  The policy over the file-backed store: the claim that a stop is allowed only on a durable
  approval, and concrete evaluations of the policy.
\<close>

lemma stop_tool: "tool_lookup TOOL_CAPABILITY (JStr ''stop_sandbox_instance'') = Some Capability.STOP_SANDBOX_INSTANCE"
  by code_simp


subsection \<open>Concrete requests\<close>

definition ex_policy :: "FileWorld DefaultDenyToolPolicy" where
  "ex_policy = \<lparr>po_identity = \<lparr>id_run_id = ex_uuid CHR ''1'', id_trace_id = ex_uuid CHR ''2'',
       id_correlation_id = ex_uuid CHR ''3''\<rparr>,
     po_target = \<lparr>st_instance_id = ''i-00000001'', st_region = ''eu-central-1'',
       st_required_tag_key = ''AIOACloudOpsSandbox'', st_required_tag_value = ''true''\<rparr>,
     po_repository = Some (file_repository ex_L)\<rparr>"

lemma ex_store_reads:
  assumes "settled L d"
  shows "op_get_proposal (file_repository L) pid (store_at d) = (Inr (dget (d_proposals d) pid), store_at d)"
    and "op_get_run (file_repository L) rid (store_at d) = (Inr (dget (d_runs d) rid), store_at d)"
    and "op_get_approval (file_repository L) pid (store_at d) = (Inr (dget (d_approvals d) pid), store_at d)"
  using assms by (simp_all add: file_repository_def file_call_def store_at_def file_read_def load_file_def
      settled_def repo_get_run_def repo_get_proposal_def repo_get_approval_def)

lemma ex_context: "same_context ex_policy (ex_proposal\<lparr>p_state := ProposalState.AWAITING_APPROVAL\<rparr>)
    (ex_run_at WorkflowState.APPROVED 6)"
  by code_simp

lemma ex_approval_fits: "approval_fits (ex_proposal\<lparr>p_state := ProposalState.AWAITING_APPROVAL\<rparr>) ex_approval"
  by code_simp


abbreviation ex_stop_input where
  "ex_stop_input \<equiv> JObj [(''proposal_id'', JStr (ex_uuid CHR ''4''))]"

lemma ex_stop_policy:
  "policy_evaluate ex_policy (JStr ''stop_sandbox_instance'') ex_stop_input (store_at (ex_approved None))
   = (Inr \<lparr>pd_disposition = ALLOW, pd_capability = Some Capability.STOP_SANDBOX_INSTANCE,
       pd_authority = Some AuthorityGate.PLAN_AND_CONFIRM, pd_terminal_state = None, pd_failure = None\<rparr>,
      store_at (ex_approved None))"
proof -
  have pid: "correlation_id_of (JStr (ex_uuid CHR ''4'')) = Inr ex_pid"
    by (rule correlation_id_canonical) simp
  have read: "read_context (file_repository ex_L) ex_pid (ex_uuid CHR ''1'') (store_at (ex_approved None))
      = (Inr (Some (ex_proposal\<lparr>p_state := ProposalState.AWAITING_APPROVAL\<rparr>),
           Some (ex_run_at WorkflowState.APPROVED 6), Some ex_approval), store_at (ex_approved None))"
    by (simp add: read_context_def andThen_def ret_def ex_store_reads [OF ex_settled(1)])
      (simp add: ex_repo_def)
  have "durable_context ex_policy Capability.STOP_SANDBOX_INSTANCE ex_pid (store_at (ex_approved None))
      = (Inr (Inr \<lparr>dc_proposal = ex_proposal\<lparr>p_state := ProposalState.AWAITING_APPROVAL\<rparr>,
           dc_run = ex_run_at WorkflowState.APPROVED 6, dc_approval = Some ex_approval\<rparr>),
         store_at (ex_approved None))"
    using read ex_context ex_approval_fits
    by (simp add: durable_context_def tryThen_def ret_def ex_policy_def [THEN arg_cong [where f = po_repository]]
        ex_policy_def [THEN arg_cong [where f = po_identity]])
  then have "evaluate_stop ex_policy ex_pid (store_at (ex_approved None))
      = permit_decision ALLOW Capability.STOP_SANDBOX_INSTANCE AuthorityGate.PLAN_AND_CONFIRM
          (store_at (ex_approved None))"
    by (simp add: evaluate_stop_def andThen_def approved_decision_def ex_fields)
  with pid show ?thesis
    by (simp add: policy_evaluate_def stop_tool INSTANCE_TOOLS_def jget_def permit_decision_def lift_def
        validated_def valid_policy_decision_def)
qed

theorem policy_default_deny_witness:
  "\<exists>c fields. JStr ''stop_sandbox_instance'' = JStr (Capability_value c) \<and> ex_stop_input = JObj fields
    \<and> fst ` set fields = {''proposal_id''} \<and> c \<notin> INSTANCE_TOOLS"
proof -
  from policy_default_deny [OF ex_stop_policy] obtain c fields where
    c: "JStr ''stop_sandbox_instance'' = JStr (Capability_value c)" "ex_stop_input = JObj fields" by auto
  then have "c = Capability.STOP_SANDBOX_INSTANCE" by (cases c) simp_all
  with c show ?thesis by (intro exI [of _ c] exI [of _ fields]) (auto simp: INSTANCE_TOOLS_def)
qed


end
