(* ===== verification/Circuit.thy ===== *)
theory Circuit
  imports Complex_Main Prelude
begin

text \<open>
  \<open>safety/circuit.py\<close>: the circuit breaker that the read services of one process share. Every
  operation runs under one lock, so threads interleave whole operations. Clock values are
  finite numbers, taken exactly; an unusable reading (not a number, infinite, or an exception
  of the clock) is \<open>None\<close>.
\<close>

subsection \<open>State and settings\<close>

datatype CircuitState = CLOSED | OPEN | HALF_OPEN

datatype CircuitDependency = BEDROCK_MODEL | EC2_READ | CLOUDWATCH_READ | VERIFICATION_READ

record CircuitBreakerSettings =
  cb_failure_threshold :: int
  cb_cooldown_seconds :: rat
  cb_max_half_open_probes :: int

definition valid_circuit_settings :: "CircuitBreakerSettings \<Rightarrow> bool" where
  "valid_circuit_settings c \<longleftrightarrow> 1 \<le> cb_failure_threshold c \<and> cb_failure_threshold c \<le> 10
     \<and> 0 < cb_cooldown_seconds c \<and> cb_cooldown_seconds c \<le> 300 \<and> cb_max_half_open_probes c = 1"

definition default_circuit_settings :: CircuitBreakerSettings where
  "default_circuit_settings =
     \<lparr>cb_failure_threshold = 2, cb_cooldown_seconds = 30, cb_max_half_open_probes = 1\<rparr>"

record CircuitPermit =
  cp_dependency :: CircuitDependency
  cp_generation :: int
  cp_half_open :: bool

record DependencyState =
  ds_state :: CircuitState
  ds_failures :: int
  ds_retry_at :: "rat option"
  ds_generation :: int
  ds_probe :: bool

definition initial_state :: DependencyState where
  "initial_state = \<lparr>ds_state = CLOSED, ds_failures = 0, ds_retry_at = None, ds_generation = 0,
     ds_probe = False\<rparr>"

record CircuitSnapshot =
  sn_dependency :: CircuitDependency
  sn_state :: CircuitState
  sn_failures :: int
  sn_probe :: bool

type_synonym Breaker = "(CircuitDependency, DependencyState) dict"

subsection \<open>Operations\<close>

definition state_consistent :: "DependencyState \<Rightarrow> bool" where
  "state_consistent s \<longleftrightarrow> 0 \<le> ds_generation s \<and> 0 \<le> ds_failures s
     \<and> (case ds_state s of
          CLOSED \<Rightarrow> ds_retry_at s = None \<and> \<not> ds_probe s
        | OPEN \<Rightarrow> ds_retry_at s \<noteq> None \<and> \<not> ds_probe s
        | HALF_OPEN \<Rightarrow> ds_retry_at s \<noteq> None \<and> ds_probe s)"

text \<open>\<open>_state\<close>: \<open>setdefault\<close> inserts the initial state, then the shape is checked.\<close>

definition load_state :: "CircuitDependency \<Rightarrow> (Breaker, DependencyState) prog" where
  "load_state dep b =
     (let s = (case dget b dep of None \<Rightarrow> initial_state | Some s \<Rightarrow> s);
          b' = dput dep s b
      in if state_consistent s then (Inr s, b') else (Inl CircuitStateUnavailableError, b'))"

definition store_state :: "CircuitDependency \<Rightarrow> DependencyState \<Rightarrow> (Breaker, unit) prog" where
  "store_state dep s b = (Inr (), dput dep s b)"

definition opened :: "CircuitBreakerSettings \<Rightarrow> rat \<Rightarrow> DependencyState \<Rightarrow> DependencyState" where
  "opened c now s = s\<lparr>ds_state := OPEN, ds_retry_at := Some (now + cb_cooldown_seconds c),
     ds_probe := False, ds_generation := ds_generation s + 1\<rparr>"

definition safe_now :: "rat option \<Rightarrow> exc + rat" where
  "safe_now reading = (case reading of None \<Rightarrow> Inl CircuitStateUnavailableError | Some t \<Rightarrow> Inr t)"

definition acquire :: "CircuitDependency \<Rightarrow> rat option \<Rightarrow> (Breaker, CircuitPermit) prog" where
  "acquire dep reading =
     andThen (lift (safe_now reading)) (\<lambda>now.
     andThen (load_state dep) (\<lambda>s.
     case ds_state s of
       CLOSED \<Rightarrow> ret \<lparr>cp_dependency = dep, cp_generation = ds_generation s, cp_half_open = False\<rparr>
     | OPEN \<Rightarrow> (case ds_retry_at s of
           None \<Rightarrow> raise CircuitStateUnavailableError
         | Some retry_at \<Rightarrow>
             if now < retry_at then raise CircuitOpenError
             else andThen (store_state dep (s\<lparr>ds_state := HALF_OPEN, ds_probe := True,
                      ds_generation := ds_generation s + 1\<rparr>)) (\<lambda>_.
                  ret \<lparr>cp_dependency = dep, cp_generation = ds_generation s + 1, cp_half_open = True\<rparr>))
     | HALF_OPEN \<Rightarrow> raise CircuitOpenError))"

text \<open>\<open>_validate_permit\<close>.\<close>

definition check_permit :: "CircuitPermit \<Rightarrow> exc + CircuitPermit" where
  "check_permit p = (if cp_generation p < 0 then Inl TypeError else Inr p)"

definition record_transient_failure ::
    "CircuitBreakerSettings \<Rightarrow> CircuitPermit \<Rightarrow> rat option \<Rightarrow> (Breaker, unit) prog" where
  "record_transient_failure c permit reading =
     andThen (lift (check_permit permit)) (\<lambda>p.
     andThen (lift (safe_now reading)) (\<lambda>now.
     andThen (load_state (cp_dependency p)) (\<lambda>s.
       if cp_generation p \<noteq> ds_generation s then ret ()
       else if cp_half_open p then
         (if ds_state s \<noteq> HALF_OPEN \<or> \<not> ds_probe s then raise CircuitStateUnavailableError
          else store_state (cp_dependency p) (opened c now s))
       else if ds_state s \<noteq> CLOSED then ret ()
       else
         (let counted = s\<lparr>ds_failures := ds_failures s + 1\<rparr> in
          store_state (cp_dependency p)
            (if cb_failure_threshold c \<le> ds_failures counted then opened c now counted
             else counted)))))"

definition record_non_transient :: "CircuitPermit \<Rightarrow> (Breaker, unit) prog" where
  "record_non_transient permit =
     andThen (lift (check_permit permit)) (\<lambda>p.
     andThen (load_state (cp_dependency p)) (\<lambda>s.
       if cp_generation p \<noteq> ds_generation s then ret ()
       else if cp_half_open p \<and> (ds_state s \<noteq> HALF_OPEN \<or> \<not> ds_probe s)
         then raise CircuitStateUnavailableError
       else if \<not> cp_half_open p \<and> ds_state s \<noteq> CLOSED then ret ()
       else store_state (cp_dependency p)
         (s\<lparr>ds_state := CLOSED, ds_failures := 0, ds_retry_at := None, ds_probe := False,
            ds_generation := (if cp_half_open p then ds_generation s + 1 else ds_generation s)\<rparr>)))"

definition record_success :: "CircuitPermit \<Rightarrow> (Breaker, unit) prog" where
  "record_success = record_non_transient"

definition record_permanent_outcome :: "CircuitPermit \<Rightarrow> (Breaker, unit) prog" where
  "record_permanent_outcome = record_non_transient"

definition snapshot :: "CircuitDependency \<Rightarrow> (Breaker, CircuitSnapshot) prog" where
  "snapshot dep = andThen (load_state dep) (\<lambda>s.
     ret \<lparr>sn_dependency = dep, sn_state = ds_state s, sn_failures = ds_failures s,
          sn_probe = ds_probe s\<rparr>)"

subsection \<open>The breaker under interleaving threads\<close>

text \<open>
  One operation of some thread. \<open>held\<close> are the permits handed out and not yet reported; a
  thread reports a permit it holds once, and may also lose it without a report.
\<close>

record Traffic =
  tf_breaker :: Breaker
  tf_held :: "CircuitPermit list"
  tf_probes :: "CircuitPermit list"

inductive traffic_step :: "CircuitBreakerSettings \<Rightarrow> Traffic \<Rightarrow> Traffic \<Rightarrow> bool" for c where
  acquired: "acquire dep reading (tf_breaker t) = (Inr p, b) \<Longrightarrow>
     traffic_step c t (t\<lparr>tf_breaker := b, tf_held := p # tf_held t,
       tf_probes := (if cp_half_open p then p # tf_probes t else tf_probes t)\<rparr>)"
| refused: "acquire dep reading (tf_breaker t) = (Inl e, b) \<Longrightarrow>
     traffic_step c t (t\<lparr>tf_breaker := b\<rparr>)"
| failed: "p \<in> set (tf_held t) \<Longrightarrow>
     record_transient_failure c p reading (tf_breaker t) = (x, b) \<Longrightarrow>
     traffic_step c t (t\<lparr>tf_breaker := b, tf_held := remove1 p (tf_held t)\<rparr>)"
| answered: "p \<in> set (tf_held t) \<Longrightarrow> record_non_transient p (tf_breaker t) = (x, b) \<Longrightarrow>
     traffic_step c t (t\<lparr>tf_breaker := b, tf_held := remove1 p (tf_held t)\<rparr>)"
| lost: "p \<in> set (tf_held t) \<Longrightarrow> traffic_step c t (t\<lparr>tf_held := remove1 p (tf_held t)\<rparr>)"
| observed: "snapshot dep (tf_breaker t) = (x, b) \<Longrightarrow> traffic_step c t (t\<lparr>tf_breaker := b\<rparr>)"

definition idle :: Traffic where
  "idle = \<lparr>tf_breaker = [], tf_held = [], tf_probes = []\<rparr>"

definition state_of :: "Breaker \<Rightarrow> CircuitDependency \<Rightarrow> DependencyState" where
  "state_of b dep = (case dget b dep of None \<Rightarrow> initial_state | Some s \<Rightarrow> s)"

subsection \<open>Effects on one dependency\<close>

lemma load_state_eq: "load_state dep b =
   (if state_consistent (state_of b dep) then Inr (state_of b dep) else Inl CircuitStateUnavailableError,
    dput dep (state_of b dep) b)"
  by (simp add: load_state_def state_of_def Let_def)

lemma state_of_put: "state_of (dput dep s b) = (state_of b)(dep := s)"
  by (rule ext) (simp add: state_of_def)

lemma acquire_cases:
  assumes "acquire dep reading b = (r, b')"
  obtains (closed) "ds_state (state_of b dep) = CLOSED" "state_of b' = state_of b"
      "r = Inr \<lparr>cp_dependency = dep, cp_generation = ds_generation (state_of b dep), cp_half_open = False\<rparr>"
    | (probe) retry_at now where "ds_state (state_of b dep) = OPEN" "reading = Some now"
      "ds_retry_at (state_of b dep) = Some retry_at" "retry_at \<le> now"
      "state_of b' = (state_of b)(dep := (state_of b dep)\<lparr>ds_state := HALF_OPEN, ds_probe := True,
                      ds_generation := ds_generation (state_of b dep) + 1\<rparr>)"
      "r = Inr \<lparr>cp_dependency = dep, cp_generation = ds_generation (state_of b dep) + 1, cp_half_open = True\<rparr>"
    | (refused) e where "r = Inl e" "state_of b' = state_of b"
      "e = CircuitOpenError \<or> (e = CircuitStateUnavailableError
         \<and> (reading = None \<or> \<not> state_consistent (state_of b dep)))"
proof (cases "reading = None \<or> \<not> state_consistent (state_of b dep)")
  case True
  then have "r = Inl CircuitStateUnavailableError \<and> state_of b' = state_of b"
    using assms by (auto simp: acquire_def andThen_def lift_def safe_now_def load_state_eq state_of_put
        split: option.splits)
  with True show ?thesis by (intro refused) auto
next
  case False
  then obtain now where now: "reading = Some now" and ok: "state_consistent (state_of b dep)" by auto
  note run = assms [unfolded acquire_def andThen_def lift_def safe_now_def now load_state_eq if_P [OF ok]
      option.case sum.case prod.case]
  show ?thesis
  proof (cases "ds_state (state_of b dep)")
    case CLOSED
    with run show ?thesis by (intro closed) (auto simp: ret_def state_of_put)
  next
    case OPEN
    with ok obtain retry_at where r: "ds_retry_at (state_of b dep) = Some retry_at"
      by (auto simp: state_consistent_def)
    show ?thesis
    proof (cases "now < retry_at")
      case True
      with run OPEN r show ?thesis
        by (intro refused [of CircuitOpenError]) (auto simp: raise_def state_of_put)
    next
      case False
      with run OPEN r show ?thesis
        by (intro probe [of now retry_at] now) (auto simp: ret_def store_state_def state_of_put)
    qed
  next
    case HALF_OPEN
    with run show ?thesis
      by (intro refused [of CircuitOpenError]) (auto simp: raise_def state_of_put)
  qed
qed

lemma failure_cases:
  assumes "record_transient_failure c p reading b = (r, b')"
  obtains (unchanged) "state_of b' = state_of b"
      "cp_generation p \<noteq> ds_generation (state_of b (cp_dependency p)) \<or> r \<noteq> Inr () \<or>
       \<not> cp_half_open p \<and> ds_state (state_of b (cp_dependency p)) \<noteq> CLOSED"
    | (reopened) now where "cp_half_open p" "reading = Some now"
      "cp_generation p = ds_generation (state_of b (cp_dependency p))"
      "ds_state (state_of b (cp_dependency p)) = HALF_OPEN" "r = Inr ()"
      "state_of b' = (state_of b)(cp_dependency p := opened c now (state_of b (cp_dependency p)))"
    | (counted) now where "\<not> cp_half_open p" "reading = Some now"
      "cp_generation p = ds_generation (state_of b (cp_dependency p))"
      "ds_state (state_of b (cp_dependency p)) = CLOSED" "r = Inr ()"
      "state_of b' = (state_of b)(cp_dependency p :=
         (let s = state_of b (cp_dependency p); counted = s\<lparr>ds_failures := ds_failures s + 1\<rparr> in
          if cb_failure_threshold c \<le> ds_failures counted then opened c now counted else counted))"
proof (cases "cp_generation p < 0 \<or> reading = None \<or> \<not> state_consistent (state_of b (cp_dependency p))")
  case True
  then have "(\<exists>e. r = Inl e) \<and> state_of b' = state_of b"
    using assms by (auto simp: record_transient_failure_def check_permit_def andThen_def lift_def
        safe_now_def load_state_eq state_of_put split: option.splits if_splits)
  then show ?thesis by (intro unchanged) auto
next
  case False
  then obtain now where now: "reading = Some now" and gen: "\<not> cp_generation p < 0"
    and ok: "state_consistent (state_of b (cp_dependency p))" by auto
  note run = assms [unfolded record_transient_failure_def check_permit_def if_not_P [OF gen] andThen_def
      lift_def safe_now_def now load_state_eq if_P [OF ok] option.case sum.case prod.case]
  show ?thesis
  proof (cases "cp_generation p = ds_generation (state_of b (cp_dependency p))")
    case False
    with run show ?thesis by (intro unchanged) (auto simp: ret_def state_of_put)
  next
    case current: True
    show ?thesis
    proof (cases "cp_half_open p")
      case half: True
      show ?thesis
      proof (cases "ds_state (state_of b (cp_dependency p)) = HALF_OPEN")
        case True
        with ok have "ds_probe (state_of b (cp_dependency p))" by (simp add: state_consistent_def)
        with True run current half show ?thesis
          by (intro reopened [OF half now current True]) (auto simp: store_state_def state_of_put)
      next
        case False
        with run current half show ?thesis by (intro unchanged) (auto simp: raise_def state_of_put)
      qed
    next
      case full: False
      show ?thesis
      proof (cases "ds_state (state_of b (cp_dependency p)) = CLOSED")
        case True
        with run current full show ?thesis
          by (intro counted [OF full now current True]) (auto simp: store_state_def state_of_put Let_def)
      next
        case False
        with run current full show ?thesis by (intro unchanged) (auto simp: ret_def state_of_put)
      qed
    qed
  qed
qed

lemma answer_cases:
  assumes "record_non_transient p b = (r, b')"
  obtains (unchanged) "state_of b' = state_of b"
      "cp_generation p \<noteq> ds_generation (state_of b (cp_dependency p)) \<or> r \<noteq> Inr () \<or>
       \<not> cp_half_open p \<and> ds_state (state_of b (cp_dependency p)) \<noteq> CLOSED"
    | (closed) "cp_generation p = ds_generation (state_of b (cp_dependency p))" "r = Inr ()"
      "ds_state (state_of b (cp_dependency p)) = (if cp_half_open p then HALF_OPEN else CLOSED)"
      "state_of b' = (state_of b)(cp_dependency p := (let s = state_of b (cp_dependency p) in
         s\<lparr>ds_state := CLOSED, ds_failures := 0, ds_retry_at := None, ds_probe := False,
            ds_generation := (if cp_half_open p then ds_generation s + 1 else ds_generation s)\<rparr>))"
proof (cases "cp_generation p < 0 \<or> \<not> state_consistent (state_of b (cp_dependency p))")
  case True
  then have "(\<exists>e. r = Inl e) \<and> state_of b' = state_of b"
    using assms by (auto simp: record_non_transient_def check_permit_def andThen_def lift_def
        load_state_eq state_of_put split: if_splits)
  then show ?thesis by (intro unchanged) auto
next
  case False
  then have gen: "\<not> cp_generation p < 0" and ok: "state_consistent (state_of b (cp_dependency p))" by auto
  note run = assms [unfolded record_non_transient_def check_permit_def if_not_P [OF gen] andThen_def
      lift_def load_state_eq if_P [OF ok] option.case sum.case prod.case]
  show ?thesis
  proof (cases "cp_generation p = ds_generation (state_of b (cp_dependency p))")
    case False
    with run show ?thesis by (intro unchanged) (auto simp: ret_def state_of_put)
  next
    case current: True
    show ?thesis
    proof (cases "ds_state (state_of b (cp_dependency p)) = (if cp_half_open p then HALF_OPEN else CLOSED)")
      case True
      with ok have "cp_half_open p \<longrightarrow> ds_probe (state_of b (cp_dependency p))"
        by (auto simp: state_consistent_def)
      with True run current show ?thesis
        by (intro closed [OF current _ True]) (auto simp: store_state_def state_of_put Let_def split: if_splits)
    next
      case False
      with run current show ?thesis
        by (intro unchanged) (auto simp: raise_def ret_def state_of_put split: if_splits)
    qed
  qed
qed

lemma snapshot_cases: "snapshot dep b = (r, b') \<Longrightarrow> state_of b' = state_of b"
  by (auto simp: snapshot_def andThen_def load_state_eq ret_def state_of_put split: if_splits)

subsection \<open>The invariant\<close>

definition circuit_ok :: "CircuitBreakerSettings \<Rightarrow> DependencyState \<Rightarrow> bool" where
  "circuit_ok c s \<longleftrightarrow> state_consistent s \<and> ds_failures s \<le> cb_failure_threshold c
     \<and> (ds_state s = CLOSED \<longrightarrow> ds_failures s < cb_failure_threshold c)"

text \<open>A permit of the current generation fits the state; older generations are stale.\<close>

definition permit_ok :: "Breaker \<Rightarrow> CircuitPermit \<Rightarrow> bool" where
  "permit_ok b p \<longleftrightarrow> (let s = state_of b (cp_dependency p) in
     0 \<le> cp_generation p \<and> cp_generation p \<le> ds_generation s
     \<and> (cp_generation p = ds_generation s \<longrightarrow>
          ds_state s = (if cp_half_open p then HALF_OPEN else CLOSED)))"

definition traffic_ok :: "CircuitBreakerSettings \<Rightarrow> Traffic \<Rightarrow> bool" where
  "traffic_ok c t \<longleftrightarrow> (\<forall>dep. circuit_ok c (state_of (tf_breaker t) dep))
     \<and> (\<forall>p \<in> set (tf_held t). permit_ok (tf_breaker t) p)
     \<and> (\<forall>p \<in> set (tf_probes t). permit_ok (tf_breaker t) p) \<and> distinct (tf_probes t)"

lemma traffic_ok_idle: "valid_circuit_settings c \<Longrightarrow> traffic_ok c idle"
  by (simp add: traffic_ok_def idle_def circuit_ok_def state_of_def initial_state_def
      state_consistent_def valid_circuit_settings_def)

lemma permit_ok_cong: "state_of b = state_of b' \<Longrightarrow> permit_ok b p = permit_ok b' p"
  by (simp add: permit_ok_def)

lemma traffic_ok_shrink:
  "traffic_ok c t \<Longrightarrow> state_of b = state_of (tf_breaker t) \<Longrightarrow> set ps \<subseteq> set (tf_held t) \<Longrightarrow>
   traffic_ok c (t\<lparr>tf_breaker := b, tf_held := ps\<rparr>)"
  using permit_ok_cong [of b "tf_breaker t"] by (auto simp: traffic_ok_def)

text \<open>Moving one dependency on: its generation grows or its state keeps its permits valid.\<close>

lemma permit_ok_moved:
  assumes "permit_ok b p" and "state_of b' = (state_of b)(dep := s)"
    and "ds_generation (state_of b dep) < ds_generation s
       \<or> (ds_generation (state_of b dep) = ds_generation s \<and> ds_state s = ds_state (state_of b dep))"
  shows "permit_ok b' p"
  using assms by (cases "cp_dependency p = dep") (auto simp: permit_ok_def Let_def)

lemma traffic_ok_moved:
  assumes "traffic_ok c t" and "state_of b = (state_of (tf_breaker t))(dep := s)" and "circuit_ok c s"
    and "ds_generation (state_of (tf_breaker t) dep) < ds_generation s
       \<or> (ds_generation (state_of (tf_breaker t) dep) = ds_generation s
          \<and> ds_state s = ds_state (state_of (tf_breaker t) dep))"
    and "set ps \<subseteq> set (tf_held t)"
  shows "traffic_ok c (t\<lparr>tf_breaker := b, tf_held := ps\<rparr>)"
  using assms permit_ok_moved [OF _ assms(2,4)] by (auto simp: traffic_ok_def)

lemma traffic_ok_step:
  assumes c: "valid_circuit_settings c" and "traffic_step c t t'" and ok: "traffic_ok c t"
  shows "traffic_ok c t'"
  using assms(2)
proof cases
  case (acquired dep reading p b)
  from acquired(2) show ?thesis
  proof (cases rule: acquire_cases)
    case closed
    then show ?thesis using ok acquired(1) by (auto simp: traffic_ok_def permit_ok_def circuit_ok_def
          state_consistent_def)
  next
    case (probe retry_at now)
    let ?s = "state_of b dep"
    have gen: "ds_generation ?s = ds_generation (state_of (tf_breaker t) dep) + 1"
      "ds_state ?s = HALF_OPEN" using probe by simp_all
    have "circuit_ok c ?s"
      using ok probe by (auto simp: traffic_ok_def circuit_ok_def state_consistent_def)
    with traffic_ok_moved [OF ok, of b dep ?s "tf_held t"] probe(5) gen
    have m: "traffic_ok c (t\<lparr>tf_breaker := b, tf_held := tf_held t\<rparr>)" by simp
    have fresh: "p \<notin> set (tf_probes t)"
    proof
      assume "p \<in> set (tf_probes t)"
      with ok have "permit_ok (tf_breaker t) p" by (auto simp: traffic_ok_def)
      with probe(6) show False by (auto simp: permit_ok_def Let_def)
    qed
    have "permit_ok b p" using probe(6) gen ok
      by (auto simp: permit_ok_def Let_def traffic_ok_def circuit_ok_def state_consistent_def)
    with m fresh probe(6) acquired(1) show ?thesis by (auto simp: traffic_ok_def)
  next
    case (refused e)
    then show ?thesis by simp
  qed
next
  case (refused dep reading e b)
  from refused(2) have "state_of b = state_of (tf_breaker t)" by (cases rule: acquire_cases) auto
  with traffic_ok_shrink [OF ok this, of "tf_held t"] refused(1) show ?thesis by simp
next
  case (failed p reading x b)
  have sub: "set (remove1 p (tf_held t)) \<subseteq> set (tf_held t)" by (rule set_remove1_subset)
  have p: "permit_ok (tf_breaker t) p" using ok failed(2) by (auto simp: traffic_ok_def)
  from failed(3) show ?thesis
  proof (cases rule: failure_cases)
    case unchanged
    with traffic_ok_shrink [OF ok _ sub] failed(1) show ?thesis by simp
  next
    case (reopened now)
    have "circuit_ok c (opened c now (state_of (tf_breaker t) (cp_dependency p)))"
      using ok reopened by (auto simp: traffic_ok_def circuit_ok_def state_consistent_def opened_def)
    from traffic_ok_moved [OF ok reopened(6) this _ sub] failed(1) show ?thesis
      by (simp add: opened_def)
  next
    case (counted now)
    let ?s = "state_of (tf_breaker t) (cp_dependency p)"
    let ?n = "?s\<lparr>ds_failures := ds_failures ?s + 1\<rparr>"
    have s: "circuit_ok c ?s" using ok by (simp add: traffic_ok_def)
    show ?thesis
    proof (cases "cb_failure_threshold c \<le> ds_failures ?n")
      case True
      then have b: "state_of b = (state_of (tf_breaker t))(cp_dependency p := opened c now ?n)"
        using counted(6) by (simp add: Let_def)
      have "circuit_ok c (opened c now ?n)"
        using s counted(4) by (auto simp: circuit_ok_def state_consistent_def opened_def)
      from traffic_ok_moved [OF ok b this _ sub] failed(1) show ?thesis by (simp add: opened_def)
    next
      case False
      then have b: "state_of b = (state_of (tf_breaker t))(cp_dependency p := ?n)"
        using counted(6) by (simp add: Let_def)
      have "circuit_ok c ?n" using s counted(4) False by (auto simp: circuit_ok_def state_consistent_def)
      from traffic_ok_moved [OF ok b this _ sub] failed(1) show ?thesis by simp
    qed
  qed
next
  case (answered p x b)
  have sub: "set (remove1 p (tf_held t)) \<subseteq> set (tf_held t)" by (rule set_remove1_subset)
  from answered(3) show ?thesis
  proof (cases rule: answer_cases)
    case unchanged
    with traffic_ok_shrink [OF ok _ sub] answered(1) show ?thesis by simp
  next
    case closed
    let ?s = "state_of (tf_breaker t) (cp_dependency p)"
    let ?n = "?s\<lparr>ds_state := CLOSED, ds_failures := 0, ds_retry_at := None, ds_probe := False,
            ds_generation := (if cp_half_open p then ds_generation ?s + 1 else ds_generation ?s)\<rparr>"
    have s: "circuit_ok c ?s" using ok by (simp add: traffic_ok_def)
    have "circuit_ok c ?n" using s c
      by (auto simp: circuit_ok_def state_consistent_def valid_circuit_settings_def)
    from traffic_ok_moved [OF ok closed(4) [unfolded Let_def] this _ sub] closed(3) answered(1) show ?thesis
      by (simp split: if_splits)
  qed
next
  case (lost p)
  with ok set_remove1_subset [of p "tf_held t"] show ?thesis by (auto simp: traffic_ok_def)
next
  case (observed dep x b)
  with traffic_ok_shrink [OF ok snapshot_cases [OF observed(2)], of "tf_held t"] show ?thesis by simp
qed

lemma traffic_ok_reachable:
  assumes "valid_circuit_settings c" and "(traffic_step c)\<^sup>*\<^sup>* idle t"
  shows "traffic_ok c t"
  using assms(2) by (induction rule: rtranclp_induct)
    (auto intro: traffic_ok_idle traffic_ok_step assms(1))

subsection \<open>Claims\<close>

text \<open>C34: the circuit state machine is never corrupt. In every state that threads can reach, each
  dependency is consistent and its failure count stays within the threshold, so an acquire with
  a usable clock is granted or refused as open, and reporting a held permit succeeds: the
  error for an unusable circuit comes from the clock only.\<close>

theorem circuit_never_corrupt:
  assumes "valid_circuit_settings c" and "(traffic_step c)\<^sup>*\<^sup>* idle t"
  shows "state_consistent (state_of (tf_breaker t) dep)
    \<and> 0 \<le> ds_failures (state_of (tf_breaker t) dep)
    \<and> ds_failures (state_of (tf_breaker t) dep) \<le> cb_failure_threshold c
    \<and> fst (acquire dep (Some now) (tf_breaker t)) \<noteq> Inl CircuitStateUnavailableError
    \<and> (\<forall>p \<in> set (tf_held t). fst (record_transient_failure c p (Some now) (tf_breaker t)) = Inr ()
         \<and> fst (record_non_transient p (tf_breaker t)) = Inr ())"
proof -
  have ok: "traffic_ok c t" using traffic_ok_reachable [OF assms] .
  have s: "circuit_ok c (state_of (tf_breaker t) d)" for d using ok by (simp add: traffic_ok_def)
  have "fst (acquire dep (Some now) (tf_breaker t)) \<noteq> Inl CircuitStateUnavailableError"
  proof -
    obtain r b where a: "acquire dep (Some now) (tf_breaker t) = (r, b)" by fastforce
    from this s [of dep] show ?thesis by (cases rule: acquire_cases) (auto simp: a circuit_ok_def)
  qed
  moreover have "fst (record_transient_failure c p (Some now) (tf_breaker t)) = Inr ()
         \<and> fst (record_non_transient p (tf_breaker t)) = Inr ()" if "p \<in> set (tf_held t)" for p
  proof -
    from ok that have p: "permit_ok (tf_breaker t) p" by (auto simp: traffic_ok_def)
    let ?s = "state_of (tf_breaker t) (cp_dependency p)"
    from p have g: "\<not> cp_generation p < 0" "cp_generation p = ds_generation ?s \<Longrightarrow>
        ds_state ?s = (if cp_half_open p then HALF_OPEN else CLOSED)"
      by (auto simp: permit_ok_def Let_def)
    have c: "state_consistent ?s" using s by (simp add: circuit_ok_def)
    then have pr: "ds_state ?s = HALF_OPEN \<Longrightarrow> ds_probe ?s" by (simp add: state_consistent_def)
    show ?thesis
      using g c pr by (auto simp: record_transient_failure_def record_non_transient_def check_permit_def
          andThen_def lift_def safe_now_def load_state_eq ret_def store_state_def Let_def)
  qed
  ultimately show ?thesis using s [of dep] by (auto simp: circuit_ok_def state_consistent_def)
qed

text \<open>one probe at a time. Over any interleaving of threads no two half-open permits of a
  dependency share a generation, and while the dependency is half open every acquire is
  refused and leaves it as it is.\<close>

theorem single_half_open_probe:
  assumes "valid_circuit_settings c" and "(traffic_step c)\<^sup>*\<^sup>* idle t"
  shows "distinct (map (\<lambda>p. (cp_dependency p, cp_generation p)) (filter cp_half_open (tf_probes t)))
    \<and> (ds_state (state_of (tf_breaker t) dep) = HALF_OPEN \<longrightarrow>
        (\<exists>b. acquire dep (Some now) (tf_breaker t) = (Inl CircuitOpenError, b)
          \<and> state_of b = state_of (tf_breaker t)))"
proof -
  have ok: "traffic_ok c t" using traffic_ok_reachable [OF assms] .
  have "inj_on (\<lambda>p. (cp_dependency p, cp_generation p)) (set (filter cp_half_open (tf_probes t)))"
    by (auto simp: inj_on_def)
  with ok have "distinct (map (\<lambda>p. (cp_dependency p, cp_generation p)) (filter cp_half_open (tf_probes t)))"
    by (simp add: traffic_ok_def distinct_map)
  moreover have "\<exists>b. acquire dep (Some now) (tf_breaker t) = (Inl CircuitOpenError, b)
      \<and> state_of b = state_of (tf_breaker t)" if "ds_state (state_of (tf_breaker t) dep) = HALF_OPEN"
  proof -
    obtain r b where a: "acquire dep (Some now) (tf_breaker t) = (r, b)" by fastforce
    have "state_consistent (state_of (tf_breaker t) dep)" using ok by (simp add: traffic_ok_def circuit_ok_def)
    with a that have "r = Inl CircuitOpenError \<and> state_of b = state_of (tf_breaker t)"
      by (cases rule: acquire_cases) auto
    with a show ?thesis by blast
  qed
  ultimately show ?thesis by blast
qed

text \<open>An open circuit suppresses every call until its cooldown has passed, and the first acquire
  after that is granted as the probe.\<close>

theorem open_circuit_suppresses:
  assumes "state_consistent (state_of b dep)" and "ds_retry_at (state_of b dep) = Some retry_at"
    and "ds_state (state_of b dep) = OPEN"
  shows "fst (acquire dep (Some now) b) = (if now < retry_at then Inl CircuitOpenError
      else Inr \<lparr>cp_dependency = dep, cp_generation = ds_generation (state_of b dep) + 1,
             cp_half_open = True\<rparr>)
    \<and> (now < retry_at \<longrightarrow> state_of (snd (acquire dep (Some now) b)) = state_of b)"
  using assms by (simp add: acquire_def andThen_def lift_def safe_now_def load_state_eq raise_def ret_def
      store_state_def state_of_put)

text \<open>The reports that a run of failures or a success makes.\<close>

fun failures :: "CircuitBreakerSettings \<Rightarrow> CircuitPermit \<Rightarrow> rat list \<Rightarrow> Breaker \<Rightarrow> Breaker" where
  "failures c p [] b = b"
| "failures c p (now # ts) b = failures c p ts (snd (record_transient_failure c p (Some now) b))"

lemma failure_closed:
  assumes "state_consistent (state_of b (cp_dependency p))" and "ds_state (state_of b (cp_dependency p)) = CLOSED"
    and "cp_generation p = ds_generation (state_of b (cp_dependency p))" and "\<not> cp_half_open p"
  shows "state_of (snd (record_transient_failure c p (Some now) b)) = (state_of b)(cp_dependency p :=
         (let s = state_of b (cp_dependency p); counted = s\<lparr>ds_failures := ds_failures s + 1\<rparr> in
          if cb_failure_threshold c \<le> ds_failures counted then opened c now counted else counted))"
  using assms by (simp add: record_transient_failure_def check_permit_def andThen_def lift_def safe_now_def
      load_state_eq store_state_def state_of_put Let_def state_consistent_def)

text \<open>the circuit opens at the threshold exactly. Fewer consecutive transient failures than the
  threshold leave a fresh circuit closed with that count; the failure that reaches the
  threshold opens it, until its time plus the cooldown.\<close>

theorem circuit_opens_at_threshold:
  assumes "valid_circuit_settings c" and "state_of b dep = initial_state"
    and "p = \<lparr>cp_dependency = dep, cp_generation = 0, cp_half_open = False\<rparr>"
    and "int (length ts) < cb_failure_threshold c"
  shows "ds_state (state_of (failures c p ts b) dep) = CLOSED
    \<and> ds_failures (state_of (failures c p ts b) dep) = int (length ts)
    \<and> (int (length ts) + 1 = cb_failure_threshold c \<longrightarrow>
        ds_state (state_of (failures c p (ts @ [now]) b) dep) = OPEN
        \<and> ds_retry_at (state_of (failures c p (ts @ [now]) b) dep) = Some (now + cb_cooldown_seconds c))"
proof -
  have run: "state_of (failures c p us b') dep = initial_state\<lparr>ds_failures := n + int (length us)\<rparr>"
    if "state_of b' dep = initial_state\<lparr>ds_failures := n\<rparr>" "0 \<le> n"
      "n + int (length us) < cb_failure_threshold c" for us n b'
    using that
  proof (induction us arbitrary: b' n)
    case (Cons u us)
    then have "state_of (snd (record_transient_failure c p (Some u) b')) dep = initial_state\<lparr>ds_failures := n + 1\<rparr>"
      using failure_closed [of b' p c u] assms(3)
      by (simp add: initial_state_def state_consistent_def Let_def)
    from Cons.IH [OF this] Cons.prems show ?case by simp
  qed simp
  from run [of b 0 ts] assms(2,4) have last: "state_of (failures c p ts b) dep
      = initial_state\<lparr>ds_failures := int (length ts)\<rparr>" by (simp add: initial_state_def)
  have app: "failures c p (ts @ [now]) b = snd (record_transient_failure c p (Some now) (failures c p ts b))"
    for b by (induction ts arbitrary: b) simp_all
  show ?thesis
    unfolding app using last failure_closed [of "failures c p ts b" p c now] assms(3)
    by (auto simp: initial_state_def state_consistent_def Let_def opened_def)
qed

text \<open>C40: a defect. A probe whose thread ends without a report (an exception the caller does not
  catch) leaves the dependency half open, and then no operation of any thread ever makes it
  available again: every later acquire is refused, whatever the clock says.\<close>

theorem lost_probe_blocks_forever:
  assumes "valid_circuit_settings c" and "(traffic_step c)\<^sup>*\<^sup>* idle t"
    and "ds_state (state_of (tf_breaker t) dep) = HALF_OPEN"
    and "\<forall>p \<in> set (tf_held t). cp_dependency p = dep \<longrightarrow> cp_generation p \<noteq> ds_generation (state_of (tf_breaker t) dep)"
    and "(traffic_step c)\<^sup>*\<^sup>* t u"
  shows "fst (acquire dep (Some now) (tf_breaker u)) = Inl CircuitOpenError"
proof -
  have "traffic_ok c u \<and> state_of (tf_breaker u) dep = state_of (tf_breaker t) dep
      \<and> (\<forall>p \<in> set (tf_held u). cp_dependency p = dep \<longrightarrow> cp_generation p \<noteq> ds_generation (state_of (tf_breaker t) dep))"
    using assms(5)
  proof (induction rule: rtranclp_induct)
    case base
    show ?case using assms(4) traffic_ok_reachable [OF assms(1,2)] by simp
  next
    case (step u w)
    then have ok: "traffic_ok c u" and same: "state_of (tf_breaker u) dep = state_of (tf_breaker t) dep"
      and held: "\<forall>p \<in> set (tf_held u). cp_dependency p = dep \<longrightarrow> cp_generation p \<noteq> ds_generation (state_of (tf_breaker t) dep)"
      by blast+
    have w: "traffic_ok c w" using traffic_ok_step [OF assms(1) step.hyps(2) ok] .
    from step.hyps(2) show ?case
    proof cases
      case (acquired d reading p b)
      from acquired(2) have "d \<noteq> dep" "cp_dependency p = d" "state_of b dep = state_of (tf_breaker u) dep"
        using same assms(3) by (cases rule: acquire_cases; auto)+
      with acquired(1) w same held show ?thesis by auto
    next
      case (refused d reading e b)
      from refused(2) have "state_of b = state_of (tf_breaker u)" by (cases rule: acquire_cases) auto
      with refused(1) w same held show ?thesis by simp
    next
      case (failed p reading x b)
      from failed(3) have "state_of b dep = state_of (tf_breaker u) dep"
        using held failed(2) same by (cases rule: failure_cases) auto
      with failed(1) w same held set_remove1_subset [of p "tf_held u"] show ?thesis by auto
    next
      case (answered p x b)
      from answered(3) have "state_of b dep = state_of (tf_breaker u) dep"
        using held answered(2) same by (cases rule: answer_cases) auto
      with answered(1) w same held set_remove1_subset [of p "tf_held u"] show ?thesis by auto
    next
      case (lost p)
      with w same held set_remove1_subset [of p "tf_held u"] show ?thesis by auto
    next
      case (observed d x b)
      with w same held snapshot_cases [OF observed(2)] show ?thesis by simp
    qed
  qed
  then have u: "traffic_ok c u" and same: "state_of (tf_breaker u) dep = state_of (tf_breaker t) dep" by blast+
  from u have "state_consistent (state_of (tf_breaker u) dep)" by (simp add: traffic_ok_def circuit_ok_def)
  with same assms(3) show ?thesis
    by (simp add: acquire_def andThen_def lift_def safe_now_def load_state_eq raise_def)
qed

subsection \<open>Witnesses\<close>

abbreviation ex_c :: CircuitBreakerSettings where
  "ex_c \<equiv> default_circuit_settings"

definition ex_permit :: "int \<Rightarrow> bool \<Rightarrow> CircuitPermit" where
  "ex_permit g h = \<lparr>cp_dependency = EC2_READ, cp_generation = g, cp_half_open = h\<rparr>"

definition ex_traffic :: "CircuitState \<Rightarrow> int \<Rightarrow> rat option \<Rightarrow> int \<Rightarrow> bool \<Rightarrow> CircuitPermit list
    \<Rightarrow> CircuitPermit list \<Rightarrow> Traffic" where
  "ex_traffic s f r g pr held probes = \<lparr>tf_breaker = [(EC2_READ, \<lparr>ds_state = s, ds_failures = f,
     ds_retry_at = r, ds_generation = g, ds_probe = pr\<rparr>)], tf_held = held, tf_probes = probes\<rparr>"

text \<open>Two reads fail, the circuit opens, the probe is granted after the cooldown and lost.\<close>

lemma acquired_step:
  "acquire dep reading (tf_breaker t) = (Inr p, b) \<Longrightarrow>
   t' = t\<lparr>tf_breaker := b, tf_held := p # tf_held t,
       tf_probes := (if cp_half_open p then p # tf_probes t else tf_probes t)\<rparr> \<Longrightarrow> traffic_step c t t'"
  using traffic_step.acquired by blast

lemma failed_step:
  "p \<in> set (tf_held t) \<Longrightarrow> record_transient_failure c p reading (tf_breaker t) = (x, b) \<Longrightarrow>
   t' = t\<lparr>tf_breaker := b, tf_held := remove1 p (tf_held t)\<rparr> \<Longrightarrow> traffic_step c t t'"
  using traffic_step.failed by blast

lemma ex_traffic_steps:
  "traffic_step ex_c idle (ex_traffic CLOSED 0 None 0 False [ex_permit 0 False] [])"
  "traffic_step ex_c (ex_traffic CLOSED 0 None 0 False [ex_permit 0 False] [])
     (ex_traffic CLOSED 0 None 0 False [ex_permit 0 False, ex_permit 0 False] [])"
  "traffic_step ex_c (ex_traffic CLOSED 0 None 0 False [ex_permit 0 False, ex_permit 0 False] [])
     (ex_traffic CLOSED 1 None 0 False [ex_permit 0 False] [])"
  "traffic_step ex_c (ex_traffic CLOSED 1 None 0 False [ex_permit 0 False] [])
     (ex_traffic OPEN 2 (Some 33) 1 False [] [])"
  "traffic_step ex_c (ex_traffic OPEN 2 (Some 33) 1 False [] [])
     (ex_traffic HALF_OPEN 2 (Some 33) 2 True [ex_permit 2 True] [ex_permit 2 True])"
  "traffic_step ex_c (ex_traffic HALF_OPEN 2 (Some 33) 2 True [ex_permit 2 True] [ex_permit 2 True])
     (ex_traffic HALF_OPEN 2 (Some 33) 2 True [] [ex_permit 2 True])"
proof -
  show "traffic_step ex_c idle (ex_traffic CLOSED 0 None 0 False [ex_permit 0 False] [])"
    by (rule acquired_step [of EC2_READ "Some 0" _ "ex_permit 0 False" "tf_breaker (ex_traffic CLOSED 0 None 0 False [] [])"])
      code_simp+
  show "traffic_step ex_c (ex_traffic CLOSED 0 None 0 False [ex_permit 0 False] [])
     (ex_traffic CLOSED 0 None 0 False [ex_permit 0 False, ex_permit 0 False] [])"
    by (rule acquired_step [of EC2_READ "Some 0" _ "ex_permit 0 False" "tf_breaker (ex_traffic CLOSED 0 None 0 False [] [])"])
      code_simp+
  show "traffic_step ex_c (ex_traffic CLOSED 0 None 0 False [ex_permit 0 False, ex_permit 0 False] [])
     (ex_traffic CLOSED 1 None 0 False [ex_permit 0 False] [])"
    by (rule failed_step [of "ex_permit 0 False" _ _ "Some 1" "Inr ()" "tf_breaker (ex_traffic CLOSED 1 None 0 False [] [])"])
      code_simp+
  show "traffic_step ex_c (ex_traffic CLOSED 1 None 0 False [ex_permit 0 False] [])
     (ex_traffic OPEN 2 (Some 33) 1 False [] [])"
    by (rule failed_step [of "ex_permit 0 False" _ _ "Some 3" "Inr ()" "tf_breaker (ex_traffic OPEN 2 (Some 33) 1 False [] [])"])
      code_simp+
  show "traffic_step ex_c (ex_traffic OPEN 2 (Some 33) 1 False [] [])
     (ex_traffic HALF_OPEN 2 (Some 33) 2 True [ex_permit 2 True] [ex_permit 2 True])"
    by (rule acquired_step [of EC2_READ "Some 40" _ "ex_permit 2 True" "tf_breaker (ex_traffic HALF_OPEN 2 (Some 33) 2 True [] [])"])
      code_simp+
  show "traffic_step ex_c (ex_traffic HALF_OPEN 2 (Some 33) 2 True [ex_permit 2 True] [ex_permit 2 True])
     (ex_traffic HALF_OPEN 2 (Some 33) 2 True [] [ex_permit 2 True])"
    using traffic_step.lost [of "ex_permit 2 True" "ex_traffic HALF_OPEN 2 (Some 33) 2 True [ex_permit 2 True] [ex_permit 2 True]"]
    by (simp add: ex_traffic_def)
qed

lemma ex_traffic_reach:
  "(traffic_step ex_c)\<^sup>*\<^sup>* idle (ex_traffic HALF_OPEN 2 (Some 33) 2 True [ex_permit 2 True] [ex_permit 2 True])"
  "(traffic_step ex_c)\<^sup>*\<^sup>* idle (ex_traffic HALF_OPEN 2 (Some 33) 2 True [] [ex_permit 2 True])"
proof -
  note s = ex_traffic_steps
  show a: "(traffic_step ex_c)\<^sup>*\<^sup>* idle (ex_traffic HALF_OPEN 2 (Some 33) 2 True [ex_permit 2 True] [ex_permit 2 True])"
    by (rule rtranclp.rtrancl_into_rtrancl [OF rtranclp.rtrancl_into_rtrancl [OF
          rtranclp.rtrancl_into_rtrancl [OF rtranclp.rtrancl_into_rtrancl [OF
          r_into_rtranclp [of "traffic_step ex_c", OF s(1)] s(2)] s(3)] s(4)] s(5)])
  show "(traffic_step ex_c)\<^sup>*\<^sup>* idle (ex_traffic HALF_OPEN 2 (Some 33) 2 True [] [ex_permit 2 True])"
    by (rule rtranclp.rtrancl_into_rtrancl [OF a s(6)])
qed

lemma ex_settings_ok: "valid_circuit_settings ex_c"
  by code_simp

theorem circuit_never_corrupt_witness:
  "fst (record_non_transient (ex_permit 2 True)
     (tf_breaker (ex_traffic HALF_OPEN 2 (Some 33) 2 True [ex_permit 2 True] [ex_permit 2 True]))) = Inr ()"
  using circuit_never_corrupt [OF ex_settings_ok ex_traffic_reach(1)] by (simp add: ex_traffic_def)

theorem single_half_open_probe_witness:
  "\<exists>b. acquire EC2_READ (Some 41)
     (tf_breaker (ex_traffic HALF_OPEN 2 (Some 33) 2 True [ex_permit 2 True] [ex_permit 2 True]))
     = (Inl CircuitOpenError, b)"
  using single_half_open_probe [OF ex_settings_ok ex_traffic_reach(1), of EC2_READ 41]
  by (auto simp: ex_traffic_def state_of_def)

theorem open_circuit_suppresses_witness:
  "fst (acquire EC2_READ (Some 32) (tf_breaker (ex_traffic OPEN 2 (Some 33) 1 False [] []))) = Inl CircuitOpenError
   \<and> fst (acquire EC2_READ (Some 33) (tf_breaker (ex_traffic OPEN 2 (Some 33) 1 False [] []))) = Inr (ex_permit 2 True)"
  using open_circuit_suppresses [of "tf_breaker (ex_traffic OPEN 2 (Some 33) 1 False [] [])" EC2_READ 33]
  by (simp add: ex_traffic_def state_of_def state_consistent_def ex_permit_def)

theorem circuit_opens_at_threshold_witness:
  "ds_state (state_of (failures ex_c (ex_permit 0 False) [5] []) EC2_READ) = CLOSED
   \<and> ds_state (state_of (failures ex_c (ex_permit 0 False) ([5] @ [7]) []) EC2_READ) = OPEN"
  using circuit_opens_at_threshold [OF ex_settings_ok, of "[]" EC2_READ "ex_permit 0 False" "[5]" 7]
  by (simp add: state_of_def ex_permit_def default_circuit_settings_def)

theorem lost_probe_blocks_forever_witness:
  "fst (acquire EC2_READ (Some 1000000)
     (tf_breaker (ex_traffic HALF_OPEN 2 (Some 33) 2 True [] [ex_permit 2 True]))) = Inl CircuitOpenError"
  by (rule lost_probe_blocks_forever [OF ex_settings_ok ex_traffic_reach(2) _ _ rtranclp.rtrancl_refl])
    (simp_all add: ex_traffic_def state_of_def)

end
