(* ===== verification/Read_Retry.thy ===== *)
theory Read_Retry
  imports Circuit Canonical_Json Authority
begin

text \<open>
  \<open>safety/retry.py\<close>, \<open>safety/schema.py\<close> and \<open>safety/model_circuit.py\<close>: the bounded retry of
  reads behind the circuit breaker, the correction budget for model output, and the
  one-attempt model proxy. The loop terminates by the distance to its attempt cap; its calls,
  its reports to the breaker and its result are characterised below.
\<close>

subsection \<open>Operation classes and known transient errors\<close>

datatype RetryOperationClass =
    MODEL_SCHEMA_CORRECTION
  | READ_ONLY_DEPENDENCY
  | READ_ONLY_VALIDATION
  | DURABLE_CONDITIONAL_CONFLICT
  | MUTATION_BEFORE_SEND
  | MUTATION_ACK_AMBIGUOUS
  | VERIFICATION_POLL

fun AUTOMATIC_RETRY_ALLOWED :: "RetryOperationClass \<Rightarrow> bool" where
  "AUTOMATIC_RETRY_ALLOWED MODEL_SCHEMA_CORRECTION = True"
| "AUTOMATIC_RETRY_ALLOWED READ_ONLY_DEPENDENCY = True"
| "AUTOMATIC_RETRY_ALLOWED VERIFICATION_POLL = True"
| "AUTOMATIC_RETRY_ALLOWED _ = False"

definition TRANSIENT_CODES :: "string list" where
  "TRANSIENT_CODES = [''InternalError'', ''InternalFailure'', ''RequestTimeout'',
     ''RequestTimeoutException'', ''ServiceUnavailable'', ''ServiceUnavailableException'',
     ''Throttling'', ''ThrottlingException'', ''TooManyRequestsException'']"

definition TRANSIENT_HTTP_STATUSES :: "int list" where
  "TRANSIENT_HTTP_STATUSES = [429, 500, 502, 503, 504]"

definition PERMANENT_CODES :: "string list" where
  "PERMANENT_CODES = [''AccessDenied'', ''AccessDeniedException'', ''InvalidClientTokenId'',
     ''InvalidParameter'', ''InvalidParameterValue'', ''ResourceNotFoundException'',
     ''UnauthorizedOperation'', ''UnrecognizedClientException'', ''ValidationError'',
     ''ValidationException'']"

definition TRANSIENT_TRANSPORT_ERRORS :: "(string \<times> string) list" where
  "TRANSIENT_TRANSPORT_ERRORS = map (Pair ''botocore.exceptions'')
     [''ConnectTimeoutError'', ''ConnectionClosedError'', ''EndpointConnectionError'',
      ''ReadTimeoutError'']"

text \<open>
  What the guard reads of an exception: whether it is a \<open>TimeoutError\<close> or
  \<open>ConnectionError\<close>, the module and name of its class, and its \<open>response\<close> attribute.
\<close>

record ReadError =
  re_os_error :: bool
  re_class :: "string \<times> string"
  re_response :: "json option"

text \<open>\<open>x in S\<close> for a set of strings or of integers: a list or dictionary \<open>x\<close> is unhashable.\<close>

fun in_strings :: "json \<Rightarrow> string list \<Rightarrow> exc + bool" where
  "in_strings (JStr s) S = Inr (s \<in> set S)"
| "in_strings (JArr _) S = Inl TypeError"
| "in_strings (JObj _) S = Inl TypeError"
| "in_strings _ S = Inr False"

fun in_integers :: "json \<Rightarrow> int list \<Rightarrow> exc + bool" where
  "in_integers (JInt i) S = Inr (i \<in> set S)"
| "in_integers (JBool b) S = Inr ((if b then 1 else 0) \<in> set S)"
| "in_integers (JArr _) S = Inl TypeError"
| "in_integers (JObj _) S = Inl TypeError"
| "in_integers _ S = Inr False"

fun field_of :: "json \<Rightarrow> string \<Rightarrow> json" where
  "field_of (JObj d) k = jget d k"
| "field_of _ k = JNull"

definition is_known_transient_read_error :: "ReadError \<Rightarrow> exc + bool" where
  "is_known_transient_read_error e =
     (if re_os_error e then Inr True
      else if re_class e \<in> set TRANSIENT_TRANSPORT_ERRORS then Inr True
      else (case re_response e of
        Some (JObj d) \<Rightarrow>
          (let code = field_of (jget d ''Error'') ''Code'';
               status = field_of (jget d ''ResponseMetadata'') ''HTTPStatusCode'' in
           case in_strings code PERMANENT_CODES of
             Inl x \<Rightarrow> Inl x
           | Inr True \<Rightarrow> Inr False
           | Inr False \<Rightarrow> (case in_strings code TRANSIENT_CODES of
                 Inl x \<Rightarrow> Inl x
               | Inr True \<Rightarrow> Inr True
               | Inr False \<Rightarrow> in_integers status TRANSIENT_HTTP_STATUSES))
      | _ \<Rightarrow> Inr False))"

subsection \<open>The world of one retried read\<close>

text \<open>
  The outside of a read is given by call number: what the dependency answers, what the sleeper
  does, what the clock shows, and what other threads do to the shared breaker during a call.
  \<open>Interrupted\<close> is a \<open>BaseException\<close> (cancellation, interpreter exit).
\<close>

datatype 'a Answer = Returns 'a | Raises ReadError | Interrupted

datatype Sleep = Slept | SleepFailed | SleepInterrupted

record 'a ReadEnvironment =
  en_answer :: "nat \<Rightarrow> 'a Answer"
  en_sleep :: "nat \<Rightarrow> Sleep"
  en_clock :: "nat \<Rightarrow> rat option"
  en_meanwhile :: "nat \<Rightarrow> Breaker \<Rightarrow> Breaker"

datatype BreakerReport =
    TransientFailure CircuitPermit
  | PermanentOutcome CircuitPermit
  | Success CircuitPermit

record ReadState =
  q_breaker :: Breaker
  q_calls :: nat
  q_sleeps :: "nat list"
  q_clocks :: nat
  q_reports :: "BreakerReport list"

datatype 'a RetryExit = Returned 'a | Reraised ReadError

definition call_operation :: "'a ReadEnvironment \<Rightarrow> ReadState \<Rightarrow> 'a Answer \<times> ReadState" where
  "call_operation E q = (en_answer E (q_calls q),
     q\<lparr>q_calls := Suc (q_calls q), q_breaker := en_meanwhile E (q_calls q) (q_breaker q)\<rparr>)"

definition call_sleeper :: "'a ReadEnvironment \<Rightarrow> nat \<Rightarrow> ReadState \<Rightarrow> Sleep \<times> ReadState" where
  "call_sleeper E attempt q =
     (en_sleep E (length (q_sleeps q)), q\<lparr>q_sleeps := q_sleeps q @ [attempt]\<rparr>)"

definition on_breaker :: "(rat option \<Rightarrow> (Breaker, 'b) prog) \<Rightarrow> 'a ReadEnvironment \<Rightarrow> (ReadState, 'b) prog"
  where "on_breaker f E q = (case f (en_clock E (q_clocks q)) (q_breaker q) of
     (r, b) \<Rightarrow> (r, q\<lparr>q_breaker := b, q_clocks := Suc (q_clocks q)\<rparr>))"

fun breaker_report ::
    "CircuitBreakerSettings \<Rightarrow> BreakerReport \<Rightarrow> rat option \<Rightarrow> (Breaker, unit) prog" where
  "breaker_report c (TransientFailure p) reading = record_transient_failure c p reading"
| "breaker_report c (PermanentOutcome p) reading = record_permanent_outcome p"
| "breaker_report c (Success p) reading = record_success p"

text \<open>A report goes to the breaker when one is configured.\<close>

type_synonym Guard = "(CircuitBreakerSettings \<times> CircuitPermit) option"

definition tell :: "Guard \<Rightarrow> (CircuitPermit \<Rightarrow> BreakerReport) \<Rightarrow> 'a ReadEnvironment \<Rightarrow> (ReadState, unit) prog"
  where "tell g r E = (case g of None \<Rightarrow> ret ()
     | Some (c, p) \<Rightarrow> (\<lambda>q. on_breaker (breaker_report c (r p)) E (q\<lparr>q_reports := q_reports q @ [r p]\<rparr>)))"

subsection \<open>The retry loop\<close>

record BoundedReadRetry =
  br_max_attempts :: int
  br_circuit :: "(CircuitBreakerSettings \<times> CircuitDependency) option"

definition new_read_retry ::
    "int \<Rightarrow> CircuitBreakerSettings option \<Rightarrow> CircuitDependency option \<Rightarrow> exc + BoundedReadRetry" where
  "new_read_retry max_attempts circuit_breaker dependency =
     (if \<not> (1 \<le> max_attempts \<and> max_attempts \<le> 3) then Inl ValueError
      else if (circuit_breaker = None) \<noteq> (dependency = None) then Inl ValueError
      else Inr \<lparr>br_max_attempts = max_attempts,
        br_circuit = (case (circuit_breaker, dependency) of (Some c, Some d) \<Rightarrow> Some (c, d) | _ \<Rightarrow> None)\<rparr>)"

text \<open>\<open>for attempt in range(attempt, cap + 1)\<close>.\<close>

function attempts ::
    "'a ReadEnvironment \<Rightarrow> Guard \<Rightarrow> nat \<Rightarrow> nat \<Rightarrow> (ReadState, 'a RetryExit) prog" where
  "attempts E g cap attempt q =
     (if cap < attempt then (Inl AssertionError, q)
      else (case call_operation E q of
        (Returns x, q1) \<Rightarrow> andThen (tell g Success E) (\<lambda>_. ret (Returned x)) q1
      | (Interrupted, q1) \<Rightarrow> (Inl Killed, q1)
      | (Raises e, q1) \<Rightarrow>
          (case is_known_transient_read_error e of
            Inl x \<Rightarrow> (Inl x, q1)
          | Inr transient \<Rightarrow>
              if attempt < cap \<and> transient then
                (case call_sleeper E attempt q1 of
                  (Slept, q2) \<Rightarrow> attempts E g cap (Suc attempt) q2
                | (SleepFailed, q2) \<Rightarrow>
                    andThen (tell g TransientFailure E) (\<lambda>_. raise ReadRetryStateUnavailableError) q2
                | (SleepInterrupted, q2) \<Rightarrow> (Inl Killed, q2))
              else andThen (tell g (if transient then TransientFailure else PermanentOutcome) E)
                     (\<lambda>_. ret (Reraised e)) q1)))"
  by pat_completeness auto

termination
  by (relation "measure (\<lambda>(E, g, cap, attempt, q). Suc cap - attempt)") auto

declare attempts.simps [simp del]

definition attempt_cap :: "BoundedReadRetry \<Rightarrow> CircuitPermit option \<Rightarrow> nat" where
  "attempt_cap R permit = (if (case permit of Some p \<Rightarrow> cp_half_open p | None \<Rightarrow> False) then 1
     else nat (br_max_attempts R))"

definition retry_run ::
    "BoundedReadRetry \<Rightarrow> 'a ReadEnvironment \<Rightarrow> RetryOperationClass \<Rightarrow> (ReadState, 'a RetryExit) prog" where
  "retry_run R E operation_class =
     (if operation_class \<notin> {READ_ONLY_DEPENDENCY, VERIFICATION_POLL} then raise ValueError
      else (case br_circuit R of
        None \<Rightarrow> attempts E None (attempt_cap R None) 1
      | Some (c, dep) \<Rightarrow>
          andThen (on_breaker (acquire dep) E) (\<lambda>p.
            attempts E (Some (c, p)) (attempt_cap R (Some p)) 1)))"

subsection \<open>The correction budget for model output (\<open>safety/schema.py\<close>)\<close>

record SchemaCorrectionBudget =
  sb_max_attempts :: int
  sb_invalid_attempts :: int

definition new_budget :: "int \<Rightarrow> exc + SchemaCorrectionBudget" where
  "new_budget max_attempts = (if \<not> (1 \<le> max_attempts \<and> max_attempts \<le> 3) then Inl ValueError
     else Inr \<lparr>sb_max_attempts = max_attempts, sb_invalid_attempts = 0\<rparr>)"

definition exhausted :: "SchemaCorrectionBudget \<Rightarrow> bool" where
  "exhausted b \<longleftrightarrow> sb_max_attempts b \<le> sb_invalid_attempts b"

definition correction_failure :: "bool \<Rightarrow> FailureDetail" where
  "correction_failure final = failure FailureKind.VALIDATION_FAILURE
     (if final then ''MODEL_OUTPUT_INVALID'' else ''MODEL_OUTPUT_CORRECTION_REQUIRED'')
     (if final then ''Model output remained schema-invalid after the bounded correction budget''
      else ''Model output is schema-invalid and may be corrected within the fixed budget'')
     (\<not> final)"

definition reject :: "SchemaCorrectionBudget \<Rightarrow> FailureDetail \<times> SchemaCorrectionBudget" where
  "reject b = (let b' = (if sb_invalid_attempts b < sb_max_attempts b
        then b\<lparr>sb_invalid_attempts := sb_invalid_attempts b + 1\<rparr> else b)
     in (correction_failure (exhausted b'), b'))"

text \<open>\<open>model_validate\<close> is the strict pydantic check of the fixed model, a parameter.\<close>

definition schema_validate ::
    "('p \<Rightarrow> exc + 'v) \<Rightarrow> 'p \<Rightarrow> (SchemaCorrectionBudget, 'v ControlResult) prog" where
  "schema_validate model_validate payload b =
     (if exhausted b then (case reject b of (f, b') \<Rightarrow> (Inr (Failed f), b'))
      else (case model_validate payload of
        Inl e \<Rightarrow> if e = TypeError \<or> is_value_error e
                 then (case reject b of (f, b') \<Rightarrow> (Inr (Failed f), b')) else (Inl e, b)
      | Inr v \<Rightarrow> (Inr (Succeeded v), b)))"

fun validate_all ::
    "('p \<Rightarrow> exc + 'v) \<Rightarrow> 'p list \<Rightarrow> SchemaCorrectionBudget \<Rightarrow> (exc + 'v ControlResult) list" where
  "validate_all f [] b = []"
| "validate_all f (p # ps) b = (case schema_validate f p b of (r, b') \<Rightarrow> r # validate_all f ps b')"

subsection \<open>The model proxy (\<open>safety/model_circuit.py\<close>)\<close>

text \<open>
  How the delegate's stream ends for the proxy: it is drained, it raises (with the
  \<open>ModelThrottledException\<close> flag), or the consumer abandons it at one of the yields.
\<close>

datatype StreamEnd = Drained | StreamRaised bool ReadError | Abandoned

datatype StreamExit = Finished | ModelError ReadError

definition model_record_failure ::
    "CircuitBreakerSettings \<Rightarrow> CircuitPermit \<Rightarrow> bool \<Rightarrow> ReadError \<Rightarrow> 'a ReadEnvironment \<Rightarrow> (ReadState, unit) prog"
  where "model_record_failure c permit throttled e E =
     (if throttled then tell (Some (c, permit)) TransientFailure E
      else andThen (lift (is_known_transient_read_error e)) (\<lambda>transient.
        tell (Some (c, permit)) (if transient then TransientFailure else PermanentOutcome) E))"

text \<open>
  \<open>try: ... except Exception: record; raise  finally: if not recorded: record_success\<close>. An
  exception of the recording itself leaves \<open>recorded\<close> false, so the \<open>finally\<close> block runs
  \<open>record_success\<close>; the \<open>finally\<close> block's own exception replaces the pending one.
\<close>

definition circuit_stream ::
    "CircuitBreakerSettings \<Rightarrow> 'a ReadEnvironment \<Rightarrow> StreamEnd \<Rightarrow> (ReadState, StreamExit) prog" where
  "circuit_stream c E stream_end =
     andThen (on_breaker (acquire BEDROCK_MODEL) E) (\<lambda>permit.
       let succeed = tell (Some (c, permit)) Success E in
       case stream_end of
         Drained \<Rightarrow> andThen succeed (\<lambda>_. ret Finished)
       | Abandoned \<Rightarrow> andThen succeed (\<lambda>_. raise Killed)
       | StreamRaised throttled e \<Rightarrow>
           tryThen (model_record_failure c permit throttled e E)
             (\<lambda>x. Some (andThen succeed (\<lambda>_. raise x)))
             (\<lambda>_. ret (ModelError e)))"

subsection \<open>Effects of the parts\<close>

definition retryable :: "'a ReadEnvironment \<Rightarrow> nat \<Rightarrow> bool" where
  "retryable E k = (case en_answer E k of
     Raises e \<Rightarrow> is_known_transient_read_error e = Inr True | _ \<Rightarrow> False)"

lemma transient_errors: "is_known_transient_read_error e = Inl x \<Longrightarrow> x = TypeError"
proof -
  have s: "in_strings j S = Inl x \<Longrightarrow> x = TypeError" for j S by (cases j) auto
  have i: "in_integers j S = Inl x \<Longrightarrow> x = TypeError" for j S by (cases j) auto
  assume "is_known_transient_read_error e = Inl x"
  then show ?thesis using s i
    by (auto simp: is_known_transient_read_error_def Let_def
        split: if_splits option.splits json.splits sum.splits bool.splits)
qed

definition report_result :: "exc + unit \<Rightarrow> bool" where
  "report_result r \<longleftrightarrow> r \<in> {Inr (), Inl CircuitStateUnavailableError}"

fun reported_permit :: "BreakerReport \<Rightarrow> CircuitPermit" where
  "reported_permit (TransientFailure p) = p"
| "reported_permit (PermanentOutcome p) = p"
| "reported_permit (Success p) = p"

lemma breaker_report_result:
  "0 \<le> cp_generation (reported_permit b) \<Longrightarrow> report_result (fst (breaker_report c b reading s))"
  by (cases b) (auto simp: report_result_def record_transient_failure_def record_success_def
      record_permanent_outcome_def record_non_transient_def check_permit_def safe_now_def
      load_state_def store_state_def prog_defs Let_def split: option.splits)

definition guard_ok :: "Guard \<Rightarrow> bool" where
  "guard_ok g \<longleftrightarrow> (case g of None \<Rightarrow> True | Some (c, p) \<Rightarrow> 0 \<le> cp_generation p)"

definition told :: "Guard \<Rightarrow> (CircuitPermit \<Rightarrow> BreakerReport) \<Rightarrow> BreakerReport list" where
  "told g r = (case g of None \<Rightarrow> [] | Some (c, p) \<Rightarrow> [r p])"

definition a_report :: "(CircuitPermit \<Rightarrow> BreakerReport) \<Rightarrow> bool" where
  "a_report r \<longleftrightarrow> (\<forall>p. reported_permit (r p) = p)"

lemma a_report_simps [simp]: "a_report TransientFailure" "a_report PermanentOutcome" "a_report Success"
  by (simp_all add: a_report_def)

lemma tell_cases:
  assumes "tell g r E q = (x, q')" and "guard_ok g" and "a_report r"
  obtains "report_result x" and "q_calls q' = q_calls q" and "q_reports q' = q_reports q @ told g r"
    and "g = None \<Longrightarrow> x = Inr ()"
proof (cases g)
  case None
  from None assms(1) have "x = Inr ()" "q' = q" by (simp_all add: tell_def ret_def)
  with None show ?thesis by (intro that) (simp_all add: report_result_def told_def)
next
  case (Some cp)
  then obtain c p where g: "g = Some (c, p)" by (cases cp) auto
  have "report_result x" using assms
      breaker_report_result [of "r p" c "en_clock E (q_clocks q)" "q_breaker q"]
    by (auto simp: g tell_def on_breaker_def guard_ok_def a_report_def split: prod.splits)
  with assms(1) show ?thesis
    by (intro that) (auto simp: g tell_def on_breaker_def told_def split: prod.splits)
qed

lemma then_tell_cases:
  assumes "andThen (tell g r E) (\<lambda>_. k) q = (x, q')" and "guard_ok g" and "a_report r"
    and "\<And>q. snd (k q) = q"
  obtains (reported) "x = fst (k q')" and "q_calls q' = q_calls q" and "q_reports q' = q_reports q @ told g r"
    | (failed) "x = Inl CircuitStateUnavailableError" and "g \<noteq> None" and "q_calls q' = q_calls q"
      and "q_reports q' = q_reports q @ told g r"
proof -
  obtain y q1 where t: "tell g r E q = (y, q1)" by fastforce
  from this assms(2,3) show ?thesis
  proof (rule tell_cases)
    assume a: "report_result y" "q_calls q1 = q_calls q" "q_reports q1 = q_reports q @ told g r"
      "g = None \<Longrightarrow> y = Inr ()"
    show ?thesis
    proof (cases y)
      case (Inl e')
      have "g \<noteq> None"
      proof
        assume "g = None"
        from a(4) [OF this] Inl show False by simp
      qed
      with Inl t assms(1) a(1-3) show ?thesis
        by (intro failed) (simp_all add: andThen_def report_result_def)
    next
      case (Inr u)
      with t assms(1) have k: "k q1 = (x, q')" by (simp add: andThen_def)
      with assms(4) [of q1] have "q' = q1" by simp
      with k a show ?thesis by (intro reported) auto
    qed
  qed
qed

subsection \<open>The loop\<close>

text \<open>The reports that fit the end of a run: exactly one, unless it was interrupted.\<close>

fun reports_fit :: "exc + 'a RetryExit \<Rightarrow> Guard \<Rightarrow> BreakerReport list \<Rightarrow> bool" where
  "reports_fit (Inr (Returned x)) g rs = (rs = told g Success)"
| "reports_fit (Inr (Reraised e)) g rs = (rs = told g
     (if is_known_transient_read_error e = Inr True then TransientFailure else PermanentOutcome))"
| "reports_fit (Inl ReadRetryStateUnavailableError) g rs = (rs = told g TransientFailure)"
| "reports_fit (Inl CircuitStateUnavailableError) g rs = (g \<noteq> None \<and> length rs = 1)"
| "reports_fit (Inl Killed) g rs = (rs = [])"
| "reports_fit (Inl TypeError) g rs = (rs = [])"
| "reports_fit (Inl _) g rs = False"

definition loop_done ::
    "'a ReadEnvironment \<Rightarrow> Guard \<Rightarrow> nat \<Rightarrow> ReadState \<Rightarrow> exc + 'a RetryExit \<Rightarrow> ReadState \<Rightarrow> bool" where
  "loop_done E g most q r q' \<longleftrightarrow>
     q_calls q < q_calls q' \<and> q_calls q' \<le> q_calls q + most
     \<and> (\<forall>k \<in> {q_calls q ..< q_calls q' - 1}. retryable E k)
     \<and> (\<exists>rs. q_reports q' = q_reports q @ rs \<and> reports_fit r g rs)"

lemma attempts_cases:
  assumes "attempt \<le> cap" and "attempts E g cap attempt q = (r, q')" and g: "guard_ok g"
  obtains (again) q2 where "attempt < cap" "retryable E (q_calls q)" "q_calls q2 = Suc (q_calls q)"
      "q_reports q2 = q_reports q" "attempts E g cap (Suc attempt) q2 = (r, q')"
    | (stop) "loop_done E g 1 q r q'"
proof -
  obtain a q1 where c: "call_operation E q = (a, q1)" by fastforce
  then have q1: "en_answer E (q_calls q) = a" "q_calls q1 = Suc (q_calls q)" "q_reports q1 = q_reports q"
    by (auto simp: call_operation_def)
  have run: "(case (a, q1) of
        (Returns x, q1) \<Rightarrow> andThen (tell g Success E) (\<lambda>_. ret (Returned x)) q1
      | (Interrupted, q1) \<Rightarrow> (Inl Killed, q1)
      | (Raises e, q1) \<Rightarrow>
          (case is_known_transient_read_error e of
            Inl x \<Rightarrow> (Inl x, q1)
          | Inr transient \<Rightarrow>
              if attempt < cap \<and> transient then
                (case call_sleeper E attempt q1 of
                  (Slept, q2) \<Rightarrow> attempts E g cap (Suc attempt) q2
                | (SleepFailed, q2) \<Rightarrow>
                    andThen (tell g TransientFailure E) (\<lambda>_. raise ReadRetryStateUnavailableError) q2
                | (SleepInterrupted, q2) \<Rightarrow> (Inl Killed, q2))
              else andThen (tell g (if transient then TransientFailure else PermanentOutcome) E)
                     (\<lambda>_. ret (Reraised e)) q1)) = (r, q')"
    using assms(1,2) by (subst (asm) attempts.simps) (simp add: c)
  have end_told: thesis
    if t: "andThen (tell g rp E) (\<lambda>_. k) q2 = (r, q')" and "a_report rp" and "\<And>q. snd (k q) = q"
      and "q_calls q2 = Suc (q_calls q)" "q_reports q2 = q_reports q"
      and fit: "\<And>q. reports_fit (fst (k q)) g (told g rp)" for rp k q2
    using t g that(2,3)
  proof (cases rule: then_tell_cases)
    case reported
    with that(4,5) fit [of q'] show ?thesis by (intro stop) (simp add: loop_done_def)
  next
    case failed
    with that(4,5) show ?thesis by (intro stop) (auto simp: loop_done_def told_def split: option.splits)
  qed
  have end_untold: thesis
    if "r = Inl x" "q_calls q' = Suc (q_calls q)" "q_reports q' = q_reports q" "x = Killed \<or> x = TypeError" for x
    using that by (intro stop) (auto simp: loop_done_def)
  show ?thesis
  proof (cases a)
    case (Returns x)
    with run q1 show ?thesis by (intro end_told [of Success "ret (Returned x)" q1]) (auto simp: ret_def)
  next
    case Interrupted
    with run q1 show ?thesis by (intro end_untold [of Killed]) auto
  next
    case (Raises e)
    show ?thesis
    proof (cases "is_known_transient_read_error e")
      case (Inl x)
      with run q1 Raises transient_errors [OF Inl] show ?thesis by (intro end_untold [of x]) auto
    next
      case (Inr transient)
      show ?thesis
      proof (cases "attempt < cap \<and> transient")
        case False
        have "reports_fit (fst (ret (Reraised e) q)) g
            (told g (if transient then TransientFailure else PermanentOutcome))" for q :: ReadState
          using Inr by (simp add: ret_def)
        with False run q1 Raises Inr show ?thesis
          by (intro end_told [of "if transient then TransientFailure else PermanentOutcome"
                "ret (Reraised e)" q1]) (auto simp: ret_def)
      next
        case True
        obtain z q2 where s: "call_sleeper E attempt q1 = (z, q2)" by fastforce
        then have q2: "q_calls q2 = Suc (q_calls q)" "q_reports q2 = q_reports q"
          using q1 by (auto simp: call_sleeper_def)
        show ?thesis
        proof (cases z)
          case Slept
          with True run s q1 q2 Raises Inr show ?thesis
            by (intro again [of q2]) (auto simp: retryable_def)
        next
          case SleepFailed
          with True run s q2 Raises Inr show ?thesis
            by (intro end_told [of TransientFailure "raise ReadRetryStateUnavailableError" q2])
              (auto simp: raise_def)
        next
          case SleepInterrupted
          with True run s q2 Raises Inr show ?thesis by (intro end_untold [of Killed]) auto
        qed
      qed
    qed
  qed
qed

lemma loop_done_again:
  assumes "loop_done E g most q2 r q'" and "retryable E (q_calls q)"
    and "q_calls q2 = Suc (q_calls q)" "q_reports q2 = q_reports q"
  shows "loop_done E g (Suc most) q r q'"
proof -
  have "retryable E k" if "k \<in> {q_calls q ..< q_calls q' - 1}" for k
    using that assms by (cases "k = q_calls q") (auto simp: loop_done_def)
  with assms show ?thesis by (auto simp: loop_done_def)
qed

lemma loop_done_mono: "loop_done E g m q r q' \<Longrightarrow> m \<le> n \<Longrightarrow> loop_done E g n q r q'"
  by (auto simp: loop_done_def)

lemma attempts_done:
  assumes "guard_ok g"
  shows "attempt \<le> cap \<Longrightarrow> attempts E g cap attempt q = (r, q') \<Longrightarrow>
   loop_done E g (Suc cap - attempt) q r q'"
proof (induction "cap - attempt" arbitrary: attempt q rule: less_induct)
  case (less attempt q)
  from less.prems assms show ?case
  proof (cases rule: attempts_cases)
    case (again q2)
    with less.hyps [of "Suc attempt" q2] have "loop_done E g (cap - attempt) q2 r q'" by simp
    from loop_done_again [OF this again(2,3,4)] less.prems(1) show ?thesis by (simp add: Suc_diff_le)
  next
    case stop
    then show ?thesis by (rule loop_done_mono) (use less.prems(1) in simp)
  qed
qed

lemma acquired_permit:
  assumes "acquire dep reading b = (Inr p, b')"
  shows "0 \<le> cp_generation p" "cp_dependency p = dep"
    "cp_half_open p \<longleftrightarrow> ds_state (state_of b dep) \<noteq> CLOSED"
proof -
  from assms have ok: "state_consistent (state_of b dep)"
    by (auto simp: acquire_def andThen_def lift_def load_state_eq split: sum.splits if_splits)
  from assms show "0 \<le> cp_generation p" "cp_dependency p = dep"
    "cp_half_open p \<longleftrightarrow> ds_state (state_of b dep) \<noteq> CLOSED"
    using ok by (cases rule: acquire_cases, auto simp: state_consistent_def)+
qed

lemma acquire_errors:
  "acquire dep reading b = (Inl e, b') \<Longrightarrow> e = CircuitOpenError \<or> e = CircuitStateUnavailableError"
  by (erule acquire_cases) auto

lemma new_read_retry_attempts:
  "new_read_retry m cb dep = Inr R \<Longrightarrow> br_max_attempts R = m \<and> 1 \<le> m \<and> m \<le> 3"
  by (auto simp: new_read_retry_def split: if_splits)

lemma attempt_cap_pos: "1 \<le> br_max_attempts R \<Longrightarrow> 1 \<le> attempt_cap R p"
  by (simp add: attempt_cap_def le_nat_iff)

text \<open>One run: refused before any call, or the loop under the acquired permit.\<close>

lemma retry_run_cases:
  assumes "retry_run R E cls q = (r, q')"
  obtains (forbidden) "cls \<notin> {READ_ONLY_DEPENDENCY, VERIFICATION_POLL}" "r = Inl ValueError" "q' = q"
    | (refused) c dep e b where "br_circuit R = Some (c, dep)"
      "acquire dep (en_clock E (q_clocks q)) (q_breaker q) = (Inl e, b)" "r = Inl e"
      "q_calls q' = q_calls q" "q_reports q' = q_reports q"
    | (unguarded) "br_circuit R = None" "attempts E None (attempt_cap R None) 1 q = (r, q')"
      "cls \<in> {READ_ONLY_DEPENDENCY, VERIFICATION_POLL}"
    | (guarded) c dep p b where "br_circuit R = Some (c, dep)"
      "acquire dep (en_clock E (q_clocks q)) (q_breaker q) = (Inr p, b)"
      "attempts E (Some (c, p)) (attempt_cap R (Some p)) 1
         (q\<lparr>q_breaker := b, q_clocks := Suc (q_clocks q)\<rparr>) = (r, q')"
      "cls \<in> {READ_ONLY_DEPENDENCY, VERIFICATION_POLL}"
proof (cases "cls \<in> {READ_ONLY_DEPENDENCY, VERIFICATION_POLL}")
  case False
  with assms show ?thesis by (intro forbidden) (auto simp: retry_run_def raise_def)
next
  case True
  note run = assms [unfolded retry_run_def]
  show ?thesis
  proof (cases "br_circuit R")
    case None
    with True run show ?thesis by (intro unguarded) auto
  next
    case (Some cd)
    then obtain c dep where cd: "br_circuit R = Some (c, dep)" by (cases cd) auto
    obtain x b where a: "acquire dep (en_clock E (q_clocks q)) (q_breaker q) = (x, b)" by fastforce
    show ?thesis
    proof (cases x)
      case (Inl e)
      with True run cd a show ?thesis
        by (intro refused [of c dep e b]) (auto simp: andThen_def on_breaker_def)
    next
      case (Inr p)
      with True run cd a show ?thesis
        by (intro guarded [of c dep p b]) (auto simp: andThen_def on_breaker_def)
    qed
  qed
qed

lemma reports_fit_no_assertion: "reports_fit r g rs \<Longrightarrow> r \<noteq> Inl AssertionError"
  by auto

text \<open>C35: A read is called at most as often as configured (at most three times), only after known
  transient failures, at most once while its circuit is not closed, never for a mutation class.\<close>

theorem retry_bounded:
  assumes "new_read_retry m cb dep0 = Inr R" and "retry_run R E cls q = (r, q')"
  shows "q_calls q \<le> q_calls q' \<and> int (q_calls q' - q_calls q) \<le> m \<and> m \<le> 3
    \<and> (\<forall>k \<in> {q_calls q ..< q_calls q' - 1}. retryable E k)
    \<and> (cls \<notin> {READ_ONLY_DEPENDENCY, VERIFICATION_POLL} \<longrightarrow> q' = q \<and> r = Inl ValueError)
    \<and> (\<forall>c dep. br_circuit R = Some (c, dep) \<longrightarrow> ds_state (state_of (q_breaker q) dep) \<noteq> CLOSED
         \<longrightarrow> q_calls q' \<le> Suc (q_calls q))
    \<and> r \<noteq> Inl AssertionError"
proof -
  from new_read_retry_attempts [OF assms(1)] have m: "br_max_attempts R = m" "1 \<le> m" "m \<le> 3" by auto
  have cap: "int (attempt_cap R p) \<le> m" "1 \<le> attempt_cap R p" for p
    using m attempt_cap_pos [of R p] by (auto simp: attempt_cap_def)
  from assms(2) show ?thesis
  proof (cases rule: retry_run_cases)
    case forbidden
    with m show ?thesis by simp
  next
    case (refused c dep e b)
    with m acquire_errors [OF refused(2)] assms(2) show ?thesis
      by (auto simp: retry_run_def raise_def)
  next
    case unguarded
    from attempts_done [OF _ cap(2) unguarded(2)] have "loop_done E None (attempt_cap R None) q r q'"
      by (simp add: guard_ok_def)
    with unguarded cap(1) [of None] m show ?thesis
      by (auto simp: loop_done_def reports_fit_no_assertion)
  next
    case (guarded c dep p b)
    note p = acquired_permit [OF guarded(2)]
    from attempts_done [OF _ cap(2) guarded(3)] p(1)
    have d: "loop_done E (Some (c, p)) (attempt_cap R (Some p)) q r q'"
      by (simp add: guard_ok_def loop_done_def)
    have "q_calls q' \<le> Suc (q_calls q)" if "ds_state (state_of (q_breaker q) dep) \<noteq> CLOSED"
      using that p(3) d by (simp add: attempt_cap_def loop_done_def)
    with d guarded cap(1) [of "Some p"] m show ?thesis
      by (auto simp: loop_done_def reports_fit_no_assertion)
  qed
qed

text \<open>Behind a breaker, a read is refused without a call or settles its permit with exactly one
  report that fits its end; only an interruption, or an error object with an unhashable code or
  status, leaves the permit unreported.\<close>

theorem retry_settles_permit:
  assumes "br_circuit R = Some (c, dep)" and "1 \<le> br_max_attempts R"
    and "cls = READ_ONLY_DEPENDENCY \<or> cls = VERIFICATION_POLL" and "retry_run R E cls q = (r, q')"
  shows "case acquire dep (en_clock E (q_clocks q)) (q_breaker q) of
      (Inl e, _) \<Rightarrow> r = Inl e \<and> q_calls q' = q_calls q \<and> q_reports q' = q_reports q
    | (Inr p, _) \<Rightarrow> q_calls q < q_calls q' \<and> cp_dependency p = dep
        \<and> (\<exists>rs. q_reports q' = q_reports q @ rs \<and> reports_fit r (Some (c, p)) rs)"
  using assms(4)
proof (cases rule: retry_run_cases)
  case (guarded c' dep' p b)
  with assms(1) have eq: "c' = c" "dep' = dep" by auto
  note p = acquired_permit [OF guarded(2)]
  from attempts_done [OF _ attempt_cap_pos [OF assms(2)] guarded(3)] p(1)
  have "loop_done E (Some (c, p)) (attempt_cap R (Some p)) q r q'"
    by (simp add: guard_ok_def loop_done_def eq)
  with guarded(2) p(2) eq show ?thesis by (simp add: loop_done_def)
qed (use assms in auto)

subsection \<open>The loop against a direct description\<close>

fun outcome :: "'a Answer \<Rightarrow> exc + 'a RetryExit" where
  "outcome (Returns x) = Inr (Returned x)"
| "outcome Interrupted = Inl Killed"
| "outcome (Raises e) = (case is_known_transient_read_error e of
     Inl x \<Rightarrow> Inl x | Inr _ \<Rightarrow> Inr (Reraised e))"

text \<open>The number of the first call that is not retried: all earlier ones failed transiently.\<close>

definition final_call :: "'a ReadEnvironment \<Rightarrow> nat \<Rightarrow> nat \<Rightarrow> nat" where
  "final_call E first retries = first + length (takeWhile (retryable E) [first ..< first + retries])"

lemma final_call_Suc: "final_call E first (Suc n) =
   (if retryable E first then final_call E (Suc first) n else first)"
  by (simp add: final_call_def upt_rec [of first])

lemma attempts_reference:
  "(\<And>n. en_sleep E n = Slept) \<Longrightarrow> attempt + n = cap \<Longrightarrow>
   fst (attempts E None cap attempt q) = outcome (en_answer E (final_call E (q_calls q) n))"
proof (induction n arbitrary: attempt q)
  case 0
  then show ?case
    by (subst attempts.simps)
      (auto simp: call_operation_def final_call_def tell_def prog_defs split: Answer.splits sum.splits)
next
  case (Suc n)
  show ?case
  proof (cases "en_answer E (q_calls q)")
    case (Returns x)
    then show ?thesis using Suc.prems
      by (subst attempts.simps)
        (simp add: call_operation_def final_call_Suc retryable_def tell_def prog_defs)
  next
    case Interrupted
    then show ?thesis using Suc.prems
      by (subst attempts.simps) (simp add: call_operation_def final_call_Suc retryable_def)
  next
    case (Raises e)
    then show ?thesis
      using Suc.prems Suc.IH [of "Suc attempt" "q\<lparr>q_calls := Suc (q_calls q),
          q_breaker := en_meanwhile E (q_calls q) (q_breaker q), q_sleeps := q_sleeps q @ [attempt]\<rparr>"]
      by (subst attempts.simps)
        (auto simp: call_operation_def call_sleeper_def final_call_Suc retryable_def tell_def prog_defs
          split: sum.splits)
  qed
qed


subsection \<open>A probe that ends without a report\<close>

definition leaves_unreported :: "'a Answer \<Rightarrow> bool" where
  "leaves_unreported a = (case a of
     Interrupted \<Rightarrow> True
   | Raises e \<Rightarrow> is_known_transient_read_error e = Inl TypeError
   | Returns _ \<Rightarrow> False)"

text \<open>If the recovery probe of an open circuit is interrupted, or fails with an error object
  whose code is unhashable, its permit is never reported: the circuit stays half-open and
  refuses every later read of that dependency, whatever the clock shows.\<close>

theorem unreported_probe_blocks:
  assumes "br_circuit R = Some (c, dep)" and "cls = READ_ONLY_DEPENDENCY \<or> cls = VERIFICATION_POLL"
    and "state_consistent (state_of (q_breaker q) dep)"
    and "ds_state (state_of (q_breaker q) dep) = OPEN"
    and "ds_retry_at (state_of (q_breaker q) dep) = Some retry_at"
    and "en_clock E (q_clocks q) = Some now" and "retry_at \<le> now"
    and "en_meanwhile E (q_calls q) = id" and "leaves_unreported (en_answer E (q_calls q))"
    and "retry_run R E cls q = (r, q')"
  shows "q_reports q' = q_reports q
    \<and> fst (acquire dep (Some later) (q_breaker q')) = Inl CircuitOpenError"
proof -
  obtain a b where a: "acquire dep (Some now) (q_breaker q) = (a, b)" by fastforce
  have pb: "(\<exists>p. a = Inr p \<and> cp_half_open p)
      \<and> state_of b dep = (state_of (q_breaker q) dep)\<lparr>ds_state := HALF_OPEN, ds_probe := True,
          ds_generation := ds_generation (state_of (q_breaker q) dep) + 1\<rparr>"
  proof -
    from assms(4,5,7) a show ?thesis
      by (auto simp: acquire_def andThen_def lift_def safe_now_def load_state_eq assms(3)
          ret_def store_state_def state_of_put)
  qed
  then obtain p where p: "a = Inr p" "cp_half_open p" by auto
  have "q_reports q' = q_reports q \<and> q_breaker q' = b"
    using assms(1,2,6,8-) a p unfolding retry_run_def
    by (cases "en_answer E (q_calls q)")
      (auto simp: andThen_def on_breaker_def attempt_cap_def attempts.simps call_operation_def
        leaves_unreported_def split: if_splits)
  moreover have "fst (acquire dep (Some later) b) = Inl CircuitOpenError"
    using pb assms(3,4,5) by (simp add: acquire_def andThen_def lift_def safe_now_def load_state_eq
        raise_def state_consistent_def)
  ultimately show ?thesis by simp
qed

text \<open>A model stream that its consumer abandons counts as a success: it closes the open circuit
  whose recovery probe it was, although the model answered nothing.\<close>

theorem abandoned_stream_closes_circuit:
  assumes "state_consistent (state_of (q_breaker q) BEDROCK_MODEL)"
    and "ds_state (state_of (q_breaker q) BEDROCK_MODEL) = OPEN"
    and "ds_retry_at (state_of (q_breaker q) BEDROCK_MODEL) = Some retry_at"
    and "en_clock E (q_clocks q) = Some now" and "retry_at \<le> now"
    and "circuit_stream c E Abandoned q = (r, q')"
  shows "r = Inl Killed \<and> ds_state (state_of (q_breaker q') BEDROCK_MODEL) = CLOSED
    \<and> ds_failures (state_of (q_breaker q') BEDROCK_MODEL) = 0"
proof -
  let ?s = "state_of (q_breaker q) BEDROCK_MODEL"
  obtain b where a: "acquire BEDROCK_MODEL (Some now) (q_breaker q) =
      (Inr \<lparr>cp_dependency = BEDROCK_MODEL, cp_generation = ds_generation ?s + 1, cp_half_open = True\<rparr>, b)"
    and b: "state_of b BEDROCK_MODEL = ?s\<lparr>ds_state := HALF_OPEN, ds_probe := True,
          ds_generation := ds_generation ?s + 1\<rparr>"
    using assms(1-5) by (auto simp: acquire_def andThen_def lift_def safe_now_def load_state_eq
        ret_def store_state_def state_of_put)
  have ok: "state_consistent (state_of b BEDROCK_MODEL)" "0 \<le> ds_generation ?s"
    using assms(1,2) b by (auto simp: state_consistent_def)
  show ?thesis
    using assms(4,6) a ok b
    by (auto simp: circuit_stream_def andThen_def on_breaker_def tell_def record_success_def
        record_non_transient_def check_permit_def lift_def load_state_eq store_state_def state_of_put
        ret_def raise_def split: prod.splits)
qed

subsection \<open>The correction budget\<close>

definition rejected :: "('p \<Rightarrow> exc + 'v) \<Rightarrow> 'p \<Rightarrow> bool" where
  "rejected f p = (case f p of Inl e \<Rightarrow> e = TypeError \<or> is_value_error e | Inr _ \<Rightarrow> False)"

definition spent :: "('p \<Rightarrow> exc + 'v) \<Rightarrow> 'p list \<Rightarrow> int" where
  "spent f ps = int (length (filter (rejected f) ps))"

definition budget_verdict :: "('p \<Rightarrow> exc + 'v) \<Rightarrow> int \<Rightarrow> int \<Rightarrow> 'p \<Rightarrow> exc + 'v ControlResult" where
  "budget_verdict f m used p =
     (if m \<le> used then Inr (Failed (correction_failure True))
      else if rejected f p then Inr (Failed (correction_failure (used + 1 = m)))
      else (case f p of Inl e \<Rightarrow> Inl e | Inr v \<Rightarrow> Inr (Succeeded v)))"

lemma schema_validate_eq:
  assumes "sb_invalid_attempts b \<le> sb_max_attempts b"
  shows "schema_validate f p b =
    (budget_verdict f (sb_max_attempts b) (sb_invalid_attempts b) p,
     b\<lparr>sb_invalid_attempts := min (sb_max_attempts b)
        (sb_invalid_attempts b + (if rejected f p then 1 else 0))\<rparr>)"
proof -
  have last: "(sb_max_attempts b \<le> sb_invalid_attempts b + 1) = (sb_invalid_attempts b + 1 = sb_max_attempts b)"
    if "sb_max_attempts b \<noteq> sb_invalid_attempts b"
    using assms that by linarith
  show ?thesis using assms
    by (auto simp: last schema_validate_def exhausted_def reject_def budget_verdict_def rejected_def Let_def
        split: sum.splits)
qed

lemma budget_verdict_min: "budget_verdict f m (min m k) p = budget_verdict f m k p"
  by (auto simp: budget_verdict_def)

lemma validate_all_eq:
  "sb_max_attempts b = m \<Longrightarrow> sb_invalid_attempts b = min m k \<Longrightarrow> i < length ps \<Longrightarrow>
   validate_all f ps b ! i = budget_verdict f m (k + spent f (take i ps)) (ps ! i)"
proof (induction ps arbitrary: b k i)
  case Nil
  then show ?case by simp
next
  case (Cons p ps)
  define b' where "b' = b\<lparr>sb_invalid_attempts := min m (min m k + (if rejected f p then 1 else 0))\<rparr>"
  have v: "schema_validate f p b = (budget_verdict f m k p, b')"
    using Cons.prems schema_validate_eq [of b f p] by (simp add: b'_def budget_verdict_min)
  show ?case
  proof (cases i)
    case 0
    with v show ?thesis by (simp add: spent_def)
  next
    case (Suc j)
    have "validate_all f ps b' ! j =
        budget_verdict f m (k + (if rejected f p then 1 else 0) + spent f (take j ps)) (ps ! j)"
      by (rule Cons.IH) (use Cons.prems Suc in \<open>auto simp: b'_def min_def\<close>)
    with Suc v show ?thesis by (simp add: spent_def algebra_simps split: if_splits)
  qed
qed

text \<open>Over any sequence of model outputs the budget lets exactly the configured number of
  schema rejections be corrected: each output is judged by the strict schema until that many were
  rejected, and every later output is refused for good, valid or not.\<close>

theorem schema_correction_bounded:
  assumes "new_budget m = Inr b" and "i < length ps"
  shows "validate_all f ps b ! i =
    (if m \<le> spent f (take i ps)
     then Inr (Failed (failure FailureKind.VALIDATION_FAILURE ''MODEL_OUTPUT_INVALID''
       ''Model output remained schema-invalid after the bounded correction budget'' False))
     else if rejected f (ps ! i)
     then Inr (Failed (correction_failure (spent f (take i ps) + 1 = m)))
     else (case f (ps ! i) of Inl e \<Rightarrow> Inl e | Inr v \<Rightarrow> Inr (Succeeded v)))"
proof -
  from assms(1) have "sb_max_attempts b = m" "sb_invalid_attempts b = min m 0"
    by (auto simp: new_budget_def split: if_splits)
  from validate_all_eq [OF this assms(2), of f] show ?thesis
    by (simp add: budget_verdict_def correction_failure_def)
qed

subsection \<open>Concrete reads\<close>

definition ex_throttled :: ReadError where
  "ex_throttled = \<lparr>re_os_error = False, re_class = (''botocore.exceptions'', ''ClientError''),
     re_response = Some (JObj [(''Error'', JObj [(''Code'', JStr ''Throttling'')])])\<rparr>"

definition ex_denied :: ReadError where
  "ex_denied = \<lparr>re_os_error = False, re_class = (''botocore.exceptions'', ''ClientError''),
     re_response = Some (JObj [(''Error'', JObj [(''Code'', JStr ''AccessDenied'')]),
       (''ResponseMetadata'', JObj [(''HTTPStatusCode'', JInt 503)])])\<rparr>"

definition ex_unhashable :: ReadError where
  "ex_unhashable = \<lparr>re_os_error = False, re_class = (''botocore.exceptions'', ''ClientError''),
     re_response = Some (JObj [(''Error'', JObj [(''Code'', JArr [])])])\<rparr>"

lemma ex_errors:
  "is_known_transient_read_error ex_throttled = Inr True"
  "is_known_transient_read_error ex_denied = Inr False"
  "is_known_transient_read_error ex_unhashable = Inl TypeError"
  by (simp_all add: ex_throttled_def ex_denied_def ex_unhashable_def is_known_transient_read_error_def
      jget_def Let_def TRANSIENT_TRANSPORT_ERRORS_def PERMANENT_CODES_def TRANSIENT_CODES_def)

definition ex_answers :: "nat Answer list \<Rightarrow> nat ReadEnvironment" where
  "ex_answers xs = \<lparr>en_answer = (\<lambda>k. if k < length xs then xs ! k else Interrupted),
     en_sleep = (\<lambda>_. Slept), en_clock = (\<lambda>k. Some (of_nat (50 + k))), en_meanwhile = (\<lambda>_. id)\<rparr>"

definition ex_read :: "Breaker \<Rightarrow> ReadState" where
  "ex_read b = \<lparr>q_breaker = b, q_calls = 0, q_sleeps = [], q_clocks = 0, q_reports = []\<rparr>"

definition ex_retry :: BoundedReadRetry where
  "ex_retry = \<lparr>br_max_attempts = 3, br_circuit = Some (default_circuit_settings, BEDROCK_MODEL)\<rparr>"

definition ex_plain_retry :: BoundedReadRetry where
  "ex_plain_retry = \<lparr>br_max_attempts = 3, br_circuit = None\<rparr>"

lemma ex_new_retry:
  "new_read_retry 3 (Some default_circuit_settings) (Some BEDROCK_MODEL) = Inr ex_retry"
  "new_read_retry 3 None None = Inr ex_plain_retry"
  by (simp_all add: new_read_retry_def ex_retry_def ex_plain_retry_def)

definition ex_open :: Breaker where
  "ex_open = [(BEDROCK_MODEL, \<lparr>ds_state = OPEN, ds_failures = 2, ds_retry_at = Some 33,
     ds_generation = 1, ds_probe = False\<rparr>)]"

lemma ex_open_state: "state_of ex_open BEDROCK_MODEL = \<lparr>ds_state = OPEN, ds_failures = 2,
    ds_retry_at = Some 33, ds_generation = 1, ds_probe = False\<rparr>"
  by (simp add: ex_open_def state_of_def)

lemmas ex_read_simps = ex_answers_def ex_read_def ex_retry_def ex_plain_retry_def ex_errors
  call_operation_def call_sleeper_def tell_def on_breaker_def prog_defs

lemma ex_plain_run: "retry_run ex_plain_retry (ex_answers [Raises ex_throttled, Raises ex_denied, Returns 7])
    READ_ONLY_DEPENDENCY (ex_read []) =
    (Inr (Reraised ex_denied), \<lparr>q_breaker = [], q_calls = 2, q_sleeps = [1], q_clocks = 0, q_reports = []\<rparr>)"
  by (simp add: retry_run_def attempt_cap_def attempts.simps ex_read_simps)

lemma ex_guarded_run: "\<exists>q. retry_run ex_retry (ex_answers [Raises ex_throttled, Returns 7])
    VERIFICATION_POLL (ex_read []) = (Inr (Returned 7), q) \<and> q_calls q = 2"
  by (simp add: retry_run_def attempt_cap_def attempts.simps ex_read_simps acquire_def
      safe_now_def load_state_def state_consistent_def initial_state_def Let_def record_success_def
      record_non_transient_def check_permit_def store_state_def)

theorem retry_bounded_witness:
  "(\<exists>q. retry_run ex_retry (ex_answers [Raises ex_throttled, Returns 7]) VERIFICATION_POLL (ex_read [])
      = (Inr (Returned 7), q) \<and> int (q_calls q) \<le> 3)
   \<and> retryable (ex_answers [Raises ex_throttled, Returns 7]) 0"
proof -
  obtain q where q: "retry_run ex_retry (ex_answers [Raises ex_throttled, Returns 7]) VERIFICATION_POLL
      (ex_read []) = (Inr (Returned 7), q)" "q_calls q = 2" using ex_guarded_run by blast
  from retry_bounded [OF ex_new_retry(1) q(1)] q show ?thesis by (simp add: ex_read_def)
qed

theorem retry_settles_permit_witness:
  "\<exists>q p. retry_run ex_retry (ex_answers [Raises ex_throttled, Returns 7]) VERIFICATION_POLL (ex_read [])
      = (Inr (Returned 7), q) \<and> q_reports q = [Success p]"
proof -
  obtain q where q: "retry_run ex_retry (ex_answers [Raises ex_throttled, Returns 7]) VERIFICATION_POLL
      (ex_read []) = (Inr (Returned 7), q)" using ex_guarded_run by blast
  have "br_circuit ex_retry = Some (default_circuit_settings, BEDROCK_MODEL)" "1 \<le> br_max_attempts ex_retry"
    by (simp_all add: ex_retry_def)
  from retry_settles_permit [OF this _ q] q show ?thesis
    by (auto simp: ex_read_def told_def split: prod.splits sum.splits)
qed


theorem unreported_probe_blocks_witness:
  "fst (acquire BEDROCK_MODEL (Some 1000000) (q_breaker (snd
     (retry_run ex_retry (ex_answers [Raises ex_unhashable]) READ_ONLY_DEPENDENCY (ex_read ex_open)))))
   = Inl CircuitOpenError"
proof -
  obtain r q' where "retry_run ex_retry (ex_answers [Raises ex_unhashable]) READ_ONLY_DEPENDENCY
      (ex_read ex_open) = (r, q')" by fastforce
  from unreported_probe_blocks [OF _ _ _ _ _ _ _ _ _ this, of default_circuit_settings BEDROCK_MODEL 33 50 1000000]
    this show ?thesis
    by (simp add: ex_read_def ex_open_state state_consistent_def ex_retry_def ex_answers_def
        leaves_unreported_def ex_errors)
qed

theorem abandoned_stream_closes_circuit_witness:
  "ds_state (state_of (q_breaker (snd (circuit_stream default_circuit_settings (ex_answers []) Abandoned
     (ex_read ex_open)))) BEDROCK_MODEL) = CLOSED"
proof -
  obtain r q' where r: "circuit_stream default_circuit_settings (ex_answers []) Abandoned (ex_read ex_open)
      = (r, q')" by fastforce
  from abandoned_stream_closes_circuit [OF _ _ _ _ _ this, of 33 50] r show ?thesis
    by (simp add: ex_read_def ex_open_state state_consistent_def ex_answers_def)
qed

theorem schema_correction_bounded_witness:
  "validate_all (\<lambda>n. if n < (10::nat) then Inl ValidationError else Inr n) [1, 12, 2, 13]
     \<lparr>sb_max_attempts = 2, sb_invalid_attempts = 0\<rparr> ! 3 = Inr (Failed (correction_failure True))"
proof -
  have b: "new_budget 2 = Inr \<lparr>sb_max_attempts = 2, sb_invalid_attempts = 0\<rparr>" by (simp add: new_budget_def)
  show ?thesis
    by (subst schema_correction_bounded [OF b])
      (simp_all add: spent_def rejected_def correction_failure_def numeral_3_eq_3)
qed

end
