(* ===== verification/Verification.thy ===== *)
theory Verification
  imports Policy Stop_Coordinator
begin

text \<open>
  \<open>verification/models.py\<close>, \<open>verification/service.py\<close>, \<open>verification/coordinator.py\<close> and
  \<open>config/verification.py\<close>: the coordinator that polls an independent read-back of the stopped
  instance within a fixed budget and closes the run as SUCCESS_WITH_EVIDENCE only on stored
  proof. The inspection service, clock, sleeper and identifier factories are collaborators;
  the locale \<open>verification_environment\<close> states what they may do.
\<close>

subsection \<open>Observations\<close>

datatype Ec2InstanceState = PENDING | RUNNING | SHUTTING_DOWN | TERMINATED | STOPPING | STOPPED

fun Ec2InstanceState_value :: "Ec2InstanceState \<Rightarrow> string" where
  "Ec2InstanceState_value PENDING = ''pending''"
| "Ec2InstanceState_value RUNNING = ''running''"
| "Ec2InstanceState_value SHUTTING_DOWN = ''shutting-down''"
| "Ec2InstanceState_value TERMINATED = ''terminated''"
| "Ec2InstanceState_value STOPPING = ''stopping''"
| "Ec2InstanceState_value STOPPED = ''stopped''"

record VerificationObservation =
  ob_proposal_id :: uuid
  ob_run_id :: uuid
  ob_trace_id :: uuid
  ob_correlation_id :: uuid
  ob_target :: ActionTarget
  ob_disposition :: VerificationDisposition
  ob_observed_state :: Ec2InstanceState
  ob_observed_at :: int
  ob_attempt :: int
  ob_inspection_evidence_hash :: string
  ob_observation_hash :: string

definition disposition_of :: "Ec2InstanceState \<Rightarrow> VerificationDisposition" where
  "disposition_of state = (if state = STOPPED then VerificationDisposition.VERIFIED
     else if state = STOPPING then VerificationDisposition.STILL_TRANSITIONING
     else VerificationDisposition.MISMATCH)"

definition valid_observation :: "VerificationObservation \<Rightarrow> bool" where
  "valid_observation v \<longleftrightarrow> uuid7 (ob_proposal_id v) \<and> uuid7 (ob_run_id v) \<and> uuid7 (ob_trace_id v)
     \<and> uuid7 (ob_correlation_id v) \<and> valid_target (ob_target v)
     \<and> sha256_digest (ob_inspection_evidence_hash v) \<and> sha256_digest (ob_observation_hash v)
     \<and> ob_disposition v = disposition_of (ob_observed_state v) \<and> 0 < ob_attempt v"

record VerificationCompletion =
  vc_evidence :: VerificationEvidence
  vc_attempts :: int
  vc_reconciled :: bool

text \<open>
  What the service reads of an \<open>InstanceInspection\<close>; the inspection service itself is a
  collaborator.
\<close>

record InstanceInspection =
  in_state :: Ec2InstanceState
  in_evidence_digest :: string

record 's VerifyInstanceStateService =
  sv_inspect_result :: "string \<Rightarrow> InvestigationIdentity \<Rightarrow> ('s, InstanceInspection) handler"
  sv_target :: SandboxTarget

definition observation_payload ::
    "Platform \<Rightarrow> ActionProposal \<Rightarrow> InvestigationIdentity \<Rightarrow> InstanceInspection \<Rightarrow> int \<Rightarrow> int \<Rightarrow> json" where
  "observation_payload L proposal identity inspection observed_at attempt = JObj
     [(''proposal_id'', JStr (p_proposal_id proposal)), (''run_id'', JStr (id_run_id identity)),
      (''trace_id'', JStr (id_trace_id identity)),
      (''correlation_id'', JStr (id_correlation_id identity)),
      (''target'', target_json (p_target proposal)),
      (''disposition'', JStr (VerificationDisposition_value (disposition_of (in_state inspection)))),
      (''observed_state'', JStr (Ec2InstanceState_value (in_state inspection))),
      (''observed_at'', JStr (isoformat L observed_at)), (''attempt'', JInt attempt),
      (''inspection_evidence_hash'', JStr (in_evidence_digest inspection))]"

definition verification_scope :: "SandboxTarget \<Rightarrow> ActionTarget \<Rightarrow> bool" where
  "verification_scope target durable \<longleftrightarrow>
     tg_resource_id durable = st_instance_id target \<and> tg_region durable = st_region target
     \<and> tg_required_tag_key durable = st_required_tag_key target
     \<and> tg_required_tag_value durable = st_required_tag_value target"

definition observe ::
    "Platform \<Rightarrow> 's VerifyInstanceStateService \<Rightarrow> ActionProposal \<Rightarrow> InvestigationIdentity
     \<Rightarrow> datetime \<Rightarrow> int \<Rightarrow> ('s, VerificationObservation) handler" where
  "observe L S proposal identity observed_at attempt =
     (if \<not> verification_scope (sv_target S) (p_target proposal)
      then ret (Failed (failure FailureKind.POLICY_DENIAL ''VERIFICATION_SCOPE_DENIED''
             ''Durable proposal is outside configured sandbox scope'' False))
      else andThen (sv_inspect_result S (tg_resource_id (p_target proposal)) identity) (\<lambda>inspection.
        case inspection of
          Failed f \<Rightarrow> ret (Failed f)
        | Succeeded i \<Rightarrow>
            (case utc_field observed_at of Inl e \<Rightarrow> raise e
             | Inr t \<Rightarrow> andThen (lift (validated valid_observation
                 \<lparr>ob_proposal_id = p_proposal_id proposal, ob_run_id = id_run_id identity,
                  ob_trace_id = id_trace_id identity, ob_correlation_id = id_correlation_id identity,
                  ob_target = p_target proposal, ob_disposition = disposition_of (in_state i),
                  ob_observed_state = in_state i, ob_observed_at = t, ob_attempt = attempt,
                  ob_inspection_evidence_hash = in_evidence_digest i,
                  ob_observation_hash = compute_evidence_digest L
                    (observation_payload L proposal identity i t attempt)\<rparr>))
                 (\<lambda>v. ret (Succeeded v)))))"

subsection \<open>The coordinator\<close>

record 's BoundedVerificationCoordinator =
  vr_repository :: "'s DurableTruthRepository"
  vr_service :: "'s VerifyInstanceStateService"
  vr_max_attempts :: int
  vr_interval_seconds :: int
  vr_clock :: "('s, datetime) prog"
  vr_sleeper :: "int \<Rightarrow> ('s, unit) prog"
  vr_event_id_factory :: "('s, uuid) prog"
  vr_evidence_id_factory :: "('s, uuid) prog"

definition verification_settings :: "int \<Rightarrow> int \<Rightarrow> exc + int \<times> int" where
  "verification_settings max_attempts interval_seconds =
     (if \<not> (1 \<le> max_attempts \<and> max_attempts \<le> 10) then Inl ContractValidationError
      else if \<not> (0 \<le> interval_seconds \<and> interval_seconds \<le> 30) then Inl ContractValidationError
      else Inr (max_attempts, interval_seconds))"

definition verification_failed :: "FailureKind \<Rightarrow> string \<Rightarrow> string \<Rightarrow> bool \<Rightarrow> ('s, 'a) handler" where
  "verification_failed kind reason message retryable = ret (Failed (failure kind reason message retryable))"

text \<open>\<open>except (StorageConflictError, StorageDependencyError)\<close>.\<close>

definition on_storage_error :: "('s, 'a) prog \<Rightarrow> exc \<Rightarrow> ('s, 'a) prog option" where
  "on_storage_error g e = (if e \<in> storage_errors then Some g else None)"

definition verification_append_event ::
    "'s BoundedVerificationCoordinator \<Rightarrow> Run \<Rightarrow> AuditEventType \<Rightarrow> string \<Rightarrow> (string, string) dict
     \<Rightarrow> ('s, unit) prog" where
  "verification_append_event C run event_type payload_hash metadata =
     emit_event (vr_repository C) (vr_clock C) (vr_event_id_factory C) ''nz-verification''
       (Some ''verify_instance_state'') (r_run_id run) event_type payload_hash (run_metadata run metadata)"

definition verification_mark_recovery :: "'s BoundedVerificationCoordinator \<Rightarrow> Run \<Rightarrow> ('s, unit) prog" where
  "verification_mark_recovery C run =
     tryThen
       (andThen (op_get_run (vr_repository C) (r_run_id run)) (\<lambda>found.
        case found of None \<Rightarrow> ret ()
        | Some current \<Rightarrow>
            if r_state current = WorkflowState.VERIFYING
            then andThen (vr_clock C) (\<lambda>now.
              andThen (op_transition_run (vr_repository C) (r_run_id current) WorkflowState.RECOVERY_REQUIRED
                WorkflowState.VERIFYING (r_version current) now None None) (\<lambda>_. ret ()))
            else ret ()))
       (on_storage_error (ret ())) ret"

definition fail_verification ::
    "'s BoundedVerificationCoordinator \<Rightarrow> Run \<Rightarrow> string \<Rightarrow> FailureDetail
     \<Rightarrow> ('s, VerificationCompletion) handler" where
  "fail_verification C run key f =
     tryThen
       (andThen (lift (validated valid_action_result
          \<lparr>ar_outcome = ActionOutcome.FAILED, ar_observed_state = None, ar_evidence_hash = None,
           ar_failure = Some f\<rparr>)) (\<lambda>result.
        andThen (vr_clock C) (\<lambda>completed_at.
        andThen (op_complete_idempotency (vr_repository C) key result completed_at) (\<lambda>_.
        andThen (vr_clock C) (\<lambda>updated_at.
        op_transition_run (vr_repository C) (r_run_id run) (workflow_state_for_failure f)
          WorkflowState.VERIFYING (r_version run) updated_at None None)))))
       (on_storage_error (andThen (verification_mark_recovery C run) (\<lambda>_.
          verification_failed FailureKind.RECOVERY_REQUIREMENT ''VERIFICATION_FAILURE_DURABILITY_FAILED''
            ''Verification failure could not be durably reconciled'' False)))
       (\<lambda>_. ret (Failed f))"

text \<open>The factory compares the records before it checks the timestamp.\<close>

definition create_evidence_at ::
    "Platform \<Rightarrow> uuid \<Rightarrow> ActionProposal \<Rightarrow> Run \<Rightarrow> datetime \<Rightarrow> ExecutionAcknowledgement \<Rightarrow> string
     \<Rightarrow> exc + VerificationEvidence" where
  "create_evidence_at L evidence_id proposal run verified_at acknowledgement observation_hash =
     (case utc_field verified_at of
        Inr t \<Rightarrow> VerificationEvidence_create L evidence_id proposal run t acknowledgement observation_hash
      | Inl e \<Rightarrow> (case VerificationEvidence_create L evidence_id proposal run 0 acknowledgement observation_hash of
            Inl ValueError \<Rightarrow> Inl ValueError
          | _ \<Rightarrow> Inl e))"

definition close_verified ::
    "'s BoundedVerificationCoordinator \<Rightarrow> Run \<Rightarrow> uuid \<Rightarrow> VerificationEvidence
     \<Rightarrow> (string, string) dict \<Rightarrow> ('s, unit) prog" where
  "close_verified C run proposal_id evidence metadata =
     andThen (verification_append_event C run AuditEventType.VERIFICATION_RECORDED
       (v_evidence_hash evidence) metadata) (\<lambda>_.
     andThen (vr_clock C) (\<lambda>updated_at.
     andThen (op_transition_run (vr_repository C) (r_run_id run) WorkflowState.SUCCESS_WITH_EVIDENCE
       WorkflowState.VERIFYING (r_version run) updated_at None (Some proposal_id)) (\<lambda>_. ret ())))"

definition persist_success ::
    "Platform \<Rightarrow> 's BoundedVerificationCoordinator \<Rightarrow> Run \<Rightarrow> ActionProposal \<Rightarrow> ExecutionAcknowledgement
     \<Rightarrow> VerificationObservation \<Rightarrow> ('s, VerificationCompletion) handler" where
  "persist_success L C run proposal acknowledgement observation =
     andThen (vr_clock C) (\<lambda>verified_at.
     andThen (vr_evidence_id_factory C) (\<lambda>evidence_id.
     andThen (lift (create_evidence_at L evidence_id proposal run verified_at acknowledgement
       (ob_observation_hash observation))) (\<lambda>created.
     tryThen
       (andThen (op_create_verification_evidence (vr_repository C) created) (\<lambda>evidence.
        andThen (lift (validated valid_action_result
          \<lparr>ar_outcome = ActionOutcome.SUCCEEDED, ar_observed_state = Some ObservedInstanceState.STOPPED,
           ar_evidence_hash = Some (v_evidence_hash evidence), ar_failure = None\<rparr>)) (\<lambda>result.
        andThen (vr_clock C) (\<lambda>completed_at.
        andThen (op_complete_idempotency (vr_repository C) (derive_idempotency_key L proposal) result
          completed_at) (\<lambda>_.
        andThen (close_verified C run (p_proposal_id proposal) evidence
          [(''proposal_id'', p_proposal_id proposal),
           (''transition_candidate'', WorkflowState_value WorkflowState.SUCCESS_WITH_EVIDENCE)])
        (\<lambda>_. ret evidence))))))
       (on_storage_error (andThen (verification_mark_recovery C run) (\<lambda>_.
          verification_failed FailureKind.RECOVERY_REQUIREMENT ''VERIFICATION_EVIDENCE_DURABILITY_FAILED''
            ''Verified provider state could not be durably closed as success'' False)))
       (\<lambda>evidence. ret (Succeeded \<lparr>vc_evidence = evidence, vc_attempts = ob_attempt observation,
          vc_reconciled = False\<rparr>)))))"

definition finalize_existing_evidence ::
    "'s BoundedVerificationCoordinator \<Rightarrow> Run \<Rightarrow> uuid \<Rightarrow> ('s, VerificationCompletion) handler" where
  "finalize_existing_evidence C run proposal_id =
     tryThen
       (andThen (op_get_verification_evidence (vr_repository C) (r_run_id run) proposal_id) (\<lambda>found.
        case found of None \<Rightarrow> ret None
        | Some evidence \<Rightarrow>
            andThen (close_verified C run proposal_id evidence
              [(''proposal_id'', proposal_id), (''reconciled'', ''true''),
               (''transition_candidate'', WorkflowState_value WorkflowState.SUCCESS_WITH_EVIDENCE)])
            (\<lambda>_. ret (Some evidence))))
       (on_storage_error (andThen (verification_mark_recovery C run) (\<lambda>_.
          verification_failed FailureKind.RECOVERY_REQUIREMENT ''SUCCESS_TRANSITION_RECONCILIATION_FAILED''
            ''Durable success transition requires recovery'' False)))
       (\<lambda>closed. case closed of
          None \<Rightarrow> verification_failed FailureKind.RECOVERY_REQUIREMENT ''COMPLETED_RESULT_MISSING_EVIDENCE''
                    ''Completed idempotency record lacks durable verification evidence'' False
        | Some evidence \<Rightarrow> ret (Succeeded \<lparr>vc_evidence = evidence, vc_attempts = 0, vc_reconciled = True\<rparr>))"

definition reconcile_success ::
    "'s BoundedVerificationCoordinator \<Rightarrow> Run \<Rightarrow> uuid \<Rightarrow> ('s, VerificationCompletion) handler" where
  "reconcile_success C run proposal_id =
     tryThen (op_get_verification_evidence (vr_repository C) (r_run_id run) proposal_id)
       (\<lambda>e. if e = StorageDependencyError
            then Some (verification_failed FailureKind.DEPENDENCY_UNAVAILABLE
                   ''VERIFIED_EVIDENCE_LOOKUP_UNAVAILABLE''
                   ''Durable verified evidence lookup is unavailable'' True)
            else None)
       (\<lambda>found. case found of
          None \<Rightarrow> verification_failed FailureKind.RECOVERY_REQUIREMENT ''SUCCESS_EVIDENCE_MISSING''
                    ''SUCCESS_WITH_EVIDENCE lacks its durable proof'' False
        | Some evidence \<Rightarrow> ret (Succeeded \<lparr>vc_evidence = evidence, vc_attempts = 0, vc_reconciled = True\<rparr>))"

text \<open>\<open>for attempt in range(attempt, max_attempts + 1)\<close> of \<open>verify\<close>, and what follows the loop.\<close>

fun poll ::
    "Platform \<Rightarrow> 's BoundedVerificationCoordinator \<Rightarrow> Run \<Rightarrow> ActionProposal \<Rightarrow> IdempotencyRecord
     \<Rightarrow> ExecutionAcknowledgement \<Rightarrow> InvestigationIdentity \<Rightarrow> uuid \<Rightarrow> int list
     \<Rightarrow> ('s, VerificationCompletion) handler" where
  "poll L C run proposal idempotency acknowledgement identity proposal_id [] =
     fail_verification C run (i_idempotency_key idempotency)
       (failure FailureKind.VERIFICATION_FAILURE ''VERIFICATION_TIMEOUT''
         ''EC2 remained transitional beyond the bounded verification budget'' True)"
| "poll L C run proposal idempotency acknowledgement identity proposal_id (attempt # rest) =
     andThen (vr_clock C) (\<lambda>observed_at.
     andThen (observe L (vr_service C) proposal identity observed_at attempt) (\<lambda>observation_result.
     case observation_result of
       Failed f \<Rightarrow> fail_verification C run (i_idempotency_key idempotency) f
     | Succeeded observation \<Rightarrow>
       tryThen
         (verification_append_event C run AuditEventType.VERIFICATION_OBSERVED
           (ob_observation_hash observation)
           [(''attempt'', digits_int attempt),
            (''disposition'', VerificationDisposition_value (ob_disposition observation)),
            (''observed_state'', Ec2InstanceState_value (ob_observed_state observation)),
            (''proposal_id'', proposal_id)])
         (on_storage_error (andThen (verification_mark_recovery C run) (\<lambda>_.
            verification_failed FailureKind.RECOVERY_REQUIREMENT
              ''VERIFICATION_OBSERVATION_DURABILITY_FAILED''
              ''Independent provider observation could not be durably audited'' False)))
         (\<lambda>_.
           if ob_disposition observation = VerificationDisposition.VERIFIED
           then persist_success L C run proposal acknowledgement observation
           else if ob_disposition observation = VerificationDisposition.MISMATCH
           then fail_verification C run (i_idempotency_key idempotency)
                  (failure FailureKind.VERIFICATION_FAILURE ''VERIFICATION_STATE_MISMATCH''
                    ''Independent EC2 state does not match the expected stopped state'' False)
           else andThen (if attempt < vr_max_attempts C then vr_sleeper C (vr_interval_seconds C) else ret ())
                  (\<lambda>_. poll L C run proposal idempotency acknowledgement identity proposal_id rest))))"

definition identity_from_run :: "Run \<Rightarrow> exc + InvestigationIdentity" where
  "identity_from_run run = validated valid_identity
     \<lparr>id_run_id = r_run_id run, id_trace_id = r_trace_id run, id_correlation_id = r_correlation_id run\<rparr>"

definition verify_acknowledged ::
    "Platform \<Rightarrow> 's BoundedVerificationCoordinator \<Rightarrow> uuid \<Rightarrow> ActionProposal \<Rightarrow> Run
     \<Rightarrow> IdempotencyRecord \<Rightarrow> ExecutionAcknowledgement \<Rightarrow> ('s, VerificationCompletion) handler" where
  "verify_acknowledged L C proposal_id proposal run idempotency acknowledgement =
     andThen (lift (identity_from_run run)) (\<lambda>identity.
     tryThen
       (verification_append_event C run AuditEventType.VERIFICATION_STARTED
         (k_acknowledgement_hash acknowledgement) [(''proposal_id'', proposal_id)])
       (on_storage_error (verification_failed FailureKind.DEPENDENCY_UNAVAILABLE
          ''VERIFICATION_AUDIT_UNAVAILABLE'' ''Verification start could not be persisted'' True))
       (\<lambda>_. poll L C run proposal idempotency acknowledgement identity proposal_id
          [1..vr_max_attempts C]))"

datatype VerificationStart =
    NoProposal
  | NoRun
  | Found ActionProposal Run "IdempotencyRecord option"

definition verification_start ::
    "Platform \<Rightarrow> 's BoundedVerificationCoordinator \<Rightarrow> uuid \<Rightarrow> ('s, VerificationStart) prog" where
  "verification_start L C proposal_id =
     andThen (op_get_proposal (vr_repository C) proposal_id) (\<lambda>p. case p of
       None \<Rightarrow> ret NoProposal
     | Some proposal \<Rightarrow>
         andThen (op_get_run (vr_repository C) (p_run_id proposal)) (\<lambda>r. case r of
           None \<Rightarrow> ret NoRun
         | Some run \<Rightarrow>
             andThen (op_get_idempotency (vr_repository C) (derive_idempotency_key L proposal)) (\<lambda>i.
             ret (Found proposal run i))))"

definition verify_found ::
    "Platform \<Rightarrow> 's BoundedVerificationCoordinator \<Rightarrow> uuid \<Rightarrow> ActionProposal \<Rightarrow> Run
     \<Rightarrow> IdempotencyRecord option \<Rightarrow> ('s, VerificationCompletion) handler" where
  "verify_found L C proposal_id proposal run known =
     (if r_state run = WorkflowState.SUCCESS_WITH_EVIDENCE then reconcile_success C run proposal_id
      else (case known of
        None \<Rightarrow> verification_failed FailureKind.RECOVERY_REQUIREMENT ''EXECUTION_ACKNOWLEDGEMENT_MISSING''
                  ''Independent verification requires a durable execution acknowledgement'' False
      | Some idempotency \<Rightarrow> (case i_execution_acknowledgement idempotency of
          None \<Rightarrow> verification_failed FailureKind.RECOVERY_REQUIREMENT ''EXECUTION_ACKNOWLEDGEMENT_MISSING''
                    ''Independent verification requires a durable execution acknowledgement'' False
        | Some acknowledgement \<Rightarrow>
            if r_state run \<noteq> WorkflowState.VERIFYING
            then verification_failed FailureKind.RECOVERY_REQUIREMENT ''VERIFICATION_STATE_INVALID''
                   ''Run must be durably VERIFYING before provider read-back'' False
            else if i_status idempotency = IdempotencyStatus.COMPLETED
            then finalize_existing_evidence C run proposal_id
            else if i_status idempotency \<noteq> IdempotencyStatus.REGISTERED
            then verification_failed FailureKind.RECOVERY_REQUIREMENT ''VERIFICATION_IDEMPOTENCY_INVALID''
                   ''Idempotency state cannot safely enter verification'' False
            else verify_acknowledged L C proposal_id proposal run idempotency acknowledgement)))"

definition verify ::
    "Platform \<Rightarrow> 's BoundedVerificationCoordinator \<Rightarrow> uuid \<Rightarrow> ('s, VerificationCompletion) handler" where
  "verify L C proposal_id =
     tryThen (verification_start L C proposal_id)
       (\<lambda>e. if e = StorageDependencyError
            then Some (verification_failed FailureKind.DEPENDENCY_UNAVAILABLE
                   ''VERIFICATION_DURABILITY_UNAVAILABLE''
                   ''Durable verification prerequisites are unavailable'' True)
            else None)
       (\<lambda>found. case found of
          NoProposal \<Rightarrow> verification_failed FailureKind.VALIDATION_FAILURE
            ''VERIFICATION_PROPOSAL_NOT_FOUND'' ''Durable proposal is required for verification'' False
        | NoRun \<Rightarrow> verification_failed FailureKind.RECOVERY_REQUIREMENT
            ''VERIFICATION_RUN_NOT_FOUND'' ''Durable run is required for verification'' False
        | Found proposal run known \<Rightarrow> verify_found L C proposal_id proposal run known)"

subsection \<open>The environment of the coordinator\<close>

text \<open>
  \<open>reads\<close> is the log of provider reads: every inspection appends its answer, nothing else
  touches it, and none of the collaborators writes to the store other than through \<open>R\<close>.
\<close>

type_synonym Reading = "string \<times> (exc + InstanceInspection ControlResult)"

locale verification_environment = durable_truth L R view reads
  for L :: Platform and R :: "'s DurableTruthRepository" and view :: "'s \<Rightarrow> Repo"
    and reads :: "'s \<Rightarrow> Reading list" +
  fixes C :: "'s BoundedVerificationCoordinator"
  assumes repository: "vr_repository C = R"
    and clock: "bystander L view reads (vr_clock C)"
    and sleeper: "bystander L view reads (vr_sleeper C n)"
    and event_ids: "bystander L view reads (vr_event_id_factory C)"
    and evidence_ids: "bystander L view reads (vr_evidence_id_factory C)"
    and inspect: "sv_inspect_result (vr_service C) i idn s = (r, s') \<Longrightarrow>
      later L (view s) (view s') \<and> reads s' = reads s @ [(i, r)]"

text \<open>\<open>emits L view log P m\<close>: \<open>m\<close> extends the log, and \<open>P\<close> relates its result to the extension.\<close>

definition emits ::
    "Platform \<Rightarrow> ('s \<Rightarrow> Repo) \<Rightarrow> ('s \<Rightarrow> 'o list) \<Rightarrow> (exc + 'a \<Rightarrow> 'o list \<Rightarrow> bool) \<Rightarrow> ('s, 'a) prog \<Rightarrow> bool" where
  "emits L view log P m \<longleftrightarrow> (\<forall>s r s'. m s = (r, s') \<longrightarrow> later L (view s) (view s')
     \<and> (\<exists>obs. log s' = log s @ obs \<and> P r obs))"

lemma emitsD:
  assumes "emits L view log P m" and "m s = (r, s')"
  obtains obs where "later L (view s) (view s')" "log s' = log s @ obs" "P r obs"
  using assms unfolding emits_def by blast

lemma emits_bystander:
  assumes "bystander L view log m" and "\<And>s r s'. m s = (r, s') \<Longrightarrow> P r []"
  shows "emits L view log P m"
  unfolding emits_def using bystanderD [OF assms(1)] assms(2) by (metis append.right_neutral)

lemma emits_andThen:
  assumes "emits L view log Q m" and "\<And>e obs. Q (Inl e) obs \<Longrightarrow> P (Inl e) obs"
    and "\<And>x obs. Q (Inr x) obs \<Longrightarrow> emits L view log (\<lambda>r more. P r (obs @ more)) (k x)"
  shows "emits L view log P (andThen m k)"
  unfolding emits_def
proof (intro allI impI)
  fix s r s' assume "andThen m k s = (r, s')"
  then show "later L (view s) (view s') \<and> (\<exists>obs. log s' = log s @ obs \<and> P r obs)"
  proof (rule andThen_eqE)
    fix e assume m: "m s = (Inl e, s')" "r = Inl e"
    from emitsD [OF assms(1) m(1)] assms(2) m(2) show ?thesis by metis
  next
    fix x s1 assume m: "m s = (Inr x, s1)" and k: "k x s1 = (r, s')"
    from emitsD [OF assms(1) m] obtain obs where
      a: "later L (view s) (view s1)" "log s1 = log s @ obs" "Q (Inr x) obs" .
    from emitsD [OF assms(3) [OF a(3)] k] obtain more where
      "later L (view s1) (view s')" "log s' = log s1 @ more" "P r (obs @ more)" .
    with a(1,2) show ?thesis by (auto intro: rtranclp_trans)
  qed
qed

lemma emits_after_bystander:
  assumes "bystander L view log m" and "\<And>e. P (Inl e) []" and "\<And>x. emits L view log P (k x)"
  shows "emits L view log P (andThen m k)"
  by (rule emits_andThen [where Q = "\<lambda>_ obs. obs = []", OF emits_bystander]) (use assms in auto)

lemma emits_try_bystander:
  assumes "bystander L view log m" and "\<And>e. P (Inl e) []"
    and "\<And>e g. h e = Some g \<Longrightarrow> emits L view log P g" and "\<And>x. emits L view log P (k x)"
  shows "emits L view log P (tryThen m h k)"
  unfolding emits_def
proof (intro allI impI)
  fix s r s' assume "tryThen m h k s = (r, s')"
  then show "later L (view s) (view s') \<and> (\<exists>obs. log s' = log s @ obs \<and> P r obs)"
  proof (rule tryThen_eqE)
    fix e assume m: "m s = (Inl e, s')" "r = Inl e"
    from bystanderD [OF assms(1) m(1)] assms(2) m(2) show ?thesis by (intro conjI exI [of _ "[]"]) auto
  next
    fix e g s1 assume m: "m s = (Inl e, s1)" and g: "h e = Some g" "g s1 = (r, s')"
    from emitsD [OF assms(3) [OF g(1)] g(2)] bystanderD [OF assms(1) m] show ?thesis
      by (metis rtranclp_trans)
  next
    fix x s1 assume m: "m s = (Inr x, s1)" and k: "k x s1 = (r, s')"
    from emitsD [OF assms(4) k] bystanderD [OF assms(1) m] show ?thesis by (metis rtranclp_trans)
  qed
qed

lemma create_evidence_valid: "create_evidence_at L i p r t k h = Inr v \<Longrightarrow> valid_evidence L v"
  by (auto simp: create_evidence_at_def VerificationEvidence_create_def Let_def split: sum.splits if_splits exc.splits)

context verification_environment begin

lemma append_bystander [bystander_intros]:
  "bystander L view reads (verification_append_event C run ty h md)"
  unfolding verification_append_event_def repository by (rule emit_event_bystander [OF clock event_ids])

lemma failed_bystander [bystander_intros]:
  "bystander L view reads (verification_failed kind reason message retryable)"
  unfolding verification_failed_def by (rule bystander_ret)

lemma mark_recovery_bystander [bystander_intros]:
  "bystander L view reads (verification_mark_recovery C run)"
  unfolding verification_mark_recovery_def repository
  by (intro bystander_intros store_bystander clock)
    (auto simp: on_storage_error_def split: if_splits intro: bystander_intros)

lemma fail_bystander [bystander_intros]:
  "bystander L view reads (fail_verification C run key f)"
  unfolding fail_verification_def repository
  by (intro bystander_intros complete_result_bystander store_bystander clock)
    (auto simp: on_storage_error_def split: if_splits intro!: bystander_intros)

lemma close_bystander [bystander_intros]:
  "bystander L view reads (close_verified C run pid v md)"
  unfolding close_verified_def repository by (intro bystander_intros store_bystander clock)

lemma lift_bystander:
  assumes "\<And>x. r = Inr x \<Longrightarrow> bystander L view reads (k x)"
  shows "bystander L view reads (andThen (lift r) k)"
  using assms by (cases r) (auto simp: bystander_def andThen_def lift_def)

lemma persist_bystander [bystander_intros]:
  "bystander L view reads (persist_success L C run p k v)"
  unfolding persist_success_def repository
proof (rule bystander_andThen [OF clock], rule bystander_andThen [OF evidence_ids], rule lift_bystander,
    rule bystander_tryThen)
  fix t i created
  assume "create_evidence_at L i p run t k (ob_observation_hash v) = Inr created"
  note valid = create_evidence_valid [OF this]
  show "bystander L view reads (andThen (op_create_verification_evidence R created) (\<lambda>evidence.
        andThen (lift (validated valid_action_result
          \<lparr>ar_outcome = ActionOutcome.SUCCEEDED, ar_observed_state = Some ObservedInstanceState.STOPPED,
           ar_evidence_hash = Some (v_evidence_hash evidence), ar_failure = None\<rparr>)) (\<lambda>result.
        andThen (vr_clock C) (\<lambda>completed_at.
        andThen (op_complete_idempotency R (derive_idempotency_key L p) result completed_at) (\<lambda>_.
        andThen (close_verified C run (p_proposal_id p) evidence
          [(''proposal_id'', p_proposal_id p),
           (''transition_candidate'', WorkflowState_value WorkflowState.SUCCESS_WITH_EVIDENCE)])
        (\<lambda>_. ret evidence))))))"
    by (intro bystander_intros complete_result_bystander store_bystander clock valid) auto
qed (auto simp: on_storage_error_def split: if_splits intro!: bystander_intros)

lemma finalize_bystander [bystander_intros]:
  "bystander L view reads (finalize_existing_evidence C run pid)"
  unfolding finalize_existing_evidence_def repository
  by (intro bystander_intros store_bystander clock)
    (auto simp: on_storage_error_def split: if_splits intro!: bystander_intros)

lemma reconcile_bystander [bystander_intros]:
  "bystander L view reads (reconcile_success C run pid)"
  unfolding reconcile_success_def repository
  by (intro bystander_intros store_bystander clock) (auto split: if_splits intro!: bystander_intros)

lemma start_bystander [bystander_intros]:
  "bystander L view reads (verification_start L C pid)"
  unfolding verification_start_def repository by (intro bystander_intros store_bystander)

end

subsection \<open>What a run of the poll has read\<close>

definition stopping_read :: "string \<Rightarrow> Reading \<Rightarrow> bool" where
  "stopping_read i x \<longleftrightarrow> (\<exists>v. x = (i, Inr (Succeeded v)) \<and> in_state v = STOPPING)"

definition stopped_read :: "string \<Rightarrow> Reading \<Rightarrow> bool" where
  "stopped_read i x \<longleftrightarrow> (\<exists>v. x = (i, Inr (Succeeded v)) \<and> in_state v = STOPPED)"

text \<open>A new success after \<open>length obs\<close> reads of the target: transitional ones, then stopped.\<close>

definition polled ::
    "string \<Rightarrow> int list \<Rightarrow> exc + VerificationCompletion ControlResult \<Rightarrow> Reading list \<Rightarrow> bool" where
  "polled i attempts r obs \<longleftrightarrow> length obs \<le> length attempts \<and> list_all (\<lambda>x. fst x = i) obs
     \<and> (\<forall>c. r = Inr (Succeeded c) \<longrightarrow> \<not> vc_reconciled c \<and> obs \<noteq> [] \<and> stopped_read i (last obs)
          \<and> list_all (stopping_read i) (butlast obs) \<and> vc_attempts c = attempts ! (length obs - 1))"

definition observed ::
    "string \<Rightarrow> int \<Rightarrow> exc + VerificationObservation ControlResult \<Rightarrow> Reading list \<Rightarrow> bool" where
  "observed i attempt r obs \<longleftrightarrow> length obs \<le> 1 \<and> list_all (\<lambda>x. fst x = i) obs
     \<and> (\<forall>v. r = Inr (Succeeded v) \<longrightarrow> (\<exists>n. obs = [(i, Inr (Succeeded n))]
          \<and> ob_disposition v = disposition_of (in_state n) \<and> ob_attempt v = attempt))"

lemma disposition_cases:
  "disposition_of s = VerificationDisposition.VERIFIED \<longleftrightarrow> s = STOPPED"
  "disposition_of s = VerificationDisposition.STILL_TRANSITIONING \<longleftrightarrow> s = STOPPING"
  by (auto simp: disposition_of_def)

lemma fail_not_success:
  "fail_verification C run key f s = (Inr (Succeeded c), s') \<Longrightarrow> False"
  by (auto simp: fail_verification_def on_storage_error_def verification_failed_def ret_def
      elim!: tryThen_eqE andThen_InrE split: if_splits)

lemma mark_then_failed_not_success:
  "andThen (verification_mark_recovery C run) (\<lambda>_. verification_failed kind reason message b) s
     = (Inr (Succeeded c), s') \<Longrightarrow> False"
  by (auto simp: verification_failed_def ret_def elim!: andThen_InrE)

lemma persist_result:
  assumes "persist_success L C run p k v s = (Inr (Succeeded c), s')"
  shows "\<not> vc_reconciled c \<and> vc_attempts c = ob_attempt v"
  using assms
  by (auto simp: persist_success_def on_storage_error_def ret_def verification_failed_def
      elim!: andThen_InrE tryThen_eqE split: if_splits)

context verification_environment begin

lemma observe_emits:
  "emits L view reads (observed (tg_resource_id (p_target p)) attempt)
     (observe L (vr_service C) p idn t attempt)"
proof -
  let ?i = "tg_resource_id (p_target p)"
  have "later L (view s) (view s') \<and> (\<exists>obs. reads s' = reads s @ obs \<and> observed ?i attempt r obs)"
    if run: "observe L (vr_service C) p idn t attempt s = (r, s')" for s r s'
  proof (cases "verification_scope (sv_target (vr_service C)) (p_target p)")
    case False
    with run show ?thesis by (auto simp: observe_def ret_def observed_def)
  next
    case True
    then have "\<not> \<not> verification_scope (sv_target (vr_service C)) (p_target p)" by simp
    from run [unfolded observe_def if_not_P [OF this]] show ?thesis
    proof (rule andThen_eqE)
      fix e assume "sv_inspect_result (vr_service C) ?i idn s = (Inl e, s')" "r = Inl e"
      with inspect show ?thesis by (fastforce simp: observed_def)
    next
      fix x s1 assume x: "sv_inspect_result (vr_service C) ?i idn s = (Inr x, s1)"
        and k: "(case x of Failed f \<Rightarrow> ret (Failed f)
          | Succeeded i \<Rightarrow> (case utc_field t of Inl e \<Rightarrow> raise e
             | Inr t \<Rightarrow> andThen (lift (validated valid_observation
                 \<lparr>ob_proposal_id = p_proposal_id p, ob_run_id = id_run_id idn,
                  ob_trace_id = id_trace_id idn, ob_correlation_id = id_correlation_id idn,
                  ob_target = p_target p, ob_disposition = disposition_of (in_state i),
                  ob_observed_state = in_state i, ob_observed_at = t, ob_attempt = attempt,
                  ob_inspection_evidence_hash = in_evidence_digest i,
                  ob_observation_hash = compute_evidence_digest L
                    (observation_payload L p idn i t attempt)\<rparr>))
                 (\<lambda>v. ret (Succeeded v)))) s1 = (r, s')"
      have "s' = s1 \<and> observed ?i attempt r [(?i, Inr x)]"
        using k by (auto simp: observed_def ret_def raise_def lift_def andThen_def validated_def
            split: ControlResult.splits sum.splits if_splits)
      with inspect [OF x] show ?thesis by auto
    qed
  qed
  then show ?thesis unfolding emits_def by blast
qed

lemma emits_fail:
  assumes "\<And>r. (\<forall>c. r \<noteq> Inr (Succeeded c)) \<Longrightarrow> P r []"
  shows "emits L view reads P (fail_verification C run key f)"
proof (rule emits_bystander [OF fail_bystander])
  fix s r s' assume "fail_verification C run key f s = (r, s')"
  with fail_not_success [of C run key f s _ s'] have "\<forall>c. r \<noteq> Inr (Succeeded c)" by auto
  then show "P r []" by (rule assms)
qed

lemma polled_prefix:
  assumes "polled i as r obs2" and "list_all (stopping_read i) [x]"
  shows "polled i (a # as) r (x # obs2)"
  using assms by (cases obs2) (auto simp: polled_def stopping_read_def nth_Cons')

lemma poll_emits:
  "emits L view reads (polled (tg_resource_id (p_target p)) attempts)
     (poll L C run p idem k idn pid attempts)"
proof (induction attempts)
  case Nil
  show ?case unfolding poll.simps by (rule emits_fail) (simp add: polled_def)
next
  case (Cons a as)
  let ?i = "tg_resource_id (p_target p)"
  let ?P = "polled ?i (a # as)"
  show ?case
    unfolding poll.simps
  proof (rule emits_after_bystander [OF clock], simp add: polled_def, rule emits_andThen [OF observe_emits])
    show "?P (Inl e) obs" if "observed ?i a (Inl e) obs" for e obs
      using that by (simp add: observed_def polled_def)
  next
    fix x obs assume o: "observed ?i a (Inr x) obs"
    show "emits L view reads (\<lambda>r obs2. ?P r (obs @ obs2))
       (case x of Failed f \<Rightarrow> fail_verification C run (i_idempotency_key idem) f
     | Succeeded observation \<Rightarrow>
       tryThen
         (verification_append_event C run AuditEventType.VERIFICATION_OBSERVED
           (ob_observation_hash observation)
           [(''attempt'', digits_int a),
            (''disposition'', VerificationDisposition_value (ob_disposition observation)),
            (''observed_state'', Ec2InstanceState_value (ob_observed_state observation)),
            (''proposal_id'', pid)])
         (on_storage_error (andThen (verification_mark_recovery C run) (\<lambda>_.
            verification_failed FailureKind.RECOVERY_REQUIREMENT
              ''VERIFICATION_OBSERVATION_DURABILITY_FAILED''
              ''Independent provider observation could not be durably audited'' False)))
         (\<lambda>_.
           if ob_disposition observation = VerificationDisposition.VERIFIED
           then persist_success L C run p k observation
           else if ob_disposition observation = VerificationDisposition.MISMATCH
           then fail_verification C run (i_idempotency_key idem)
                  (failure FailureKind.VERIFICATION_FAILURE ''VERIFICATION_STATE_MISMATCH''
                    ''Independent EC2 state does not match the expected stopped state'' False)
           else andThen (if a < vr_max_attempts C then vr_sleeper C (vr_interval_seconds C) else ret ())
                  (\<lambda>_. poll L C run p idem k idn pid as)))"
    proof (cases x)
      case (Failed f)
      show ?thesis unfolding Failed ControlResult.case
        by (rule emits_fail) (use o in \<open>simp add: observed_def polled_def\<close>)
    next
      case (Succeeded v)
      from o obtain n where n: "obs = [(?i, Inr (Succeeded n))]"
        "ob_disposition v = disposition_of (in_state n)" "ob_attempt v = a"
        by (auto simp: observed_def Succeeded)
      have one: "?P r obs" if "\<forall>c. r \<noteq> Inr (Succeeded c)" for r
        using that n(1) by (simp add: polled_def)
      show ?thesis unfolding Succeeded ControlResult.case
      proof (rule emits_try_bystander [OF append_bystander])
        show "?P (Inl e) (obs @ [])" for e using one by simp
        show "emits L view reads (\<lambda>r obs2. ?P r (obs @ obs2)) g"
          if "on_storage_error (andThen (verification_mark_recovery C run) (\<lambda>_.
            verification_failed FailureKind.RECOVERY_REQUIREMENT
              ''VERIFICATION_OBSERVATION_DURABILITY_FAILED''
              ''Independent provider observation could not be durably audited'' False)) e = Some g" for e g
        proof -
          from that have g: "g = andThen (verification_mark_recovery C run) (\<lambda>_.
            verification_failed FailureKind.RECOVERY_REQUIREMENT
              ''VERIFICATION_OBSERVATION_DURABILITY_FAILED''
              ''Independent provider observation could not be durably audited'' False)"
            by (simp add: on_storage_error_def split: if_splits)
          have "bystander L view reads g" unfolding g by (intro bystander_intros)
          then show ?thesis
          proof (rule emits_bystander)
            fix s r s' assume r: "g s = (r, s')"
            have "\<forall>c. r \<noteq> Inr (Succeeded c)"
            proof (intro allI notI)
              fix c assume "r = Inr (Succeeded c)"
              from mark_then_failed_not_success r [unfolded g this] show False .
            qed
            with one show "?P r (obs @ [])" by simp
          qed
        qed
        show "emits L view reads (\<lambda>r obs2. ?P r (obs @ obs2))
          (if ob_disposition v = VerificationDisposition.VERIFIED then persist_success L C run p k v
           else if ob_disposition v = VerificationDisposition.MISMATCH
           then fail_verification C run (i_idempotency_key idem)
                  (failure FailureKind.VERIFICATION_FAILURE ''VERIFICATION_STATE_MISMATCH''
                    ''Independent EC2 state does not match the expected stopped state'' False)
           else andThen (if a < vr_max_attempts C then vr_sleeper C (vr_interval_seconds C) else ret ())
                  (\<lambda>_. poll L C run p idem k idn pid as))" for u :: unit
        proof (cases "in_state n = STOPPED")
          case True
          then have d: "ob_disposition v = VerificationDisposition.VERIFIED" using n(2) disposition_cases by simp
          have "?P r (obs @ [])" if "persist_success L C run p k v s = (r, s')" for s r s'
            using that persist_result [of L C run p k v s _ s'] n True
            by (auto simp: polled_def stopped_read_def)
          then show ?thesis unfolding if_P [OF d] by (intro emits_bystander persist_bystander)
        next
          case False
          then have d: "ob_disposition v \<noteq> VerificationDisposition.VERIFIED" using n(2) disposition_cases by simp
          show ?thesis
          proof (cases "ob_disposition v = VerificationDisposition.MISMATCH")
            case True
            show ?thesis unfolding if_not_P [OF d] if_P [OF True] by (rule emits_fail) (use one in simp)
          next
            case go: False
            with d n(2) have st: "in_state n = STOPPING" by (auto simp: disposition_of_def split: if_splits)
            have wait: "bystander L view reads
                (if a < vr_max_attempts C then vr_sleeper C (vr_interval_seconds C) else ret ())"
              by (intro bystander_intros sleeper)
            have "emits L view reads (\<lambda>r obs2. ?P r (obs @ obs2)) (poll L C run p idem k idn pid as)"
            proof -
              have "?P r (obs @ obs2)" if "polled ?i as r obs2" for r obs2
                using polled_prefix [OF that, of "hd obs" a] n(1) st by (simp add: stopping_read_def)
              with Cons.IH show ?thesis unfolding emits_def by blast
            qed
            then show ?thesis unfolding if_not_P [OF d] if_not_P [OF go]
              by (intro emits_after_bystander [OF wait]) (use one in simp_all)
          qed
        qed
      qed
    qed
  qed
qed

end

subsection \<open>The whole handler\<close>

lemma persist_evidence:
  assumes "persist_success L C run p k v s = (Inr (Succeeded c), s')"
  obtains created s1 s2 result t s3 s4 s5 i where "valid_evidence L created"
    and "v_run_id created = r_run_id run" and "v_proposal_id created = p_proposal_id p"
    and "op_create_verification_evidence (vr_repository C) created s1 = (Inr (vc_evidence c), s2)"
    and "vr_clock C s2 = (Inr t, s3)" and "valid_action_result result"
    and "op_complete_idempotency (vr_repository C) (derive_idempotency_key L p) result t s3 = (Inr i, s4)"
    and "close_verified C run (p_proposal_id p) (vc_evidence c)
          [(''proposal_id'', p_proposal_id p),
           (''transition_candidate'', WorkflowState_value WorkflowState.SUCCESS_WITH_EVIDENCE)] s4 = (Inr (), s5)"
    and "s' = s5"
proof -
  from assms obtain t0 i0 created s0 where
    cr: "create_evidence_at L i0 p run t0 k (ob_observation_hash v) = Inr created" and
    rest: "tryThen
       (andThen (op_create_verification_evidence (vr_repository C) created) (\<lambda>evidence.
        andThen (lift (validated valid_action_result
          \<lparr>ar_outcome = ActionOutcome.SUCCEEDED, ar_observed_state = Some ObservedInstanceState.STOPPED,
           ar_evidence_hash = Some (v_evidence_hash evidence), ar_failure = None\<rparr>)) (\<lambda>result.
        andThen (vr_clock C) (\<lambda>completed_at.
        andThen (op_complete_idempotency (vr_repository C) (derive_idempotency_key L p) result
          completed_at) (\<lambda>_.
        andThen (close_verified C run (p_proposal_id p) evidence
          [(''proposal_id'', p_proposal_id p),
           (''transition_candidate'', WorkflowState_value WorkflowState.SUCCESS_WITH_EVIDENCE)])
        (\<lambda>_. ret evidence))))))
       (on_storage_error (andThen (verification_mark_recovery C run) (\<lambda>_.
          verification_failed FailureKind.RECOVERY_REQUIREMENT ''VERIFICATION_EVIDENCE_DURABILITY_FAILED''
            ''Verified provider state could not be durably closed as success'' False)))
       (\<lambda>evidence. ret (Succeeded \<lparr>vc_evidence = evidence, vc_attempts = ob_attempt v,
          vc_reconciled = False\<rparr>)) s0 = (Inr (Succeeded c), s')"
    unfolding persist_success_def by (auto elim!: andThen_InrE simp: lift_def)
  have ids: "valid_evidence L created" "v_run_id created = r_run_id run" "v_proposal_id created = p_proposal_id p"
    using create_evidence_valid [OF cr] cr
    by (auto simp: create_evidence_at_def VerificationEvidence_create_def Let_def split: sum.splits if_splits exc.splits)
  from rest show ?thesis
  proof (rule tryThen_eqE)
    fix e g s1 assume "on_storage_error (andThen (verification_mark_recovery C run) (\<lambda>_.
          verification_failed FailureKind.RECOVERY_REQUIREMENT ''VERIFICATION_EVIDENCE_DURABILITY_FAILED''
            ''Verified provider state could not be durably closed as success'' False)) e = Some g"
      and g: "g s1 = (Inr (Succeeded c), s')"
    then have "g = andThen (verification_mark_recovery C run) (\<lambda>_.
          verification_failed FailureKind.RECOVERY_REQUIREMENT ''VERIFICATION_EVIDENCE_DURABILITY_FAILED''
            ''Verified provider state could not be durably closed as success'' False)"
      by (simp add: on_storage_error_def split: if_splits)
    from mark_then_failed_not_success g [unfolded this] have False .
    then show ?thesis ..
  next
    fix x s1 assume run: "andThen (op_create_verification_evidence (vr_repository C) created) (\<lambda>evidence.
        andThen (lift (validated valid_action_result
          \<lparr>ar_outcome = ActionOutcome.SUCCEEDED, ar_observed_state = Some ObservedInstanceState.STOPPED,
           ar_evidence_hash = Some (v_evidence_hash evidence), ar_failure = None\<rparr>)) (\<lambda>result.
        andThen (vr_clock C) (\<lambda>completed_at.
        andThen (op_complete_idempotency (vr_repository C) (derive_idempotency_key L p) result
          completed_at) (\<lambda>_.
        andThen (close_verified C run (p_proposal_id p) evidence
          [(''proposal_id'', p_proposal_id p),
           (''transition_candidate'', WorkflowState_value WorkflowState.SUCCESS_WITH_EVIDENCE)])
        (\<lambda>_. ret evidence))))) s0 = (Inr x, s1)"
      and k: "ret (Succeeded \<lparr>vc_evidence = x, vc_attempts = ob_attempt v, vc_reconciled = False\<rparr>) s1
        = (Inr (Succeeded c), s')"
    from k have c: "vc_evidence c = x" "s' = s1" by (auto simp: ret_def)
    from run show ?thesis
      by (elim andThen_InrE) (auto simp: lift_def ret_def c intro: that [OF ids])
  qed simp
qed

lemma close_transition:
  assumes "close_verified C run pid v md s = (Inr u, s')"
  obtains x s1 t s2 where "verification_append_event C run AuditEventType.VERIFICATION_RECORDED
      (v_evidence_hash v) md s = (Inr (), s1)"
    and "vr_clock C s1 = (Inr t, s2)"
    and "op_transition_run (vr_repository C) (r_run_id run) WorkflowState.SUCCESS_WITH_EVIDENCE
       WorkflowState.VERIFYING (r_version run) t None (Some pid) s2 = (Inr x, s')"
  using assms by (auto simp: close_verified_def ret_def elim!: andThen_InrE intro: that)

text \<open>The stored truth of a success: the final state of the run, and the proof itself.\<close>

definition proven :: "Repo \<Rightarrow> uuid \<Rightarrow> ActionProposal \<Rightarrow> VerificationEvidence \<Rightarrow> bool" where
  "proven d pid p v \<longleftrightarrow> (\<exists>q. dget (d_proposals d) pid = Some q \<and> proposal_evolves p q)
     \<and> (\<exists>r. dget (d_runs d) (p_run_id p) = Some r \<and> r_state r = WorkflowState.SUCCESS_WITH_EVIDENCE)
     \<and> dget (d_verification_evidence d) (p_run_id p, pid) = Some v"

lemma success_stays:
  assumes "evolves d d'" and "dget (d_runs d) k = Some r" and "r_state r = WorkflowState.SUCCESS_WITH_EVIDENCE"
  shows "\<exists>r'. dget (d_runs d') k = Some r' \<and> r_state r' = WorkflowState.SUCCESS_WITH_EVIDENCE"
proof -
  from evolves_get(1) [OF assms(1,2)] obtain r' where r': "dget (d_runs d') k = Some r'" "run_evolves r r'" by blast
  then have "workflow_step\<^sup>*\<^sup>* WorkflowState.SUCCESS_WITH_EVIDENCE (r_state r')"
    using assms(3) by (simp add: run_evolves_def)
  from workflow_reach_terminal [OF this] r'(1) show ?thesis by (simp add: TERMINAL_WORKFLOW_STATES_def)
qed

lemma evidence_stays:
  "evolves d d' \<Longrightarrow> dget (d_verification_evidence d) k = Some v \<Longrightarrow> dget (d_verification_evidence d') k = Some v"
  by (cases k) (auto simp: evolves_def table_evolves_def)

context durable_truth begin

lemma transition_success:
  assumes "op_transition_run R rid WorkflowState.SUCCESS_WITH_EVIDENCE es ev t ap vp s = (Inr x, s')"
  shows "\<exists>r. dget (d_runs (view s')) rid = Some r \<and> r_state r = WorkflowState.SUCCESS_WITH_EVIDENCE"
proof -
  from performsD(3) [OF transition assms refl] obtain d d2 where
    d: "repo_transition_run L rid WorkflowState.SUCCESS_WITH_EVIDENCE es ev t ap vp d = (Inr x, d2)"
      "later L d2 (view s')" by blast
  from repo_transition_run_Inr [OF d(1)] obtain current where
    c: "transition_run current WorkflowState.SUCCESS_WITH_EVIDENCE t = Inr x"
      "d2 = d\<lparr>d_runs := dput rid x (d_runs d)\<rparr>" by blast
  then have "dget (d_runs d2) rid = Some x" "r_state x = WorkflowState.SUCCESS_WITH_EVIDENCE"
    by (auto simp: transition_run_def validate_workflow_transition_def split: sum.splits if_splits)
  from success_stays [OF later_evolves [OF d(2)] this] show ?thesis .
qed

lemma create_stored:
  assumes "valid_evidence L v" and "op_create_verification_evidence R v s = (Inr x, s')"
  shows "dget (d_verification_evidence (view s')) (v_run_id v, v_proposal_id v) = Some x"
proof -
  from performsD(3) [OF create_evidence [OF assms(1)] assms(2) refl] obtain d d2 where
    d: "repo_create_verification_evidence L v d = (Inr x, d2)" "later L d2 (view s')" by blast
  from create_evidence_Inr [OF d(1)] have "dget (d_verification_evidence d2) (v_run_id v, v_proposal_id v) = Some x"
    by auto
  from evidence_stays [OF later_evolves [OF d(2)] this] show ?thesis .
qed

lemma get_evidence_result:
  assumes "op_get_verification_evidence R rid pid s = (Inr (Some v), s')"
  shows "dget (d_verification_evidence (view s')) (rid, pid) = Some v"
proof -
  from performsD(3) [OF get_evidence assms refl] obtain d d2 where
    d: "repo_get_verification_evidence rid pid d = (Inr (Some v), d2)" "later L d2 (view s')" by blast
  then have "dget (d_verification_evidence d2) (rid, pid) = Some v"
    by (auto simp: repo_get_verification_evidence_def)
  from evidence_stays [OF later_evolves [OF d(2)] this] show ?thesis .
qed

end

context verification_environment begin

lemma start_found:
  assumes "verification_start L C pid s = (Inr (Found p run known), s')" and ok: "repo_ok L (view s)"
  shows "p_proposal_id p = pid" and "r_run_id run = p_run_id p"
    and "\<exists>q. dget (d_proposals (view s')) pid = Some q \<and> proposal_evolves p q"
    and "\<exists>r. dget (d_runs (view s')) (p_run_id p) = Some r \<and> run_evolves run r"
proof -
  from assms(1) obtain s1 s2 where
    g: "op_get_proposal R pid s = (Inr (Some p), s1)" "op_get_run R (p_run_id p) s1 = (Inr (Some run), s2)"
      "op_get_idempotency R (derive_idempotency_key L p) s2 = (Inr known, s')"
    by (auto simp: verification_start_def repository ret_def elim!: andThen_InrE split: option.splits)
  note l = performsD(2) [OF get_proposal g(1)] performsD(2) [OF get_run g(2)] performsD(2) [OF get_idempotency g(3)]
  from performsD(3) [OF get_proposal g(1) refl] obtain d d2 where
    d: "later L (view s) d" "repo_get_proposal pid d = (Inr (Some p), d2)" by blast
  with later_ok [OF d(1) ok] show "p_proposal_id p = pid"
    by (auto simp: repo_get_proposal_def repo_ok_def proposals_ok_def)
  from performsD(3) [OF get_run g(2) refl] obtain e e2 where
    e: "later L (view s1) e" "repo_get_run (p_run_id p) e = (Inr (Some run), e2)" by blast
  with later_ok [OF e(1) later_ok [OF l(1) ok]] show "r_run_id run = p_run_id p"
    by (auto simp: repo_get_run_def repo_ok_def runs_ok_def)
  from get_proposal_result [OF g(1)] obtain q where q: "dget (d_proposals (view s1)) pid = Some q" "proposal_evolves p q" by blast
  from evolves_get(2) [OF later_evolves [OF rtranclp_trans [OF l(2,3)]] q(1)] q(2)
  show "\<exists>q. dget (d_proposals (view s')) pid = Some q \<and> proposal_evolves p q"
    using proposal_evolves_trans by blast
  from get_run_result [OF g(2)] obtain r where r: "dget (d_runs (view s2)) (p_run_id p) = Some r" "run_evolves run r" by blast
  from evolves_get(1) [OF later_evolves [OF l(3)] r(1)] r(2)
  show "\<exists>r. dget (d_runs (view s')) (p_run_id p) = Some r \<and> run_evolves run r"
    using run_evolves_trans by blast
qed

end

text \<open>Which branch of the handler a completed run took.\<close>

lemma verify_cases:
  assumes "verify L C pid s = (r, s')"
  obtains (early) "\<forall>c. r \<noteq> Inr (Succeeded c)"
      "\<exists>e. verification_start L C pid s = (Inl e, s') \<or> verification_start L C pid s = (Inr NoProposal, s')
        \<or> verification_start L C pid s = (Inr NoRun, s')"
    | (found) p run known s1 where "verification_start L C pid s = (Inr (Found p run known), s1)"
      "verify_found L C pid p run known s1 = (r, s')"
  using assms unfolding verify_def
proof (rule tryThen_eqE)
  fix e assume "verification_start L C pid s = (Inl e, s')" "r = Inl e"
  then show thesis by (intro early) auto
next
  fix e g s1 assume "verification_start L C pid s = (Inl e, s1)"
    "(if e = StorageDependencyError then Some (verification_failed FailureKind.DEPENDENCY_UNAVAILABLE
       ''VERIFICATION_DURABILITY_UNAVAILABLE'' ''Durable verification prerequisites are unavailable'' True)
      else None) = Some g" "g s1 = (r, s')"
  then show thesis by (intro early) (auto simp: verification_failed_def ret_def split: if_splits)
next
  fix x s1 assume x: "verification_start L C pid s = (Inr x, s1)"
    and k: "(case x of
          NoProposal \<Rightarrow> verification_failed FailureKind.VALIDATION_FAILURE
            ''VERIFICATION_PROPOSAL_NOT_FOUND'' ''Durable proposal is required for verification'' False
        | NoRun \<Rightarrow> verification_failed FailureKind.RECOVERY_REQUIREMENT
            ''VERIFICATION_RUN_NOT_FOUND'' ''Durable run is required for verification'' False
        | Found proposal run known \<Rightarrow> verify_found L C pid proposal run known) s1 = (r, s')"
  show thesis
  proof (cases x)
    case NoProposal
    with x k show ?thesis by (intro early) (auto simp: verification_failed_def ret_def)
  next
    case NoRun
    with x k show ?thesis by (intro early) (auto simp: verification_failed_def ret_def)
  next
    case (Found p run known)
    with x k show ?thesis by (intro found) auto
  qed
qed

lemma failed_not_success: "verification_failed kind reason message b s = (r, s') \<Longrightarrow> r \<noteq> Inr (Succeeded c)"
  by (auto simp: verification_failed_def ret_def)

lemma found_cases:
  assumes "verify_found L C pid p run known s = (r, s')"
  obtains (refused) "\<forall>c. r \<noteq> Inr (Succeeded c)" "s' = s"
    | (reconciled) "r_state run = WorkflowState.SUCCESS_WITH_EVIDENCE" "reconcile_success C run pid s = (r, s')"
    | (finalized) "r_state run = WorkflowState.VERIFYING" "finalize_existing_evidence C run pid s = (r, s')"
    | (polled) idem k where "known = Some idem" "i_execution_acknowledgement idem = Some k"
      "r_state run = WorkflowState.VERIFYING" "verify_acknowledged L C pid p run idem k s = (r, s')"
proof (cases "r_state run = WorkflowState.SUCCESS_WITH_EVIDENCE")
  case True
  with assms show ?thesis by (intro reconciled) (simp_all add: verify_found_def)
next
  case False
  note run = assms [unfolded verify_found_def if_not_P [OF False]]
  have fails: thesis if "verification_failed kind reason message b s = (r, s')" for kind reason message b
    using failed_not_success [OF that] that by (intro refused) (auto simp: verification_failed_def ret_def)
  show ?thesis
  proof (cases known)
    case None
    from fails run [unfolded None option.case] show ?thesis .
  next
    case (Some idem)
    note run2 = run [unfolded Some option.case]
    show ?thesis
    proof (cases "i_execution_acknowledgement idem")
      case None
      from fails run2 [unfolded None option.case] show ?thesis .
    next
      case k: (Some k)
      note run3 = run2 [unfolded k option.case]
      show ?thesis
      proof (cases "r_state run = WorkflowState.VERIFYING")
        case v: False
        from fails run3 [unfolded if_P [OF v]] show ?thesis .
      next
        case v: True
        then have "\<not> r_state run \<noteq> WorkflowState.VERIFYING" by simp
        note run4 = run3 [unfolded if_not_P [OF this]]
        show ?thesis
        proof (cases "i_status idem = IdempotencyStatus.COMPLETED")
          case True
          from finalized [OF v] run4 [unfolded if_P [OF True]] show ?thesis .
        next
          case nc: False
          show ?thesis
          proof (cases "i_status idem = IdempotencyStatus.REGISTERED")
            case False
            from fails run4 [unfolded if_not_P [OF nc] if_P [OF False]] show ?thesis .
          next
            case True
            then have "\<not> i_status idem \<noteq> IdempotencyStatus.REGISTERED" by simp
            from polled [OF Some k v] run4 [unfolded if_not_P [OF nc] if_not_P [OF this]] show ?thesis .
          qed
        qed
      qed
    qed
  qed
qed

lemma reconcile_result:
  assumes "reconcile_success C run pid s = (Inr (Succeeded c), s')"
  shows "op_get_verification_evidence (vr_repository C) (r_run_id run) pid s = (Inr (Some (vc_evidence c)), s')"
    and "vc_reconciled c" and "vc_attempts c = 0"
  using assms
  by (auto simp: reconcile_success_def verification_failed_def ret_def elim!: tryThen_eqE
      split: if_splits option.splits)

lemma finalize_result:
  assumes "finalize_existing_evidence C run pid s = (Inr (Succeeded c), s')"
  obtains s1 md where "op_get_verification_evidence (vr_repository C) (r_run_id run) pid s = (Inr (Some (vc_evidence c)), s1)"
    and "close_verified C run pid (vc_evidence c) md s1 = (Inr (), s')" and "vc_reconciled c" and "vc_attempts c = 0"
proof -
  have no: False if "andThen (verification_mark_recovery C run) (\<lambda>_. verification_failed
      FailureKind.RECOVERY_REQUIREMENT reason message False) s1 = (Inr (Succeeded c), s')" for reason message s1
    using mark_then_failed_not_success that .
  from assms show ?thesis unfolding finalize_existing_evidence_def
  proof (rule tryThen_eqE)
    fix e g s1 assume "on_storage_error (andThen (verification_mark_recovery C run) (\<lambda>_.
          verification_failed FailureKind.RECOVERY_REQUIREMENT ''SUCCESS_TRANSITION_RECONCILIATION_FAILED''
            ''Durable success transition requires recovery'' False)) e = Some g"
      and g: "g s1 = (Inr (Succeeded c), s')"
    then have "g = andThen (verification_mark_recovery C run) (\<lambda>_.
          verification_failed FailureKind.RECOVERY_REQUIREMENT ''SUCCESS_TRANSITION_RECONCILIATION_FAILED''
            ''Durable success transition requires recovery'' False)"
      by (simp add: on_storage_error_def split: if_splits)
    with g no show ?thesis by blast
  next
    fix x s1 assume a: "andThen (op_get_verification_evidence (vr_repository C) (r_run_id run) pid) (\<lambda>found.
        case found of None \<Rightarrow> ret None
        | Some evidence \<Rightarrow>
            andThen (close_verified C run pid evidence
              [(''proposal_id'', pid), (''reconciled'', ''true''),
               (''transition_candidate'', WorkflowState_value WorkflowState.SUCCESS_WITH_EVIDENCE)])
            (\<lambda>_. ret (Some evidence))) s = (Inr x, s1)"
      and k: "(case x of
          None \<Rightarrow> verification_failed FailureKind.RECOVERY_REQUIREMENT ''COMPLETED_RESULT_MISSING_EVIDENCE''
                    ''Completed idempotency record lacks durable verification evidence'' False
        | Some evidence \<Rightarrow> ret (Succeeded \<lparr>vc_evidence = evidence, vc_attempts = 0, vc_reconciled = True\<rparr>)) s1
        = (Inr (Succeeded c), s')"
    from k obtain v where v: "x = Some v" "c = \<lparr>vc_evidence = v, vc_attempts = 0, vc_reconciled = True\<rparr>" "s' = s1"
      by (cases x) (auto simp: verification_failed_def ret_def)
    from a [unfolded v(1)] show ?thesis
    proof (rule andThen_InrE)
      fix f s2 assume f: "op_get_verification_evidence (vr_repository C) (r_run_id run) pid s = (Inr f, s2)"
        and k2: "(case f of None \<Rightarrow> ret None
        | Some evidence \<Rightarrow>
            andThen (close_verified C run pid evidence
              [(''proposal_id'', pid), (''reconciled'', ''true''),
               (''transition_candidate'', WorkflowState_value WorkflowState.SUCCESS_WITH_EVIDENCE)])
            (\<lambda>_. ret (Some evidence))) s2 = (Inr (Some v), s1)"
      from k2 obtain w where w: "f = Some w" by (cases f) (auto simp: ret_def)
      from k2 [unfolded w option.case] show ?thesis
        by (elim andThen_InrE) (use f w v that in \<open>auto simp: ret_def\<close>)
    qed
  qed simp
qed

context verification_environment begin

lemma acknowledged_emits:
  "emits L view reads (polled (tg_resource_id (p_target p)) [1..vr_max_attempts C])
     (verify_acknowledged L C pid p run idem k)"
proof -
  have none: "polled i as r []" if "\<forall>c. r \<noteq> Inr (Succeeded c)" for i as r
    using that by (simp add: polled_def)
  have id: "bystander L view reads (lift (identity_from_run run))" by (rule bystander_lift)
  show ?thesis
    unfolding verify_acknowledged_def
  proof (rule emits_after_bystander [OF id])
    show "polled (tg_resource_id (p_target p)) [1..vr_max_attempts C] (Inl e) []" for e by (simp add: polled_def)
    show "emits L view reads (polled (tg_resource_id (p_target p)) [1..vr_max_attempts C])
      (tryThen (verification_append_event C run AuditEventType.VERIFICATION_STARTED
         (k_acknowledgement_hash k) [(''proposal_id'', pid)])
       (on_storage_error (verification_failed FailureKind.DEPENDENCY_UNAVAILABLE
          ''VERIFICATION_AUDIT_UNAVAILABLE'' ''Verification start could not be persisted'' True))
       (\<lambda>_. poll L C run p idem k idn pid [1..vr_max_attempts C]))" for idn
    proof (rule emits_try_bystander [OF append_bystander _ _ poll_emits])
      fix e and g :: "('s, VerificationCompletion) handler"
      assume "on_storage_error (verification_failed FailureKind.DEPENDENCY_UNAVAILABLE
          ''VERIFICATION_AUDIT_UNAVAILABLE'' ''Verification start could not be persisted'' True) e = Some g"
      then have g: "g = verification_failed FailureKind.DEPENDENCY_UNAVAILABLE
          ''VERIFICATION_AUDIT_UNAVAILABLE'' ''Verification start could not be persisted'' True"
        by (simp add: on_storage_error_def split: if_splits)
      show "emits L view reads (polled (tg_resource_id (p_target p)) [1..vr_max_attempts C]) g"
        unfolding g by (intro emits_bystander [OF failed_bystander] none allI) (rule failed_not_success)
    qed (simp add: polled_def)
  qed
qed

text \<open>The reads of a run, and what they showed when it reports a success.\<close>

lemma verify_reads:
  assumes "verify L C pid s = (r, s')"
  shows "\<exists>obs. reads s' = reads s @ obs \<and> length obs \<le> nat (vr_max_attempts C)
    \<and> (\<forall>c. r = Inr (Succeeded c) \<longrightarrow> (if vc_reconciled c then obs = [] \<and> vc_attempts c = 0
        else obs \<noteq> [] \<and> vc_attempts c = int (length obs)
          \<and> (\<exists>i. stopped_read i (last obs) \<and> list_all (stopping_read i) (butlast obs))))"
  using assms
proof (cases rule: verify_cases)
  case early
  then have "reads s' = reads s" using bystanderD(1) [OF start_bystander] by blast
  with early(1) show ?thesis by (intro exI [of _ "[]"]) auto
next
  case (found p run known s1)
  have start: "reads s1 = reads s" by (rule bystanderD(1) [OF start_bystander found(1)])
  from found(2) show ?thesis
  proof (cases rule: found_cases)
    case refused
    with start show ?thesis by (intro exI [of _ "[]"]) auto
  next
    case reconciled
    have "\<And>c. r = Inr (Succeeded c) \<Longrightarrow> vc_reconciled c \<and> vc_attempts c = 0"
      using reconciled(2) reconcile_result(2,3) [of C run pid s1 _ s'] by auto
    with bystanderD(1) [OF reconcile_bystander reconciled(2)] start show ?thesis by (intro exI [of _ "[]"]) auto
  next
    case finalized
    have "\<And>c. r = Inr (Succeeded c) \<Longrightarrow> vc_reconciled c \<and> vc_attempts c = 0"
      using finalized(2) by (auto elim: finalize_result)
    with bystanderD(1) [OF finalize_bystander finalized(2)] start
    show ?thesis by (intro exI [of _ "[]"]) auto
  next
    case (polled idem k)
    from emitsD [OF acknowledged_emits polled(4)] obtain obs where
      o: "reads s' = reads s1 @ obs" "polled (tg_resource_id (p_target p)) [1..vr_max_attempts C] r obs" .
    have at: "[1..vr_max_attempts C] ! (length obs - 1) = int (length obs)"
      if "obs \<noteq> []" "length obs \<le> nat (vr_max_attempts C)"
    proof -
      have "[1..vr_max_attempts C] ! (length obs - 1) = 1 + int (length obs - 1)"
        by (rule nth_upto) (use that in \<open>cases obs; simp\<close>)
      with that(1) show ?thesis by (cases obs) auto
    qed
    have len: "length obs \<le> nat (vr_max_attempts C)" using o(2) by (simp add: polled_def)
    have ok: "\<not> vc_reconciled c \<and> obs \<noteq> [] \<and> vc_attempts c = int (length obs)
        \<and> (\<exists>i. stopped_read i (last obs) \<and> list_all (stopping_read i) (butlast obs))"
      if "r = Inr (Succeeded c)" for c
      using o(2) that at [OF _ len] unfolding polled_def by metis
    have "reads s' = reads s @ obs" using o(1) start by simp
    with len ok show ?thesis by (intro exI [of _ obs]) simp
  qed
qed

end

context verification_environment begin

lemma close_success:
  assumes "close_verified C run pid v md s = (Inr u, s')"
  shows "later L (view s) (view s')"
    and "\<exists>r. dget (d_runs (view s')) (r_run_id run) = Some r \<and> r_state r = WorkflowState.SUCCESS_WITH_EVIDENCE"
proof -
  show "later L (view s) (view s')" by (rule bystanderD(2) [OF close_bystander assms])
  from assms show "\<exists>r. dget (d_runs (view s')) (r_run_id run) = Some r
      \<and> r_state r = WorkflowState.SUCCESS_WITH_EVIDENCE"
    by (rule close_transition) (rule transition_success [folded repository])
qed

lemma poll_success:
  "poll L C run p idem k idn pid as s = (Inr (Succeeded c), s') \<Longrightarrow>
   \<exists>v s1. later L (view s) (view s1) \<and> persist_success L C run p k v s1 = (Inr (Succeeded c), s')"
proof (induction as arbitrary: s)
  case Nil
  then show ?case using fail_not_success by (metis poll.simps(1))
next
  case (Cons a as)
  from Cons.prems [unfolded poll.simps] obtain t s1 x s2 where
    g: "vr_clock C s = (Inr t, s1)" "observe L (vr_service C) p idn t a s1 = (Inr x, s2)"
    and k: "(case x of Failed f \<Rightarrow> fail_verification C run (i_idempotency_key idem) f
     | Succeeded observation \<Rightarrow>
       tryThen
         (verification_append_event C run AuditEventType.VERIFICATION_OBSERVED
           (ob_observation_hash observation)
           [(''attempt'', digits_int a),
            (''disposition'', VerificationDisposition_value (ob_disposition observation)),
            (''observed_state'', Ec2InstanceState_value (ob_observed_state observation)),
            (''proposal_id'', pid)])
         (on_storage_error (andThen (verification_mark_recovery C run) (\<lambda>_.
            verification_failed FailureKind.RECOVERY_REQUIREMENT
              ''VERIFICATION_OBSERVATION_DURABILITY_FAILED''
              ''Independent provider observation could not be durably audited'' False)))
         (\<lambda>_.
           if ob_disposition observation = VerificationDisposition.VERIFIED
           then persist_success L C run p k observation
           else if ob_disposition observation = VerificationDisposition.MISMATCH
           then fail_verification C run (i_idempotency_key idem)
                  (failure FailureKind.VERIFICATION_FAILURE ''VERIFICATION_STATE_MISMATCH''
                    ''Independent EC2 state does not match the expected stopped state'' False)
           else andThen (if a < vr_max_attempts C then vr_sleeper C (vr_interval_seconds C) else ret ())
                  (\<lambda>_. poll L C run p idem k idn pid as))) s2 = (Inr (Succeeded c), s')"
    by (elim andThen_InrE)
  have l: "later L (view s) (view s2)"
    using bystanderD(2) [OF clock g(1)] emitsD [OF observe_emits g(2)] by (metis rtranclp_trans)
  obtain v where v: "x = Succeeded v"
  proof (cases x)
    case (Failed f)
    with k have "fail_verification C run (i_idempotency_key idem) f s2 = (Inr (Succeeded c), s')" by simp
    from fail_not_success [OF this] show ?thesis ..
  qed
  from k [unfolded v ControlResult.case] show ?case
  proof (rule tryThen_eqE)
    fix e g s3 assume "on_storage_error (andThen (verification_mark_recovery C run) (\<lambda>_.
            verification_failed FailureKind.RECOVERY_REQUIREMENT
              ''VERIFICATION_OBSERVATION_DURABILITY_FAILED''
              ''Independent provider observation could not be durably audited'' False)) e = Some g"
      and g: "g s3 = (Inr (Succeeded c), s')"
    then have "g = andThen (verification_mark_recovery C run) (\<lambda>_.
            verification_failed FailureKind.RECOVERY_REQUIREMENT
              ''VERIFICATION_OBSERVATION_DURABILITY_FAILED''
              ''Independent provider observation could not be durably audited'' False)"
      by (simp add: on_storage_error_def split: if_splits)
    from mark_then_failed_not_success g [unfolded this] have False .
    then show ?thesis ..
  next
    fix u s3 assume a: "verification_append_event C run AuditEventType.VERIFICATION_OBSERVED
           (ob_observation_hash v)
           [(''attempt'', digits_int a),
            (''disposition'', VerificationDisposition_value (ob_disposition v)),
            (''observed_state'', Ec2InstanceState_value (ob_observed_state v)),
            (''proposal_id'', pid)] s2 = (Inr u, s3)"
      and b: "(if ob_disposition v = VerificationDisposition.VERIFIED
           then persist_success L C run p k v
           else if ob_disposition v = VerificationDisposition.MISMATCH
           then fail_verification C run (i_idempotency_key idem)
                  (failure FailureKind.VERIFICATION_FAILURE ''VERIFICATION_STATE_MISMATCH''
                    ''Independent EC2 state does not match the expected stopped state'' False)
           else andThen (if a < vr_max_attempts C then vr_sleeper C (vr_interval_seconds C) else ret ())
                  (\<lambda>_. poll L C run p idem k idn pid as)) s3 = (Inr (Succeeded c), s')"
    have l3: "later L (view s) (view s3)" using l bystanderD(2) [OF append_bystander a] by (rule rtranclp_trans)
    consider (verified) "persist_success L C run p k v s3 = (Inr (Succeeded c), s')"
      | (mismatch) f where "fail_verification C run (i_idempotency_key idem) f s3 = (Inr (Succeeded c), s')"
      | (again) "andThen (if a < vr_max_attempts C then vr_sleeper C (vr_interval_seconds C) else ret ())
                  (\<lambda>_. poll L C run p idem k idn pid as) s3 = (Inr (Succeeded c), s')"
      using b by (simp only: if_split_asm split: if_split_asm)
    then show ?thesis
    proof cases
      case verified
      with l3 show ?thesis by blast
    next
      case mismatch
      from fail_not_success [OF this] show ?thesis ..
    next
      case again
      then obtain w s4 where s4: "(if a < vr_max_attempts C then vr_sleeper C (vr_interval_seconds C) else ret ()) s3 = (Inr w, s4)"
        and p: "poll L C run p idem k idn pid as s4 = (Inr (Succeeded c), s')"
        by (rule andThen_InrE)
      have "bystander L view reads (if a < vr_max_attempts C then vr_sleeper C (vr_interval_seconds C) else ret ())"
        by (intro bystander_intros sleeper)
      from Cons.IH [OF p] bystanderD(2) [OF this s4] l3 show ?thesis by (meson rtranclp_trans)
    qed
  qed simp
qed

lemma verify_proven:
  assumes "verify L C pid s = (Inr (Succeeded c), s')" and ok: "repo_ok L (view s)"
  shows "\<exists>p. proven (view s') pid p (vc_evidence c)"
  using assms(1)
proof (cases rule: verify_cases)
  case early
  then show ?thesis by simp
next
  case (found p run known s1)
  note st = start_found [OF found(1) ok]
  have kept: "\<exists>q. dget (d_proposals (view s')) pid = Some q \<and> proposal_evolves p q"
    if "later L (view s1) (view s')"
    using st(3) evolves_get(2) [OF later_evolves [OF that]] proposal_evolves_trans by blast
  from found(2) show ?thesis
  proof (cases rule: found_cases)
    case refused
    then show ?thesis by simp
  next
    case reconciled
    have g: "op_get_verification_evidence R (p_run_id p) pid s1 = (Inr (Some (vc_evidence c)), s')"
      using reconcile_result(1) [OF reconciled(2)] by (simp add: repository st(2))
    have l: "later L (view s1) (view s')" by (rule bystanderD(2) [OF reconcile_bystander reconciled(2)])
    from st(4) obtain r where r: "dget (d_runs (view s1)) (p_run_id p) = Some r" "run_evolves run r" by blast
    then have "workflow_step\<^sup>*\<^sup>* WorkflowState.SUCCESS_WITH_EVIDENCE (r_state r)"
      using reconciled(1) by (simp add: run_evolves_def)
    from workflow_reach_terminal [OF this] have "r_state r = WorkflowState.SUCCESS_WITH_EVIDENCE"
      by (simp add: TERMINAL_WORKFLOW_STATES_def)
    from success_stays [OF later_evolves [OF l] r(1) this] get_evidence_result [OF g] kept [OF l]
    show ?thesis by (auto simp: proven_def)
  next
    case finalized
    from finalized(2) show ?thesis
    proof (rule finalize_result)
      fix s2 md
      assume "op_get_verification_evidence (vr_repository C) (r_run_id run) pid s1 = (Inr (Some (vc_evidence c)), s2)"
        and close: "close_verified C run pid (vc_evidence c) md s2 = (Inr (), s')"
      then have g: "op_get_verification_evidence R (p_run_id p) pid s1 = (Inr (Some (vc_evidence c)), s2)"
        by (simp add: repository st(2))
      from evidence_stays [OF later_evolves [OF close_success(1) [OF close]] get_evidence_result [OF g]]
        close_success(2) [OF close] st(2) kept [OF bystanderD(2) [OF finalize_bystander finalized(2)]]
      show ?thesis by (auto simp: proven_def)
    qed
  next
    case (polled idem k)
    from polled(4) [unfolded verify_acknowledged_def] obtain idn s2 where
      i: "lift (identity_from_run run) s1 = (Inr idn, s2)" and
      rest: "tryThen (verification_append_event C run AuditEventType.VERIFICATION_STARTED
         (k_acknowledgement_hash k) [(''proposal_id'', pid)])
       (on_storage_error (verification_failed FailureKind.DEPENDENCY_UNAVAILABLE
          ''VERIFICATION_AUDIT_UNAVAILABLE'' ''Verification start could not be persisted'' True))
       (\<lambda>_. poll L C run p idem k idn pid [1..vr_max_attempts C]) s2 = (Inr (Succeeded c), s')"
      by (rule andThen_InrE)
    from rest obtain s3 where
      poll: "poll L C run p idem k idn pid [1..vr_max_attempts C] s3 = (Inr (Succeeded c), s')"
      by (rule tryThen_eqE) (auto simp: on_storage_error_def verification_failed_def ret_def split: if_splits)
    from poll_success [OF poll] obtain v s4 where
      "persist_success L C run p k v s4 = (Inr (Succeeded c), s')" by blast
    then show ?thesis
    proof (rule persist_evidence)
      fix created t1 t2 result t t3 t4 t5 i
      assume cr: "valid_evidence L created" "v_run_id created = r_run_id run" "v_proposal_id created = p_proposal_id p"
        and ops: "op_create_verification_evidence (vr_repository C) created t1 = (Inr (vc_evidence c), t2)"
          "vr_clock C t2 = (Inr t, t3)" "valid_action_result result"
          "op_complete_idempotency (vr_repository C) (derive_idempotency_key L p) result t t3 = (Inr i, t4)"
          "close_verified C run (p_proposal_id p) (vc_evidence c)
            [(''proposal_id'', p_proposal_id p),
             (''transition_candidate'', WorkflowState_value WorkflowState.SUCCESS_WITH_EVIDENCE)] t4 = (Inr (), t5)"
          "s' = t5"
      have e: "dget (d_verification_evidence (view t2)) (p_run_id p, pid) = Some (vc_evidence c)"
        using create_stored [OF cr(1)] ops(1) cr(2,3) st(1,2) by (simp add: repository)
      have "later L (view t2) (view t4)"
        using bystanderD(2) [OF clock ops(2)]
          performsD(2) [OF complete_idempotency [OF ops(3)], of "derive_idempotency_key L p" t t3 "Inr i" t4] ops(4)
        by (simp add: repository)
      then have "later L (view t2) (view s')" using close_success(1) [OF ops(5)] ops(6) by (auto intro: rtranclp_trans)
      from evidence_stays [OF later_evolves [OF this] e] close_success(2) [OF ops(5)] st(2) ops(6)
        kept [OF emitsD(1) [OF acknowledged_emits polled(4)]]
      show ?thesis by (auto simp: proven_def)
    qed
  qed
qed

lemma verify_later:
  assumes "verify L C pid s = (r, s')"
  shows "later L (view s) (view s')"
  using assms
proof (cases rule: verify_cases)
  case early
  then show ?thesis using bystanderD(2) [OF start_bystander] by blast
next
  case (found p run known s1)
  have "later L (view s1) (view s')"
    using found(2)
  proof (cases rule: found_cases)
    case reconciled
    show ?thesis by (rule bystanderD(2) [OF reconcile_bystander reconciled(2)])
  next
    case finalized
    show ?thesis by (rule bystanderD(2) [OF finalize_bystander finalized(2)])
  next
    case (polled idem k)
    show ?thesis by (rule emitsD [OF acknowledged_emits polled(4)])
  qed simp
  with bystanderD(2) [OF start_bystander found(1)] show ?thesis by (rule rtranclp_trans)
qed

end

end
