(* ===== verification/Verification_System.thy ===== *)
theory Verification_System
  imports Verification Stop_System
begin

text \<open>
  The verification coordinator over a concrete repository and a script of provider answers, an
  interpretation of the verification environment on it, and the two properties of the whole
  handler: what a reported success proves and how often the provider is read.
\<close>

subsection \<open>The coordinator over a repository and a script of provider answers\<close>

record VerifierWorld =
  vw_answers :: "(exc + InstanceInspection ControlResult) list"
  vw_log :: "Reading list"
  vw_clock :: "datetime list"
  vw_ids :: "uuid list"
  vw_sleeps :: "int list"

text \<open>An exhausted script raises.\<close>

definition inspect_call ::
    "string \<Rightarrow> InvestigationIdentity \<Rightarrow> (VerifierWorld, InstanceInspection ControlResult) prog" where
  "inspect_call i identity w =
     (let r = (case vw_answers w of [] \<Rightarrow> Inl OtherError | a # _ \<Rightarrow> a)
      in (r, w\<lparr>vw_answers := tl (vw_answers w), vw_log := vw_log w @ [(i, r)]\<rparr>))"

definition verifier_clock :: "(VerifierWorld, datetime) prog" where
  "verifier_clock w = (case vw_clock w of [] \<Rightarrow> (Inl OtherError, w) | t # ts \<Rightarrow> (Inr t, w\<lparr>vw_clock := ts\<rparr>))"

definition verifier_id :: "(VerifierWorld, uuid) prog" where
  "verifier_id w = (case vw_ids w of [] \<Rightarrow> (Inl OtherError, w) | i # is \<Rightarrow> (Inr i, w\<lparr>vw_ids := is\<rparr>))"

definition verifier_sleep :: "int \<Rightarrow> (VerifierWorld, unit) prog" where
  "verifier_sleep n w = (Inr (), w\<lparr>vw_sleeps := vw_sleeps w @ [n]\<rparr>)"

definition verification_system ::
    "'s DurableTruthRepository \<Rightarrow> SandboxTarget \<Rightarrow> int \<times> int
     \<Rightarrow> ('s \<times> VerifierWorld) BoundedVerificationCoordinator" where
  "verification_system R target settings =
     \<lparr>vr_repository = store_side R,
      vr_service = \<lparr>sv_inspect_result = (\<lambda>i idn. on_process (inspect_call i idn)), sv_target = target\<rparr>,
      vr_max_attempts = fst settings, vr_interval_seconds = snd settings,
      vr_clock = on_process verifier_clock, vr_sleeper = (\<lambda>n. on_process (verifier_sleep n)),
      vr_event_id_factory = on_process verifier_id, vr_evidence_id_factory = on_process verifier_id\<rparr>"

lemma verification_system_environment:
  assumes "durable_truth L R view rest"
  shows "verification_environment L (store_side R) (view \<circ> fst) (\<lambda>s. vw_log (snd s))
    (verification_system R target settings)"
proof (intro verification_environment.intro verification_environment_axioms.intro
    store_side_durable_truth [OF assms])
  show "vr_repository (verification_system R target settings) = store_side R"
    by (simp add: verification_system_def)
  show "bystander L (view \<circ> fst) (\<lambda>s. vw_log (snd s)) (vr_clock (verification_system R target settings))"
    unfolding verification_system_def BoundedVerificationCoordinator.simps
    by (rule on_process_bystander) (auto simp: verifier_clock_def split: list.splits)
  show "bystander L (view \<circ> fst) (\<lambda>s. vw_log (snd s)) (vr_sleeper (verification_system R target settings) n)" for n
    unfolding verification_system_def BoundedVerificationCoordinator.simps
    by (rule on_process_bystander) (auto simp: verifier_sleep_def)
  show "bystander L (view \<circ> fst) (\<lambda>s. vw_log (snd s)) (vr_event_id_factory (verification_system R target settings))"
    "bystander L (view \<circ> fst) (\<lambda>s. vw_log (snd s)) (vr_evidence_id_factory (verification_system R target settings))"
    unfolding verification_system_def BoundedVerificationCoordinator.simps
    by (rule on_process_bystander, auto simp: verifier_id_def split: list.splits)+
  fix i idn s r s'
  assume "sv_inspect_result (vr_service (verification_system R target settings)) i idn s = (r, s')"
  then show "later L ((view \<circ> fst) s) ((view \<circ> fst) s') \<and> vw_log (snd s') = vw_log (snd s) @ [(i, r)]"
    by (cases s) (auto simp: verification_system_def on_process_def inspect_call_def Let_def)
qed

interpretation file_verification: verification_environment L "store_side (file_repository L)"
    "(\<lambda>w. file_view (fw_file w)) \<circ> fst" "\<lambda>s. vw_log (snd s)"
    "verification_system (file_repository L) target settings" for L target settings
  by (rule verification_system_environment) (rule local_store.durable_truth_axioms)

text \<open>C8: Verification reports a success only when the store holds the proof: over every repository
  that keeps the durable contract, after a success the run is SUCCESS_WITH_EVIDENCE and the
  reported evidence is the stored, valid evidence that the target of the proposal is stopped.\<close>

theorem verification_success_proven:
  assumes "durable_truth L R view rest" and "repo_ok L (view s)"
    and "verify L (verification_system R target settings) pid (s, w) = (Inr (Succeeded c), s', w')"
  shows "\<exists>p r. dget (d_proposals (view s')) pid = Some p
    \<and> dget (d_runs (view s')) (p_run_id p) = Some r \<and> r_state r = WorkflowState.SUCCESS_WITH_EVIDENCE
    \<and> dget (d_verification_evidence (view s')) (p_run_id p, pid) = Some (vc_evidence c)
    \<and> valid_evidence L (vc_evidence c) \<and> v_observed_state (vc_evidence c) = ObservedInstanceState.STOPPED"
proof -
  note env = verification_system_environment [OF assms(1), of target settings]
  from verification_environment.verify_proven [OF env assms(3)] assms(2)
  obtain p where p: "proven (view s') pid p (vc_evidence c)" by auto
  have "later L ((view \<circ> fst) (s, w)) ((view \<circ> fst) (s', w'))"
    using verification_environment.verify_later [OF env assms(3)] .
  then have "repo_ok L (view s')" using later_ok [of L "view s" "view s'"] assms(2) by simp
  then have "valid_evidence L (vc_evidence c)"
    using p by (auto simp: proven_def repo_ok_def evidence_ok_def)
  moreover from this have "v_observed_state (vc_evidence c) = ObservedInstanceState.STOPPED"
    by (simp add: valid_evidence_def)
  moreover from p obtain q r where "dget (d_proposals (view s')) pid = Some q" "proposal_evolves p q"
    "dget (d_runs (view s')) (p_run_id p) = Some r" "r_state r = WorkflowState.SUCCESS_WITH_EVIDENCE"
    "dget (d_verification_evidence (view s')) (p_run_id p, pid) = Some (vc_evidence c)"
    unfolding proven_def by blast
  ultimately show ?thesis
    by (intro exI [of _ q] exI [of _ r]) (simp add: proposal_evolves_fields(2))
qed

text \<open>C9: Verification reads the provider at most as often as configured, at most ten times. A new
  success rests on a last read that showed the instance stopped, after reads that all showed it
  stopping; a reconciled success reads nothing.\<close>

theorem verification_reads_bounded:
  assumes "durable_truth L R view rest" and "verification_settings m n = Inr settings"
    and "verify L (verification_system R target settings) pid (s, w) = (r, s', w')"
  shows "\<exists>obs. vw_log w' = vw_log w @ obs \<and> int (length obs) \<le> m \<and> m \<le> 10
    \<and> (\<forall>c. r = Inr (Succeeded c) \<longrightarrow> (if vc_reconciled c then obs = [] \<and> vc_attempts c = 0
        else obs \<noteq> [] \<and> vc_attempts c = int (length obs)
          \<and> (\<exists>i. stopped_read i (last obs) \<and> list_all (stopping_read i) (butlast obs))))"
proof -
  note env = verification_system_environment [OF assms(1), of target settings]
  have m: "vr_max_attempts (verification_system R target settings) = m" "1 \<le> m" "m \<le> 10"
    using assms(2) by (auto simp: verification_settings_def verification_system_def split: if_splits)
  from verification_environment.verify_reads [OF env assms(3)] m show ?thesis by (auto simp: le_nat_iff)
qed

end
