(* ===== verification/Recovery.thy ===== *)
theory Recovery
  imports Verification_System
begin

text \<open>
  \<open>recovery/models.py\<close> and \<open>recovery/coordinator.py\<close>, with the approval payload of
  \<open>agent/hitl.py\<close>: the coordinator that classifies a run after a restart and reconciles it from
  durable truth. Its collaborators are the fields of the record, as in the class; the lease is a
  timestamp in the metadata of the checkpoint.
\<close>

subsection \<open>The human boundary\<close>

record ApprovalPayload =
  ap_proposal_id :: uuid
  ap_run_id :: uuid
  ap_action :: Capability
  ap_target :: ActionTarget
  ap_expected_precondition :: ExpectedPrecondition
  ap_evidence_hash :: string

definition STOP_IMPACT_SUMMARY :: string where
  "STOP_IMPACT_SUMMARY =
     ''Gracefully stopping the sandbox instance is reversible but changes AWS workload state.''"

definition valid_approval_payload :: "ApprovalPayload \<Rightarrow> bool" where
  "valid_approval_payload a \<longleftrightarrow>
     uuid7 (ap_proposal_id a) \<and> uuid7 (ap_run_id a) \<and> valid_target (ap_target a)
     \<and> valid_precondition (ap_expected_precondition a) \<and> sha256_digest (ap_evidence_hash a)
     \<and> ap_action a = Capability.STOP_SANDBOX_INSTANCE
     \<and> ap_evidence_hash a = pc_evidence_hash (ap_expected_precondition a)"

record ApprovalInterrupt =
  ai_interrupt_id :: string
  ai_payload :: ApprovalPayload
  ai_request_hash :: string
  ai_trace_id :: uuid
  ai_correlation_id :: uuid
  ai_reconciled :: bool

text \<open>The payload keeps only the confirmation gate, so a proposal with another one is refused.\<close>

definition build_approval_payload :: "ActionProposal \<Rightarrow> exc + ApprovalPayload" where
  "build_approval_payload proposal =
     (if p_authority proposal \<noteq> AuthorityGate.PLAN_AND_CONFIRM then Inl ValidationError
      else validated valid_approval_payload
        \<lparr>ap_proposal_id = p_proposal_id proposal, ap_run_id = p_run_id proposal,
         ap_action = p_action proposal, ap_target = p_target proposal,
         ap_expected_precondition = p_expected_precondition proposal,
         ap_evidence_hash = p_evidence_hash proposal\<rparr>)"

definition approval_request_hash :: "Platform \<Rightarrow> ApprovalPayload \<Rightarrow> string" where
  "approval_request_hash L a = compute_evidence_digest L (JObj
     [(''proposal_id'', JStr (ap_proposal_id a)), (''run_id'', JStr (ap_run_id a)),
      (''action'', JStr (Capability_value (ap_action a))), (''target'', target_json (ap_target a)),
      (''expected_precondition'', precondition_json L (ap_expected_precondition a)),
      (''authority'', JStr (AuthorityGate_value AuthorityGate.PLAN_AND_CONFIRM)),
      (''evidence_hash'', JStr (ap_evidence_hash a)), (''impact_summary'', JStr STOP_IMPACT_SUMMARY)])"

subsection \<open>Requests and outcomes\<close>

datatype RecoveryAction =
    RESUME_SAFE_STATE | RESUME_PROPOSAL | RECONSTRUCT_APPROVAL | READY_FOR_EXECUTION
  | RECONCILE_LOST_ACK | RESUME_VERIFICATION | RETURN_VERIFIED_RESULT | PRESERVE_TERMINAL
  | OPERATOR_REVIEW

fun RecoveryAction_value :: "RecoveryAction \<Rightarrow> string" where
  "RecoveryAction_value RESUME_SAFE_STATE = ''RESUME_SAFE_STATE''"
| "RecoveryAction_value RESUME_PROPOSAL = ''RESUME_PROPOSAL''"
| "RecoveryAction_value RECONSTRUCT_APPROVAL = ''RECONSTRUCT_APPROVAL''"
| "RecoveryAction_value READY_FOR_EXECUTION = ''READY_FOR_EXECUTION''"
| "RecoveryAction_value RECONCILE_LOST_ACK = ''RECONCILE_LOST_ACK''"
| "RecoveryAction_value RESUME_VERIFICATION = ''RESUME_VERIFICATION''"
| "RecoveryAction_value RETURN_VERIFIED_RESULT = ''RETURN_VERIFIED_RESULT''"
| "RecoveryAction_value PRESERVE_TERMINAL = ''PRESERVE_TERMINAL''"
| "RecoveryAction_value OPERATOR_REVIEW = ''OPERATOR_REVIEW''"

datatype RecoveryStatus = RESUMABLE | READY | RECONCILED | TERMINAL | OPERATOR_REQUIRED

record RecoveryRequest =
  rq_run_id :: uuid
  rq_proposal_id :: "uuid option"

record RecoveryOutcome =
  ro_run_id :: uuid
  ro_trace_id :: uuid
  ro_correlation_id :: uuid
  ro_proposal_id :: "uuid option"
  ro_initial_state :: WorkflowState
  ro_final_state :: WorkflowState
  ro_status :: RecoveryStatus
  ro_action :: RecoveryAction
  ro_reason_code :: string
  ro_reason :: string
  ro_audit_event_id :: uuid
  ro_approval_interrupt :: "ApprovalInterrupt option"
  ro_verification :: "VerificationCompletion option"
  ro_observed_state :: "Ec2InstanceState option"
  ro_evidence_hash :: "string option"
  ro_failure :: "FailureDetail option"
  ro_ready_for_execution :: bool
  ro_reconciled :: bool

definition valid_outcome :: "RecoveryOutcome \<Rightarrow> bool" where
  "valid_outcome x \<longleftrightarrow>
     uuid7 (ro_run_id x) \<and> uuid7 (ro_trace_id x) \<and> uuid7 (ro_correlation_id x)
     \<and> optional uuid7 (ro_proposal_id x) \<and> short_identifier (ro_reason_code x)
     \<and> non_empty_text (ro_reason x) \<and> uuid7 (ro_audit_event_id x)
     \<and> optional sha256_digest (ro_evidence_hash x)
     \<and> (ro_action x = RECONSTRUCT_APPROVAL \<longrightarrow> ro_approval_interrupt x \<noteq> None)
     \<and> (ro_action x = RETURN_VERIFIED_RESULT \<longrightarrow> ro_evidence_hash x \<noteq> None
          \<and> ro_final_state x = WorkflowState.SUCCESS_WITH_EVIDENCE)
     \<and> ro_ready_for_execution x = (ro_action x = READY_FOR_EXECUTION)
     \<and> (ro_status x = OPERATOR_REQUIRED \<longrightarrow> ro_failure x \<noteq> None)"

subsection \<open>The coordinator\<close>

record RecoverySnapshot =
  sn_run :: Run
  sn_proposal :: "ActionProposal option"
  sn_approval :: "Approval option"
  sn_idempotency :: "IdempotencyRecord option"
  sn_checkpoint :: "Checkpoint option"
  sn_evidence :: "VerificationEvidence option"

record 's RecoveryCoordinator =
  rc_repository :: "'s DurableTruthRepository"
  rc_clock :: "('s, datetime) prog"
  rc_sleeper :: "int \<Rightarrow> ('s, unit) prog"
  rc_event_id_factory :: "('s, uuid) prog"
  rc_recovery_id_factory :: "('s, uuid) prog"
  rc_evidence_id_factory :: "('s, uuid) prog"
  rc_approval_reconstructor :: "(uuid \<Rightarrow> ('s, ApprovalInterrupt) handler) option"
  rc_verification_reconciler :: "(uuid \<Rightarrow> ('s, VerificationCompletion) handler) option"
  rc_readback_service :: "'s VerifyInstanceStateService option"
  rc_max_attempts :: int
  rc_interval_seconds :: int
  rc_lease_seconds :: int

definition recovery_lease_seconds :: "int \<Rightarrow> exc + int" where
  "recovery_lease_seconds n = (if 1 \<le> n \<and> n \<le> 300 then Inr n else Inl ValueError)"

definition recovery_failure :: "string \<Rightarrow> string \<Rightarrow> FailureDetail" where
  "recovery_failure reason message = failure FailureKind.RECOVERY_REQUIREMENT reason message False"

definition recovery_policy_failure :: "string \<Rightarrow> string \<Rightarrow> FailureDetail" where
  "recovery_policy_failure reason message = failure FailureKind.POLICY_DENIAL reason message False"

definition recovery_plain_failure ::
    "FailureKind \<Rightarrow> string \<Rightarrow> string \<Rightarrow> bool \<Rightarrow> ('s, RecoveryOutcome) handler" where
  "recovery_plain_failure kind reason message retryable = ret (Failed (failure kind reason message retryable))"

definition proposal_label :: "ActionProposal option \<Rightarrow> string" where
  "proposal_label proposal = (case proposal of None \<Rightarrow> ''none'' | Some p \<Rightarrow> p_proposal_id p)"

definition proposal_value :: "ActionProposal option \<Rightarrow> json" where
  "proposal_value proposal = (case proposal of None \<Rightarrow> JNull | Some p \<Rightarrow> JStr (p_proposal_id p))"

definition recovery_append_event ::
    "'s RecoveryCoordinator \<Rightarrow> Run \<Rightarrow> ActionProposal option \<Rightarrow> AuditEventType \<Rightarrow> string \<Rightarrow> string
     \<Rightarrow> ('s, unit) prog" where
  "recovery_append_event C run proposal event_type reason_code payload_hash =
     emit_event (rc_repository C) (rc_clock C) (rc_event_id_factory C) ''nz-recovery'' None
       (r_run_id run) event_type payload_hash
       [(''correlation_id'', r_correlation_id run), (''proposal_id'', proposal_label proposal),
        (''reason_code'', reason_code), (''trace_id'', r_trace_id run)]"

text \<open>The keyword arguments of \<open>_outcome\<close>.\<close>

record OutcomeDetails =
  od_final_state :: "WorkflowState option"
  od_approval_interrupt :: "ApprovalInterrupt option"
  od_verification :: "VerificationCompletion option"
  od_observed_state :: "Ec2InstanceState option"
  od_evidence_hash :: "string option"
  od_failure :: "FailureDetail option"
  od_ready_for_execution :: bool
  od_reconciled :: bool
  od_event_type :: AuditEventType

definition no_details :: OutcomeDetails where
  "no_details = \<lparr>od_final_state = None, od_approval_interrupt = None, od_verification = None,
     od_observed_state = None, od_evidence_hash = None, od_failure = None,
     od_ready_for_execution = False, od_reconciled = False,
     od_event_type = AuditEventType.RECOVERY_CLASSIFIED\<rparr>"

definition final_state_of :: "Run \<Rightarrow> OutcomeDetails \<Rightarrow> WorkflowState" where
  "final_state_of run details =
     (case od_final_state details of None \<Rightarrow> r_state run | Some s \<Rightarrow> s)"

definition outcome_payload ::
    "Run \<Rightarrow> ActionProposal option \<Rightarrow> RecoveryAction \<Rightarrow> string \<Rightarrow> OutcomeDetails \<Rightarrow> json" where
  "outcome_payload run proposal action reason_code details = JObj
     [(''action'', JStr (RecoveryAction_value action)),
      (''final_state'', JStr (WorkflowState_value (final_state_of run details))),
      (''initial_state'', JStr (WorkflowState_value (r_state run))),
      (''proposal_id'', proposal_value proposal), (''reason_code'', JStr reason_code),
      (''run_id'', JStr (r_run_id run))]"

definition recovery_outcome ::
    "Platform \<Rightarrow> 's RecoveryCoordinator \<Rightarrow> Run \<Rightarrow> ActionProposal option \<Rightarrow> RecoveryStatus
     \<Rightarrow> RecoveryAction \<Rightarrow> string \<Rightarrow> string \<Rightarrow> OutcomeDetails \<Rightarrow> ('s, RecoveryOutcome) handler" where
  "recovery_outcome L C run proposal status action reason_code reason details =
     andThen (rc_event_id_factory C) (\<lambda>event_id.
     tryThen
       (emit_event (rc_repository C) (rc_clock C) (ret event_id) ''nz-recovery'' None (r_run_id run)
         (od_event_type details)
         (compute_evidence_digest L (outcome_payload run proposal action reason_code details))
         [(''action'', RecoveryAction_value action), (''correlation_id'', r_correlation_id run),
          (''initial_state'', WorkflowState_value (r_state run)),
          (''proposal_id'', proposal_label proposal), (''reason_code'', reason_code),
          (''trace_id'', r_trace_id run)])
       (on_storage_error (recovery_plain_failure FailureKind.DEPENDENCY_UNAVAILABLE
          ''RECOVERY_AUDIT_UNAVAILABLE'' ''Recovery decision could not be durably audited'' True))
       (\<lambda>_. andThen (lift (validated valid_outcome
          \<lparr>ro_run_id = r_run_id run, ro_trace_id = r_trace_id run,
           ro_correlation_id = r_correlation_id run,
           ro_proposal_id = map_option p_proposal_id proposal, ro_initial_state = r_state run,
           ro_final_state = final_state_of run details, ro_status = status, ro_action = action,
           ro_reason_code = reason_code, ro_reason = reason, ro_audit_event_id = event_id,
           ro_approval_interrupt = od_approval_interrupt details,
           ro_verification = od_verification details,
           ro_observed_state = od_observed_state details,
           ro_evidence_hash = od_evidence_hash details, ro_failure = od_failure details,
           ro_ready_for_execution = od_ready_for_execution details,
           ro_reconciled = od_reconciled details\<rparr>))
          (\<lambda>x. ret (Succeeded x))))"

definition operator_required ::
    "Platform \<Rightarrow> 's RecoveryCoordinator \<Rightarrow> Run \<Rightarrow> ActionProposal option \<Rightarrow> string \<Rightarrow> string
     \<Rightarrow> Ec2InstanceState option \<Rightarrow> ('s, RecoveryOutcome) handler" where
  "operator_required L C run proposal reason_code message seen =
     recovery_outcome L C run proposal OPERATOR_REQUIRED OPERATOR_REVIEW reason_code message
       (no_details\<lparr>od_observed_state := seen,
          od_failure := Some (recovery_failure reason_code message), od_reconciled := True,
          od_event_type := AuditEventType.RECOVERY_DEFERRED\<rparr>)"

definition audited_failure ::
    "Platform \<Rightarrow> 's RecoveryCoordinator \<Rightarrow> Run \<Rightarrow> ActionProposal option \<Rightarrow> FailureDetail
     \<Rightarrow> ('s, RecoveryOutcome) handler" where
  "audited_failure L C run proposal f =
     tryThen
       (recovery_append_event C run proposal AuditEventType.RECOVERY_DEFERRED (f_code f)
         (compute_evidence_digest L (JObj
           [(''failure_code'', JStr (f_code f)), (''failure_kind'', JStr (FailureKind_value (f_kind f))),
            (''proposal_id'', proposal_value proposal), (''run_id'', JStr (r_run_id run)),
            (''state'', JStr (WorkflowState_value (r_state run)))])))
       (on_storage_error (recovery_plain_failure FailureKind.DEPENDENCY_UNAVAILABLE
          ''RECOVERY_FAILURE_AUDIT_UNAVAILABLE'' ''Recovery failure could not be durably audited'' True))
       (\<lambda>_. ret (Failed f))"


subsection \<open>Durable truth\<close>

definition load_recovery_snapshot ::
    "Platform \<Rightarrow> 's RecoveryCoordinator \<Rightarrow> RecoveryRequest \<Rightarrow> ('s, FailureDetail + RecoverySnapshot) prog" where
  "load_recovery_snapshot L C request =
     (let R = rc_repository C in
      tryThen
       (andThen (op_get_run R (rq_run_id request)) (\<lambda>found. case found of
          None \<Rightarrow> ret (Inl (failure FailureKind.VALIDATION_FAILURE ''RECOVERY_RUN_NOT_FOUND''
                    ''Durable run is required for recovery'' False))
        | Some run \<Rightarrow>
            andThen (case rq_proposal_id request of None \<Rightarrow> ret None | Some pid \<Rightarrow> op_get_proposal R pid) (\<lambda>proposal.
            andThen (op_get_checkpoint R (r_run_id run)) (\<lambda>checkpoint.
            andThen (case proposal of None \<Rightarrow> ret None | Some p \<Rightarrow> op_get_approval R (p_proposal_id p)) (\<lambda>approval.
            andThen (case proposal of None \<Rightarrow> ret None
              | Some p \<Rightarrow> op_get_idempotency R (derive_idempotency_key L p)) (\<lambda>idempotency.
            andThen (case proposal of None \<Rightarrow> ret None
              | Some p \<Rightarrow> op_get_verification_evidence R (r_run_id run) (p_proposal_id p)) (\<lambda>evidence.
            ret (Inr \<lparr>sn_run = run, sn_proposal = proposal, sn_approval = approval,
              sn_idempotency = idempotency, sn_checkpoint = checkpoint, sn_evidence = evidence\<rparr>))))))))
       (\<lambda>e. if e = StorageDependencyError
            then Some (ret (Inl (failure FailureKind.DEPENDENCY_UNAVAILABLE
                   ''RECOVERY_DURABLE_TRUTH_UNAVAILABLE''
                   ''Authoritative durable truth is unavailable during recovery'' True)))
            else None)
       ret)"

text \<open>\<open>resume_metadata.get(\<dots>) not in {None, str(\<dots>)}\<close>: a list or a mapping cannot be hashed.\<close>

definition metadata_proposal_differs :: "json \<Rightarrow> uuid \<Rightarrow> exc + bool" where
  "metadata_proposal_differs value proposal_id =
     (case value of JArr _ \<Rightarrow> Inl TypeError | JObj _ \<Rightarrow> Inl TypeError
      | JNull \<Rightarrow> Inr False | JStr s \<Rightarrow> Inr (s \<noteq> proposal_id) | _ \<Rightarrow> Inr True)"

definition PROPOSAL_FREE_STATES :: "WorkflowState set" where
  "PROPOSAL_FREE_STATES = {WorkflowState.RECEIVED, WorkflowState.INVESTIGATING, WorkflowState.EVIDENCE_READY}"

definition CHECKPOINT_FREE_STATES :: "WorkflowState set" where
  "CHECKPOINT_FREE_STATES =
     {WorkflowState.RECEIVED, WorkflowState.SUCCESS_WITH_EVIDENCE, WorkflowState.DENIED_BY_HUMAN,
      WorkflowState.DENIED_BY_POLICY, WorkflowState.EXECUTION_FAILED,
      WorkflowState.VERIFICATION_FAILED, WorkflowState.DEPENDENCY_UNAVAILABLE,
      WorkflowState.MODEL_OUTPUT_INVALID, WorkflowState.AMBIGUOUS_RESULT,
      WorkflowState.BUDGET_EXHAUSTED}"

definition validate_checkpoint ::
    "Run \<Rightarrow> ActionProposal option \<Rightarrow> Checkpoint \<Rightarrow> exc + FailureDetail option" where
  "validate_checkpoint run proposal checkpoint =
     (if c_run_id checkpoint \<noteq> r_run_id run
      then Inr (Some (recovery_failure ''RECOVERY_CHECKPOINT_RUN_MISMATCH''
             ''Checkpoint belongs to another durable run''))
      else case (case proposal of None \<Rightarrow> Inr False
          | Some p \<Rightarrow> metadata_proposal_differs (jget (c_resume_metadata checkpoint) ''proposal_id'') (p_proposal_id p)) of
        Inl e \<Rightarrow> Inl e
      | Inr True \<Rightarrow> Inr (Some (recovery_failure ''RECOVERY_CHECKPOINT_PROPOSAL_MISMATCH''
             ''Checkpoint proposal metadata is inconsistent''))
      | Inr False \<Rightarrow>
          if r_state run = WorkflowState.AWAITING_APPROVAL
             \<and> c_last_safe_state checkpoint \<noteq> WorkflowState.AWAITING_APPROVAL
          then Inr (Some (recovery_failure ''RECOVERY_APPROVAL_CHECKPOINT_INVALID''
                 ''Awaiting approval is missing its exact safe checkpoint''))
          else Inr None)"

definition validate_recovery_snapshot ::
    "RecoveryRequest \<Rightarrow> RecoverySnapshot \<Rightarrow> exc + FailureDetail option" where
  "validate_recovery_snapshot request snapshot =
     (let run = sn_run snapshot; proposal = sn_proposal snapshot in
      if r_state run \<notin> PROPOSAL_FREE_STATES \<and> proposal = None
      then Inr (Some (recovery_failure ''RECOVERY_PROPOSAL_REQUIRED''
             ''This durable workflow state requires an exact proposal reference''))
      else if (case proposal of None \<Rightarrow> False
         | Some p \<Rightarrow> p_run_id p \<noteq> r_run_id run \<or> Some (p_proposal_id p) \<noteq> rq_proposal_id request)
      then Inr (Some (recovery_policy_failure ''RECOVERY_PROPOSAL_RUN_MISMATCH''
             ''Proposal and run references do not share one durable identity''))
      else if r_state run \<notin> CHECKPOINT_FREE_STATES \<and> sn_checkpoint snapshot = None
      then Inr (Some (recovery_failure ''RECOVERY_CHECKPOINT_REQUIRED''
             ''Active durable work requires a versioned checkpoint''))
      else (case sn_checkpoint snapshot of None \<Rightarrow> Inr None
        | Some checkpoint \<Rightarrow> validate_checkpoint run proposal checkpoint))"

definition positive_approval_matches :: "RecoverySnapshot \<Rightarrow> bool" where
  "positive_approval_matches snapshot =
     (case (sn_proposal snapshot, sn_approval snapshot) of
        (Some proposal, Some approval) \<Rightarrow>
          a_decision approval = ApprovalDecision.APPROVED
          \<and> a_proposal_id approval = p_proposal_id proposal
          \<and> a_run_id approval = r_run_id (sn_run snapshot)
          \<and> a_action approval = p_action proposal \<and> a_target approval = p_target proposal
          \<and> a_evidence_hash approval = p_evidence_hash proposal
      | _ \<Rightarrow> False)"

subsection \<open>The lease on a checkpoint\<close>

text \<open>\<open>lease_expiry > now\<close>: instants compare, a naive with an aware datetime raises.\<close>

fun datetime_after :: "datetime \<Rightarrow> datetime \<Rightarrow> exc + bool" where
  "datetime_after (Naive a) (Naive b) = Inr (b < a)"
| "datetime_after (Naive a) _ = Inl TypeError"
| "datetime_after _ (Naive b) = Inl TypeError"
| "datetime_after (Utc a) (Utc b) = Inr (b < a)"
| "datetime_after (Utc a) (Offset b) = Inr (b < a)"
| "datetime_after (Offset a) (Utc b) = Inr (b < a)"
| "datetime_after (Offset a) (Offset b) = Inr (b < a)"

definition lease_refusal :: "Platform \<Rightarrow> json \<Rightarrow> datetime \<Rightarrow> exc + FailureDetail option" where
  "lease_refusal L lease now =
     (case lease of
        JStr text \<Rightarrow>
          (case fromisoformat L text of
             None \<Rightarrow> Inr (Some (recovery_failure ''RECOVERY_LEASE_CORRUPT''
                       ''Recovery checkpoint contains an invalid lease timestamp''))
           | Some expiry \<Rightarrow>
               (case datetime_after expiry now of Inl e \<Rightarrow> Inl e
                | Inr owned \<Rightarrow> Inr (if owned
                    then Some (recovery_failure ''RECOVERY_ALREADY_CLAIMED''
                           ''Another bounded recovery attempt currently owns this checkpoint'')
                    else None)))
      | _ \<Rightarrow> Inr None)"

definition claimed_checkpoint ::
    "Platform \<Rightarrow> int \<Rightarrow> Checkpoint \<Rightarrow> WorkflowState \<Rightarrow> uuid \<Rightarrow> uuid \<Rightarrow> int \<Rightarrow> Checkpoint" where
  "claimed_checkpoint L lease_seconds checkpoint state claim_id proposal_id now =
     \<lparr>c_run_id = c_run_id checkpoint, c_last_safe_state = c_last_safe_state checkpoint,
      c_resume_metadata = dmerge (c_resume_metadata checkpoint)
        [(''recovery_claim_id'', JStr claim_id),
         (''recovery_claim_state'', JStr (WorkflowState_value state)),
         (''recovery_lease_expires_at'', JStr (isoformat L (now + 1000000 * lease_seconds))),
         (''recovery_proposal_id'', JStr proposal_id)],
      c_tool_result_hashes = c_tool_result_hashes checkpoint,
      c_resource_evidence = None, c_remediation_proposal = None,
      c_local_approval_request = None, c_local_approval = None, c_local_execution_intent = None,
      c_local_execution_receipt = None, c_local_verification = None,
      c_created_at = now, c_version = c_version checkpoint + 1\<rparr>"

definition claim_active_recovery ::
    "Platform \<Rightarrow> 's RecoveryCoordinator \<Rightarrow> RecoverySnapshot \<Rightarrow> ('s, FailureDetail + Checkpoint) prog" where
  "claim_active_recovery L C snapshot =
     (case (sn_checkpoint snapshot, sn_proposal snapshot) of
        (Some checkpoint, Some proposal) \<Rightarrow>
          andThen (rc_clock C) (\<lambda>now.
          andThen (lift (lease_refusal L (jget (c_resume_metadata checkpoint) ''recovery_lease_expires_at'') now))
            (\<lambda>refusal. case refusal of Some f \<Rightarrow> ret (Inl f)
             | None \<Rightarrow>
               andThen (rc_recovery_id_factory C) (\<lambda>claim_id.
               andThen (lift (utc_field now)) (\<lambda>t.
               andThen (lift (validated (valid_checkpoint L)
                 (claimed_checkpoint L (rc_lease_seconds C) checkpoint (r_state (sn_run snapshot)) claim_id
                   (p_proposal_id proposal) t))) (\<lambda>claimed.
               tryThen (op_save_checkpoint (rc_repository C) claimed (Some (c_version checkpoint)))
                 (\<lambda>e. if e = StorageConflictError
                      then Some (ret (Inl (recovery_failure ''RECOVERY_CONCURRENT_CLAIM_CONFLICT''
                             ''Concurrent recovery attempt won the optimistic checkpoint claim'')))
                      else if e = StorageDependencyError
                      then Some (ret (Inl (failure FailureKind.DEPENDENCY_UNAVAILABLE
                             ''RECOVERY_CLAIM_STORAGE_UNAVAILABLE''
                             ''Recovery checkpoint claim could not reach durable truth'' True)))
                      else None)
                 (\<lambda>c. ret (Inr c)))))))
      | _ \<Rightarrow> ret (Inl (recovery_failure ''RECOVERY_CLAIM_CHECKPOINT_MISSING''
               ''Active reconciliation requires a durable checkpoint'')))"

definition recovery_mark_required :: "'s RecoveryCoordinator \<Rightarrow> Run \<Rightarrow> ('s, unit) prog" where
  "recovery_mark_required C run =
     (if r_state run = WorkflowState.RECOVERY_REQUIRED then ret ()
      else tryThen
        (andThen (op_get_run (rc_repository C) (r_run_id run)) (\<lambda>found. case found of
           None \<Rightarrow> ret ()
         | Some current \<Rightarrow>
             if r_state current \<in> {WorkflowState.EXECUTING, WorkflowState.VERIFYING}
             then andThen (rc_clock C) (\<lambda>now.
               andThen (op_transition_run (rc_repository C) (r_run_id current)
                 WorkflowState.RECOVERY_REQUIRED (r_state current) (r_version current) now None None)
               (\<lambda>_. ret ()))
             else ret ()))
        (on_storage_error (ret ())) ret)"

subsection \<open>The branches of \<open>recover\<close>\<close>

text \<open>The asserted proposal of a snapshot: \<open>assert proposal is not None\<close>.\<close>

definition with_proposal ::
    "RecoverySnapshot \<Rightarrow> (ActionProposal \<Rightarrow> ('s, RecoveryOutcome) handler) \<Rightarrow> ('s, RecoveryOutcome) handler" where
  "with_proposal snapshot k = (case sn_proposal snapshot of None \<Rightarrow> raise AssertionError | Some p \<Rightarrow> k p)"

definition recover_awaiting_approval ::
    "Platform \<Rightarrow> 's RecoveryCoordinator \<Rightarrow> RecoverySnapshot \<Rightarrow> ('s, RecoveryOutcome) handler" where
  "recover_awaiting_approval L C snapshot = with_proposal snapshot (\<lambda>proposal.
     let run = sn_run snapshot in
     if sn_approval snapshot \<noteq> None
     then audited_failure L C run (Some proposal) (recovery_failure ''AWAITING_APPROVAL_HAS_DECISION''
            ''Awaiting run conflicts with an existing durable decision'')
     else if p_state proposal \<noteq> ProposalState.AWAITING_APPROVAL
     then audited_failure L C run (Some proposal) (recovery_failure ''AWAITING_APPROVAL_PROPOSAL_INVALID''
            ''Awaiting run and proposal state are inconsistent'')
     else (case rc_approval_reconstructor C of
         None \<Rightarrow> operator_required L C run (Some proposal) ''APPROVAL_RECONSTRUCTOR_UNAVAILABLE''
           ''Durable approval boundary exists but its caller adapter is unavailable'' None
       | Some reconstruct \<Rightarrow>
           andThen (reconstruct (p_proposal_id proposal)) (\<lambda>result. case result of
             Failed f \<Rightarrow> audited_failure L C run (Some proposal) f
           | Succeeded interrupt \<Rightarrow>
               recovery_outcome L C run (Some proposal) RESUMABLE RECONSTRUCT_APPROVAL
                 ''APPROVAL_INTERRUPT_RECONSTRUCTED''
                 ''Exact proposal-bound human approval boundary was reconstructed''
                 (no_details\<lparr>od_approval_interrupt := Some interrupt, od_reconciled := True\<rparr>))))"

definition recover_approved ::
    "Platform \<Rightarrow> 's RecoveryCoordinator \<Rightarrow> RecoverySnapshot \<Rightarrow> ('s, RecoveryOutcome) handler" where
  "recover_approved L C snapshot = with_proposal snapshot (\<lambda>proposal.
     let run = sn_run snapshot in
     if \<not> positive_approval_matches snapshot
     then audited_failure L C run (Some proposal) (recovery_policy_failure ''APPROVED_STATE_BINDING_INVALID''
            ''Approved state lacks its exact positive durable decision'')
     else if sn_idempotency snapshot = None
     then recovery_outcome L C run (Some proposal) READY READY_FOR_EXECUTION
            ''APPROVAL_READY_NO_EXECUTION_CLAIM''
            ''Durable approval is valid and no execution ownership was claimed''
            (no_details\<lparr>od_ready_for_execution := True, od_reconciled := True\<rparr>)
     else operator_required L C run (Some proposal) ''APPROVED_WITH_UNRESOLVED_CLAIM''
            ''Execution ownership exists but durable state does not prove an API request'' None)"

text \<open>
  The read-only verification and its outcome, shared by the restart of a verification and the
  resumption from a durable acknowledgement: \<open>reported\<close> is the run named in the outcome,
  \<open>run\<close> the one named in a failure.
\<close>

definition run_reconciler ::
    "Platform \<Rightarrow> 's RecoveryCoordinator \<Rightarrow> Run \<Rightarrow> Run \<Rightarrow> ActionProposal \<Rightarrow> string \<Rightarrow> string \<Rightarrow> string
     \<Rightarrow> ('s, RecoveryOutcome) handler" where
  "run_reconciler L C reported run proposal unavailable reason_code reason =
     (case rc_verification_reconciler C of
        None \<Rightarrow> operator_required L C run (Some proposal) ''VERIFICATION_RECONCILER_UNAVAILABLE'' unavailable None
      | Some reconcile \<Rightarrow>
          andThen (reconcile (p_proposal_id proposal)) (\<lambda>result. case result of
            Failed f \<Rightarrow> audited_failure L C run (Some proposal) f
          | Succeeded completion \<Rightarrow>
              recovery_outcome L C reported (Some proposal) RECONCILED RETURN_VERIFIED_RESULT
                reason_code reason
                (no_details\<lparr>od_final_state := Some WorkflowState.SUCCESS_WITH_EVIDENCE,
                   od_verification := Some completion,
                   od_evidence_hash := Some (v_evidence_hash (vc_evidence completion)),
                   od_reconciled := True, od_event_type := AuditEventType.RECOVERY_COMPLETED\<rparr>)))"

definition enter_verifying :: "'s RecoveryCoordinator \<Rightarrow> Run \<Rightarrow> ('s, Run) prog" where
  "enter_verifying C run =
     (if r_state run \<in> {WorkflowState.RECOVERY_REQUIRED, WorkflowState.EXECUTING}
      then andThen (rc_clock C) (\<lambda>now.
        op_transition_run (rc_repository C) (r_run_id run) WorkflowState.VERIFYING (r_state run)
          (r_version run) now None None)
      else ret run)"

definition resume_from_durable_ack ::
    "Platform \<Rightarrow> 's RecoveryCoordinator \<Rightarrow> RecoverySnapshot \<Rightarrow> ('s, RecoveryOutcome) handler" where
  "resume_from_durable_ack L C snapshot = with_proposal snapshot (\<lambda>proposal.
     tryThen (enter_verifying C (sn_run snapshot))
       (on_storage_error (audited_failure L C (sn_run snapshot) (Some proposal)
          (recovery_failure ''RECOVERY_VERIFYING_TRANSITION_CONFLICT''
            ''Durable acknowledgement could not safely resume verification'')))
       (\<lambda>run. run_reconciler L C (sn_run snapshot) run proposal
          ''Durable acknowledgement is safe, but read-only verification is not configured''
          ''DURABLE_ACK_VERIFICATION_COMPLETED''
          ''Durable acknowledgement resumed bounded read-only verification''))"

subsection \<open>The lost acknowledgement\<close>

definition upper_char :: "char \<Rightarrow> char" where
  "upper_char c = (if c \<in> set ''abcdefghijklmnopqrstuvwxyz'' then char_of (of_char c - 32 :: nat) else c)"

definition lost_ack_code :: "Ec2InstanceState \<Rightarrow> string" where
  "lost_ack_code state = ''LOST_ACK_'' @
     map (\<lambda>c. if c = CHR ''-'' then CHR ''_'' else c) (map upper_char (Ec2InstanceState_value state))"

definition append_observation_event ::
    "'s RecoveryCoordinator \<Rightarrow> Run \<Rightarrow> ActionProposal \<Rightarrow> VerificationObservation
     \<Rightarrow> ('s, FailureDetail option) prog" where
  "append_observation_event C run proposal observation =
     tryThen
       (recovery_append_event C run (Some proposal) AuditEventType.RECOVERY_OBSERVED
         (lost_ack_code (ob_observed_state observation)) (ob_observation_hash observation))
       (on_storage_error (ret (Some (failure FailureKind.DEPENDENCY_UNAVAILABLE
          ''RECOVERY_OBSERVATION_AUDIT_UNAVAILABLE''
          ''Read-only recovery observation could not be durably audited'' True))))
       (\<lambda>_. ret None)"

text \<open>\<open>observed_state=observation.observed_state.value\<close>: coerced to the enumeration of results.\<close>

definition observed_instance_state :: "Ec2InstanceState \<Rightarrow> exc + ObservedInstanceState" where
  "observed_instance_state state = (case state of
     Ec2InstanceState.PENDING \<Rightarrow> Inr ObservedInstanceState.PENDING
   | Ec2InstanceState.RUNNING \<Rightarrow> Inr ObservedInstanceState.RUNNING
   | Ec2InstanceState.STOPPING \<Rightarrow> Inr ObservedInstanceState.STOPPING
   | Ec2InstanceState.STOPPED \<Rightarrow> Inr ObservedInstanceState.STOPPED
   | _ \<Rightarrow> Inl ValidationError)"

definition recovered_evidence ::
    "Platform \<Rightarrow> uuid \<Rightarrow> ActionProposal \<Rightarrow> Run \<Rightarrow> datetime \<Rightarrow> string \<Rightarrow> exc + VerificationEvidence" where
  "recovered_evidence L evidence_id proposal run verified_at observation_hash =
     (case utc_field verified_at of Inl e \<Rightarrow> Inl e
      | Inr t \<Rightarrow> VerificationEvidence_create_from_recovery L evidence_id proposal run t observation_hash)"

text \<open>\<open>except (StorageConflictError, StorageDependencyError, ValueError)\<close>.\<close>

definition on_value_error :: "('s, 'a) prog \<Rightarrow> exc \<Rightarrow> ('s, 'a) prog option" where
  "on_value_error g e = (if is_value_error e then Some g else None)"

definition close_recovered ::
    "Platform \<Rightarrow> 's RecoveryCoordinator \<Rightarrow> ActionProposal \<Rightarrow> VerificationObservation \<Rightarrow> Run
     \<Rightarrow> ('s, VerificationEvidence \<times> Run) prog" where
  "close_recovered L C proposal observation run =
     andThen (rc_evidence_id_factory C) (\<lambda>evidence_id.
     andThen (rc_clock C) (\<lambda>verified_at.
     andThen (lift (recovered_evidence L evidence_id proposal run verified_at (ob_observation_hash observation)))
       (\<lambda>created.
     andThen (op_create_verification_evidence (rc_repository C) created) (\<lambda>evidence.
     andThen (lift (observed_instance_state (ob_observed_state observation))) (\<lambda>state.
     andThen (lift (validated valid_action_result
       \<lparr>ar_outcome = ActionOutcome.SUCCEEDED, ar_observed_state = Some state,
        ar_evidence_hash = Some (v_evidence_hash evidence), ar_failure = None\<rparr>)) (\<lambda>result.
     andThen (rc_clock C) (\<lambda>completed_at.
     andThen (op_complete_idempotency (rc_repository C) (derive_idempotency_key L proposal) result completed_at) (\<lambda>_.
     andThen (recovery_append_event C run (Some proposal) AuditEventType.RECOVERY_COMPLETED
       ''LOST_ACK_STOPPED_VERIFIED'' (v_evidence_hash evidence)) (\<lambda>_.
     andThen (rc_clock C) (\<lambda>updated_at.
     andThen (op_transition_run (rc_repository C) (r_run_id run) WorkflowState.SUCCESS_WITH_EVIDENCE
       WorkflowState.VERIFYING (r_version run) updated_at None (Some (p_proposal_id proposal))) (\<lambda>closed.
     ret (evidence, closed))))))))))))"

definition complete_from_recovery_observation ::
    "Platform \<Rightarrow> 's RecoveryCoordinator \<Rightarrow> RecoverySnapshot \<Rightarrow> VerificationObservation
     \<Rightarrow> ('s, RecoveryOutcome) handler" where
  "complete_from_recovery_observation L C snapshot observation = with_proposal snapshot (\<lambda>proposal.
     let refused = (\<lambda>run. on_value_error (andThen (recovery_mark_required C run) (\<lambda>_.
           audited_failure L C (sn_run snapshot) (Some proposal)
             (recovery_failure ''RECOVERY_EVIDENCE_DURABILITY_FAILED''
               ''Stopped read-back could not satisfy every durable success invariant''))))
     in tryThen (enter_verifying C (sn_run snapshot)) (refused (sn_run snapshot)) (\<lambda>run.
        tryThen (close_recovered L C proposal observation run) (refused run) (\<lambda>(evidence, closed).
          recovery_outcome L C (sn_run snapshot) (Some proposal) RECONCILED RETURN_VERIFIED_RESULT
            ''LOST_ACK_RECONCILED_FROM_READ_BACK''
            ''Independent stopped-state proof closed the approved lost-ACK action''
            (no_details\<lparr>od_final_state := Some (r_state closed),
               od_observed_state := Some (ob_observed_state observation),
               od_evidence_hash := Some (v_evidence_hash evidence), od_reconciled := True,
               od_event_type := AuditEventType.RECOVERY_COMPLETED\<rparr>))))"

text \<open>
  \<open>for attempt in range(attempt, max_attempts + 1)\<close> of \<open>_reconcile_missing_ack\<close>, and what
  follows the loop; \<open>seen\<close> is the last observation.
\<close>

fun read_back ::
    "Platform \<Rightarrow> 's RecoveryCoordinator \<Rightarrow> 's VerifyInstanceStateService \<Rightarrow> RecoverySnapshot
     \<Rightarrow> ActionProposal \<Rightarrow> InvestigationIdentity \<Rightarrow> VerificationObservation option \<Rightarrow> int list
     \<Rightarrow> ('s, RecoveryOutcome) handler" where
  "read_back L C S snapshot proposal identity seen [] =
     (case seen of None \<Rightarrow> raise AssertionError
      | Some observation \<Rightarrow>
          andThen (recovery_mark_required C (sn_run snapshot)) (\<lambda>_.
          operator_required L C (sn_run snapshot) (Some proposal) ''LOST_ACK_STILL_TRANSITIONING''
            ''Bounded read-only reconciliation ended without a final state''
            (Some (ob_observed_state observation))))"
| "read_back L C S snapshot proposal identity seen (attempt # rest) =
     (let run = sn_run snapshot in
      andThen (rc_clock C) (\<lambda>observed_at.
      andThen (observe L S proposal identity observed_at attempt) (\<lambda>result. case result of
        Failed f \<Rightarrow> andThen (recovery_mark_required C run) (\<lambda>_. audited_failure L C run (Some proposal) f)
      | Succeeded observation \<Rightarrow>
        andThen (append_observation_event C run proposal observation) (\<lambda>audit_failure. case audit_failure of
          Some f \<Rightarrow> andThen (recovery_mark_required C run) (\<lambda>_. ret (Failed f))
        | None \<Rightarrow>
            if ob_observed_state observation = Ec2InstanceState.STOPPED
            then complete_from_recovery_observation L C snapshot observation
            else if ob_observed_state observation = Ec2InstanceState.RUNNING
            then andThen (recovery_mark_required C run) (\<lambda>_.
              operator_required L C run (Some proposal) ''LOST_ACK_TARGET_STILL_RUNNING''
                ''Running state after ambiguous acknowledgement forbids blind replay''
                (Some (ob_observed_state observation)))
            else if ob_observed_state observation \<noteq> Ec2InstanceState.STOPPING
            then andThen (recovery_mark_required C run) (\<lambda>_.
              operator_required L C run (Some proposal) ''LOST_ACK_STATE_AMBIGUOUS''
                ''Read-only recovery observed an unsafe or ambiguous EC2 state''
                (Some (ob_observed_state observation)))
            else andThen (if attempt < rc_max_attempts C then rc_sleeper C (rc_interval_seconds C) else ret ())
              (\<lambda>_. read_back L C S snapshot proposal identity (Some observation) rest)))))"

definition reconcile_missing_ack ::
    "Platform \<Rightarrow> 's RecoveryCoordinator \<Rightarrow> RecoverySnapshot \<Rightarrow> ('s, RecoveryOutcome) handler" where
  "reconcile_missing_ack L C snapshot = with_proposal snapshot (\<lambda>proposal.
     case rc_readback_service C of
       None \<Rightarrow> operator_required L C (sn_run snapshot) (Some proposal) ''LIVE_RECONCILIATION_NOT_CONFIGURED''
         ''Lost acknowledgement remains safe and requires read-only reconciliation'' None
     | Some S \<Rightarrow> andThen (lift (identity_from_run (sn_run snapshot))) (\<lambda>identity.
         read_back L C S snapshot proposal identity None [1..rc_max_attempts C]))"


subsection \<open>Existing proofs, executions, verifications\<close>

definition verified_result_consistent :: "IdempotencyRecord \<Rightarrow> VerificationEvidence \<Rightarrow> bool" where
  "verified_result_consistent idempotency evidence \<longleftrightarrow>
     i_status idempotency = IdempotencyStatus.COMPLETED
     \<and> (case i_action_result idempotency of None \<Rightarrow> False
         | Some result \<Rightarrow> ar_evidence_hash result = Some (v_evidence_hash evidence))"

definition close_existing :: "'s RecoveryCoordinator \<Rightarrow> Run \<Rightarrow> uuid \<Rightarrow> ('s, Run) prog" where
  "close_existing C run proposal_id =
     andThen (if r_state run = WorkflowState.RECOVERY_REQUIRED then enter_verifying C run else ret run) (\<lambda>run.
     if r_state run = WorkflowState.VERIFYING
     then andThen (rc_clock C) (\<lambda>now.
       op_transition_run (rc_repository C) (r_run_id run) WorkflowState.SUCCESS_WITH_EVIDENCE
         WorkflowState.VERIFYING (r_version run) now None (Some proposal_id))
     else ret run)"

definition return_verified ::
    "Platform \<Rightarrow> 's RecoveryCoordinator \<Rightarrow> RecoverySnapshot \<Rightarrow> ('s, RecoveryOutcome) handler" where
  "return_verified L C snapshot =
     (case (sn_proposal snapshot, sn_evidence snapshot, sn_idempotency snapshot) of
        (Some proposal, Some evidence, Some idempotency) \<Rightarrow>
          if \<not> verified_result_consistent idempotency evidence
          then audited_failure L C (sn_run snapshot) (Some proposal)
                 (recovery_failure ''RECOVERY_VERIFIED_RESULT_INCONSISTENT''
                   ''Idempotency result and verification evidence do not match'')
          else tryThen (close_existing C (sn_run snapshot) (p_proposal_id proposal))
            (on_storage_error (audited_failure L C (sn_run snapshot) (Some proposal)
               (recovery_failure ''RECOVERY_SUCCESS_RECONCILIATION_CONFLICT''
                 ''Existing verified proof could not reconcile the durable run state'')))
            (\<lambda>run.
              if r_state run \<noteq> WorkflowState.SUCCESS_WITH_EVIDENCE
              then operator_required L C run (Some proposal) ''RECOVERY_SUCCESS_STATE_INVALID''
                     ''Verified result exists in a state that cannot be safely closed'' None
              else recovery_outcome L C (sn_run snapshot) (Some proposal) RECONCILED RETURN_VERIFIED_RESULT
                     ''VERIFIED_RESULT_RETURNED_IDEMPOTENTLY''
                     ''Existing durable verification proof was returned without new provider work''
                     (no_details\<lparr>od_final_state := Some (r_state run),
                        od_evidence_hash := Some (v_evidence_hash evidence), od_reconciled := True,
                        od_event_type := AuditEventType.RECOVERY_COMPLETED\<rparr>))
      | _ \<Rightarrow> audited_failure L C (sn_run snapshot) (sn_proposal snapshot)
               (recovery_failure ''RECOVERY_VERIFIED_EVIDENCE_MISSING''
                 ''Completed durable work is missing its independent proof''))"

definition under_claim ::
    "Platform \<Rightarrow> 's RecoveryCoordinator \<Rightarrow> RecoverySnapshot \<Rightarrow> ActionProposal
     \<Rightarrow> ('s, RecoveryOutcome) handler \<Rightarrow> ('s, RecoveryOutcome) handler" where
  "under_claim L C snapshot proposal k =
     andThen (claim_active_recovery L C snapshot) (\<lambda>claim. case claim of
       Inl f \<Rightarrow> audited_failure L C (sn_run snapshot) (Some proposal) f
     | Inr _ \<Rightarrow> k)"

definition recover_execution ::
    "Platform \<Rightarrow> 's RecoveryCoordinator \<Rightarrow> RecoverySnapshot \<Rightarrow> ('s, RecoveryOutcome) handler" where
  "recover_execution L C snapshot = with_proposal snapshot (\<lambda>proposal.
     let run = sn_run snapshot in
     if \<not> positive_approval_matches snapshot
     then audited_failure L C run (Some proposal) (recovery_policy_failure ''RECOVERY_APPROVAL_BINDING_INVALID''
            ''Lost-ACK recovery requires the exact positive durable approval'')
     else (case sn_idempotency snapshot of
         None \<Rightarrow> operator_required L C run (Some proposal) ''RECOVERY_IDEMPOTENCY_MISSING''
           ''Executing state lacks durable semantic execution ownership'' None
       | Some idempotency \<Rightarrow>
           if i_status idempotency = IdempotencyStatus.COMPLETED then return_verified L C snapshot
           else if i_status idempotency \<noteq> IdempotencyStatus.REGISTERED
           then operator_required L C run (Some proposal) ''RECOVERY_IDEMPOTENCY_UNRESOLVED''
                  ''Durable action result requires explicit operator reconciliation'' None
           else under_claim L C snapshot proposal
             (if i_execution_acknowledgement idempotency \<noteq> None then resume_from_durable_ack L C snapshot
              else reconcile_missing_ack L C snapshot)))"

definition recover_verification ::
    "Platform \<Rightarrow> 's RecoveryCoordinator \<Rightarrow> RecoverySnapshot \<Rightarrow> ('s, RecoveryOutcome) handler" where
  "recover_verification L C snapshot = with_proposal snapshot (\<lambda>proposal.
     let run = sn_run snapshot in
     (case sn_idempotency snapshot of
         None \<Rightarrow> operator_required L C run (Some proposal) ''VERIFYING_IDEMPOTENCY_MISSING''
           ''Verification restart lacks durable execution ownership'' None
       | Some idempotency \<Rightarrow>
           if i_status idempotency = IdempotencyStatus.COMPLETED then return_verified L C snapshot
           else under_claim L C snapshot proposal
             (run_reconciler L C run run proposal
               ''Read-only verification continuation is not configured'' ''VERIFYING_RESTART_COMPLETED''
               ''Bounded read-only verification persisted final proof after restart'')))"

definition recover_snapshot ::
    "Platform \<Rightarrow> 's RecoveryCoordinator \<Rightarrow> RecoverySnapshot \<Rightarrow> ('s, RecoveryOutcome) handler" where
  "recover_snapshot L C snapshot =
     (let run = sn_run snapshot; proposal = sn_proposal snapshot in
      case r_state run of
        WorkflowState.REMEDIATION_PROPOSED \<Rightarrow>
          recovery_outcome L C run proposal RESUMABLE RESUME_PROPOSAL ''PROPOSAL_RECONSTRUCTED''
            ''Durable proposal remains unapproved and resumable'' no_details
      | WorkflowState.AWAITING_APPROVAL \<Rightarrow> recover_awaiting_approval L C snapshot
      | WorkflowState.APPROVED \<Rightarrow> recover_approved L C snapshot
      | WorkflowState.EXECUTING \<Rightarrow> recover_execution L C snapshot
      | WorkflowState.RECOVERY_REQUIRED \<Rightarrow> recover_execution L C snapshot
      | WorkflowState.VERIFYING \<Rightarrow> recover_verification L C snapshot
      | WorkflowState.SUCCESS_WITH_EVIDENCE \<Rightarrow> return_verified L C snapshot
      | state \<Rightarrow>
          if state \<in> TERMINAL_WORKFLOW_STATES
          then recovery_outcome L C run proposal TERMINAL PRESERVE_TERMINAL ''TERMINAL_STATE_PRESERVED''
                 ''Durable terminal state remains closed after restart'' no_details
          else recovery_outcome L C run proposal RESUMABLE RESUME_SAFE_STATE ''SAFE_STATE_RESUMABLE''
                 ''Durable state and checkpoint permit normal non-mutation continuation'' no_details)"

definition recover ::
    "Platform \<Rightarrow> 's RecoveryCoordinator \<Rightarrow> RecoveryRequest \<Rightarrow> ('s, RecoveryOutcome) handler" where
  "recover L C request =
     andThen (load_recovery_snapshot L C request) (\<lambda>loaded. case loaded of
       Inl f \<Rightarrow> ret (Failed f)
     | Inr snapshot \<Rightarrow>
         andThen (lift (validate_recovery_snapshot request snapshot)) (\<lambda>inconsistent.
         case inconsistent of
           Some f \<Rightarrow> audited_failure L C (sn_run snapshot) (sn_proposal snapshot) f
         | None \<Rightarrow> recover_snapshot L C snapshot))"

end
