(* ===== verification/Recovery_Truth.thy ===== *)
theory Recovery_Truth
  imports Recovery
begin

text \<open>
  What an outcome of the recovery coordinator rests on: the locale of its environment, facts a
  snapshot establishes about the store, and the two promises of \<open>recover\<close>. A returned result
  is the stored proof of a closed run, and readiness for execution names a stored human approval
  and a moment at which nobody had claimed the action.
\<close>

subsection \<open>The environment of the coordinator\<close>

text \<open>
  The collaborators only write to the store as other clients do, and the verification that
  continues a run reports a success only with its proof in the store.
\<close>

locale recovery_environment = durable_truth L R view "\<lambda>_. ()"
  for L :: Platform and R :: "'s DurableTruthRepository" and view :: "'s \<Rightarrow> Repo" +
  fixes C :: "'s RecoveryCoordinator"
  assumes repository: "rc_repository C = R"
    and clock: "bystander L view (\<lambda>_. ()) (rc_clock C)"
    and sleeper: "bystander L view (\<lambda>_. ()) (rc_sleeper C n)"
    and event_ids: "bystander L view (\<lambda>_. ()) (rc_event_id_factory C)"
    and recovery_ids: "bystander L view (\<lambda>_. ()) (rc_recovery_id_factory C)"
    and evidence_ids: "bystander L view (\<lambda>_. ()) (rc_evidence_id_factory C)"
    and reconstructor: "rc_approval_reconstructor C = Some f \<Longrightarrow> bystander L view (\<lambda>_. ()) (f pid)"
    and readback: "rc_readback_service C = Some S \<Longrightarrow> bystander L view (\<lambda>_. ()) (sv_inspect_result S i idn)"
    and reconciler: "rc_verification_reconciler C = Some g \<Longrightarrow> bystander L view (\<lambda>_. ()) (g pid)"
    and reconciler_proven: "rc_verification_reconciler C = Some g \<Longrightarrow> repo_ok L (view s) \<Longrightarrow>
      g pid s = (Inr (Succeeded c), s') \<Longrightarrow> \<exists>p. proven (view s') pid p (vc_evidence c)"

text \<open>A truth about the store that no later write revokes.\<close>

definition lasting :: "Platform \<Rightarrow> (Repo \<Rightarrow> bool) \<Rightarrow> bool" where
  "lasting L F \<longleftrightarrow> (\<forall>d d'. later L d d' \<longrightarrow> F d \<longrightarrow> F d')"

text \<open>\<open>delivers view F Q m\<close>: from a store where \<open>F\<close> holds, a success of \<open>m\<close> satisfies \<open>Q\<close>.\<close>

definition delivers ::
    "('s \<Rightarrow> Repo) \<Rightarrow> (Repo \<Rightarrow> bool) \<Rightarrow> ('a \<Rightarrow> Repo \<Rightarrow> bool) \<Rightarrow> ('s, 'a) handler \<Rightarrow> bool" where
  "delivers view F Q m \<longleftrightarrow>
     (\<forall>s x s'. F (view s) \<longrightarrow> m s = (Inr (Succeeded x), s') \<longrightarrow> Q x (view s'))"

lemma deliversI:
  "(\<And>s x s'. F (view s) \<Longrightarrow> m s = (Inr (Succeeded x), s') \<Longrightarrow> Q x (view s')) \<Longrightarrow> delivers view F Q m"
  unfolding delivers_def by blast

lemma deliversD: "delivers view F Q m \<Longrightarrow> F (view s) \<Longrightarrow> m s = (Inr (Succeeded x), s') \<Longrightarrow> Q x (view s')"
  unfolding delivers_def by blast

lemma delivers_andThen:
  assumes "bystander L view rest m" and "lasting L F"
    and "\<And>s x s1. F (view s) \<Longrightarrow> m s = (Inr x, s1) \<Longrightarrow> G x (view s1)"
    and "\<And>x. delivers view (\<lambda>d. F d \<and> G x d) Q (k x)"
  shows "delivers view F Q (andThen m k)"
proof (rule deliversI)
  fix s x s' assume f: "F (view s)" and "andThen m k s = (Inr (Succeeded x), s')"
  then obtain y s1 where m: "m s = (Inr y, s1)" and k: "k y s1 = (Inr (Succeeded x), s')" by (auto elim: andThen_InrE)
  from assms(2) bystanderD(2) [OF assms(1) m] f have "F (view s1)" unfolding lasting_def by blast
  with deliversD [OF assms(4) _ k] assms(3) [OF f m] show "Q x (view s')" by blast
qed

lemma delivers_then:
  assumes "bystander L view rest m" and "lasting L F" and "\<And>x. delivers view F Q (k x)"
  shows "delivers view F Q (andThen m k)"
  by (rule delivers_andThen [where G = "\<lambda>_ _. True", OF assms(1,2)]) (use assms(3) in simp_all)

lemma delivers_try:
  assumes "bystander L view rest m" and "lasting L F"
    and "\<And>s x s1. F (view s) \<Longrightarrow> m s = (Inr x, s1) \<Longrightarrow> G x (view s1)"
    and "\<And>e g. h e = Some g \<Longrightarrow> delivers view F Q g"
    and "\<And>x. delivers view (\<lambda>d. F d \<and> G x d) Q (k x)"
  shows "delivers view F Q (tryThen m h k)"
proof (rule deliversI)
  fix s x s' assume f: "F (view s)" and run: "tryThen m h k s = (Inr (Succeeded x), s')"
  from run show "Q x (view s')"
  proof (rule tryThen_eqE)
    fix e g s1 assume m: "m s = (Inl e, s1)" and g: "h e = Some g" "g s1 = (Inr (Succeeded x), s')"
    from assms(2) bystanderD(2) [OF assms(1) m] f have "F (view s1)" unfolding lasting_def by blast
    from deliversD [OF assms(4) [OF g(1)] this g(2)] show "Q x (view s')" .
  next
    fix y s1 assume m: "m s = (Inr y, s1)" and k: "k y s1 = (Inr (Succeeded x), s')"
    from assms(2) bystanderD(2) [OF assms(1) m] f have "F (view s1)" unfolding lasting_def by blast
    with deliversD [OF assms(5) _ k] assms(3) [OF f m] show "Q x (view s')" by blast
  qed simp
qed

lemma delivers_failed: "delivers view F Q (ret (Failed f))"
  by (auto simp: delivers_def ret_def)

lemma delivers_raise: "delivers view F Q (raise e)"
  by (auto simp: delivers_def raise_def)

lemma delivers_conseq:
  "delivers view F' Q m \<Longrightarrow> (\<And>d. F d \<Longrightarrow> F' d) \<Longrightarrow> delivers view F Q m"
  unfolding delivers_def by blast

lemma delivers_if:
  "(b \<Longrightarrow> delivers view F Q m) \<Longrightarrow> (\<not> b \<Longrightarrow> delivers view F Q m') \<Longrightarrow> delivers view F Q (if b then m else m')"
  by simp

lemma bystander_result:
  "(\<And>v. bystander L view rest (k v)) \<Longrightarrow> (\<And>f. bystander L view rest (h f)) \<Longrightarrow>
   bystander L view rest (case x of Succeeded v \<Rightarrow> k v | Failed f \<Rightarrow> h f)"
  by (simp split: ControlResult.splits)

lemma on_storage_error_Some: "on_storage_error g e = Some g' \<Longrightarrow> g' = g"
  by (simp add: on_storage_error_def split: if_splits)

lemma on_value_error_Some: "on_value_error g e = Some g' \<Longrightarrow> g' = g"
  by (simp add: on_value_error_def split: if_splits)

lemma outcome_result:
  assumes "recovery_outcome L C run proposal status action reason_code reason details s = (Inr (Succeeded x), s')"
  shows "ro_action x = action" and "ro_evidence_hash x = od_evidence_hash details" and "valid_outcome x"
    and "ro_ready_for_execution x = od_ready_for_execution details"
  using assms unfolding recovery_outcome_def
  by (auto elim!: andThen_InrE tryThen_eqE dest!: on_storage_error_Some
      simp: recovery_plain_failure_def ret_def lift_def validated_def split: if_splits)

lemma delivers_outcome:
  assumes "\<And>x d. ro_action x = action \<Longrightarrow> ro_evidence_hash x = od_evidence_hash details \<Longrightarrow> Q x d"
  shows "delivers view F Q (recovery_outcome L C run proposal status action reason_code reason details)"
  by (rule deliversI, rule assms) (auto dest: outcome_result)

lemma delivers_operator:
  assumes "\<And>x d. ro_action x = OPERATOR_REVIEW \<Longrightarrow> Q x d"
  shows "delivers view F Q (operator_required L C run proposal reason_code message seen)"
  unfolding operator_required_def by (rule delivers_outcome) (rule assms)

lemma delivers_audited_failure: "delivers view F Q (audited_failure L C run proposal f)"
  unfolding audited_failure_def
  by (rule deliversI)
    (auto elim!: tryThen_eqE dest!: on_storage_error_Some simp: recovery_plain_failure_def ret_def)

context recovery_environment begin

lemma append_bystander [bystander_intros]:
  "bystander L view (\<lambda>_. ()) (recovery_append_event C run p ty rcode h)"
  unfolding recovery_append_event_def repository by (rule emit_event_bystander [OF clock event_ids])

lemma outcome_bystander [bystander_intros]:
  "bystander L view (\<lambda>_. ()) (recovery_outcome L C run p st a rcode reason ds)"
  unfolding recovery_outcome_def repository recovery_plain_failure_def
  by (intro bystander_intros event_ids emit_event_bystander [OF clock])
    (auto dest!: on_storage_error_Some intro!: bystander_intros)

lemma mark_bystander [bystander_intros]: "bystander L view (\<lambda>_. ()) (recovery_mark_required C run)"
  unfolding recovery_mark_required_def repository
  by (intro bystander_intros store_bystander clock) (auto dest!: on_storage_error_Some intro!: bystander_intros)

lemma enter_bystander [bystander_intros]: "bystander L view (\<lambda>_. ()) (enter_verifying C run)"
  unfolding enter_verifying_def repository by (intro bystander_intros store_bystander clock)

lemma observation_bystander [bystander_intros]:
  "bystander L view (\<lambda>_. ()) (append_observation_event C run p v)"
  unfolding append_observation_event_def
  by (intro bystander_intros) (auto dest!: on_storage_error_Some intro!: bystander_intros)

lemma observe_bystander:
  assumes "rc_readback_service C = Some S"
  shows "bystander L view (\<lambda>_. ()) (observe L S p idn t n)"
  unfolding observe_def by (intro bystander_intros bystander_result readback [OF assms])

lemma claim_bystander: "bystander L view (\<lambda>_. ()) (claim_active_recovery L C sn)"
proof -
  have save: "bystander L view (\<lambda>_. ()) (andThen (lift (validated (valid_checkpoint L) c)) (\<lambda>claimed.
      tryThen (op_save_checkpoint R claimed v) h k))"
    if "\<And>e g. h e = Some g \<Longrightarrow> bystander L view (\<lambda>_. ()) g" and "\<And>x. bystander L view (\<lambda>_. ()) (k x)" for c v h k
  proof (cases "valid_checkpoint L c")
    case True
    then show ?thesis using that
      by (simp add: andThen_def lift_def) (intro bystander_intros store_bystander)
  qed (simp add: andThen_def lift_def bystander_def validated_def)
  show ?thesis unfolding claim_active_recovery_def repository
    by (intro bystander_intros clock recovery_ids save) (auto split: if_splits intro!: bystander_intros)
qed

end

subsection \<open>What a snapshot tells about the store\<close>

definition proposal_true ::
    "Platform \<Rightarrow> Repo \<Rightarrow> RecoveryRequest \<Rightarrow> RecoverySnapshot \<Rightarrow> ActionProposal \<Rightarrow> Repo \<Rightarrow> bool" where
  "proposal_true L d0 request sn p d \<longleftrightarrow> rq_proposal_id request = Some (p_proposal_id p)
     \<and> (\<exists>q. dget (d_proposals d) (p_proposal_id p) = Some q \<and> proposal_evolves p q)
     \<and> (\<forall>a. sn_approval sn = Some a \<longrightarrow> dget (d_approvals d) (p_proposal_id p) = Some a)
     \<and> (\<forall>v. sn_evidence sn = Some v \<longrightarrow>
          dget (d_verification_evidence d) (rq_run_id request, p_proposal_id p) = Some v)
     \<and> (sn_idempotency sn = None \<longrightarrow> (\<exists>d1. later L d0 d1
          \<and> dget (d_idempotency d1) (derive_idempotency_key L p) = None \<and> later L d1 d))"

definition snapshot_true ::
    "Platform \<Rightarrow> Repo \<Rightarrow> RecoveryRequest \<Rightarrow> RecoverySnapshot \<Rightarrow> Repo \<Rightarrow> bool" where
  "snapshot_true L d0 request sn d \<longleftrightarrow> repo_ok L d0 \<and> later L d0 d
     \<and> r_run_id (sn_run sn) = rq_run_id request
     \<and> (\<exists>d1. later L d0 d1 \<and> dget (d_runs d1) (rq_run_id request) = Some (sn_run sn) \<and> later L d1 d)
     \<and> (\<forall>p. sn_proposal sn = Some p \<longrightarrow> proposal_true L d0 request sn p d)"

lemma approval_stays:
  "evolves d d' \<Longrightarrow> dget (d_approvals d) k = Some a \<Longrightarrow> dget (d_approvals d') k = Some a"
  by (rule evolves_get(3))

lemma proposal_stays:
  assumes "evolves d d'" and "\<exists>q. dget (d_proposals d) k = Some q \<and> proposal_evolves p q"
  shows "\<exists>q. dget (d_proposals d') k = Some q \<and> proposal_evolves p q"
  using assms evolves_get(2) proposal_evolves_trans by metis

lemma proposal_true_later:
  assumes "later L d d'" and "proposal_true L d0 request sn p d"
  shows "proposal_true L d0 request sn p d'"
proof -
  note e = later_evolves [OF assms(1)]
  have "\<exists>d1. later L d0 d1 \<and> dget (d_idempotency d1) k = None \<and> later L d1 d'"
    if "\<exists>d1. later L d0 d1 \<and> dget (d_idempotency d1) k = None \<and> later L d1 d" for k
    using that assms(1) by (meson rtranclp_trans)
  with assms(2) show ?thesis
    unfolding proposal_true_def
    using approval_stays [OF e] evidence_stays [OF e] proposal_stays [OF e] by simp
qed

lemma snapshot_lasting: "lasting L (snapshot_true L d0 request sn)"
  unfolding lasting_def
proof (intro allI impI)
  fix d d' assume l: "later L d d'" and t: "snapshot_true L d0 request sn d"
  have "\<exists>d1. later L d0 d1 \<and> dget (d_runs d1) k = Some r \<and> later L d1 d'"
    if "\<exists>d1. later L d0 d1 \<and> dget (d_runs d1) k = Some r \<and> later L d1 d" for k r
    using that l by (meson rtranclp_trans)
  moreover have "later L d0 d'" using t l by (auto simp: snapshot_true_def intro: rtranclp_trans)
  ultimately show "snapshot_true L d0 request sn d'"
    using t proposal_true_later [OF l] unfolding snapshot_true_def by simp
qed

context durable_truth begin

lemma transition_result:
  assumes "op_transition_run R rid st es ev t ap vp s = (Inr x, s')" and "repo_ok L (view s)"
  shows "r_run_id x = rid" and "r_state x = st"
proof -
  from performsD(3) [OF transition assms(1) refl] obtain d d2 where
    d: "later L (view s) d" "repo_transition_run L rid st es ev t ap vp d = (Inr x, d2)" by blast
  from repo_transition_run_Inr [OF d(2)] obtain current where
    c: "dget (d_runs d) rid = Some current" "transition_run current st t = Inr x" by blast
  moreover have "r_run_id current = rid"
    using later_ok [OF d(1) assms(2)] c(1) by (auto simp: repo_ok_def runs_ok_def)
  ultimately show "r_run_id x = rid" and "r_state x = st"
    by (auto simp: transition_run_def validate_workflow_transition_def split: sum.splits if_splits)
qed

text \<open>Each read of the snapshot, as a moment of the store.\<close>

lemma get_run_moment:
  assumes "op_get_run R rid s = (Inr (Some r), s')" and "repo_ok L (view s)"
  shows "r_run_id r = rid" and "\<exists>d. later L (view s) d \<and> dget (d_runs d) rid = Some r \<and> later L d (view s')"
proof -
  from performsD(3) [OF get_run assms(1) refl] obtain d d2 where
    d: "later L (view s) d" "repo_get_run rid d = (Inr (Some r), d2)" "later L d2 (view s')" by blast
  then have f: "dget (d_runs d) rid = Some r" "d2 = d" by (auto simp: repo_get_run_def)
  with later_ok [OF d(1) assms(2)] show "r_run_id r = rid" by (auto simp: repo_ok_def runs_ok_def)
  from d f show "\<exists>d. later L (view s) d \<and> dget (d_runs d) rid = Some r \<and> later L d (view s')" by blast
qed

lemma get_proposal_moment:
  assumes "op_get_proposal R pid s = (Inr (Some p), s')" and "repo_ok L (view s)"
  shows "p_proposal_id p = pid"
proof -
  from performsD(3) [OF get_proposal assms(1) refl] obtain d d2 where
    d: "later L (view s) d" "repo_get_proposal pid d = (Inr (Some p), d2)" by blast
  with later_ok [OF d(1) assms(2)] show ?thesis
    by (auto simp: repo_get_proposal_def repo_ok_def proposals_ok_def)
qed

lemma get_idempotency_absent:
  assumes "op_get_idempotency R key s = (Inr None, s')"
  shows "\<exists>d. later L (view s) d \<and> dget (d_idempotency d) key = None \<and> later L d (view s')"
proof -
  from performsD(3) [OF get_idempotency assms refl] obtain d d2 where
    "later L (view s) d" "repo_get_idempotency key d = (Inr None, d2)" "later L d2 (view s')" by blast
  then show ?thesis by (auto simp: repo_get_idempotency_def)
qed

end

context recovery_environment begin

lemma load_bystander: "bystander L view (\<lambda>_. ()) (load_recovery_snapshot L C request)"
  unfolding load_recovery_snapshot_def repository Let_def
  by (intro bystander_intros store_bystander) (auto split: if_splits intro!: bystander_intros)

lemma optional_read:
  assumes "\<And>x. bystander L view (\<lambda>_. ()) (f x)" and "(case y of None \<Rightarrow> ret None | Some x \<Rightarrow> f x) s = (r, s')"
  shows "later L (view s) (view s')"
  using assms bystanderD(2) by (cases y) (fastforce simp: ret_def)+

lemma load_true:
  assumes "load_recovery_snapshot L C request s = (Inr (Inr sn), s')" and ok: "repo_ok L (view s)"
  shows "snapshot_true L (view s) request sn (view s')"
proof -
  from assms(1) obtain run s1 p s2 c s3 a s4 i s5 v where
    g: "op_get_run R (rq_run_id request) s = (Inr (Some run), s1)"
      "(case rq_proposal_id request of None \<Rightarrow> ret None | Some pid \<Rightarrow> op_get_proposal R pid) s1 = (Inr p, s2)"
      "op_get_checkpoint R (r_run_id run) s2 = (Inr c, s3)"
      "(case p of None \<Rightarrow> ret None | Some p \<Rightarrow> op_get_approval R (p_proposal_id p)) s3 = (Inr a, s4)"
      "(case p of None \<Rightarrow> ret None | Some p \<Rightarrow> op_get_idempotency R (derive_idempotency_key L p)) s4 = (Inr i, s5)"
      "(case p of None \<Rightarrow> ret None
        | Some p \<Rightarrow> op_get_verification_evidence R (r_run_id run) (p_proposal_id p)) s5 = (Inr v, s')"
    and sn: "sn = \<lparr>sn_run = run, sn_proposal = p, sn_approval = a, sn_idempotency = i, sn_checkpoint = c, sn_evidence = v\<rparr>"
    unfolding load_recovery_snapshot_def repository Let_def
    by (elim tryThen_eqE) (auto simp: ret_def elim!: andThen_InrE split: option.splits if_splits)
  have l1: "later L (view s) (view s1)" by (rule performsD(2) [OF get_run g(1)])
  have l2: "later L (view s1) (view s2)"
    by (rule optional_read [OF _ g(2)]) (intro store_bystander)
  have l3: "later L (view s2) (view s3)" by (rule performsD(2) [OF get_checkpoint g(3)])
  have l4: "later L (view s3) (view s4)"
    by (rule optional_read [OF _ g(4)]) (intro store_bystander)
  have l5: "later L (view s4) (view s5)"
    by (rule optional_read [OF _ g(5)]) (intro store_bystander)
  have l6: "later L (view s5) (view s')"
    by (rule optional_read [OF _ g(6)]) (intro store_bystander)
  note m = rtranclp_trans [of "repo_write L"]
  have l26: "later L (view s2) (view s')" using l3 l4 l5 l6 m by meson
  have l16: "later L (view s1) (view s')" using l2 l26 m by meson
  have l04: "later L (view s) (view s4)" using l1 l2 l3 l4 m by meson
  have ok1: "repo_ok L (view s1)" by (rule later_ok [OF l1 ok])
  have run: "r_run_id run = rq_run_id request"
    "\<exists>d1. later L (view s) d1 \<and> dget (d_runs d1) (rq_run_id request) = Some run \<and> later L d1 (view s')"
    using get_run_moment [OF g(1) ok] l16 m by blast+
  have "proposal_true L (view s) request sn q (view s')" if p: "p = Some q" for q
    unfolding proposal_true_def sn RecoverySnapshot.simps
  proof (intro conjI)
    from g(2) p obtain pid where pid: "rq_proposal_id request = Some pid" "op_get_proposal R pid s1 = (Inr (Some q), s2)"
      by (auto simp: ret_def split: option.splits)
    with get_proposal_moment [OF pid(2) ok1] show "rq_proposal_id request = Some (p_proposal_id q)" by simp
    from get_proposal_result [OF pid(2)] proposal_stays [OF later_evolves [OF l26]] get_proposal_moment [OF pid(2) ok1]
    show "\<exists>q'. dget (d_proposals (view s')) (p_proposal_id q) = Some q' \<and> proposal_evolves q q'" by simp
    show "\<forall>x. a = Some x \<longrightarrow> dget (d_approvals (view s')) (p_proposal_id q) = Some x"
      using g(4) p get_approval_result approval_stays [OF later_evolves [OF m [OF l5 l6]]] by auto
    show "\<forall>x. v = Some x \<longrightarrow> dget (d_verification_evidence (view s')) (rq_run_id request, p_proposal_id q) = Some x"
      using g(6) p get_evidence_result run(1) by auto
    show "i = None \<longrightarrow> (\<exists>d1. later L (view s) d1 \<and> dget (d_idempotency d1) (derive_idempotency_key L q) = None
            \<and> later L d1 (view s'))"
    proof
      assume "i = None"
      with g(5) p have "op_get_idempotency R (derive_idempotency_key L q) s4 = (Inr None, s5)" by simp
      from get_idempotency_absent [OF this] l04 l6 show "\<exists>d1. later L (view s) d1
          \<and> dget (d_idempotency d1) (derive_idempotency_key L q) = None \<and> later L d1 (view s')" using m by meson
    qed
  qed
  moreover have "later L (view s) (view s')" by (rule m [OF l1 l16])
  ultimately show ?thesis using ok run by (auto simp: snapshot_true_def sn)
qed

end

subsection \<open>What a reported outcome rests on\<close>

text \<open>A returned result is proved; readiness names an approval and no claim.\<close>

definition result_proven :: "RecoveryRequest \<Rightarrow> RecoveryOutcome \<Rightarrow> Repo \<Rightarrow> bool" where
  "result_proven request x d \<longleftrightarrow> (ro_action x = RETURN_VERIFIED_RESULT \<longrightarrow>
     (\<exists>pid p v. rq_proposal_id request = Some pid \<and> p_run_id p = rq_run_id request \<and> proven d pid p v
        \<and> ro_evidence_hash x = Some (v_evidence_hash v)))"

definition readiness_founded :: "Platform \<Rightarrow> Repo \<Rightarrow> RecoveryRequest \<Rightarrow> RecoveryOutcome \<Rightarrow> Repo \<Rightarrow> bool" where
  "readiness_founded L d0 request x d \<longleftrightarrow> (ro_action x = READY_FOR_EXECUTION \<longrightarrow>
     (\<exists>p q a. rq_proposal_id request = Some (p_proposal_id p)
        \<and> dget (d_proposals d) (p_proposal_id p) = Some q \<and> proposal_evolves p q
        \<and> dget (d_approvals d) (p_proposal_id p) = Some a
        \<and> a_decision a = ApprovalDecision.APPROVED \<and> a_run_id a = rq_run_id request
        \<and> a_action a = p_action p \<and> a_target a = p_target p \<and> a_evidence_hash a = p_evidence_hash p
        \<and> (\<exists>d1 r. later L d0 d1 \<and> dget (d_runs d1) (rq_run_id request) = Some r
             \<and> r_state r = WorkflowState.APPROVED \<and> later L d1 d)
        \<and> (\<exists>d1. later L d0 d1 \<and> dget (d_idempotency d1) (derive_idempotency_key L p) = None \<and> later L d1 d)))"

definition founded :: "Platform \<Rightarrow> Repo \<Rightarrow> RecoveryRequest \<Rightarrow> RecoveryOutcome \<Rightarrow> Repo \<Rightarrow> bool" where
  "founded L d0 request x d \<longleftrightarrow> result_proven request x d \<and> readiness_founded L d0 request x d"

lemma founded_other:
  "ro_action x \<noteq> RETURN_VERIFIED_RESULT \<Longrightarrow> ro_action x \<noteq> READY_FOR_EXECUTION \<Longrightarrow> founded L d0 request x d"
  by (simp add: founded_def result_proven_def readiness_founded_def)

lemma founded_result:
  assumes "ro_action x = RETURN_VERIFIED_RESULT" and "rq_proposal_id request = Some pid"
    and "p_run_id p = rq_run_id request" and "proven d pid p v" and "ro_evidence_hash x = Some (v_evidence_hash v)"
  shows "founded L d0 request x d"
  using assms unfolding founded_def result_proven_def readiness_founded_def by auto

lemma proven_lasting: "lasting L (\<lambda>d. proven d pid p v)"
  unfolding lasting_def proven_def
  using later_evolves evidence_stays success_stays proposal_stays by meson

lemma lasting_conj: "lasting L F \<Longrightarrow> lasting L G \<Longrightarrow> lasting L (\<lambda>d. F d \<and> G d)"
  unfolding lasting_def by blast

lemma lasting_const: "lasting L (\<lambda>d. b)"
  unfolding lasting_def by blast

lemma delivers_founded:
  assumes "action \<noteq> RETURN_VERIFIED_RESULT" and "action \<noteq> READY_FOR_EXECUTION"
  shows "delivers view F (founded L d0 request) (recovery_outcome L C run p st action c reason ds)"
  by (rule delivers_outcome) (use assms in \<open>auto intro: founded_other\<close>)

lemma delivers_founded_operator:
  "delivers view F (founded L d0 request) (operator_required L C run p c message seen)"
  by (rule delivers_operator) (auto intro: founded_other)

lemmas delivers_ends = delivers_failed delivers_raise delivers_audited_failure delivers_founded_operator

lemma delivers_frame: "(\<And>d. F d \<Longrightarrow> b) \<Longrightarrow> (b \<Longrightarrow> delivers view F Q m) \<Longrightarrow> delivers view F Q m"
  unfolding delivers_def by blast

lemma delivers_with_proposal:
  assumes "\<And>p. sn_proposal sn = Some p \<Longrightarrow> delivers view F Q (k p)"
  shows "delivers view F Q (with_proposal sn k)"
  using assms by (cases "sn_proposal sn") (simp_all add: with_proposal_def delivers_raise)

context recovery_environment begin

text \<open>An outcome after which the proof is in the store.\<close>

lemma delivers_result:
  assumes "\<And>d. F d \<Longrightarrow> proven d pid p v" and "rq_proposal_id request = Some pid" and "p_run_id p = rq_run_id request"
    and "od_evidence_hash ds = Some (v_evidence_hash v)"
  shows "delivers view F (founded L d0 request)
    (recovery_outcome L C run q st RETURN_VERIFIED_RESULT c reason ds)"
proof (rule deliversI)
  fix s x s' assume "F (view s)" and run: "recovery_outcome L C run q st RETURN_VERIFIED_RESULT c reason ds s
      = (Inr (Succeeded x), s')"
  with assms(1) have "proven (view s) pid p v" by blast
  with proven_lasting bystanderD(2) [OF outcome_bystander run] have "proven (view s') pid p v"
    unfolding lasting_def by blast
  then show "founded L d0 request x (view s')"
    by (rule founded_result [rotated 3]) (use outcome_result [OF run] assms in auto)
qed

lemma delivers_approved:
  "delivers view (snapshot_true L d0 request sn) (founded L d0 request) (recover_approved L C sn)"
  if approved: "r_state (sn_run sn) = WorkflowState.APPROVED"
  unfolding recover_approved_def Let_def
proof (intro delivers_with_proposal delivers_if delivers_ends)
  fix p assume p: "sn_proposal sn = Some p" and a: "\<not> \<not> positive_approval_matches sn"
    and i: "sn_idempotency sn = None"
  show "delivers view (snapshot_true L d0 request sn) (founded L d0 request)
     (recovery_outcome L C (sn_run sn) (Some p) READY READY_FOR_EXECUTION ''APPROVAL_READY_NO_EXECUTION_CLAIM''
       ''Durable approval is valid and no execution ownership was claimed''
       (no_details\<lparr>od_ready_for_execution := True, od_reconciled := True\<rparr>))"
    (is "delivers view _ _ ?m")
  proof (rule deliversI)
    fix s x s' assume t: "snapshot_true L d0 request sn (view s)" and run: "?m s = (Inr (Succeeded x), s')"
    from snapshot_lasting bystanderD(2) [OF outcome_bystander run] t
    have t': "snapshot_true L d0 request sn (view s')" unfolding lasting_def by blast
    from a p obtain ap where ap: "sn_approval sn = Some ap" "a_decision ap = ApprovalDecision.APPROVED"
      "a_run_id ap = r_run_id (sn_run sn)" "a_action ap = p_action p" "a_target ap = p_target p"
      "a_evidence_hash ap = p_evidence_hash p"
      by (auto simp: positive_approval_matches_def split: option.splits)
    from t' p have pt: "proposal_true L d0 request sn p (view s')" by (simp add: snapshot_true_def)
    then obtain q where q: "dget (d_proposals (view s')) (p_proposal_id p) = Some q" "proposal_evolves p q"
      by (auto simp: proposal_true_def)
    have act: "ro_action x = READY_FOR_EXECUTION" using outcome_result [OF run] by simp
    have r: "\<exists>d1 r. later L d0 d1 \<and> dget (d_runs d1) (rq_run_id request) = Some r
           \<and> r_state r = WorkflowState.APPROVED \<and> later L d1 (view s')"
      using t' approved unfolding snapshot_true_def by blast
    have "a_run_id ap = rq_run_id request" using ap(3) t' by (simp add: snapshot_true_def)
    with ap pt i q r have "readiness_founded L d0 request x (view s')"
      unfolding readiness_founded_def proposal_true_def by blast
    with act show "founded L d0 request x (view s')" by (simp add: founded_def result_proven_def)
  qed
qed

lemma delivers_awaiting:
  "delivers view F (founded L d0 request) (recover_awaiting_approval L C sn)"
proof -
  have res: "delivers view F' (founded L d0 request) (case x of Failed f \<Rightarrow> audited_failure L C run p f
      | Succeeded i \<Rightarrow> recovery_outcome L C run p st RECONSTRUCT_APPROVAL c reason (ds i))" for F' x run p st c reason ds
    by (cases x) (auto intro: delivers_ends delivers_founded)
  show ?thesis
    unfolding recover_awaiting_approval_def Let_def
  proof (intro delivers_with_proposal delivers_if delivers_ends)
    fix p
    show "delivers view F (founded L d0 request) (case rc_approval_reconstructor C of
         None \<Rightarrow> operator_required L C (sn_run sn) (Some p) ''APPROVAL_RECONSTRUCTOR_UNAVAILABLE''
           ''Durable approval boundary exists but its caller adapter is unavailable'' None
       | Some reconstruct \<Rightarrow>
           andThen (reconstruct (p_proposal_id p)) (\<lambda>result. case result of
             Failed f \<Rightarrow> audited_failure L C (sn_run sn) (Some p) f
           | Succeeded interrupt \<Rightarrow>
               recovery_outcome L C (sn_run sn) (Some p) RESUMABLE RECONSTRUCT_APPROVAL
                 ''APPROVAL_INTERRUPT_RECONSTRUCTED''
                 ''Exact proposal-bound human approval boundary was reconstructed''
                 (no_details\<lparr>od_approval_interrupt := Some interrupt, od_reconciled := True\<rparr>)))"
    proof (cases "rc_approval_reconstructor C")
      case (Some f)
      have "delivers view (\<lambda>_. True) (founded L d0 request)
           (andThen (f (p_proposal_id p)) (\<lambda>result. case result of
             Failed f \<Rightarrow> audited_failure L C (sn_run sn) (Some p) f
           | Succeeded interrupt \<Rightarrow>
               recovery_outcome L C (sn_run sn) (Some p) RESUMABLE RECONSTRUCT_APPROVAL
                 ''APPROVAL_INTERRUPT_RECONSTRUCTED''
                 ''Exact proposal-bound human approval boundary was reconstructed''
                 (no_details\<lparr>od_approval_interrupt := Some interrupt, od_reconciled := True\<rparr>)))"
        by (rule delivers_then [OF reconstructor [OF Some] lasting_const res])
      then show ?thesis unfolding Some option.case by (rule delivers_conseq) simp
    qed (simp add: delivers_ends)
  qed
qed

end

context recovery_environment begin

lemma enter_result:
  assumes "enter_verifying C run s = (Inr run', s')" and "repo_ok L (view s)"
  shows "r_run_id run' = r_run_id run"
    and "r_state run' = (if r_state run \<in> {WorkflowState.RECOVERY_REQUIRED, WorkflowState.EXECUTING}
           then WorkflowState.VERIFYING else r_state run)"
proof -
  have "r_run_id run' = r_run_id run \<and> r_state run' = WorkflowState.VERIFYING"
    if "andThen (rc_clock C) (\<lambda>now. op_transition_run R (r_run_id run) WorkflowState.VERIFYING (r_state run)
          (r_version run) now None None) s = (Inr run', s')"
  proof -
    from that obtain now s1 where c: "rc_clock C s = (Inr now, s1)"
      and t: "op_transition_run R (r_run_id run) WorkflowState.VERIFYING (r_state run) (r_version run) now None None s1
        = (Inr run', s')" by (rule andThen_InrE)
    from transition_result [OF t later_ok [OF bystanderD(2) [OF clock c] assms(2)]] show ?thesis by simp
  qed
  with assms(1) show "r_run_id run' = r_run_id run"
    and "r_state run' = (if r_state run \<in> {WorkflowState.RECOVERY_REQUIRED, WorkflowState.EXECUTING}
           then WorkflowState.VERIFYING else r_state run)"
    by (auto simp: enter_verifying_def repository ret_def split: if_splits)
qed

lemma close_existing_bystander [bystander_intros]:
  "bystander L view (\<lambda>_. ()) (close_existing C run pid)"
  unfolding close_existing_def repository by (intro bystander_intros store_bystander clock)

lemma snapshot_ok: "snapshot_true L d0 request sn d \<Longrightarrow> repo_ok L d"
  using later_ok by (auto simp: snapshot_true_def)

lemma snapshot_success:
  assumes "snapshot_true L d0 request sn d" and "r_state (sn_run sn) = WorkflowState.SUCCESS_WITH_EVIDENCE"
  shows "\<exists>r. dget (d_runs d) (rq_run_id request) = Some r \<and> r_state r = WorkflowState.SUCCESS_WITH_EVIDENCE"
  using assms success_stays later_evolves unfolding snapshot_true_def by meson

lemma close_existing_success:
  assumes "close_existing C (sn_run sn) pid s = (Inr run', s')" and "snapshot_true L d0 request sn (view s)"
    and "r_state run' = WorkflowState.SUCCESS_WITH_EVIDENCE"
  shows "\<exists>r. dget (d_runs (view s')) (rq_run_id request) = Some r
    \<and> r_state r = WorkflowState.SUCCESS_WITH_EVIDENCE"
proof -
  let ?run = "sn_run sn"
  have id: "r_run_id ?run = rq_run_id request" using assms(2) by (simp add: snapshot_true_def)
  from assms(1) obtain run1 s1 where
    e: "(if r_state ?run = WorkflowState.RECOVERY_REQUIRED then enter_verifying C ?run else ret ?run) s = (Inr run1, s1)"
    and c: "(if r_state run1 = WorkflowState.VERIFYING
      then andThen (rc_clock C) (\<lambda>now. op_transition_run R (r_run_id run1) WorkflowState.SUCCESS_WITH_EVIDENCE
        WorkflowState.VERIFYING (r_version run1) now None (Some pid))
      else ret run1) s1 = (Inr run', s')"
    unfolding close_existing_def repository by (rule andThen_InrE)
  have r1: "r_run_id run1 = r_run_id ?run" "r_state ?run \<noteq> WorkflowState.RECOVERY_REQUIRED \<Longrightarrow> run1 = ?run \<and> s1 = s"
    using e enter_result [OF _ snapshot_ok [OF assms(2)]] by (auto simp: ret_def split: if_splits)
  show ?thesis
  proof (cases "r_state run1 = WorkflowState.VERIFYING")
    case True
    with c obtain now s2 where "op_transition_run R (r_run_id run1) WorkflowState.SUCCESS_WITH_EVIDENCE
        WorkflowState.VERIFYING (r_version run1) now None (Some pid) s2 = (Inr run', s')"
      by (auto elim: andThen_InrE)
    from transition_success [OF this] r1(1) id show ?thesis by simp
  next
    case False
    with c assms(3) have "r_state run1 = WorkflowState.SUCCESS_WITH_EVIDENCE" "s' = s1" by (auto simp: ret_def)
    moreover from this e enter_result(2) [OF _ snapshot_ok [OF assms(2)]]
    have "r_state ?run \<noteq> WorkflowState.RECOVERY_REQUIRED" by (auto split: if_splits)
    ultimately show ?thesis using r1 snapshot_success [OF assms(2)] by simp
  qed
qed

end

text \<open>The identity of a snapshot that passed validation.\<close>

definition snapshot_bound :: "RecoveryRequest \<Rightarrow> RecoverySnapshot \<Rightarrow> bool" where
  "snapshot_bound request sn \<longleftrightarrow> (\<forall>p. sn_proposal sn = Some p \<longrightarrow> p_run_id p = rq_run_id request)"

context recovery_environment begin

lemma proven_from:
  assumes "snapshot_true L d0 request sn d" and "sn_proposal sn = Some p" and "p_run_id p = rq_run_id request"
    and "\<exists>r. dget (d_runs d) (rq_run_id request) = Some r \<and> r_state r = WorkflowState.SUCCESS_WITH_EVIDENCE"
    and "dget (d_verification_evidence d) (rq_run_id request, p_proposal_id p) = Some v"
  shows "proven d (p_proposal_id p) p v"
  using assms by (auto simp: proven_def snapshot_true_def proposal_true_def)

lemma delivers_return_verified:
  assumes "snapshot_bound request sn"
  shows "delivers view (snapshot_true L d0 request sn) (founded L d0 request) (return_verified L C sn)"
proof (cases "sn_proposal sn = None \<or> sn_evidence sn = None \<or> sn_idempotency sn = None")
  case True
  then show ?thesis unfolding return_verified_def by (auto split: option.splits intro: delivers_ends)
next
  case False
  then obtain p v i where sn: "sn_proposal sn = Some p" "sn_evidence sn = Some v" "sn_idempotency sn = Some i" by auto
  have b: "p_run_id p = rq_run_id request" using assms sn(1) by (simp add: snapshot_bound_def)
  let ?G = "\<lambda>run d. r_state run = WorkflowState.SUCCESS_WITH_EVIDENCE \<longrightarrow>
    (\<exists>r. dget (d_runs d) (rq_run_id request) = Some r \<and> r_state r = WorkflowState.SUCCESS_WITH_EVIDENCE)"
  show ?thesis
    unfolding return_verified_def sn prod.case option.case
  proof (intro delivers_if delivers_ends delivers_try [OF close_existing_bystander snapshot_lasting, where G = ?G])
    show "?G run (view s1)" if "snapshot_true L d0 request sn (view s)"
      "close_existing C (sn_run sn) (p_proposal_id p) s = (Inr run, s1)" for s run s1
      using close_existing_success [OF that(2,1)] by blast
    show "delivers view (snapshot_true L d0 request sn) (founded L d0 request) g"
      if "on_storage_error (audited_failure L C (sn_run sn) (Some p)
               (recovery_failure ''RECOVERY_SUCCESS_RECONCILIATION_CONFLICT''
                 ''Existing verified proof could not reconcile the durable run state'')) e = Some g" for e g
      using on_storage_error_Some [OF that] delivers_ends by simp
    fix run assume "\<not> r_state run \<noteq> WorkflowState.SUCCESS_WITH_EVIDENCE"
    then have st: "r_state run = WorkflowState.SUCCESS_WITH_EVIDENCE" by simp
    show "delivers view (\<lambda>d. snapshot_true L d0 request sn d \<and> ?G run d) (founded L d0 request)
      (recovery_outcome L C (sn_run sn) (Some p) RECONCILED RETURN_VERIFIED_RESULT
         ''VERIFIED_RESULT_RETURNED_IDEMPOTENTLY''
         ''Existing durable verification proof was returned without new provider work''
         (no_details\<lparr>od_final_state := Some (r_state run), od_evidence_hash := Some (v_evidence_hash v),
            od_reconciled := True, od_event_type := AuditEventType.RECOVERY_COMPLETED\<rparr>))"
    proof (rule delivers_frame, rule delivers_result)
      fix d assume f: "snapshot_true L d0 request sn d \<and> ?G run d"
      then have pt: "proposal_true L d0 request sn p d" using sn(1) by (simp add: snapshot_true_def)
      then show "rq_proposal_id request = Some (p_proposal_id p)" by (simp add: proposal_true_def)
      from f st pt sn(2) show "proven d (p_proposal_id p) p v"
        by (intro proven_from [OF _ sn(1) b]) (auto simp: proposal_true_def)
    qed (simp_all add: b)
  qed
qed

lemma created_valid: "recovered_evidence L i p run t h = Inr v \<Longrightarrow>
   valid_evidence L v \<and> v_run_id v = r_run_id run \<and> v_proposal_id v = p_proposal_id p"
  by (auto simp: recovered_evidence_def dest: VerificationEvidence_create_from_recovery_Inr split: sum.splits)

lemma close_recovered_result:
  assumes "close_recovered L C p v run s = (Inr (evidence, closed), s')"
  shows "later L (view s) (view s')"
    and "dget (d_verification_evidence (view s')) (r_run_id run, p_proposal_id p) = Some evidence"
    and "\<exists>r. dget (d_runs (view s')) (r_run_id run) = Some r \<and> r_state r = WorkflowState.SUCCESS_WITH_EVIDENCE"
proof -
  from assms obtain i s1 t s2 created s3 st s4 result s5 t2 s6 x s7 s8 t3 s9 where
    a: "rc_evidence_id_factory C s = (Inr i, s1)" "rc_clock C s1 = (Inr t, s2)"
      "recovered_evidence L i p run t (ob_observation_hash v) = Inr created"
      "op_create_verification_evidence R created s2 = (Inr evidence, s3)"
    and b: "validated valid_action_result \<lparr>ar_outcome = ActionOutcome.SUCCEEDED, ar_observed_state = Some st,
        ar_evidence_hash = Some (v_evidence_hash evidence), ar_failure = None\<rparr> = Inr result"
      "rc_clock C s3 = (Inr t2, s6)"
      "op_complete_idempotency R (derive_idempotency_key L p) result t2 s6 = (Inr x, s7)"
      "recovery_append_event C run (Some p) AuditEventType.RECOVERY_COMPLETED
         ''LOST_ACK_STOPPED_VERIFIED'' (v_evidence_hash evidence) s7 = (Inr (), s8)"
      "rc_clock C s8 = (Inr t3, s9)"
      "op_transition_run R (r_run_id run) WorkflowState.SUCCESS_WITH_EVIDENCE WorkflowState.VERIFYING (r_version run)
         t3 None (Some (p_proposal_id p)) s9 = (Inr closed, s')"
    unfolding close_recovered_def repository
    by (auto simp: lift_def ret_def elim!: andThen_InrE)
  note m = rtranclp_trans [of "repo_write L"]
  have cv: "valid_evidence L created" "v_run_id created = r_run_id run" "v_proposal_id created = p_proposal_id p"
    using created_valid [OF a(3)] by auto
  have ar: "valid_action_result result" using b(1) by (simp add: validated_def split: if_splits)
  have l1: "later L (view s) (view s2)" using bystanderD(2) [OF evidence_ids a(1)] bystanderD(2) [OF clock a(2)] by (rule m)
  have l2: "later L (view s2) (view s3)" by (rule performsD(2) [OF create_evidence [OF cv(1)] a(4)])
  have l3: "later L (view s3) (view s7)"
    using bystanderD(2) [OF clock b(2)] performsD(2) [OF complete_idempotency [OF ar] b(3)] by (rule m)
  have l4: "later L (view s7) (view s9)"
    using bystanderD(2) [OF append_bystander b(4)] bystanderD(2) [OF clock b(5)] by (rule m)
  have l5: "later L (view s9) (view s')" by (rule performsD(2) [OF transition b(6)])
  show "later L (view s) (view s')" using l1 l2 l3 l4 l5 m by meson
  have "later L (view s3) (view s')" using l3 l4 l5 m by meson
  from evidence_stays [OF later_evolves [OF this]] create_stored [OF cv(1) a(4)] cv
  show "dget (d_verification_evidence (view s')) (r_run_id run, p_proposal_id p) = Some evidence" by simp
  show "\<exists>r. dget (d_runs (view s')) (r_run_id run) = Some r \<and> r_state r = WorkflowState.SUCCESS_WITH_EVIDENCE"
    by (rule transition_success [OF b(6)])
qed

end

context recovery_environment begin

lemma lift_bystander:
  assumes "\<And>x. r = Inr x \<Longrightarrow> bystander L view (\<lambda>_. ()) (k x)"
  shows "bystander L view (\<lambda>_. ()) (andThen (lift r) k)"
  using assms by (cases r) (auto simp: bystander_def andThen_def lift_def)

lemma close_recovered_bystander: "bystander L view (\<lambda>_. ()) (close_recovered L C p v run)"
  unfolding close_recovered_def repository
proof (rule bystander_andThen [OF evidence_ids], rule bystander_andThen [OF clock], rule lift_bystander)
  fix i t created assume "recovered_evidence L i p run t (ob_observation_hash v) = Inr created"
  then have "valid_evidence L created" using created_valid by blast
  then show "bystander L view (\<lambda>_. ()) (andThen (op_create_verification_evidence R created) (\<lambda>evidence.
     andThen (lift (observed_instance_state (ob_observed_state v))) (\<lambda>state.
     andThen (lift (validated valid_action_result
       \<lparr>ar_outcome = ActionOutcome.SUCCEEDED, ar_observed_state = Some state,
        ar_evidence_hash = Some (v_evidence_hash evidence), ar_failure = None\<rparr>)) (\<lambda>result.
     andThen (rc_clock C) (\<lambda>completed_at.
     andThen (op_complete_idempotency R (derive_idempotency_key L p) result completed_at) (\<lambda>_.
     andThen (recovery_append_event C run (Some p) AuditEventType.RECOVERY_COMPLETED
       ''LOST_ACK_STOPPED_VERIFIED'' (v_evidence_hash evidence)) (\<lambda>_.
     andThen (rc_clock C) (\<lambda>updated_at.
     andThen (op_transition_run R (r_run_id run) WorkflowState.SUCCESS_WITH_EVIDENCE
       WorkflowState.VERIFYING (r_version run) updated_at None (Some (p_proposal_id p))) (\<lambda>closed.
     ret (evidence, closed))))))))))"
    by (intro bystander_andThen [OF bystander_lift] bystander_intros complete_result_bystander store_bystander clock)
      auto
qed

lemma delivers_complete:
  assumes "snapshot_bound request sn"
  shows "delivers view (snapshot_true L d0 request sn) (founded L d0 request)
    (complete_from_recovery_observation L C sn v)"
  unfolding complete_from_recovery_observation_def Let_def
proof (intro delivers_with_proposal)
  fix p assume p: "sn_proposal sn = Some p"
  have b: "p_run_id p = rq_run_id request" using assms p by (simp add: snapshot_bound_def)
  let ?T = "snapshot_true L d0 request sn"
  let ?refused = "\<lambda>run. on_value_error (andThen (recovery_mark_required C run) (\<lambda>_.
           audited_failure L C (sn_run sn) (Some p)
             (recovery_failure ''RECOVERY_EVIDENCE_DURABILITY_FAILED''
               ''Stopped read-back could not satisfy every durable success invariant'')))"
  have refused: "delivers view F (founded L d0 request) g" if "?refused run e = Some g" for run e g F
    unfolding on_value_error_Some [OF that]
    by (rule delivers_conseq [of _ "\<lambda>_. True"], rule delivers_then [OF mark_bystander lasting_const delivers_audited_failure]) simp
  show "delivers view ?T (founded L d0 request) (tryThen (enter_verifying C (sn_run sn)) (?refused (sn_run sn)) (\<lambda>run.
        tryThen (close_recovered L C p v run) (?refused run) (\<lambda>(evidence, closed).
          recovery_outcome L C (sn_run sn) (Some p) RECONCILED RETURN_VERIFIED_RESULT
            ''LOST_ACK_RECONCILED_FROM_READ_BACK''
            ''Independent stopped-state proof closed the approved lost-ACK action''
            (no_details\<lparr>od_final_state := Some (r_state closed),
               od_observed_state := Some (ob_observed_state v),
               od_evidence_hash := Some (v_evidence_hash evidence), od_reconciled := True,
               od_event_type := AuditEventType.RECOVERY_COMPLETED\<rparr>))))"
  proof (rule delivers_try [OF enter_bystander snapshot_lasting, where G = "\<lambda>run _. r_run_id run = rq_run_id request"])
    show "r_run_id run = rq_run_id request" if "?T (view s)" "enter_verifying C (sn_run sn) s = (Inr run, s1)" for s run s1
      using enter_result(1) [OF that(2) snapshot_ok [OF that(1)]] that(1) by (simp add: snapshot_true_def)
  next
    fix run
    let ?G = "\<lambda>(evidence, closed) d.
      dget (d_verification_evidence d) (rq_run_id request, p_proposal_id p) = Some evidence
      \<and> (\<exists>r. dget (d_runs d) (rq_run_id request) = Some r \<and> r_state r = WorkflowState.SUCCESS_WITH_EVIDENCE)"
    show "delivers view (\<lambda>d. ?T d \<and> r_run_id run = rq_run_id request) (founded L d0 request)
      (tryThen (close_recovered L C p v run) (?refused run) (\<lambda>(evidence, closed).
          recovery_outcome L C (sn_run sn) (Some p) RECONCILED RETURN_VERIFIED_RESULT
            ''LOST_ACK_RECONCILED_FROM_READ_BACK''
            ''Independent stopped-state proof closed the approved lost-ACK action''
            (no_details\<lparr>od_final_state := Some (r_state closed),
               od_observed_state := Some (ob_observed_state v),
               od_evidence_hash := Some (v_evidence_hash evidence), od_reconciled := True,
               od_event_type := AuditEventType.RECOVERY_COMPLETED\<rparr>)))"
    proof (rule delivers_try [OF close_recovered_bystander lasting_conj [OF snapshot_lasting lasting_const], where G = ?G])
      show "?G x (view s1)" if "?T (view s) \<and> r_run_id run = rq_run_id request"
        "close_recovered L C p v run s = (Inr x, s1)" for s x s1
      proof (cases x)
        case (Pair evidence closed)
        with that(2) have "close_recovered L C p v run s = (Inr (evidence, closed), s1)" by simp
        from close_recovered_result(2,3) [OF this] that(1) show ?thesis by (simp add: Pair)
      qed
    next
      fix x :: "VerificationEvidence \<times> Run"
      obtain evidence closed where x: "x = (evidence, closed)" by (cases x)
      show "delivers view (\<lambda>d. (?T d \<and> r_run_id run = rq_run_id request) \<and> ?G x d) (founded L d0 request)
        (case x of (evidence, closed) \<Rightarrow> recovery_outcome L C (sn_run sn) (Some p) RECONCILED RETURN_VERIFIED_RESULT
            ''LOST_ACK_RECONCILED_FROM_READ_BACK''
            ''Independent stopped-state proof closed the approved lost-ACK action''
            (no_details\<lparr>od_final_state := Some (r_state closed),
               od_observed_state := Some (ob_observed_state v),
               od_evidence_hash := Some (v_evidence_hash evidence), od_reconciled := True,
               od_event_type := AuditEventType.RECOVERY_COMPLETED\<rparr>))"
        unfolding x prod.case
      proof (rule delivers_frame, rule delivers_result [where pid = "p_proposal_id p" and p = p and v = evidence])
        fix d assume f: "(?T d \<and> r_run_id run = rq_run_id request)
          \<and> dget (d_verification_evidence d) (rq_run_id request, p_proposal_id p) = Some evidence
          \<and> (\<exists>r. dget (d_runs d) (rq_run_id request) = Some r \<and> r_state r = WorkflowState.SUCCESS_WITH_EVIDENCE)"
        then show "proven d (p_proposal_id p) p evidence" by (intro proven_from [OF _ p b]) auto
        from f p show "rq_proposal_id request = Some (p_proposal_id p)"
          by (simp add: snapshot_true_def proposal_true_def)
      qed (simp_all add: b)
    qed (rule refused)
  qed (rule refused)
qed

end

lemma delivers_result_case:
  assumes "\<And>f. x = Failed f \<Longrightarrow> delivers view F Q (h f)" and "\<And>v. x = Succeeded v \<Longrightarrow> delivers view F Q (k v)"
  shows "delivers view F Q (case x of Failed f \<Rightarrow> h f | Succeeded v \<Rightarrow> k v)"
  using assms by (cases x) simp_all

lemma delivers_option_case:
  assumes "x = None \<Longrightarrow> delivers view F Q h" and "\<And>v. x = Some v \<Longrightarrow> delivers view F Q (k v)"
  shows "delivers view F Q (case x of None \<Rightarrow> h | Some v \<Rightarrow> k v)"
  using assms by (cases x) simp_all

lemma delivers_sum_case:
  assumes "\<And>v. x = Inl v \<Longrightarrow> delivers view F Q (h v)" and "\<And>v. x = Inr v \<Longrightarrow> delivers view F Q (k v)"
  shows "delivers view F Q (case x of Inl v \<Rightarrow> h v | Inr v \<Rightarrow> k v)"
  using assms by (cases x) simp_all

context recovery_environment begin

lemma marked_ends:
  assumes "\<And>G. delivers view G Q m"
  shows "delivers view F Q (andThen (recovery_mark_required C run) (\<lambda>_. m))"
  by (rule delivers_conseq [of _ "\<lambda>_. True"], rule delivers_then [OF mark_bystander lasting_const assms]) simp

lemmas marked_simple = marked_ends [OF delivers_audited_failure] marked_ends [OF delivers_founded_operator]
  marked_ends [OF delivers_failed]

lemma delivers_read_back:
  assumes S: "rc_readback_service C = Some S" and b: "snapshot_bound request sn"
  shows "delivers view (snapshot_true L d0 request sn) (founded L d0 request)
    (read_back L C S sn p idn seen attempts)"
proof (induction attempts arbitrary: seen)
  case Nil
  show ?case unfolding read_back.simps by (rule delivers_option_case) (intro delivers_ends marked_simple)+
next
  case (Cons a as)
  show ?case
    unfolding read_back.simps Let_def
  proof (rule delivers_then [OF clock snapshot_lasting], rule delivers_then [OF observe_bystander [OF S] snapshot_lasting],
      rule delivers_result_case)
    fix v
    have wait: "bystander L view (\<lambda>_. ()) (if a < rc_max_attempts C then rc_sleeper C (rc_interval_seconds C) else ret ())"
      by (intro bystander_intros sleeper)
    show "delivers view (snapshot_true L d0 request sn) (founded L d0 request)
       (andThen (append_observation_event C (sn_run sn) p v) (\<lambda>audit_failure. case audit_failure of
          Some f \<Rightarrow> andThen (recovery_mark_required C (sn_run sn)) (\<lambda>_. ret (Failed f))
        | None \<Rightarrow>
            if ob_observed_state v = Ec2InstanceState.STOPPED
            then complete_from_recovery_observation L C sn v
            else if ob_observed_state v = Ec2InstanceState.RUNNING
            then andThen (recovery_mark_required C (sn_run sn)) (\<lambda>_.
              operator_required L C (sn_run sn) (Some p) ''LOST_ACK_TARGET_STILL_RUNNING''
                ''Running state after ambiguous acknowledgement forbids blind replay''
                (Some (ob_observed_state v)))
            else if ob_observed_state v \<noteq> Ec2InstanceState.STOPPING
            then andThen (recovery_mark_required C (sn_run sn)) (\<lambda>_.
              operator_required L C (sn_run sn) (Some p) ''LOST_ACK_STATE_AMBIGUOUS''
                ''Read-only recovery observed an unsafe or ambiguous EC2 state''
                (Some (ob_observed_state v)))
            else andThen (if a < rc_max_attempts C then rc_sleeper C (rc_interval_seconds C) else ret ())
              (\<lambda>_. read_back L C S sn p idn (Some v) as)))"
      by (rule delivers_then [OF observation_bystander snapshot_lasting], rule delivers_option_case,
          intro delivers_if marked_simple delivers_complete [OF b] delivers_then [OF wait snapshot_lasting] Cons.IH)
        (rule marked_simple)
  qed (rule marked_simple)
qed

lemma delivers_reconcile:
  assumes "snapshot_bound request sn"
  shows "delivers view (snapshot_true L d0 request sn) (founded L d0 request) (reconcile_missing_ack L C sn)"
  unfolding reconcile_missing_ack_def
  by (intro delivers_with_proposal delivers_option_case delivers_ends
      delivers_then [OF bystander_lift snapshot_lasting] delivers_read_back [OF _ assms])

lemma proven_same:
  assumes "snapshot_true L d0 request sn d" and "sn_proposal sn = Some p" and "proven d (p_proposal_id p) q v"
  shows "proven d (p_proposal_id p) p v"
proof -
  from assms(1,2) obtain p' where p': "dget (d_proposals d) (p_proposal_id p) = Some p'" "proposal_evolves p p'"
    by (auto simp: snapshot_true_def proposal_true_def)
  with assms(3) have "proposal_evolves q p'" by (auto simp: proven_def)
  with p'(2) have "p_run_id q = p_run_id p" using proposal_evolves_fields(2) by metis
  with assms(3) p' show ?thesis by (auto simp: proven_def)
qed

lemma delivers_run_reconciler:
  assumes p: "sn_proposal sn = Some p" and b: "snapshot_bound request sn"
  shows "delivers view (snapshot_true L d0 request sn) (founded L d0 request)
    (run_reconciler L C reported run p unavailable c reason)"
  unfolding run_reconciler_def
proof (rule delivers_option_case)
  fix g assume g: "rc_verification_reconciler C = Some g"
  let ?T = "snapshot_true L d0 request sn"
  let ?G = "\<lambda>x d. \<forall>c. x = Succeeded c \<longrightarrow> (\<exists>q. proven d (p_proposal_id p) q (vc_evidence c))"
  show "delivers view ?T (founded L d0 request)
      (andThen (g (p_proposal_id p)) (\<lambda>result. case result of
            Failed f \<Rightarrow> audited_failure L C run (Some p) f
          | Succeeded completion \<Rightarrow>
              recovery_outcome L C reported (Some p) RECONCILED RETURN_VERIFIED_RESULT c reason
                (no_details\<lparr>od_final_state := Some WorkflowState.SUCCESS_WITH_EVIDENCE,
                   od_verification := Some completion,
                   od_evidence_hash := Some (v_evidence_hash (vc_evidence completion)),
                   od_reconciled := True, od_event_type := AuditEventType.RECOVERY_COMPLETED\<rparr>)))"
  proof (rule delivers_andThen [OF reconciler [OF g] snapshot_lasting, where G = ?G])
    show "?G x (view s1)" if "?T (view s)" "g (p_proposal_id p) s = (Inr x, s1)" for s x s1
      using reconciler_proven [OF g snapshot_ok [OF that(1)]] that(2) by blast
  next
    fix x :: "VerificationCompletion ControlResult"
    show "delivers view (\<lambda>d. ?T d \<and> ?G x d) (founded L d0 request) (case x of
            Failed f \<Rightarrow> audited_failure L C run (Some p) f
          | Succeeded completion \<Rightarrow>
              recovery_outcome L C reported (Some p) RECONCILED RETURN_VERIFIED_RESULT c reason
                (no_details\<lparr>od_final_state := Some WorkflowState.SUCCESS_WITH_EVIDENCE,
                   od_verification := Some completion,
                   od_evidence_hash := Some (v_evidence_hash (vc_evidence completion)),
                   od_reconciled := True, od_event_type := AuditEventType.RECOVERY_COMPLETED\<rparr>))"
    proof (rule delivers_result_case [OF delivers_audited_failure])
      fix completion assume x: "x = Succeeded completion"
      show "delivers view (\<lambda>d. ?T d \<and> ?G x d) (founded L d0 request)
        (recovery_outcome L C reported (Some p) RECONCILED RETURN_VERIFIED_RESULT c reason
                (no_details\<lparr>od_final_state := Some WorkflowState.SUCCESS_WITH_EVIDENCE,
                   od_verification := Some completion,
                   od_evidence_hash := Some (v_evidence_hash (vc_evidence completion)),
                   od_reconciled := True, od_event_type := AuditEventType.RECOVERY_COMPLETED\<rparr>))"
      proof (rule delivers_frame [where b = "rq_proposal_id request = Some (p_proposal_id p)"])
        fix d assume "?T d \<and> ?G x d"
        with p show "rq_proposal_id request = Some (p_proposal_id p)"
          by (simp add: snapshot_true_def proposal_true_def)
      next
        assume "rq_proposal_id request = Some (p_proposal_id p)"
        then show ?thesis
          by (rule delivers_result [where p = p and v = "vc_evidence completion", rotated])
            (use b p x proven_same [OF _ p] in \<open>auto simp: snapshot_bound_def\<close>)
      qed
    qed
  qed
qed (rule delivers_ends)

lemma delivers_under_claim:
  assumes "delivers view (snapshot_true L d0 request sn) (founded L d0 request) k"
  shows "delivers view (snapshot_true L d0 request sn) (founded L d0 request) (under_claim L C sn p k)"
  unfolding under_claim_def
  by (rule delivers_then [OF claim_bystander snapshot_lasting], rule delivers_sum_case)
    (intro delivers_ends assms)+

lemma delivers_resume:
  assumes "snapshot_bound request sn"
  shows "delivers view (snapshot_true L d0 request sn) (founded L d0 request) (resume_from_durable_ack L C sn)"
  unfolding resume_from_durable_ack_def
proof (intro delivers_with_proposal)
  fix p assume p: "sn_proposal sn = Some p"
  show "delivers view (snapshot_true L d0 request sn) (founded L d0 request)
    (tryThen (enter_verifying C (sn_run sn))
       (on_storage_error (audited_failure L C (sn_run sn) (Some p)
          (recovery_failure ''RECOVERY_VERIFYING_TRANSITION_CONFLICT''
            ''Durable acknowledgement could not safely resume verification'')))
       (\<lambda>run. run_reconciler L C (sn_run sn) run p
          ''Durable acknowledgement is safe, but read-only verification is not configured''
          ''DURABLE_ACK_VERIFICATION_COMPLETED''
          ''Durable acknowledgement resumed bounded read-only verification''))"
    by (rule delivers_try [OF enter_bystander snapshot_lasting, where G = "\<lambda>_ _. True"])
      (auto dest!: on_storage_error_Some intro: delivers_ends delivers_run_reconciler [OF p assms])
qed

lemma delivers_execution:
  assumes b: "snapshot_bound request sn"
  shows "delivers view (snapshot_true L d0 request sn) (founded L d0 request) (recover_execution L C sn)"
  unfolding recover_execution_def Let_def
  by (intro delivers_with_proposal delivers_if delivers_option_case delivers_ends delivers_under_claim
      delivers_return_verified [OF b] delivers_resume [OF b] delivers_reconcile [OF b])

lemma delivers_verification:
  assumes b: "snapshot_bound request sn"
  shows "delivers view (snapshot_true L d0 request sn) (founded L d0 request) (recover_verification L C sn)"
  unfolding recover_verification_def Let_def
  by (intro delivers_with_proposal delivers_if delivers_option_case delivers_ends delivers_under_claim
      delivers_return_verified [OF b] delivers_run_reconciler [OF _ b])

lemma delivers_snapshot:
  assumes b: "snapshot_bound request sn"
  shows "delivers view (snapshot_true L d0 request sn) (founded L d0 request) (recover_snapshot L C sn)"
  unfolding recover_snapshot_def Let_def
  by (cases "r_state (sn_run sn)"; simp only: WorkflowState.case;
      (rule delivers_awaiting delivers_execution [OF b] delivers_verification [OF b] delivers_return_verified [OF b]
       | rule delivers_approved, assumption | intro delivers_if delivers_founded; simp))

lemma validated_bound:
  assumes "validate_recovery_snapshot request sn = Inr None" and "r_run_id (sn_run sn) = rq_run_id request"
  shows "snapshot_bound request sn"
  using assms by (auto simp: validate_recovery_snapshot_def snapshot_bound_def Let_def split: if_splits option.splits)

theorem recover_founded:
  assumes "repo_ok L (view s)" and "recover L C request s = (Inr (Succeeded x), s')"
  shows "founded L (view s) request x (view s')"
proof -
  from assms(2) obtain loaded s1 where l: "load_recovery_snapshot L C request s = (Inr loaded, s1)"
    and k: "(case loaded of Inl f \<Rightarrow> ret (Failed f)
     | Inr snapshot \<Rightarrow> andThen (lift (validate_recovery_snapshot request snapshot)) (\<lambda>inconsistent.
         case inconsistent of
           Some f \<Rightarrow> audited_failure L C (sn_run snapshot) (sn_proposal snapshot) f
         | None \<Rightarrow> recover_snapshot L C snapshot)) s1 = (Inr (Succeeded x), s')"
    unfolding recover_def by (rule andThen_InrE)
  from k obtain sn where sn: "loaded = Inr sn" by (cases loaded) (auto simp: ret_def)
  from k [unfolded sn sum.case] obtain bad where v: "validate_recovery_snapshot request sn = Inr bad"
    and k2: "(case bad of Some f \<Rightarrow> audited_failure L C (sn_run sn) (sn_proposal sn) f
       | None \<Rightarrow> recover_snapshot L C sn) s1 = (Inr (Succeeded x), s')"
    by (auto elim!: andThen_InrE simp: lift_def)
  have t: "snapshot_true L (view s) request sn (view s1)" by (rule load_true [OF l [unfolded sn] assms(1)])
  have "bad = None"
  proof (cases bad)
    case (Some f)
    with k2 have r: "audited_failure L C (sn_run sn) (sn_proposal sn) f s1 = (Inr (Succeeded x), s')" by simp
    have "delivers view (\<lambda>_. True) (\<lambda>_ _. False) (audited_failure L C (sn_run sn) (sn_proposal sn) f)"
      by (rule delivers_audited_failure)
    from deliversD [OF this _ r] show ?thesis by simp
  qed simp
  with v have "validate_recovery_snapshot request sn = Inr None" by simp
  from validated_bound [OF this] t have b: "snapshot_bound request sn" by (simp add: snapshot_true_def)
  from deliversD [OF delivers_snapshot [OF b] t] k2 \<open>bad = None\<close> show ?thesis by simp
qed

end

subsection \<open>Recovery only moves the store forward\<close>

context recovery_environment begin

lemma audited_bystander [bystander_intros]: "bystander L view (\<lambda>_. ()) (audited_failure L C run p f)"
  unfolding audited_failure_def recovery_plain_failure_def
  by (intro bystander_intros) (auto dest!: on_storage_error_Some intro!: bystander_intros)

lemma operator_bystander [bystander_intros]:
  "bystander L view (\<lambda>_. ()) (operator_required L C run p c message seen)"
  unfolding operator_required_def by (rule outcome_bystander)

lemma with_proposal_bystander:
  "(\<And>p. bystander L view (\<lambda>_. ()) (k p)) \<Longrightarrow> bystander L view (\<lambda>_. ()) (with_proposal sn k)"
  unfolding with_proposal_def by (intro bystander_intros)

lemma reconciler_bystander [bystander_intros]:
  "bystander L view (\<lambda>_. ()) (run_reconciler L C reported run p u c reason)"
  unfolding run_reconciler_def by (intro bystander_intros bystander_result reconciler)

lemma returned_bystander [bystander_intros]: "bystander L view (\<lambda>_. ()) (return_verified L C sn)"
  unfolding return_verified_def
  by (intro bystander_intros) (auto dest!: on_storage_error_Some intro!: bystander_intros)

lemma complete_bystander [bystander_intros]:
  "bystander L view (\<lambda>_. ()) (complete_from_recovery_observation L C sn v)"
  unfolding complete_from_recovery_observation_def Let_def
  by (intro with_proposal_bystander bystander_intros close_recovered_bystander)
    (auto dest!: on_value_error_Some intro!: bystander_intros)

lemma read_back_bystander:
  assumes "rc_readback_service C = Some S"
  shows "bystander L view (\<lambda>_. ()) (read_back L C S sn p idn seen attempts)"
proof (induction attempts arbitrary: seen)
  case (Cons a as)
  show ?case unfolding read_back.simps Let_def
    by (intro bystander_intros bystander_result clock sleeper observe_bystander [OF assms] Cons.IH)
qed (auto intro!: bystander_intros split: option.splits)

lemma under_claim_bystander:
  "bystander L view (\<lambda>_. ()) k \<Longrightarrow> bystander L view (\<lambda>_. ()) (under_claim L C sn p k)"
  unfolding under_claim_def by (intro bystander_intros claim_bystander)

lemma resume_bystander [bystander_intros]: "bystander L view (\<lambda>_. ()) (resume_from_durable_ack L C sn)"
  unfolding resume_from_durable_ack_def
  by (intro with_proposal_bystander bystander_intros) (auto dest!: on_storage_error_Some intro!: bystander_intros)

lemma missing_ack_bystander [bystander_intros]: "bystander L view (\<lambda>_. ()) (reconcile_missing_ack L C sn)"
  unfolding reconcile_missing_ack_def
  by (intro with_proposal_bystander bystander_intros read_back_bystander)

lemma awaiting_bystander [bystander_intros]: "bystander L view (\<lambda>_. ()) (recover_awaiting_approval L C sn)"
  unfolding recover_awaiting_approval_def Let_def
  by (intro with_proposal_bystander bystander_intros bystander_result reconstructor under_claim_bystander)

lemma approved_bystander [bystander_intros]: "bystander L view (\<lambda>_. ()) (recover_approved L C sn)"
  unfolding recover_approved_def Let_def
  by (intro with_proposal_bystander bystander_intros bystander_result reconstructor under_claim_bystander)

lemma execution_bystander [bystander_intros]: "bystander L view (\<lambda>_. ()) (recover_execution L C sn)"
  unfolding recover_execution_def Let_def
  by (intro with_proposal_bystander bystander_intros bystander_result reconstructor under_claim_bystander)

lemma verification_bystander [bystander_intros]: "bystander L view (\<lambda>_. ()) (recover_verification L C sn)"
  unfolding recover_verification_def Let_def
  by (intro with_proposal_bystander bystander_intros bystander_result reconstructor under_claim_bystander)

lemma recover_bystander: "bystander L view (\<lambda>_. ()) (recover L C request)"
proof -
  have "bystander L view (\<lambda>_. ()) (recover_snapshot L C sn)" for sn
    unfolding recover_snapshot_def Let_def
    by (cases "r_state (sn_run sn)"; simp only: WorkflowState.case; intro bystander_intros)
  then show ?thesis unfolding recover_def by (intro bystander_intros load_bystander)
qed

end

end
