(* ===== verification/Recovery_System.thy ===== *)
theory Recovery_System
  imports Recovery_Truth
begin

text \<open>
  The recovery coordinator as the control plane composes it, over a repository and a script of
  provider answers, and the properties of the whole handler: what a returned result and a
  readiness rest on, what recovery never does, and when it cannot help.
\<close>

subsection \<open>The composition of \<open>judge/control_plane.py\<close>\<close>

text \<open>No approval adapter is wired; verification and read-back share one service.\<close>

definition recovery_system ::
    "Platform \<Rightarrow> 's DurableTruthRepository \<Rightarrow> SandboxTarget \<Rightarrow> int \<times> int \<Rightarrow> int
     \<Rightarrow> ('s \<times> VerifierWorld) RecoveryCoordinator" where
  "recovery_system L R target settings lease_seconds =
     (let V = verification_system R target settings in
      \<lparr>rc_repository = store_side R, rc_clock = on_process verifier_clock,
       rc_sleeper = (\<lambda>n. on_process (verifier_sleep n)),
       rc_event_id_factory = on_process verifier_id, rc_recovery_id_factory = on_process verifier_id,
       rc_evidence_id_factory = on_process verifier_id, rc_approval_reconstructor = None,
       rc_verification_reconciler = Some (verify L V), rc_readback_service = Some (vr_service V),
       rc_max_attempts = fst settings, rc_interval_seconds = snd settings,
       rc_lease_seconds = lease_seconds\<rparr>)"

lemma recovery_system_environment:
  assumes "durable_truth L R view rest"
  shows "recovery_environment L (store_side R) (view \<circ> fst) (recovery_system L R target settings lease_seconds)"
proof -
  let ?V = "verification_system R target settings" and ?C = "recovery_system L R target settings lease_seconds"
  note env = verification_system_environment [OF assms, of target settings]
  have quiet: "bystander L (view \<circ> fst) (\<lambda>_. ()) (on_process m)" for m :: "(VerifierWorld, 'z) prog"
    using on_process_bystander [of m "\<lambda>_. ()" L view] by simp
  show ?thesis
  proof (intro recovery_environment.intro recovery_environment_axioms.intro)
    show "durable_truth L (store_side R) (view \<circ> fst) (\<lambda>_. ())"
      using store_side_durable_truth [OF assms, of "\<lambda>_. ()"] by simp
    show "bystander L (view \<circ> fst) (\<lambda>_. ()) (sv_inspect_result S i idn)"
      if "rc_readback_service ?C = Some S" for S i idn
      using that quiet by (auto simp: recovery_system_def verification_system_def Let_def)
    show "bystander L (view \<circ> fst) (\<lambda>_. ()) (g pid)" if "rc_verification_reconciler ?C = Some g" for g pid
      using that verification_environment.verify_later [OF env]
      by (auto simp: recovery_system_def Let_def bystander_def)
    show "\<exists>p. proven ((view \<circ> fst) s') pid p (vc_evidence c)"
      if "rc_verification_reconciler ?C = Some g" "repo_ok L ((view \<circ> fst) s)" "g pid s = (Inr (Succeeded c), s')"
      for g pid s c s'
      using that verification_environment.verify_proven [OF env, of pid s c s']
      by (auto simp: recovery_system_def Let_def)
  qed (simp_all add: recovery_system_def Let_def quiet)
qed

interpretation file_recovery: recovery_environment L "store_side (file_repository L)"
    "(\<lambda>w. file_view (fw_file w)) \<circ> fst" "recovery_system L (file_repository L) target settings lease_seconds"
    for L target settings lease_seconds
  by (rule recovery_system_environment) (rule local_store.durable_truth_axioms)

text \<open>C11: Recovery returns a verified result only with its proof: over every repository that keeps
  the durable contract, the run of the request is then SUCCESS_WITH_EVIDENCE and the evidence hash
  it reports is the hash of the stored, valid evidence that the target of the proposal is stopped.\<close>

theorem recovery_result_proven:
  assumes "durable_truth L R view rest" and "repo_ok L (view s)"
    and "recover L (recovery_system L R target settings lease_seconds) request (s, w) = (Inr (Succeeded x), s', w')"
    and "ro_action x = RETURN_VERIFIED_RESULT"
  shows "\<exists>pid p r v. rq_proposal_id request = Some pid \<and> dget (d_proposals (view s')) pid = Some p
    \<and> p_run_id p = rq_run_id request \<and> dget (d_runs (view s')) (rq_run_id request) = Some r
    \<and> r_state r = WorkflowState.SUCCESS_WITH_EVIDENCE
    \<and> dget (d_verification_evidence (view s')) (rq_run_id request, pid) = Some v
    \<and> ro_evidence_hash x = Some (v_evidence_hash v)
    \<and> valid_evidence L v \<and> v_observed_state v = ObservedInstanceState.STOPPED"
proof -
  note env = recovery_system_environment [OF assms(1), of target settings lease_seconds]
  from recovery_environment.recover_founded [OF env _ assms(3)] assms(2,4) obtain pid p v where
    p: "rq_proposal_id request = Some pid" "p_run_id p = rq_run_id request" "proven (view s') pid p v"
      "ro_evidence_hash x = Some (v_evidence_hash v)"
    by (auto simp: founded_def result_proven_def)
  from p(3) obtain q r where q: "dget (d_proposals (view s')) pid = Some q" "proposal_evolves p q"
    "dget (d_runs (view s')) (p_run_id p) = Some r" "r_state r = WorkflowState.SUCCESS_WITH_EVIDENCE"
    "dget (d_verification_evidence (view s')) (p_run_id p, pid) = Some v"
    unfolding proven_def by blast
  have "later L (view s) (view s')"
    using bystanderD(2) [OF recovery_environment.recover_bystander [OF env] assms(3)] by simp
  from later_ok [OF this assms(2)] q(5) have v: "valid_evidence L v" by (auto simp: repo_ok_def evidence_ok_def)
  then have "v_observed_state v = ObservedInstanceState.STOPPED" by (simp add: valid_evidence_def)
  with p q v proposal_evolves_fields(2) [OF q(2)] show ?thesis by metis
qed

text \<open>C10: Recovery hands a run back for execution only on a stored human approval of that very
  proposal, run, action, target and evidence, for a run that was APPROVED during the call, and only
  when its action had no registered owner during the call.\<close>

theorem recovery_ready_needs_approval:
  assumes "durable_truth L R view rest" and "repo_ok L (view s)"
    and "recover L (recovery_system L R target settings lease_seconds) request (s, w) = (Inr (Succeeded x), s', w')"
    and "ro_action x = READY_FOR_EXECUTION"
  shows "\<exists>p a. rq_proposal_id request = Some (p_proposal_id p)
    \<and> dget (d_proposals (view s')) (p_proposal_id p) = Some p
    \<and> dget (d_approvals (view s')) (p_proposal_id p) = Some a
    \<and> a_decision a = ApprovalDecision.APPROVED \<and> a_run_id a = rq_run_id request
    \<and> a_action a = p_action p \<and> a_target a = p_target p \<and> a_evidence_hash a = p_evidence_hash p
    \<and> (\<exists>d r. later L (view s) d \<and> later L d (view s') \<and> dget (d_runs d) (rq_run_id request) = Some r
        \<and> r_state r = WorkflowState.APPROVED)
    \<and> (\<exists>d. later L (view s) d \<and> later L d (view s') \<and> dget (d_idempotency d) (derive_idempotency_key L p) = None)"
proof -
  note env = recovery_system_environment [OF assms(1), of target settings lease_seconds]
  have "readiness_founded L (view s) request x (view s')"
    using recovery_environment.recover_founded [OF env _ assms(3)] assms(2) by (simp add: founded_def)
  from this [unfolded readiness_founded_def, rule_format, OF assms(4)] obtain p q a where
    p: "rq_proposal_id request = Some (p_proposal_id p)" "dget (d_proposals (view s')) (p_proposal_id p) = Some q"
      "proposal_evolves p q" "dget (d_approvals (view s')) (p_proposal_id p) = Some a"
      "a_decision a = ApprovalDecision.APPROVED" "a_run_id a = rq_run_id request" "a_action a = p_action p"
      "a_target a = p_target p" "a_evidence_hash a = p_evidence_hash p"
    and m: "\<exists>d1 r. later L (view s) d1 \<and> dget (d_runs d1) (rq_run_id request) = Some r
             \<and> r_state r = WorkflowState.APPROVED \<and> later L d1 (view s')"
      "\<exists>d1. later L (view s) d1 \<and> dget (d_idempotency d1) (derive_idempotency_key L p) = None \<and> later L d1 (view s')"
    by blast
  note f = proposal_evolves_fields [OF p(3)]
  show ?thesis
    by (intro exI [of _ q] exI [of _ a]) (use p m f in \<open>simp, blast\<close>)
qed

end
