(* ===== verification/Recovery_Frame.thy ===== *)
theory Recovery_Frame
  imports Recovery_System
begin

text \<open>
  What reconciliation may do to the store: two contracts of a repository (a property of the state
  that reads and audit events keep, one that the writes of a reconciliation keep too), under which
  the verification and the recovery coordinator keep the property as a whole.  Instantiated with
  the frame of recovery (it neither approves nor executes nor takes an idempotency owner) and with
  the situation recovery cannot leave.
\<close>

subsection \<open>What reconciliation may do to the store\<close>

text \<open>A property of the state that reads, audit events and checkpoints keep.\<close>

locale audited_store =
  fixes I :: "'s \<Rightarrow> bool" and R :: "'s DurableTruthRepository"
  assumes keeps_get_run: "keeps I (op_get_run R rid)"
    and keeps_get_proposal: "keeps I (op_get_proposal R pid)"
    and keeps_get_approval: "keeps I (op_get_approval R pid)"
    and keeps_get_idempotency: "keeps I (op_get_idempotency R key)"
    and keeps_get_checkpoint: "keeps I (op_get_checkpoint R rid)"
    and keeps_get_evidence: "keeps I (op_get_verification_evidence R rid pid)"
    and keeps_save_checkpoint: "keeps I (op_save_checkpoint R c v)"
    and keeps_append: "keeps I (op_append_audit_event R e)"

text \<open>
  One that the writes of a reconciliation keep too: transitions that neither approve nor execute,
  results, and proofs.
\<close>

locale reconciled_store = audited_store I R for I :: "'s \<Rightarrow> bool" and R :: "'s DurableTruthRepository" +
  assumes keeps_transition: "st \<notin> {WorkflowState.APPROVED, WorkflowState.EXECUTING} \<Longrightarrow>
      keeps I (op_transition_run R rid st es ev t ap vp)"
    and keeps_complete: "keeps I (op_complete_idempotency R key res t)"
    and keeps_create_evidence: "keeps I (op_create_verification_evidence R v)"

lemma keeps_control_result [keeps_intros]:
  "(\<And>v. keeps I (k v)) \<Longrightarrow> (\<And>f. keeps I (h f)) \<Longrightarrow>
   keeps I (case x of Succeeded v \<Rightarrow> k v | Failed f \<Rightarrow> h f)"
  by (simp split: ControlResult.splits)

lemma keeps_storage_error:
  "keeps I m \<Longrightarrow> keeps I g \<Longrightarrow> (\<And>x. keeps I (k x)) \<Longrightarrow> keeps I (tryThen m (on_storage_error g) k)"
  by (rule keeps_tryThen) (auto dest: on_storage_error_Some)

lemma keeps_value_error:
  "keeps I m \<Longrightarrow> keeps I g \<Longrightarrow> (\<And>x. keeps I (k x)) \<Longrightarrow> keeps I (tryThen m (on_value_error g) k)"
  by (rule keeps_tryThen) (auto dest: on_value_error_Some)

lemma failure_state_neither: "workflow_state_for_failure f \<notin> {WorkflowState.APPROVED, WorkflowState.EXECUTING}"
  by (cases "f_kind f") (simp_all add: workflow_state_for_failure_def)

context audited_store begin

lemmas keeps_reads = keeps_get_run keeps_get_proposal keeps_get_approval keeps_get_idempotency
  keeps_get_checkpoint keeps_get_evidence

lemma keeps_emit: "keeps I clk \<Longrightarrow> keeps I ids \<Longrightarrow> keeps I (emit_event R clk ids source tool rid ty h md)"
  unfolding emit_event_def by (intro keeps_intros keeps_append)

end


text \<open>The two coordinators over such a store; their other collaborators keep the property.\<close>

locale reconciliation = reconciled_store I R for I :: "'s \<Rightarrow> bool" and R :: "'s DurableTruthRepository" +
  fixes V :: "'s BoundedVerificationCoordinator" and C :: "'s RecoveryCoordinator"
  assumes verifier: "vr_repository V = R" "keeps I (vr_clock V)" "keeps I (vr_sleeper V n)"
      "keeps I (vr_event_id_factory V)" "keeps I (vr_evidence_id_factory V)"
      "keeps I (sv_inspect_result (vr_service V) i idn)"
    and recoverer: "rc_repository C = R" "keeps I (rc_clock C)" "keeps I (rc_sleeper C n)"
      "keeps I (rc_event_id_factory C)" "keeps I (rc_recovery_id_factory C)" "keeps I (rc_evidence_id_factory C)"
    and collaborators: "rc_approval_reconstructor C = Some f \<Longrightarrow> keeps I (f pid)"
      "rc_readback_service C = Some S \<Longrightarrow> S = vr_service V"
begin

lemmas keeps_steps = keeps_storage_error keeps_value_error keeps_reads keeps_append keeps_save_checkpoint keeps_complete
  keeps_create_evidence keeps_transition verifier recoverer keeps_emit

lemma keeps_verification_parts [keeps_intros]:
  "keeps I (verification_failed kind reason message b)"
  "keeps I (verification_append_event V run ty h md)"
  unfolding verification_failed_def verification_append_event_def verifier(1)
  by (intro keeps_steps keeps_intros)+

lemma keeps_verification_mark [keeps_intros]: "keeps I (verification_mark_recovery V run)"
  unfolding verification_mark_recovery_def verifier(1)
  by (intro keeps_steps keeps_intros) simp_all

lemma keeps_fail_verification [keeps_intros]: "keeps I (fail_verification V run key f)"
  unfolding fail_verification_def verifier(1)
  by (intro keeps_steps keeps_intros failure_state_neither)

lemma keeps_close_verified [keeps_intros]: "keeps I (close_verified V run pid v md)"
  unfolding close_verified_def verifier(1) by (intro keeps_steps keeps_intros) simp_all

lemma keeps_persist_success [keeps_intros]: "keeps I (persist_success L V run p k v)"
  unfolding persist_success_def verifier(1)
  by (intro keeps_steps keeps_intros)

lemma keeps_finalize [keeps_intros]: "keeps I (finalize_existing_evidence V run pid)"
  unfolding finalize_existing_evidence_def verifier(1)
  by (intro keeps_steps keeps_intros)

lemma keeps_reconcile_success [keeps_intros]: "keeps I (reconcile_success V run pid)"
  unfolding reconcile_success_def verifier(1)
  by (intro keeps_steps keeps_intros; auto split: if_splits intro!: keeps_intros)

lemma keeps_observe: "keeps I (observe L (vr_service V) p idn t n)"
  unfolding observe_def by (intro keeps_steps keeps_intros)

lemma keeps_poll: "keeps I (poll L V run p idem k idn pid attempts)"
proof (induction attempts)
  case (Cons a as)
  show ?case unfolding poll.simps
    by (intro keeps_steps keeps_intros keeps_observe Cons.IH)
qed (auto intro: keeps_intros)

lemma keeps_verify: "keeps I (verify L V pid)"
proof -
  have start: "keeps I (verification_start L V pid)"
    unfolding verification_start_def verifier(1) by (intro keeps_steps keeps_intros)
  have ack: "keeps I (verify_acknowledged L V pid p run idem k)" for p run idem k
    unfolding verify_acknowledged_def
    by (intro keeps_steps keeps_intros keeps_poll)
  have found: "keeps I (verify_found L V pid p run known)" for p run known
    unfolding verify_found_def by (intro keeps_steps keeps_intros ack)
  have "keeps I (case x of NoProposal \<Rightarrow> verification_failed FailureKind.VALIDATION_FAILURE
            ''VERIFICATION_PROPOSAL_NOT_FOUND'' ''Durable proposal is required for verification'' False
        | NoRun \<Rightarrow> verification_failed FailureKind.RECOVERY_REQUIREMENT
            ''VERIFICATION_RUN_NOT_FOUND'' ''Durable run is required for verification'' False
        | Found proposal run known \<Rightarrow> verify_found L V pid proposal run known)" for x
    by (cases x) (auto intro: keeps_intros found)
  then show ?thesis unfolding verify_def
    by (intro keeps_tryThen start) (auto split: if_splits intro!: keeps_intros)
qed


subsection \<open>Recovery keeps what reconciliation keeps\<close>

lemma keeps_recovery_parts [keeps_intros]:
  "keeps I (recovery_append_event C run p ty rcode h)"
  "keeps I (recovery_plain_failure kind reason message b)"
  unfolding recovery_append_event_def recovery_plain_failure_def recoverer(1)
  by (intro keeps_steps keeps_intros)+

lemma keeps_outcome [keeps_intros]: "keeps I (recovery_outcome L C run p st a c reason ds)"
  unfolding recovery_outcome_def recoverer(1) by (intro keeps_steps keeps_intros)

lemma keeps_operator [keeps_intros]: "keeps I (operator_required L C run p c message seen)"
  unfolding operator_required_def by (rule keeps_outcome)

lemma keeps_audited [keeps_intros]: "keeps I (audited_failure L C run p f)"
  unfolding audited_failure_def by (intro keeps_steps keeps_intros)

lemma keeps_load: "keeps I (load_recovery_snapshot L C request)"
  unfolding load_recovery_snapshot_def recoverer(1) Let_def
  by (intro keeps_steps keeps_intros) (auto split: if_splits intro!: keeps_intros)

lemma keeps_claim: "keeps I (claim_active_recovery L C sn)"
  unfolding claim_active_recovery_def recoverer(1)
  by (intro keeps_steps keeps_intros) (auto split: if_splits intro!: keeps_intros)

lemma keeps_mark [keeps_intros]: "keeps I (recovery_mark_required C run)"
  unfolding recovery_mark_required_def recoverer(1)
  by (intro keeps_steps keeps_intros) simp_all

lemma keeps_enter [keeps_intros]: "keeps I (enter_verifying C run)"
  unfolding enter_verifying_def recoverer(1) by (intro keeps_steps keeps_intros) simp_all

lemma keeps_with_proposal [keeps_intros]: "(\<And>p. keeps I (k p)) \<Longrightarrow> keeps I (with_proposal sn k)"
  unfolding with_proposal_def by (intro keeps_intros)

lemma keeps_run_reconciler [keeps_intros]:
  assumes "rc_verification_reconciler C = Some (verify L V)"
  shows "keeps I (run_reconciler L C reported run p u c reason)"
  unfolding run_reconciler_def assms option.case by (intro keeps_intros keeps_verify)

lemma keeps_close_recovered [keeps_intros]: "keeps I (close_recovered L C p v run)"
  unfolding close_recovered_def recoverer(1) by (intro keeps_steps keeps_intros) simp_all

lemma keeps_complete_recovered [keeps_intros]: "keeps I (complete_from_recovery_observation L C sn v)"
  unfolding complete_from_recovery_observation_def Let_def by (intro keeps_steps keeps_intros)

lemma keeps_observation [keeps_intros]: "keeps I (append_observation_event C run p v)"
  unfolding append_observation_event_def by (intro keeps_steps keeps_intros)

lemma keeps_read_back: "keeps I (read_back L C (vr_service V) sn p idn seen attempts)"
proof (induction attempts arbitrary: seen)
  case (Cons a as)
  show ?case unfolding read_back.simps Let_def by (intro keeps_steps keeps_intros keeps_observe Cons.IH)
qed (auto intro!: keeps_intros split: option.splits)

lemma keeps_missing_ack [keeps_intros]: "keeps I (reconcile_missing_ack L C sn)"
  unfolding reconcile_missing_ack_def
  by (intro keeps_intros) (use collaborators(2) keeps_read_back in blast)

lemma keeps_close_existing [keeps_intros]: "keeps I (close_existing C run pid)"
  unfolding close_existing_def recoverer(1) by (intro keeps_steps keeps_intros) simp_all

lemma keeps_return_verified [keeps_intros]: "keeps I (return_verified L C sn)"
  unfolding return_verified_def by (intro keeps_steps keeps_intros)

lemma keeps_under_claim [keeps_intros]: "keeps I k \<Longrightarrow> keeps I (under_claim L C sn p k)"
  unfolding under_claim_def by (intro keeps_intros keeps_claim)

lemma keeps_recover:
  assumes "rc_verification_reconciler C = Some (verify L V)"
  shows "keeps I (recover L C request)"
proof -
  note r = keeps_run_reconciler [OF assms]
  have "keeps I (recover_awaiting_approval L C sn)" "keeps I (recover_approved L C sn)" for sn
    unfolding recover_awaiting_approval_def recover_approved_def Let_def
    by (intro keeps_intros collaborators(1); assumption)+
  moreover have "keeps I (resume_from_durable_ack L C sn)" for sn
    unfolding resume_from_durable_ack_def by (intro keeps_steps keeps_intros r)
  moreover from this have "keeps I (recover_execution L C sn)" for sn
    unfolding recover_execution_def Let_def by (intro keeps_intros)
  moreover have "keeps I (recover_verification L C sn)" for sn
    unfolding recover_verification_def Let_def by (intro keeps_intros r)
  ultimately have "keeps I (recover_snapshot L C sn)" for sn
    unfolding recover_snapshot_def Let_def
    by (cases "r_state (sn_run sn)"; simp only: WorkflowState.case; intro keeps_intros)
  then show ?thesis unfolding recover_def by (intro keeps_intros keeps_load)
qed

end

subsection \<open>Recovery neither approves, executes nor takes an owner\<close>

text \<open>What a recovery leaves of the store \<open>d0\<close> it started from.\<close>

definition recovery_frame :: "Repo \<Rightarrow> Repo \<Rightarrow> bool" where
  "recovery_frame d0 d \<longleftrightarrow> d_proposals d = d_proposals d0 \<and> d_approvals d = d_approvals d0
     \<and> map fst (d_idempotency d) = map fst (d_idempotency d0)
     \<and> (\<forall>rid r. dget (d_runs d) rid = Some r
          \<and> r_state r \<in> {WorkflowState.APPROVED, WorkflowState.EXECUTING} \<longrightarrow> dget (d_runs d0) rid = Some r)"

text \<open>The records other than checkpoints and audit events.\<close>

definition records_stay :: "Repo \<Rightarrow> Repo \<Rightarrow> bool" where
  "records_stay d0 d \<longleftrightarrow> d_runs d = d_runs d0 \<and> d_proposals d = d_proposals d0 \<and> d_approvals d = d_approvals d0
     \<and> d_idempotency d = d_idempotency d0 \<and> d_verification_evidence d = d_verification_evidence d0"

lemma keeps_store_side: "keeps I op \<Longrightarrow> keeps (I \<circ> fst) (on_store op)"
  by (auto simp: keeps_def on_store_def split: prod.splits)

lemma keeps_on_process: "keeps (I \<circ> fst) (on_process m)"
  by (auto simp: keeps_def on_process_def split: prod.splits)

lemma keeps_mem_reads:
  "keeps I (repo_get_run rid)" "keeps I (repo_get_proposal pid)" "keeps I (repo_get_approval pid)"
  "keeps I (repo_get_idempotency key)" "keeps I (repo_get_checkpoint rid)"
  "keeps I (repo_get_verification_evidence rid pid)"
  by (simp_all add: keeps_def mem_reads)

lemma keeps_trails:
  assumes "\<And>d f. I d \<Longrightarrow> I (d\<lparr>d_checkpoints := f\<rparr>)" and "\<And>d f. I d \<Longrightarrow> I (d\<lparr>d_audit_events := f\<rparr>)"
  shows "keeps I (repo_save_checkpoint c v)" "keeps I (repo_append_audit_event e)"
  using assms by (auto simp: keeps_def repo_save_checkpoint_def repo_append_audit_event_def Let_def raise_def
      split: option.splits)

lemma map_fst_dput: "dget d k \<noteq> None \<Longrightarrow> map fst (dput k v d) = map fst d"
  by (induction d) auto

lemma keeps_records_trails:
  "keeps (records_stay d0) (repo_save_checkpoint c v)" "keeps (records_stay d0) (repo_append_audit_event e)"
  by (rule keeps_trails; simp add: records_stay_def)+

lemma keeps_frame_trails:
  "keeps (recovery_frame d0) (repo_save_checkpoint c v)" "keeps (recovery_frame d0) (repo_append_audit_event e)"
  by (rule keeps_trails; simp add: recovery_frame_def)+

interpretation trails: audited_store "records_stay d0 \<circ> fst" "store_side (mem_repository L)" for d0 L
  by unfold_locales (simp_all add: store_side_def mem_repository_def keeps_store_side keeps_mem_reads
      keeps_records_trails)

lemma keeps_frame_transition:
  assumes "st \<notin> {WorkflowState.APPROVED, WorkflowState.EXECUTING}"
  shows "keeps (recovery_frame d0) (repo_transition_run L rid st es ev t ap vp)"
proof -
  have "r_state u = st" if "transition_run r st t = Inr u" for r u
    using that by (auto dest: transition_run_Inr)
  with assms show ?thesis
    by (auto simp: keeps_def repo_transition_run_def raise_def recovery_frame_def split: option.splits sum.splits if_splits)
qed

lemma keeps_frame_complete: "keeps (recovery_frame d0) (repo_complete_idempotency key res t es)"
  by (auto simp: keeps_def repo_complete_idempotency_def raise_def recovery_frame_def map_fst_dput
      split: option.splits sum.splits)

lemma keeps_frame_evidence: "keeps (recovery_frame d0) (repo_create_verification_evidence L v)"
  by (auto simp: keeps_def repo_create_verification_evidence_def raise_def recovery_frame_def Let_def
      split: option.splits)

interpretation reconciled: reconciliation "recovery_frame d0 \<circ> fst" "store_side (mem_repository L)"
    "verification_system (mem_repository L) target settings"
    "recovery_system L (mem_repository L) target settings lease" for d0 L target settings lease
proof unfold_locales
  note simps = store_side_def mem_repository_def keeps_store_side keeps_mem_reads
  show "keeps (recovery_frame d0 \<circ> fst) (op_save_checkpoint (store_side (mem_repository L)) c v)"
    "keeps (recovery_frame d0 \<circ> fst) (op_append_audit_event (store_side (mem_repository L)) e)" for c v e
    by (simp_all add: simps keeps_frame_trails)
  show "keeps (recovery_frame d0 \<circ> fst) (op_transition_run (store_side (mem_repository L)) rid st es ev t ap vp)"
    if "st \<notin> {WorkflowState.APPROVED, WorkflowState.EXECUTING}" for rid st es ev t ap vp
    using keeps_frame_transition [OF that] by (simp add: simps)
qed (auto simp: store_side_def mem_repository_def keeps_store_side keeps_mem_reads keeps_frame_complete
      keeps_frame_evidence keeps_on_process recovery_system_def verification_system_def Let_def)

text \<open>C12: Recovery never executes: whatever the restart request, the provider's answers and the
  failures on the way, it changes no proposal and no decision, takes no idempotency key, and
  leaves no run APPROVED or EXECUTING that was not in exactly that record before.\<close>

theorem recovery_never_executes:
  "recovery_frame d (fst (snd (recover L
     (recovery_system L (mem_repository L) target settings lease_seconds) request (d, w))))"
proof -
  have "keeps (recovery_frame d \<circ> fst)
      (recover L (recovery_system L (mem_repository L) target settings lease_seconds) request)"
    by (rule reconciled.keeps_recover) (simp add: recovery_system_def Let_def)
  from keepsD [OF this, of "(d, w)"] show ?thesis by (simp add: recovery_frame_def)
qed

subsection \<open>The recovery that cannot be finished\<close>

text \<open>Programs that keep a property of the state and never report a success.\<close>

definition refuses :: "('s \<Rightarrow> bool) \<Rightarrow> ('s, 'a ControlResult) prog \<Rightarrow> bool" where
  "refuses I m \<longleftrightarrow> (\<forall>s. I s \<longrightarrow> I (snd (m s)) \<and> (\<forall>x. fst (m s) \<noteq> Inr (Succeeded x)))"

named_theorems refuses_intros \<open>rules for handlers that never succeed\<close>

lemma refuses_failed [refuses_intros]: "refuses I (ret (Failed f))"
  by (simp add: refuses_def ret_def)

lemma refuses_raise [refuses_intros]: "refuses I (raise e)"
  by (simp add: refuses_def raise_def)

lemma refuses_andThen [refuses_intros]:
  assumes "keeps I m" and "\<And>x. refuses I (k x)"
  shows "refuses I (andThen m k)"
  using assms unfolding refuses_def keeps_def andThen_def
  by (fastforce split: prod.splits sum.splits)

lemma refuses_first:
  assumes "refuses I m" and "\<And>f. refuses I (k (Failed f))"
  shows "refuses I (andThen m k)"
  unfolding refuses_def
proof (intro allI impI)
  fix s assume "I s"
  with assms(1) have m: "I (snd (m s))" "fst (m s) \<noteq> Inr (Succeeded x)" for x by (auto simp: refuses_def)
  show "I (snd (andThen m k s)) \<and> (\<forall>x. fst (andThen m k s) \<noteq> Inr (Succeeded x))"
  proof (cases "m s")
    case (Pair r s')
    with m assms(2) show ?thesis
      by (cases r; cases "projr r") (auto simp: andThen_def refuses_def)
  qed
qed

lemma refuses_tryThen [refuses_intros]:
  assumes "keeps I m" and "\<And>e g. h e = Some g \<Longrightarrow> refuses I g" and "\<And>x. refuses I (k x)"
  shows "refuses I (tryThen m h k)"
  unfolding refuses_def
proof (intro allI impI)
  fix s assume s: "I s"
  obtain r s' where m: "m s = (r, s')" by fastforce
  with keepsD [OF assms(1) s] have "I s'" by simp
  with m assms(2,3) show "I (snd (tryThen m h k s)) \<and> (\<forall>x. fst (tryThen m h k s) \<noteq> Inr (Succeeded x))"
    by (cases r) (auto simp: tryThen_def refuses_def split: option.splits)
qed

lemma refuses_sum [refuses_intros]:
  "(\<And>y. x = Inl y \<Longrightarrow> refuses I (f y)) \<Longrightarrow> (\<And>y. x = Inr y \<Longrightarrow> refuses I (g y)) \<Longrightarrow>
   refuses I (case x of Inl y \<Rightarrow> f y | Inr y \<Rightarrow> g y)"
  by (simp split: sum.splits)

lemma refusesD: "refuses I m \<Longrightarrow> I s \<Longrightarrow> m s = (r, s') \<Longrightarrow> I s' \<and> r \<noteq> Inr (Succeeded x)"
  unfolding refuses_def by (metis fst_conv snd_conv)

context audited_store begin

lemma refuses_audited:
  assumes "rc_repository C = R" "keeps I (rc_clock C)" "keeps I (rc_event_id_factory C)"
  shows "refuses I (audited_failure L C run p f)"
  unfolding audited_failure_def recovery_append_event_def recovery_plain_failure_def assms(1)
  by (intro refuses_tryThen keeps_emit assms refuses_failed)
    (auto simp: on_storage_error_def intro: refuses_failed split: if_splits)

lemma keeps_recovery_claim:
  assumes "rc_repository C = R" "keeps I (rc_clock C)" "keeps I (rc_recovery_id_factory C)"
  shows "keeps I (claim_active_recovery L C sn)"
  unfolding claim_active_recovery_def assms(1)
  by (intro keeps_intros keeps_save_checkpoint assms) (auto split: if_splits intro!: keeps_intros)

end

lemma refuses_if [refuses_intros]:
  "(b \<Longrightarrow> refuses I m) \<Longrightarrow> (\<not> b \<Longrightarrow> refuses I m') \<Longrightarrow> refuses I (if b then m else m')"
  by simp

text \<open>Without an acknowledgement the verification stops at its prerequisites.\<close>

lemma verify_unacknowledged:
  assumes "dget (d_proposals d0) pid = Some p" and "dget (d_runs d0) (p_run_id p) = Some run"
    and "r_state run = WorkflowState.VERIFYING"
    and "dget (d_idempotency d0) (derive_idempotency_key L p) = Some i"
    and "i_execution_acknowledgement i = None"
  shows "refuses (records_stay d0 \<circ> fst) (verify L (verification_system (mem_repository L) target settings) pid)"
  using assms
  by (auto simp: refuses_def records_stay_def verify_def verification_start_def verification_system_def Let_def
      store_side_def on_store_def mem_repository_def repo_get_proposal_def repo_get_run_def
      repo_get_idempotency_def prog_defs verify_found_def verification_failed_def)

lemma stalled_snapshot:
  assumes "dget (d_proposals d0) pid = Some p" and "dget (d_runs d0) rid = Some run"
    and "r_run_id run = rid" "p_proposal_id p = pid"
    and "dget (d_idempotency d0) (derive_idempotency_key L p) = Some i"
    and "rq_run_id request = rid" "rq_proposal_id request = Some pid" and "records_stay d0 (fst s)"
  shows "\<exists>sn. load_recovery_snapshot L (recovery_system L (mem_repository L) target settings lease) request s
      = (Inr (Inr sn), s) \<and> sn_run sn = run \<and> sn_proposal sn = Some p \<and> sn_idempotency sn = Some i"
  using assms
  by (cases s) (simp add: load_recovery_snapshot_def recovery_system_def Let_def store_side_def on_store_def
      mem_repository_def repo_get_proposal_def repo_get_run_def repo_get_idempotency_def repo_get_approval_def
      repo_get_checkpoint_def repo_get_verification_evidence_def prog_defs records_stay_def)

lemma stalled_verification:
  assumes "dget (d_proposals d0) pid = Some p" "p_proposal_id p = pid"
    and "dget (d_runs d0) (p_run_id p) = Some run" "r_state run = WorkflowState.VERIFYING"
    and "dget (d_idempotency d0) (derive_idempotency_key L p) = Some i"
    and "i_status i = IdempotencyStatus.REGISTERED" "i_execution_acknowledgement i = None"
    and "sn_run sn = run" "sn_proposal sn = Some p" "sn_idempotency sn = Some i"
  shows "refuses (records_stay d0 \<circ> fst)
    (recover_verification L (recovery_system L (mem_repository L) target settings lease) sn)"
proof -
  let ?C = "recovery_system L (mem_repository L) target settings lease"
  have c: "rc_repository ?C = store_side (mem_repository L)" "keeps (records_stay d0 \<circ> fst) (rc_clock ?C)"
    "keeps (records_stay d0 \<circ> fst) (rc_event_id_factory ?C)"
    "keeps (records_stay d0 \<circ> fst) (rc_recovery_id_factory ?C)"
    "rc_verification_reconciler ?C = Some (verify L (verification_system (mem_repository L) target settings))"
    by (simp_all add: recovery_system_def Let_def keeps_on_process)
  note audited = trails.refuses_audited [OF c(1-3)]
  have "refuses (records_stay d0 \<circ> fst) (run_reconciler L ?C run run p u rc reason)" for u rc reason
    unfolding run_reconciler_def c(5) option.case assms(2)
    by (rule refuses_first, rule verify_unacknowledged [OF assms(1,3,4,5,7)]) (simp add: audited)
  moreover have "keeps (records_stay d0 \<circ> fst) (claim_active_recovery L ?C sn)"
    by (rule trails.keeps_recovery_claim [OF c(1,2,4)])
  ultimately show ?thesis
    unfolding recover_verification_def with_proposal_def Let_def assms(8-10) option.case under_claim_def
    by (simp only: assms(6) IdempotencyStatus.simps if_False)
      (intro refuses_intros audited, simp_all add: audited)
qed

text \<open>C37: A recovery that stops between its two writes can never be finished: once a run is VERIFYING
  while its registered action has no acknowledgement, every restart of it ends in a failure or an
  error, whatever the provider answers, and leaves the run, its action and all evidence as they are,
  so the next restart meets the same state.\<close>

theorem stalled_recovery_never_ends:
  assumes "repo_ok L d" and "dget (d_proposals d) pid = Some p" and "dget (d_runs d) (p_run_id p) = Some run"
    and "r_state run = WorkflowState.VERIFYING"
    and "dget (d_idempotency d) (derive_idempotency_key L p) = Some i"
    and "i_status i = IdempotencyStatus.REGISTERED" and "i_execution_acknowledgement i = None"
    and "rq_run_id request = p_run_id p" and "rq_proposal_id request = Some pid"
    and "recover L (recovery_system L (mem_repository L) target settings lease_seconds) request (d, w) = (r, d', w')"
  shows "r \<noteq> Inr (Succeeded x) \<and> d_runs d' = d_runs d \<and> d_proposals d' = d_proposals d
    \<and> d_idempotency d' = d_idempotency d \<and> d_verification_evidence d' = d_verification_evidence d"
proof -
  let ?C = "recovery_system L (mem_repository L) target settings lease_seconds"
  from assms(1-3) have ids: "p_proposal_id p = pid" "r_run_id run = p_run_id p"
    by (auto simp: repo_ok_def runs_ok_def proposals_ok_def)
  have "records_stay d (fst (d, w))" by (simp add: records_stay_def)
  from stalled_snapshot [OF assms(2,3) ids(2,1) assms(5,8,9) this] obtain sn where
    l: "load_recovery_snapshot L ?C request (d, w) = (Inr (Inr sn), d, w)"
    and sn: "sn_run sn = run" "sn_proposal sn = Some p" "sn_idempotency sn = Some i" by blast
  have c: "rc_repository ?C = store_side (mem_repository L)" "keeps (records_stay d \<circ> fst) (rc_clock ?C)"
    "keeps (records_stay d \<circ> fst) (rc_event_id_factory ?C)"
    by (simp_all add: recovery_system_def Let_def keeps_on_process)
  have v: "refuses (records_stay d \<circ> fst) (recover_snapshot L ?C sn)"
    unfolding recover_snapshot_def Let_def sn(1) assms(4) WorkflowState.case
    by (rule stalled_verification [OF assms(2) ids(1) assms(3-7) sn])
  define k where "k = (\<lambda>inconsistent. case inconsistent of
       Some f \<Rightarrow> audited_failure L ?C (sn_run sn) (sn_proposal sn) f | None \<Rightarrow> recover_snapshot L ?C sn)"
  have "refuses (records_stay d \<circ> fst) (k y)" for y
    unfolding k_def by (cases y) (simp_all add: v trails.refuses_audited [OF c])
  then have refusal: "refuses (records_stay d \<circ> fst) (andThen (lift (validate_recovery_snapshot request sn)) k)"
    by (intro refuses_andThen keeps_lift)
  have "andThen (lift (validate_recovery_snapshot request sn)) k (d, w) = (r, d', w')"
    using assms(10) l by (simp add: recover_def andThen_def k_def)
  from refusesD [OF refusal _ this, of x] show ?thesis by (simp add: records_stay_def)
qed

end
