(* ===== verification/Verification_Examples.thy ===== *)
theory Verification_Examples
  imports Verification_System Stop_Examples Plain_Metadata
begin

text \<open>
  One verification on concrete data, from the acknowledged stop to the closed run: the first read
  shows the instance stopping, the second shows it stopped. The witnesses of the claims about the
  verification coordinator evaluate this run.
\<close>

subsection \<open>The coordinator at work\<close>

definition ex_sandbox :: SandboxTarget where
  "ex_sandbox = \<lparr>st_instance_id = ''i-00000001'', st_region = ''eu-central-1'',
     st_required_tag_key = ''AIOACloudOpsSandbox'', st_required_tag_value = ''true''\<rparr>"

abbreviation ex_verifier where
  "ex_verifier \<equiv> verification_system (mem_repository ex_L) ex_sandbox (3, 1)"

definition ex_inspection :: "Ec2InstanceState \<Rightarrow> InstanceInspection" where
  "ex_inspection s = \<lparr>in_state = s, in_evidence_digest = ex_hash\<rparr>"

text \<open>The store while the stop is verified, with its audit events.\<close>

definition ex_store where
  "ex_store ws v i e evs = (ex_repo ws v ex_waiting (Some ex_approval) (Some ex_checkpoint) (Some i) e)
     \<lparr>d_audit_events := evs\<rparr>"

abbreviation "ex_verifying_run \<equiv> ex_run_at WorkflowState.VERIFYING 8"

definition ex_audit :: "char \<Rightarrow> AuditEventType \<Rightarrow> int \<Rightarrow> (string, string) dict \<Rightarrow> AuditEvent" where
  "ex_audit c ty t md = \<lparr>e_event_id = ex_uuid c, e_run_id = ex_uuid CHR ''1'', e_type = ty,
     e_timestamp = t, e_source = ''nz-verification'', e_tool_name = Some ''verify_instance_state'',
     e_model_id = None, e_redacted_payload_hash = ex_hash,
     e_metadata = run_metadata ex_verifying_run md\<rparr>"

lemma ex_audit_valid:
  assumes "clean_metadata (run_metadata ex_verifying_run md)" and "uuid7 (ex_uuid c)"
  shows "valid_audit_event (ex_audit c ty t md)"
proof -
  have "safe_metadata (run_metadata ex_verifying_run md)" by (rule clean_metadata_safe [OF assms(1)])
  moreover have "short_identifier ''nz-verification''" "short_identifier ''verify_instance_state''" by code_simp+
  ultimately show ?thesis
    using assms by (simp add: valid_audit_event_def ex_audit_def clean_metadata_def)
qed

lemma ex_appends:
  assumes "clean_metadata (run_metadata ex_verifying_run md)" and "uuid7 (ex_uuid c)"
    and "dget evs (ex_uuid CHR ''1'', ex_uuid c) = None" and "length evs < 100"
    and "vw_ids w = ex_uuid c # is" and "vw_clock w = Utc t # ts"
  shows "verification_append_event ex_verifier ex_verifying_run ty ex_hash md (ex_store ws v i e evs, w)
    = (Inr (), ex_store ws v i e (dput (ex_uuid CHR ''1'', ex_uuid c) (ex_audit c ty t md) evs),
       w\<lparr>vw_ids := is, vw_clock := ts\<rparr>)"
proof -
  have "validated valid_audit_event (ex_audit c ty t md) = Inr (ex_audit c ty t md)"
    using ex_audit_valid [OF assms(1,2)] by simp
  moreover have "repo_append_audit_event (ex_audit c ty t md) (ex_store ws v i e evs) =
      (Inr (ex_audit c ty t md), ex_store ws v i e (dput (ex_uuid CHR ''1'', ex_uuid c) (ex_audit c ty t md) evs))"
  proof -
    have "count_audit_events (ex_uuid CHR ''1'') (ex_store ws v i e evs) < 100"
      using le_less_trans [OF length_filter_le assms(4)]
      by (simp add: count_audit_events_def ex_store_def)
    then show ?thesis using assms(3)
      by (simp add: repo_append_audit_event_def ex_store_def ex_repo_def ex_audit_def MAX_AUDIT_EVENTS_PER_RUN_def)
  qed
  ultimately show ?thesis using assms(5,6)
    by (simp add: verification_append_event_def emit_event_def verification_system_def andThen_def
        on_process_def verifier_id_def verifier_clock_def store_side_def on_store_def mem_repository_def
        ret_def ex_audit_def ex_fields)
qed


lemma ex_more_uuids [simp]:
  "uuid7 (ex_uuid CHR ''7'')" "uuid7 (ex_uuid CHR ''8'')" "uuid7 (ex_uuid CHR ''9'')"
  by code_simp+

text \<open>What the four audit events of the run say.\<close>

definition ex_started :: "(string, string) dict" where
  "ex_started = [(''proposal_id'', ex_pid)]"

definition ex_seen :: "int \<Rightarrow> Ec2InstanceState \<Rightarrow> (string, string) dict" where
  "ex_seen n s = [(''attempt'', digits_int n),
     (''disposition'', VerificationDisposition_value (disposition_of s)),
     (''observed_state'', Ec2InstanceState_value s), (''proposal_id'', ex_pid)]"

definition ex_recorded :: "(string, string) dict" where
  "ex_recorded = [(''proposal_id'', ex_pid),
     (''transition_candidate'', WorkflowState_value WorkflowState.SUCCESS_WITH_EVIDENCE)]"

lemma ex_digits: "digits_int 1 = ''1''" "digits_int 2 = ''2''"
  by code_simp+

lemma ex_run_metadata:
  "run_metadata ex_verifying_run md = dmerge md [(''trace_id'', ex_uuid CHR ''2''), (''correlation_id'', ex_uuid CHR ''3'')]"
  by (simp add: run_metadata_def ex_run_at_def ex_run_def)

lemma ex_clean_started: "clean_metadata (run_metadata ex_verifying_run ex_started)"
proof -
  let ?md = "[(''proposal_id'', ex_pid), (''trace_id'', ex_uuid CHR ''2''), (''correlation_id'', ex_uuid CHR ''3'')] :: (string, string) dict"
  have "list_all (\<lambda>(k, v). plain_word k \<and> plain_word v) ?md"
    by (simp add: ex_uuid_def plain_word_def tame_chars_def sublist_code)
  moreover have "list_all (\<lambda>(k, v). \<not> list_ex (\<lambda>term. sublist term (map lower_char k)) SENSITIVE_TERMS) ?md"
    by code_simp
  moreover have "list_all (\<lambda>(k, v). short_identifier k \<and> non_empty_text v) ?md" by code_simp
  ultimately show ?thesis by (simp add: clean_metadata_def ex_run_metadata dmerge_def ex_started_def)
qed

lemma ex_clean_seen: "clean_metadata (run_metadata ex_verifying_run (ex_seen 1 STOPPING))"
proof -
  let ?md = "[(''attempt'', ''1''), (''disposition'', ''STILL_TRANSITIONING''), (''observed_state'', ''stopping''), (''proposal_id'', ex_pid), (''trace_id'', ex_uuid CHR ''2''), (''correlation_id'', ex_uuid CHR ''3'')] :: (string, string) dict"
  have "list_all (\<lambda>(k, v). plain_word k \<and> plain_word v) ?md"
    by (simp add: ex_uuid_def plain_word_def tame_chars_def sublist_code)
  moreover have "list_all (\<lambda>(k, v). \<not> list_ex (\<lambda>term. sublist term (map lower_char k)) SENSITIVE_TERMS) ?md"
    by code_simp
  moreover have "list_all (\<lambda>(k, v). short_identifier k \<and> non_empty_text v) ?md" by code_simp
  ultimately show ?thesis by (simp add: clean_metadata_def ex_run_metadata dmerge_def ex_seen_def ex_digits disposition_of_def)
qed

lemma ex_clean_seen2: "clean_metadata (run_metadata ex_verifying_run (ex_seen 2 STOPPED))"
proof -
  let ?md = "[(''attempt'', ''2''), (''disposition'', ''VERIFIED''), (''observed_state'', ''stopped''), (''proposal_id'', ex_pid), (''trace_id'', ex_uuid CHR ''2''), (''correlation_id'', ex_uuid CHR ''3'')] :: (string, string) dict"
  have "list_all (\<lambda>(k, v). plain_word k \<and> plain_word v) ?md"
    by (simp add: ex_uuid_def plain_word_def tame_chars_def sublist_code)
  moreover have "list_all (\<lambda>(k, v). \<not> list_ex (\<lambda>term. sublist term (map lower_char k)) SENSITIVE_TERMS) ?md"
    by code_simp
  moreover have "list_all (\<lambda>(k, v). short_identifier k \<and> non_empty_text v) ?md" by code_simp
  ultimately show ?thesis by (simp add: clean_metadata_def ex_run_metadata dmerge_def ex_seen_def ex_digits disposition_of_def)
qed

lemma ex_clean_recorded: "clean_metadata (run_metadata ex_verifying_run ex_recorded)"
proof -
  let ?md = "[(''proposal_id'', ex_pid), (''transition_candidate'', ''SUCCESS_WITH_EVIDENCE''), (''trace_id'', ex_uuid CHR ''2''), (''correlation_id'', ex_uuid CHR ''3'')] :: (string, string) dict"
  have "list_all (\<lambda>(k, v). plain_word k \<and> plain_word v) ?md"
    by (simp add: ex_uuid_def plain_word_def tame_chars_def sublist_code)
  moreover have "list_all (\<lambda>(k, v). \<not> list_ex (\<lambda>term. sublist term (map lower_char k)) SENSITIVE_TERMS) ?md"
    by code_simp
  moreover have "list_all (\<lambda>(k, v). short_identifier k \<and> non_empty_text v) ?md" by code_simp
  ultimately show ?thesis by (simp add: clean_metadata_def ex_run_metadata dmerge_def ex_recorded_def)
qed

definition ex_observation :: "Ec2InstanceState \<Rightarrow> int \<Rightarrow> int \<Rightarrow> VerificationObservation" where
  "ex_observation s n t = \<lparr>ob_proposal_id = ex_pid, ob_run_id = ex_uuid CHR ''1'',
     ob_trace_id = ex_uuid CHR ''2'', ob_correlation_id = ex_uuid CHR ''3'', ob_target = ex_target,
     ob_disposition = disposition_of s, ob_observed_state = s, ob_observed_at = t, ob_attempt = n,
     ob_inspection_evidence_hash = ex_hash, ob_observation_hash = ex_hash\<rparr>"

lemma ex_proposal_target [simp]:
  "p_target (ex_proposal\<lparr>p_state := x\<rparr>) = ex_target" "p_proposal_id (ex_proposal\<lparr>p_state := x\<rparr>) = ex_pid"
  by (simp_all add: ex_proposal_def)

lemma ex_verification_scope: "verification_scope ex_sandbox ex_target"
  by (simp add: verification_scope_def ex_sandbox_def ex_target_def)

definition ex_identity :: InvestigationIdentity where
  "ex_identity = \<lparr>id_run_id = ex_uuid CHR ''1'', id_trace_id = ex_uuid CHR ''2'',
     id_correlation_id = ex_uuid CHR ''3''\<rparr>"

lemma ex_observation_eq:
  "\<lparr>ob_proposal_id = ex_pid, ob_run_id = id_run_id ex_identity, ob_trace_id = id_trace_id ex_identity,
    ob_correlation_id = id_correlation_id ex_identity, ob_target = ex_target,
    ob_disposition = disposition_of (in_state (ex_inspection s)), ob_observed_state = in_state (ex_inspection s),
    ob_observed_at = t, ob_attempt = n, ob_inspection_evidence_hash = in_evidence_digest (ex_inspection s),
    ob_observation_hash = ex_hash\<rparr> = ex_observation s n t"
  by (simp add: ex_observation_def ex_identity_def ex_inspection_def)

lemma ex_observation_valid: "0 < n \<Longrightarrow> valid_observation (ex_observation s n t)"
  by (simp add: valid_observation_def ex_observation_def)

lemma ex_resource: "tg_resource_id ex_target = ''i-00000001''"
  by (simp add: ex_target_def)

lemma ex_observes:
  assumes "vw_answers w = Inr (Succeeded (ex_inspection s)) # as" and "0 < n"
  shows "observe ex_L (vr_service ex_verifier) (ex_proposal\<lparr>p_state := x\<rparr>) ex_identity (Utc t) n (d, w)
    = (Inr (Succeeded (ex_observation s n t)), d,
       w\<lparr>vw_answers := as, vw_log := vw_log w @ [(''i-00000001'', Inr (Succeeded (ex_inspection s)))]\<rparr>)"
proof -
  have i: "sv_inspect_result (vr_service ex_verifier) (tg_resource_id ex_target) ex_identity (d, w) =
      (Inr (Succeeded (ex_inspection s)), d,
       w\<lparr>vw_answers := as, vw_log := vw_log w @ [(''i-00000001'', Inr (Succeeded (ex_inspection s)))]\<rparr>)"
    using assms(1) by (simp add: verification_system_def on_process_def inspect_call_def ex_resource Let_def)
  have sc: "verification_scope (sv_target (vr_service ex_verifier)) ex_target"
    by (simp add: verification_system_def ex_verification_scope)
  note v = ex_observation_valid [OF assms(2), of s t]
  show ?thesis
    unfolding observe_def ex_proposal_target if_not_P [OF sc [THEN not_not [THEN iffD2]]]
    using v by (simp add: andThen_def i ex_observation_eq lift_def ret_def validated_def utc_field_def)
qed

lemma ex_vtick: "vw_clock w = t # ts \<Longrightarrow> vr_clock ex_verifier (d, w) = (Inr t, d, w\<lparr>vw_clock := ts\<rparr>)"
  "vw_ids w = i # is \<Longrightarrow> vr_evidence_id_factory ex_verifier (d, w) = (Inr i, d, w\<lparr>vw_ids := is\<rparr>)"
  "vr_sleeper ex_verifier n (d, w) = (Inr (), d, w\<lparr>vw_sleeps := vw_sleeps w @ [n]\<rparr>)"
  by (simp_all add: verification_system_def on_process_def verifier_clock_def verifier_id_def verifier_sleep_def)

lemma ex_vsettings [simp]: "vr_max_attempts ex_verifier = 3" "vr_interval_seconds ex_verifier = 1"
  by (simp_all add: verification_system_def)

lemma ex_vrepo: "vr_repository (verification_system R target settings) = store_side R"
  by (simp add: verification_system_def)

lemma ex_vstart: "verification_start ex_L ex_verifier ex_pid (ex_store WorkflowState.VERIFYING 8 i e evs, w)
  = (Inr (Found (ex_proposal\<lparr>p_state := ProposalState.AWAITING_APPROVAL\<rparr>) ex_verifying_run (Some i)),
     ex_store WorkflowState.VERIFYING 8 i e evs, w)"
  by (simp add: verification_start_def ex_vrepo store_side_def on_store_def mem_repository_def andThen_def
      ret_def repo_get_proposal_def repo_get_run_def repo_get_idempotency_def ex_store_def ex_repo_def ex_fields)

lemma ex_vevidence:
  "repo_create_verification_evidence ex_L ex_evidence (ex_store WorkflowState.VERIFYING 8 ex_acked None evs)
    = (Inr ex_evidence, ex_store WorkflowState.VERIFYING 8 ex_acked (Some ex_evidence) evs)"
  by (simp add: repo_create_verification_evidence_def ex_store_def ex_repo_def evidence_guard_def
      acknowledgement_matches_def Let_def ex_evidence_def ex_proposal_def ex_run_at_def ex_run_def
      ex_acknowledgement_def ex_acked_def)

lemma ex_vcomplete:
  "repo_complete_idempotency ex_key ex_result (Utc 120) IdempotencyStatus.REGISTERED
      (ex_store WorkflowState.VERIFYING 8 ex_acked e evs)
    = (Inr ex_completed, ex_store WorkflowState.VERIFYING 8 ex_completed e evs)"
  using ex_valid_completed
  by (simp add: repo_complete_idempotency_def ex_store_def ex_repo_def completed_idempotency_status_def
      ex_completed_def ex_acked_def ex_registration_def ex_result_def)

lemma ex_vtransition:
  "repo_transition_run ex_L (ex_uuid CHR ''1'') WorkflowState.SUCCESS_WITH_EVIDENCE WorkflowState.VERIFYING 8
      (Utc 108) None (Some ex_pid) (ex_store WorkflowState.VERIFYING 8 ex_completed (Some ex_evidence) evs)
    = (Inr (ex_run_at WorkflowState.SUCCESS_WITH_EVIDENCE 9),
       ex_store WorkflowState.SUCCESS_WITH_EVIDENCE 9 ex_completed (Some ex_evidence) evs)"
proof -
  have t: "transition_run ex_verifying_run WorkflowState.SUCCESS_WITH_EVIDENCE (Utc 108)
      = Inr (ex_run_at WorkflowState.SUCCESS_WITH_EVIDENCE 9)"
    using ex_valid_run_at [of 9 WorkflowState.SUCCESS_WITH_EVIDENCE]
    by (simp add: transition_run_def validate_workflow_transition_def require_utc_def ex_run_at_def
        workflow_table_simps)
  have g: "success_guard ex_L (ex_store WorkflowState.VERIFYING 8 ex_completed (Some ex_evidence) evs)
      (ex_uuid CHR ''1'') WorkflowState.SUCCESS_WITH_EVIDENCE (Some ex_pid)"
    by (simp add: success_guard_def legacy_proof_valid_def ex_store_def ex_repo_def ex_proposal_def
        ex_evidence_def ex_completed_def ex_result_def)
  have r: "dget (d_runs (ex_store WorkflowState.VERIFYING 8 ex_completed (Some ex_evidence) evs))
      (ex_uuid CHR ''1'') = Some ex_verifying_run" by (simp add: ex_store_def ex_repo_def)
  show ?thesis
    using t g r by (simp add: repo_transition_run_def ex_guard_free) (simp add: ex_store_def ex_repo_def)
qed

lemma ex_vcreated: "create_evidence_at ex_L (ex_uuid CHR ''5'') (ex_proposal\<lparr>p_state := x\<rparr>) ex_verifying_run
    (Utc 118) ex_acknowledgement ex_hash = Inr ex_evidence"
  using ex_valid_evidence
  by (simp add: create_evidence_at_def VerificationEvidence_create_def Let_def)
    (simp add: ex_evidence_def ex_proposal_def ex_run_at_def ex_run_def ex_acknowledgement_def)


lemma ex_appends_seen:
  assumes "clean_metadata (run_metadata ex_verifying_run (ex_seen n s))" and "uuid7 (ex_uuid c)"
    and "dget evs (ex_uuid CHR ''1'', ex_uuid c) = None" and "length evs < 100"
    and "vw_ids w = ex_uuid c # is" and "vw_clock w = Utc t # ts"
  shows "verification_append_event ex_verifier ex_verifying_run AuditEventType.VERIFICATION_OBSERVED
      (ob_observation_hash (ex_observation s n u))
      [(''attempt'', digits_int n),
       (''disposition'', VerificationDisposition_value (ob_disposition (ex_observation s n u))),
       (''observed_state'', Ec2InstanceState_value (ob_observed_state (ex_observation s n u))),
       (''proposal_id'', ex_pid)] (ex_store ws v i e evs, w)
    = (Inr (), ex_store ws v i e (dput (ex_uuid CHR ''1'', ex_uuid c)
        (ex_audit c AuditEventType.VERIFICATION_OBSERVED t (ex_seen n s)) evs), w\<lparr>vw_ids := is, vw_clock := ts\<rparr>)"
  using ex_appends [OF assms] by (simp add: ex_seen_def ex_observation_def)

definition ex_events :: "nat \<Rightarrow> (uuid \<times> uuid, AuditEvent) dict" where
  "ex_events n = foldl (\<lambda>evs (c, ty, t, md). dput (ex_uuid CHR ''1'', ex_uuid c) (ex_audit c ty t md) evs) []
     (take n [(CHR ''6'', AuditEventType.VERIFICATION_STARTED, 120, ex_started),
      (CHR ''7'', AuditEventType.VERIFICATION_OBSERVED, 122, ex_seen 1 STOPPING),
      (CHR ''8'', AuditEventType.VERIFICATION_OBSERVED, 124, ex_seen 2 STOPPED),
      (CHR ''9'', AuditEventType.VERIFICATION_RECORDED, 127, ex_recorded)])"

lemma ex_events_step:
  "ex_events 0 = []"
  "dput (ex_uuid CHR ''1'', ex_uuid CHR ''6'') (ex_audit CHR ''6'' AuditEventType.VERIFICATION_STARTED 120 ex_started) (ex_events 0) = ex_events 1"
  "dput (ex_uuid CHR ''1'', ex_uuid CHR ''7'') (ex_audit CHR ''7'' AuditEventType.VERIFICATION_OBSERVED 122 (ex_seen 1 STOPPING)) (ex_events 1) = ex_events 2"
  "dput (ex_uuid CHR ''1'', ex_uuid CHR ''8'') (ex_audit CHR ''8'' AuditEventType.VERIFICATION_OBSERVED 124 (ex_seen 2 STOPPED)) (ex_events 2) = ex_events 3"
  "dput (ex_uuid CHR ''1'', ex_uuid CHR ''9'') (ex_audit CHR ''9'' AuditEventType.VERIFICATION_RECORDED 127 ex_recorded) (ex_events 3) = ex_events 4"
  by (simp_all add: ex_events_def eval_nat_numeral)

lemma ex_events_free:
  "dget (ex_events 0) (ex_uuid CHR ''1'', ex_uuid CHR ''6'') = None" "length (ex_events 0) < 100"
  "dget (ex_events 1) (ex_uuid CHR ''1'', ex_uuid CHR ''7'') = None" "length (ex_events 1) < 100"
  "dget (ex_events 2) (ex_uuid CHR ''1'', ex_uuid CHR ''8'') = None" "length (ex_events 2) < 100"
  "dget (ex_events 3) (ex_uuid CHR ''1'', ex_uuid CHR ''9'') = None" "length (ex_events 3) < 100"
  by (simp_all add: ex_events_def eval_nat_numeral ex_uuid_def)

abbreviation ex_v where "ex_v evs \<equiv> ex_store WorkflowState.VERIFYING 8 ex_acked None evs"
abbreviation ex_awaiting where
  "ex_awaiting \<equiv> ex_proposal\<lparr>p_state := ProposalState.AWAITING_APPROVAL\<rparr>"

lemma ex_appends_recorded:
  assumes "vw_ids w = ex_uuid CHR ''9'' # is" and "vw_clock w = Utc 127 # ts"
  shows "verification_append_event ex_verifier ex_verifying_run AuditEventType.VERIFICATION_RECORDED ex_hash
      ex_recorded (ex_store ws v i e (ex_events 3), w)
    = (Inr (), ex_store ws v i e (ex_events 4), w\<lparr>vw_ids := is, vw_clock := ts\<rparr>)"
  using ex_appends [OF ex_clean_recorded ex_more_uuids(3) ex_events_free(7,8) assms,
      of AuditEventType.VERIFICATION_RECORDED ws v i e] by (simp only: ex_events_step)

lemma ex_closes:
  assumes "vw_ids w = [ex_uuid CHR ''9'']" and "vw_clock w = [Utc 127, Utc 108]"
  shows "close_verified ex_verifier ex_verifying_run ex_pid ex_evidence
     [(''proposal_id'', ex_pid), (''transition_candidate'', WorkflowState_value WorkflowState.SUCCESS_WITH_EVIDENCE)]
     (ex_store WorkflowState.VERIFYING 8 ex_completed (Some ex_evidence) (ex_events 3), w)
   = (Inr (), ex_store WorkflowState.SUCCESS_WITH_EVIDENCE 9 ex_completed (Some ex_evidence) (ex_events 4),
      w\<lparr>vw_ids := [], vw_clock := []\<rparr>)"
proof -
  have h: "v_evidence_hash ex_evidence = ex_hash" by (simp add: ex_evidence_def)
  have r: "r_run_id ex_verifying_run = ex_uuid CHR ''1''" "r_version ex_verifying_run = 8"
    by (simp_all add: ex_run_at_def ex_run_def)
  have t: "op_transition_run (vr_repository ex_verifier) (ex_uuid CHR ''1'') WorkflowState.SUCCESS_WITH_EVIDENCE
      WorkflowState.VERIFYING 8 (Utc 108) None (Some ex_pid)
      (ex_store WorkflowState.VERIFYING 8 ex_completed (Some ex_evidence) (ex_events 4), z)
     = (Inr (ex_run_at WorkflowState.SUCCESS_WITH_EVIDENCE 9),
        ex_store WorkflowState.SUCCESS_WITH_EVIDENCE 9 ex_completed (Some ex_evidence) (ex_events 4), z)" for z
    using ex_vtransition [of "ex_events 4"] by (simp add: ex_vrepo store_side_def on_store_def mem_repository_def)
  show ?thesis
    unfolding close_verified_def h r ex_recorded_def [symmetric]
    using assms by (simp add: andThen_def ex_appends_recorded [OF assms] t ex_vtick ret_def)
qed


lemma ex_persists:
  assumes "vw_ids w = [ex_uuid CHR ''5'', ex_uuid CHR ''9'']"
    and "vw_clock w = [Utc 118, Utc 120, Utc 127, Utc 108]"
  shows "persist_success ex_L ex_verifier ex_verifying_run ex_awaiting ex_acknowledgement
      (ex_observation STOPPED n t) (ex_v (ex_events 3), w)
    = (Inr (Succeeded \<lparr>vc_evidence = ex_evidence, vc_attempts = n, vc_reconciled = False\<rparr>),
       ex_store WorkflowState.SUCCESS_WITH_EVIDENCE 9 ex_completed (Some ex_evidence) (ex_events 4),
       w\<lparr>vw_ids := [], vw_clock := []\<rparr>)"
proof -
  have h: "v_evidence_hash ex_evidence = ex_hash" by (simp add: ex_evidence_def)
  have b: "ob_observation_hash (ex_observation STOPPED n t) = ex_hash" "ob_attempt (ex_observation STOPPED n t) = n"
    by (simp_all add: ex_observation_def)
  have k: "derive_idempotency_key ex_L ex_awaiting = ex_key" using ex_fields by simp
  have r: "validated valid_action_result \<lparr>ar_outcome = ActionOutcome.SUCCEEDED,
      ar_observed_state = Some ObservedInstanceState.STOPPED, ar_evidence_hash = Some ex_hash,
      ar_failure = None\<rparr> = Inr ex_result"
    by (simp add: validated_def valid_action_result_def ex_result_def)
  have c: "op_create_verification_evidence (vr_repository ex_verifier) ex_evidence (ex_v evs, z)
      = (Inr ex_evidence, ex_store WorkflowState.VERIFYING 8 ex_acked (Some ex_evidence) evs, z)" for evs z
    using ex_vevidence by (simp add: ex_vrepo store_side_def on_store_def mem_repository_def)
  have i: "op_complete_idempotency (vr_repository ex_verifier) ex_key ex_result (Utc 120)
        (ex_store WorkflowState.VERIFYING 8 ex_acked e evs, z)
      = (Inr ex_completed, ex_store WorkflowState.VERIFYING 8 ex_completed e evs, z)" for e evs z
    using ex_vcomplete by (simp add: ex_vrepo store_side_def on_store_def mem_repository_def)
  show ?thesis
    unfolding persist_success_def b k ex_proposal_target
    using assms by (simp add: andThen_def tryThen_def ex_vtick lift_def ex_vcreated c h r i ret_def
        ex_closes [unfolded WorkflowState_value.simps])
qed


lemma ex_dispositions:
  "ob_disposition (ex_observation STOPPING n t) = VerificationDisposition.STILL_TRANSITIONING"
  "ob_disposition (ex_observation STOPPED n t) = VerificationDisposition.VERIFIED"
  by (simp_all add: ex_observation_def disposition_of_def)

lemma ex_poll_stopping:
  assumes "vw_answers w = Inr (Succeeded (ex_inspection STOPPING)) # as" and "vw_clock w = Utc 121 # Utc 122 # ts"
    and "vw_ids w = ex_uuid CHR ''7'' # is"
  shows "poll ex_L ex_verifier ex_verifying_run ex_awaiting ex_acked ex_acknowledgement ex_identity ex_pid
      (1 # rest) (ex_v (ex_events 1), w)
    = poll ex_L ex_verifier ex_verifying_run ex_awaiting ex_acked ex_acknowledgement ex_identity ex_pid
      rest (ex_v (ex_events 2), w\<lparr>vw_answers := as, vw_log := vw_log w @ [(''i-00000001'', Inr (Succeeded (ex_inspection STOPPING)))],
        vw_ids := is, vw_clock := ts, vw_sleeps := vw_sleeps w @ [1]\<rparr>)"
proof -
  let ?w = "w\<lparr>vw_clock := Utc 122 # ts, vw_answers := as,
     vw_log := vw_log w @ [(''i-00000001'', Inr (Succeeded (ex_inspection STOPPING)))]\<rparr>"
  have o: "observe ex_L (vr_service ex_verifier) ex_awaiting ex_identity (Utc 121) 1 (ex_v (ex_events 1), w\<lparr>vw_clock := Utc 122 # ts\<rparr>)
      = (Inr (Succeeded (ex_observation STOPPING 1 121)), ex_v (ex_events 1), ?w)"
    using ex_observes [of "w\<lparr>vw_clock := Utc 122 # ts\<rparr>" STOPPING as 1 ProposalState.AWAITING_APPROVAL 121] assms(1)
    by simp
  have a: "verification_append_event ex_verifier ex_verifying_run AuditEventType.VERIFICATION_OBSERVED
      (ob_observation_hash (ex_observation STOPPING 1 121))
      [(''attempt'', digits_int 1),
       (''disposition'', VerificationDisposition_value (ob_disposition (ex_observation STOPPING 1 121))),
       (''observed_state'', Ec2InstanceState_value (ob_observed_state (ex_observation STOPPING 1 121))),
       (''proposal_id'', ex_pid)] (ex_v (ex_events 1), ?w)
    = (Inr (), ex_v (ex_events 2), ?w\<lparr>vw_ids := is, vw_clock := ts\<rparr>)"
    using ex_appends_seen [OF ex_clean_seen ex_more_uuids(1) ex_events_free(3,4), of ?w "is" 122 ts] assms(3)
    by (simp add: ex_events_step [unfolded One_nat_def])
  show ?thesis
    unfolding poll.simps andThen_def tryThen_def ex_vtick(1) [OF assms(2)] prod.case sum.case o ControlResult.case a
    by (simp add: ex_dispositions ex_vtick)
qed


lemma ex_poll_stopped:
  assumes "vw_answers w = [Inr (Succeeded (ex_inspection STOPPED))]"
    and "vw_clock w = [Utc 123, Utc 124, Utc 118, Utc 120, Utc 127, Utc 108]"
    and "vw_ids w = [ex_uuid CHR ''8'', ex_uuid CHR ''5'', ex_uuid CHR ''9'']"
  shows "poll ex_L ex_verifier ex_verifying_run ex_awaiting ex_acked ex_acknowledgement ex_identity ex_pid
      (2 # rest) (ex_v (ex_events 2), w)
    = (Inr (Succeeded \<lparr>vc_evidence = ex_evidence, vc_attempts = 2, vc_reconciled = False\<rparr>),
       ex_store WorkflowState.SUCCESS_WITH_EVIDENCE 9 ex_completed (Some ex_evidence) (ex_events 4),
       w\<lparr>vw_answers := [], vw_clock := [], vw_ids := [],
        vw_log := vw_log w @ [(''i-00000001'', Inr (Succeeded (ex_inspection STOPPED)))]\<rparr>)"
proof -
  let ?ts = "[Utc 118, Utc 120, Utc 127, Utc 108]" and ?is = "[ex_uuid CHR ''5'', ex_uuid CHR ''9'']"
  let ?w = "w\<lparr>vw_clock := Utc 124 # ?ts, vw_answers := [],
     vw_log := vw_log w @ [(''i-00000001'', Inr (Succeeded (ex_inspection STOPPED)))]\<rparr>"
  have o: "observe ex_L (vr_service ex_verifier) ex_awaiting ex_identity (Utc 123) 2 (ex_v (ex_events 2), w\<lparr>vw_clock := Utc 124 # ?ts\<rparr>)
      = (Inr (Succeeded (ex_observation STOPPED 2 123)), ex_v (ex_events 2), ?w)"
    using ex_observes [of "w\<lparr>vw_clock := Utc 124 # ?ts\<rparr>" STOPPED "[]" 2 ProposalState.AWAITING_APPROVAL 123] assms(1)
    by simp
  have a: "verification_append_event ex_verifier ex_verifying_run AuditEventType.VERIFICATION_OBSERVED
      (ob_observation_hash (ex_observation STOPPED 2 123))
      [(''attempt'', digits_int 2),
       (''disposition'', VerificationDisposition_value (ob_disposition (ex_observation STOPPED 2 123))),
       (''observed_state'', Ec2InstanceState_value (ob_observed_state (ex_observation STOPPED 2 123))),
       (''proposal_id'', ex_pid)] (ex_v (ex_events 2), ?w)
    = (Inr (), ex_v (ex_events 3), ?w\<lparr>vw_ids := ?is, vw_clock := ?ts\<rparr>)"
    using ex_appends_seen [OF ex_clean_seen2 ex_more_uuids(2) ex_events_free(5,6), of ?w ?is 124 ?ts] assms(3)
    by (simp add: ex_events_step)
  show ?thesis
    unfolding poll.simps andThen_def tryThen_def ex_vtick(1) [OF assms(2)] prod.case sum.case o ControlResult.case a
    by (simp add: ex_dispositions ex_persists)
qed

definition ex_script :: VerifierWorld where
  "ex_script = \<lparr>vw_answers = [Inr (Succeeded (ex_inspection STOPPING)), Inr (Succeeded (ex_inspection STOPPED))],
     vw_log = [], vw_clock = map Utc [120, 121, 122, 123, 124, 118, 120, 127, 108],
     vw_ids = map ex_uuid [CHR ''6'', CHR ''7'', CHR ''8'', CHR ''5'', CHR ''9''], vw_sleeps = []\<rparr>"

lemma ex_identified: "identity_from_run ex_verifying_run = Inr ex_identity"
  by (simp add: identity_from_run_def ex_run_at_def ex_run_def ex_identity_def valid_identity_def)

lemma ex_starts:
  "verification_append_event ex_verifier ex_verifying_run AuditEventType.VERIFICATION_STARTED ex_hash
      [(''proposal_id'', ex_pid)] (ex_v (ex_events 0), ex_script)
    = (Inr (), ex_v (ex_events 1), ex_script\<lparr>vw_ids := map ex_uuid [CHR ''7'', CHR ''8'', CHR ''5'', CHR ''9''],
        vw_clock := map Utc [121, 122, 123, 124, 118, 120, 127, 108]\<rparr>)"
proof -
  have "uuid7 (ex_uuid CHR ''6'')" by code_simp
  note s = ex_appends [OF ex_clean_started this ex_events_free(1,2)]
  show ?thesis unfolding ex_started_def [symmetric]
    by (subst s) (simp_all add: ex_script_def, simp add: ex_events_def)
qed

lemma ex_verified:
  "verify ex_L ex_verifier ex_pid (ex_v (ex_events 0), ex_script) =
     (Inr (Succeeded \<lparr>vc_evidence = ex_evidence, vc_attempts = 2, vc_reconciled = False\<rparr>),
      ex_store WorkflowState.SUCCESS_WITH_EVIDENCE 9 ex_completed (Some ex_evidence) (ex_events 4),
      ex_script\<lparr>vw_answers := [], vw_clock := [], vw_ids := [], vw_sleeps := [1],
        vw_log := map (\<lambda>s. (''i-00000001'', Inr (Succeeded (ex_inspection s)))) [STOPPING, STOPPED]\<rparr>)"
proof -
  have k: "i_execution_acknowledgement ex_acked = Some ex_acknowledgement" "i_status ex_acked = IdempotencyStatus.REGISTERED"
    "k_acknowledgement_hash ex_acknowledgement = ex_hash"
    by (simp_all add: ex_acked_def ex_registration_def ex_acknowledgement_def)
  have n: "[1..(3::int)] = [1, 2, 3]" by (simp add: upto_rec1)
  have a: "verify_acknowledged ex_L ex_verifier ex_pid ex_awaiting ex_verifying_run ex_acked ex_acknowledgement
      (ex_v (ex_events 0), ex_script) =
     (Inr (Succeeded \<lparr>vc_evidence = ex_evidence, vc_attempts = 2, vc_reconciled = False\<rparr>),
      ex_store WorkflowState.SUCCESS_WITH_EVIDENCE 9 ex_completed (Some ex_evidence) (ex_events 4),
      ex_script\<lparr>vw_answers := [], vw_clock := [], vw_ids := [], vw_sleeps := [1],
        vw_log := map (\<lambda>s. (''i-00000001'', Inr (Succeeded (ex_inspection s)))) [STOPPING, STOPPED]\<rparr>)"
    unfolding verify_acknowledged_def andThen_def tryThen_def lift_def ex_identified prod.case sum.case k
      ex_starts ex_vsettings n
    by (subst ex_poll_stopping, simp_all add: ex_script_def del: poll.simps)
      (subst ex_poll_stopped, simp_all add: ex_script_def del: poll.simps)
  show ?thesis
    unfolding verify_def tryThen_def ex_vstart prod.case sum.case VerificationStart.case verify_found_def
    using a k by simp
qed


lemma ex_before: "ex_v (ex_events 0) = ex_history ! 3"
  by (simp add: ex_history_eq ex_store_def ex_repo_def ex_events_step(1) eval_nat_numeral)

theorem verification_success_proven_witness:
  "\<exists>p r. dget (d_proposals (ex_store WorkflowState.SUCCESS_WITH_EVIDENCE 9 ex_completed (Some ex_evidence) (ex_events 4)))
      ex_pid = Some p
    \<and> dget (d_runs (ex_store WorkflowState.SUCCESS_WITH_EVIDENCE 9 ex_completed (Some ex_evidence) (ex_events 4)))
      (p_run_id p) = Some r \<and> r_state r = WorkflowState.SUCCESS_WITH_EVIDENCE
    \<and> valid_evidence ex_L ex_evidence"
proof -
  have "repo_ok ex_L (ex_v (ex_events 0))"
    unfolding ex_before by (rule repo_ok_history [OF ex_history_from [of 3]]) simp_all
  from verification_success_proven [OF mem.durable_truth_axioms this ex_verified]
  show ?thesis by auto
qed

theorem verification_reads_bounded_witness:
  "verification_settings 3 1 = Inr (3, 1)
    \<and> (\<exists>obs. map (\<lambda>s. (''i-00000001'', Inr (Succeeded (ex_inspection s)))) [STOPPING, STOPPED] = obs
        \<and> int (length obs) = 2
        \<and> (\<exists>i. stopped_read i (last obs) \<and> list_all (stopping_read i) (butlast obs)))"
proof -
  have "verification_settings 3 1 = Inr (3, 1)" by (simp add: verification_settings_def)
  with verification_reads_bounded [OF mem.durable_truth_axioms this ex_verified]
  show ?thesis by (auto simp: ex_script_def)
qed

end
