(* ===== verification/Recovery_Examples.thy ===== *)
theory Recovery_Examples
  imports Recovery_Frame Verification_Examples
begin

text \<open>
  Recovery on the example run: a restart that returns the verified result, one that hands an
  approved run back, and the store on which no restart ever succeeds.
\<close>

abbreviation "ex_recoverer \<equiv> recovery_system ex_L (mem_repository ex_L) ex_sandbox (3, 1) 60"

definition ex_restart :: RecoveryRequest where
  "ex_restart = \<lparr>rq_run_id = ex_uuid CHR ''1'', rq_proposal_id = Some ex_pid\<rparr>"

definition ex_tick :: VerifierWorld where
  "ex_tick = \<lparr>vw_answers = [], vw_log = [], vw_clock = [Utc 200], vw_ids = [ex_uuid CHR ''6''], vw_sleeps = []\<rparr>"

definition ex_recovered_event :: "AuditEventType \<Rightarrow> (string, string) dict \<Rightarrow> AuditEvent" where
  "ex_recovered_event ty md = \<lparr>e_event_id = ex_uuid CHR ''6'', e_run_id = ex_uuid CHR ''1'', e_type = ty,
     e_timestamp = 200, e_source = ''nz-recovery'', e_tool_name = None, e_model_id = None,
     e_redacted_payload_hash = ex_hash, e_metadata = md\<rparr>"

lemma ex_recovered_event_valid:
  assumes "clean_metadata md"
  shows "valid_audit_event (ex_recovered_event ty md)"
proof -
  have "short_identifier ''nz-recovery''" by code_simp
  with assms show ?thesis by (intro clean_event_valid) (simp_all add: ex_recovered_event_def)
qed

definition ex_outcome_metadata :: "RecoveryAction \<Rightarrow> WorkflowState \<Rightarrow> string \<Rightarrow> (string, string) dict" where
  "ex_outcome_metadata action s reason_code =
     [(''action'', RecoveryAction_value action), (''correlation_id'', ex_uuid CHR ''3''),
      (''initial_state'', WorkflowState_value s), (''proposal_id'', ex_pid), (''reason_code'', reason_code),
      (''trace_id'', ex_uuid CHR ''2'')]"

lemma ex_clean_ready:
  "clean_metadata (ex_outcome_metadata READY_FOR_EXECUTION WorkflowState.APPROVED ''APPROVAL_READY_NO_EXECUTION_CLAIM'')"
proof -
  let ?md = "[(''action'', ''READY_FOR_EXECUTION''), (''correlation_id'', ex_uuid CHR ''3''), (''initial_state'', ''APPROVED''), (''proposal_id'', ex_pid), (''reason_code'', ''APPROVAL_READY_NO_EXECUTION_CLAIM''), (''trace_id'', ex_uuid CHR ''2'')] :: (string, string) dict"
  have "list_all (\<lambda>(k, v). plain_word k \<and> plain_word v) ?md"
    by (simp add: ex_uuid_def plain_word_def tame_chars_def sublist_code)
  moreover have "list_all (\<lambda>(k, v). \<not> list_ex (\<lambda>term. sublist term (map lower_char k)) SENSITIVE_TERMS) ?md"
    by code_simp
  moreover have "list_all (\<lambda>(k, v). short_identifier k \<and> non_empty_text v) ?md" by code_simp
  ultimately show ?thesis
    unfolding clean_metadata_def ex_outcome_metadata_def RecoveryAction_value.simps WorkflowState_value.simps by blast
qed

lemma ex_clean_verified:
  "clean_metadata (ex_outcome_metadata RETURN_VERIFIED_RESULT WorkflowState.SUCCESS_WITH_EVIDENCE ''VERIFIED_RESULT_RETURNED_IDEMPOTENTLY'')"
proof -
  let ?md = "[(''action'', ''RETURN_VERIFIED_RESULT''), (''correlation_id'', ex_uuid CHR ''3''), (''initial_state'', ''SUCCESS_WITH_EVIDENCE''), (''proposal_id'', ex_pid), (''reason_code'', ''VERIFIED_RESULT_RETURNED_IDEMPOTENTLY''), (''trace_id'', ex_uuid CHR ''2'')] :: (string, string) dict"
  have "list_all (\<lambda>(k, v). plain_word k \<and> plain_word v) ?md"
    by (simp add: ex_uuid_def plain_word_def tame_chars_def sublist_code)
  moreover have "list_all (\<lambda>(k, v). \<not> list_ex (\<lambda>term. sublist term (map lower_char k)) SENSITIVE_TERMS) ?md"
    by code_simp
  moreover have "list_all (\<lambda>(k, v). short_identifier k \<and> non_empty_text v) ?md" by code_simp
  ultimately show ?thesis
    unfolding clean_metadata_def ex_outcome_metadata_def RecoveryAction_value.simps WorkflowState_value.simps by blast
qed

lemma ex_recoverer [simp]:
  "rc_repository ex_recoverer = store_side (mem_repository ex_L)"
  "vw_ids w = i # is \<Longrightarrow> rc_event_id_factory ex_recoverer (d, w) = (Inr i, d, w\<lparr>vw_ids := is\<rparr>)"
  "vw_clock w = t # ts \<Longrightarrow> rc_clock ex_recoverer (d, w) = (Inr t, d, w\<lparr>vw_clock := ts\<rparr>)"
  by (simp_all add: recovery_system_def Let_def on_process_def verifier_clock_def verifier_id_def)

definition ex_outcome :: "WorkflowState \<Rightarrow> RecoveryStatus \<Rightarrow> RecoveryAction \<Rightarrow> string \<Rightarrow> string \<Rightarrow> OutcomeDetails \<Rightarrow> RecoveryOutcome" where
  "ex_outcome s status action reason_code reason details =
     \<lparr>ro_run_id = ex_uuid CHR ''1'', ro_trace_id = ex_uuid CHR ''2'', ro_correlation_id = ex_uuid CHR ''3'',
      ro_proposal_id = Some ex_pid, ro_initial_state = s,
      ro_final_state = (case od_final_state details of None \<Rightarrow> s | Some t \<Rightarrow> t), ro_status = status, ro_action = action,
      ro_reason_code = reason_code, ro_reason = reason, ro_audit_event_id = ex_uuid CHR ''6'',
      ro_approval_interrupt = od_approval_interrupt details, ro_verification = od_verification details,
      ro_observed_state = od_observed_state details, ro_evidence_hash = od_evidence_hash details,
      ro_failure = od_failure details, ro_ready_for_execution = od_ready_for_execution details,
      ro_reconciled = od_reconciled details\<rparr>"

lemma ex_outcome_made:
  assumes "clean_metadata (ex_outcome_metadata action s reason_code)" "d_audit_events d = []"
    and "valid_outcome (ex_outcome s status action reason_code reason details)"
  shows "recovery_outcome ex_L ex_recoverer (ex_run_at s v) (Some (ex_proposal\<lparr>p_state := x\<rparr>)) status action reason_code reason details
      (d, ex_tick)
    = (Inr (Succeeded (ex_outcome s status action reason_code reason details)),
       d\<lparr>d_audit_events := [((ex_uuid CHR ''1'', ex_uuid CHR ''6''),
          ex_recovered_event (od_event_type details) (ex_outcome_metadata action s reason_code))]\<rparr>,
       ex_tick\<lparr>vw_ids := [], vw_clock := []\<rparr>)"
proof -
  let ?md = "ex_outcome_metadata action s reason_code" and ?ty = "od_event_type details"
  have append: "op_append_audit_event (store_side (mem_repository ex_L) :: (Repo \<times> VerifierWorld) DurableTruthRepository) = on_store \<circ> repo_append_audit_event"
    by (simp add: store_side_def mem_repository_def)
  have clock: "rc_clock ex_recoverer (d, ex_tick\<lparr>vw_ids := []\<rparr>) = (Inr (Utc 200), d, ex_tick\<lparr>vw_ids := [], vw_clock := []\<rparr>)"
    by (subst ex_recoverer(3)) (simp_all add: ex_tick_def)
  have "emit_event (store_side (mem_repository ex_L)) (rc_clock ex_recoverer) (ret (ex_uuid CHR ''6'')) ''nz-recovery'' None
      (ex_uuid CHR ''1'') ?ty ex_hash ?md (d, ex_tick\<lparr>vw_ids := []\<rparr>)
    = (Inr (), d\<lparr>d_audit_events := [((ex_uuid CHR ''1'', ex_uuid CHR ''6''), ex_recovered_event ?ty ?md)]\<rparr>,
       ex_tick\<lparr>vw_ids := [], vw_clock := []\<rparr>)"
    using ex_recovered_event_valid [OF assms(1), of ?ty] assms(2) append clock
    by (simp add: emit_event_def andThen_def ret_def ex_recovered_event_def repo_append_audit_event_def on_store_def
        count_audit_events_def MAX_AUDIT_EVENTS_PER_RUN_def)
  moreover have "rc_event_id_factory ex_recoverer (d, ex_tick) = (Inr (ex_uuid CHR ''6''), d, ex_tick\<lparr>vw_ids := []\<rparr>)"
    by (rule ex_recoverer) (simp add: ex_tick_def)
  ultimately show ?thesis
    using assms(3)
    by (cases "od_final_state details") (simp_all add: recovery_outcome_def andThen_def tryThen_def lift_def ret_def final_state_of_def proposal_label_def
        ex_outcome_metadata_def ex_outcome_def ex_run_at_def ex_run_def ex_proposal_def validated_def)
qed

lemma ex_restart_loaded:
  "load_recovery_snapshot ex_L ex_recoverer ex_restart
     (ex_repo s v ex_waiting (Some ex_approval) (Some ex_checkpoint) i e, w)
   = (Inr (Inr \<lparr>sn_run = ex_run_at s v, sn_proposal = Some ex_awaiting, sn_approval = Some ex_approval,
        sn_idempotency = i, sn_checkpoint = Some ex_checkpoint, sn_evidence = e\<rparr>),
      ex_repo s v ex_waiting (Some ex_approval) (Some ex_checkpoint) i e, w)"
  by (cases i; cases e)
    (simp_all add: load_recovery_snapshot_def recovery_system_def Let_def tryThen_def andThen_def ret_def store_side_def on_store_def
      mem_repository_def repo_get_run_def repo_get_proposal_def repo_get_checkpoint_def repo_get_approval_def
      repo_get_idempotency_def repo_get_verification_evidence_def ex_repo_def ex_restart_def ex_fields)

lemma ex_restart_valid:
  assumes "s \<noteq> WorkflowState.AWAITING_APPROVAL"
  shows "validate_recovery_snapshot ex_restart \<lparr>sn_run = ex_run_at s v, sn_proposal = Some ex_awaiting,
     sn_approval = a, sn_idempotency = i, sn_checkpoint = Some ex_checkpoint, sn_evidence = e\<rparr> = Inr None"
  using assms
  by (simp add: validate_recovery_snapshot_def Let_def validate_checkpoint_def ex_restart_def metadata_proposal_differs_def
      jget_def ex_checkpoint_def ex_fields)

lemma ex_restart_runs:
  assumes "s \<noteq> WorkflowState.AWAITING_APPROVAL"
  shows "recover ex_L ex_recoverer ex_restart (ex_repo s v ex_waiting (Some ex_approval) (Some ex_checkpoint) i e, w)
    = recover_snapshot ex_L ex_recoverer \<lparr>sn_run = ex_run_at s v, sn_proposal = Some ex_awaiting,
        sn_approval = Some ex_approval, sn_idempotency = i, sn_checkpoint = Some ex_checkpoint, sn_evidence = e\<rparr>
        (ex_repo s v ex_waiting (Some ex_approval) (Some ex_checkpoint) i e, w)"
  by (simp add: recover_def andThen_def lift_def ex_restart_loaded ex_restart_valid assms)

definition ex_ready_outcome :: RecoveryOutcome where
  "ex_ready_outcome = ex_outcome WorkflowState.APPROVED READY READY_FOR_EXECUTION ''APPROVAL_READY_NO_EXECUTION_CLAIM''
     ''Durable approval is valid and no execution ownership was claimed''
     (no_details\<lparr>od_ready_for_execution := True, od_reconciled := True\<rparr>)"

lemma ex_ready_valid: "valid_outcome ex_ready_outcome"
  by code_simp

definition ex_verified_outcome :: RecoveryOutcome where
  "ex_verified_outcome = ex_outcome WorkflowState.SUCCESS_WITH_EVIDENCE RECONCILED RETURN_VERIFIED_RESULT
     ''VERIFIED_RESULT_RETURNED_IDEMPOTENTLY''
     ''Existing durable verification proof was returned without new provider work''
     (no_details\<lparr>od_final_state := Some WorkflowState.SUCCESS_WITH_EVIDENCE, od_evidence_hash := Some ex_hash,
        od_reconciled := True, od_event_type := AuditEventType.RECOVERY_COMPLETED\<rparr>)"

lemma ex_verified_valid: "valid_outcome ex_verified_outcome"
  by code_simp

lemma ex_ready:
  "\<exists>d w. recover ex_L ex_recoverer ex_restart (ex_history ! 7, ex_tick) = (Inr (Succeeded ex_ready_outcome), d, w)
     \<and> d_runs d = d_runs (ex_history ! 7)"
proof -
  have h: "ex_history ! 7 = ex_repo WorkflowState.APPROVED 6 ex_waiting (Some ex_approval) (Some ex_checkpoint) None None"
    by (simp add: ex_history_eq)
  have m: "positive_approval_matches \<lparr>sn_run = ex_run_at WorkflowState.APPROVED 6, sn_proposal = Some ex_awaiting,
      sn_approval = Some ex_approval, sn_idempotency = None, sn_checkpoint = Some ex_checkpoint, sn_evidence = None\<rparr>"
    by (simp add: positive_approval_matches_def ex_approval_def ex_proposal_def ex_run_at_def ex_run_def)
  have a: "d_audit_events (ex_history ! 7) = []" by (simp add: h ex_repo_def)
  from ex_outcome_made [OF ex_clean_ready a ex_ready_valid [unfolded ex_ready_outcome_def],
      of 6 ProposalState.AWAITING_APPROVAL] show ?thesis
    by (simp add: h ex_restart_runs recover_snapshot_def Let_def recover_approved_def with_proposal_def m
        ex_ready_outcome_def [symmetric])
qed

lemma ex_returned:
  "\<exists>d w. recover ex_L ex_recoverer ex_restart (ex_history ! 0, ex_tick) = (Inr (Succeeded ex_verified_outcome), d, w)
     \<and> d_runs d = d_runs (ex_history ! 0)"
proof -
  have h: "ex_history ! 0 = ex_repo WorkflowState.SUCCESS_WITH_EVIDENCE 9 ex_waiting (Some ex_approval)
      (Some ex_checkpoint) (Some ex_completed) (Some ex_evidence)"
    by (simp add: ex_history_eq)
  have v: "verified_result_consistent ex_completed ex_evidence" "v_evidence_hash ex_evidence = ex_hash"
    by (simp_all add: verified_result_consistent_def ex_completed_def ex_result_def ex_evidence_def)
  have c: "close_existing ex_recoverer (ex_run_at WorkflowState.SUCCESS_WITH_EVIDENCE 9) pid s
      = (Inr (ex_run_at WorkflowState.SUCCESS_WITH_EVIDENCE 9), s)" for pid s
    by (simp add: close_existing_def andThen_def ret_def)
  have a: "d_audit_events (ex_history ! 0) = []" by (simp add: h ex_repo_def)
  from ex_outcome_made [OF ex_clean_verified a ex_verified_valid [unfolded ex_verified_outcome_def],
      of 9 ProposalState.AWAITING_APPROVAL] show ?thesis
    by (simp add: h ex_restart_runs recover_snapshot_def Let_def return_verified_def tryThen_def v c
        ex_verified_outcome_def [symmetric])
qed

lemma ex_repo_ok: "n < 18 \<Longrightarrow> repo_ok ex_L (ex_history ! n)"
  by (rule repo_ok_history [OF ex_history_from, of n]) simp_all

theorem recovery_result_proven_witness:
  "\<exists>(d :: Repo) p r v. dget (d_proposals d) ex_pid = Some p \<and> dget (d_runs d) (ex_uuid CHR ''1'') = Some r
    \<and> r_state r = WorkflowState.SUCCESS_WITH_EVIDENCE \<and> ex_hash = v_evidence_hash v \<and> valid_evidence ex_L v"
proof -
  obtain d w where "recover ex_L ex_recoverer ex_restart (ex_history ! 0, ex_tick)
      = (Inr (Succeeded ex_verified_outcome), d, w)"
    using ex_returned by blast
  from recovery_result_proven [OF mem.durable_truth_axioms ex_repo_ok this] obtain p r v where
    "dget (d_proposals d) ex_pid = Some p" "dget (d_runs d) (ex_uuid CHR ''1'') = Some r"
    "r_state r = WorkflowState.SUCCESS_WITH_EVIDENCE" "ex_hash = v_evidence_hash v" "valid_evidence ex_L v"
    by (auto simp: ex_verified_outcome_def ex_outcome_def ex_restart_def no_details_def)
  then show ?thesis by (intro exI [of _ d] exI [of _ p] exI [of _ r] exI [of _ v] conjI)
qed

theorem recovery_ready_needs_approval_witness:
  "\<exists>(d :: Repo) a. dget (d_approvals d) ex_pid = Some a \<and> a_decision a = ApprovalDecision.APPROVED
    \<and> a_run_id a = ex_uuid CHR ''1''"
proof -
  obtain d w where "recover ex_L ex_recoverer ex_restart (ex_history ! 7, ex_tick)
      = (Inr (Succeeded ex_ready_outcome), d, w)"
    using ex_ready by blast
  from recovery_ready_needs_approval [OF mem.durable_truth_axioms ex_repo_ok this] obtain a where
    "dget (d_approvals d) ex_pid = Some a" "a_decision a = ApprovalDecision.APPROVED" "a_run_id a = ex_uuid CHR ''1''"
    by (auto simp: ex_ready_outcome_def ex_outcome_def ex_restart_def)
  then show ?thesis by (intro exI [of _ d] exI [of _ a] conjI)
qed

text \<open>The store after a process ended between the two writes of a recovery.\<close>

definition ex_stalled :: Repo where
  "ex_stalled = ex_repo WorkflowState.VERIFYING 8 ex_waiting (Some ex_approval) (Some ex_checkpoint)
     (Some ex_registration) None"

lemma ex_stalled_ok: "repo_ok ex_L ex_stalled"
proof -
  have "ex_stalled = ex_move WorkflowState.EXECUTING WorkflowState.VERIFYING 7 None None (ex_history ! 5)"
    by (simp add: ex_history_eq ex_move_eq ex_guard_free workflow_table_simps ex_stalled_def)
  then have "repo_write ex_L (ex_history ! 5) ex_stalled"
    unfolding ex_move_def by (metis repo_write.transition_run surjective_pairing)
  from repo_ok_write [OF this ex_repo_ok] show ?thesis by simp
qed

theorem stalled_recovery_never_ends_witness:
  "\<forall>x. fst (recover ex_L ex_recoverer ex_restart (ex_stalled, ex_tick)) \<noteq> Inr (Succeeded x)"
proof
  fix x
  obtain r d' w' where run: "recover ex_L ex_recoverer ex_restart (ex_stalled, ex_tick) = (r, d', w')"
    by (metis prod.exhaust)
  have "r \<noteq> Inr (Succeeded x)"
    using stalled_recovery_never_ends [OF ex_stalled_ok, of ex_pid ex_awaiting "ex_run_at WorkflowState.VERIFYING 8"
        ex_registration ex_restart ex_sandbox "(3, 1)" 60 ex_tick r d' w' x] run
    by (simp add: ex_stalled_def ex_repo_def ex_registration_new ex_restart_def ex_fields)
  with run show "fst (recover ex_L ex_recoverer ex_restart (ex_stalled, ex_tick)) \<noteq> Inr (Succeeded x)" by simp
qed

end
