(* ===== verification/Local_Planning.thy ===== *)
theory Local_Planning
  imports Stop_Coordinator
begin

text \<open>
  The read-only half of the local workflow: \<open>cloudops/query_resource.py\<close> (one exact resource
  becomes provenance-stamped evidence with findings) and \<open>cloudops/plan_remediation.py\<close> (model
  output is accepted only when it equals the plan that policy derives from the evidence).
\<close>

subsection \<open>QueryResource\<close>

record 's QueryResource =
  qr_adapter_name :: string
  qr_get_resource :: "ResourceQuery \<Rightarrow> ('s, CloudResource) prog"

definition REQUIRED_EC2_TAGS :: "string set" where
  "REQUIRED_EC2_TAGS = {''Environment'', ''Owner''}"

definition PUBLIC_CIDR :: string where
  "PUBLIC_CIDR = ''0.0.0.0/0''"

fun resource_findings :: "CloudResource \<Rightarrow> CloudFinding list" where
  "resource_findings (Eip y) =
     (if y_association_id y = None then [CloudFinding.UNATTACHED_ELASTIC_IP] else [CloudFinding.CLEAN])"
| "resource_findings (Sg z) =
     (if list_ex (\<lambda>r. sr_cidr_ipv4 r = PUBLIC_CIDR) (z_inbound_rules z)
      then [CloudFinding.OVERLY_PERMISSIVE_INGRESS] else [CloudFinding.CLEAN])"
| "resource_findings (Ec2 x) =
     (if \<not> REQUIRED_EC2_TAGS \<subseteq> set (map fst (x_tags x))
      then [CloudFinding.REQUIRED_TAGS_MISSING] else [CloudFinding.CLEAN])"

text \<open>\<open>tuple(sorted(resource.model_dump(mode="json")))\<close>: the field names of the model.\<close>

fun observed_fields :: "CloudResource \<Rightarrow> string list" where
  "observed_fields (Ec2 _) = [''instance_type'', ''region'', ''resource_id'', ''resource_type'', ''state'', ''tags'']"
| "observed_fields (Eip _) = [''association_id'', ''public_ip'', ''region'', ''resource_id'', ''resource_type'', ''tags'']"
| "observed_fields (Sg _) = [''inbound_rules'', ''outbound_rules'', ''region'', ''resource_id'', ''resource_type'',
     ''tags'', ''vpc_id'']"

definition query_failed :: "FailureKind \<Rightarrow> string \<Rightarrow> string \<Rightarrow> bool \<Rightarrow> ('s, ResourceEvidence) handler" where
  "query_failed kind reason message retryable = ret (Failed (failure kind reason message retryable))"

definition query_on_error :: "exc \<Rightarrow> ('s, ResourceEvidence) handler option" where
  "query_on_error e =
     (if e = CloudResourceNotFoundError
      then Some (query_failed FailureKind.NOT_FOUND ''RESOURCE_NOT_FOUND'' ''Requested resource was not found'' False)
      else if e = CloudAdapterUnavailableError
      then Some (query_failed FailureKind.TOOL_ADAPTER_FAILURE ''CLOUD_ADAPTER_UNAVAILABLE''
             ''Cloud inventory adapter is unavailable'' True)
      else if is_exception e
      then Some (query_failed FailureKind.TOOL_ADAPTER_FAILURE ''CLOUD_ADAPTER_INVALID_RESPONSE''
             ''Cloud inventory adapter returned an invalid result'' False)
      else None)"

definition resource_provenance :: "string \<Rightarrow> Run \<Rightarrow> CloudResource \<Rightarrow> int \<Rightarrow> ResourceProvenance" where
  "resource_provenance adapter run resource t =
     \<lparr>pv_run_id = r_run_id run, pv_trace_id = r_trace_id run, pv_correlation_id = r_correlation_id run,
      pv_source = ''query_resource'', pv_adapter = adapter, pv_resource_type = res_type resource,
      pv_resource_id = res_id resource, pv_observed_fields = observed_fields resource, pv_observed_at = t\<rparr>"

definition query_execute ::
    "Platform \<Rightarrow> 's QueryResource \<Rightarrow> ResourceQuery \<Rightarrow> Run \<Rightarrow> datetime \<Rightarrow> ('s, ResourceEvidence) handler" where
  "query_execute L Q query run observed_at =
     (if \<not> valid_query query
      then query_failed FailureKind.VALIDATION_FAILURE ''RESOURCE_QUERY_INVALID''
             ''Resource query is missing or malformed'' False
      else tryThen (qr_get_resource Q query) query_on_error (\<lambda>resource.
        andThen (lift (utc_field observed_at)) (\<lambda>t.
        andThen (lift (validated valid_provenance (resource_provenance (qr_adapter_name Q) run resource t)))
          (\<lambda>provenance.
        case ResourceEvidence_create L run resource (resource_findings resource) provenance t of
          Inl _ \<Rightarrow> query_failed FailureKind.TOOL_ADAPTER_FAILURE ''RESOURCE_EVIDENCE_INVALID''
                    ''Normalized resource evidence failed validation'' False
        | Inr evidence \<Rightarrow> ret (Succeeded evidence)))))"

subsection \<open>Python equality of JSON values\<close>

text \<open>Dictionaries are equal in any order, and \<open>True == 1\<close>.\<close>

function (sequential) same_json :: "json \<Rightarrow> json \<Rightarrow> bool" where
  "same_json JNull b = (b = JNull)"
| "same_json (JBool x) b =
     (case b of JBool y \<Rightarrow> x = y | JInt n \<Rightarrow> n = (if x then 1 else 0) | _ \<Rightarrow> False)"
| "same_json (JInt n) b =
     (case b of JInt m \<Rightarrow> n = m | JBool x \<Rightarrow> n = (if x then 1 else 0) | _ \<Rightarrow> False)"
| "same_json (JStr s) b = (b = JStr s)"
| "same_json (JArr xs) b =
     (case b of JArr ys \<Rightarrow> length xs = length ys \<and> (\<forall>p \<in> set (zip xs ys). same_json (fst p) (snd p)) | _ \<Rightarrow> False)"
| "same_json (JObj kvs) b =
     (case b of JObj e \<Rightarrow> length kvs = length e
        \<and> (\<forall>p \<in> set kvs. case dget e (fst p) of None \<Rightarrow> False | Some w \<Rightarrow> same_json (snd p) w)
      | _ \<Rightarrow> False)"
  by pat_completeness auto

lemma size_zip_left [termination_simp]: "p \<in> set (zip xs ys) \<Longrightarrow> size (fst p) < Suc (size_list size xs)"
  using size_list_estimation' [of "fst p" xs "size (fst p)" size] set_zip_leftD [of "fst p" "snd p" xs ys]
  by (simp add: less_Suc_eq_le)

lemma size_dict_value [termination_simp]:
  "p \<in> set kvs \<Longrightarrow> size (snd p) < Suc (size_list (size_prod (\<lambda>_. 0) size) kvs)"
  using size_snd_JObj [of "fst p" "snd p" kvs] by simp

termination same_json
  by (relation "measure (size \<circ> fst)") (auto simp: termination_simp)

subsection \<open>PlanRemediation\<close>

record ModelPlanCandidate =
  mc_disposition :: PlanDisposition
  mc_operation_type :: "RemediationOperation option"
  mc_target_resource_type :: "CloudResourceType option"
  mc_target_resource_id :: "string option"
  mc_normalized_parameters :: "(string, json) dict option"
  mc_claimed_authority :: "AuthorityGate option"

definition valid_candidate :: "ModelPlanCandidate \<Rightarrow> bool" where
  "valid_candidate c \<longleftrightarrow> optional short_identifier (mc_target_resource_id c)
     \<and> optional (\<lambda>d. dict_ok d \<and> list_all (short_identifier \<circ> fst) d) (mc_normalized_parameters c)
     \<and> (if mc_disposition c = PlanDisposition.NO_ACTION
        then mc_operation_type c = None \<and> mc_target_resource_type c = None \<and> mc_target_resource_id c = None
          \<and> mc_normalized_parameters c = None \<and> mc_claimed_authority c = None
        else mc_operation_type c \<noteq> None \<and> mc_target_resource_type c \<noteq> None \<and> mc_target_resource_id c \<noteq> None
          \<and> mc_normalized_parameters c \<noteq> None \<and> mc_claimed_authority c \<noteq> None)"

definition same_candidate :: "ModelPlanCandidate \<Rightarrow> ModelPlanCandidate \<Rightarrow> bool" where
  "same_candidate c d \<longleftrightarrow> mc_disposition c = mc_disposition d \<and> mc_operation_type c = mc_operation_type d
     \<and> mc_target_resource_type c = mc_target_resource_type d
     \<and> mc_target_resource_id c = mc_target_resource_id d
     \<and> (case (mc_normalized_parameters c, mc_normalized_parameters d) of
          (None, None) \<Rightarrow> True | (Some x, Some y) \<Rightarrow> same_json (JObj x) (JObj y) | _ \<Rightarrow> False)
     \<and> mc_claimed_authority c = mc_claimed_authority d"

definition no_action_candidate :: ModelPlanCandidate where
  "no_action_candidate = \<lparr>mc_disposition = PlanDisposition.NO_ACTION, mc_operation_type = None,
     mc_target_resource_type = None, mc_target_resource_id = None, mc_normalized_parameters = None,
     mc_claimed_authority = None\<rparr>"

definition action_candidate ::
    "PlanDisposition \<Rightarrow> RemediationOperation \<Rightarrow> CloudResourceType \<Rightarrow> string \<Rightarrow> (string, json) dict
     \<Rightarrow> AuthorityGate \<Rightarrow> ModelPlanCandidate" where
  "action_candidate disposition operation kind i parameters authority =
     \<lparr>mc_disposition = disposition, mc_operation_type = Some operation, mc_target_resource_type = Some kind,
      mc_target_resource_id = Some i, mc_normalized_parameters = Some parameters,
      mc_claimed_authority = Some authority\<rparr>"

definition unsafe_rules :: "SecurityGroupResource \<Rightarrow> SecurityGroupRule list" where
  "unsafe_rules z = filter (\<lambda>r. sr_cidr_ipv4 r = PUBLIC_CIDR) (z_inbound_rules z)"

definition missing_tags :: "Ec2Resource \<Rightarrow> (string, json) dict" where
  "missing_tags x = map (\<lambda>k. (k, JStr (if k = ''Environment'' then ''hackathon'' else ''platform'')))
     (filter (\<lambda>k. k \<notin> set (map fst (x_tags x))) [''Environment'', ''Owner''])"

definition canonical_model_candidate :: "ResourceEvidence \<Rightarrow> exc + ModelPlanCandidate" where
  "canonical_model_candidate evidence =
     (let resource = re_resource evidence; findings = re_findings evidence in
      if findings = [CloudFinding.CLEAN] then validated valid_candidate no_action_candidate
      else if findings = [CloudFinding.UNATTACHED_ELASTIC_IP]
      then validated valid_candidate (action_candidate PlanDisposition.PROPOSAL
        RemediationOperation.RELEASE_ELASTIC_IP CloudResourceType.ELASTIC_IP (res_id resource)
        [(''allocation_id'', JStr (res_id resource))] AuthorityGate.PLAN_AND_CONFIRM)
      else if findings = [CloudFinding.OVERLY_PERMISSIVE_INGRESS]
      then (case resource of
          Sg z \<Rightarrow>
            if unsafe_rules z = [] then Inl ValueError
            else validated valid_candidate (action_candidate PlanDisposition.PROPOSAL
              RemediationOperation.REVOKE_PUBLIC_INGRESS CloudResourceType.SECURITY_GROUP (res_id resource)
              [(''ingress_rules'', JArr (map rule_json (unsafe_rules z))),
               (''security_group_id'', JStr (res_id resource))] AuthorityGate.PLAN_AND_CONFIRM)
        | _ \<Rightarrow> Inl ValueError)
      else if findings = [CloudFinding.REQUIRED_TAGS_MISSING]
      then (case resource of
          Ec2 x \<Rightarrow> validated valid_candidate (action_candidate PlanDisposition.NON_EXECUTABLE_RECOMMENDATION
            RemediationOperation.APPLY_REQUIRED_TAGS CloudResourceType.EC2_INSTANCE (res_id resource)
            [(''tags'', JObj (missing_tags x))] AuthorityGate.NEVER_AUTONOMOUS)
        | _ \<Rightarrow> Inl ValueError)
      else Inl ValueError)"

fun operation_risk :: "RemediationOperation \<Rightarrow> string" where
  "operation_risk RemediationOperation.RELEASE_ELASTIC_IP =
     ''Releasing an address is destructive and requires exact human approval''"
| "operation_risk RemediationOperation.REVOKE_PUBLIC_INGRESS =
     ''Changing ingress can disrupt access and requires exact human approval''"
| "operation_risk RemediationOperation.APPLY_REQUIRED_TAGS =
     ''Tag mutation is recommendation-only under the current hard policy''"

fun add_micros :: "datetime \<Rightarrow> int \<Rightarrow> datetime" where
  "add_micros (Utc t) n = Utc (t + n)"
| "add_micros (Offset t) n = Offset (t + n)"
| "add_micros (Naive t) n = Naive (t + n)"

definition plan_failed :: "FailureKind \<Rightarrow> string \<Rightarrow> string \<Rightarrow> exc + RemediationPlan ControlResult" where
  "plan_failed kind reason message = Inr (Failed (failure kind reason message False))"

definition plan_made :: "RemediationPlan \<Rightarrow> exc + RemediationPlan ControlResult" where
  "plan_made plan = (case validated valid_plan plan of Inl e \<Rightarrow> Inl e | Inr p \<Rightarrow> Inr (Succeeded p))"

lemma plan_made_Inr [simp]: "plan_made plan = Inr (Succeeded p) \<longleftrightarrow> p = plan \<and> valid_plan plan"
  by (auto simp: plan_made_def split: sum.splits)

text \<open>
  \<open>parse\<close> stands for \<open>json.loads\<close> followed by pydantic's strict parse of the candidate; \<open>None\<close>
  is any of the errors the code catches.
\<close>

definition plan_execute ::
    "Platform \<Rightarrow> (string \<Rightarrow> ModelPlanCandidate option) \<Rightarrow> ResourceEvidence \<Rightarrow> string \<Rightarrow> uuid \<Rightarrow> datetime
     \<Rightarrow> exc + RemediationPlan ControlResult" where
  "plan_execute L parse evidence model_output proposal_id created_at =
     (if strip model_output = []
      then plan_failed FailureKind.VALIDATION_FAILURE ''MODEL_PLAN_INVALID''
             ''Model plan output must be non-empty JSON''
      else (case parse model_output of
        None \<Rightarrow> plan_failed FailureKind.VALIDATION_FAILURE ''MODEL_PLAN_INVALID''
                 ''Model plan output failed strict validation''
      | Some candidate \<Rightarrow> (case canonical_model_candidate evidence of
          Inl _ \<Rightarrow> plan_failed FailureKind.POLICY_DENIAL ''REMEDIATION_POLICY_UNSUPPORTED''
                   ''Observed findings are outside the local remediation policy''
        | Inr expected \<Rightarrow>
            if \<not> same_candidate candidate expected
            then plan_failed FailureKind.POLICY_DENIAL ''MODEL_PLAN_POLICY_MISMATCH''
                   ''Model plan does not match evidence-bound local policy''
            else if mc_disposition expected = PlanDisposition.NO_ACTION
            then plan_made
              \<lparr>pl_disposition = PlanDisposition.NO_ACTION, pl_evidence_hash = re_evidence_hash evidence,
               pl_proposal = None, pl_reason = ''Resource is compliant; no remediation is warranted''\<rparr>
            else (case (mc_operation_type expected, mc_normalized_parameters expected, mc_claimed_authority expected) of
              (Some operation, Some parameters, Some authority) \<Rightarrow>
                (case RemediationProposal_create L proposal_id evidence operation parameters authority
                    (operation_risk operation) created_at (add_micros created_at 86400000000) of
                  Inl _ \<Rightarrow> plan_failed FailureKind.VALIDATION_FAILURE ''PROPOSAL_CONTRACT_INVALID''
                           ''Evidence-bound proposal failed canonical validation''
                | Inr proposal \<Rightarrow> plan_made
                    \<lparr>pl_disposition = mc_disposition expected, pl_evidence_hash = re_evidence_hash evidence,
                     pl_proposal = Some proposal, pl_reason = operation_risk operation\<rparr>)
            | _ \<Rightarrow> plan_failed FailureKind.POLICY_DENIAL ''REMEDIATION_POLICY_INCOMPLETE''
                     ''Local remediation policy did not resolve exact action data''))))"

subsection \<open>What a plan may contain\<close>

text \<open>The parameters of a revocation and of a release.\<close>

definition revocation_parameters :: "SecurityGroupResource \<Rightarrow> SecurityGroupRule list \<Rightarrow> (string, json) dict" where
  "revocation_parameters z rules =
     [(''ingress_rules'', JArr (map rule_json rules)), (''security_group_id'', JStr (z_resource_id z))]"

definition release_parameters :: "ElasticIpResource \<Rightarrow> (string, json) dict" where
  "release_parameters y = [(''allocation_id'', JStr (y_resource_id y))]"

lemma canonical_candidate_cases:
  assumes "canonical_model_candidate e = Inr c"
  obtains "re_findings e = [CloudFinding.CLEAN]" "c = no_action_candidate"
  | "re_findings e = [CloudFinding.UNATTACHED_ELASTIC_IP]"
    "c = action_candidate PlanDisposition.PROPOSAL RemediationOperation.RELEASE_ELASTIC_IP CloudResourceType.ELASTIC_IP
       (res_id (re_resource e)) [(''allocation_id'', JStr (res_id (re_resource e)))] AuthorityGate.PLAN_AND_CONFIRM"
  | z where "re_findings e = [CloudFinding.OVERLY_PERMISSIVE_INGRESS]" "re_resource e = Sg z" "unsafe_rules z \<noteq> []"
    "c = action_candidate PlanDisposition.PROPOSAL RemediationOperation.REVOKE_PUBLIC_INGRESS
       CloudResourceType.SECURITY_GROUP (z_resource_id z) (revocation_parameters z (unsafe_rules z))
       AuthorityGate.PLAN_AND_CONFIRM"
  | x where "re_findings e = [CloudFinding.REQUIRED_TAGS_MISSING]" "re_resource e = Ec2 x"
    "c = action_candidate PlanDisposition.NON_EXECUTABLE_RECOMMENDATION RemediationOperation.APPLY_REQUIRED_TAGS
       CloudResourceType.EC2_INSTANCE (x_resource_id x) [(''tags'', JObj (missing_tags x))]
       AuthorityGate.NEVER_AUTONOMOUS"
  using assms unfolding canonical_model_candidate_def Let_def
  by (auto simp: revocation_parameters_def split: if_splits CloudResource.splits)

lemma RemediationProposal_create_Inr:
  assumes "RemediationProposal_create L pid e operation parameters authority risk created expires = Inr p"
  shows "\<exists>t u. created = Utc t \<and> expires = Utc u \<and> valid_remediation_proposal L p
    \<and> rp_proposal_id p = pid \<and> rp_run_id p = re_run_id e \<and> rp_correlation_id p = re_correlation_id e
    \<and> rp_operation_type p = operation \<and> rp_target_resource_type p = res_type (re_resource e)
    \<and> rp_target_resource_id p = res_id (re_resource e) \<and> rp_normalized_parameters p = parameters
    \<and> rp_authority_class p = authority \<and> rp_evidence_hash p = re_evidence_hash e
    \<and> rp_evidence_fingerprint p = stable_fingerprint L e \<and> rp_created_at p = t \<and> rp_expires_at p = u
    \<and> rp_status p = ProposalState.PROPOSED \<and> rp_version p = 1"
  using assms unfolding RemediationProposal_create_def
  by (cases created; cases expires) (auto simp: Let_def require_utc_def utc_field_def)

text \<open>The action policy allows for the evidence, and the plan disposition it gets.\<close>

definition policy_action ::
    "ResourceEvidence \<Rightarrow> PlanDisposition \<Rightarrow> RemediationOperation \<Rightarrow> (string, json) dict \<Rightarrow> AuthorityGate \<Rightarrow> bool" where
  "policy_action e disposition operation parameters authority \<longleftrightarrow>
     (disposition = PlanDisposition.PROPOSAL \<and> authority = AuthorityGate.PLAN_AND_CONFIRM
        \<and> operation = RemediationOperation.RELEASE_ELASTIC_IP
        \<and> re_findings e = [CloudFinding.UNATTACHED_ELASTIC_IP]
        \<and> parameters = [(''allocation_id'', JStr (res_id (re_resource e)))])
     \<or> (\<exists>z. disposition = PlanDisposition.PROPOSAL \<and> authority = AuthorityGate.PLAN_AND_CONFIRM
        \<and> operation = RemediationOperation.REVOKE_PUBLIC_INGRESS \<and> re_resource e = Sg z
        \<and> re_findings e = [CloudFinding.OVERLY_PERMISSIVE_INGRESS]
        \<and> unsafe_rules z \<noteq> [] \<and> parameters = revocation_parameters z (unsafe_rules z))
     \<or> (\<exists>x. disposition = PlanDisposition.NON_EXECUTABLE_RECOMMENDATION
        \<and> authority = AuthorityGate.NEVER_AUTONOMOUS
        \<and> operation = RemediationOperation.APPLY_REQUIRED_TAGS \<and> re_resource e = Ec2 x
        \<and> re_findings e = [CloudFinding.REQUIRED_TAGS_MISSING] \<and> parameters = [(''tags'', JObj (missing_tags x))])"

lemma plan_content:
  assumes "plan_execute L parse e out pid t = Inr (Succeeded plan)"
  shows "valid_plan plan \<and> pl_evidence_hash plan = re_evidence_hash e
    \<and> (case pl_proposal plan of
        None \<Rightarrow> pl_disposition plan = PlanDisposition.NO_ACTION \<and> re_findings e = [CloudFinding.CLEAN]
      | Some p \<Rightarrow> policy_action e (pl_disposition plan) (rp_operation_type p) (rp_normalized_parameters p)
            (rp_authority_class p)
          \<and> RemediationProposal_create L pid e (rp_operation_type p) (rp_normalized_parameters p)
              (rp_authority_class p) (operation_risk (rp_operation_type p)) t (add_micros t 86400000000) = Inr p)"
proof -
  from assms obtain c where c: "canonical_model_candidate e = Inr c"
    by (auto simp: plan_execute_def plan_failed_def split: if_splits option.splits sum.splits)
  note rest = assms [unfolded plan_execute_def plan_failed_def c, simplified]
  from c show ?thesis
  proof (cases rule: canonical_candidate_cases)
    case 1
    with rest show ?thesis
      by (auto simp: no_action_candidate_def split: if_splits option.splits sum.splits)
  next
    case 2
    with rest obtain p where "RemediationProposal_create L pid e RemediationOperation.RELEASE_ELASTIC_IP
        [(''allocation_id'', JStr (res_id (re_resource e)))] AuthorityGate.PLAN_AND_CONFIRM
        (operation_risk RemediationOperation.RELEASE_ELASTIC_IP) t (add_micros t 86400000000) = Inr p"
      "plan = \<lparr>pl_disposition = PlanDisposition.PROPOSAL, pl_evidence_hash = re_evidence_hash e, pl_proposal = Some p,
         pl_reason = operation_risk RemediationOperation.RELEASE_ELASTIC_IP\<rparr>" "valid_plan plan"
      by (auto simp: action_candidate_def split: if_splits option.splits sum.splits)
    with 2 RemediationProposal_create_Inr [OF this(1)] show ?thesis by (simp add: policy_action_def)
  next
    case (3 z)
    with rest obtain p where "RemediationProposal_create L pid e RemediationOperation.REVOKE_PUBLIC_INGRESS
        (revocation_parameters z (unsafe_rules z)) AuthorityGate.PLAN_AND_CONFIRM
        (operation_risk RemediationOperation.REVOKE_PUBLIC_INGRESS) t (add_micros t 86400000000) = Inr p"
      "plan = \<lparr>pl_disposition = PlanDisposition.PROPOSAL, pl_evidence_hash = re_evidence_hash e, pl_proposal = Some p,
         pl_reason = operation_risk RemediationOperation.REVOKE_PUBLIC_INGRESS\<rparr>" "valid_plan plan"
      by (auto simp: action_candidate_def split: if_splits option.splits sum.splits)
    with 3 RemediationProposal_create_Inr [OF this(1)] show ?thesis by (simp add: policy_action_def)
  next
    case (4 x)
    with rest obtain p where "RemediationProposal_create L pid e RemediationOperation.APPLY_REQUIRED_TAGS
        [(''tags'', JObj (missing_tags x))] AuthorityGate.NEVER_AUTONOMOUS
        (operation_risk RemediationOperation.APPLY_REQUIRED_TAGS) t (add_micros t 86400000000) = Inr p"
      "plan = \<lparr>pl_disposition = PlanDisposition.NON_EXECUTABLE_RECOMMENDATION, pl_evidence_hash = re_evidence_hash e,
         pl_proposal = Some p, pl_reason = operation_risk RemediationOperation.APPLY_REQUIRED_TAGS\<rparr>" "valid_plan plan"
      by (auto simp: action_candidate_def split: if_splits option.splits sum.splits)
    with 4 RemediationProposal_create_Inr [OF this(1)] show ?thesis by (simp add: policy_action_def)
  qed
qed

text \<open>The model decides nothing: whatever text it returns, the planner either fails or returns the
  one plan that policy derives from the evidence, so any two model outputs that are accepted for the
  same evidence lead to the same plan.\<close>

theorem plan_ignores_model:
  assumes "plan_execute L parse e out pid t = Inr (Succeeded plan)"
    and "plan_execute L parse' e out' pid t = Inr (Succeeded plan')"
  shows "plan' = plan"
  using assms unfolding plan_execute_def plan_failed_def
  by (auto split: if_splits option.splits sum.splits)

subsection \<open>Evidence leads to a plan\<close>

text \<open>What \<open>hashlib.sha256(\<dots>).hexdigest()\<close> promises about its shape.\<close>

definition sha256_shape :: "Platform \<Rightarrow> bool" where
  "sha256_shape L \<longleftrightarrow> (\<forall>s. sha256_digest (sha256_hex L s))"

lemma digest_shape [simp]: "sha256_shape L \<Longrightarrow> sha256_digest (compute_evidence_digest L j)"
  by (simp add: sha256_shape_def compute_evidence_digest_def)

lemma plan_words [simp]:
  "short_identifier ''allocation_id''" "short_identifier ''ingress_rules''" "short_identifier ''security_group_id''"
  "short_identifier ''tags''"
  by code_simp+

lemma plan_reasons [simp]: "non_empty_text (operation_risk operation)"
proof -
  have "list_all (non_empty_text \<circ> operation_risk) [RemediationOperation.RELEASE_ELASTIC_IP,
     RemediationOperation.REVOKE_PUBLIC_INGRESS, RemediationOperation.APPLY_REQUIRED_TAGS]"
    by code_simp
  then show ?thesis by (cases operation) simp_all
qed

lemma compliant_reason [simp]: "non_empty_text ''Resource is compliant; no remediation is warranted''"
  by code_simp

lemma lower_hex_tail: "is_lower_hex c \<Longrightarrow> identifier_tail_char c"
  by (auto simp: is_lower_hex_def identifier_tail_char_def is_alnum_def is_digit_def is_lower_def)

lemma aws_resource_id_short:
  assumes "aws_resource_id (c # cs) s" and "is_alnum c" and "list_all identifier_tail_char cs" and "length cs < 100"
  shows "short_identifier s"
proof -
  from assms(1) obtain d ds where s: "s = d # ds" by (cases s) (auto simp: aws_resource_id_def)
  with assms(1) have "d = c" "take (length cs) ds = cs" "list_all is_lower_hex (drop (length cs) ds)" "length s \<le> length cs + 18"
    by (auto simp: aws_resource_id_def)
  moreover have "list_all identifier_tail_char ds"
  proof -
    from calculation assms(3) have "list_all identifier_tail_char (take (length cs) ds @ drop (length cs) ds)"
      unfolding list_all_append by (auto simp: list_all_iff lower_hex_tail)
    then show ?thesis by (simp only: append_take_drop_id)
  qed
  ultimately show ?thesis using assms(2,4) s by (simp add: short_identifier_def)
qed

lemma resource_id_short:
  assumes "valid_resource r" shows "short_identifier (res_id r)"
proof -
  have alnum: "is_alnum CHR ''i''" "is_alnum CHR ''e''" "is_alnum CHR ''s''" by code_simp+
  have tails: "list_all identifier_tail_char ''-''" "list_all identifier_tail_char ''ipalloc-''"
    "list_all identifier_tail_char ''g-''" by code_simp+
  show ?thesis
    using assms alnum tails by (cases r) (auto elim!: aws_resource_id_short)
qed

lemma canonical_candidate_exists:
  assumes "valid_resource (re_resource e)" and "re_findings e = resource_findings (re_resource e)"
  shows "\<exists>x. canonical_model_candidate e = Inr x"
proof (cases "re_resource e")
  case (Ec2 x)
  then show ?thesis using assms resource_id_short [OF assms(1)]
    by (auto simp: canonical_model_candidate_def validated_def valid_candidate_def no_action_candidate_def
        action_candidate_def dict_ok_def)
next
  case (Eip y)
  then show ?thesis using assms resource_id_short [OF assms(1)]
    by (auto simp: canonical_model_candidate_def validated_def valid_candidate_def no_action_candidate_def
        action_candidate_def dict_ok_def)
next
  case (Sg z)
  then have "unsafe_rules z \<noteq> []" if "re_findings e = [CloudFinding.OVERLY_PERMISSIVE_INGRESS]"
    using that assms(2) by (auto simp: unsafe_rules_def filter_empty_conv list_ex_iff split: if_splits)
  with Sg show ?thesis using assms resource_id_short [OF assms(1)]
    by (auto simp: canonical_model_candidate_def validated_def valid_candidate_def no_action_candidate_def
        action_candidate_def dict_ok_def)
qed

lemma proposal_created:
  assumes "sha256_shape L" and "valid_resource_evidence L e" and "uuid7 pid"
    and "policy_action e disposition operation parameters authority"
    and "re_findings e = resource_findings (re_resource e)"
  shows "\<exists>p. RemediationProposal_create L pid e operation parameters authority (operation_risk operation)
      (Utc t) (add_micros (Utc t) 86400000000) = Inr p"
proof -
  have e: "uuid7 (re_run_id e)" "uuid7 (re_correlation_id e)" "short_identifier (res_id (re_resource e))"
    "sha256_digest (re_evidence_hash e)"
    using assms(2) by (auto simp: valid_resource_evidence_def resource_id_short)
  have p: "dict_ok parameters \<and> parameters \<noteq> [] \<and> list_all (short_identifier \<circ> fst) parameters
      \<and> (res_type (re_resource e), authority) = operation_policy operation"
    using assms(4,5) by (cases "re_resource e")
      (auto simp: policy_action_def revocation_parameters_def dict_ok_def split: if_splits)
  show ?thesis
    using assms(1,3) e p
    by (simp add: RemediationProposal_create_def utc_field_def Let_def valid_remediation_proposal_def
        stable_fingerprint_def action_payload_def validated_def)
qed

text \<open>C24: Planning never gets stuck on the program's own evidence: for valid evidence with the findings
  the query derives, policy has a candidate, and a model that returns it gets its plan.\<close>

theorem honest_plan_accepted:
  assumes "sha256_shape L" and "valid_resource_evidence L e" and "re_findings e = resource_findings (re_resource e)"
    and "uuid7 pid"
  shows "\<exists>x. canonical_model_candidate e = Inr x
    \<and> (\<forall>parse out c. strip out \<noteq> [] \<and> parse out = Some c \<and> same_candidate c x \<longrightarrow>
         (\<exists>plan. plan_execute L parse e out pid (Utc t) = Inr (Succeeded plan)))"
proof -
  have r: "valid_resource (re_resource e)" using assms(2) by (simp add: valid_resource_evidence_def)
  obtain x where x: "canonical_model_candidate e = Inr x"
    using canonical_candidate_exists [OF r assms(3)] by blast
  have "\<exists>plan. plan_execute L parse e out pid (Utc t) = Inr (Succeeded plan)"
    if out: "strip out \<noteq> []" "parse out = Some c" "same_candidate c x" for parse out c
  proof (cases "mc_disposition x = PlanDisposition.NO_ACTION")
    case True
    with out x assms(1,2) show ?thesis
      by (simp add: plan_execute_def valid_plan_def valid_resource_evidence_def)
  next
    case False
    from x have "\<exists>operation parameters authority. mc_operation_type x = Some operation
        \<and> mc_normalized_parameters x = Some parameters \<and> mc_claimed_authority x = Some authority
        \<and> policy_action e (mc_disposition x) operation parameters authority"
      by (cases rule: canonical_candidate_cases)
        (use False in \<open>auto simp: no_action_candidate_def action_candidate_def policy_action_def\<close>)
    then obtain operation parameters authority where o: "mc_operation_type x = Some operation"
      "mc_normalized_parameters x = Some parameters" "mc_claimed_authority x = Some authority"
      "policy_action e (mc_disposition x) operation parameters authority" by blast
    obtain p where p: "RemediationProposal_create L pid e operation parameters authority (operation_risk operation)
        (Utc t) (add_micros (Utc t) 86400000000) = Inr p"
      using proposal_created [OF assms(1,2,4) o(4) assms(3)] by blast
    have "valid_plan \<lparr>pl_disposition = mc_disposition x, pl_evidence_hash = re_evidence_hash e, pl_proposal = Some p,
        pl_reason = operation_risk operation\<rparr>"
      using RemediationProposal_create_Inr [OF p] o(4) assms(2)
      by (auto simp: valid_plan_def policy_action_def valid_resource_evidence_def)
    with out x o p False show ?thesis by (simp add: plan_execute_def)
  qed
  with x show ?thesis by blast
qed

lemma query_evidence:
  assumes "query_execute L Q q run t s = (Inr (Succeeded e), s')"
  shows "\<exists>resource. qr_get_resource Q q s = (Inr resource, s') \<and> valid_query q \<and> re_resource e = resource
    \<and> re_findings e = resource_findings resource \<and> valid_resource_evidence L e
    \<and> re_run_id e = r_run_id run \<and> re_trace_id e = r_trace_id run \<and> re_correlation_id e = r_correlation_id run"
  using assms unfolding query_execute_def query_failed_def query_on_error_def ResourceEvidence_create_def
  by (auto simp: Let_def tryThen_def andThen_def lift_def ret_def resource_provenance_def
      split: if_splits prod.splits sum.splits)

end
