(* ===== verification/Local_Mock.thy ===== *)
theory Local_Mock
  imports Local_Planning Local_Store
begin

text \<open>
  \<open>cloudops/local_mock.py\<close>: the inventory file of the local sandbox and the only component that
  may change it. One execution checks that proposal, evidence, decision and intent are bound to
  each other, applies one exact change and files its receipt in the same atomic replace;
  verification reads the file back. As for the durable store, other processes and failures act
  through a schedule.
\<close>

subsection \<open>Rules as the approved parameters carry them\<close>

text \<open>
  \<open>ipaddress.ip_network(text, strict=False)\<close> for IPv4: an address alone, with a prefix length, or
  with a netmask or hostmask; the stored text is the canonical one.
\<close>

definition prefix_of_mask :: "nat \<Rightarrow> nat option" where
  "prefix_of_mask v = List.find (\<lambda>p. v = 2 ^ 32 - 2 ^ (32 - p)) [0..<33]"

definition prefix_of_text :: "string \<Rightarrow> nat option" where
  "prefix_of_text s =
     (if s \<noteq> [] \<and> list_all is_digit s \<and> decimal s \<le> 32 then Some (decimal s)
      else (case ipv4_octets s of None \<Rightarrow> None
        | Some os \<Rightarrow> (case prefix_of_mask (ipv4_value os) of
            Some p \<Rightarrow> Some p
          | None \<Rightarrow> prefix_of_mask (2 ^ 32 - 1 - ipv4_value os))))"

definition network_text :: "nat \<Rightarrow> nat \<Rightarrow> string" where
  "network_text v p =
     (let n = v - v mod 2 ^ (32 - p) in
      digits_nat (n div 2 ^ 24) @ ''.'' @ digits_nat (n div 2 ^ 16 mod 256) @ ''.''
        @ digits_nat (n div 2 ^ 8 mod 256) @ ''.'' @ digits_nat (n mod 256) @ ''/'' @ digits_nat p)"

definition parse_network :: "string \<Rightarrow> string option" where
  "parse_network s = (case split_at CHR ''/'' s of
     [a] \<Rightarrow> map_option (\<lambda>os. network_text (ipv4_value os) 32) (ipv4_octets a)
   | [a, p] \<Rightarrow> (case (ipv4_octets a, prefix_of_text p) of
        (Some os, Some n) \<Rightarrow> Some (network_text (ipv4_value os) n) | _ \<Rightarrow> None)
   | _ \<Rightarrow> None)"

text \<open>
  \<open>SecurityGroupRule.model_validate(rule)\<close>. \<open>lax\<close> stands for the integers pydantic reads from
  text.
\<close>

definition rule_port :: "(string \<Rightarrow> int option) \<Rightarrow> json \<Rightarrow> int option option" where
  "rule_port lax j = (case j of
     JNull \<Rightarrow> Some None
   | JInt n \<Rightarrow> Some (Some n)
   | JBool b \<Rightarrow> Some (Some (if b then 1 else 0))
   | JStr s \<Rightarrow> map_option Some (lax s)
   | _ \<Rightarrow> None)"

definition rule_of_json :: "(string \<Rightarrow> int option) \<Rightarrow> json \<Rightarrow> SecurityGroupRule option" where
  "rule_of_json lax j = (case j of
     JObj d \<Rightarrow>
       if \<not> set (map fst d) \<subseteq> {''ip_protocol'', ''cidr_ipv4'', ''from_port'', ''to_port''} then None
       else (case (jget d ''ip_protocol'', jget d ''cidr_ipv4'', rule_port lax (jget d ''from_port''),
                   rule_port lax (jget d ''to_port'')) of
         (JStr protocol, JStr cidr, Some f, Some t) \<Rightarrow>
           if \<not> non_empty_text cidr then None
           else (case parse_network cidr of None \<Rightarrow> None
             | Some network \<Rightarrow>
                 let r = \<lparr>sr_ip_protocol = protocol, sr_cidr_ipv4 = network, sr_from_port = f, sr_to_port = t\<rparr>
                 in if valid_rule r then Some r else None)
       | _ \<Rightarrow> None)
   | _ \<Rightarrow> None)"

fun rules_of_json :: "(string \<Rightarrow> int option) \<Rightarrow> json list \<Rightarrow> SecurityGroupRule list option" where
  "rules_of_json lax [] = Some []"
| "rules_of_json lax (j # js) = (case (rule_of_json lax j, rules_of_json lax js) of
     (Some r, Some rs) \<Rightarrow> Some (r # rs) | _ \<Rightarrow> None)"

subsection \<open>The inventory\<close>

type_synonym resource_key = "CloudResourceType \<times> string \<times> string"

definition resource_key :: "CloudResource \<Rightarrow> resource_key" where
  "resource_key r = (res_type r, res_id r, res_region r)"

record Inventory =
  iv_resources :: "(resource_key, CloudResource) dict"
  iv_receipts :: "(string, LocalExecutionReceipt) dict"

datatype InventoryFile = NoInventory | SealedInventory "CloudResource list" "LocalExecutionReceipt list"

text \<open>The scenarios of \<open>cloudops/provider.py\<close>: what the inventory starts with.\<close>

definition default_mock_resources :: "CloudResource list" where
  "default_mock_resources =
     [Eip \<lparr>y_resource_id = ''eipalloc-0123456789abcdef0'', y_region = ''eu-central-1'',
        y_public_ip = ''198.51.100.42'', y_association_id = None,
        y_tags = [(''Environment'', ''hackathon''), (''Owner'', ''platform'')]\<rparr>,
      Sg \<lparr>z_resource_id = ''sg-0123456789abcdef0'', z_region = ''eu-central-1'',
        z_vpc_id = ''vpc-0123456789abcdef0'',
        z_inbound_rules = [\<lparr>sr_ip_protocol = ''tcp'', sr_cidr_ipv4 = ''0.0.0.0/0'',
          sr_from_port = Some 22, sr_to_port = Some 22\<rparr>],
        z_outbound_rules = [\<lparr>sr_ip_protocol = ''-1'', sr_cidr_ipv4 = ''0.0.0.0/0'',
          sr_from_port = None, sr_to_port = None\<rparr>],
        z_tags = [(''Environment'', ''hackathon''), (''Owner'', ''platform'')]\<rparr>,
      Ec2 \<lparr>x_resource_id = ''i-0fedcba9876543210'', x_region = ''eu-central-1'', x_state = ''running'',
        x_instance_type = ''t3.micro'', x_tags = []\<rparr>,
      Ec2 \<lparr>x_resource_id = ''i-0123456789abcdef0'', x_region = ''eu-central-1'', x_state = ''running'',
        x_instance_type = ''t3.micro'',
        x_tags = [(''AIOACloudOpsSandbox'', ''true''), (''Environment'', ''hackathon''),
          (''Owner'', ''platform'')]\<rparr>]"

definition initial_inventory :: "CloudResource list \<Rightarrow> Inventory" where
  "initial_inventory resources = \<lparr>iv_resources = table_of resource_key resources, iv_receipts = []\<rparr>"

definition load_inventory :: "Platform \<Rightarrow> CloudResource list \<Rightarrow> InventoryFile \<Rightarrow> exc + Inventory" where
  "load_inventory L initial f = (case f of
     NoInventory \<Rightarrow> Inr (initial_inventory initial)
   | SealedInventory resources receipts \<Rightarrow>
       if \<not> (list_all valid_resource resources \<and> list_all (valid_receipt L) receipts)
       then Inl CloudAdapterUnavailableError
       else (let v = \<lparr>iv_resources = table_of resource_key resources,
                      iv_receipts = table_of lr_idempotency_key receipts\<rparr> in
         if length (iv_resources v) \<noteq> length resources \<or> length (iv_receipts v) \<noteq> length receipts
         then Inl CloudAdapterUnavailableError else Inr v))"

definition resource_sort_key :: "resource_key \<Rightarrow> string \<times> string \<times> string" where
  "resource_sort_key k = (CloudResourceType_value (fst k), snd k)"

definition seal_inventory :: "Inventory \<Rightarrow> InventoryFile" where
  "seal_inventory v = SealedInventory
     (map snd (sort_key (resource_sort_key \<circ> fst) (iv_resources v))) (sorted_values (iv_receipts v))"

subsection \<open>One execution\<close>

record LocalMutation =
  mu_proposal :: RemediationProposal
  mu_evidence :: ResourceEvidence
  mu_approval :: LocalApprovalDecisionRecord
  mu_intent :: LocalExecutionIntent
  mu_executed_at :: datetime

definition execution_bound :: "Platform \<Rightarrow> LocalMutation \<Rightarrow> bool" where
  "execution_bound L m \<longleftrightarrow>
     (let proposal = mu_proposal m; evidence = mu_evidence m; approval = mu_approval m; intent = mu_intent m in
      rp_authority_class proposal = AuthorityGate.PLAN_AND_CONFIRM
      \<and> la_decision approval = ApprovalDecision.APPROVED
      \<and> rp_run_id proposal = re_run_id evidence \<and> rp_correlation_id proposal = re_correlation_id evidence
      \<and> rp_evidence_hash proposal = re_evidence_hash evidence
      \<and> rp_evidence_fingerprint proposal = stable_fingerprint L evidence
      \<and> la_proposal_id approval = rp_proposal_id proposal \<and> la_run_id approval = rp_run_id proposal
      \<and> la_proposal_hash approval = rp_proposal_hash proposal
      \<and> la_evidence_hash approval = rp_evidence_hash proposal
      \<and> la_proposal_version approval = rp_version proposal
      \<and> li_run_id intent = rp_run_id proposal \<and> li_proposal_id intent = rp_proposal_id proposal
      \<and> li_proposal_hash intent = rp_proposal_hash proposal
      \<and> li_evidence_hash intent = rp_evidence_hash proposal
      \<and> li_decision_hash intent = la_decision_hash approval
      \<and> li_operation_type intent = rp_operation_type proposal
      \<and> li_target_resource_type intent = rp_target_resource_type proposal
      \<and> li_target_resource_id intent = rp_target_resource_id proposal
      \<and> li_idempotency_key intent = ''local-exec:'' @ rp_proposal_hash proposal)"

text \<open>The state of the target after the approved operation, or the refusal.\<close>

definition revoke_rules ::
    "(string \<Rightarrow> int option) \<Rightarrow> RemediationProposal \<Rightarrow> SecurityGroupResource \<Rightarrow> exc + SecurityGroupResource" where
  "revoke_rules lax proposal z =
     (let parameters = rp_normalized_parameters proposal in
      case jget parameters ''ingress_rules'' of
        JArr raw \<Rightarrow>
          if set (map fst parameters) \<noteq> {''ingress_rules'', ''security_group_id''}
             \<or> jget parameters ''security_group_id'' \<noteq> JStr (rp_target_resource_id proposal) \<or> raw = []
          then Inl LocalMockPolicyError
          else (case rules_of_json lax raw of
              None \<Rightarrow> Inl LocalMockPolicyError
            | Some approved \<Rightarrow>
                if list_ex (\<lambda>r. r \<notin> set (z_inbound_rules z)) approved then Inl LocalMockConflictError
                else (let remaining = filter (\<lambda>r. r \<notin> set approved) (z_inbound_rules z) in
                  if int (length remaining) \<noteq> int (length (z_inbound_rules z)) - int (length (remdups approved))
                  then Inl LocalMockPolicyError
                  else Inr (z\<lparr>z_inbound_rules := remaining\<rparr>)))
      | _ \<Rightarrow> Inl LocalMockPolicyError)"

definition approved_change ::
    "(string \<Rightarrow> int option) \<Rightarrow> RemediationProposal \<Rightarrow> CloudResource \<Rightarrow> exc + CloudResource option" where
  "approved_change lax proposal current =
     (case rp_operation_type proposal of
        RemediationOperation.RELEASE_ELASTIC_IP \<Rightarrow>
          (case current of
             Eip y \<Rightarrow>
               if y_association_id y = None
                  \<and> same_json (JObj (rp_normalized_parameters proposal))
                      (JObj [(''allocation_id'', JStr (rp_target_resource_id proposal))])
               then Inr None else Inl LocalMockPolicyError
           | _ \<Rightarrow> Inl LocalMockPolicyError)
      | RemediationOperation.REVOKE_PUBLIC_INGRESS \<Rightarrow>
          (case current of
             Sg z \<Rightarrow> (case revoke_rules lax proposal z of Inl e \<Rightarrow> Inl e | Inr after \<Rightarrow> Inr (Some (Sg after)))
           | _ \<Rightarrow> Inl LocalMockPolicyError)
      | RemediationOperation.APPLY_REQUIRED_TAGS \<Rightarrow> Inl LocalMockPolicyError)"

definition put_resource ::
    "resource_key \<Rightarrow> CloudResource option \<Rightarrow> (resource_key, CloudResource) dict \<Rightarrow> (resource_key, CloudResource) dict" where
  "put_resource key after d = (case after of None \<Rightarrow> AList.delete key d | Some r \<Rightarrow> dput key r d)"

definition new_receipt ::
    "Platform \<Rightarrow> LocalMutation \<Rightarrow> CloudResource \<Rightarrow> CloudResource option \<Rightarrow> exc + LocalExecutionReceipt" where
  "new_receipt L m before after =
     (case utc_field (mu_executed_at m) of Inl e \<Rightarrow> Inl e
      | Inr executed_at \<Rightarrow>
        (let proposal = mu_proposal m;
             provisional =
               \<lparr>lr_run_id = rp_run_id proposal, lr_proposal_id = rp_proposal_id proposal,
                lr_proposal_hash = rp_proposal_hash proposal, lr_evidence_hash = rp_evidence_hash proposal,
                lr_decision_hash = la_decision_hash (mu_approval m), lr_intent_hash = li_intent_hash (mu_intent m),
                lr_idempotency_key = li_idempotency_key (mu_intent m),
                lr_operation_type = rp_operation_type proposal,
                lr_target_resource_type = rp_target_resource_type proposal,
                lr_target_resource_id = rp_target_resource_id proposal,
                lr_before_resource = before, lr_after_resource = after, lr_executed_at = executed_at,
                lr_receipt_hash = zero_digest\<rparr>
         in validated (valid_receipt L)
              (provisional\<lparr>lr_receipt_hash := compute_evidence_digest L (receipt_payload L provisional)\<rparr>)))"

text \<open>The part under the exclusive lock; the flag tells whether a change was applied.\<close>

definition inventory_execute ::
    "Platform \<Rightarrow> (string \<Rightarrow> int option) \<Rightarrow> LocalMutation \<Rightarrow> (Inventory, LocalExecutionReceipt \<times> bool) prog" where
  "inventory_execute L lax m v =
     (let proposal = mu_proposal m; intent = mu_intent m; key = li_idempotency_key intent in
      case dget (iv_receipts v) key of
        Some existing \<Rightarrow>
          if lr_intent_hash existing \<noteq> li_intent_hash intent \<or> lr_proposal_hash existing \<noteq> rp_proposal_hash proposal
             \<or> lr_decision_hash existing \<noteq> la_decision_hash (mu_approval m)
          then (Inl LocalMockConflictError, v) else (Inr (existing, False), v)
      | None \<Rightarrow>
          (let target = (rp_target_resource_type proposal, rp_target_resource_id proposal,
                         res_region (re_resource (mu_evidence m))) in
           case dget (iv_resources v) target of
             None \<Rightarrow> (Inl LocalMockConflictError, v)
           | Some current \<Rightarrow>
               if \<not> same_resource current (re_resource (mu_evidence m)) then (Inl LocalMockConflictError, v)
               else (case approved_change lax proposal current of
                   Inl e \<Rightarrow> (Inl e, v)
                 | Inr after \<Rightarrow> (case new_receipt L m current after of
                     Inl e \<Rightarrow> (Inl e, v)
                   | Inr receipt \<Rightarrow> (Inr (receipt, True),
                       \<lparr>iv_resources = put_resource target after (iv_resources v),
                        iv_receipts = dput key receipt (iv_receipts v)\<rparr>)))))"

text \<open>The read-back.\<close>

definition same_receipt :: "LocalExecutionReceipt \<Rightarrow> LocalExecutionReceipt \<Rightarrow> bool" where
  "same_receipt a b \<longleftrightarrow> a\<lparr>lr_before_resource := lr_before_resource b, lr_after_resource := lr_after_resource b\<rparr> = b
     \<and> same_resource (lr_before_resource a) (lr_before_resource b)
     \<and> same_optional_resource (lr_after_resource a) (lr_after_resource b)"

definition new_verification ::
    "Platform \<Rightarrow> LocalExecutionReceipt \<Rightarrow> bool \<Rightarrow> CloudResource option \<Rightarrow> datetime \<Rightarrow> exc + LocalVerificationEvidence" where
  "new_verification L receipt absent seen verified_at =
     (case utc_field verified_at of Inl e \<Rightarrow> Inl e
      | Inr t \<Rightarrow>
        (let provisional =
           \<lparr>lv_run_id = lr_run_id receipt, lv_proposal_id = lr_proposal_id receipt,
            lv_receipt_hash = lr_receipt_hash receipt, lv_operation_type = lr_operation_type receipt,
            lv_target_resource_type = lr_target_resource_type receipt,
            lv_target_resource_id = lr_target_resource_id receipt, lv_observed_absent = absent,
            lv_observed_resource = seen, lv_verified_at = t, lv_verification_hash = zero_digest\<rparr>
         in validated (valid_local_verification L)
              (provisional\<lparr>lv_verification_hash := compute_evidence_digest L (verification_payload L provisional)\<rparr>)))"

definition inventory_verify ::
    "Platform \<Rightarrow> LocalExecutionReceipt \<Rightarrow> datetime \<Rightarrow> Inventory \<Rightarrow> exc + LocalVerificationEvidence" where
  "inventory_verify L receipt verified_at v =
     (if (case dget (iv_receipts v) (lr_idempotency_key receipt) of
            None \<Rightarrow> True | Some durable \<Rightarrow> \<not> same_receipt durable receipt)
      then Inl LocalMockConflictError
      else
       let seen = dget (iv_resources v)
             (lr_target_resource_type receipt, lr_target_resource_id receipt, res_region (lr_before_resource receipt))
       in (case lr_operation_type receipt of
           RemediationOperation.RELEASE_ELASTIC_IP \<Rightarrow>
             if seen \<noteq> None then Inl LocalMockConflictError else new_verification L receipt True seen verified_at
         | RemediationOperation.REVOKE_PUBLIC_INGRESS \<Rightarrow>
             if \<not> same_optional_resource seen (lr_after_resource receipt) then Inl LocalMockConflictError
             else new_verification L receipt False seen verified_at
         | RemediationOperation.APPLY_REQUIRED_TAGS \<Rightarrow> Inl LocalMockPolicyError))"

subsection \<open>The inventory file\<close>

text \<open>
  \<open>_validate_execution_binding\<close> comes before the lock; then one read and, when a change was
  applied, one atomic replace. \<open>IoEvent\<close> says what goes wrong.
\<close>

definition store_read ::
    "Platform \<Rightarrow> CloudResource list \<Rightarrow> (Inventory \<Rightarrow> exc + 'a) \<Rightarrow> IoEvent \<Rightarrow> (InventoryFile, 'a) prog" where
  "store_read L initial op io f =
     (if io = LockFails \<or> io = ReadFails then (Inl CloudAdapterUnavailableError, f)
      else if io = DiesEarly \<or> io = DiesLate then (Inl Killed, f)
      else (case load_inventory L initial f of Inl e \<Rightarrow> (Inl e, f) | Inr v \<Rightarrow> (op v, f)))"

definition find_resource :: "ResourceQuery \<Rightarrow> Inventory \<Rightarrow> exc + CloudResource" where
  "find_resource q v =
     (case dget (iv_resources v) (q_resource_type q, q_resource_id q, q_region q) of
        None \<Rightarrow> Inl CloudResourceNotFoundError | Some r \<Rightarrow> Inr r)"

definition find_receipt :: "string \<Rightarrow> Inventory \<Rightarrow> exc + LocalExecutionReceipt option" where
  "find_receipt key v = Inr (dget (iv_receipts v) key)"

definition store_execute ::
    "Platform \<Rightarrow> (string \<Rightarrow> int option) \<Rightarrow> CloudResource list \<Rightarrow> LocalMutation \<Rightarrow> IoEvent
     \<Rightarrow> (InventoryFile, LocalExecutionReceipt \<times> bool) prog" where
  "store_execute L lax initial m io f =
     (if \<not> execution_bound L m then (Inl LocalMockPolicyError, f)
      else if io = LockFails \<or> io = ReadFails then (Inl CloudAdapterUnavailableError, f)
      else if io = DiesEarly then (Inl Killed, f)
      else (case load_inventory L initial f of
          Inl e \<Rightarrow> (Inl e, f)
        | Inr v \<Rightarrow> (case inventory_execute L lax m v of
            (Inl e, _) \<Rightarrow> (Inl e, f)
          | (Inr (receipt, applied), v') \<Rightarrow>
              if \<not> applied then (if io = DiesLate then Inl Killed else Inr (receipt, applied), f)
              else if io = WriteFails then (Inl CloudAdapterUnavailableError, f)
              else (if io = SyncFails then Inl CloudAdapterUnavailableError
                    else if io = DiesLate then Inl Killed else Inr (receipt, applied),
                    seal_inventory v'))))"

text \<open>
  The process and the file: the schedule gives, for each coming call, the executions of other
  processes that get the lock first and what goes wrong; the clock and the counters of
  \<open>LocalMockRemediationExecutor\<close> belong to the process.
\<close>

record LocalWorld =
  lw_file :: InventoryFile
  lw_schedule :: "(LocalMutation list \<times> IoEvent) list"
  lw_clock :: "datetime list"
  lw_execute_calls :: int
  lw_mutation_calls :: int
  lw_reconciled_calls :: int

definition local_clock :: "('a LocalWorld_scheme, datetime) prog" where
  "local_clock w = (case lw_clock w of
       [] \<Rightarrow> (Inl OtherError, w) | t # ts \<Rightarrow> (Inr t, w\<lparr>lw_clock := ts\<rparr>))"

definition other_executions ::
    "Platform \<Rightarrow> (string \<Rightarrow> int option) \<Rightarrow> CloudResource list \<Rightarrow> LocalMutation list \<Rightarrow> InventoryFile \<Rightarrow> InventoryFile" where
  "other_executions L lax initial = fold (\<lambda>m f. snd (store_execute L lax initial m Quiet f))"

definition inventory_call ::
    "Platform \<Rightarrow> (string \<Rightarrow> int option) \<Rightarrow> CloudResource list \<Rightarrow> (IoEvent \<Rightarrow> (InventoryFile, 'a) prog)
     \<Rightarrow> ('b LocalWorld_scheme, 'a) prog" where
  "inventory_call L lax initial m w =
     (let (others, io) = (case lw_schedule w of [] \<Rightarrow> ([], Quiet) | e # es \<Rightarrow> e);
          (x, f) = m io (other_executions L lax initial others (lw_file w))
      in (x, w\<lparr>lw_file := f, lw_schedule := tl (lw_schedule w)\<rparr>))"

text \<open>\<open>PersistentMockAwsAdapter\<close>, a read-only view; every query is logged.\<close>

definition mock_aws ::
    "Platform \<Rightarrow> (string \<Rightarrow> int option) \<Rightarrow> CloudResource list \<Rightarrow> ('b LocalWorld_scheme \<times> ResourceQuery list) QueryResource" where
  "mock_aws L lax initial =
     \<lparr>qr_adapter_name = ''persistent-local-mock-aws'',
      qr_get_resource = (\<lambda>q (w, calls).
        case inventory_call L lax initial (store_read L initial (find_resource q)) w of
          (x, w') \<Rightarrow> (x, w', calls @ [q]))\<rparr>"

subsection \<open>The executor\<close>

record 's LocalExecutor =
  le_execute :: "RemediationProposal \<Rightarrow> ResourceEvidence \<Rightarrow> LocalApprovalDecisionRecord \<Rightarrow> LocalExecutionIntent
     \<Rightarrow> ('s, LocalExecutionReceipt) prog"
  le_get_receipt :: "string \<Rightarrow> ('s, LocalExecutionReceipt option) prog"
  le_verify :: "LocalExecutionReceipt \<Rightarrow> ('s, LocalVerificationEvidence) prog"

definition mock_execute ::
    "Platform \<Rightarrow> (string \<Rightarrow> int option) \<Rightarrow> CloudResource list \<Rightarrow> RemediationProposal \<Rightarrow> ResourceEvidence
     \<Rightarrow> LocalApprovalDecisionRecord \<Rightarrow> LocalExecutionIntent \<Rightarrow> ('b LocalWorld_scheme, LocalExecutionReceipt) prog" where
  "mock_execute L lax initial proposal evidence approval intent w =
     andThen local_clock (\<lambda>now.
     andThen (inventory_call L lax initial (store_execute L lax initial
       \<lparr>mu_proposal = proposal, mu_evidence = evidence, mu_approval = approval, mu_intent = intent,
        mu_executed_at = now\<rparr>)) (\<lambda>(receipt, applied) w.
     (Inr receipt,
      if applied then w\<lparr>lw_mutation_calls := lw_mutation_calls w + 1\<rparr>
      else w\<lparr>lw_reconciled_calls := lw_reconciled_calls w + 1\<rparr>)))
     (w\<lparr>lw_execute_calls := lw_execute_calls w + 1\<rparr>)"

definition mock_executor ::
    "Platform \<Rightarrow> (string \<Rightarrow> int option) \<Rightarrow> CloudResource list \<Rightarrow> 'b LocalWorld_scheme LocalExecutor" where
  "mock_executor L lax initial =
     \<lparr>le_execute = mock_execute L lax initial,
      le_get_receipt = (\<lambda>key. inventory_call L lax initial (store_read L initial (find_receipt key))),
      le_verify = (\<lambda>receipt. andThen local_clock (\<lambda>now.
        inventory_call L lax initial (store_read L initial (inventory_verify L receipt now))))\<rparr>"

subsection \<open>The approved parameters name the rules exactly\<close>

lemma split_at_nonempty: "split_at d s \<noteq> []"
  by (induction s) (auto split: list.splits)

fun join_at :: "char \<Rightarrow> string list \<Rightarrow> string" where
  "join_at d [] = []"
| "join_at d [w] = w"
| "join_at d (w # ws) = w @ d # join_at d ws"

lemma join_split: "join_at d (split_at d s) = s"
proof (induction s)
  case (Cons c cs)
  then show ?case using split_at_nonempty [of d cs]
    by (cases "split_at d cs"; cases "tl (split_at d cs)") auto
qed simp

lemma code_inverse: "char_of (code c) = c"
  by (simp add: code_def)

lemma digit_of: "is_digit c \<Longrightarrow> char_of (48 + (code c - 48)) = c \<and> code c - 48 < 10"
  by (auto simp: is_digit_def code_inverse)

lemma decimal_snoc: "decimal (s @ [c]) = 10 * decimal s + (code c - 48)"
  by (simp add: decimal_def)

lemma zero_code: "code (CHR ''0'') = 48"
  by code_simp

lemma zero_char: "code c = 48 \<Longrightarrow> c = CHR ''0''"
  using code_inverse [of c] code_inverse [of "CHR ''0''"] zero_code by simp

lemma decimal_zero: "list_all is_digit s \<Longrightarrow> decimal s = 0 \<Longrightarrow> s \<noteq> [] \<Longrightarrow> hd s = CHR ''0''"
proof (induction s rule: rev_induct)
  case (snoc c s)
  from snoc.prems(1) have c: "is_digit c" "list_all is_digit s" by auto
  with snoc.prems(2) have "code c = 48" "decimal s = 0" by (auto simp: decimal_snoc is_digit_def)
  note c = c this
  with snoc.IH zero_char [OF c(3)] show ?case by (cases s) auto
qed simp

lemma digits_decimal: "list_all is_digit s \<Longrightarrow> s \<noteq> [] \<Longrightarrow> hd s \<noteq> CHR ''0'' \<or> length s = 1 \<Longrightarrow>
    digits_nat (decimal s) = s"
proof (induction s rule: rev_induct)
  case (snoc c s)
  from snoc.prems have c: "is_digit c" "list_all is_digit s" by auto
  note d = digit_of [OF c(1)]
  show ?case
  proof (cases s)
    case Nil
    with d show ?thesis by (simp add: decimal_def digits_nat.simps [of "code c - 48"])
  next
    case (Cons a t)
    with snoc.prems have "hd s \<noteq> CHR ''0''" by auto
    with snoc.IH c Cons decimal_zero [OF c(2)] have "digits_nat (decimal s) = s" "0 < decimal s" by auto
    with d show ?thesis
      by (subst digits_nat.simps) (simp add: decimal_snoc)
  qed
qed simp

lemma canonical_digits: "canonical_decimal m s \<Longrightarrow> digits_nat (decimal s) = s"
  by (auto simp: canonical_decimal_def intro: digits_decimal)

lemma octets_text:
  assumes "ipv4_octets s = Some os"
  shows "\<exists>a b c d. os = [a, b, c, d] \<and> a < 256 \<and> b < 256 \<and> c < 256 \<and> d < 256
    \<and> s = digits_nat a @ ''.'' @ digits_nat b @ ''.'' @ digits_nat c @ ''.'' @ digits_nat d"
proof -
  from assms have ws: "length (split_at CHR ''.'' s) = 4" "list_all (canonical_decimal 255) (split_at CHR ''.'' s)"
    "os = map decimal (split_at CHR ''.'' s)"
    by (auto simp: ipv4_octets_def Let_def split: if_splits)
  then obtain p q r t where w: "split_at CHR ''.'' s = [p, q, r, t]"
    by (auto simp: length_Suc_conv eval_nat_numeral)
  have "s = p @ ''.'' @ q @ ''.'' @ r @ ''.'' @ t" using join_split [of "CHR ''.''" s] w by simp
  with ws(2,3) w show ?thesis
    by (auto simp: canonical_digits canonical_decimal_def)
qed

lemma octet_arithmetic:
  assumes "c < 256" and "d < 256" and "e < (256 :: nat)"
  shows "(16777216 * b + 65536 * c + 256 * d + e) div 16777216 = b"
    "(16777216 * b + 65536 * c + 256 * d + e) div 65536 mod 256 = c"
    "(16777216 * b + 65536 * c + 256 * d + e) div 256 mod 256 = d"
    "(16777216 * b + 65536 * c + 256 * d + e) mod 256 = e"
proof -
  have "16777216 * b + 65536 * c + 256 * d + e = (b * 256 + c) * 65536 + (d * 256 + e)" by simp
  moreover have "d * 256 + e < 65536" using assms by simp
  ultimately have "(16777216 * b + 65536 * c + 256 * d + e) div 65536 = b * 256 + c" by simp
  with assms show "(16777216 * b + 65536 * c + 256 * d + e) div 65536 mod 256 = c" by simp
  show "(16777216 * b + 65536 * c + 256 * d + e) div 16777216 = b"
    using assms by (intro div_nat_eqI) simp_all
  have "16777216 * b + 65536 * c + 256 * d + e = ((b * 256 + c) * 256 + d) * 256 + e" by simp
  with assms have "(16777216 * b + 65536 * c + 256 * d + e) div 256 = (b * 256 + c) * 256 + d" by simp
  with assms(2) show "(16777216 * b + 65536 * c + 256 * d + e) div 256 mod 256 = d"
    by (simp only: mod_mult_self3 mod_less)
  have "16777216 * b + 65536 * c + 256 * d + e = (65536 * b + 256 * c + d) * 256 + e" by simp
  with assms(3) show "(16777216 * b + 65536 * c + 256 * d + e) mod 256 = e"
    by (simp only: mod_mult_self3 mod_less)
qed

lemma network_text_canonical:
  assumes "ipv4_network s" shows "parse_network s = Some s"
proof -
  from assms obtain a p os where w: "split_at CHR ''/'' s = [a, p]" "ipv4_octets a = Some os"
    "canonical_decimal 32 p" "2 ^ (32 - decimal p) dvd ipv4_value os"
    by (auto simp: ipv4_network_def split: list.splits option.splits)
  from octets_text [OF w(2)] obtain b c d e where o: "os = [b, c, d, e]" "b < 256" "c < 256" "d < 256" "e < 256"
    "a = digits_nat b @ ''.'' @ digits_nat c @ ''.'' @ digits_nat d @ ''.'' @ digits_nat e" by blast
  have p: "prefix_of_text p = Some (decimal p)"
    using w(3) by (auto simp: prefix_of_text_def canonical_decimal_def)
  have v: "ipv4_value os = 256 * (256 * (256 * b + c) + d) + e" by (simp add: ipv4_value_def o(1))
  have "network_text (ipv4_value os) (decimal p) = a @ ''/'' @ p"
    using w(4) octet_arithmetic [OF o(3-5)] canonical_digits [OF w(3)]
    by (simp add: network_text_def o(6) v Let_def)
  then show ?thesis using join_split [of "CHR ''/''" s] w p by (simp add: parse_network_def)
qed

lemma port_roundtrip [simp]: "rule_port lax (JOptInt p) = Some p"
  by (cases p) (simp_all add: rule_port_def)

lemma rule_roundtrip:
  assumes "valid_rule r" shows "rule_of_json lax (rule_json r) = Some r"
proof -
  have "non_empty_text (sr_cidr_ipv4 r)" "parse_network (sr_cidr_ipv4 r) = Some (sr_cidr_ipv4 r)"
    using assms by (simp_all add: valid_rule_def network_text_canonical)
  with assms show ?thesis by (cases r) (simp add: rule_of_json_def rule_json_def jget_def Let_def)
qed

lemma rules_roundtrip: "list_all valid_rule rs \<Longrightarrow> rules_of_json lax (map rule_json rs) = Some rs"
  by (induction rs) (simp_all add: rule_roundtrip)

subsection \<open>The inventory survives the file\<close>

lemma dget_put_resource [simp]: "dget (put_resource k after d) x = (if x = k then after else dget d x)"
  by (simp add: put_resource_def delete_conv' split: option.split)

lemma dict_ok_put_resource [simp]: "dict_ok d \<Longrightarrow> dict_ok (put_resource k after d)"
  by (simp add: put_resource_def dict_ok_def distinct_delete distinct_update split: option.split)

definition inventory_ok :: "Platform \<Rightarrow> Inventory \<Rightarrow> bool" where
  "inventory_ok L v \<longleftrightarrow> keyed resource_key (iv_resources v) \<and> keyed lr_idempotency_key (iv_receipts v)
     \<and> (\<forall>k r. dget (iv_resources v) k = Some r \<longrightarrow> valid_resource r)
     \<and> (\<forall>k r. dget (iv_receipts v) k = Some r \<longrightarrow> valid_receipt L r)"

definition same_inventory :: "Inventory \<Rightarrow> Inventory \<Rightarrow> bool" where
  "same_inventory v v' \<longleftrightarrow> same_table (iv_resources v) (iv_resources v')
     \<and> same_table (iv_receipts v) (iv_receipts v')"

lemma same_inventory_dget:
  assumes "same_inventory v v'"
  shows "dget (iv_resources v') = dget (iv_resources v)" "dget (iv_receipts v') = dget (iv_receipts v)"
  using assms by (simp_all add: same_inventory_def same_table_dget)

lemma same_inventory_ok: "same_inventory v v' \<Longrightarrow> inventory_ok L v \<Longrightarrow> inventory_ok L v'"
  by (auto simp: inventory_ok_def same_inventory_dget keyed_def) (auto simp: same_inventory_def dest: same_table_dict_ok)

lemma table_of_any_order:
  assumes "keyed key t" and "mset t' = mset t"
  shows "table_of key (map snd t') = t'"
proof -
  have s: "same_table t t'" using assms by (simp add: same_table_def keyed_def)
  then have keys: "key v = k" if "(k, v) \<in> set t'" for k v
    using assms(1) that same_table_dict_ok [OF s] same_table_dget [OF s]
    by (metis dict_set_dget keyed_def)
  then have m: "map key (map snd t') = map fst t'" by auto
  have "distinct (map key (map snd t'))"
    unfolding m using same_table_dict_ok [OF s] by (simp add: dict_ok_def)
  from table_of_distinct [OF this] have "table_of key (map snd t') = map (\<lambda>x. (key x, x)) (map snd t')" .
  also have "\<dots> = t'" unfolding map_map by (rule map_idI) (use keys in auto)
  finally show ?thesis .
qed

lemma list_all_table:
  assumes "dict_ok t" and "mset t' = mset t" and "\<And>k v. dget t k = Some v \<Longrightarrow> P v"
  shows "list_all P (map snd t')"
  using assms mset_eq_setD [OF assms(2)]
  by (auto simp: list_all_iff) (metis dict_set_dget assms(3) assms(1))

lemma load_seal:
  assumes ok: "inventory_ok L v"
  shows "\<exists>v'. load_inventory L initial (seal_inventory v) = Inr v' \<and> same_inventory v v'"
proof -
  let ?r = "sort_key (resource_sort_key \<circ> fst) (iv_resources v)" and ?c = "sort_key fst (iv_receipts v)"
  have k: "keyed resource_key (iv_resources v)" "keyed lr_idempotency_key (iv_receipts v)"
    using ok by (simp_all add: inventory_ok_def)
  have t: "table_of resource_key (map snd ?r) = ?r" "table_of lr_idempotency_key (map snd ?c) = ?c"
    using k by (simp_all add: table_of_any_order)
  have l: "list_all valid_resource (map snd ?r)" "list_all (valid_receipt L) (map snd ?c)"
    using ok k by (auto intro!: list_all_table simp: inventory_ok_def keyed_def simp del: list.pred_map)
  show ?thesis
    using k t l by (simp add: load_inventory_def seal_inventory_def sorted_values_def same_inventory_def
        same_table_def keyed_def Let_def del: map_map)
qed

definition initial_ok :: "CloudResource list \<Rightarrow> bool" where
  "initial_ok resources \<longleftrightarrow> list_all valid_resource resources \<and> distinct (map resource_key resources)"

lemma table_of_values:
  assumes "dget (table_of key xs) k = Some x" shows "x \<in> set xs"
proof -
  have "snd ` set (fold (\<lambda>x. dput (key x) x) ys t) \<subseteq> snd ` set t \<union> set ys" for ys t
  proof (induction ys arbitrary: t)
    case (Cons y ys)
    have "snd ` set (dput (key y) y t) \<subseteq> insert y (snd ` set t)" by (induction t) auto
    with Cons.IH [of "dput (key y) y t"] show ?case by auto
  qed simp
  from this [of xs "[]"] map_of_SomeD [OF assms] show ?thesis by (force simp: table_of_def)
qed

lemma load_ok:
  assumes "initial_ok initial" and "load_inventory L initial f = Inr v"
  shows "inventory_ok L v"
  using assms by (cases f)
    (auto simp: load_inventory_def initial_inventory_def initial_ok_def inventory_ok_def Let_def list_all_iff
      keyed_def [of _ "[]"] dest!: table_of_values split: if_splits)

subsection \<open>What one execution does\<close>

definition mutation_target :: "LocalMutation \<Rightarrow> resource_key" where
  "mutation_target m = (rp_target_resource_type (mu_proposal m), rp_target_resource_id (mu_proposal m),
     res_region (re_resource (mu_evidence m)))"

definition receipt_target :: "LocalExecutionReceipt \<Rightarrow> resource_key" where
  "receipt_target r = (lr_target_resource_type r, lr_target_resource_id r, res_region (lr_before_resource r))"

lemma same_fields:
  "a\<lparr>x_tags := []\<rparr> = b\<lparr>x_tags := []\<rparr> \<Longrightarrow> x_resource_id a = x_resource_id b \<and> x_region a = x_region b"
  "c\<lparr>y_tags := []\<rparr> = d\<lparr>y_tags := []\<rparr> \<Longrightarrow> y_resource_id c = y_resource_id d \<and> y_region c = y_region d
     \<and> y_association_id c = y_association_id d"
  "e\<lparr>z_tags := []\<rparr> = g\<lparr>z_tags := []\<rparr> \<Longrightarrow> z_resource_id e = z_resource_id g \<and> z_region e = z_region g
     \<and> z_inbound_rules e = z_inbound_rules g"
  by (cases a; cases b; cases c; cases d; cases e; cases g; simp)+

lemma same_resource_key: "same_resource a b \<Longrightarrow> resource_key a = resource_key b"
  by (cases "(a, b)" rule: same_resource.cases) (auto simp: resource_key_def dest!: same_fields)

text \<open>The receipt of an applied change records the approval it used and the exact change.\<close>

definition receipt_of :: "LocalMutation \<Rightarrow> LocalExecutionReceipt \<Rightarrow> bool" where
  "receipt_of m r \<longleftrightarrow> lr_idempotency_key r = li_idempotency_key (mu_intent m)
     \<and> lr_run_id r = rp_run_id (mu_proposal m) \<and> lr_proposal_id r = rp_proposal_id (mu_proposal m)
     \<and> lr_proposal_hash r = rp_proposal_hash (mu_proposal m) \<and> lr_evidence_hash r = rp_evidence_hash (mu_proposal m)
     \<and> lr_decision_hash r = la_decision_hash (mu_approval m) \<and> lr_intent_hash r = li_intent_hash (mu_intent m)
     \<and> lr_operation_type r = rp_operation_type (mu_proposal m)
     \<and> receipt_target r = mutation_target m
     \<and> mu_executed_at m = Utc (lr_executed_at r)"

lemma new_receipt_Inr:
  assumes "new_receipt L m before after = Inr r" and "res_region before = res_region (re_resource (mu_evidence m))"
  shows "valid_receipt L r \<and> receipt_of m r \<and> lr_before_resource r = before \<and> lr_after_resource r = after"
  using assms unfolding new_receipt_def
  by (cases "mu_executed_at m")
    (auto simp: utc_field_def Let_def receipt_of_def receipt_target_def mutation_target_def)

lemma inventory_execute_cases:
  assumes "inventory_execute L lax m v = (x, v')"
  obtains (refused) e where "x = Inl e" and "v' = v"
  | (replayed) r where "x = Inr (r, False)" and "v' = v"
      and "dget (iv_receipts v) (li_idempotency_key (mu_intent m)) = Some r"
      and "lr_intent_hash r = li_intent_hash (mu_intent m)"
      and "lr_proposal_hash r = rp_proposal_hash (mu_proposal m)"
      and "lr_decision_hash r = la_decision_hash (mu_approval m)"
  | (applied) r current after where "x = Inr (r, True)"
      and "dget (iv_receipts v) (li_idempotency_key (mu_intent m)) = None"
      and "dget (iv_resources v) (mutation_target m) = Some current"
      and "same_resource current (re_resource (mu_evidence m))"
      and "approved_change lax (mu_proposal m) current = Inr after"
      and "valid_receipt L r" and "receipt_of m r" and "lr_before_resource r = current" and "lr_after_resource r = after"
      and "v' = \<lparr>iv_resources = put_resource (receipt_target r) after (iv_resources v),
             iv_receipts = dput (lr_idempotency_key r) r (iv_receipts v)\<rparr>"
proof (cases "dget (iv_receipts v) (li_idempotency_key (mu_intent m))")
  case (Some r)
  with assms show ?thesis
    by (auto simp: inventory_execute_def Let_def split: if_splits intro: refused replayed)
next
  case None
  show ?thesis
  proof (cases "\<exists>e. x = Inl e")
    case True
    with None assms show ?thesis
      by (auto simp: inventory_execute_def Let_def split: if_splits option.splits sum.splits intro: refused)
  next
    case False
    with None assms obtain current after r where c: "dget (iv_resources v) (mutation_target m) = Some current"
      "same_resource current (re_resource (mu_evidence m))" "approved_change lax (mu_proposal m) current = Inr after"
      "new_receipt L m current after = Inr r" "x = Inr (r, True)"
      "v' = \<lparr>iv_resources = put_resource (mutation_target m) after (iv_resources v),
             iv_receipts = dput (li_idempotency_key (mu_intent m)) r (iv_receipts v)\<rparr>"
      by (auto simp: inventory_execute_def Let_def mutation_target_def split: if_splits option.splits sum.splits)
    have "res_region current = res_region (re_resource (mu_evidence m))"
      using same_resource_key [OF c(2)] by (simp add: resource_key_def)
    note r = new_receipt_Inr [OF c(4) this]
    show ?thesis by (rule applied [OF c(5) None c(1-3)]) (use r c(6) in \<open>auto simp: receipt_of_def\<close>)
  qed
qed

text \<open>What the two operations do.\<close>

lemma revoke_rules_Inr:
  assumes "revoke_rules lax p z = Inr after"
  shows "\<exists>raw approved. jget (rp_normalized_parameters p) ''ingress_rules'' = JArr raw \<and> raw \<noteq> []
    \<and> rules_of_json lax raw = Some approved \<and> set approved \<subseteq> set (z_inbound_rules z)
    \<and> after = z\<lparr>z_inbound_rules := filter (\<lambda>r. r \<notin> set approved) (z_inbound_rules z)\<rparr>"
proof -
  from assms obtain raw where raw: "jget (rp_normalized_parameters p) ''ingress_rules'' = JArr raw"
    by (cases "jget (rp_normalized_parameters p) ''ingress_rules''") (simp_all add: revoke_rules_def)
  note run = assms [unfolded revoke_rules_def Let_def raw, simplified]
  from run obtain approved where a: "raw \<noteq> []" "rules_of_json lax raw = Some approved"
    by (cases "rules_of_json lax raw") (auto split: if_splits)
  from run a(2) have "\<not> list_ex (\<lambda>r. r \<notin> set (z_inbound_rules z)) approved"
    "after = z\<lparr>z_inbound_rules := filter (\<lambda>r. r \<notin> set approved) (z_inbound_rules z)\<rparr>"
    by (auto split: if_splits)
  with raw a show ?thesis by (auto simp: list_ex_iff)
qed

lemma approved_change_Inr:
  assumes "approved_change lax p current = Inr after"
  obtains (release) y where "rp_operation_type p = RemediationOperation.RELEASE_ELASTIC_IP" and "current = Eip y"
      and "y_association_id y = None" and "after = None"
  | (revoke) z z' where "rp_operation_type p = RemediationOperation.REVOKE_PUBLIC_INGRESS" and "current = Sg z"
      and "revoke_rules lax p z = Inr z'" and "after = Some (Sg z')"
  using assms by (cases "rp_operation_type p"; cases current)
    (auto simp: approved_change_def split: if_splits sum.splits)

text \<open>The change leaves a resource with the key of its target.\<close>

lemma approved_change_key:
  assumes "approved_change lax p current = Inr (Some after)"
  shows "resource_key after = resource_key current"
  using assms by (rule approved_change_Inr) (auto simp: resource_key_def dest: revoke_rules_Inr)

subsection \<open>The inventory is its receipts\<close>

fun replay :: "(resource_key, CloudResource) dict \<Rightarrow> LocalExecutionReceipt list \<Rightarrow> (resource_key, CloudResource) dict" where
  "replay d [] = d"
| "replay d (r # rs) = replay (put_resource (receipt_target r) (lr_after_resource r) d) rs"

text \<open>Every receipt found its target exactly as it says.\<close>

fun chained :: "(resource_key, CloudResource) dict \<Rightarrow> LocalExecutionReceipt list \<Rightarrow> bool" where
  "chained d [] = True"
| "chained d (r # rs) \<longleftrightarrow> dget d (receipt_target r) = Some (lr_before_resource r)
     \<and> chained (put_resource (receipt_target r) (lr_after_resource r) d) rs"

lemma replay_snoc [simp]:
  "replay d (rs @ [r]) = put_resource (receipt_target r) (lr_after_resource r) (replay d rs)"
  by (induction rs arbitrary: d) auto

lemma chained_snoc [simp]:
  "chained d (rs @ [r]) \<longleftrightarrow> chained d rs \<and> dget (replay d rs) (receipt_target r) = Some (lr_before_resource r)"
  by (induction rs arbitrary: d) auto

definition canonical_key :: "LocalExecutionReceipt \<Rightarrow> bool" where
  "canonical_key r \<longleftrightarrow> lr_idempotency_key r = ''local-exec:'' @ lr_proposal_hash r"

lemma canonical_key_hash:
  "canonical_key r \<Longrightarrow> canonical_key q \<Longrightarrow> lr_idempotency_key r = lr_idempotency_key q \<longleftrightarrow> lr_proposal_hash r = lr_proposal_hash q"
  by (simp add: canonical_key_def)

definition explained :: "Platform \<Rightarrow> CloudResource list \<Rightarrow> LocalExecutionReceipt list \<Rightarrow> Inventory \<Rightarrow> bool" where
  "explained L initial rs v \<longleftrightarrow> inventory_ok L v
     \<and> distinct (map lr_proposal_hash rs)
     \<and> list_all (\<lambda>r. valid_receipt L r \<and> canonical_key r) rs
     \<and> chained (table_of resource_key initial) rs
     \<and> dget (iv_resources v) = dget (replay (table_of resource_key initial) rs)
     \<and> (\<forall>k r. dget (iv_receipts v) k = Some r \<longleftrightarrow> r \<in> set rs \<and> lr_idempotency_key r = k)"

lemma explained_same: "same_inventory v v' \<Longrightarrow> explained L initial rs v \<Longrightarrow> explained L initial rs v'"
  unfolding explained_def using same_inventory_ok by (simp add: same_inventory_dget)

lemma explained_initial:
  assumes "initial_ok initial" shows "explained L initial [] (initial_inventory initial)"
proof -
  have "load_inventory L initial NoInventory = Inr (initial_inventory initial)" by (simp add: load_inventory_def)
  from load_ok [OF assms this] show ?thesis by (simp add: explained_def initial_inventory_def)
qed

lemma mutation_receipt_key:
  "execution_bound L m \<Longrightarrow> receipt_of m r \<Longrightarrow> canonical_key r"
  by (auto simp: execution_bound_def receipt_of_def canonical_key_def Let_def)

lemma inventory_ok_applied:
  assumes "inventory_ok L v" and "valid_receipt L r"
    and "\<And>a. lr_after_resource r = Some a \<Longrightarrow> resource_key a = receipt_target r"
  shows "inventory_ok L \<lparr>iv_resources = put_resource (receipt_target r) (lr_after_resource r) (iv_resources v),
      iv_receipts = dput (lr_idempotency_key r) r (iv_receipts v)\<rparr>"
proof -
  have "\<forall>a. lr_after_resource r = Some a \<longrightarrow> valid_resource a"
    using assms(2) by (simp add: valid_receipt_def optional_iff)
  with assms show ?thesis by (auto simp: inventory_ok_def keyed_def)
qed

lemma receipt_target_key: "valid_receipt L r \<Longrightarrow> receipt_target r = resource_key (lr_before_resource r)"
  by (simp add: valid_receipt_def receipt_target_def resource_key_def)

lemma explained_snoc:
  assumes "explained L initial rs v" and "valid_receipt L r" and "canonical_key r"
    and "dget (iv_receipts v) (lr_idempotency_key r) = None"
    and "dget (iv_resources v) (receipt_target r) = Some (lr_before_resource r)"
    and "\<And>a. lr_after_resource r = Some a \<Longrightarrow> resource_key a = receipt_target r"
  shows "explained L initial (rs @ [r])
    \<lparr>iv_resources = put_resource (receipt_target r) (lr_after_resource r) (iv_resources v),
     iv_receipts = dput (lr_idempotency_key r) r (iv_receipts v)\<rparr>"
proof -
  note e = assms(1) [unfolded explained_def]
  have none: "q \<notin> set rs" if "lr_idempotency_key q = lr_idempotency_key r" for q
    using e assms(4) that by (metis option.distinct(1))
  then have "lr_proposal_hash r \<notin> set (map lr_proposal_hash rs)"
    using e assms(3) canonical_key_hash by (auto simp: list_all_iff)
  with e none inventory_ok_applied [OF _ assms(2,6)] assms(2-5) show ?thesis
    unfolding explained_def by auto
qed

lemma explained_execute:
  assumes "explained L initial rs v" and "execution_bound L m" and "inventory_execute L lax m v = (x, v')"
  shows "(v' = v \<and> (\<forall>r applied. x = Inr (r, applied) \<longrightarrow> \<not> applied \<and> r \<in> set rs
        \<and> lr_idempotency_key r = li_idempotency_key (mu_intent m) \<and> lr_intent_hash r = li_intent_hash (mu_intent m)))
    \<or> (\<exists>r. x = Inr (r, True) \<and> explained L initial (rs @ [r]) v' \<and> receipt_of m r
        \<and> same_resource (lr_before_resource r) (re_resource (mu_evidence m))
        \<and> approved_change lax (mu_proposal m) (lr_before_resource r) = Inr (lr_after_resource r))"
proof -
  from assms(3) show ?thesis
  proof (cases rule: inventory_execute_cases)
    case (replayed r)
    with assms(1) show ?thesis by (auto simp: explained_def)
  next
    case (applied r current after)
    have target: "receipt_target r = mutation_target m" "lr_idempotency_key r = li_idempotency_key (mu_intent m)"
      using applied(7) by (simp_all add: receipt_of_def)
    have "explained L initial (rs @ [r])
      \<lparr>iv_resources = put_resource (receipt_target r) (lr_after_resource r) (iv_resources v),
       iv_receipts = dput (lr_idempotency_key r) r (iv_receipts v)\<rparr>"
    proof (rule explained_snoc [OF assms(1) applied(6) mutation_receipt_key [OF assms(2) applied(7)]])
      show "resource_key a = receipt_target r" if "lr_after_resource r = Some a" for a
        using approved_change_key [of lax "mu_proposal m" current a] that applied(5,8,9)
          receipt_target_key [OF applied(6)] by simp
    qed (use applied(2,3,8) target in simp_all)
    with applied show ?thesis by blast
  qed simp
qed

definition file_explained :: "Platform \<Rightarrow> CloudResource list \<Rightarrow> LocalExecutionReceipt list \<Rightarrow> InventoryFile \<Rightarrow> bool" where
  "file_explained L initial rs f \<longleftrightarrow> (\<exists>v. load_inventory L initial f = Inr v \<and> explained L initial rs v)"

lemma file_explained_seal:
  assumes "explained L initial rs v" shows "file_explained L initial rs (seal_inventory v)"
proof -
  from assms have "inventory_ok L v" by (simp add: explained_def)
  from load_seal [OF this] obtain v' where "load_inventory L initial (seal_inventory v) = Inr v'" "same_inventory v v'"
    by blast
  with explained_same [OF _ assms] show ?thesis by (auto simp: file_explained_def)
qed

text \<open>The receipts one call adds, and what its answer tells.\<close>

definition execution_outcome ::
    "Platform \<Rightarrow> (string \<Rightarrow> int option) \<Rightarrow> LocalMutation \<Rightarrow> LocalExecutionReceipt list \<Rightarrow> LocalExecutionReceipt list
     \<Rightarrow> exc + LocalExecutionReceipt \<times> bool \<Rightarrow> bool" where
  "execution_outcome L lax m rs new x \<longleftrightarrow>
     (new = [] \<or> (\<exists>r. new = [r] \<and> execution_bound L m \<and> receipt_of m r
        \<and> same_resource (lr_before_resource r) (re_resource (mu_evidence m))
        \<and> approved_change lax (mu_proposal m) (lr_before_resource r) = Inr (lr_after_resource r)))
     \<and> (\<forall>r applied. x = Inr (r, applied) \<longrightarrow> r \<in> set (rs @ new) \<and> (applied \<longleftrightarrow> new = [r])
          \<and> lr_idempotency_key r = li_idempotency_key (mu_intent m) \<and> lr_intent_hash r = li_intent_hash (mu_intent m))"

lemma store_execute_explained:
  assumes "file_explained L initial rs f" and "store_execute L lax initial m io f = (x, f')"
  shows "\<exists>new. file_explained L initial (rs @ new) f' \<and> execution_outcome L lax m rs new x"
proof -
  from assms(1) obtain v where v: "load_inventory L initial f = Inr v" "explained L initial rs v"
    by (auto simp: file_explained_def)
  have idle: ?thesis if "f' = f" "\<forall>y. x \<noteq> Inr y"
    using that assms(1) by (intro exI [of _ "[]"]) (auto simp: execution_outcome_def)
  show ?thesis
  proof (cases "\<not> execution_bound L m \<or> io \<in> {LockFails, ReadFails, DiesEarly}")
    case True
    with assms(2) show ?thesis by (intro idle) (auto simp: store_execute_def split: if_splits)
  next
    case False
    obtain y v' where e: "inventory_execute L lax m v = (y, v')" by fastforce
    from False have bound: "execution_bound L m" and live: "io \<noteq> LockFails" "io \<noteq> ReadFails" "io \<noteq> DiesEarly" by auto
    from explained_execute [OF v(2) bound e] show ?thesis
    proof (elim disjE exE conjE)
      assume told: "\<forall>r applied. y = Inr (r, applied) \<longrightarrow> \<not> applied \<and> r \<in> set rs
        \<and> lr_idempotency_key r = li_idempotency_key (mu_intent m) \<and> lr_intent_hash r = li_intent_hash (mu_intent m)"
      have "f' = f \<and> (x = y \<or> (\<exists>e. x = Inl e))"
      proof (cases y)
        case (Inl e')
        with assms(2) live show ?thesis by (simp add: store_execute_def v(1) e bound)
      next
        case (Inr p)
        with told obtain r where "y = Inr (r, False)" by (cases p) auto
        with assms(2) live show ?thesis by (cases "io = DiesLate") (auto simp: store_execute_def v(1) e bound)
      qed
      with told assms(1) show ?thesis by (intro exI [of _ "[]"]) (auto simp: execution_outcome_def)
    next
      fix r assume r: "y = Inr (r, True)" "explained L initial (rs @ [r]) v'" "receipt_of m r"
        "same_resource (lr_before_resource r) (re_resource (mu_evidence m))"
        "approved_change lax (mu_proposal m) (lr_before_resource r) = Inr (lr_after_resource r)"
      show ?thesis
      proof (cases "io = WriteFails")
        case True
        with assms(2) live show ?thesis by (intro idle) (auto simp: store_execute_def v(1) e r(1) bound)
      next
        case alive: False
        have "f' = seal_inventory v'" "x = Inr (r, True) \<or> (\<exists>e. x = Inl e)"
          using assms(2) live alive by (auto simp: store_execute_def v(1) e r(1) bound split: if_splits)
        with file_explained_seal [OF r(2)] r bound show ?thesis
          by (intro exI [of _ "[r]"]) (auto simp: execution_outcome_def receipt_of_def)
      qed
    qed
  qed
qed

lemma store_execute_Inr:
  assumes "store_execute L lax initial m io f = (Inr (r, True), f')"
  shows "\<exists>v. load_inventory L initial f = Inr v \<and> execution_bound L m
    \<and> same_resource (lr_before_resource r) (re_resource (mu_evidence m)) \<and> receipt_of m r \<and> valid_receipt L r
    \<and> approved_change lax (mu_proposal m) (lr_before_resource r) = Inr (lr_after_resource r)
    \<and> f' = seal_inventory \<lparr>iv_resources = put_resource (receipt_target r) (lr_after_resource r) (iv_resources v),
         iv_receipts = dput (lr_idempotency_key r) r (iv_receipts v)\<rparr>"
proof -
  from assms obtain v v' where v: "load_inventory L initial f = Inr v" "execution_bound L m"
    "inventory_execute L lax m v = (Inr (r, True), v')" "f' = seal_inventory v'"
    by (auto simp: store_execute_def split: if_splits sum.splits prod.splits)
  from v(3) show ?thesis
    by (cases rule: inventory_execute_cases) (use v in auto)
qed

subsection \<open>Revoking the planned rules\<close>

lemma filter_not_in: "filter (\<lambda>r. r \<notin> set (filter P xs)) xs = filter (\<lambda>r. \<not> P r) xs"
  by (rule filter_cong) auto

lemma planned_rules:
  assumes "valid_resource (Sg z)" and "rp_normalized_parameters p = revocation_parameters z (unsafe_rules z)"
    and "rp_target_resource_id p = z_resource_id z" and "unsafe_rules z \<noteq> []" and "z_inbound_rules w = z_inbound_rules z"
  shows "revoke_rules lax p w =
    (if distinct (unsafe_rules z)
     then Inr (w\<lparr>z_inbound_rules := filter (\<lambda>r. sr_cidr_ipv4 r \<noteq> PUBLIC_CIDR) (z_inbound_rules w)\<rparr>)
     else Inl LocalMockPolicyError)"
proof -
  let ?in = "z_inbound_rules z" and ?P = "\<lambda>r. sr_cidr_ipv4 r = PUBLIC_CIDR"
  have "list_all valid_rule (unsafe_rules z)"
    using assms(1) by (auto simp: unsafe_rules_def list_all_iff)
  then have rules: "rules_of_json lax (map rule_json (unsafe_rules z)) = Some (unsafe_rules z)" by (rule rules_roundtrip)
  have present: "\<not> list_ex (\<lambda>r. r \<notin> set ?in) (unsafe_rules z)" by (auto simp: unsafe_rules_def list_ex_iff)
  have left: "filter (\<lambda>r. r \<notin> set (unsafe_rules z)) ?in = filter (\<lambda>r. \<not> ?P r) ?in"
    by (simp add: unsafe_rules_def filter_not_in del: set_filter)
  have sum: "length (filter (\<lambda>r. \<not> ?P r) ?in) + length (unsafe_rules z) = length ?in"
    using sum_length_filter_compl [of ?P ?in] by (simp add: unsafe_rules_def)
  have le: "length (remdups (unsafe_rules z)) \<le> length (unsafe_rules z)" by (rule length_remdups_leq)
  have eq: "length (remdups (unsafe_rules z)) = length (unsafe_rules z) \<longleftrightarrow> distinct (unsafe_rules z)"
    unfolding length_remdups_card_conv by (metis card_distinct distinct_card)
  have count: "int (length (filter (\<lambda>r. \<not> ?P r) ?in)) \<noteq> int (length ?in) - int (length (remdups (unsafe_rules z)))
      \<longleftrightarrow> \<not> distinct (unsafe_rules z)"
    using sum le unfolding eq [symmetric] by linarith
  have "revoke_rules lax p w =
    (if int (length (filter (\<lambda>r. \<not> ?P r) ?in)) \<noteq> int (length ?in) - int (length (remdups (unsafe_rules z)))
     then Inl LocalMockPolicyError else Inr (w\<lparr>z_inbound_rules := filter (\<lambda>r. \<not> ?P r) ?in\<rparr>))"
    using assms(4)
    by (simp add: revoke_rules_def assms(2,3,5) revocation_parameters_def jget_def rules Let_def present left)
  then show ?thesis unfolding count by (simp add: assms(5))
qed

lemma same_dict_refl: "dict_ok d \<Longrightarrow> same_dict d d"
  by (auto simp: same_dict_def list_all_iff dict_set_dget)

lemma same_resource_refl [simp]: "valid_resource r \<Longrightarrow> same_resource r r"
  by (cases r) (simp_all add: valid_tags_def same_dict_refl)

lemma same_optional_resource_refl [simp]: "optional valid_resource r \<Longrightarrow> same_optional_resource r r"
  by (cases r) simp_all

lemma same_receipt_refl [simp]: "valid_receipt L r \<Longrightarrow> same_receipt r r"
  by (simp add: same_receipt_def valid_receipt_def)

lemma same_resource_Sg: "same_resource c (Sg z) \<Longrightarrow> \<exists>w. c = Sg w \<and> z_inbound_rules w = z_inbound_rules z"
  by (cases c) (auto dest: same_fields)

lemma same_resource_Eip: "same_resource c (Eip y) \<Longrightarrow> \<exists>x. c = Eip x \<and> y_association_id x = y_association_id y"
  by (cases c) (auto dest: same_fields)

text \<open>The proposal as it is stored when approval is requested: the planned one but for its status.\<close>

definition planned_mutation :: "Platform \<Rightarrow> RemediationPlan \<Rightarrow> LocalMutation \<Rightarrow> bool" where
  "planned_mutation L plan m \<longleftrightarrow> (case pl_proposal plan of None \<Rightarrow> False
     | Some p \<Rightarrow> (mu_proposal m)\<lparr>rp_status := rp_status p\<rparr> = p)"

lemma planned_fields:
  assumes "planned_mutation L plan m"
  shows "\<exists>p. pl_proposal plan = Some p \<and> rp_operation_type (mu_proposal m) = rp_operation_type p
    \<and> rp_normalized_parameters (mu_proposal m) = rp_normalized_parameters p
    \<and> rp_target_resource_type (mu_proposal m) = rp_target_resource_type p
    \<and> rp_target_resource_id (mu_proposal m) = rp_target_resource_id p"
proof -
  from assms obtain p where p: "pl_proposal plan = Some p" "(mu_proposal m)\<lparr>rp_status := rp_status p\<rparr> = p"
    by (auto simp: planned_mutation_def split: option.splits)
  show ?thesis
    using p(1) arg_cong [OF p(2), of rp_operation_type] arg_cong [OF p(2), of rp_normalized_parameters]
      arg_cong [OF p(2), of rp_target_resource_type] arg_cong [OF p(2), of rp_target_resource_id] by simp
qed

definition repeated_rules :: "ResourceEvidence \<Rightarrow> bool" where
  "repeated_rules e \<longleftrightarrow> (case re_resource e of Sg z \<Rightarrow> \<not> distinct (unsafe_rules z) | _ \<Rightarrow> False)"

text \<open>What approved execution of a plan does to the resource the evidence shows.\<close>

lemma planned_change:
  assumes "plan_execute L parse e out pid t = Inr (Succeeded plan)" and "planned_mutation L plan m"
    and "valid_resource (re_resource e)" and "same_resource current (re_resource e)"
  shows "approved_change lax (mu_proposal m) current =
     (case current of
        Eip y \<Rightarrow> if re_findings e = [CloudFinding.UNATTACHED_ELASTIC_IP] \<and> y_association_id y = None then Inr None
               else Inl LocalMockPolicyError
      | Sg w \<Rightarrow> if re_findings e = [CloudFinding.OVERLY_PERMISSIVE_INGRESS] \<and> \<not> repeated_rules e
          then Inr (Some (Sg (w\<lparr>z_inbound_rules := filter (\<lambda>r. sr_cidr_ipv4 r \<noteq> PUBLIC_CIDR) (z_inbound_rules w)\<rparr>)))
          else Inl LocalMockPolicyError
      | Ec2 x \<Rightarrow> Inl LocalMockPolicyError)"
proof -
  from planned_fields [OF assms(2)] obtain p where p: "pl_proposal plan = Some p"
    "rp_operation_type (mu_proposal m) = rp_operation_type p"
    "rp_normalized_parameters (mu_proposal m) = rp_normalized_parameters p"
    "rp_target_resource_id (mu_proposal m) = rp_target_resource_id p" by blast
  from plan_content [OF assms(1)] p(1) have policy: "policy_action e (pl_disposition plan) (rp_operation_type p)
      (rp_normalized_parameters p) (rp_authority_class p)"
    and made: "RemediationProposal_create L pid e (rp_operation_type p) (rp_normalized_parameters p)
        (rp_authority_class p) (operation_risk (rp_operation_type p)) t (add_micros t 86400000000) = Inr p"
    by auto
  from RemediationProposal_create_Inr [OF made] have target: "rp_target_resource_id p = res_id (re_resource e)"
    "(res_type (re_resource e), rp_authority_class p) = operation_policy (rp_operation_type p)"
    by (auto simp: valid_remediation_proposal_def)
  from policy show ?thesis unfolding policy_action_def
  proof (elim disjE exE conjE)
    assume o: "rp_operation_type p = RemediationOperation.RELEASE_ELASTIC_IP"
      "re_findings e = [CloudFinding.UNATTACHED_ELASTIC_IP]"
      "rp_normalized_parameters p = [(''allocation_id'', JStr (res_id (re_resource e)))]"
    with target have "\<exists>y. re_resource e = Eip y" by (cases "re_resource e") auto
    with assms(4) same_resource_Eip obtain x where "current = Eip x" by metis
    with o p target show ?thesis by (simp add: approved_change_def)
  next
    fix z assume o: "rp_operation_type p = RemediationOperation.REVOKE_PUBLIC_INGRESS" "re_resource e = Sg z"
      "re_findings e = [CloudFinding.OVERLY_PERMISSIVE_INGRESS]" "unsafe_rules z \<noteq> []"
      "rp_normalized_parameters p = revocation_parameters z (unsafe_rules z)"
    from same_resource_Sg [OF assms(4) [unfolded o(2)]] obtain w where
      w: "current = Sg w" "z_inbound_rules w = z_inbound_rules z" by blast
    have "rp_target_resource_id (mu_proposal m) = z_resource_id z" using p(4) target(1) o(2) by simp
    from planned_rules [OF assms(3) [unfolded o(2)] p(3) [unfolded o(5)] this o(4) w(2)] w o(1-3) p(2)
    show ?thesis by (simp add: approved_change_def repeated_rules_def)
  next
    fix x assume o: "rp_operation_type p = RemediationOperation.APPLY_REQUIRED_TAGS" "re_resource e = Ec2 x"
    with assms(4) p(2) show ?thesis by (cases current) (simp_all add: approved_change_def)
  qed
qed

end
