(* ===== verification/Local_Execution.thy ===== *)
theory Local_Execution
  imports Local_Mock
begin

text \<open>
  What the local mutation boundary guarantees, over every order of executions by any processes and
  over every failure: the inventory is the replay of its receipts, an action is applied at most
  once, planning, execution and read-back fit together.
\<close>

subsection \<open>Executions in a row\<close>

definition run_executions ::
    "Platform \<Rightarrow> (string \<Rightarrow> int option) \<Rightarrow> CloudResource list \<Rightarrow> (LocalMutation \<times> IoEvent) list
     \<Rightarrow> InventoryFile \<Rightarrow> InventoryFile" where
  "run_executions L lax initial = fold (\<lambda>(m, io) f. snd (store_execute L lax initial m io f))"

definition justified_receipt ::
    "Platform \<Rightarrow> (string \<Rightarrow> int option) \<Rightarrow> LocalMutation \<Rightarrow> LocalExecutionReceipt \<Rightarrow> bool" where
  "justified_receipt L lax m r \<longleftrightarrow> execution_bound L m \<and> receipt_of m r
     \<and> same_resource (lr_before_resource r) (re_resource (mu_evidence m))
     \<and> approved_change lax (mu_proposal m) (lr_before_resource r) = Inr (lr_after_resource r)"

lemma run_executions_explained:
  assumes "file_explained L initial rs f"
  shows "\<exists>new. file_explained L initial (rs @ new) (run_executions L lax initial calls f)
    \<and> (\<forall>r \<in> set new. \<exists>m \<in> fst ` set calls. justified_receipt L lax m r)"
  using assms
proof (induction calls arbitrary: rs f)
  case Nil
  then show ?case by (intro exI [of _ "[]"]) (simp add: run_executions_def)
next
  case (Cons c calls)
  obtain m io where c: "c = (m, io)" by (cases c)
  obtain x f' where run: "store_execute L lax initial m io f = (x, f')" by fastforce
  from store_execute_explained [OF Cons.prems run] obtain new where
    new: "file_explained L initial (rs @ new) f'" "execution_outcome L lax m rs new x" by blast
  from Cons.IH [OF new(1)] obtain more where
    more: "file_explained L initial ((rs @ new) @ more) (run_executions L lax initial calls f')"
      "\<forall>r \<in> set more. \<exists>m \<in> fst ` set calls. justified_receipt L lax m r" by blast
  have "\<forall>r \<in> set new. justified_receipt L lax m r"
    using new(2) by (auto simp: execution_outcome_def justified_receipt_def)
  moreover have "run_executions L lax initial (c # calls) f = run_executions L lax initial calls f'"
    by (simp add: run_executions_def c run)
  ultimately show ?case using more c by (intro exI [of _ "new @ more"]) auto
qed

lemma file_explained_initial: "initial_ok initial \<Longrightarrow> file_explained L initial [] NoInventory"
  using explained_initial by (simp add: file_explained_def load_inventory_def)

subsection \<open>Execution and read-back succeed\<close>

lemma approved_change_effect:
  assumes "approved_change lax p current = Inr after" and "valid_resource current"
  shows "mutation_effect_ok (rp_operation_type p) current after \<and> optional valid_resource after"
  using assms(1)
proof (cases rule: approved_change_Inr)
  case (release y)
  then show ?thesis by simp
next
  case (revoke z z')
  from revoke_rules_Inr [OF revoke(3)] obtain raw approved where r: "raw \<noteq> []"
    "rules_of_json lax raw = Some approved" "set approved \<subseteq> set (z_inbound_rules z)"
    "z' = z\<lparr>z_inbound_rules := filter (\<lambda>r. r \<notin> set approved) (z_inbound_rules z)\<rparr>" by blast
  from r(1,2) have "approved \<noteq> []" by (cases raw) (auto split: option.splits)
  then obtain x where "x \<in> set approved" by (cases approved) auto
  with r(3) length_filter_less [of x "z_inbound_rules z" "\<lambda>r. r \<notin> set approved"]
  have "length (z_inbound_rules z') < length (z_inbound_rules z)" unfolding r(4) by auto
  moreover have "same_dict (z_tags z) (z_tags z)"
    using assms(2) revoke(2) by (simp add: valid_tags_def same_dict_refl)
  ultimately show ?thesis
    using revoke r(4) assms(2) by (simp add: ordered_subset_iff subseq_filter_left list_all_iff)
qed

text \<open>The arguments of an execution are validated models, bound to each other.\<close>

definition well_formed_mutation :: "Platform \<Rightarrow> LocalMutation \<Rightarrow> bool" where
  "well_formed_mutation L m \<longleftrightarrow> valid_resource_evidence L (mu_evidence m)
     \<and> valid_remediation_proposal L (mu_proposal m) \<and> valid_local_decision L (mu_approval m)
     \<and> valid_intent L (mu_intent m) \<and> execution_bound L m"

lemma new_receipt_made:
  assumes "sha256_shape L" and "well_formed_mutation L m" and "mu_executed_at m = Utc u"
    and "valid_resource current" and "resource_key current = mutation_target m"
    and "approved_change lax (mu_proposal m) current = Inr after"
  shows "\<exists>r. new_receipt L m current after = Inr r"
proof -
  have "mutation_effect_ok (rp_operation_type (mu_proposal m)) current after" "optional valid_resource after"
    using approved_change_effect [OF assms(6,4)] by auto
  moreover have "res_type current = rp_target_resource_type (mu_proposal m)" "res_id current = rp_target_resource_id (mu_proposal m)"
    using assms(5) by (simp_all add: resource_key_def mutation_target_def)
  ultimately show ?thesis
    using assms(1-4)
    by (simp add: new_receipt_def utc_field_def Let_def validated_def valid_receipt_def receipt_payload_def
        well_formed_mutation_def valid_remediation_proposal_def valid_local_decision_def valid_intent_def)
qed

text \<open>A file whose inventory still shows what the evidence shows, and where the action is new.\<close>

definition target_unchanged :: "Platform \<Rightarrow> CloudResource list \<Rightarrow> LocalMutation \<Rightarrow> InventoryFile \<Rightarrow> bool" where
  "target_unchanged L initial m f \<longleftrightarrow> (case load_inventory L initial f of
     Inl _ \<Rightarrow> False
   | Inr v \<Rightarrow> dget (iv_receipts v) (li_idempotency_key (mu_intent m)) = None
       \<and> (case dget (iv_resources v) (mutation_target m) of
            None \<Rightarrow> False | Some current \<Rightarrow> same_resource current (re_resource (mu_evidence m))))"

lemma store_execute_new:
  assumes "initial_ok initial" and "sha256_shape L" and "well_formed_mutation L m" and "mu_executed_at m = Utc u"
    and "target_unchanged L initial m f"
  shows "\<exists>v current. load_inventory L initial f = Inr v \<and> dget (iv_resources v) (mutation_target m) = Some current
    \<and> same_resource current (re_resource (mu_evidence m)) \<and> valid_resource current
    \<and> (case approved_change lax (mu_proposal m) current of
         Inl e \<Rightarrow> store_execute L lax initial m Quiet f = (Inl e, f)
       | Inr after \<Rightarrow> \<exists>r f'. store_execute L lax initial m Quiet f = (Inr (r, True), f'))"
proof -
  from assms(5) obtain v current where v: "load_inventory L initial f = Inr v"
    "dget (iv_receipts v) (li_idempotency_key (mu_intent m)) = None"
    "dget (iv_resources v) (mutation_target m) = Some current" "same_resource current (re_resource (mu_evidence m))"
    by (auto simp: target_unchanged_def split: sum.splits option.splits)
  note ok = load_ok [OF assms(1) v(1)]
  with v(3) have c: "valid_resource current" "resource_key current = mutation_target m"
    unfolding inventory_ok_def keyed_def by blast+
  have bound: "execution_bound L m" using assms(3) by (simp add: well_formed_mutation_def)
  have target: "(rp_target_resource_type (mu_proposal m), rp_target_resource_id (mu_proposal m),
      res_region (re_resource (mu_evidence m))) = mutation_target m" by (simp add: mutation_target_def)
  have "case approved_change lax (mu_proposal m) current of
         Inl e \<Rightarrow> store_execute L lax initial m Quiet f = (Inl e, f)
       | Inr after \<Rightarrow> \<exists>r f'. store_execute L lax initial m Quiet f = (Inr (r, True), f')"
  proof (cases "approved_change lax (mu_proposal m) current")
    case (Inl e)
    with v bound show ?thesis
      by (simp add: store_execute_def inventory_execute_def Let_def target)
  next
    case (Inr after)
    from new_receipt_made [OF assms(2-4) c Inr] obtain r where "new_receipt L m current after = Inr r" by blast
    with Inr v bound show ?thesis
      by (simp add: store_execute_def inventory_execute_def Let_def target)
  qed
  with v c show ?thesis by blast
qed

lemma applied_inventory_ok:
  assumes "initial_ok initial" and "store_execute L lax initial m io f = (Inr (r, True), f')"
  shows "\<exists>v v'. load_inventory L initial f = Inr v \<and> load_inventory L initial f' = Inr v'
    \<and> dget (iv_receipts v') = (dget (iv_receipts v))(lr_idempotency_key r \<mapsto> r)
    \<and> dget (iv_resources v') = (dget (iv_resources v))(receipt_target r := lr_after_resource r)"
proof -
  from store_execute_Inr [OF assms(2)] obtain v where v: "load_inventory L initial f = Inr v" "valid_receipt L r"
    "approved_change lax (mu_proposal m) (lr_before_resource r) = Inr (lr_after_resource r)"
    "f' = seal_inventory \<lparr>iv_resources = put_resource (receipt_target r) (lr_after_resource r) (iv_resources v),
         iv_receipts = dput (lr_idempotency_key r) r (iv_receipts v)\<rparr>" by blast
  have "resource_key a = receipt_target r" if "lr_after_resource r = Some a" for a
    using approved_change_key [of lax "mu_proposal m" "lr_before_resource r" a] that v(3) receipt_target_key [OF v(2)] by simp
  from load_seal [OF inventory_ok_applied [OF load_ok [OF assms(1) v(1)] v(2) this], of initial] obtain v' where
    l: "load_inventory L initial f' = Inr v'" and s: "same_inventory \<lparr>iv_resources = put_resource (receipt_target r) (lr_after_resource r) (iv_resources v),
         iv_receipts = dput (lr_idempotency_key r) r (iv_receipts v)\<rparr> v'" unfolding v(4) by blast
  show ?thesis using v(1) l same_inventory_dget [OF s] by (auto simp: fun_eq_iff)
qed

lemma verify_applied:
  assumes "initial_ok initial" and "sha256_shape L" and "store_execute L lax initial m io f = (Inr (r, True), f')"
  shows "\<exists>x. store_read L initial (inventory_verify L r (Utc t)) Quiet f' = (Inr x, f')
    \<and> valid_local_verification L x \<and> lv_receipt_hash x = lr_receipt_hash r \<and> lv_verified_at x = t
    \<and> lv_observed_resource x = lr_after_resource r"
proof -
  from applied_inventory_ok [OF assms(1,3)] obtain v' where v: "load_inventory L initial f' = Inr v'"
    "dget (iv_receipts v') (lr_idempotency_key r) = Some r" "dget (iv_resources v') (receipt_target r) = lr_after_resource r"
    by (auto simp: fun_upd_def)
  from store_execute_Inr [OF assms(3)] have r: "valid_receipt L r" by blast
  then have effect: "mutation_effect_ok (lr_operation_type r) (lr_before_resource r) (lr_after_resource r)"
    and types: "res_type (lr_before_resource r) = lr_target_resource_type r" "res_id (lr_before_resource r) = lr_target_resource_id r"
    and rest: "uuid7 (lr_run_id r)" "uuid7 (lr_proposal_id r)" "sha256_digest (lr_receipt_hash r)"
      "short_identifier (lr_target_resource_id r)" "optional valid_resource (lr_after_resource r)"
    unfolding valid_receipt_def by blast+
  have made: "\<exists>x. new_verification L r absent (lr_after_resource r) (Utc t) = Inr x \<and> valid_local_verification L x
      \<and> lv_receipt_hash x = lr_receipt_hash r \<and> lv_verified_at x = t \<and> lv_observed_resource x = lr_after_resource r"
    if "\<And>h. observation_ok \<lparr>lv_run_id = lr_run_id r, lv_proposal_id = lr_proposal_id r, lv_receipt_hash = lr_receipt_hash r,
      lv_operation_type = lr_operation_type r, lv_target_resource_type = lr_target_resource_type r,
      lv_target_resource_id = lr_target_resource_id r, lv_observed_absent = absent,
      lv_observed_resource = lr_after_resource r, lv_verified_at = t, lv_verification_hash = h\<rparr>" for absent
    using that rest assms(2)
    by (simp add: new_verification_def utc_field_def Let_def validated_def valid_local_verification_def
        verification_payload_def)
  have "\<exists>x. inventory_verify L r (Utc t) v' = Inr x \<and> valid_local_verification L x
      \<and> lv_receipt_hash x = lr_receipt_hash r \<and> lv_verified_at x = t \<and> lv_observed_resource x = lr_after_resource r"
    using effect
  proof (cases "(lr_operation_type r, lr_before_resource r, lr_after_resource r)" rule: mutation_effect_ok.cases)
    case (1 y after)
    with effect have "lr_after_resource r = None" by simp
    with 1 v r made [of True] show ?thesis
      by (simp add: inventory_verify_def receipt_target_def observation_ok_def)
  next
    case (2 b a)
    then have "observation_ok \<lparr>lv_run_id = lr_run_id r, lv_proposal_id = lr_proposal_id r, lv_receipt_hash = lr_receipt_hash r,
      lv_operation_type = lr_operation_type r, lv_target_resource_type = lr_target_resource_type r,
      lv_target_resource_id = lr_target_resource_id r, lv_observed_absent = False,
      lv_observed_resource = lr_after_resource r, lv_verified_at = t, lv_verification_hash = h\<rparr>" for h
      using effect types by (simp add: observation_ok_def)
    from made [OF this] 2 v r rest(5) show ?thesis
      by (simp add: inventory_verify_def receipt_target_def same_dict_refl valid_tags_def)
  qed simp_all
  with v(1) show ?thesis by (auto simp: store_read_def)
qed

lemma planned_findings:
  assumes "re_findings e = resource_findings (re_resource e)" and "same_resource current (re_resource e)"
    and "pl_disposition plan = PlanDisposition.PROPOSAL" and "plan_execute L parse e out pid t = Inr (Succeeded plan)"
  shows "case current of Eip y \<Rightarrow> re_findings e = [CloudFinding.UNATTACHED_ELASTIC_IP] \<and> y_association_id y = None
    | Sg w \<Rightarrow> re_findings e = [CloudFinding.OVERLY_PERMISSIVE_INGRESS] | Ec2 _ \<Rightarrow> False"
proof -
  from plan_content [OF assms(4)] assms(3) obtain p :: RemediationProposal where "policy_action e PlanDisposition.PROPOSAL
      (rp_operation_type p) (rp_normalized_parameters p) (rp_authority_class p)"
    by (auto split: option.splits)
  with assms(1,2) show ?thesis
    by (cases "re_resource e"; cases current)
      (auto simp: policy_action_def dest: same_fields split: if_splits dest!: same_resource_Eip)
qed

subsection \<open>Claims\<close>

text \<open>C23: the approved parameters are an exact encoding: the rules a proposal carries as JSON are read back
  by the executor as exactly the same rules, in order.\<close>

theorem approved_rules_roundtrip:
  assumes "list_all valid_rule rs"
  shows "rules_of_json lax (map rule_json rs) = Some rs"
  using assms by (rule rules_roundtrip)

text \<open>C18: the inventory is what its receipts say. After any executions by any processes, with any
  failures and crashes, the file opens; its receipts, in some order, each found the target exactly
  as they record it and together lead from the initial inventory to the stored one; each belongs to
  an execution that was approved for exactly this change, and no action has two.\<close>

theorem inventory_is_its_receipts:
  assumes "initial_ok initial"
  shows "\<exists>rs v. load_inventory L initial (run_executions L lax initial calls NoInventory) = Inr v
    \<and> chained (table_of resource_key initial) rs
    \<and> dget (iv_resources v) = dget (replay (table_of resource_key initial) rs)
    \<and> (\<forall>k r. dget (iv_receipts v) k = Some r \<longleftrightarrow> r \<in> set rs \<and> lr_idempotency_key r = k)
    \<and> distinct (map lr_proposal_hash rs)
    \<and> (\<forall>r \<in> set rs. \<exists>m \<in> fst ` set calls. justified_receipt L lax m r)"
  using run_executions_explained [OF file_explained_initial [OF assms], of L lax calls]
  by (auto simp: file_explained_def explained_def)

text \<open>C19: an action is applied at most once. Once a file holds the receipt of an execution, repeating
  it, at any later time and after any other executions, returns that receipt and leaves the file
  as it is, or fails.\<close>

theorem repeated_execution_replays:
  assumes "initial_ok initial" and "f = run_executions L lax initial calls NoInventory"
    and "store_execute L lax initial m io f = (Inr (r, applied), f1)"
    and "f2 = run_executions L lax initial calls2 f1"
    and "store_execute L lax initial m io' f2 = (x, f3)"
  shows "f3 = f2 \<and> (\<forall>q a. x = Inr (q, a) \<longrightarrow> q = r \<and> \<not> a)"
proof -
  from run_executions_explained [OF file_explained_initial [OF assms(1)], of L lax calls] assms(2)
  obtain rs where "file_explained L initial rs f" by auto
  from store_execute_explained [OF this assms(3)] obtain new where
    e1: "file_explained L initial (rs @ new) f1" "r \<in> set (rs @ new)"
      "lr_idempotency_key r = li_idempotency_key (mu_intent m)" by (auto simp: execution_outcome_def)
  from run_executions_explained [OF e1(1), of lax calls2] assms(4) obtain rs2 where
    e2: "file_explained L initial ((rs @ new) @ rs2) f2" by blast
  then obtain v where v: "load_inventory L initial f2 = Inr v"
    "dget (iv_receipts v) (li_idempotency_key (mu_intent m)) = Some r"
    using e1(2,3) by (auto simp: file_explained_def explained_def)
  obtain y v' where i: "inventory_execute L lax m v = (y, v')" by fastforce
  then have y: "(\<exists>e. y = Inl e) \<or> y = Inr (r, False)"
    using v(2) by (cases rule: inventory_execute_cases) auto
  have "execution_bound L m" using assms(3) by (auto simp: store_execute_def split: if_splits)
  with y assms(5) v(1) i show ?thesis by (auto simp: store_execute_def split: if_splits)
qed



text \<open>C22: read-back after execution. Whatever executed a change, verification of its receipt succeeds as
  long as nothing else wrote, and proves the state the receipt recorded.\<close>

theorem executed_change_verifies:
  assumes "initial_ok initial" and "sha256_shape L" and "store_execute L lax initial m io f = (Inr (r, True), f')"
  shows "\<exists>x. store_read L initial (inventory_verify L r (Utc t)) Quiet f' = (Inr x, f')
    \<and> valid_local_verification L x \<and> lv_receipt_hash x = lr_receipt_hash r \<and> lv_verified_at x = t
    \<and> lv_observed_resource x = lr_after_resource r"
  using assms by (rule verify_applied)

end
