(* ===== verification/Local_Hitl.thy ===== *)
theory Local_Hitl
  imports Local_Execution Stop_Coordinator
begin

text \<open>
  \<open>agent/local_hitl.py\<close>: the human half of the local workflow. A challenge is issued for the stored
  proposal, the operator's answer is recorded in the checkpoint before the run changes state, and
  \<open>resume\<close> executes, verifies and closes the run, or reconciles what a crash left behind.
\<close>

subsection \<open>Requests and results\<close>

record LocalApprovalChallenge =
  lc_request :: LocalApprovalRequestRecord
  lc_proposal :: RemediationProposal
  lc_evidence :: ResourceEvidence
  lc_decision_nonce :: string

definition decision_nonce_text :: "string \<Rightarrow> bool" where
  "decision_nonce_text n \<longleftrightarrow> strip n = n \<and> 16 \<le> length n \<and> length n \<le> 256"

definition valid_challenge :: "Platform \<Rightarrow> LocalApprovalChallenge \<Rightarrow> bool" where
  "valid_challenge L c \<longleftrightarrow> decision_nonce_text (lc_decision_nonce c)
     \<and> lq_proposal_id (lc_request c) = rp_proposal_id (lc_proposal c)
     \<and> lq_run_id (lc_request c) = rp_run_id (lc_proposal c)
     \<and> lq_proposal_hash (lc_request c) = rp_proposal_hash (lc_proposal c)
     \<and> lq_evidence_hash (lc_request c) = re_evidence_hash (lc_evidence c)
     \<and> rp_evidence_hash (lc_proposal c) = re_evidence_hash (lc_evidence c)
     \<and> lq_decision_nonce_hash (lc_request c) = sha256_hex L (lc_decision_nonce c)"

record LocalDecisionRequest =
  ld_request_id :: uuid
  ld_run_id :: uuid
  ld_proposal_id :: uuid
  ld_request_hash :: string
  ld_proposal_hash :: string
  ld_evidence_hash :: string
  ld_proposal_version :: int
  ld_decision :: ApprovalDecision
  ld_decision_nonce :: string

record LocalApprovalResolution =
  ls_run_id :: uuid
  ls_proposal_id :: uuid
  ls_request_id :: uuid
  ls_request_hash :: string
  ls_decision_hash :: string
  ls_decision :: ApprovalDecision
  ls_final_state :: WorkflowState
  ls_reconciled :: bool

definition decision_state :: "ApprovalDecision \<Rightarrow> WorkflowState" where
  "decision_state d = (if d = ApprovalDecision.APPROVED then WorkflowState.APPROVED else WorkflowState.DENIED_BY_HUMAN)"

definition valid_resolution :: "LocalApprovalResolution \<Rightarrow> bool" where
  "valid_resolution r \<longleftrightarrow> ls_final_state r = decision_state (ls_decision r)"

record LocalExecutionCompletion =
  lp_run_id :: uuid
  lp_proposal_id :: uuid
  lp_decision :: ApprovalDecision
  lp_final_state :: WorkflowState
  lp_approval :: LocalApprovalDecisionRecord
  lp_receipt :: "LocalExecutionReceipt option"
  lp_verification :: "LocalVerificationEvidence option"
  lp_reconciled :: bool

definition valid_local_completion :: "LocalExecutionCompletion \<Rightarrow> bool" where
  "valid_local_completion c \<longleftrightarrow>
     (if lp_decision c = ApprovalDecision.DENIED
      then lp_final_state c = WorkflowState.DENIED_BY_HUMAN \<and> lp_receipt c = None \<and> lp_verification c = None
      else lp_final_state c = WorkflowState.SUCCESS_WITH_EVIDENCE
        \<and> (case (lp_receipt c, lp_verification c) of
             (Some r, Some v) \<Rightarrow> lr_run_id r = lp_run_id c \<and> lr_proposal_id r = lp_proposal_id c
               \<and> lv_receipt_hash v = lr_receipt_hash r
           | _ \<Rightarrow> False))"

definition APPROVED_DECISION_DOWNSTREAM_STATES :: "WorkflowState set" where
  "APPROVED_DECISION_DOWNSTREAM_STATES =
     {WorkflowState.EXECUTING, WorkflowState.VERIFYING, WorkflowState.SUCCESS_WITH_EVIDENCE,
      WorkflowState.DENIED_BY_POLICY, WorkflowState.MODEL_OUTPUT_INVALID, WorkflowState.AMBIGUOUS_RESULT,
      WorkflowState.DEPENDENCY_UNAVAILABLE, WorkflowState.BUDGET_EXHAUSTED, WorkflowState.EXECUTION_FAILED,
      WorkflowState.VERIFICATION_FAILED, WorkflowState.RECOVERY_REQUIRED}"

subsection \<open>The flow\<close>

record 's LocalHitlExecutionFlow =
  lh_repository :: "'s DurableTruthRepository"
  lh_executor :: "'s LocalExecutor"
  lh_clock :: "('s, datetime) prog"
  lh_request_id_factory :: "('s, uuid) prog"
  lh_event_id_factory :: "('s, uuid) prog"
  lh_nonce_factory :: "('s, string) prog"
  lh_request_ttl_seconds :: int

type_synonym LocalContext = "Run \<times> Checkpoint \<times> ResourceEvidence \<times> RemediationProposal"

text \<open>\<open>d >= t\<close> and \<open>d > t\<close> for a stored instant.\<close>

definition hitl_now :: "datetime \<Rightarrow> exc + int" where
  "hitl_now d = (case d of Utc x \<Rightarrow> Inr x | Offset x \<Rightarrow> Inr x | Naive _ \<Rightarrow> Inl TypeError)"

definition hitl_storage_failed :: "string \<Rightarrow> 'a ControlResult" where
  "hitl_storage_failed message =
     Failed (failure FailureKind.STORAGE_FAILURE ''LOCAL_STATE_STORE_UNAVAILABLE'' message True)"

definition hitl_failed :: "FailureKind \<Rightarrow> string \<Rightarrow> string \<Rightarrow> 'a ControlResult" where
  "hitl_failed kind reason message = Failed (failure kind reason message False)"

definition local_context_bound :: "Run \<Rightarrow> ResourceEvidence \<Rightarrow> RemediationProposal \<Rightarrow> bool" where
  "local_context_bound run evidence proposal \<longleftrightarrow>
     re_run_id evidence = r_run_id run \<and> re_trace_id evidence = r_trace_id run
     \<and> re_correlation_id evidence = r_correlation_id run
     \<and> rp_run_id proposal = r_run_id run \<and> rp_correlation_id proposal = r_correlation_id run
     \<and> rp_evidence_hash proposal = re_evidence_hash evidence"

definition hitl_load ::
    "'s LocalHitlExecutionFlow \<Rightarrow> uuid \<Rightarrow> ('s, FailureDetail + LocalContext) prog" where
  "hitl_load H run_id =
     tryThen
       (andThen (op_get_run (lh_repository H) run_id) (\<lambda>run.
        andThen (op_get_checkpoint (lh_repository H) run_id) (\<lambda>checkpoint. ret (run, checkpoint))))
       (\<lambda>e. if e \<in> {StorageDependencyError, TypeError}
            then Some (ret (Inl (failure FailureKind.STORAGE_FAILURE ''LOCAL_STATE_STORE_UNAVAILABLE''
                   ''Local durable state lookup is unavailable'' True)))
            else None)
       (\<lambda>(found_run, found_checkpoint). case (found_run, found_checkpoint) of
          (Some run, Some checkpoint) \<Rightarrow>
            (let invalid = ret (Inl (failure FailureKind.RECOVERY_REQUIREMENT ''LOCAL_HITL_PREREQUISITES_INVALID''
                   ''Local run lacks exact durable evidence and proposal bindings'' False)) in
             case (c_resource_evidence checkpoint, c_remediation_proposal checkpoint) of
               (Some evidence, Some proposal) \<Rightarrow>
                 if local_context_bound run evidence proposal
                 then ret (Inr (run, checkpoint, evidence, proposal)) else invalid
             | _ \<Rightarrow> invalid)
        | _ \<Rightarrow> ret (Inl (failure FailureKind.NOT_FOUND ''LOCAL_RUN_NOT_FOUND''
                   ''Local run and checkpoint are required'' False)))"

text \<open>\<open>_next_checkpoint\<close>: a copy with updates, at the next version.\<close>

definition hitl_next_checkpoint ::
    "Platform \<Rightarrow> 's LocalHitlExecutionFlow \<Rightarrow> Checkpoint \<Rightarrow> WorkflowState \<Rightarrow> (Checkpoint \<Rightarrow> Checkpoint)
     \<Rightarrow> (string, string) dict \<Rightarrow> ('s, Checkpoint) prog" where
  "hitl_next_checkpoint L H checkpoint safe updates metadata =
     andThen (lh_clock H) (\<lambda>now.
     andThen (lift (utc_field now)) (\<lambda>created_at.
     lift (validated (valid_checkpoint L)
       ((updates checkpoint)\<lparr>c_created_at := created_at, c_last_safe_state := safe,
          c_resume_metadata := dmerge (c_resume_metadata checkpoint) (map (\<lambda>(k, v). (k, JStr v)) metadata),
          c_version := c_version checkpoint + 1\<rparr>))))"

definition hitl_save ::
    "Platform \<Rightarrow> 's LocalHitlExecutionFlow \<Rightarrow> Checkpoint \<Rightarrow> WorkflowState \<Rightarrow> (Checkpoint \<Rightarrow> Checkpoint)
     \<Rightarrow> (string, string) dict \<Rightarrow> ('s, Checkpoint) prog" where
  "hitl_save L H checkpoint safe updates metadata =
     andThen (hitl_next_checkpoint L H checkpoint safe updates metadata) (\<lambda>next_checkpoint.
     op_save_checkpoint (lh_repository H) next_checkpoint (Some (c_version checkpoint)))"

definition hitl_append_event ::
    "'s LocalHitlExecutionFlow \<Rightarrow> Run \<Rightarrow> AuditEventType \<Rightarrow> string \<Rightarrow> (string, string) dict \<Rightarrow> ('s, unit) prog" where
  "hitl_append_event H run event_type payload_hash metadata =
     emit_event (lh_repository H) (lh_clock H) (lh_event_id_factory H) ''local-hitl'' None (r_run_id run)
       event_type payload_hash (run_metadata run metadata)"

definition hitl_audit_policy_denial ::
    "'s LocalHitlExecutionFlow \<Rightarrow> Run \<Rightarrow> RemediationProposal \<Rightarrow> string \<Rightarrow> ('s, unit) prog" where
  "hitl_audit_policy_denial H run proposal policy_code =
     tryThen (hitl_append_event H run AuditEventType.POLICY_DENIED (rp_proposal_hash proposal)
         [(''proposal_id'', rp_proposal_id proposal), (''policy_code'', policy_code)])
       (\<lambda>e. if e \<in> storage_errors then Some (ret ()) else None) ret"

definition hitl_transition ::
    "'s LocalHitlExecutionFlow \<Rightarrow> Run \<Rightarrow> WorkflowState \<Rightarrow> uuid option \<Rightarrow> uuid option \<Rightarrow> ('s, Run) prog" where
  "hitl_transition H run target approval_proposal_id verification_proposal_id =
     andThen (lh_clock H) (\<lambda>now.
     op_transition_run (lh_repository H) (r_run_id run) target (r_state run) (r_version run) now
       approval_proposal_id verification_proposal_id)"

definition hitl_apply_decision_state ::
    "Platform \<Rightarrow> 's LocalHitlExecutionFlow \<Rightarrow> Run \<Rightarrow> Checkpoint \<Rightarrow> LocalApprovalDecisionRecord
     \<Rightarrow> ('s, FailureDetail + Run \<times> Checkpoint) prog" where
  "hitl_apply_decision_state L H run checkpoint approval =
     (let target = decision_state (la_decision approval);
          downstream = (la_decision approval = ApprovalDecision.APPROVED
                        \<and> r_state run \<in> APPROVED_DECISION_DOWNSTREAM_STATES) in
      tryThen
        (andThen
          (if r_state run \<noteq> target \<and> \<not> downstream
           then if r_state run \<noteq> WorkflowState.AWAITING_APPROVAL then raise StorageConflictError
                else hitl_transition H run target (Some (la_proposal_id approval)) None
           else ret run) (\<lambda>run.
         andThen
          (if \<not> downstream \<and> c_last_safe_state checkpoint \<noteq> target
           then hitl_save L H checkpoint target id
                  [(''phase'', ''LOCAL_2''), (''local_decision'', ApprovalDecision_value (la_decision approval))]
           else ret checkpoint) (\<lambda>checkpoint. ret (run, checkpoint))))
        (\<lambda>e. if e = StorageConflictError
             then Some (ret (Inl (failure FailureKind.RECOVERY_REQUIREMENT ''LOCAL_DECISION_STATE_CONFLICT''
                    ''Durable local decision conflicts with workflow state'' False)))
             else if e = StorageDependencyError
             then Some (ret (Inl (failure FailureKind.STORAGE_FAILURE ''LOCAL_STATE_STORE_UNAVAILABLE''
                    ''Local decision state persistence is unavailable'' True)))
             else None)
        (\<lambda>x. ret (Inr x)))"

definition decision_matches_request ::
    "Platform \<Rightarrow> LocalDecisionRequest \<Rightarrow> string \<Rightarrow> LocalApprovalRequestRecord \<Rightarrow> bool" where
  "decision_matches_request L d session q \<longleftrightarrow>
     ld_request_id d = lq_request_id q \<and> ld_run_id d = lq_run_id q \<and> ld_proposal_id d = lq_proposal_id q
     \<and> ld_request_hash d = lq_request_hash q \<and> ld_proposal_hash d = lq_proposal_hash q
     \<and> ld_evidence_hash d = lq_evidence_hash q \<and> ld_proposal_version d = lq_proposal_version q
     \<and> session = lq_actor_session_id q \<and> sha256_hex L (ld_decision_nonce d) = lq_decision_nonce_hash q"

text \<open>A step that ends the handler (\<open>Inl\<close>) or goes on.\<close>

definition hitl_continue ::
    "('s, 'r + 'a) prog \<Rightarrow> ('a \<Rightarrow> ('s, 'r) prog) \<Rightarrow> ('s, 'r) prog" where
  "hitl_continue m k = andThen m (\<lambda>x. case x of Inl r \<Rightarrow> ret r | Inr y \<Rightarrow> k y)"

definition hitl_loaded ::
    "('s, FailureDetail + 'b) prog \<Rightarrow> ('b \<Rightarrow> ('s, 'a) handler) \<Rightarrow> ('s, 'a) handler" where
  "hitl_loaded m k = andThen m (\<lambda>x. case x of Inl f \<Rightarrow> ret (Failed f) | Inr y \<Rightarrow> k y)"

text \<open>\<open>request_approval\<close>: a fresh challenge; only the hash of its nonce is stored.\<close>

definition hitl_new_request ::
    "Platform \<Rightarrow> 's LocalHitlExecutionFlow \<Rightarrow> RemediationProposal \<Rightarrow> string \<Rightarrow> string \<Rightarrow> datetime \<Rightarrow> int
     \<Rightarrow> ('s, LocalApprovalRequestRecord) prog" where
  "hitl_new_request L H proposal session nonce now expires_at =
     andThen (lh_request_id_factory H) (\<lambda>request_id.
     andThen (lift (utc_field now)) (\<lambda>requested_at.
     lift (LocalApprovalRequestRecord_create L request_id proposal session (sha256_hex L nonce) requested_at
       expires_at)))"

definition hitl_store_request ::
    "Platform \<Rightarrow> 's LocalHitlExecutionFlow \<Rightarrow> Run \<Rightarrow> Checkpoint \<Rightarrow> string \<Rightarrow> LocalApprovalRequestRecord
     \<Rightarrow> ('s, LocalApprovalRequestRecord) prog" where
  "hitl_store_request L H run checkpoint session request =
     andThen (hitl_save L H checkpoint WorkflowState.AWAITING_APPROVAL
       (\<lambda>c. c\<lparr>c_local_approval_request := Some request, c_local_approval := None, c_local_execution_intent := None,
              c_local_execution_receipt := None, c_local_verification := None\<rparr>)
       [(''phase'', ''LOCAL_2''), (''local_approval_request_hash'', lq_request_hash request)]) (\<lambda>_.
     andThen (hitl_append_event H run AuditEventType.APPROVAL_REQUESTED (lq_request_hash request)
       [(''proposal_id'', lq_proposal_id request), (''request_id'', lq_request_id request),
        (''actor_session_id'', session)]) (\<lambda>_.
     ret request))"

definition hitl_issue_challenge ::
    "Platform \<Rightarrow> 's LocalHitlExecutionFlow \<Rightarrow> LocalContext \<Rightarrow> string \<Rightarrow> datetime \<Rightarrow> int
     \<Rightarrow> ('s, LocalApprovalChallenge) handler" where
  "hitl_issue_challenge L H = (\<lambda>(run, checkpoint, evidence, proposal) session now instant.
     andThen (lh_nonce_factory H) (\<lambda>nonce.
     if \<not> decision_nonce_text nonce
     then ret (hitl_failed FailureKind.CONFIGURATION_ERROR ''LOCAL_NONCE_FACTORY_INVALID''
            ''The local approval nonce factory returned an invalid challenge'')
     else
       tryThen
         (andThen (hitl_new_request L H proposal session nonce now
            (min (rp_expires_at proposal) (instant + lh_request_ttl_seconds H * 1000000)))
          (hitl_store_request L H run checkpoint session))
         (\<lambda>e. if e = TypeError \<or> is_value_error e
              then Some (ret (hitl_storage_failed ''Local approval challenge could not be persisted'')) else None)
         (\<lambda>request.
          andThen (lift (validated (valid_challenge L)
            \<lparr>lc_request = request, lc_proposal = proposal, lc_evidence = evidence, lc_decision_nonce = nonce\<rparr>))
          (\<lambda>challenge. ret (Succeeded challenge)))))"

definition hitl_request_approval ::
    "Platform \<Rightarrow> 's LocalHitlExecutionFlow \<Rightarrow> uuid \<Rightarrow> string \<Rightarrow> ('s, LocalApprovalChallenge) handler" where
  "hitl_request_approval L H run_id session =
     hitl_loaded (hitl_load H run_id) (\<lambda>(run, checkpoint, evidence, proposal).
       if r_state run \<noteq> WorkflowState.AWAITING_APPROVAL
       then ret (hitl_failed FailureKind.RECOVERY_REQUIREMENT ''LOCAL_APPROVAL_STATE_INVALID''
              ''Local approval can be requested only from AWAITING_APPROVAL'')
       else if c_local_approval checkpoint \<noteq> None
       then ret (hitl_failed FailureKind.IDEMPOTENCY_CONFLICT ''LOCAL_DECISION_ALREADY_RECORDED''
              ''A durable human decision already exists for this proposal'')
       else
         andThen (lh_clock H) (\<lambda>now.
         andThen (lift (hitl_now now)) (\<lambda>instant.
         if rp_expires_at proposal \<le> instant
         then ret (hitl_failed FailureKind.POLICY_DENIAL ''LOCAL_PROPOSAL_EXPIRED''
                ''The local remediation proposal has expired'')
         else hitl_issue_challenge L H (run, checkpoint, evidence, proposal) session now instant)))"

text \<open>\<open>decide\<close>.\<close>

definition local_resolution ::
    "Run \<Rightarrow> LocalApprovalDecisionRecord option \<Rightarrow> bool \<Rightarrow> exc + LocalApprovalResolution" where
  "local_resolution run approval reconciled = (case approval of
     None \<Rightarrow> Inl ValueError
   | Some a \<Rightarrow> validated valid_resolution
       \<lparr>ls_run_id = r_run_id run, ls_proposal_id = la_proposal_id a, ls_request_id = la_request_id a,
        ls_request_hash = la_request_hash a, ls_decision_hash = la_decision_hash a, ls_decision = la_decision a,
        ls_final_state = decision_state (la_decision a), ls_reconciled = reconciled\<rparr>)"

definition hitl_replay_decision ::
    "Platform \<Rightarrow> 's LocalHitlExecutionFlow \<Rightarrow> LocalDecisionRequest \<Rightarrow> Run \<Rightarrow> Checkpoint
     \<Rightarrow> LocalApprovalDecisionRecord \<Rightarrow> ('s, LocalApprovalResolution) handler" where
  "hitl_replay_decision L H d run checkpoint existing =
     (if la_request_id existing \<noteq> ld_request_id d \<or> la_request_hash existing \<noteq> ld_request_hash d
         \<or> la_decision existing \<noteq> ld_decision d
         \<or> la_decision_nonce_hash existing \<noteq> sha256_hex L (ld_decision_nonce d)
      then ret (hitl_failed FailureKind.IDEMPOTENCY_CONFLICT ''LOCAL_APPROVAL_REPLAY_CONFLICT''
             ''A conflicting decision already owns this approval challenge'')
      else hitl_loaded (hitl_apply_decision_state L H run checkpoint existing) (\<lambda>(final_run, _).
             andThen (lift (local_resolution final_run (Some existing) True)) (\<lambda>r. ret (Succeeded r))))"

definition hitl_record_decision ::
    "Platform \<Rightarrow> 's LocalHitlExecutionFlow \<Rightarrow> Run \<Rightarrow> Checkpoint \<Rightarrow> RemediationProposal
     \<Rightarrow> LocalApprovalDecisionRecord \<Rightarrow> string \<Rightarrow> ('s, LocalApprovalResolution) handler" where
  "hitl_record_decision L H run checkpoint proposal approval session =
     tryThen
       (hitl_save L H checkpoint WorkflowState.AWAITING_APPROVAL (\<lambda>c. c\<lparr>c_local_approval := Some approval\<rparr>)
          [(''phase'', ''LOCAL_2''), (''local_decision_hash'', la_decision_hash approval)])
       (\<lambda>e. if is_value_error e
            then Some (ret (hitl_storage_failed ''Local human decision could not be durably recorded'')) else None)
       (\<lambda>decided.
        hitl_loaded (hitl_apply_decision_state L H run decided approval) (\<lambda>(final_run, final_checkpoint).
          tryThen
            (hitl_append_event H final_run AuditEventType.APPROVAL_RECORDED (la_decision_hash approval)
               [(''proposal_id'', rp_proposal_id proposal), (''request_id'', la_request_id approval),
                (''decision'', ApprovalDecision_value (la_decision approval)), (''actor_session_id'', session)])
            (\<lambda>e. if e \<in> storage_errors
                 then Some (ret (hitl_storage_failed ''Local decision audit could not be durably recorded''))
                 else None)
            (\<lambda>_. andThen (lift (local_resolution final_run (c_local_approval final_checkpoint) False))
                   (\<lambda>r. ret (Succeeded r)))))"

definition hitl_decide ::
    "Platform \<Rightarrow> 's LocalHitlExecutionFlow \<Rightarrow> LocalDecisionRequest \<Rightarrow> string
     \<Rightarrow> ('s, LocalApprovalResolution) handler" where
  "hitl_decide L H d session =
     hitl_loaded (hitl_load H (ld_run_id d)) (\<lambda>(run, checkpoint, _, proposal).
       case c_local_approval_request checkpoint of
         None \<Rightarrow> ret (hitl_failed FailureKind.RECOVERY_REQUIREMENT ''LOCAL_APPROVAL_REQUEST_MISSING''
                   ''No durable local approval challenge exists'')
       | Some request \<Rightarrow>
           if \<not> decision_matches_request L d session request
           then andThen (hitl_audit_policy_denial H run proposal ''LOCAL_APPROVAL_BINDING_MISMATCH'') (\<lambda>_.
                ret (hitl_failed FailureKind.POLICY_DENIAL ''LOCAL_APPROVAL_BINDING_MISMATCH''
                  ''Local decision does not match the durable proposal challenge''))
           else (case c_local_approval checkpoint of
               Some existing \<Rightarrow> hitl_replay_decision L H d run checkpoint existing
             | None \<Rightarrow>
                 andThen (lh_clock H) (\<lambda>now.
                 andThen (lift (hitl_now now)) (\<lambda>instant.
                 if lq_expires_at request < instant \<or> rp_expires_at proposal < instant
                 then andThen (hitl_audit_policy_denial H run proposal ''LOCAL_APPROVAL_EXPIRED'') (\<lambda>_.
                      ret (hitl_failed FailureKind.POLICY_DENIAL ''LOCAL_APPROVAL_EXPIRED''
                        ''Local approval challenge or proposal has expired''))
                 else andThen (lift (LocalApprovalDecisionRecord_create L request (ld_decision d) now)) (\<lambda>approval.
                      hitl_record_decision L H run checkpoint proposal approval session)))))"

text \<open>\<open>resume\<close> and what it ends with.\<close>

definition hitl_persist_failure ::
    "'s LocalHitlExecutionFlow \<Rightarrow> Run \<Rightarrow> WorkflowState \<Rightarrow> FailureKind \<Rightarrow> string \<Rightarrow> string
     \<Rightarrow> ('s, LocalExecutionCompletion) handler" where
  "hitl_persist_failure H run target kind reason message =
     tryThen
       (if r_state run \<noteq> target then andThen (hitl_transition H run target None None) (\<lambda>_. ret ()) else ret ())
       (\<lambda>e. if e \<in> storage_errors
            then Some (ret (hitl_storage_failed ''Local failure state could not be durably persisted'')) else None)
       (\<lambda>_. ret (hitl_failed kind reason message))"

definition hitl_mark_recovery ::
    "'s LocalHitlExecutionFlow \<Rightarrow> Run \<Rightarrow> string \<Rightarrow> string \<Rightarrow> ('s, LocalExecutionCompletion) handler" where
  "hitl_mark_recovery H run reason message =
     hitl_persist_failure H run WorkflowState.RECOVERY_REQUIRED FailureKind.RECOVERY_REQUIREMENT reason message"

definition hitl_mark_unverified ::
    "'s LocalHitlExecutionFlow \<Rightarrow> Run \<Rightarrow> string \<Rightarrow> string \<Rightarrow> ('s, LocalExecutionCompletion) handler" where
  "hitl_mark_unverified H run reason message =
     hitl_persist_failure H run WorkflowState.VERIFICATION_FAILED FailureKind.VERIFICATION_FAILURE reason message"

definition hitl_completed ::
    "Run \<Rightarrow> Checkpoint \<Rightarrow> bool \<Rightarrow> ('s, LocalExecutionCompletion) handler" where
  "hitl_completed run checkpoint reconciled =
     (case (c_local_approval checkpoint, c_remediation_proposal checkpoint, c_local_execution_receipt checkpoint,
            c_local_verification checkpoint) of
        (Some approval, Some proposal, Some receipt, Some verification) \<Rightarrow>
          if r_state run \<noteq> WorkflowState.SUCCESS_WITH_EVIDENCE
          then ret (hitl_failed FailureKind.RECOVERY_REQUIREMENT ''LOCAL_COMPLETION_PROOF_MISSING''
                 ''Local success requires durable receipt and verification proof'')
          else andThen (lift (validated valid_local_completion
            \<lparr>lp_run_id = r_run_id run, lp_proposal_id = rp_proposal_id proposal, lp_decision = la_decision approval,
             lp_final_state = r_state run, lp_approval = approval, lp_receipt = Some receipt,
             lp_verification = Some verification, lp_reconciled = reconciled\<rparr>))
            (\<lambda>completion. ret (Succeeded completion))
      | _ \<Rightarrow> ret (hitl_failed FailureKind.RECOVERY_REQUIREMENT ''LOCAL_COMPLETION_PROOF_MISSING''
                 ''Local success requires durable receipt and verification proof''))"

text \<open>The three protected phases of \<open>resume\<close>, each for one state of the run.\<close>

definition proposal_metadata :: "RemediationProposal \<Rightarrow> (string, string) dict" where
  "proposal_metadata proposal = [(''proposal_id'', rp_proposal_id proposal)]"

definition hitl_register_intent ::
    "Platform \<Rightarrow> 's LocalHitlExecutionFlow \<Rightarrow> RemediationProposal \<Rightarrow> LocalApprovalDecisionRecord \<Rightarrow> Run \<Rightarrow> Checkpoint
     \<Rightarrow> ('s, LocalExecutionIntent \<times> Checkpoint) prog" where
  "hitl_register_intent L H proposal approval run checkpoint =
     (case c_local_execution_intent checkpoint of
        Some intent \<Rightarrow> ret (intent, checkpoint)
      | None \<Rightarrow>
          andThen (lh_clock H) (\<lambda>now.
          andThen (lift (LocalExecutionIntent_create L proposal approval now)) (\<lambda>intent.
          andThen (hitl_save L H checkpoint WorkflowState.APPROVED (\<lambda>c. c\<lparr>c_local_execution_intent := Some intent\<rparr>)
            [(''phase'', ''LOCAL_2''), (''local_execution_intent_hash'', li_intent_hash intent)]) (\<lambda>saved.
          andThen (hitl_append_event H run AuditEventType.IDEMPOTENCY_REGISTERED (li_intent_hash intent)
            (proposal_metadata proposal)) (\<lambda>_.
          ret (intent, saved))))))"

definition hitl_own ::
    "Platform \<Rightarrow> 's LocalHitlExecutionFlow \<Rightarrow> RemediationProposal \<Rightarrow> LocalApprovalDecisionRecord \<Rightarrow> Run \<times> Checkpoint
     \<Rightarrow> ('s, LocalExecutionCompletion ControlResult + Run \<times> Checkpoint) prog" where
  "hitl_own L H proposal approval = (\<lambda>(run, checkpoint).
     if r_state run \<noteq> WorkflowState.APPROVED then ret (Inr (run, checkpoint))
     else
       tryThen
         (andThen (hitl_register_intent L H proposal approval run checkpoint) (\<lambda>(intent, checkpoint).
          andThen (hitl_transition H run WorkflowState.EXECUTING None None) (\<lambda>run.
          andThen (hitl_append_event H run AuditEventType.EXECUTION_REQUESTED (li_intent_hash intent)
            (proposal_metadata proposal)) (\<lambda>_.
          ret (run, checkpoint)))))
         (\<lambda>e. if is_value_error e
              then Some (ret (Inl (hitl_storage_failed ''Local execution ownership could not be established'')))
              else None)
         (\<lambda>x. ret (Inr x)))"

text \<open>A receipt in the checkpoint, then one in the inventory, and only then the mutation.\<close>

definition hitl_obtain_receipt ::
    "'s LocalHitlExecutionFlow \<Rightarrow> ResourceEvidence \<Rightarrow> RemediationProposal \<Rightarrow> LocalApprovalDecisionRecord
     \<Rightarrow> LocalExecutionIntent \<Rightarrow> Checkpoint \<Rightarrow> ('s, LocalExecutionReceipt) prog" where
  "hitl_obtain_receipt H evidence proposal approval intent checkpoint =
     (case c_local_execution_receipt checkpoint of
        Some receipt \<Rightarrow> ret receipt
      | None \<Rightarrow>
          andThen (le_get_receipt (lh_executor H) (li_idempotency_key intent)) (\<lambda>known. case known of
            Some receipt \<Rightarrow> ret receipt
          | None \<Rightarrow> le_execute (lh_executor H) proposal evidence approval intent))"

definition hitl_file_receipt ::
    "Platform \<Rightarrow> 's LocalHitlExecutionFlow \<Rightarrow> RemediationProposal \<Rightarrow> Run \<Rightarrow> Checkpoint \<Rightarrow> LocalExecutionReceipt
     \<Rightarrow> ('s, Run \<times> Checkpoint) prog" where
  "hitl_file_receipt L H proposal run checkpoint receipt =
     andThen
       (if c_local_execution_receipt checkpoint = None
        then hitl_save L H checkpoint WorkflowState.APPROVED (\<lambda>c. c\<lparr>c_local_execution_receipt := Some receipt\<rparr>)
               [(''phase'', ''LOCAL_2''), (''local_execution_receipt_hash'', lr_receipt_hash receipt)]
        else ret checkpoint) (\<lambda>checkpoint.
     andThen (hitl_transition H run WorkflowState.VERIFYING None None) (\<lambda>run.
     andThen (hitl_append_event H run AuditEventType.EXECUTION_ACKNOWLEDGED (lr_receipt_hash receipt)
       (proposal_metadata proposal)) (\<lambda>_.
     ret (run, checkpoint))))"

text \<open>The executor raises only the two subclasses of \<open>LocalMockMutationError\<close>, never the class itself.\<close>

definition hitl_execution_error ::
    "'s LocalHitlExecutionFlow \<Rightarrow> Run \<Rightarrow> exc \<Rightarrow> ('s, LocalExecutionCompletion) handler option" where
  "hitl_execution_error H run e =
     (if e = LocalMockPolicyError
      then Some (hitl_persist_failure H run WorkflowState.DENIED_BY_POLICY FailureKind.POLICY_DENIAL
             ''LOCAL_EXECUTION_POLICY_DENIED'' ''Protected local executor denied the exact action'')
      else if e = LocalMockConflictError
      then Some (hitl_mark_recovery H run ''LOCAL_EXECUTION_CONFLICT''
             ''Local mock state conflicts with approved evidence'')
      else if e = CloudAdapterUnavailableError
      then Some (hitl_persist_failure H run WorkflowState.DEPENDENCY_UNAVAILABLE FailureKind.DEPENDENCY_UNAVAILABLE
             ''LOCAL_MOCK_STATE_UNAVAILABLE'' ''Local mock inventory is unavailable'')
      else if is_value_error e
      then Some (ret (hitl_failed FailureKind.RECOVERY_REQUIREMENT ''LOCAL_RECEIPT_DURABILITY_FAILED''
             ''Local execution receipt requires deterministic retry reconciliation''))
      else None)"

definition ended :: "('s, 'a ControlResult) prog \<Rightarrow> ('s, 'a ControlResult + 'b) prog" where
  "ended m = andThen m (\<lambda>r. ret (Inl r))"

definition hitl_execute ::
    "Platform \<Rightarrow> 's LocalHitlExecutionFlow \<Rightarrow> ResourceEvidence \<Rightarrow> RemediationProposal \<Rightarrow> LocalApprovalDecisionRecord
     \<Rightarrow> Run \<times> Checkpoint \<Rightarrow> ('s, LocalExecutionCompletion ControlResult + Run \<times> Checkpoint) prog" where
  "hitl_execute L H evidence proposal approval = (\<lambda>(run, checkpoint).
     if r_state run \<noteq> WorkflowState.EXECUTING then ret (Inr (run, checkpoint))
     else (case c_local_execution_intent checkpoint of
         None \<Rightarrow> ended (hitl_mark_recovery H run ''LOCAL_EXECUTION_INTENT_MISSING''
                   ''Executing local run has no durable idempotency ownership'')
       | Some intent \<Rightarrow>
           tryThen
             (andThen (hitl_obtain_receipt H evidence proposal approval intent checkpoint)
               (hitl_file_receipt L H proposal run checkpoint))
             (\<lambda>e. map_option ended (hitl_execution_error H run e))
             (\<lambda>x. ret (Inr x))))"

definition hitl_obtain_verification ::
    "Platform \<Rightarrow> 's LocalHitlExecutionFlow \<Rightarrow> Checkpoint \<Rightarrow> LocalExecutionReceipt
     \<Rightarrow> ('s, LocalVerificationEvidence \<times> Checkpoint) prog" where
  "hitl_obtain_verification L H checkpoint receipt =
     (case c_local_verification checkpoint of
        Some verification \<Rightarrow> ret (verification, checkpoint)
      | None \<Rightarrow>
          andThen (le_verify (lh_executor H) receipt) (\<lambda>verification.
          andThen (hitl_save L H checkpoint WorkflowState.APPROVED (\<lambda>c. c\<lparr>c_local_verification := Some verification\<rparr>)
            [(''phase'', ''LOCAL_2''), (''local_verification_hash'', lv_verification_hash verification)]) (\<lambda>saved.
          ret (verification, saved))))"

definition success_metadata :: "(string, string) dict" where
  "success_metadata = [(''phase'', ''LOCAL_2''), (''local_outcome'', ''verified'')]"

definition hitl_close ::
    "Platform \<Rightarrow> 's LocalHitlExecutionFlow \<Rightarrow> RemediationProposal \<Rightarrow> Run \<Rightarrow> LocalVerificationEvidence \<times> Checkpoint
     \<Rightarrow> ('s, Run \<times> Checkpoint) prog" where
  "hitl_close L H proposal run = (\<lambda>(verification, checkpoint).
     andThen (hitl_transition H run WorkflowState.SUCCESS_WITH_EVIDENCE None (Some (rp_proposal_id proposal))) (\<lambda>run.
     andThen (hitl_save L H checkpoint WorkflowState.SUCCESS_WITH_EVIDENCE id success_metadata) (\<lambda>checkpoint.
     andThen (hitl_append_event H run AuditEventType.VERIFICATION_RECORDED (lv_verification_hash verification)
       (proposal_metadata proposal)) (\<lambda>_.
     ret (run, checkpoint)))))"

definition hitl_verification_error ::
    "'s LocalHitlExecutionFlow \<Rightarrow> Run \<Rightarrow> exc \<Rightarrow> ('s, LocalExecutionCompletion) handler option" where
  "hitl_verification_error H run e =
     (if e = LocalMockPolicyError \<or> e = LocalMockConflictError
      then Some (hitl_mark_unverified H run ''LOCAL_VERIFICATION_MISMATCH''
             ''Independent local read-back did not prove the approved result'')
      else if e = CloudAdapterUnavailableError
      then Some (hitl_persist_failure H run WorkflowState.DEPENDENCY_UNAVAILABLE FailureKind.DEPENDENCY_UNAVAILABLE
             ''LOCAL_MOCK_STATE_UNAVAILABLE'' ''Local mock inventory is unavailable during verification'')
      else if is_value_error e
      then Some (ret (hitl_storage_failed ''Local verification proof could not be durably closed''))
      else None)"

definition hitl_verify ::
    "Platform \<Rightarrow> 's LocalHitlExecutionFlow \<Rightarrow> RemediationProposal \<Rightarrow> Run \<times> Checkpoint
     \<Rightarrow> ('s, LocalExecutionCompletion ControlResult + Run \<times> Checkpoint) prog" where
  "hitl_verify L H proposal = (\<lambda>(run, checkpoint).
     if r_state run \<noteq> WorkflowState.VERIFYING then ret (Inr (run, checkpoint))
     else (case c_local_execution_receipt checkpoint of
         None \<Rightarrow> ended (hitl_mark_unverified H run ''LOCAL_RECEIPT_MISSING''
                   ''Verification cannot proceed without a durable execution receipt'')
       | Some receipt \<Rightarrow>
           tryThen
             (andThen (hitl_obtain_verification L H checkpoint receipt) (hitl_close L H proposal run))
             (\<lambda>e. map_option ended (hitl_verification_error H run e))
             (\<lambda>x. ret (Inr x))))"

text \<open>The branches of \<open>resume\<close> before execution.\<close>

definition hitl_resume_denied ::
    "Platform \<Rightarrow> 's LocalHitlExecutionFlow \<Rightarrow> Run \<Rightarrow> Checkpoint \<Rightarrow> RemediationProposal \<Rightarrow> LocalApprovalDecisionRecord
     \<Rightarrow> ('s, LocalExecutionCompletion) handler" where
  "hitl_resume_denied L H run checkpoint proposal approval =
     hitl_loaded (hitl_apply_decision_state L H run checkpoint approval) (\<lambda>(final_run, _).
       andThen (lift (validated valid_local_completion
         \<lparr>lp_run_id = r_run_id run, lp_proposal_id = rp_proposal_id proposal, lp_decision = la_decision approval,
          lp_final_state = r_state final_run, lp_approval = approval, lp_receipt = None, lp_verification = None,
          lp_reconciled = (r_state run = WorkflowState.DENIED_BY_HUMAN)\<rparr>)) (\<lambda>completion. ret (Succeeded completion)))"

definition hitl_resume_success ::
    "Platform \<Rightarrow> 's LocalHitlExecutionFlow \<Rightarrow> Run \<Rightarrow> Checkpoint \<Rightarrow> ('s, LocalExecutionCompletion) handler" where
  "hitl_resume_success L H run checkpoint =
     (if c_last_safe_state checkpoint \<noteq> WorkflowState.SUCCESS_WITH_EVIDENCE
      then tryThen (hitl_save L H checkpoint WorkflowState.SUCCESS_WITH_EVIDENCE id success_metadata)
             (\<lambda>e. if is_value_error e
                  then Some (ret (hitl_storage_failed ''Local success checkpoint could not be reconciled'')) else None)
             (\<lambda>checkpoint. hitl_completed run checkpoint True)
      else hitl_completed run checkpoint True)"

definition hitl_resume_active ::
    "Platform \<Rightarrow> 's LocalHitlExecutionFlow \<Rightarrow> ResourceEvidence \<Rightarrow> RemediationProposal \<Rightarrow> LocalApprovalDecisionRecord
     \<Rightarrow> Run \<times> Checkpoint \<Rightarrow> ('s, LocalExecutionCompletion) handler" where
  "hitl_resume_active L H evidence proposal approval = (\<lambda>(run, checkpoint).
     andThen (lh_clock H) (\<lambda>now.
     andThen (lift (hitl_now now)) (\<lambda>instant.
     if rp_expires_at proposal < instant
     then hitl_mark_recovery H run ''LOCAL_APPROVAL_EXPIRED_BEFORE_EXECUTION''
            ''Approved proposal expired before protected execution''
     else
       hitl_continue (hitl_own L H proposal approval (run, checkpoint)) (\<lambda>owned.
       hitl_continue (hitl_execute L H evidence proposal approval owned) (\<lambda>executed.
       hitl_continue (hitl_verify L H proposal executed) (\<lambda>(run, checkpoint).
       hitl_completed run checkpoint False))))))"

definition hitl_resume ::
    "Platform \<Rightarrow> 's LocalHitlExecutionFlow \<Rightarrow> uuid \<Rightarrow> string \<Rightarrow> ('s, LocalExecutionCompletion) handler" where
  "hitl_resume L H run_id session =
     hitl_loaded (hitl_load H run_id) (\<lambda>(run, checkpoint, evidence, proposal).
       case c_local_approval checkpoint of
         None \<Rightarrow> ret (hitl_failed FailureKind.POLICY_DENIAL ''LOCAL_APPROVAL_REQUIRED''
                   ''Protected local execution requires a durable human decision'')
       | Some approval \<Rightarrow>
           if la_actor_session_id approval \<noteq> session
           then andThen (hitl_audit_policy_denial H run proposal ''LOCAL_OPERATOR_SESSION_MISMATCH'') (\<lambda>_.
                ret (hitl_failed FailureKind.POLICY_DENIAL ''LOCAL_OPERATOR_SESSION_MISMATCH''
                  ''Only the authenticated deciding session may resume execution''))
           else if la_decision approval = ApprovalDecision.DENIED
           then hitl_resume_denied L H run checkpoint proposal approval
           else if r_state run = WorkflowState.SUCCESS_WITH_EVIDENCE
           then hitl_resume_success L H run checkpoint
           else if r_state run = WorkflowState.AWAITING_APPROVAL
           then hitl_loaded (hitl_apply_decision_state L H run checkpoint approval)
                  (hitl_resume_active L H evidence proposal approval)
           else hitl_resume_active L H evidence proposal approval (run, checkpoint))"

end
