(* ===== verification/Durable_Assertions.thy ===== *)
theory Durable_Assertions
  imports Durable_Interface
begin

text \<open>
  Assertions about a durable store that survive other clients (\<open>steady\<close>), what a handler has seen of a run
  and of its checkpoint (\<open>saw_run\<close>, \<open>saw_checkpoint\<close>), and the pre- and postconditions of the
  repository calls in these terms. The guarantees of the local flows are built from them.
\<close>

subsection \<open>Steady assertions\<close>

definition steady :: "Platform \<Rightarrow> ('s \<Rightarrow> Repo) \<Rightarrow> ('s \<Rightarrow> 'r) \<Rightarrow> ('s \<Rightarrow> bool) \<Rightarrow> bool" where
  "steady L view rest B \<longleftrightarrow> (\<forall>s s'. rest s' = rest s \<longrightarrow> later L (view s) (view s') \<longrightarrow> B s \<longrightarrow> B s')"

named_theorems steady_intros \<open>assertions that survive what others do\<close>

lemma steady_conj [steady_intros]:
  "steady L view rest A \<Longrightarrow> steady L view rest B \<Longrightarrow> steady L view rest (\<lambda>s. A s \<and> B s)"
  by (simp add: steady_def)

lemma steady_pure [steady_intros]: "steady L view rest (\<lambda>_. b)"
  by (simp add: steady_def)

lemma ensures_bystander:
  "bystander L view rest m \<Longrightarrow> steady L view rest B \<Longrightarrow> ensures B m (\<lambda>_. B) (\<lambda>_. B)"
  unfolding ensures_def steady_def bystander_def by (auto split: prod.splits sum.splits)

text \<open>
  What a handler that started in truth \<open>origin\<close> has seen of the run and of its checkpoint: stored at
  some moment since.
\<close>

definition since :: "Platform \<Rightarrow> ('s \<Rightarrow> Repo) \<Rightarrow> Repo \<Rightarrow> 's \<Rightarrow> bool" where
  "since L view origin s \<longleftrightarrow> repo_ok L origin \<and> later L origin (view s)"

definition saw_run :: "Platform \<Rightarrow> ('s \<Rightarrow> Repo) \<Rightarrow> Repo \<Rightarrow> uuid \<Rightarrow> Run \<Rightarrow> 's \<Rightarrow> bool" where
  "saw_run L view origin rid run s \<longleftrightarrow> r_run_id run = rid
     \<and> (\<exists>d. later L origin d \<and> dget (d_runs d) rid = Some run \<and> later L d (view s))"

definition saw_checkpoint :: "Platform \<Rightarrow> ('s \<Rightarrow> Repo) \<Rightarrow> Repo \<Rightarrow> uuid \<Rightarrow> Checkpoint \<Rightarrow> 's \<Rightarrow> bool" where
  "saw_checkpoint L view origin rid c s \<longleftrightarrow> c_run_id c = rid \<and> valid_checkpoint L c
     \<and> (\<exists>d. later L origin d \<and> dget (d_checkpoints d) rid = Some c \<and> later L d (view s))"

lemma steady_since [steady_intros]: "steady L view rest (since L view origin)"
  unfolding steady_def since_def by (auto intro: rtranclp_trans)

lemma steady_saw_run [steady_intros]: "steady L view rest (saw_run L view origin rid run)"
  unfolding steady_def saw_run_def by (meson rtranclp_trans)

lemma steady_saw_checkpoint [steady_intros]: "steady L view rest (saw_checkpoint L view origin rid c)"
  unfolding steady_def saw_checkpoint_def by (meson rtranclp_trans)

lemma steady_rest [steady_intros]: "steady L view rest (\<lambda>s. rest s = before)"
  by (simp add: steady_def)

lemma ensures_performs:
  assumes "performs L view rest m op" and "steady L view rest B"
    and "\<And>s d x d2 s'. B s \<Longrightarrow> later L (view s) d \<Longrightarrow> op d = (Inr x, d2) \<Longrightarrow> later L d2 (view s') \<Longrightarrow> B s' \<Longrightarrow> Q x s'"
  shows "ensures B m (\<lambda>x s. B s \<and> Q x s) (\<lambda>_. B)"
  unfolding ensures_def
proof (intro allI impI)
  fix s assume b: "B s"
  obtain r s' where m: "m s = (r, s')" by fastforce
  note p = performsD [OF assms(1) m]
  have b': "B s'" using assms(2) b p(1,2) unfolding steady_def by blast
  show "case m s of (Inr x, s') \<Rightarrow> B s' \<and> Q x s' | (Inl e, s') \<Rightarrow> B s'"
  proof (cases r)
    case (Inr y)
    with p(3) [OF Inr] assms(3) b b' m show ?thesis by auto
  qed (simp add: m b')
qed

lemma ensures_pure: "(\<And>x. r = Inr x \<Longrightarrow> Q x) \<Longrightarrow> ensures B (lift r) (\<lambda>x s. B s \<and> Q x) (\<lambda>_. B)"
  by (simp add: ensures_def lift_def split: sum.splits)

lemma andThen_assoc: "andThen (andThen m f) k = andThen m (\<lambda>x. andThen (f x) k)"
  by (auto simp: andThen_def fun_eq_iff split: prod.splits sum.splits)

lemma ensures_value:
  assumes "ensures P m (\<lambda>_. B) E" and "\<And>s x s'. m s = (Inr x, s') \<Longrightarrow> V x"
  shows "ensures P m (\<lambda>x s. B s \<and> V x) E"
  using assms unfolding ensures_def by (fastforce split: prod.splits sum.splits)

lemma ensures_exI: "(\<And>x. ensures (P x) m Q E) \<Longrightarrow> ensures (\<lambda>s. \<exists>x. P x s) m Q E"
  unfolding ensures_def
proof (intro allI impI)
  fix s assume each: "\<And>x. \<forall>s. P x s \<longrightarrow> (case m s of (Inl e, s') \<Rightarrow> E e s' | (Inr x, s') \<Rightarrow> Q x s')" and "\<exists>x. P x s"
  then obtain x where "P x s" by (elim exE)
  then show "case m s of (Inl e, s') \<Rightarrow> E e s' | (Inr x, s') \<Rightarrow> Q x s'" by (rule each [THEN spec, THEN mp])
qed

lemma saw_run_id: "saw_run L view origin rid run s \<Longrightarrow> r_run_id run = rid"
  by (simp add: saw_run_def)

subsection \<open>Repository calls\<close>

context durable_truth begin

lemma op_get_run_ensures:
  assumes "steady L view rest B" and "\<And>s. B s \<Longrightarrow> since L view origin s"
  shows "ensures B (op_get_run R rid) (\<lambda>x s. B s \<and> (\<forall>run. x = Some run \<longrightarrow> saw_run L view origin rid run s)) (\<lambda>_. B)"
proof (rule ensures_performs [OF get_run assms(1)])
  fix s d x d2 s' assume s: "B s" "later L (view s) d" "repo_get_run rid d = (Inr x, d2)" "later L d2 (view s')"
  with assms(2) [of s] have "repo_ok L d" "later L origin d" "d2 = d" "x = dget (d_runs d) rid"
    by (auto simp: since_def repo_get_run_def intro: later_ok rtranclp_trans)
  with s(4) show "\<forall>run. x = Some run \<longrightarrow> saw_run L view origin rid run s'"
    by (auto simp: saw_run_def repo_ok_def runs_ok_def)
qed

lemma op_get_checkpoint_ensures:
  assumes "steady L view rest B" and "\<And>s. B s \<Longrightarrow> since L view origin s"
  shows "ensures B (op_get_checkpoint R rid)
    (\<lambda>x s. B s \<and> (\<forall>c. x = Some c \<longrightarrow> saw_checkpoint L view origin rid c s)) (\<lambda>_. B)"
proof (rule ensures_performs [OF get_checkpoint assms(1)])
  fix s d x d2 s' assume s: "B s" "later L (view s) d" "repo_get_checkpoint rid d = (Inr x, d2)" "later L d2 (view s')"
  with assms(2) [of s] have "repo_ok L d" "later L origin d" "d2 = d" "x = dget (d_checkpoints d) rid"
    by (auto simp: since_def repo_get_checkpoint_def intro: later_ok rtranclp_trans)
  with s(4) show "\<forall>c. x = Some c \<longrightarrow> saw_checkpoint L view origin rid c s'"
    by (auto simp: saw_checkpoint_def repo_ok_def checkpoints_ok_def)
qed

lemma op_create_run_ensures:
  assumes "steady L view rest B" and "\<And>s. B s \<Longrightarrow> since L view origin s" and "valid_run run"
  shows "ensures B (op_create_run R run)
    (\<lambda>x s. B s \<and> x = run \<and> saw_run L view origin (r_run_id run) run s) (\<lambda>_. B)"
proof (rule ensures_performs [OF create_run [OF assms(3)] assms(1)])
  fix s d x d2 s' assume s: "B s" "later L (view s) d" "later L d2 (view s')" and call: "repo_create_run run d = (Inr x, d2)"
  have "repo_write L d d2" using call by (rule repo_write.create_run [OF assms(3)])
  moreover have "later L origin d" using assms(2) [OF s(1)] s(2) by (auto simp: since_def intro: rtranclp_trans)
  ultimately have "later L origin d2" by (meson rtranclp.rtrancl_into_rtrancl)
  moreover from call have "x = run \<and> dget (d_runs d2) (r_run_id run) = Some run"
    by (auto simp: repo_create_run_def raise_def split: if_splits)
  ultimately show "x = run \<and> saw_run L view origin (r_run_id run) run s'"
    using s(3) by (auto simp: saw_run_def)
qed

lemma op_transition_ensures:
  assumes "steady L view rest B" and "\<And>s. B s \<Longrightarrow> since L view origin s"
  shows "ensures B (op_transition_run R rid target es ev now ap vp)
    (\<lambda>run' s. B s \<and> saw_run L view origin rid run' s \<and> r_state run' = target) (\<lambda>_. B)"
proof (rule ensures_performs [OF transition assms(1)])
  fix s d x d2 s' assume s: "B s" "later L (view s) d" "later L d2 (view s')"
    and run: "repo_transition_run L rid target es ev now ap vp d = (Inr x, d2)"
  have w: "repo_ok L origin" "later L origin d" using assms(2) [OF s(1)] s(2) by (auto simp: since_def intro: rtranclp_trans)
  have "repo_write L d d2" using run repo_write.intros(2) by blast
  with w s(3) have later: "later L origin d2" by (meson rtranclp.rtrancl_into_rtrancl)
  from repo_transition_run_Inr [OF run] obtain current where c: "dget (d_runs d) rid = Some current"
    "transition_run current target now = Inr x" "d2 = d\<lparr>d_runs := dput rid x (d_runs d)\<rparr>" by blast
  have "r_run_id current = rid" using c(1) later_ok [OF w(2,1)] by (auto simp: repo_ok_def runs_ok_def)
  with transition_run_Inr [OF c(2)] have "r_run_id x = rid" "r_state x = target" by auto
  with later c(3) s(3) show "saw_run L view origin rid x s' \<and> r_state x = target"
    by (auto simp: saw_run_def intro!: exI [of _ d2])
qed

lemma op_save_ensures:
  assumes "steady L view rest B" and "\<And>s. B s \<Longrightarrow> since L view origin s" and "valid_checkpoint L c" and "c_run_id c = rid"
  shows "ensures B (op_save_checkpoint R c v) (\<lambda>c' s. B s \<and> c' = c \<and> saw_checkpoint L view origin rid c s) (\<lambda>_. B)"
proof (rule ensures_performs [OF save_checkpoint [OF assms(3)] assms(1)])
  fix s d x d2 s' assume s: "B s" "later L (view s) d" "later L d2 (view s')"
    and run: "repo_save_checkpoint c v d = (Inr x, d2)"
  have "repo_write L d d2" using run by (rule repo_write.save_checkpoint [OF assms(3)])
  moreover have "later L origin d" using assms(2) [OF s(1)] s(2) by (auto simp: since_def intro: rtranclp_trans)
  ultimately have later: "later L origin d2" by (meson rtranclp.rtrancl_into_rtrancl)
  from run have "x = c \<and> dget (d_checkpoints d2) rid = Some c"
    using assms(4) by (auto simp: repo_save_checkpoint_def raise_def split: option.splits if_splits)
  then show "x = c \<and> saw_checkpoint L view origin rid c s'"
    using later s(3) assms(3,4) by (auto simp: saw_checkpoint_def)
qed

end

end
