(* ===== verification/Local_Hitl_Guarantees.thy ===== *)
theory Local_Hitl_Guarantees
  imports Local_Hitl Durable_Assertions
begin

text \<open>
  What every call of \<open>LocalHitlExecutionFlow\<close> establishes, over any durable store with other clients in
  between and any executor: pre- and postconditions of each helper, composed into those of
  \<open>decide\<close> and \<open>resume\<close>.
\<close>

subsection \<open>The environment of the flow\<close>

text \<open>
  Clock and factories touch neither the store nor \<open>rest\<close>; reading a receipt back and verifying
  leave \<open>rest\<close> alone; only \<open>execute\<close> may change it, and it may take any time.
\<close>

locale hitl_environment = durable_truth L R view rest
  for L :: Platform and R :: "'s DurableTruthRepository" and view :: "'s \<Rightarrow> Repo" and rest :: "'s \<Rightarrow> 'r" +
  fixes H :: "'s LocalHitlExecutionFlow"
  assumes repository: "lh_repository H = R"
    and clock: "bystander L view rest (lh_clock H)"
    and request_ids: "bystander L view rest (lh_request_id_factory H)"
    and event_ids: "bystander L view rest (lh_event_id_factory H)"
    and nonces: "bystander L view rest (lh_nonce_factory H)"
    and receipts: "bystander L view rest (le_get_receipt (lh_executor H) key)"
    and read_back: "bystander L view rest (le_verify (lh_executor H) receipt)"
    and execution: "le_execute (lh_executor H) p e a i s = (x, s') \<Longrightarrow> later L (view s) (view s')"

context hitl_environment begin

lemma hitl_append_event_bystander [bystander_intros]: "bystander L view rest (hitl_append_event H run ty h md)"
  unfolding hitl_append_event_def repository by (rule emit_event_bystander [OF clock event_ids])

lemma hitl_transition_bystander [bystander_intros]: "bystander L view rest (hitl_transition H run target ap vp)"
  unfolding hitl_transition_def repository by (intro bystander_intros clock store_bystander)

lemma hitl_load_bystander [bystander_intros]: "bystander L view rest (hitl_load H rid)"
  unfolding hitl_load_def repository Let_def
  by (intro bystander_intros store_bystander) (auto split: if_splits intro: bystander_intros)

lemma hitl_save_bystander [bystander_intros]: "bystander L view rest (hitl_save L H c safe upd md)"
proof -
  have "bystander L view rest (andThen (lift (validated (valid_checkpoint L) x)) (\<lambda>n. op_save_checkpoint R n v))" for x v
    by (cases "valid_checkpoint L x")
      (auto simp: validated_def andThen_def lift_def bystander_def dest: performs_bystander [OF save_checkpoint, THEN bystanderD(1)]
        performs_bystander [OF save_checkpoint, THEN bystanderD(2)])
  then show ?thesis unfolding hitl_save_def hitl_next_checkpoint_def repository andThen_assoc
    by - (rule bystander_andThen [OF clock], rule bystander_andThen [OF bystander_lift])
qed

lemma hitl_audit_bystander [bystander_intros]: "bystander L view rest (hitl_audit_policy_denial H run p pc)"
  unfolding hitl_audit_policy_denial_def
  by (intro bystander_intros) (auto split: if_splits intro: bystander_intros)

lemma hitl_loaded_bystander [bystander_intros]:
  "bystander L view rest m \<Longrightarrow> (\<And>y. bystander L view rest (k y)) \<Longrightarrow> bystander L view rest (hitl_loaded m k)"
  unfolding hitl_loaded_def by (intro bystander_intros)

lemma hitl_apply_bystander [bystander_intros]:
  "bystander L view rest (hitl_apply_decision_state L H run c a)"
  unfolding hitl_apply_decision_state_def Let_def
  by (intro bystander_intros) (auto split: if_splits intro: bystander_intros)

lemma hitl_persist_failure_bystander [bystander_intros]:
  "bystander L view rest (hitl_persist_failure H run target kind reason message)"
  unfolding hitl_persist_failure_def
  by (intro bystander_intros) (auto split: if_splits intro: bystander_intros)

lemma hitl_completed_bystander [bystander_intros]: "bystander L view rest (hitl_completed run c rec)"
  unfolding hitl_completed_def by (intro bystander_intros)

lemma hitl_decide_bystander [bystander_intros]: "bystander L view rest (hitl_decide L H d session)"
  unfolding hitl_decide_def hitl_replay_decision_def hitl_record_decision_def
  by (intro bystander_intros clock) (auto split: if_splits intro: bystander_intros)

lemma hitl_new_request_bystander [bystander_intros]:
  "bystander L view rest (hitl_new_request L H p session nonce now t)"
  unfolding hitl_new_request_def by (intro bystander_intros request_ids)

lemma hitl_store_request_bystander [bystander_intros]:
  "bystander L view rest (hitl_store_request L H run c session q)"
  unfolding hitl_store_request_def by (intro bystander_intros)

lemma hitl_issue_challenge_bystander [bystander_intros]:
  "bystander L view rest (hitl_issue_challenge L H (run, c, ev, p) session now t)"
  unfolding hitl_issue_challenge_def prod.case
  by (intro bystander_intros nonces) (auto split: if_splits intro: bystander_intros)

lemma hitl_request_bystander [bystander_intros]: "bystander L view rest (hitl_request_approval L H rid session)"
  unfolding hitl_request_approval_def by (intro bystander_intros clock)

end

subsection \<open>What the helpers establish\<close>

text \<open>The decided part of a checkpoint; every later save of the flow leaves it alone.\<close>

definition same_decision :: "Checkpoint \<Rightarrow> Checkpoint \<Rightarrow> bool" where
  "same_decision c c' \<longleftrightarrow> c_run_id c' = c_run_id c \<and> c_resource_evidence c' = c_resource_evidence c
     \<and> c_remediation_proposal c' = c_remediation_proposal c
     \<and> c_local_approval_request c' = c_local_approval_request c \<and> c_local_approval c' = c_local_approval c"

definition same_execution :: "Checkpoint \<Rightarrow> Checkpoint \<Rightarrow> bool" where
  "same_execution c c' \<longleftrightarrow> c_local_execution_intent c' = c_local_execution_intent c
     \<and> c_local_execution_receipt c' = c_local_execution_receipt c \<and> c_local_verification c' = c_local_verification c"

lemma same_decision_refl [simp]: "same_decision c c"
  by (simp add: same_decision_def)

lemma same_decision_trans: "same_decision a b \<Longrightarrow> same_decision b c \<Longrightarrow> same_decision a c"
  by (simp add: same_decision_def)

context hitl_environment begin

abbreviation saw :: "Repo \<Rightarrow> uuid \<Rightarrow> Run \<Rightarrow> Checkpoint \<Rightarrow> 's \<Rightarrow> bool" where
  "saw origin rid run c \<equiv> (\<lambda>s. saw_run L view origin rid run s \<and> saw_checkpoint L view origin rid c s)"

lemma load_ensures:
  assumes "steady L view rest B" and "\<And>s. B s \<Longrightarrow> since L view origin s"
  shows "ensures B (hitl_load H rid)
    (\<lambda>x s. B s \<and> (case x of Inl _ \<Rightarrow> True
       | Inr (run, c, ev, p) \<Rightarrow> saw origin rid run c s \<and> c_resource_evidence c = Some ev
           \<and> c_remediation_proposal c = Some p \<and> local_context_bound run ev p)) (\<lambda>_. B)"
proof -
  have run: "ensures B (op_get_run R rid) (\<lambda>x s. B s \<and> (\<forall>run. x = Some run \<longrightarrow> saw_run L view origin rid run s)) (\<lambda>_. B)"
    by (rule op_get_run_ensures [OF assms])
  have cp: "ensures (\<lambda>s. B s \<and> (\<forall>run. y = Some run \<longrightarrow> saw_run L view origin rid run s)) (op_get_checkpoint R rid)
      (\<lambda>x s. (B s \<and> (\<forall>run. y = Some run \<longrightarrow> saw_run L view origin rid run s))
        \<and> (\<forall>c. x = Some c \<longrightarrow> saw_checkpoint L view origin rid c s)) (\<lambda>_ s. B s \<and> (\<forall>run. y = Some run \<longrightarrow> saw_run L view origin rid run s))" for y
    by (rule op_get_checkpoint_ensures)
      (use assms steady_saw_run [of L view rest origin rid] in \<open>unfold steady_def, blast+\<close>)
  have cp': "ensures (\<lambda>s. B s \<and> (\<forall>run. y = Some run \<longrightarrow> saw_run L view origin rid run s)) (op_get_checkpoint R rid)
      (\<lambda>x s. (B s \<and> (\<forall>run. y = Some run \<longrightarrow> saw_run L view origin rid run s))
        \<and> (\<forall>c. x = Some c \<longrightarrow> saw_checkpoint L view origin rid c s)) (\<lambda>_. B)" for y
    by (rule ensures_conseq [OF cp]) auto
  let ?M = "\<lambda>(y, x) s. (B s \<and> (\<forall>run. y = Some run \<longrightarrow> saw_run L view origin rid run s))
    \<and> (\<forall>c. x = Some c \<longrightarrow> saw_checkpoint L view origin rid c s)"
  have both: "ensures B (andThen (op_get_run R rid) (\<lambda>run. andThen (op_get_checkpoint R rid) (\<lambda>c. ret (run, c)))) ?M (\<lambda>_. B)"
    by (rule ensures_andThen [OF run], rule ensures_andThen [OF cp'])
      (auto intro!: ensures_ret)
  show ?thesis unfolding hitl_load_def repository
    by (rule ensures_tryThen [OF both]) (auto simp: Let_def intro!: ensures_ret split: if_splits option.splits prod.splits)
qed

lemma transition_ensures:
  assumes "steady L view rest B" and "\<And>s. B s \<Longrightarrow> since L view origin s" and "r_run_id run = rid"
  shows "ensures B (hitl_transition H run target ap vp)
    (\<lambda>run' s. B s \<and> saw_run L view origin rid run' s \<and> r_state run' = target) (\<lambda>_. B)"
  unfolding hitl_transition_def repository
  by (rule ensures_andThen [OF ensures_bystander [OF clock assms(1)]])
    (use op_transition_ensures [OF assms(1,2)] assms(3) in simp)

end

definition saved_from :: "(Checkpoint \<Rightarrow> Checkpoint) \<Rightarrow> Checkpoint \<Rightarrow> WorkflowState \<Rightarrow> Checkpoint \<Rightarrow> bool" where
  "saved_from upd c safe c' \<longleftrightarrow> (\<exists>t m v. c' = (upd c)\<lparr>c_created_at := t, c_last_safe_state := safe,
     c_resume_metadata := m, c_version := v\<rparr>)"

definition downstream :: "Run \<Rightarrow> LocalApprovalDecisionRecord \<Rightarrow> bool" where
  "downstream run a \<longleftrightarrow> la_decision a = ApprovalDecision.APPROVED \<and> r_state run \<in> APPROVED_DECISION_DOWNSTREAM_STATES"

context hitl_environment begin

lemma save_ensures:
  assumes B: "steady L view rest B" "\<And>s. B s \<Longrightarrow> since L view origin s" and rid: "c_run_id (upd c) = rid"
  shows "ensures B (hitl_save L H c safe upd md)
    (\<lambda>c' s. B s \<and> saw_checkpoint L view origin rid c' s \<and> saved_from upd c safe c') (\<lambda>_. B)"
  unfolding hitl_save_def hitl_next_checkpoint_def repository andThen_assoc
proof (rule ensures_andThen [OF ensures_bystander [OF clock B(1)]], rule ensures_andThen [OF ensures_bystander [OF bystander_lift B(1)]])
  fix now t
  let ?c = "(upd c)\<lparr>c_created_at := t, c_last_safe_state := safe,
          c_resume_metadata := dmerge (c_resume_metadata c) (map (\<lambda>(k, v). (k, JStr v)) md), c_version := c_version c + 1\<rparr>"
  let ?Q = "\<lambda>c' s. B s \<and> saw_checkpoint L view origin rid c' s \<and> saved_from upd c safe c'"
  show "ensures B (andThen (lift (validated (valid_checkpoint L) ?c)) (\<lambda>n. op_save_checkpoint R n (Some (c_version c)))) ?Q (\<lambda>_. B)"
  proof (cases "valid_checkpoint L ?c")
    case False
    then show ?thesis by (simp add: validated_def ensures_def andThen_def lift_def)
  next
    case True
    have "ensures B (op_save_checkpoint R ?c (Some (c_version c))) ?Q (\<lambda>_. B)"
      by (rule ensures_conseq [OF op_save_ensures [OF B True]]) (use rid in \<open>auto simp: saved_from_def\<close>)
    then show ?thesis by (simp add: validated_def True ensures_def andThen_def lift_def)
  qed
qed

lemma apply_ensures:
  assumes B: "steady L view rest B" "\<And>s. B s \<Longrightarrow> since L view origin s"
    and ids: "\<And>s. B s \<Longrightarrow> saw origin rid run c s"
  shows "ensures B (hitl_apply_decision_state L H run c a)
    (\<lambda>x s. B s \<and> (case x of Inl _ \<Rightarrow> True
       | Inr (run', c') \<Rightarrow> saw origin rid run' c' s \<and> same_decision c c' \<and> same_execution c c'
           \<and> (\<not> downstream run a \<longrightarrow> r_state run' = decision_state (la_decision a)))) (\<lambda>_. B)"
proof (rule ensures_frame_pure)
  show "r_run_id run = rid \<and> c_run_id c = rid" if "B s" for s
    using ids [OF that] by (simp add: saw_run_def saw_checkpoint_def)
  assume id: "r_run_id run = rid \<and> c_run_id c = rid"
  let ?t = "decision_state (la_decision a)"
  let ?goal = "\<lambda>run'. \<not> downstream run a \<longrightarrow> r_state run' = ?t"
  let ?M = "\<lambda>(run', c') s. B s \<and> saw origin rid run' c' s \<and> same_decision c c' \<and> same_execution c c' \<and> ?goal run'"
  have first: "ensures B (if r_state run \<noteq> ?t \<and> \<not> downstream run a then
        if r_state run \<noteq> WorkflowState.AWAITING_APPROVAL then raise StorageConflictError
        else hitl_transition H run ?t (Some (la_proposal_id a)) None
      else ret run) (\<lambda>run' s. B s \<and> saw_run L view origin rid run' s \<and> ?goal run') (\<lambda>_. B)"
    using ids transition_ensures [OF B, of run rid] id
    by (auto intro!: ensures_ret ensures_raise)
  have second: "ensures (\<lambda>s. B s \<and> saw_run L view origin rid run' s \<and> ?goal run')
      (if \<not> downstream run a \<and> c_last_safe_state c \<noteq> ?t then hitl_save L H c ?t id md else ret c)
      (\<lambda>c' s. (B s \<and> saw_run L view origin rid run' s \<and> ?goal run') \<and> saw_checkpoint L view origin rid c' s
        \<and> same_decision c c' \<and> same_execution c c') (\<lambda>_. B)" for run' md
  proof (rule ensures_if)
    show "ensures (\<lambda>s. B s \<and> saw_run L view origin rid run' s \<and> ?goal run') (hitl_save L H c ?t id md)
      (\<lambda>c' s. (B s \<and> saw_run L view origin rid run' s \<and> ?goal run') \<and> saw_checkpoint L view origin rid c' s
        \<and> same_decision c c' \<and> same_execution c c') (\<lambda>_. B)"
      by (rule ensures_conseq [OF save_ensures [where origin = origin and rid = rid
              and B = "\<lambda>s. B s \<and> saw_run L view origin rid run' s \<and> ?goal run'"]])
        (use B id in \<open>auto simp: saved_from_def same_decision_def same_execution_def intro!: steady_intros\<close>)
  next
    show "ensures (\<lambda>s. B s \<and> saw_run L view origin rid run' s \<and> ?goal run') (ret c)
      (\<lambda>c' s. (B s \<and> saw_run L view origin rid run' s \<and> ?goal run') \<and> saw_checkpoint L view origin rid c' s
        \<and> same_decision c c' \<and> same_execution c c') (\<lambda>_. B)"
      using ids by (intro ensures_ret) (auto simp: same_execution_def)
  qed
  show "ensures B (hitl_apply_decision_state L H run c a)
    (\<lambda>x s. B s \<and> (case x of Inl _ \<Rightarrow> True
       | Inr (run', c') \<Rightarrow> saw origin rid run' c' s \<and> same_decision c c' \<and> same_execution c c' \<and> ?goal run')) (\<lambda>_. B)"
    unfolding hitl_apply_decision_state_def Let_def downstream_def [symmetric]
    by (rule ensures_tryThen [where M = ?M], rule ensures_andThen [OF first], rule ensures_andThen [OF second])
      (auto intro!: ensures_ret split: if_splits)
qed

end

subsection \<open>The protected phases\<close>

definition unsuccessful :: "'a ControlResult \<Rightarrow> bool" where
  "unsuccessful r \<longleftrightarrow> (\<forall>x. r \<noteq> Succeeded x)"

lemma unsuccessful_simps [simp]:
  "unsuccessful (hitl_failed k a b)" "unsuccessful (hitl_storage_failed m)" "unsuccessful (Failed f)"
  "\<not> unsuccessful (Succeeded x)"
  by (simp_all add: unsuccessful_def hitl_failed_def hitl_storage_failed_def)

lemma persist_failure_unsuccessful:
  "hitl_persist_failure H run target kind reason message s = (Inr r, s') \<Longrightarrow> unsuccessful r"
  unfolding hitl_persist_failure_def
  by (auto elim!: tryThen_eqE ret_eqE split: if_splits)

lemma ended_Inr: "ended m s = (Inr x, s') \<Longrightarrow> \<exists>r. x = Inl r \<and> m s = (Inr r, s')"
  unfolding ended_def by (auto elim!: andThen_eqE ret_eqE)

text \<open>
  How \<open>rest\<close> may have changed: through one call of \<open>execute\<close>, made when the stored run was
  \<open>EXECUTING\<close>, with the evidence, the proposal, the approval and the intent of one stored checkpoint.
\<close>

definition authorised :: "Platform \<Rightarrow> ('s \<Rightarrow> Repo) \<Rightarrow> ('s \<Rightarrow> 'r) \<Rightarrow> 's LocalHitlExecutionFlow \<Rightarrow> Repo \<Rightarrow> uuid
    \<Rightarrow> string \<Rightarrow> 'r \<Rightarrow> 's \<Rightarrow> bool" where
  "authorised L view rest H origin rid session before s \<longleftrightarrow>
     (\<exists>run c ev p a i s1 x s2. le_execute (lh_executor H) p ev a i s1 = (x, s2) \<and> rest s1 = before \<and> rest s2 = rest s
        \<and> later L (view s1) (view s2) \<and> later L (view s2) (view s)
        \<and> saw_run L view origin rid run s1 \<and> saw_checkpoint L view origin rid c s1
        \<and> r_state run = WorkflowState.EXECUTING \<and> c_resource_evidence c = Some ev
        \<and> c_remediation_proposal c = Some p \<and> c_local_approval c = Some a \<and> c_local_execution_intent c = Some i
        \<and> la_actor_session_id a = session)"

definition guarded :: "Platform \<Rightarrow> ('s \<Rightarrow> Repo) \<Rightarrow> ('s \<Rightarrow> 'r) \<Rightarrow> 's LocalHitlExecutionFlow \<Rightarrow> Repo \<Rightarrow> uuid
    \<Rightarrow> string \<Rightarrow> 'r \<Rightarrow> 's \<Rightarrow> bool" where
  "guarded L view rest H origin rid session before s \<longleftrightarrow>
     since L view origin s \<and> (rest s = before \<or> authorised L view rest H origin rid session before s)"

lemma steady_guarded [steady_intros]: "steady L view rest (guarded L view rest H origin rid session before)"
proof -
  have "authorised L view rest H origin rid session before s'"
    if "rest s' = rest s" "later L (view s) (view s')" "authorised L view rest H origin rid session before s" for s s'
    using that unfolding authorised_def by (elim exE conjE, intro exI conjI) (assumption | erule (1) rtranclp_trans | simp)+
  then show ?thesis
    using steady_since [of L view rest origin] unfolding steady_def guarded_def by metis
qed

context hitl_environment begin

lemma persist_failure_ensures:
  "steady L view rest B \<Longrightarrow>
   ensures B (hitl_persist_failure H run target kind reason message) (\<lambda>r s. B s \<and> unsuccessful r) (\<lambda>_. B)"
  by (rule ensures_value [OF ensures_bystander [OF hitl_persist_failure_bystander]])
    (auto dest: persist_failure_unsuccessful)

lemma event_ensures: "steady L view rest B \<Longrightarrow> ensures B (hitl_append_event H run ty h md) (\<lambda>_. B) (\<lambda>_. B)"
  by (rule ensures_bystander [OF hitl_append_event_bystander])

lemma ended_ensures:
  assumes "ensures B m (\<lambda>r s. B s \<and> unsuccessful r) (\<lambda>_. B)"
  shows "ensures B (ended m) (\<lambda>x s. B s \<and> (case x of Inl r \<Rightarrow> unsuccessful r | Inr y \<Rightarrow> P y s)) (\<lambda>_. B)"
  unfolding ended_def by (rule ensures_andThen [OF assms]) (auto intro: ensures_ret)

lemma move_ensures:
  assumes B: "steady L view rest B" "\<And>s. B s \<Longrightarrow> since L view origin s" and id: "\<And>s. B s \<Longrightarrow> r_run_id run = rid"
  shows "ensures B (andThen (hitl_transition H run target ap vp) (\<lambda>run.
      andThen (hitl_append_event H run ty h md) (\<lambda>_. ret (run, y))))
    (\<lambda>(run', y') s. B s \<and> y' = y \<and> saw_run L view origin rid run' s \<and> r_state run' = target) (\<lambda>_. B)"
proof (rule ensures_frame_pure)
  show "r_run_id run = rid" if "B s" for s using id [OF that] .
  assume run: "r_run_id run = rid"
  let ?M = "\<lambda>run' s. B s \<and> saw_run L view origin rid run' s \<and> r_state run' = target"
  have "ensures (?M run') (hitl_append_event H run' ty h md) (\<lambda>_. ?M run') (\<lambda>_. B)" for run'
    by (rule ensures_conseq [OF event_ensures [where B = "?M run'"]]) (auto intro!: steady_intros B(1))
  then show "ensures B (andThen (hitl_transition H run target ap vp) (\<lambda>run.
      andThen (hitl_append_event H run ty h md) (\<lambda>_. ret (run, y))))
    (\<lambda>(run', y') s. B s \<and> y' = y \<and> saw_run L view origin rid run' s \<and> r_state run' = target) (\<lambda>_. B)"
    by (intro ensures_andThen [OF transition_ensures [OF B run]] ensures_andThen ensures_ret) auto
qed

lemma own_ensures:
  assumes B: "steady L view rest B" "\<And>s. B s \<Longrightarrow> since L view origin s"
    and saw: "\<And>s. B s \<Longrightarrow> saw origin rid run c s"
  shows "ensures B (hitl_own L H p a (run, c))
    (\<lambda>x s. B s \<and> (case x of Inl r \<Rightarrow> unsuccessful r
       | Inr (run', c') \<Rightarrow> saw origin rid run' c' s \<and> same_decision c c')) (\<lambda>_. B)"
proof (cases "r_state run = WorkflowState.APPROVED")
  case False
  then show ?thesis using saw by (auto simp: hitl_own_def intro!: ensures_ret)
next
  case True
  let ?J = "\<lambda>c' s. B s \<and> saw_checkpoint L view origin rid c' s \<and> same_decision c c'"
  have J: "steady L view rest (?J c')" for c'
    using B(1) by (intro steady_intros)
  have intent: "ensures B (hitl_register_intent L H p a run c) (\<lambda>(i, c') s. ?J c' s) (\<lambda>_. B)"
  proof (rule ensures_frame_pure)
    show "c_run_id c = rid" if "B s" for s using saw [OF that] by (simp add: saw_checkpoint_def)
    assume id: "c_run_id c = rid"
    have save: "ensures B (hitl_save L H c WorkflowState.APPROVED (\<lambda>c. c\<lparr>c_local_execution_intent := Some i\<rparr>) md) ?J (\<lambda>_. B)" for i md
      by (rule ensures_conseq [OF save_ensures [OF B]]) (auto simp: id saved_from_def same_decision_def)
    have event: "ensures (?J c') (hitl_append_event H run ty h md) (\<lambda>_. ?J c') (\<lambda>_. B)" for c' ty h md
      by (rule ensures_conseq [OF event_ensures [OF J]]) auto
    show "ensures B (hitl_register_intent L H p a run c) (\<lambda>(i, c') s. ?J c' s) (\<lambda>_. B)"
      unfolding hitl_register_intent_def
    proof (rule ensures_case_option)
      show "ensures B (ret (i, c)) (\<lambda>(i, c') s. ?J c' s) (\<lambda>_. B)" for i
        using saw by (intro ensures_ret) auto
      show "ensures B (andThen (lh_clock H) (\<lambda>now. andThen (lift (LocalExecutionIntent_create L p a now)) (\<lambda>intent.
          andThen (hitl_save L H c WorkflowState.APPROVED (\<lambda>c. c\<lparr>c_local_execution_intent := Some intent\<rparr>)
            [(''phase'', ''LOCAL_2''), (''local_execution_intent_hash'', li_intent_hash intent)]) (\<lambda>saved.
          andThen (hitl_append_event H run AuditEventType.IDEMPOTENCY_REGISTERED (li_intent_hash intent)
            (proposal_metadata p)) (\<lambda>_. ret (intent, saved)))))) (\<lambda>(i, c') s. ?J c' s) (\<lambda>_. B)"
        by (rule ensures_andThen [OF ensures_bystander [OF clock B(1)]],
            rule ensures_andThen [OF ensures_bystander [OF bystander_lift B(1)]],
            rule ensures_andThen [OF save], rule ensures_andThen [OF event], rule ensures_ret) simp
    qed
  qed
  have move: "ensures (?J c') (andThen (hitl_transition H run WorkflowState.EXECUTING None None) (\<lambda>run.
      andThen (hitl_append_event H run ty h md) (\<lambda>_. ret (run, c'))))
      (\<lambda>(run', c') s. B s \<and> saw origin rid run' c' s \<and> same_decision c c') (\<lambda>_. B)" for c' ty h md
    by (rule ensures_conseq [OF move_ensures [OF J, where origin = origin and rid = rid and run = run]]) (use B(2) saw in \<open>auto simp: saw_run_def\<close>)
  have "ensures B (andThen (hitl_register_intent L H p a run c) (\<lambda>(intent, checkpoint).
      andThen (hitl_transition H run WorkflowState.EXECUTING None None) (\<lambda>run.
      andThen (hitl_append_event H run AuditEventType.EXECUTION_REQUESTED (li_intent_hash intent)
        (proposal_metadata p)) (\<lambda>_. ret (run, checkpoint)))))
      (\<lambda>(run', c') s. B s \<and> saw origin rid run' c' s \<and> same_decision c c') (\<lambda>_. B)"
    by (rule ensures_andThen [OF intent]) (use move in \<open>simp add: split_beta\<close>)
  with True show ?thesis unfolding hitl_own_def prod.case
    by simp (rule ensures_tryThen, assumption, auto intro!: ensures_ret split: if_splits)
qed

end

context hitl_environment begin

lemma failure_ends:
  assumes "steady L view rest B"
  shows "ensures B (ended (hitl_persist_failure H run target kind reason message))
    (\<lambda>x s. B s \<and> (case x of Inl r \<Rightarrow> unsuccessful r | Inr y \<Rightarrow> P y s)) (\<lambda>_. B)"
  by (rule ended_ensures [OF persist_failure_ensures [OF assms]])

lemma refusal_ends:
  "unsuccessful r \<Longrightarrow> ensures B (ended (ret r)) (\<lambda>x s. B s \<and> (case x of Inl r \<Rightarrow> unsuccessful r | Inr y \<Rightarrow> P y s)) (\<lambda>_. B)"
  by (rule ended_ensures) (auto intro: ensures_ret)

lemma file_receipt_ensures:
  assumes B: "steady L view rest B" "\<And>s. B s \<Longrightarrow> since L view origin s"
    and saw: "\<And>s. B s \<Longrightarrow> saw origin rid run c s"
  shows "ensures B (hitl_file_receipt L H p run c r)
    (\<lambda>(run', c') s. B s \<and> saw origin rid run' c' s \<and> same_decision c c') (\<lambda>_. B)"
proof (rule ensures_frame_pure)
  show "c_run_id c = rid" if "B s" for s using saw [OF that] by (simp add: saw_checkpoint_def)
  assume id: "c_run_id c = rid"
  let ?J = "\<lambda>c' s. B s \<and> saw_checkpoint L view origin rid c' s \<and> same_decision c c'"
  have J: "steady L view rest (?J c')" for c' using B(1) by (intro steady_intros)
  have stored: "ensures B (if c_local_execution_receipt c = None
      then hitl_save L H c WorkflowState.APPROVED (\<lambda>c. c\<lparr>c_local_execution_receipt := Some r\<rparr>)
        [(''phase'', ''LOCAL_2''), (''local_execution_receipt_hash'', lr_receipt_hash r)]
      else ret c) ?J (\<lambda>_. B)"
  proof (rule ensures_if)
    show "ensures B (hitl_save L H c WorkflowState.APPROVED (\<lambda>c. c\<lparr>c_local_execution_receipt := Some r\<rparr>)
        [(''phase'', ''LOCAL_2''), (''local_execution_receipt_hash'', lr_receipt_hash r)]) ?J (\<lambda>_. B)"
      by (rule ensures_conseq [OF save_ensures [OF B]]) (auto simp: id saved_from_def same_decision_def)
    show "ensures B (ret c) ?J (\<lambda>_. B)" using saw by (auto intro: ensures_ret)
  qed
  have move: "ensures (?J c') (andThen (hitl_transition H run WorkflowState.VERIFYING None None) (\<lambda>run.
      andThen (hitl_append_event H run ty h md) (\<lambda>_. ret (run, c'))))
      (\<lambda>(run', c') s. B s \<and> saw origin rid run' c' s \<and> same_decision c c') (\<lambda>_. B)" for c' ty h md
    by (rule ensures_conseq [OF move_ensures [OF J, where origin = origin and rid = rid and run = run]])
      (use B(2) saw in \<open>auto simp: saw_run_def\<close>)
  show "ensures B (hitl_file_receipt L H p run c r)
    (\<lambda>(run', c') s. B s \<and> saw origin rid run' c' s \<and> same_decision c c') (\<lambda>_. B)"
    unfolding hitl_file_receipt_def by (rule ensures_andThen [OF stored], rule move)
qed

lemma obtain_receipt_ensures:
  assumes fields: "c_resource_evidence c = Some ev" "c_remediation_proposal c = Some p" "c_local_approval c = Some a"
      "c_local_execution_intent c = Some i" "la_actor_session_id a = session" "r_state run = WorkflowState.EXECUTING"
  shows "ensures (\<lambda>s. since L view origin s \<and> rest s = before \<and> saw origin rid run c s) (hitl_obtain_receipt H ev p a i c)
    (\<lambda>_ s. guarded L view rest H origin rid session before s \<and> saw origin rid run c s)
    (\<lambda>_. guarded L view rest H origin rid session before)"
proof -
  let ?J = "\<lambda>s. since L view origin s \<and> rest s = before \<and> saw origin rid run c s"
  let ?G = "guarded L view rest H origin rid session before"
  have J: "steady L view rest ?J" by (intro steady_intros)
  have weak: "?J s \<Longrightarrow> ?G s" for s by (simp add: guarded_def)
  have call: "ensures ?J (le_execute (lh_executor H) p ev a i) (\<lambda>_ s. ?G s \<and> saw origin rid run c s) (\<lambda>_. ?G)"
    unfolding ensures_def
  proof (intro allI impI)
    fix s assume s: "?J s"
    obtain x s' where run: "le_execute (lh_executor H) p ev a i s = (x, s')" by fastforce
    from execution [OF run] have later: "later L (view s) (view s')" .
    have "authorised L view rest H origin rid session before s'"
      unfolding authorised_def by (intro exI conjI, rule run) (use s fields later in auto)
    moreover from later s have "since L view origin s'" "saw origin rid run c s'"
      by (auto simp: since_def saw_run_def saw_checkpoint_def intro: rtranclp_trans)
    ultimately have "?G s' \<and> saw origin rid run c s'" by (simp add: guarded_def)
    then show "case le_execute (lh_executor H) p ev a i s of (Inr x, s') \<Rightarrow> ?G s' \<and> saw origin rid run c s'
      | (Inl e, s') \<Rightarrow> ?G s'" by (simp add: run split: sum.splits)
  qed
  have "ensures ?J (le_get_receipt (lh_executor H) key) (\<lambda>_. ?J) (\<lambda>_. ?G)" for key
    by (rule ensures_conseq [OF ensures_bystander [OF receipts J]]) (auto simp: weak)
  with call weak show ?thesis unfolding hitl_obtain_receipt_def
    by (intro ensures_case_option ensures_andThen [where M = "\<lambda>_. ?J"]) (auto intro!: ensures_ret)
qed

lemma execute_ensures:
  assumes fields: "c_resource_evidence c = Some ev" "c_remediation_proposal c = Some p" "c_local_approval c = Some a"
      "la_actor_session_id a = session"
  shows "ensures (\<lambda>s. since L view origin s \<and> rest s = before \<and> saw origin rid run c s) (hitl_execute L H ev p a (run, c))
    (\<lambda>x s. guarded L view rest H origin rid session before s \<and> (case x of Inl r \<Rightarrow> unsuccessful r
       | Inr (run', c') \<Rightarrow> saw origin rid run' c' s \<and> same_decision c c'))
    (\<lambda>_. guarded L view rest H origin rid session before)"
proof -
  let ?J = "\<lambda>s. since L view origin s \<and> rest s = before \<and> saw origin rid run c s"
  let ?G = "guarded L view rest H origin rid session before"
  let ?Q = "\<lambda>x s. ?G s \<and> (case x of Inl r \<Rightarrow> unsuccessful r | Inr (run', c') \<Rightarrow> saw origin rid run' c' s \<and> same_decision c c')"
  let ?B = "\<lambda>s. ?G s \<and> saw origin rid run c s"
  have weak: "?J s \<Longrightarrow> ?G s" for s by (simp add: guarded_def)
  have B: "steady L view rest ?B" by (intro steady_intros)
  have err: "ensures ?G g ?Q (\<lambda>_. ?G)" if h: "map_option ended (hitl_execution_error H run e) = Some g" for e g
    using h unfolding hitl_execution_error_def hitl_mark_recovery_def
    by (auto split: if_splits intro: failure_ends [OF steady_guarded] refusal_ends)
  show ?thesis
  proof (cases "r_state run = WorkflowState.EXECUTING")
    case False
    then show ?thesis using weak by (auto simp: hitl_execute_def intro!: ensures_ret)
  next
    case exec: True
    show ?thesis
    proof (cases "c_local_execution_intent c")
      case None
      have "ensures ?G (ended (hitl_mark_recovery H run ''LOCAL_EXECUTION_INTENT_MISSING''
                   ''Executing local run has no durable idempotency ownership'')) ?Q (\<lambda>_. ?G)"
        unfolding hitl_mark_recovery_def by (rule failure_ends [OF steady_guarded])
      then have "ensures ?J (ended (hitl_mark_recovery H run ''LOCAL_EXECUTION_INTENT_MISSING''
                   ''Executing local run has no durable idempotency ownership'')) ?Q (\<lambda>_. ?G)"
        by (rule ensures_conseq) (auto simp: weak)
      then show ?thesis by (simp add: hitl_execute_def exec None)
    next
      case (Some i)
      have "ensures ?B (hitl_file_receipt L H p run c r) (\<lambda>x. ?Q (Inr x)) (\<lambda>_. ?G)" for r
        by (rule ensures_conseq [OF file_receipt_ensures [OF B, of origin rid run]]) (auto simp: guarded_def)
      then have "ensures ?J (andThen (hitl_obtain_receipt H ev p a i c) (hitl_file_receipt L H p run c)) (\<lambda>x. ?Q (Inr x)) (\<lambda>_. ?G)"
        by (rule ensures_andThen [OF obtain_receipt_ensures [OF fields(1-3) Some fields(4) exec]])
      then have "ensures ?J (tryThen (andThen (hitl_obtain_receipt H ev p a i c) (hitl_file_receipt L H p run c))
          (\<lambda>e. map_option ended (hitl_execution_error H run e)) (\<lambda>x. ret (Inr x))) ?Q (\<lambda>_. ?G)"
        by (rule ensures_tryThen) (auto intro: err ensures_ret)
      then show ?thesis by (simp add: hitl_execute_def exec Some)
    qed
  qed
qed

end

text \<open>A completion is backed by a run and a checkpoint.\<close>

definition backed :: "Run \<Rightarrow> Checkpoint \<Rightarrow> LocalExecutionCompletion \<Rightarrow> bool" where
  "backed run c y \<longleftrightarrow> valid_local_completion y \<and> lp_run_id y = r_run_id run \<and> lp_final_state y = r_state run
     \<and> c_local_approval c = Some (lp_approval y) \<and> lp_decision y = la_decision (lp_approval y)
     \<and> (\<exists>p. c_remediation_proposal c = Some p \<and> lp_proposal_id y = rp_proposal_id p)
     \<and> (lp_decision y = ApprovalDecision.APPROVED \<longrightarrow>
          c_local_execution_receipt c = lp_receipt y \<and> c_local_verification c = lp_verification y)"

lemma completed_backed:
  "hitl_completed run c rec s = (Inr (Succeeded y), s') \<Longrightarrow> backed run c y"
  unfolding hitl_completed_def backed_def
  by (auto elim!: andThen_eqE lift_eqE ret_eqE simp: validated_def hitl_failed_def split: option.splits if_splits)

context hitl_environment begin

lemma obtain_verification_ensures:
  assumes B: "steady L view rest B" "\<And>s. B s \<Longrightarrow> since L view origin s"
    and saw: "\<And>s. B s \<Longrightarrow> saw_checkpoint L view origin rid c s" and id: "c_run_id c = rid"
  shows "ensures B (hitl_obtain_verification L H c r)
    (\<lambda>(v, c') s. B s \<and> saw_checkpoint L view origin rid c' s \<and> same_decision c c') (\<lambda>_. B)"
proof -
  have save: "ensures B (hitl_save L H c WorkflowState.APPROVED (\<lambda>c. c\<lparr>c_local_verification := Some v\<rparr>) md)
      (\<lambda>c' s. B s \<and> saw_checkpoint L view origin rid c' s \<and> same_decision c c') (\<lambda>_. B)" for v md
    by (rule ensures_conseq [OF save_ensures [OF B]]) (auto simp: id saved_from_def same_decision_def)
  show ?thesis unfolding hitl_obtain_verification_def
    using saw by (intro ensures_case_option ensures_andThen [OF ensures_bystander [OF read_back B(1)]]
      ensures_andThen [OF save] ensures_ret) auto
qed

lemma close_ensures:
  assumes B: "steady L view rest B" "\<And>s. B s \<Longrightarrow> since L view origin s"
    and id: "r_run_id run = rid" "c_run_id c = rid"
  shows "ensures B (hitl_close L H p run (v, c))
    (\<lambda>(run', c') s. B s \<and> saw origin rid run' c' s \<and> same_decision c c') (\<lambda>_. B)"
proof -
  let ?K = "\<lambda>run' s. B s \<and> saw_run L view origin rid run' s"
  let ?M = "\<lambda>run' d s. B s \<and> saw origin rid run' d s \<and> same_decision c d"
  have K: "steady L view rest (?K run')" and M: "steady L view rest (?M run' d)" for run' d
    by (intro steady_intros B(1))+
  have moved: "ensures B (hitl_transition H run WorkflowState.SUCCESS_WITH_EVIDENCE None (Some pid)) ?K (\<lambda>_. B)" for pid
    by (rule ensures_conseq [OF transition_ensures [OF B id(1)]]) auto
  have saved: "ensures (?K run') (hitl_save L H c WorkflowState.SUCCESS_WITH_EVIDENCE id md) (?M run') (\<lambda>_. B)" for run' md
    by (rule ensures_conseq [OF save_ensures [OF K, where origin = origin and rid = rid]])
      (use B(2) id in \<open>auto simp: saved_from_def same_decision_def\<close>)
  have event: "ensures (?M run' d) (hitl_append_event H run' ty h md) (\<lambda>_. ?M run' d) (\<lambda>_. B)" for run' d ty h md
    by (rule ensures_conseq [OF event_ensures [OF M]]) auto
  show ?thesis unfolding hitl_close_def prod.case
    by (rule ensures_andThen [OF moved], rule ensures_andThen [OF saved], rule ensures_andThen [OF event], rule ensures_ret) simp
qed

lemma verify_ensures:
  assumes B: "steady L view rest B" "\<And>s. B s \<Longrightarrow> since L view origin s"
    and saw: "\<And>s. B s \<Longrightarrow> saw origin rid run c s"
  shows "ensures B (hitl_verify L H p (run, c))
    (\<lambda>x s. B s \<and> (case x of Inl r \<Rightarrow> unsuccessful r
       | Inr (run', c') \<Rightarrow> saw origin rid run' c' s \<and> same_decision c c')) (\<lambda>_. B)"
    (is "ensures B _ ?Q _")
proof (rule ensures_frame_pure)
  show "c_run_id c = rid \<and> r_run_id run = rid" if "B s" for s
    using saw [OF that] by (simp add: saw_checkpoint_def saw_run_def)
  assume id: "c_run_id c = rid \<and> r_run_id run = rid"
  have err: "ensures B g ?Q (\<lambda>_. B)" if h: "map_option ended (hitl_verification_error H run e) = Some g" for e g
    using h unfolding hitl_verification_error_def hitl_mark_unverified_def
    by (auto split: if_splits intro: failure_ends [OF B(1)] refusal_ends)
  let ?J = "\<lambda>c' s. B s \<and> saw_checkpoint L view origin rid c' s \<and> same_decision c c'"
  have J: "steady L view rest (?J c')" for c' using B(1) by (intro steady_intros)
  have close: "ensures (?J c') (hitl_close L H p run (v, c')) (\<lambda>x. ?Q (Inr x)) (\<lambda>_. B)" for v c'
  proof (rule ensures_frame_pure)
    show "c_run_id c' = rid" if "?J c' s" for s using that by (simp add: saw_checkpoint_def)
    show "ensures (?J c') (hitl_close L H p run (v, c')) (\<lambda>x. ?Q (Inr x)) (\<lambda>_. B)" if "c_run_id c' = rid"
      by (rule ensures_conseq [OF close_ensures [OF J, where origin = origin and rid = rid]])
        (use B(2) id that in \<open>auto intro: same_decision_trans\<close>)
  qed
  have phase: "ensures B (andThen (hitl_obtain_verification L H c r) (hitl_close L H p run)) (\<lambda>x. ?Q (Inr x)) (\<lambda>_. B)" for r
    by (rule ensures_andThen [OF obtain_verification_ensures [OF B, where rid = rid]])
      (use saw id close in \<open>auto simp: split_paired_all\<close>)
  show "ensures B (hitl_verify L H p (run, c)) ?Q (\<lambda>_. B)"
  proof (cases "r_state run = WorkflowState.VERIFYING")
    case False
    then show ?thesis using saw by (auto simp: hitl_verify_def intro!: ensures_ret)
  next
    case True
    have "ensures B (ended (hitl_mark_unverified H run rs ms)) ?Q (\<lambda>_. B)" for rs ms
      unfolding hitl_mark_unverified_def by (rule failure_ends [OF B(1)])
    moreover have "ensures B (tryThen (andThen (hitl_obtain_verification L H c r) (hitl_close L H p run))
        (\<lambda>e. map_option ended (hitl_verification_error H run e)) (\<lambda>x. ret (Inr x))) ?Q (\<lambda>_. B)" for r
      by (rule ensures_tryThen [OF phase]) (auto intro: err ensures_ret)
    ultimately show ?thesis by (simp add: hitl_verify_def True split: option.split)
  qed
qed

end

text \<open>What \<open>resume\<close> guarantees when it ends, normally or not.\<close>

definition resume_result :: "Platform \<Rightarrow> ('s \<Rightarrow> Repo) \<Rightarrow> ('s \<Rightarrow> 'r) \<Rightarrow> 's LocalHitlExecutionFlow \<Rightarrow> Repo \<Rightarrow> uuid
    \<Rightarrow> string \<Rightarrow> 'r \<Rightarrow> LocalExecutionCompletion ControlResult \<Rightarrow> 's \<Rightarrow> bool" where
  "resume_result L view rest H origin rid session before r s \<longleftrightarrow>
     guarded L view rest H origin rid session before s
     \<and> (\<forall>y. r = Succeeded y \<longrightarrow> (\<exists>run c. saw_run L view origin rid run s \<and> saw_checkpoint L view origin rid c s
          \<and> backed run c y \<and> la_actor_session_id (lp_approval y) = session))"

lemma guardedI: "since L view origin s \<Longrightarrow> rest s = before \<Longrightarrow> guarded L view rest H origin rid session before s"
  by (simp add: guarded_def)

lemma resume_failed: "unsuccessful r \<Longrightarrow> guarded L view rest H origin rid session before s \<Longrightarrow> resume_result L view rest H origin rid session before r s"
  by (simp add: resume_result_def unsuccessful_def)

lemma continue_ensures:
  assumes "ensures P m (\<lambda>x s. B s \<and> (case x of Inl r \<Rightarrow> unsuccessful r | Inr y \<Rightarrow> M y s)) E"
    and "\<And>s. B s \<Longrightarrow> guarded L view rest H origin rid session before s"
    and "\<And>y. ensures (\<lambda>s. B s \<and> M y s) (k y) (resume_result L view rest H origin rid session before) E"
  shows "ensures P (hitl_continue m k) (resume_result L view rest H origin rid session before) E"
  unfolding hitl_continue_def
proof (rule ensures_andThen [OF assms(1)], rule ensures_case_sum)
  show "ensures (\<lambda>s. B s \<and> (case x of Inl r \<Rightarrow> unsuccessful r | Inr y \<Rightarrow> M y s)) (ret r)
      (resume_result L view rest H origin rid session before) E" if "x = Inl r" for x r
    using that assms(2) by (auto intro: ensures_ret resume_failed)
  show "ensures (\<lambda>s. B s \<and> (case x of Inl r \<Rightarrow> unsuccessful r | Inr y \<Rightarrow> M y s)) (k y)
      (resume_result L view rest H origin rid session before) E" if "x = Inr y" for x y
    using that assms(3) by simp
qed

lemma backed_approval: "backed run c y \<Longrightarrow> c_local_approval c = Some (lp_approval y)"
  by (simp add: backed_def)

context hitl_environment begin

lemma completed_ensures:
  assumes "\<And>s. B s \<Longrightarrow> guarded L view rest H origin rid session before s"
    and "\<And>s. B s \<Longrightarrow> saw_run L view origin rid run s" and "\<And>s. B s \<Longrightarrow> saw_checkpoint L view origin rid c s"
    and "c_local_approval c = Some a" and "la_actor_session_id a = session"
  shows "ensures B (hitl_completed run c rec) (resume_result L view rest H origin rid session before)
    (\<lambda>_. guarded L view rest H origin rid session before)"
proof -
  have "ensures B (hitl_completed run c rec) (\<lambda>_. B) (\<lambda>_. B)"
    unfolding hitl_completed_def ensures_def by (auto simp: andThen_def lift_def ret_def split: option.splits sum.splits)
  then have "ensures B (hitl_completed run c rec) (\<lambda>r s. B s \<and> (\<forall>y. r = Succeeded y \<longrightarrow> backed run c y)) (\<lambda>_. B)"
    by (rule ensures_value) (auto dest: completed_backed)
  then show ?thesis
    by (rule ensures_conseq) (use assms backed_approval [of run c] in \<open>simp_all add: resume_result_def, fastforce\<close>)
qed

text \<open>\<open>resume_result\<close> and \<open>guarded\<close> of one call.\<close>

lemma verify_then_completed:
  assumes fields: "c_local_approval c = Some a" "la_actor_session_id a = session"
  shows "ensures (\<lambda>s. guarded L view rest H origin rid session before s \<and> saw origin rid run c s)
      (hitl_continue (hitl_verify L H p (run, c)) (\<lambda>(run, c). hitl_completed run c False))
      (resume_result L view rest H origin rid session before) (\<lambda>_. guarded L view rest H origin rid session before)"
    (is "ensures ?B _ ?Q (\<lambda>_. ?G)")
proof -
  have B: "steady L view rest ?B" "\<And>s. ?B s \<Longrightarrow> since L view origin s"
    by (intro steady_intros) (simp add: guarded_def)
  have step: "ensures (\<lambda>s. ?B s \<and> (saw origin rid run2 c2 s \<and> same_decision c c2)) (hitl_completed run2 c2 False) ?Q (\<lambda>_. ?G)" for run2 c2
  proof (rule ensures_frame_pure)
    show "same_decision c c2" if "?B s \<and> (saw origin rid run2 c2 s \<and> same_decision c c2)" for s using that by blast
    assume "same_decision c c2"
    then have "c_local_approval c2 = Some a" using fields(1) by (simp add: same_decision_def)
    then show "ensures (\<lambda>s. ?B s \<and> (saw origin rid run2 c2 s \<and> same_decision c c2)) (hitl_completed run2 c2 False) ?Q (\<lambda>_. ?G)"
      by - (rule completed_ensures [OF _ _ _ _ fields(2)], blast+)
  qed
  have "ensures ?B (hitl_verify L H p (run, c)) (\<lambda>x s. ?B s \<and> (case x of Inl r \<Rightarrow> unsuccessful r
      | Inr y \<Rightarrow> case y of (run2, c2) \<Rightarrow> saw origin rid run2 c2 s \<and> same_decision c c2)) (\<lambda>_. ?G)"
    by (rule ensures_conseq [OF verify_ensures [OF B]]) simp_all
  then show ?thesis
  proof (rule continue_ensures)
    show "ensures (\<lambda>s. ?B s \<and> (case x of (run2, c2) \<Rightarrow> saw origin rid run2 c2 s \<and> same_decision c c2))
        (case x of (run, c) \<Rightarrow> hitl_completed run c False) ?Q (\<lambda>_. ?G)" for x
      using step by (simp add: split_beta)
  qed simp
qed

lemma execute_then_completed:
  assumes fields: "c_resource_evidence c = Some ev" "c_remediation_proposal c = Some p" "c_local_approval c = Some a"
      "la_actor_session_id a = session"
  shows "ensures (\<lambda>s. since L view origin s \<and> rest s = before \<and> saw origin rid run c s)
      (hitl_continue (hitl_execute L H ev p a (run, c)) (\<lambda>executed.
       hitl_continue (hitl_verify L H p executed) (\<lambda>(run, c). hitl_completed run c False)))
      (resume_result L view rest H origin rid session before) (\<lambda>_. guarded L view rest H origin rid session before)"
    (is "ensures ?B _ ?Q (\<lambda>_. ?G)")
proof (rule continue_ensures [OF execute_ensures [OF fields]])
  have "ensures (\<lambda>s. ?G s \<and> (saw origin rid run2 c2 s \<and> same_decision c c2))
      (hitl_continue (hitl_verify L H p (run2, c2)) (\<lambda>(run, c). hitl_completed run c False)) ?Q (\<lambda>_. ?G)" for run2 c2
  proof (rule ensures_frame_pure)
    show "same_decision c c2" if "?G s \<and> (saw origin rid run2 c2 s \<and> same_decision c c2)" for s using that by blast
    assume "same_decision c c2"
    then have "c_local_approval c2 = Some a" using fields(3) by (simp add: same_decision_def)
    from verify_then_completed [OF this fields(4), where origin = origin and rid = rid and before = before]
    show "ensures (\<lambda>s. ?G s \<and> (saw origin rid run2 c2 s \<and> same_decision c c2))
      (hitl_continue (hitl_verify L H p (run2, c2)) (\<lambda>(run, c). hitl_completed run c False)) ?Q (\<lambda>_. ?G)"
      by (rule ensures_conseq) blast+
  qed
  then show "ensures (\<lambda>s. ?G s \<and> (case x of (run2, c2) \<Rightarrow> saw origin rid run2 c2 s \<and> same_decision c c2))
      (hitl_continue (hitl_verify L H p x) (\<lambda>(run, c). hitl_completed run c False)) ?Q (\<lambda>_. ?G)" for x
    by (cases x) simp
qed simp

lemma active_ensures:
  assumes fields: "c_resource_evidence c = Some ev" "c_remediation_proposal c = Some p" "c_local_approval c = Some a"
      "la_actor_session_id a = session"
  shows "ensures (\<lambda>s. since L view origin s \<and> rest s = before \<and> saw origin rid run c s) (hitl_resume_active L H ev p a (run, c))
    (resume_result L view rest H origin rid session before) (\<lambda>_. guarded L view rest H origin rid session before)"
    (is "ensures ?J _ ?Q (\<lambda>_. ?G)")
proof -
  have J: "steady L view rest ?J" "\<And>s. ?J s \<Longrightarrow> since L view origin s"
    by (intro steady_intros) simp
  have quiet: "ensures ?J m (\<lambda>_. ?J) (\<lambda>_. ?G)" if "bystander L view rest m" for m :: "('s, 'z) prog"
    by (rule ensures_conseq [OF ensures_bystander [OF that J(1)]]) (blast intro: guardedI)+
  have expired: "ensures ?J (hitl_mark_recovery H run rs ms) ?Q (\<lambda>_. ?G)" for rs ms
    unfolding hitl_mark_recovery_def
    by (rule ensures_conseq [OF persist_failure_ensures [OF J(1)]]) (blast intro: guardedI resume_failed)+
  have "ensures ?J (hitl_own L H p a (run, c)) (\<lambda>x s. ?J s \<and> (case x of Inl r \<Rightarrow> unsuccessful r
      | Inr y \<Rightarrow> case y of (run2, c2) \<Rightarrow> saw origin rid run2 c2 s \<and> same_decision c c2)) (\<lambda>_. ?G)"
    by (rule ensures_conseq [OF own_ensures [OF J, where rid = rid]]) (blast intro: guardedI)+
  then have owned: "ensures ?J (hitl_continue (hitl_own L H p a (run, c)) (\<lambda>owned.
       hitl_continue (hitl_execute L H ev p a owned) (\<lambda>executed.
       hitl_continue (hitl_verify L H p executed) (\<lambda>(run, c). hitl_completed run c False)))) ?Q (\<lambda>_. ?G)"
  proof (rule continue_ensures)
    have "ensures (\<lambda>s. ?J s \<and> (saw origin rid run2 c2 s \<and> same_decision c c2))
      (hitl_continue (hitl_execute L H ev p a (run2, c2)) (\<lambda>executed.
       hitl_continue (hitl_verify L H p executed) (\<lambda>(run, c). hitl_completed run c False))) ?Q (\<lambda>_. ?G)" for run2 c2
    proof (rule ensures_frame_pure)
      show "same_decision c c2" if "?J s \<and> (saw origin rid run2 c2 s \<and> same_decision c c2)" for s using that by blast
      assume "same_decision c c2"
      with fields have "c_resource_evidence c2 = Some ev" "c_remediation_proposal c2 = Some p" "c_local_approval c2 = Some a"
        by (simp_all add: same_decision_def)
      from execute_then_completed [OF this fields(4), where origin = origin and rid = rid and before = before]
      show "ensures (\<lambda>s. ?J s \<and> (saw origin rid run2 c2 s \<and> same_decision c c2))
        (hitl_continue (hitl_execute L H ev p a (run2, c2)) (\<lambda>executed.
         hitl_continue (hitl_verify L H p executed) (\<lambda>(run, c). hitl_completed run c False))) ?Q (\<lambda>_. ?G)"
        by (rule ensures_conseq) blast+
    qed
    then show "ensures (\<lambda>s. ?J s \<and> (case x of (run2, c2) \<Rightarrow> saw origin rid run2 c2 s \<and> same_decision c c2))
      (hitl_continue (hitl_execute L H ev p a x) (\<lambda>executed.
       hitl_continue (hitl_verify L H p executed) (\<lambda>(run, c). hitl_completed run c False))) ?Q (\<lambda>_. ?G)" for x
      by (cases x) simp
  qed (blast intro: guardedI)
  show ?thesis unfolding hitl_resume_active_def prod.case
    by (intro ensures_andThen [OF quiet [OF clock]] ensures_andThen [OF quiet [OF bystander_lift]] ensures_if expired owned)
qed

end

lemma loaded_ensures:
  assumes "ensures P m (\<lambda>x s. B s \<and> (case x of Inl f \<Rightarrow> True | Inr y \<Rightarrow> M y s)) E"
    and "\<And>s. B s \<Longrightarrow> guarded L view rest H origin rid session before s"
    and "\<And>y. ensures (\<lambda>s. B s \<and> M y s) (k y) (resume_result L view rest H origin rid session before) E"
  shows "ensures P (hitl_loaded m k) (resume_result L view rest H origin rid session before) E"
  unfolding hitl_loaded_def
proof (rule ensures_andThen [OF assms(1)], rule ensures_case_sum)
  show "ensures (\<lambda>s. B s \<and> (case x of Inl f \<Rightarrow> True | Inr y \<Rightarrow> M y s)) (ret (Failed f))
      (resume_result L view rest H origin rid session before) E" if "x = Inl f" for x f
    using that by (intro ensures_ret resume_failed [OF _ assms(2)]) auto
  show "ensures (\<lambda>s. B s \<and> (case x of Inl f \<Rightarrow> True | Inr y \<Rightarrow> M y s)) (k y)
      (resume_result L view rest H origin rid session before) E" if "x = Inr y" for x y
    using that assms(3) by simp
qed

lemma completion_ensures:
  "(\<And>s. B s \<Longrightarrow> valid_local_completion y \<Longrightarrow> Q (Succeeded y) s) \<Longrightarrow> (\<And>s. B s \<Longrightarrow> E s) \<Longrightarrow>
   ensures B (andThen (lift (validated valid_local_completion y)) (\<lambda>y. ret (Succeeded y))) Q (\<lambda>_. E)"
  by (simp add: ensures_def andThen_def lift_def ret_def validated_def)

lemma denied_backed:
  assumes "same_decision c c'" "c_remediation_proposal c = Some p" "c_local_approval c = Some a"
    and "la_decision a = ApprovalDecision.DENIED" "r_run_id run' = i"
    and "valid_local_completion \<lparr>lp_run_id = i, lp_proposal_id = rp_proposal_id p, lp_decision = la_decision a,
          lp_final_state = r_state run', lp_approval = a, lp_receipt = None, lp_verification = None, lp_reconciled = b\<rparr>"
  shows "backed run' c' \<lparr>lp_run_id = i, lp_proposal_id = rp_proposal_id p, lp_decision = la_decision a,
          lp_final_state = r_state run', lp_approval = a, lp_receipt = None, lp_verification = None, lp_reconciled = b\<rparr>"
  using assms by (simp add: backed_def same_decision_def)

context hitl_environment begin

lemma denied_ensures:
  assumes fields: "c_remediation_proposal c = Some p" "c_local_approval c = Some a" "la_actor_session_id a = session"
    and denied: "la_decision a = ApprovalDecision.DENIED"
  shows "ensures (\<lambda>s. since L view origin s \<and> rest s = before \<and> saw origin rid run c s) (hitl_resume_denied L H run c p a)
    (resume_result L view rest H origin rid session before) (\<lambda>_. guarded L view rest H origin rid session before)"
    (is "ensures ?J _ ?Q (\<lambda>_. ?G)")
proof -
  have J: "steady L view rest ?J" "\<And>s. ?J s \<Longrightarrow> since L view origin s" "\<And>s. ?J s \<Longrightarrow> saw origin rid run c s"
    by (intro steady_intros) simp_all
  have "ensures ?J (hitl_apply_decision_state L H run c a) (\<lambda>x s. ?J s \<and> (case x of Inl _ \<Rightarrow> True
       | Inr (run', c') \<Rightarrow> saw origin rid run' c' s \<and> same_decision c c' \<and> same_execution c c'
           \<and> r_state run' = decision_state (la_decision a))) (\<lambda>_. ?G)"
    by (rule ensures_conseq [OF apply_ensures [OF J]]) (use denied in \<open>auto simp: guarded_def downstream_def split: sum.splits\<close>)
  then show ?thesis unfolding hitl_resume_denied_def
  proof (rule loaded_ensures)
    show "ensures (\<lambda>s. ?J s \<and> (case y of (run', c') \<Rightarrow> saw origin rid run' c' s \<and> same_decision c c' \<and> same_execution c c'
           \<and> r_state run' = decision_state (la_decision a)))
       (case y of (final_run, _) \<Rightarrow> andThen (lift (validated valid_local_completion
         \<lparr>lp_run_id = r_run_id run, lp_proposal_id = rp_proposal_id p, lp_decision = la_decision a,
          lp_final_state = r_state final_run, lp_approval = a, lp_receipt = None, lp_verification = None,
          lp_reconciled = (r_state run = WorkflowState.DENIED_BY_HUMAN)\<rparr>)) (\<lambda>completion. ret (Succeeded completion)))
       ?Q (\<lambda>_. ?G)" for y
    proof (cases y)
      case (Pair run' c')
      let ?y = "\<lparr>lp_run_id = r_run_id run, lp_proposal_id = rp_proposal_id p, lp_decision = la_decision a,
          lp_final_state = r_state run', lp_approval = a, lp_receipt = None, lp_verification = None,
          lp_reconciled = (r_state run = WorkflowState.DENIED_BY_HUMAN)\<rparr>"
      have "?Q (Succeeded ?y) s" if s: "?J s" "saw origin rid run' c' s" "same_decision c c'" and v: "valid_local_completion ?y" for s
      proof -
        have "r_run_id run' = r_run_id run" using s(1,2) by (simp add: saw_run_def)
        from denied_backed [OF s(3) fields(1,2) denied this v] have "backed run' c' ?y" .
        moreover have "?G s" using s(1) by (simp add: guarded_def)
        ultimately show ?thesis unfolding resume_result_def using s(2) fields(3) by auto
      qed
      then show ?thesis unfolding Pair prod.case by (intro completion_ensures) (blast, blast intro: guardedI)
    qed
  qed (simp add: guarded_def)
qed

lemma success_ensures:
  assumes fields: "c_local_approval c = Some a" "la_actor_session_id a = session"
  shows "ensures (\<lambda>s. since L view origin s \<and> rest s = before \<and> saw origin rid run c s) (hitl_resume_success L H run c)
    (resume_result L view rest H origin rid session before) (\<lambda>_. guarded L view rest H origin rid session before)"
    (is "ensures ?J _ ?Q (\<lambda>_. ?G)")
proof (rule ensures_frame_pure)
  show "c_run_id c = rid" if "?J s" for s using that by (simp add: saw_checkpoint_def)
  assume id: "c_run_id c = rid"
  have J: "steady L view rest ?J" "\<And>s. ?J s \<Longrightarrow> since L view origin s"
    by (intro steady_intros) simp
  have G: "?G s" if "?J s" for s using that by (simp add: guarded_def)
  have direct: "ensures ?J (hitl_completed run c True) ?Q (\<lambda>_. ?G)"
    by (rule completed_ensures [OF _ _ _ fields]) (simp_all add: guarded_def)
  have saved: "ensures (\<lambda>s. ?J s \<and> saw_checkpoint L view origin rid c' s \<and> saved_from id c WorkflowState.SUCCESS_WITH_EVIDENCE c')
      (hitl_completed run c' True) ?Q (\<lambda>_. ?G)" for c'
  proof (rule ensures_frame_pure)
    show "c_local_approval c' = Some a" if "?J s \<and> saw_checkpoint L view origin rid c' s \<and> saved_from id c WorkflowState.SUCCESS_WITH_EVIDENCE c'" for s
      using that fields(1) by (auto simp: saved_from_def)
    assume "c_local_approval c' = Some a"
    then show "ensures (\<lambda>s. ?J s \<and> saw_checkpoint L view origin rid c' s \<and> saved_from id c WorkflowState.SUCCESS_WITH_EVIDENCE c')
      (hitl_completed run c' True) ?Q (\<lambda>_. ?G)"
      by - (rule completed_ensures [OF _ _ _ _ fields(2)], (blast intro: guardedI)+)
  qed
  have refused: "ensures ?J (ret (hitl_storage_failed m)) ?Q (\<lambda>_. ?G)" for m
    by (intro ensures_ret resume_failed G) auto
  show "ensures ?J (hitl_resume_success L H run c) ?Q (\<lambda>_. ?G)"
    unfolding hitl_resume_success_def
    by (intro ensures_if direct, rule ensures_tryThen [OF save_ensures [OF J, of id c rid] saved])
      (use refused id G in \<open>auto split: if_splits\<close>)
qed

lemma awaiting_ensures:
  assumes fields: "c_resource_evidence c = Some ev" "c_remediation_proposal c = Some p" "c_local_approval c = Some a"
      "la_actor_session_id a = session" and state: "r_state run = WorkflowState.AWAITING_APPROVAL"
  shows "ensures (\<lambda>s. since L view origin s \<and> rest s = before \<and> saw origin rid run c s)
    (hitl_loaded (hitl_apply_decision_state L H run c a) (hitl_resume_active L H ev p a))
    (resume_result L view rest H origin rid session before) (\<lambda>_. guarded L view rest H origin rid session before)"
    (is "ensures ?J _ ?Q (\<lambda>_. ?G)")
proof -
  have J: "steady L view rest ?J" "\<And>s. ?J s \<Longrightarrow> since L view origin s" "\<And>s. ?J s \<Longrightarrow> saw origin rid run c s"
    by (intro steady_intros) simp_all
  have "ensures ?J (hitl_apply_decision_state L H run c a) (\<lambda>x s. ?J s \<and> (case x of Inl _ \<Rightarrow> True
       | Inr (run', c') \<Rightarrow> saw origin rid run' c' s \<and> same_decision c c' \<and> same_execution c c'
           \<and> r_state run' = decision_state (la_decision a))) (\<lambda>_. ?G)"
    by (rule ensures_conseq [OF apply_ensures [OF J]])
      (use state in \<open>auto simp: guarded_def downstream_def APPROVED_DECISION_DOWNSTREAM_STATES_def split: sum.splits\<close>)
  then show ?thesis
  proof (rule loaded_ensures)
    fix y :: "Run \<times> Checkpoint"
    obtain run' c' where y: "y = (run', c')" by (cases y)
    let ?P = "\<lambda>s. ?J s \<and> saw origin rid run' c' s \<and> same_decision c c'"
    have "ensures ?P (hitl_resume_active L H ev p a (run', c')) ?Q (\<lambda>_. ?G)"
    proof (rule ensures_frame_pure)
      show "same_decision c c'" if "?P s" for s using that by blast
      assume "same_decision c c'"
      with fields have "c_resource_evidence c' = Some ev" "c_remediation_proposal c' = Some p" "c_local_approval c' = Some a"
        by (simp_all add: same_decision_def)
      from active_ensures [OF this fields(4), where origin = origin and rid = rid and before = before]
      show "ensures ?P (hitl_resume_active L H ev p a (run', c')) ?Q (\<lambda>_. ?G)" by (rule ensures_conseq) blast+
    qed
    then show "ensures (\<lambda>s. ?J s \<and> (case y of (run', c') \<Rightarrow> saw origin rid run' c' s \<and> same_decision c c' \<and> same_execution c c'
           \<and> r_state run' = decision_state (la_decision a))) (hitl_resume_active L H ev p a y) ?Q (\<lambda>_. ?G)"
      unfolding y by (rule ensures_conseq) simp_all
  qed (simp add: guarded_def)
qed

lemma resume_ensures:
  "ensures (\<lambda>s. since L view origin s \<and> rest s = before) (hitl_resume L H rid session)
    (resume_result L view rest H origin rid session before) (\<lambda>_. guarded L view rest H origin rid session before)"
    (is "ensures ?I _ ?Q (\<lambda>_. ?G)")
proof -
  have I: "steady L view rest ?I" "\<And>s. ?I s \<Longrightarrow> since L view origin s"
    by (intro steady_intros) simp
  let ?M = "\<lambda>run c ev p s. saw origin rid run c s \<and> c_resource_evidence c = Some ev
           \<and> c_remediation_proposal c = Some p \<and> local_context_bound run ev p"
  have "ensures ?I (hitl_load H rid) (\<lambda>x s. ?I s \<and> (case x of Inl _ \<Rightarrow> True
       | Inr (run, c, ev, p) \<Rightarrow> ?M run c ev p s)) (\<lambda>_. ?G)"
    by (rule ensures_conseq [OF load_ensures [OF I, where rid = rid]]) (simp_all add: guarded_def)
  then show ?thesis unfolding hitl_resume_def
  proof (rule loaded_ensures)
    fix y :: LocalContext
    obtain run c ev p where y: "y = (run, c, ev, p)" by (cases y)
    let ?J = "\<lambda>s. since L view origin s \<and> rest s = before \<and> saw origin rid run c s"
    let ?go = "(\<lambda>(run, checkpoint, evidence, proposal). case c_local_approval checkpoint of
         None \<Rightarrow> ret (hitl_failed FailureKind.POLICY_DENIAL ''LOCAL_APPROVAL_REQUIRED''
                   ''Protected local execution requires a durable human decision'')
       | Some approval \<Rightarrow>
           if la_actor_session_id approval \<noteq> session
           then andThen (hitl_audit_policy_denial H run proposal ''LOCAL_OPERATOR_SESSION_MISMATCH'') (\<lambda>_.
                ret (hitl_failed FailureKind.POLICY_DENIAL ''LOCAL_OPERATOR_SESSION_MISMATCH''
                  ''Only the authenticated deciding session may resume execution''))
           else if la_decision approval = ApprovalDecision.DENIED
           then hitl_resume_denied L H run checkpoint proposal approval
           else if r_state run = WorkflowState.SUCCESS_WITH_EVIDENCE
           then hitl_resume_success L H run checkpoint
           else if r_state run = WorkflowState.AWAITING_APPROVAL
           then hitl_loaded (hitl_apply_decision_state L H run checkpoint approval)
                  (hitl_resume_active L H evidence proposal approval)
           else hitl_resume_active L H evidence proposal approval (run, checkpoint))"
    have G: "?G s" if "?J s" for s using that by (simp add: guarded_def)
    have "steady L view rest ?J" by (intro steady_intros)
    from ensures_bystander [OF hitl_audit_bystander this]
    have "ensures ?J (hitl_audit_policy_denial H run p pc) (\<lambda>_. ?J) (\<lambda>_. ?G)" for pc
      by (rule ensures_conseq) (simp_all add: guarded_def)
    then have audited: "ensures ?J (andThen (hitl_audit_policy_denial H run p pc) (\<lambda>_. ret (hitl_failed k r m))) ?Q (\<lambda>_. ?G)" for pc k r m
      by (rule ensures_andThen) (intro ensures_ret resume_failed G unsuccessful_simps)
    have body: "ensures ?J (?go (run, c, ev, p)) ?Q (\<lambda>_. ?G)"
      if "c_resource_evidence c = Some ev \<and> c_remediation_proposal c = Some p"
      unfolding prod.case
      by (intro ensures_case_option ensures_if denied_ensures active_ensures awaiting_ensures success_ensures audited
          ensures_ret resume_failed G) (use that in simp_all)
    show "ensures (\<lambda>s. ?I s \<and> (case y of (run, c, ev, p) \<Rightarrow> ?M run c ev p s)) (?go y) ?Q (\<lambda>_. ?G)"
      unfolding y
    proof (rule ensures_frame_pure)
      show "c_resource_evidence c = Some ev \<and> c_remediation_proposal c = Some p"
        if "?I s \<and> (case (run, c, ev, p) of (run, c, ev, p) \<Rightarrow> ?M run c ev p s)" for s using that by simp
      assume "c_resource_evidence c = Some ev \<and> c_remediation_proposal c = Some p"
      from body [OF this] show "ensures (\<lambda>s. ?I s \<and> (case (run, c, ev, p) of (run, c, ev, p) \<Rightarrow> ?M run c ev p s))
          (?go (run, c, ev, p)) ?Q (\<lambda>_. ?G)"
        by (rule ensures_conseq) simp_all
    qed
  qed (simp add: guarded_def)
qed

end

subsection \<open>A recorded decision\<close>

text \<open>What a successful \<open>decide\<close> has seen in the store.\<close>

definition decided :: "Platform \<Rightarrow> LocalDecisionRequest \<Rightarrow> string \<Rightarrow> Run \<Rightarrow> Checkpoint \<Rightarrow> LocalApprovalResolution \<Rightarrow> bool" where
  "decided L d session run c r \<longleftrightarrow> (\<exists>q a. c_local_approval_request c = Some q \<and> c_local_approval c = Some a
     \<and> decision_matches_request L d session q \<and> la_decision a = ld_decision d
     \<and> ls_decision r = ld_decision d \<and> ls_decision_hash r = la_decision_hash a
     \<and> (r_state run = decision_state (ld_decision d)
        \<or> ld_decision d = ApprovalDecision.APPROVED \<and> r_state run \<in> APPROVED_DECISION_DOWNSTREAM_STATES))"

definition decide_result :: "Platform \<Rightarrow> ('s \<Rightarrow> Repo) \<Rightarrow> Repo \<Rightarrow> LocalDecisionRequest \<Rightarrow> string
    \<Rightarrow> LocalApprovalResolution ControlResult \<Rightarrow> 's \<Rightarrow> bool" where
  "decide_result L view origin d session x s \<longleftrightarrow> since L view origin s \<and> (\<forall>r. x = Succeeded r \<longrightarrow>
     (\<exists>run c. saw_run L view origin (ld_run_id d) run s \<and> saw_checkpoint L view origin (ld_run_id d) c s
        \<and> decided L d session run c r))"

lemma local_resolution_of:
  "local_resolution run (Some a) b = Inr r \<Longrightarrow> ls_decision r = la_decision a \<and> ls_decision_hash r = la_decision_hash a"
  by (auto simp: local_resolution_def validated_def split: if_splits)

lemma decide_failed: "unsuccessful x \<Longrightarrow> since L view origin s \<Longrightarrow> decide_result L view origin d session x s"
  by (simp add: decide_result_def unsuccessful_def)

lemma loaded_decide:
  assumes "ensures P m (\<lambda>x s. B s \<and> (case x of Inl f \<Rightarrow> True | Inr y \<Rightarrow> M y s)) E"
    and "\<And>s. B s \<Longrightarrow> since L view origin s"
    and "\<And>y. ensures (\<lambda>s. B s \<and> M y s) (k y) (decide_result L view origin d session) E"
  shows "ensures P (hitl_loaded m k) (decide_result L view origin d session) E"
  unfolding hitl_loaded_def
proof (rule ensures_andThen [OF assms(1)], rule ensures_case_sum)
  show "ensures (\<lambda>s. B s \<and> (case x of Inl f \<Rightarrow> True | Inr y \<Rightarrow> M y s)) (ret (Failed f)) (decide_result L view origin d session) E"
    if "x = Inl f" for x f
    using assms(2) by (intro ensures_ret decide_failed) auto
  show "ensures (\<lambda>s. B s \<and> (case x of Inl f \<Rightarrow> True | Inr y \<Rightarrow> M y s)) (k y) (decide_result L view origin d session) E"
    if "x = Inr y" for x y
    using that assms(3) by simp
qed

context hitl_environment begin

lemma settle_ensures:
  assumes c: "c_local_approval c = Some a" "c_local_approval_request c = Some q" "decision_matches_request L d session q"
      "la_decision a = ld_decision d"
    and quiet: "\<And>y. bystander L view rest (k y)"
    and resolved: "\<And>run' c' s (r :: LocalApprovalResolution) s'. c_local_approval c' = Some a \<Longrightarrow> k (run', c') s = (Inr (Succeeded r), s') \<Longrightarrow>
      ls_decision r = la_decision a \<and> ls_decision_hash r = la_decision_hash a"
  shows "ensures (\<lambda>s. since L view origin s \<and> saw origin (ld_run_id d) run c s)
    (hitl_loaded (hitl_apply_decision_state L H run c a) k) (decide_result L view origin d session) (\<lambda>_. since L view origin)"
    (is "ensures ?J _ ?Q (\<lambda>_. ?E)")
proof -
  have J: "steady L view rest ?J" "\<And>s. ?J s \<Longrightarrow> since L view origin s" "\<And>s. ?J s \<Longrightarrow> saw origin (ld_run_id d) run c s"
    by (intro steady_intros) simp_all
  have "ensures ?J (hitl_apply_decision_state L H run c a)
      (\<lambda>x s. (?J s) \<and> (case x of Inl _ \<Rightarrow> True
       | Inr (run', c') \<Rightarrow> saw origin (ld_run_id d) run' c' s \<and> same_decision c c' \<and> same_execution c c'
           \<and> (\<not> downstream run a \<longrightarrow> r_state run' = decision_state (la_decision a)))) (\<lambda>_. ?E)"
    by (rule ensures_conseq [OF apply_ensures [OF J]]) simp_all
  then show ?thesis
  proof (rule loaded_decide)
    fix y :: "Run \<times> Checkpoint"
    obtain run' c' where y: "y = (run', c')" by (cases y)
    let ?P = "\<lambda>s. ?J s \<and> (saw origin (ld_run_id d) run' c' s \<and> same_decision c c' \<and> same_execution c c'
           \<and> (\<not> downstream run a \<longrightarrow> r_state run' = decision_state (la_decision a)))"
    have "ensures ?P (k (run', c')) ?Q (\<lambda>_. ?E)"
    proof (rule ensures_frame_pure)
      show "same_decision c c' \<and> (\<not> downstream run a \<longrightarrow> r_state run' = decision_state (la_decision a))" if "?P s" for s
        using that by blast
      assume same: "same_decision c c' \<and> (\<not> downstream run a \<longrightarrow> r_state run' = decision_state (la_decision a))"
      then have a: "c_local_approval c' = Some a" "c_local_approval_request c' = Some q"
        using c by (simp_all add: same_decision_def)
      have P: "steady L view rest ?P" by (intro steady_intros)
      have "ensures ?P (k (run', c')) (\<lambda>x s. ?P s \<and> (\<forall>r. x = Succeeded r \<longrightarrow>
          ls_decision r = la_decision a \<and> ls_decision_hash r = la_decision_hash a)) (\<lambda>_. ?P)"
        by (rule ensures_value [OF ensures_bystander [OF quiet P]]) (use resolved [OF a(1)] in blast)
      then show "ensures ?P (k (run', c')) ?Q (\<lambda>_. ?E)"
      proof (rule ensures_conseq)
        fix x :: "LocalApprovalResolution ControlResult" and s assume x: "?P s \<and> (\<forall>r. x = Succeeded r \<longrightarrow>
          ls_decision r = la_decision a \<and> ls_decision_hash r = la_decision_hash a)"
        have "decided L d session run' c' r \<or> decided L d session run c r" if "x = Succeeded r" for r
          using x that same a c by (auto simp: decided_def downstream_def)
        with x show "?Q x s" unfolding decide_result_def by blast
      qed simp_all
    qed
    then show "ensures (\<lambda>s. ?J s \<and> (case y of (run', c') \<Rightarrow> saw origin (ld_run_id d) run' c' s \<and> same_decision c c'
       \<and> same_execution c c' \<and> (\<not> downstream run a \<longrightarrow> r_state run' = decision_state (la_decision a)))) (k y) ?Q (\<lambda>_. ?E)"
      by (simp add: y)
  qed simp
qed

lemma record_ensures:
  assumes c: "c_local_approval_request c = Some q" "decision_matches_request L d session q" "la_decision a = ld_decision d"
  shows "ensures (\<lambda>s. since L view origin s \<and> saw origin (ld_run_id d) run c s) (hitl_record_decision L H run c p a session)
    (decide_result L view origin d session) (\<lambda>_. since L view origin)"
    (is "ensures ?J _ ?Q (\<lambda>_. ?E)")
proof (rule ensures_frame_pure)
  show "c_run_id c = ld_run_id d" if "?J s" for s using that by (simp add: saw_checkpoint_def)
  assume id: "c_run_id c = ld_run_id d"
  have J: "steady L view rest ?J" "\<And>s. ?J s \<Longrightarrow> since L view origin s" by (intro steady_intros) simp
  let ?upd = "\<lambda>c :: Checkpoint. c\<lparr>c_local_approval := Some a\<rparr>"
  let ?S = "\<lambda>c' s. ?J s \<and> saw_checkpoint L view origin (ld_run_id d) c' s \<and> saved_from ?upd c WorkflowState.AWAITING_APPROVAL c'"
  let ?k = "\<lambda>(final_run, final_checkpoint). tryThen
      (hitl_append_event H final_run AuditEventType.APPROVAL_RECORDED (la_decision_hash a)
         [(''proposal_id'', rp_proposal_id p), (''request_id'', la_request_id a),
          (''decision'', ApprovalDecision_value (la_decision a)), (''actor_session_id'', session)])
      (\<lambda>e. if e \<in> storage_errors
           then Some (ret (hitl_storage_failed ''Local decision audit could not be durably recorded'')) else None)
      (\<lambda>_. andThen (lift (local_resolution final_run (c_local_approval final_checkpoint) False)) (\<lambda>r. ret (Succeeded r)))"
  have settled: "ensures (?S c') (hitl_loaded (hitl_apply_decision_state L H run c' a) ?k) ?Q (\<lambda>_. ?E)" for c'
  proof (rule ensures_frame_pure)
    show "saved_from ?upd c WorkflowState.AWAITING_APPROVAL c'" if "?S c' s" for s using that by blast
    assume "saved_from ?upd c WorkflowState.AWAITING_APPROVAL c'"
    then have c': "c_local_approval c' = Some a" "c_local_approval_request c' = Some q"
      using c(1) by (auto simp: saved_from_def)
    have quiet: "bystander L view rest (?k y)" for y
      by (cases y, simp only: prod.case, intro bystander_intros) (auto split: if_splits intro: bystander_intros)
    have "ls_decision r = la_decision a \<and> ls_decision_hash r = la_decision_hash a"
      if "c_local_approval c2 = Some a" "?k (run2, c2) s = (Inr (Succeeded r), s')" for run2 c2 s r s'
      using that local_resolution_of
      by (auto elim!: tryThen_eqE andThen_eqE lift_eqE ret_eqE simp: hitl_storage_failed_def split: if_splits)
    from settle_ensures [OF c' c(2,3), where origin = origin and run = run and k = ?k, OF quiet this]
    show "ensures (?S c') (hitl_loaded (hitl_apply_decision_state L H run c' a) ?k) ?Q (\<lambda>_. ?E)"
      by (rule ensures_conseq) blast+
  qed
  have refused: "ensures ?J (ret (hitl_storage_failed m)) ?Q (\<lambda>_. ?E)" for m
    by (intro ensures_ret decide_failed) auto
  show "ensures ?J (hitl_record_decision L H run c p a session) ?Q (\<lambda>_. ?E)"
    unfolding hitl_record_decision_def
    by (rule ensures_tryThen [OF save_ensures [OF J, of ?upd c "ld_run_id d"] settled])
      (use refused id in \<open>auto split: if_splits\<close>)
qed

lemma replay_ensures:
  assumes c: "c_local_approval c = Some a" "c_local_approval_request c = Some q" "decision_matches_request L d session q"
  shows "ensures (\<lambda>s. since L view origin s \<and> saw origin (ld_run_id d) run c s) (hitl_replay_decision L H d run c a)
    (decide_result L view origin d session) (\<lambda>_. since L view origin)"
    (is "ensures ?J _ ?Q (\<lambda>_. ?E)")
proof -
  let ?k = "\<lambda>(final_run, _). andThen (lift (local_resolution final_run (Some a) True)) (\<lambda>r. ret (Succeeded r))"
  have quiet: "bystander L view rest (?k y)" for y :: "Run \<times> Checkpoint"
    by (cases y, simp only: prod.case, intro bystander_intros)
  have "ls_decision r = la_decision a \<and> ls_decision_hash r = la_decision_hash a"
    if "c_local_approval c2 = Some a" "?k (run2, c2) s = (Inr (Succeeded r), s')" for run2 c2 s r s'
    using that local_resolution_of by (auto elim!: andThen_eqE lift_eqE ret_eqE)
  note settle = settle_ensures [OF c, where origin = origin and run = run and k = ?k, OF _ quiet this]
  show ?thesis unfolding hitl_replay_decision_def
  proof (rule ensures_if)
    show "ensures ?J (ret (hitl_failed k r m)) ?Q (\<lambda>_. ?E)" for k r m
      by (intro ensures_ret decide_failed) auto
  next
    assume "\<not> (la_request_id a \<noteq> ld_request_id d \<or> la_request_hash a \<noteq> ld_request_hash d
         \<or> la_decision a \<noteq> ld_decision d \<or> la_decision_nonce_hash a \<noteq> sha256_hex L (ld_decision_nonce d))"
    then show "ensures ?J (hitl_loaded (hitl_apply_decision_state L H run c a) ?k) ?Q (\<lambda>_. ?E)"
      by (intro settle) simp
  qed
qed

lemma decide_ensures:
  "ensures (since L view origin) (hitl_decide L H d session) (decide_result L view origin d session) (\<lambda>_. since L view origin)"
    (is "ensures ?I _ ?Q (\<lambda>_. ?E)")
  unfolding hitl_decide_def
proof (rule loaded_decide)
  show "ensures ?I (hitl_load H (ld_run_id d)) (\<lambda>x s. ?I s \<and> (case x of Inl _ \<Rightarrow> True
       | Inr (run, c, ev, p) \<Rightarrow> saw origin (ld_run_id d) run c s \<and> c_resource_evidence c = Some ev
           \<and> c_remediation_proposal c = Some p \<and> local_context_bound run ev p)) (\<lambda>_. ?I)"
    by (rule load_ensures) (auto intro: steady_intros)
next
  fix y :: LocalContext
  obtain run c ev p where y: "y = (run, c, ev, p)" by (cases y)
  let ?J = "\<lambda>s. since L view origin s \<and> saw origin (ld_run_id d) run c s"
  have J: "steady L view rest ?J" by (intro steady_intros)
  have quiet: "ensures ?J m (\<lambda>_. ?J) (\<lambda>_. ?E)" if "bystander L view rest m" for m :: "('s, 'z) prog"
    by (rule ensures_conseq [OF ensures_bystander [OF that J]]) simp_all
  have refused: "ensures ?J (ret (hitl_failed k r m)) ?Q (\<lambda>_. ?E)" for k r m
    by (intro ensures_ret decide_failed) auto
  have made: "la_decision a = ld_decision d" if "LocalApprovalDecisionRecord_create L q (ld_decision d) now = Inr a" for q now a
    using that by (auto simp: LocalApprovalDecisionRecord_create_def validated_def Let_def split: sum.splits if_splits)
  have recorded: "ensures ?J (andThen (lift (LocalApprovalDecisionRecord_create L q (ld_decision d) now)) (\<lambda>a.
      hitl_record_decision L H run c p a session)) ?Q (\<lambda>_. ?E)"
    if "c_local_approval_request c = Some q" "decision_matches_request L d session q" for q now
  proof (rule ensures_andThen)
    have "ensures ?J (lift (LocalApprovalDecisionRecord_create L q (ld_decision d) now))
        (\<lambda>a s. ?J s \<and> la_decision a = ld_decision d) (\<lambda>_. ?J)"
      by (rule ensures_pure) (rule made)
    then show "ensures ?J (lift (LocalApprovalDecisionRecord_create L q (ld_decision d) now))
        (\<lambda>a s. ?J s \<and> la_decision a = ld_decision d) (\<lambda>_. ?E)"
      by (rule ensures_conseq) simp_all
    show "ensures (\<lambda>s. ?J s \<and> la_decision a = ld_decision d) (hitl_record_decision L H run c p a session) ?Q (\<lambda>_. ?E)" for a
      by (rule ensures_frame_pure [of _ "la_decision a = ld_decision d"])
        (use record_ensures [OF that, of a origin run p] in \<open>auto intro: ensures_conseq\<close>)
  qed
  show "ensures (\<lambda>s. ?I s \<and> (case y of (run, c, ev, p) \<Rightarrow> saw origin (ld_run_id d) run c s \<and> c_resource_evidence c = Some ev
           \<and> c_remediation_proposal c = Some p \<and> local_context_bound run ev p)) (case y of (run, checkpoint, _, proposal) \<Rightarrow>
       case c_local_approval_request checkpoint of
         None \<Rightarrow> ret (hitl_failed FailureKind.RECOVERY_REQUIREMENT ''LOCAL_APPROVAL_REQUEST_MISSING''
                   ''No durable local approval challenge exists'')
       | Some request \<Rightarrow>
           if \<not> decision_matches_request L d session request
           then andThen (hitl_audit_policy_denial H run proposal ''LOCAL_APPROVAL_BINDING_MISMATCH'') (\<lambda>_.
                ret (hitl_failed FailureKind.POLICY_DENIAL ''LOCAL_APPROVAL_BINDING_MISMATCH''
                  ''Local decision does not match the durable proposal challenge''))
           else (case c_local_approval checkpoint of
               Some existing \<Rightarrow> hitl_replay_decision L H d run checkpoint existing
             | None \<Rightarrow>
                 andThen (lh_clock H) (\<lambda>now.
                 andThen (lift (hitl_now now)) (\<lambda>instant.
                 if lq_expires_at request < instant \<or> rp_expires_at proposal < instant
                 then andThen (hitl_audit_policy_denial H run proposal ''LOCAL_APPROVAL_EXPIRED'') (\<lambda>_.
                      ret (hitl_failed FailureKind.POLICY_DENIAL ''LOCAL_APPROVAL_EXPIRED''
                        ''Local approval challenge or proposal has expired''))
                 else andThen (lift (LocalApprovalDecisionRecord_create L request (ld_decision d) now)) (\<lambda>approval.
                      hitl_record_decision L H run checkpoint proposal approval session))))) ?Q (\<lambda>_. ?E)"
    unfolding y prod.case
    by (rule ensures_conseq [where P' = ?J and Q' = ?Q and E' = "\<lambda>_. ?E"], intro ensures_case_option ensures_if recorded replay_ensures refused
          ensures_andThen [OF quiet [OF clock]] ensures_andThen [OF quiet [OF bystander_lift]]
          ensures_andThen [OF quiet [OF hitl_audit_bystander]]) simp_all
qed simp

end

end
