(* ===== verification/Local_Hitl_System.thy ===== *)
theory Local_Hitl_System
  imports Local_Hitl_Guarantees Stop_System
begin

text \<open>
  The flow over a repository and the mock inventory, an interpretation of its environment, and
  the properties of the whole: no change without recorded approval, no success without
  proof, no decision but the challenged one, and two consequences of an expired proposal.
\<close>

subsection \<open>The composed local system\<close>

text \<open>
  \<open>create_local_hitl_runtime\<close>: the flow over a repository with the mock executor; clock, identifiers
  and nonces come from the process.
\<close>

record HitlWorld = LocalWorld +
  hw_request_ids :: "uuid list"
  hw_event_ids :: "uuid list"
  hw_nonces :: "string list"

definition hitl_request_id :: "(HitlWorld, uuid) prog" where
  "hitl_request_id w = (case hw_request_ids w of [] \<Rightarrow> (Inl OtherError, w) | i # is \<Rightarrow> (Inr i, w\<lparr>hw_request_ids := is\<rparr>))"

definition hitl_event_id :: "(HitlWorld, uuid) prog" where
  "hitl_event_id w = (case hw_event_ids w of [] \<Rightarrow> (Inl OtherError, w) | i # is \<Rightarrow> (Inr i, w\<lparr>hw_event_ids := is\<rparr>))"

definition hitl_nonce :: "(HitlWorld, string) prog" where
  "hitl_nonce w = (case hw_nonces w of [] \<Rightarrow> (Inl OtherError, w) | n # ns \<Rightarrow> (Inr n, w\<lparr>hw_nonces := ns\<rparr>))"

definition hitl_system ::
    "'s DurableTruthRepository \<Rightarrow> Platform \<Rightarrow> (string \<Rightarrow> int option) \<Rightarrow> CloudResource list \<Rightarrow> int
     \<Rightarrow> ('s \<times> HitlWorld) LocalHitlExecutionFlow" where
  "hitl_system R L lax initial ttl =
     \<lparr>lh_repository = store_side R,
      lh_executor =
        \<lparr>le_execute = (\<lambda>p e a i. on_process (le_execute (mock_executor L lax initial) p e a i)),
         le_get_receipt = (\<lambda>key. on_process (le_get_receipt (mock_executor L lax initial) key)),
         le_verify = (\<lambda>r. on_process (le_verify (mock_executor L lax initial) r))\<rparr>,
      lh_clock = on_process local_clock, lh_request_id_factory = on_process hitl_request_id,
      lh_event_id_factory = on_process hitl_event_id, lh_nonce_factory = on_process hitl_nonce,
      lh_request_ttl_seconds = ttl\<rparr>"

lemma local_clock_quiet: "local_clock w = (x, w') \<Longrightarrow> lw_mutation_calls w' = lw_mutation_calls w"
  by (auto simp: local_clock_def split: list.splits)

lemma inventory_call_quiet: "inventory_call L lax initial m w = (x, w') \<Longrightarrow> lw_mutation_calls w' = lw_mutation_calls w"
  by (auto simp: inventory_call_def Let_def split: prod.splits)

lemma hitl_system_environment:
  assumes "durable_truth L R view rest"
  shows "hitl_environment L (store_side R) (view \<circ> fst) (\<lambda>s. lw_mutation_calls (snd s)) (hitl_system R L lax initial ttl)"
    (is "hitl_environment L ?R ?view ?rest ?H")
proof (intro hitl_environment.intro hitl_environment_axioms.intro store_side_durable_truth [OF assms])
  show "lh_repository ?H = ?R" by (simp add: hitl_system_def)
  show "bystander L ?view ?rest (lh_clock ?H)"
    unfolding hitl_system_def LocalHitlExecutionFlow.simps by (rule on_process_bystander) (rule local_clock_quiet)
  show "bystander L ?view ?rest (lh_request_id_factory ?H)" "bystander L ?view ?rest (lh_event_id_factory ?H)"
    unfolding hitl_system_def LocalHitlExecutionFlow.simps
    by (rule on_process_bystander, auto simp: hitl_request_id_def hitl_event_id_def split: list.splits)+
  show "bystander L ?view ?rest (lh_nonce_factory ?H)"
    unfolding hitl_system_def LocalHitlExecutionFlow.simps
    by (rule on_process_bystander) (auto simp: hitl_nonce_def split: list.splits)
  show "bystander L ?view ?rest (le_get_receipt (lh_executor ?H) key)" for key
    unfolding hitl_system_def LocalHitlExecutionFlow.simps LocalExecutor.simps mock_executor_def
    by (rule on_process_bystander) (rule inventory_call_quiet)
  show "bystander L ?view ?rest (le_verify (lh_executor ?H) receipt)" for receipt
    unfolding hitl_system_def LocalHitlExecutionFlow.simps LocalExecutor.simps mock_executor_def
    by (rule on_process_bystander) (auto elim!: andThen_eqE simp: local_clock_quiet inventory_call_quiet
      dest!: local_clock_quiet inventory_call_quiet)
  fix p e a i s x s' assume "le_execute (lh_executor ?H) p e a i s = (x, s')"
  then have "fst s' = fst s" by (cases s) (auto simp: hitl_system_def on_process_def split: prod.splits)
  then show "later L (?view s) (?view s')" by simp
qed

interpretation file_hitl: hitl_environment L "store_side (file_repository L)"
    "(\<lambda>w. file_view (fw_file w)) \<circ> fst" "\<lambda>s. lw_mutation_calls (snd s)"
    "hitl_system (file_repository L) L lax initial ttl" for L lax initial ttl
  by (rule hitl_system_environment) (rule local_store.durable_truth_axioms)

text \<open>A counted mutation is one applied, policy-checked change.\<close>

lemma mock_execute_counts:
  assumes "mock_execute L lax initial p e a i w = (x, w')" and "lw_mutation_calls w' \<noteq> lw_mutation_calls w"
  shows "lw_mutation_calls w' = lw_mutation_calls w + 1
    \<and> (\<exists>now. execution_bound L \<lparr>mu_proposal = p, mu_evidence = e, mu_approval = a, mu_intent = i, mu_executed_at = now\<rparr>)"
proof -
  have bound: "execution_bound L m" if "inventory_call L lax initial (store_execute L lax initial m) u = (Inr y, u')" for m u y u'
    using that by (auto simp: inventory_call_def Let_def store_execute_def split: prod.splits if_splits)
  let ?w = "w\<lparr>lw_execute_calls := lw_execute_calls w + 1\<rparr>"
  let ?m = "\<lambda>now. \<lparr>mu_proposal = p, mu_evidence = e, mu_approval = a, mu_intent = i, mu_executed_at = now\<rparr>"
  from assms(1) show ?thesis unfolding mock_execute_def
  proof (elim andThen_eqE)
    fix now w1 y w2 assume c: "local_clock ?w = (Inr now, w1)"
      and call: "inventory_call L lax initial (store_execute L lax initial (?m now)) w1 = (Inr y, w2)"
      and last: "(case y of (receipt, applied) \<Rightarrow> \<lambda>w. (Inr receipt,
        if applied then w\<lparr>lw_mutation_calls := lw_mutation_calls w + 1\<rparr>
        else w\<lparr>lw_reconciled_calls := lw_reconciled_calls w + 1\<rparr>)) w2 = (x, w')"
    have "lw_mutation_calls w2 = lw_mutation_calls w"
      using local_clock_quiet [OF c] inventory_call_quiet [OF call] by simp
    with last assms(2) have "lw_mutation_calls w' = lw_mutation_calls w + 1"
      by (auto split: prod.splits if_splits)
    with bound [OF call] show ?thesis by blast
  qed (use assms(2) in \<open>auto dest!: local_clock_quiet inventory_call_quiet\<close>)
qed

subsection \<open>Properties of the local workflow\<close>

lemma hitl_system_execute:
  "le_execute (lh_executor (hitl_system R L lax initial ttl)) p e a i s1 = (x, s2) \<Longrightarrow>
   mock_execute L lax initial p e a i (snd s1) = (x, snd s2)"
  by (cases s1) (auto simp: hitl_system_def on_process_def mock_executor_def split: prod.splits)

lemma resume_result_of:
  assumes "durable_truth L R view rest" and "repo_ok L (view s)"
    and "hitl_resume L (hitl_system R L lax initial ttl) rid session (s, w) = (x, s', w')"
  shows "guarded L (view \<circ> fst) (\<lambda>s. lw_mutation_calls (snd s)) (hitl_system R L lax initial ttl) (view s) rid session
      (lw_mutation_calls w) (s', w')"
    and "x = Inr r \<Longrightarrow> resume_result L (view \<circ> fst) (\<lambda>s. lw_mutation_calls (snd s)) (hitl_system R L lax initial ttl)
      (view s) rid session (lw_mutation_calls w) r (s', w')"
proof -
  note e = hitl_environment.resume_ensures [OF hitl_system_environment [OF assms(1)],
      of "view s" "lw_mutation_calls w" lax initial ttl rid session]
  have s: "since L (view \<circ> fst) (view s) (s, w) \<and> lw_mutation_calls (snd (s, w)) = lw_mutation_calls w"
    using assms(2) by (simp add: since_def)
  show r: "resume_result L (view \<circ> fst) (\<lambda>s. lw_mutation_calls (snd s)) (hitl_system R L lax initial ttl)
      (view s) rid session (lw_mutation_calls w) r (s', w')" if "x = Inr r" for r
    using ensures_valueD [OF e s assms(3) [unfolded that]] .
  show "guarded L (view \<circ> fst) (\<lambda>s. lw_mutation_calls (snd s)) (hitl_system R L lax initial ttl) (view s) rid session
      (lw_mutation_calls w) (s', w')"
  proof (cases x)
    case (Inl e')
    from ensures_errorD [OF e s assms(3) [unfolded this]] show ?thesis .
  next
    case (Inr y)
    from r [OF this] show ?thesis by (simp add: resume_result_def)
  qed
qed

text \<open>What the store held at some moment of a call that began in truth \<open>d0\<close> and ended in \<open>d1\<close>.\<close>

definition held_run :: "Platform \<Rightarrow> Repo \<Rightarrow> Repo \<Rightarrow> uuid \<Rightarrow> Run \<Rightarrow> bool" where
  "held_run L d0 d1 rid run \<longleftrightarrow> (\<exists>d. later L d0 d \<and> dget (d_runs d) rid = Some run \<and> later L d d1)"

definition held_checkpoint :: "Platform \<Rightarrow> Repo \<Rightarrow> Repo \<Rightarrow> uuid \<Rightarrow> Checkpoint \<Rightarrow> bool" where
  "held_checkpoint L d0 d1 rid c \<longleftrightarrow> (\<exists>d. later L d0 d \<and> dget (d_checkpoints d) rid = Some c \<and> later L d d1)"

lemma saw_held:
  "saw_run L view d0 rid run s \<Longrightarrow> later L (view s) d1 \<Longrightarrow> held_run L d0 d1 rid run"
  "saw_checkpoint L view d0 rid c s \<Longrightarrow> later L (view s) d1 \<Longrightarrow> held_checkpoint L d0 d1 rid c \<and> checkpoint_bindings c"
  unfolding saw_run_def saw_checkpoint_def held_run_def held_checkpoint_def valid_checkpoint_def
  by (meson rtranclp_trans)+


text \<open>C16: A local completion is backed by the store: after \<open>resume\<close> reports one, the stored run is in the
  terminal state it reports; an approved completion carries the receipt and the verification that a stored
  checkpoint links to the registered intent, and the read-back matches the receipt; a denied
  one carries neither and the run ended DENIED_BY_HUMAN.\<close>

theorem local_success_has_proof:
  assumes "durable_truth L R view rest" and "repo_ok L (view s)"
    and "hitl_resume L (hitl_system R L lax initial ttl) rid session (s, w) = (Inr (Succeeded y), s', w')"
  shows "\<exists>run c. dget (d_runs (view s')) rid = Some run \<and> r_state run = lp_final_state y
    \<and> held_checkpoint L (view s) (view s') rid c \<and> lp_run_id y = rid
    \<and> c_local_approval c = Some (lp_approval y) \<and> la_decision (lp_approval y) = lp_decision y
    \<and> la_actor_session_id (lp_approval y) = session
    \<and> (if lp_decision y = ApprovalDecision.DENIED
       then lp_final_state y = WorkflowState.DENIED_BY_HUMAN \<and> lp_receipt y = None \<and> lp_verification y = None
       else lp_final_state y = WorkflowState.SUCCESS_WITH_EVIDENCE
         \<and> (\<exists>i r v. c_local_execution_intent c = Some i \<and> c_local_execution_receipt c = Some r
              \<and> c_local_verification c = Some v \<and> lp_receipt y = Some r \<and> lp_verification y = Some v
              \<and> lr_intent_hash r = li_intent_hash i \<and> lr_run_id r = rid \<and> lv_receipt_hash v = lr_receipt_hash r
              \<and> same_optional_resource (lv_observed_resource v) (lr_after_resource r)
              \<and> lr_executed_at r \<le> lv_verified_at v))"
proof -
  from resume_result_of(2) [OF assms refl] obtain run c
    where saw: "saw_run L (view \<circ> fst) (view s) rid run (s', w')" "saw_checkpoint L (view \<circ> fst) (view s) rid c (s', w')"
      and b: "backed run c y" "la_actor_session_id (lp_approval y) = session"
    unfolding resume_result_def by blast
  from saw(1) obtain d where d: "dget (d_runs d) rid = Some run" "later L d (view s')" and id: "r_run_id run = rid"
    unfolding saw_run_def by auto
  have bind: "held_checkpoint L (view s) (view s') rid c \<and> checkpoint_bindings c"
    using saw_held(2) [OF saw(2), of "view s'"] by simp
  have cid: "c_run_id c = rid" using saw(2) by (simp add: saw_checkpoint_def)
  have v: "valid_local_completion y" and f: "lp_final_state y = r_state run" "c_local_approval c = Some (lp_approval y)"
    "lp_decision y = la_decision (lp_approval y)" "lp_run_id y = rid"
    using b(1) id by (simp_all add: backed_def)
  have "r_state run \<in> TERMINAL_WORKFLOW_STATES"
    using v f(1) by (auto simp: valid_local_completion_def TERMINAL_WORKFLOW_STATES_def split: if_splits)
  with evolves_get(1) [OF later_evolves [OF d(2)] d(1)] obtain run' where
    run': "dget (d_runs (view s')) rid = Some run'" "r_state run' = r_state run"
    by (auto simp: run_evolves_def dest: workflow_reach_terminal)
  have linked: "\<exists>i r v. c_local_execution_intent c = Some i \<and> c_local_execution_receipt c = Some r
              \<and> c_local_verification c = Some v \<and> lp_receipt y = Some r \<and> lp_verification y = Some v
              \<and> lr_intent_hash r = li_intent_hash i \<and> lr_run_id r = rid \<and> lv_receipt_hash v = lr_receipt_hash r
              \<and> same_optional_resource (lv_observed_resource v) (lr_after_resource r) \<and> lr_executed_at r \<le> lv_verified_at v"
    if approved: "lp_decision y \<noteq> ApprovalDecision.DENIED"
  proof -
    from approved have "lp_decision y = ApprovalDecision.APPROVED" by (cases "lp_decision y") auto
    with b(1) v obtain r v where rv: "c_local_execution_receipt c = Some r" "c_local_verification c = Some v"
      "lp_receipt y = Some r" "lp_verification y = Some v"
      by (auto simp: backed_def valid_local_completion_def split: option.splits)
    from checkpoint_receipt_chain [OF conjunct2 [OF bind] rv(1)] checkpoint_verification_chain [OF conjunct2 [OF bind] rv(2)]
    show ?thesis using rv cid by auto
  qed
  have final: "if lp_decision y = ApprovalDecision.DENIED
       then lp_final_state y = WorkflowState.DENIED_BY_HUMAN \<and> lp_receipt y = None \<and> lp_verification y = None
       else lp_final_state y = WorkflowState.SUCCESS_WITH_EVIDENCE"
    using v by (auto simp: valid_local_completion_def split: if_splits)
  show ?thesis using run' bind f b(2) linked final by (intro exI [of _ run'] exI [of _ c]) (simp split: if_splits)
qed

lemma checkpoint_approval_chain:
  assumes "checkpoint_bindings c" and "c_local_approval c = Some a" and "c_local_approval_request c = Some q"
  shows "la_request_hash a = lq_request_hash q \<and> la_decision_nonce_hash a = lq_decision_nonce_hash q
    \<and> la_actor_session_id a = lq_actor_session_id q \<and> la_proposal_hash a = lq_proposal_hash q
    \<and> lq_requested_at q \<le> la_decided_at a \<and> la_decided_at a \<le> lq_expires_at q"
  using assms unfolding checkpoint_bindings_def by (auto simp: optional_iff approval_bound_def)

text \<open>C17: An accepted decision is the one the challenge asked for: when \<open>decide\<close> succeeds, a stored
  checkpoint of the run holds a challenge of the deciding session whose nonce hash is the digest of
  the presented nonce, with the same proposal, evidence and version, and next to it an approval record of exactly
  this decision, made in the time the challenge allows; the run is in the state the decision leads to or,
  after an approval, further on. Deciding changes nothing in the inventory.\<close>

theorem decision_recorded_matches_challenge:
  assumes "durable_truth L R view rest" and "repo_ok L (view s)"
    and "hitl_decide L (hitl_system R L lax initial ttl) d session (s, w) = (Inr (Succeeded r), s', w')"
  shows "lw_mutation_calls w' = lw_mutation_calls w
    \<and> (\<exists>run c q a. held_run L (view s) (view s') (ld_run_id d) run \<and> held_checkpoint L (view s) (view s') (ld_run_id d) c
        \<and> c_local_approval_request c = Some q \<and> c_local_approval c = Some a
        \<and> lq_actor_session_id q = session \<and> sha256_hex L (ld_decision_nonce d) = lq_decision_nonce_hash q
        \<and> ld_request_hash d = lq_request_hash q \<and> ld_proposal_hash d = lq_proposal_hash q
        \<and> ld_evidence_hash d = lq_evidence_hash q \<and> ld_proposal_version d = lq_proposal_version q
        \<and> la_decision a = ld_decision d \<and> la_request_hash a = lq_request_hash q \<and> la_actor_session_id a = session
        \<and> lq_requested_at q \<le> la_decided_at a \<and> la_decided_at a \<le> lq_expires_at q
        \<and> ls_decision_hash r = la_decision_hash a
        \<and> (r_state run = decision_state (ld_decision d)
           \<or> ld_decision d = ApprovalDecision.APPROVED \<and> r_state run \<in> APPROVED_DECISION_DOWNSTREAM_STATES))"
proof -
  note env = hitl_system_environment [OF assms(1), of lax initial ttl]
  have "since L (view \<circ> fst) (view s) (s, w)" using assms(2) by (simp add: since_def)
  from ensures_valueD [OF hitl_environment.decide_ensures [OF env] this assms(3)]
  obtain run c where saw: "saw_run L (view \<circ> fst) (view s) (ld_run_id d) run (s', w')"
      "saw_checkpoint L (view \<circ> fst) (view s) (ld_run_id d) c (s', w')"
    and dec: "decided L d session run c r"
    unfolding decide_result_def by blast
  have held: "held_run L (view s) (view s') (ld_run_id d) run" "held_checkpoint L (view s) (view s') (ld_run_id d) c"
    "checkpoint_bindings c"
    using saw_held(1) [OF saw(1), of "view s'"] saw_held(2) [OF saw(2), of "view s'"] by simp_all
  from dec obtain q a where qa: "c_local_approval_request c = Some q" "c_local_approval c = Some a"
    "decision_matches_request L d session q" "la_decision a = ld_decision d" "ls_decision_hash r = la_decision_hash a"
    "r_state run = decision_state (ld_decision d)
     \<or> ld_decision d = ApprovalDecision.APPROVED \<and> r_state run \<in> APPROVED_DECISION_DOWNSTREAM_STATES"
    unfolding decided_def by blast
  have "lw_mutation_calls w' = lw_mutation_calls w"
    using bystanderD(1) [OF hitl_environment.hitl_decide_bystander [OF env] assms(3)] by simp
  moreover from checkpoint_approval_chain [OF held(3) qa(2,1)] qa(3)
  have "la_request_hash a = lq_request_hash q" "la_actor_session_id a = session" "lq_actor_session_id q = session"
    "lq_requested_at q \<le> la_decided_at a" "la_decided_at a \<le> lq_expires_at q"
    by (simp_all add: decision_matches_request_def)
  ultimately show ?thesis using held(1,2) qa unfolding decision_matches_request_def by blast
qed

lemma mem_side:
  "op_get_run (store_side (mem_repository L)) rid (d, w) = (Inr (dget (d_runs d) rid), d, w)"
  "op_get_checkpoint (store_side (mem_repository L)) rid (d, w) = (Inr (dget (d_checkpoints d) rid), d, w)"
  "op_transition_run (store_side (mem_repository L)) rid st es ev t ap vp (d, w)
    = (fst (repo_transition_run L rid st es ev t ap vp d), snd (repo_transition_run L rid st es ev t ap vp d), w)"
  "op_save_checkpoint (store_side (mem_repository L)) c cv (d, w)
    = (fst (repo_save_checkpoint c cv d), snd (repo_save_checkpoint c cv d), w)"
  by (simp_all add: store_side_def mem_repository_def on_store_def repo_get_run_def repo_get_checkpoint_def split: prod.splits)

lemma hitl_load_mem:
  assumes "dget (d_runs d) rid = Some run" and "dget (d_checkpoints d) rid = Some c" and "r_run_id run = rid"
    and "c_resource_evidence c = Some e" and "c_remediation_proposal c = Some p" and "local_context_bound run e p"
  shows "hitl_load (hitl_system (mem_repository L) L lax initial ttl) rid (d, w) = (Inr (Inr (run, c, e, p)), d, w)"
proof -
  have "lh_repository (hitl_system (mem_repository L) L lax initial ttl) = store_side (mem_repository L)"
    by (simp add: hitl_system_def)
  with assms show ?thesis by (simp add: hitl_load_def tryThen_def andThen_def mem_side ret_def)
qed

text \<open>An expired proposal is checked before the state of the run: from a terminal state the flow
  asks for a transition the workflow forbids, and nothing catches the error.\<close>

text \<open>C39: Resuming an approved run that already ended, in a state such as VERIFICATION_FAILED,
  raises once its proposal has expired: the flow tries to move the run to RECOVERY_REQUIRED, the workflow forbids
  that, and the \<open>WorkflowTransitionError\<close> leaves \<open>resume\<close>, which catches only storage errors there.\<close>

theorem expired_terminal_resume_raises:
  assumes "dget (d_runs d) rid = Some run" and "dget (d_checkpoints d) rid = Some c" and "r_run_id run = rid"
    and "c_resource_evidence c = Some e" and "c_remediation_proposal c = Some p" and "local_context_bound run e p"
    and "c_local_approval c = Some a" and "la_actor_session_id a = session" and "la_decision a = ApprovalDecision.APPROVED"
    and "r_state run \<in> TERMINAL_WORKFLOW_STATES" and "r_state run \<noteq> WorkflowState.SUCCESS_WITH_EVIDENCE"
    and "lw_clock w = Utc now # later_now # ts" and "rp_expires_at p < now"
  shows "hitl_resume L (hitl_system (mem_repository L) L lax initial ttl) rid session (d, w)
    = (Inl WorkflowTransitionError, d, w\<lparr>lw_clock := ts\<rparr>)"
proof -
  let ?H = "hitl_system (mem_repository L) L lax initial ttl"
  have H: "lh_repository ?H = store_side (mem_repository L)" "lh_clock ?H = on_process local_clock"
    by (simp_all add: hitl_system_def)
  have state: "r_state run \<noteq> WorkflowState.AWAITING_APPROVAL" "r_state run \<noteq> WorkflowState.RECOVERY_REQUIRED"
    "ALLOWED_WORKFLOW_TRANSITIONS (r_state run) = {}"
    using assms(10) terminal_iff_no_successor [of "r_state run"] by (auto simp: TERMINAL_WORKFLOW_STATES_def)
  note loaded = hitl_load_mem [OF assms(1-6), where initial = initial and lax = lax and ttl = ttl and w = w]
  have "hitl_mark_recovery ?H run rs ms (d, w\<lparr>lw_clock := later_now # ts\<rparr>)
      = (Inl WorkflowTransitionError, d, w\<lparr>lw_clock := ts\<rparr>)" for rs ms
    using assms(1,3) state
    by (simp add: hitl_mark_recovery_def hitl_persist_failure_def hitl_transition_def H tryThen_def andThen_def
        on_process_def local_clock_def mem_side repo_transition_run_def
        decision_guard_def success_guard_def transition_run_def validate_workflow_transition_def raise_def storage_errors_def)
  then have "hitl_resume_active L ?H e p a (run, c) (d, w) = (Inl WorkflowTransitionError, d, w\<lparr>lw_clock := ts\<rparr>)"
    using assms(12,13) by (simp add: hitl_resume_active_def H andThen_def on_process_def local_clock_def lift_def hitl_now_def)
  with loaded assms(7-11) state show ?thesis
    by (simp add: hitl_resume_def hitl_loaded_def andThen_def)
qed

text \<open>An executed change is never verified once its proposal has expired: a run that waits in VERIFYING, its
  change made and its receipt stored, is moved to RECOVERY_REQUIRED and reported as expired before execution,
  without a read-back, although the approval was in time.\<close>

theorem expired_execution_stays_unverified:
  assumes "dget (d_runs d) rid = Some run" and "dget (d_checkpoints d) rid = Some c" and "r_run_id run = rid"
    and "c_resource_evidence c = Some e" and "c_remediation_proposal c = Some p" and "local_context_bound run e p"
    and "c_local_approval c = Some a" and "la_actor_session_id a = session" and "la_decision a = ApprovalDecision.APPROVED"
    and "r_state run = WorkflowState.VERIFYING" and "valid_run run"
    and "lw_clock w = Utc now # Utc t # ts" and "rp_expires_at p < now" and "r_updated_at run \<le> t"
  shows "hitl_resume L (hitl_system (mem_repository L) L lax initial ttl) rid session (d, w)
    = (Inr (hitl_failed FailureKind.RECOVERY_REQUIREMENT ''LOCAL_APPROVAL_EXPIRED_BEFORE_EXECUTION''
         ''Approved proposal expired before protected execution''),
       d\<lparr>d_runs := dput rid (run\<lparr>r_state := WorkflowState.RECOVERY_REQUIRED, r_updated_at := t,
         r_version := r_version run + 1\<rparr>) (d_runs d)\<rparr>, w\<lparr>lw_clock := ts\<rparr>)"
proof -
  let ?H = "hitl_system (mem_repository L) L lax initial ttl"
  have H: "lh_repository ?H = store_side (mem_repository L)" "lh_clock ?H = on_process local_clock"
    by (simp_all add: hitl_system_def)
  let ?run = "run\<lparr>r_state := WorkflowState.RECOVERY_REQUIRED, r_updated_at := t, r_version := r_version run + 1\<rparr>"
  have "transition_run run WorkflowState.RECOVERY_REQUIRED (Utc t) = Inr ?run"
    using assms(10,11,14)
    by (simp add: transition_run_def validate_workflow_transition_def require_utc_def validated_def valid_run_def)
  then have "hitl_mark_recovery ?H run rs ms (d, w\<lparr>lw_clock := Utc t # ts\<rparr>)
      = (Inr (hitl_failed FailureKind.RECOVERY_REQUIREMENT rs ms), d\<lparr>d_runs := dput rid ?run (d_runs d)\<rparr>, w\<lparr>lw_clock := ts\<rparr>)" for rs ms
    using assms(1,3,10)
    by (simp add: hitl_mark_recovery_def hitl_persist_failure_def hitl_transition_def H tryThen_def andThen_def ret_def
        on_process_def local_clock_def mem_side repo_transition_run_def decision_guard_def success_guard_def)
  then have "hitl_resume_active L ?H e p a (run, c) (d, w)
      = (Inr (hitl_failed FailureKind.RECOVERY_REQUIREMENT ''LOCAL_APPROVAL_EXPIRED_BEFORE_EXECUTION''
         ''Approved proposal expired before protected execution''), d\<lparr>d_runs := dput rid ?run (d_runs d)\<rparr>, w\<lparr>lw_clock := ts\<rparr>)"
    using assms(12,13) by (simp add: hitl_resume_active_def H andThen_def on_process_def local_clock_def lift_def hitl_now_def)
  with hitl_load_mem [OF assms(1-6), where initial = initial and lax = lax and ttl = ttl and w = w] assms(7-10)
  show ?thesis by (simp add: hitl_resume_def hitl_loaded_def andThen_def)
qed

end
