(* ===== verification/Local_Examples.thy ===== *)
theory Local_Examples
  imports Local_Execution Examples
begin

text \<open>
  One local remediation on concrete records: the open security group of the default inventory, the
  plan policy derives for it, the approval, the intent and the execution. The witnesses of the
  local claims use these values.
\<close>

subsection \<open>Values\<close>

definition lx_group :: SecurityGroupResource where
  "lx_group = \<lparr>z_resource_id = ''sg-0123456789abcdef0'', z_region = ''eu-central-1'',
     z_vpc_id = ''vpc-0123456789abcdef0'',
     z_inbound_rules = [\<lparr>sr_ip_protocol = ''tcp'', sr_cidr_ipv4 = ''0.0.0.0/0'',
       sr_from_port = Some 22, sr_to_port = Some 22\<rparr>],
     z_outbound_rules = [\<lparr>sr_ip_protocol = ''-1'', sr_cidr_ipv4 = ''0.0.0.0/0'',
       sr_from_port = None, sr_to_port = None\<rparr>],
     z_tags = [(''Environment'', ''hackathon''), (''Owner'', ''platform'')]\<rparr>"

definition lx_evidence :: ResourceEvidence where
  "lx_evidence = \<lparr>re_run_id = ex_uuid CHR ''1'', re_trace_id = ex_uuid CHR ''2'',
     re_correlation_id = ex_uuid CHR ''3'', re_resource = Sg lx_group,
     re_findings = [CloudFinding.OVERLY_PERMISSIVE_INGRESS],
     re_provenance = \<lparr>pv_run_id = ex_uuid CHR ''1'', pv_trace_id = ex_uuid CHR ''2'',
       pv_correlation_id = ex_uuid CHR ''3'', pv_source = ''query_resource'',
       pv_adapter = ''persistent-local-mock-aws'', pv_resource_type = CloudResourceType.SECURITY_GROUP,
       pv_resource_id = ''sg-0123456789abcdef0'', pv_observed_fields = observed_fields (Sg lx_group),
       pv_observed_at = 105\<rparr>,
     re_observed_at = 105, re_authority = AuthorityGate.AUTO, re_evidence_hash = ex_hash\<rparr>"

definition lx_proposal :: RemediationProposal where
  "lx_proposal = \<lparr>rp_proposal_id = ex_uuid CHR ''4'', rp_run_id = ex_uuid CHR ''1'',
     rp_correlation_id = ex_uuid CHR ''3'', rp_operation_type = RemediationOperation.REVOKE_PUBLIC_INGRESS,
     rp_target_resource_type = CloudResourceType.SECURITY_GROUP, rp_target_resource_id = ''sg-0123456789abcdef0'',
     rp_normalized_parameters = revocation_parameters lx_group (unsafe_rules lx_group),
     rp_authority_class = AuthorityGate.PLAN_AND_CONFIRM, rp_evidence_hash = ex_hash,
     rp_evidence_fingerprint = ex_hash,
     rp_risk_summary = operation_risk RemediationOperation.REVOKE_PUBLIC_INGRESS,
     rp_created_at = 106, rp_expires_at = 86400000106, rp_proposal_hash = ex_hash,
     rp_status = ProposalState.PROPOSED, rp_version = 1\<rparr>"

definition lx_plan :: RemediationPlan where
  "lx_plan = \<lparr>pl_disposition = PlanDisposition.PROPOSAL, pl_evidence_hash = ex_hash,
     pl_proposal = Some lx_proposal, pl_reason = operation_risk RemediationOperation.REVOKE_PUBLIC_INGRESS\<rparr>"

definition lx_candidate :: ModelPlanCandidate where
  "lx_candidate = action_candidate PlanDisposition.PROPOSAL RemediationOperation.REVOKE_PUBLIC_INGRESS
     CloudResourceType.SECURITY_GROUP ''sg-0123456789abcdef0'' (rp_normalized_parameters lx_proposal)
     AuthorityGate.PLAN_AND_CONFIRM"

definition lx_request :: LocalApprovalRequestRecord where
  "lx_request = \<lparr>lq_request_id = ex_uuid CHR ''5'', lq_proposal_id = ex_uuid CHR ''4'', lq_run_id = ex_uuid CHR ''1'',
     lq_correlation_id = ex_uuid CHR ''3'', lq_proposal_hash = ex_hash, lq_evidence_hash = ex_hash,
     lq_proposal_version = 1, lq_operation_type = RemediationOperation.REVOKE_PUBLIC_INGRESS,
     lq_target_resource_type = CloudResourceType.SECURITY_GROUP, lq_target_resource_id = ''sg-0123456789abcdef0'',
     lq_actor_session_id = ''operator'', lq_decision_nonce_hash = ex_hash, lq_requested_at = 107,
     lq_expires_at = 600000107, lq_request_hash = ex_hash\<rparr>"

definition lx_decision :: LocalApprovalDecisionRecord where
  "lx_decision = \<lparr>la_request_id = ex_uuid CHR ''5'', la_proposal_id = ex_uuid CHR ''4'', la_run_id = ex_uuid CHR ''1'',
     la_request_hash = ex_hash, la_proposal_hash = ex_hash, la_evidence_hash = ex_hash, la_proposal_version = 1,
     la_decision = ApprovalDecision.APPROVED, la_actor_session_id = ''operator'',
     la_decision_nonce_hash = ex_hash, la_decided_at = 108, la_decision_hash = ex_hash\<rparr>"

definition lx_intent :: LocalExecutionIntent where
  "lx_intent = \<lparr>li_run_id = ex_uuid CHR ''1'', li_proposal_id = ex_uuid CHR ''4'', li_proposal_hash = ex_hash,
     li_evidence_hash = ex_hash, li_decision_hash = ex_hash,
     li_operation_type = RemediationOperation.REVOKE_PUBLIC_INGRESS,
     li_target_resource_type = CloudResourceType.SECURITY_GROUP, li_target_resource_id = ''sg-0123456789abcdef0'',
     li_idempotency_key = ''local-exec:'' @ ex_hash, li_registered_at = 109, li_intent_hash = ex_hash\<rparr>"

definition lx_mutation :: LocalMutation where
  "lx_mutation = \<lparr>mu_proposal = lx_proposal\<lparr>rp_status := ProposalState.AWAITING_APPROVAL\<rparr>,
     mu_evidence = lx_evidence, mu_approval = lx_decision, mu_intent = lx_intent, mu_executed_at = Utc 110\<rparr>"

lemma ex_shape [simp]: "sha256_shape ex_L"
proof -
  have "sha256_hex ex_L s = ex_hash" for s by (simp add: example_platform_def ex_hash_def)
  then show ?thesis by (simp add: sha256_shape_def)
qed

lemma ex_public_network: "ipv4_network ''0.0.0.0/0''"
proof -
  have "split_at CHR ''/'' ''0.0.0.0/0'' = [''0.0.0.0'', ''0'']" "ipv4_octets ''0.0.0.0'' = Some [0, 0, 0, 0]"
    "canonical_decimal 32 ''0''" by code_simp+
  then show ?thesis by (simp add: ipv4_network_def ipv4_value_def)
qed

lemma ex_public_rules:
  "valid_rule \<lparr>sr_ip_protocol = ''tcp'', sr_cidr_ipv4 = ''0.0.0.0/0'', sr_from_port = Some 22, sr_to_port = Some 22\<rparr>"
  "valid_rule \<lparr>sr_ip_protocol = ''-1'', sr_cidr_ipv4 = ''0.0.0.0/0'', sr_from_port = None, sr_to_port = None\<rparr>"
proof -
  have "non_empty_text ''tcp''" "non_empty_text ''0.0.0.0/0''" "non_empty_text ''-1''" by code_simp+
  with ex_public_network show
    "valid_rule \<lparr>sr_ip_protocol = ''tcp'', sr_cidr_ipv4 = ''0.0.0.0/0'', sr_from_port = Some 22, sr_to_port = Some 22\<rparr>"
    "valid_rule \<lparr>sr_ip_protocol = ''-1'', sr_cidr_ipv4 = ''0.0.0.0/0'', sr_from_port = None, sr_to_port = None\<rparr>"
    by (simp_all add: valid_rule_def valid_port_def)
qed

lemma lx_group_ok: "valid_resource (Sg lx_group)"
proof -
  have "aws_resource_id ''sg-'' (z_resource_id lx_group)" "short_identifier (z_region lx_group)"
    "aws_resource_id ''vpc-'' (z_vpc_id lx_group)" "valid_tags (z_tags lx_group)" by code_simp+
  moreover have "list_all valid_rule (z_inbound_rules lx_group)" "list_all valid_rule (z_outbound_rules lx_group)"
    using ex_public_rules by (simp_all add: lx_group_def)
  ultimately show ?thesis by simp
qed

lemma lx_group_rules: "resource_findings (Sg lx_group) = [CloudFinding.OVERLY_PERMISSIVE_INGRESS]"
  "unsafe_rules lx_group = z_inbound_rules lx_group" "distinct (unsafe_rules lx_group)" "z_inbound_rules lx_group \<noteq> []"
  by code_simp+

lemma lx_initial_ok [simp]: "initial_ok default_mock_resources"
proof -
  have "list_all valid_resource (filter (\<lambda>r. r \<noteq> Sg lx_group) default_mock_resources)"
    "distinct (map resource_key default_mock_resources)" by code_simp+
  with lx_group_ok show ?thesis by (auto simp: initial_ok_def list_all_iff)
qed

lemma lx_provenance_ok: "valid_provenance (re_provenance lx_evidence)" "provenance_bound lx_evidence"
  by code_simp+

lemma lx_evidence_ok: "valid_resource_evidence ex_L lx_evidence"
  using lx_provenance_ok lx_group_ok
  by (simp add: valid_resource_evidence_def) (simp add: lx_evidence_def)

lemma lx_words: "short_identifier ''sg-0123456789abcdef0''" "short_identifier ''operator''"
  "idempotency_key_text (''local-exec:'' @ ex_hash)"
  by code_simp+

lemma lx_proposal_ok: "valid_remediation_proposal ex_L lx_proposal"
  using lx_words plan_reasons [of RemediationOperation.REVOKE_PUBLIC_INGRESS]
  by (simp add: valid_remediation_proposal_def lx_proposal_def revocation_parameters_def dict_ok_def)

lemma lx_decision_ok: "valid_local_decision ex_L lx_decision"
  using lx_words by (simp add: valid_local_decision_def lx_decision_def)

lemma lx_intent_ok: "valid_intent ex_L lx_intent"
  using lx_words by (simp add: valid_intent_def lx_intent_def)

lemma lx_mutation_ok: "well_formed_mutation ex_L lx_mutation"
  using lx_evidence_ok lx_proposal_ok lx_decision_ok lx_intent_ok
  by (simp add: well_formed_mutation_def lx_mutation_def valid_remediation_proposal_def action_payload_def
      execution_bound_def Let_def stable_fingerprint_def)
    (simp add: lx_proposal_def lx_evidence_def lx_decision_def lx_intent_def)

lemma lx_canonical: "canonical_model_candidate lx_evidence = Inr lx_candidate"
  using lx_group_rules lx_words
  by (simp add: canonical_model_candidate_def lx_evidence_def lx_candidate_def lx_proposal_def Let_def
      validated_def valid_candidate_def action_candidate_def dict_ok_def revocation_parameters_def)
    (simp add: lx_group_def)

lemma lx_same: "same_candidate lx_candidate lx_candidate"
  by code_simp

lemma lx_planned_from:
  assumes "strip out \<noteq> []"
  shows "plan_execute ex_L (\<lambda>_. Some lx_candidate) lx_evidence out (ex_uuid CHR ''4'') (Utc 106)
    = Inr (Succeeded lx_plan)"
proof -
  have p: "RemediationProposal_create ex_L (ex_uuid CHR ''4'') lx_evidence RemediationOperation.REVOKE_PUBLIC_INGRESS
      (rp_normalized_parameters lx_proposal) AuthorityGate.PLAN_AND_CONFIRM
      (operation_risk RemediationOperation.REVOKE_PUBLIC_INGRESS) (Utc 106) (Utc 86400000106) = Inr lx_proposal"
    using lx_proposal_ok
    by (simp add: RemediationProposal_create_def utc_field_def Let_def validated_def stable_fingerprint_def)
      (simp add: lx_proposal_def lx_evidence_def lx_group_def)
  have c: "mc_disposition lx_candidate = PlanDisposition.PROPOSAL"
    "mc_operation_type lx_candidate = Some RemediationOperation.REVOKE_PUBLIC_INGRESS"
    "mc_normalized_parameters lx_candidate = Some (rp_normalized_parameters lx_proposal)"
    "mc_claimed_authority lx_candidate = Some AuthorityGate.PLAN_AND_CONFIRM"
    "re_evidence_hash lx_evidence = ex_hash"
    by (simp_all add: lx_candidate_def action_candidate_def lx_evidence_def)
  have "valid_plan lx_plan"
    using plan_reasons [of RemediationOperation.REVOKE_PUBLIC_INGRESS]
    by (simp add: valid_plan_def lx_plan_def lx_proposal_def)
  then have v: "valid_plan \<lparr>pl_disposition = PlanDisposition.PROPOSAL, pl_evidence_hash = ex_hash,
      pl_proposal = Some lx_proposal, pl_reason = operation_risk RemediationOperation.REVOKE_PUBLIC_INGRESS\<rparr>"
    by (simp add: lx_plan_def)
  show ?thesis
    using p v assms by (simp add: plan_execute_def c lx_canonical lx_same) (simp add: lx_plan_def)
qed

lemma lx_planned:
  "plan_execute ex_L (\<lambda>_. Some lx_candidate) lx_evidence ''x'' (ex_uuid CHR ''4'') (Utc 106) = Inr (Succeeded lx_plan)"
  by (rule lx_planned_from) code_simp

subsection \<open>The execution\<close>

definition lx_execute :: "IoEvent \<Rightarrow> (InventoryFile, LocalExecutionReceipt \<times> bool) prog" where
  "lx_execute = store_execute ex_L (\<lambda>_. None) default_mock_resources lx_mutation"

lemma lx_resource: "re_resource (mu_evidence lx_mutation) = Sg lx_group" "mu_evidence lx_mutation = lx_evidence"
  "re_findings lx_evidence = resource_findings (re_resource lx_evidence)" "mu_executed_at lx_mutation = Utc 110"
  using lx_group_rules(1) by (simp_all add: lx_mutation_def lx_evidence_def del: resource_findings.simps)

lemma lx_unchanged: "target_unchanged ex_L default_mock_resources lx_mutation NoInventory"
proof -
  have "dget (iv_resources (initial_inventory default_mock_resources)) (mutation_target lx_mutation) = Some (Sg lx_group)"
    by code_simp
  moreover have "iv_receipts (initial_inventory default_mock_resources) = []" by (simp add: initial_inventory_def)
  ultimately show ?thesis using lx_group_ok
    by (simp add: target_unchanged_def load_inventory_def lx_resource(1) same_resource_refl del: valid_resource.simps same_resource.simps)
qed

lemma lx_planned_mutation: "planned_mutation ex_L lx_plan lx_mutation"
  by (simp add: planned_mutation_def lx_plan_def lx_mutation_def lx_proposal_def)

lemma lx_not_repeated: "\<not> repeated_rules lx_evidence"
  using lx_group_rules(3) lx_resource(1,2) by (simp add: repeated_rules_def)

lemma lx_executes: "\<exists>r f. lx_execute Quiet NoInventory = (Inr (r, True), f)"
proof -
  from store_execute_new [OF lx_initial_ok ex_shape lx_mutation_ok lx_resource(4) lx_unchanged, of "\<lambda>_. None"]
  obtain current where c: "same_resource current (re_resource (mu_evidence lx_mutation))"
    "case approved_change (\<lambda>_. None) (mu_proposal lx_mutation) current of
         Inl e \<Rightarrow> lx_execute Quiet NoInventory = (Inl e, NoInventory)
       | Inr after \<Rightarrow> \<exists>r f'. lx_execute Quiet NoInventory = (Inr (r, True), f')"
    unfolding lx_execute_def by blast
  have "\<exists>w. current = Sg w" using same_resource_Sg c(1) unfolding lx_resource(1) by blast
  moreover have "re_findings lx_evidence = [CloudFinding.OVERLY_PERMISSIVE_INGRESS]" by (simp add: lx_evidence_def)
  moreover note planned_change [OF lx_planned lx_planned_mutation, of current "\<lambda>_. None"]
  ultimately show ?thesis using c lx_not_repeated lx_group_ok unfolding lx_resource(2)
    by (auto simp: lx_resource(1) [unfolded lx_resource(2)])
qed

subsection \<open>Witnesses\<close>

theorem plan_ignores_model_witness:
  "\<exists>plan. plan_execute ex_L (\<lambda>_. Some lx_candidate) lx_evidence ''x'' (ex_uuid CHR ''4'') (Utc 106) = Inr (Succeeded plan)
   \<and> plan_execute ex_L (\<lambda>_. Some lx_candidate) lx_evidence ''other'' (ex_uuid CHR ''4'') (Utc 106) = Inr (Succeeded plan)"
proof -
  have "strip ''other'' \<noteq> []" by code_simp
  from lx_planned_from [OF this] plan_ignores_model [OF lx_planned lx_planned_from [OF this]] lx_planned
  show ?thesis by blast
qed

theorem honest_plan_accepted_witness:
  "\<exists>x. canonical_model_candidate lx_evidence = Inr x
    \<and> (\<forall>parse out c. strip out \<noteq> [] \<and> parse out = Some c \<and> same_candidate c x \<longrightarrow>
         (\<exists>plan. plan_execute ex_L parse lx_evidence out (ex_uuid CHR ''4'') (Utc 106) = Inr (Succeeded plan)))"
  by (rule honest_plan_accepted [OF ex_shape lx_evidence_ok lx_resource(3)]) simp

theorem approved_rules_roundtrip_witness:
  "rules_of_json (\<lambda>_. None) (map rule_json (unsafe_rules lx_group)) = Some (unsafe_rules lx_group)"
  by (rule approved_rules_roundtrip) (use ex_public_rules(1) lx_group_rules(2) in \<open>simp add: lx_group_def\<close>)

theorem inventory_is_its_receipts_witness:
  "\<exists>rs v. load_inventory ex_L default_mock_resources
        (run_executions ex_L (\<lambda>_. None) default_mock_resources [(lx_mutation, SyncFails), (lx_mutation, Quiet)] NoInventory) = Inr v
    \<and> chained (table_of resource_key default_mock_resources) rs
    \<and> dget (iv_resources v) = dget (replay (table_of resource_key default_mock_resources) rs)
    \<and> (\<forall>k r. dget (iv_receipts v) k = Some r \<longleftrightarrow> r \<in> set rs \<and> lr_idempotency_key r = k)
    \<and> distinct (map lr_proposal_hash rs)
    \<and> (\<forall>r \<in> set rs. \<exists>m \<in> fst ` set [(lx_mutation, SyncFails), (lx_mutation, Quiet)].
          justified_receipt ex_L (\<lambda>_. None) m r)"
  by (rule inventory_is_its_receipts [OF lx_initial_ok])

theorem repeated_execution_replays_witness:
  "\<exists>r f. lx_execute Quiet NoInventory = (Inr (r, True), f) \<and> snd (lx_execute DiesLate f) = f
     \<and> (\<forall>q a. fst (lx_execute Quiet f) = Inr (q, a) \<longrightarrow> q = r \<and> \<not> a)"
proof -
  from lx_executes obtain r f where e: "lx_execute Quiet NoInventory = (Inr (r, True), f)" by blast
  have "f3 = f \<and> (\<forall>q a. x = Inr (q, a) \<longrightarrow> q = r \<and> \<not> a)" if again: "lx_execute io f = (x, f3)" for io x f3
    by (rule repeated_execution_replays [where calls = "[]" and ?calls2.0 = "[]", OF lx_initial_ok _
        e [unfolded lx_execute_def] _ again [unfolded lx_execute_def]]) (simp_all add: run_executions_def)
  then show ?thesis using e by (metis prod.collapse)
qed



theorem executed_change_verifies_witness:
  "\<exists>r f x. lx_execute Quiet NoInventory = (Inr (r, True), f)
     \<and> store_read ex_L default_mock_resources (inventory_verify ex_L r (Utc 120)) Quiet f = (Inr x, f)
     \<and> valid_local_verification ex_L x \<and> lv_receipt_hash x = lr_receipt_hash r"
proof -
  from lx_executes obtain r f where e: "lx_execute Quiet NoInventory = (Inr (r, True), f)" by blast
  from executed_change_verifies [OF lx_initial_ok ex_shape e [unfolded lx_execute_def], of 120] e show ?thesis by blast
qed

end
