(* ===== verification/Local_Hitl_Examples.thy ===== *)
theory Local_Hitl_Examples
  imports Local_Hitl_System Local_Examples
begin

text \<open>
  The local authorization flow on concrete records: a run with the approved remediation of the
  default inventory's open security group, over the repository in memory. The witnesses of the
  claims about the flow use these values.
\<close>

subsection \<open>Values\<close>

definition lx_awaiting :: RemediationProposal where
  "lx_awaiting = lx_proposal\<lparr>rp_status := ProposalState.AWAITING_APPROVAL\<rparr>"

definition lx_clean :: SecurityGroupResource where
  "lx_clean = lx_group\<lparr>z_inbound_rules := []\<rparr>"

definition lx_receipt :: LocalExecutionReceipt where
  "lx_receipt = \<lparr>lr_run_id = ex_uuid CHR ''1'', lr_proposal_id = ex_uuid CHR ''4'', lr_proposal_hash = ex_hash,
     lr_evidence_hash = ex_hash, lr_decision_hash = ex_hash, lr_intent_hash = ex_hash,
     lr_idempotency_key = ''local-exec:'' @ ex_hash, lr_operation_type = RemediationOperation.REVOKE_PUBLIC_INGRESS,
     lr_target_resource_type = CloudResourceType.SECURITY_GROUP, lr_target_resource_id = ''sg-0123456789abcdef0'',
     lr_before_resource = Sg lx_group, lr_after_resource = Some (Sg lx_clean), lr_executed_at = 110,
     lr_receipt_hash = ex_hash\<rparr>"

definition lx_readback :: LocalVerificationEvidence where
  "lx_readback = \<lparr>lv_run_id = ex_uuid CHR ''1'', lv_proposal_id = ex_uuid CHR ''4'', lv_receipt_hash = ex_hash,
     lv_operation_type = RemediationOperation.REVOKE_PUBLIC_INGRESS,
     lv_target_resource_type = CloudResourceType.SECURITY_GROUP, lv_target_resource_id = ''sg-0123456789abcdef0'',
     lv_observed_absent = False, lv_observed_resource = Some (Sg lx_clean), lv_verified_at = 120,
     lv_verification_hash = ex_hash\<rparr>"

definition lx_checkpoint ::
    "WorkflowState \<Rightarrow> LocalExecutionReceipt option \<Rightarrow> LocalVerificationEvidence option \<Rightarrow> Checkpoint" where
  "lx_checkpoint safe receipt readback = \<lparr>c_run_id = ex_uuid CHR ''1'', c_last_safe_state = safe, c_resume_metadata = [],
     c_tool_result_hashes = [], c_resource_evidence = Some lx_evidence, c_remediation_proposal = Some lx_awaiting,
     c_local_approval_request = Some lx_request, c_local_approval = Some lx_decision,
     c_local_execution_intent = Some lx_intent, c_local_execution_receipt = receipt,
     c_local_verification = readback, c_created_at = 110, c_version = 4\<rparr>"

definition lx_store :: "WorkflowState \<Rightarrow> Checkpoint \<Rightarrow> Repo" where
  "lx_store s c = empty_repo\<lparr>d_runs := [(ex_uuid CHR ''1'', ex_run_at s 7)], d_checkpoints := [(ex_uuid CHR ''1'', c)]\<rparr>"

definition lx_process :: "datetime list \<Rightarrow> HitlWorld" where
  "lx_process ts = \<lparr>lw_file = NoInventory, lw_schedule = [], lw_clock = ts, lw_execute_calls = 0, lw_mutation_calls = 0,
     lw_reconciled_calls = 0, hw_request_ids = [], hw_event_ids = [], hw_nonces = []\<rparr>"

lemma lx_clean_ok: "valid_resource (Sg lx_clean)"
proof -
  have "aws_resource_id ''sg-'' (z_resource_id lx_clean)" "short_identifier (z_region lx_clean)"
    "aws_resource_id ''vpc-'' (z_vpc_id lx_clean)" "valid_tags (z_tags lx_clean)" by code_simp+
  moreover have "list_all valid_rule (z_inbound_rules lx_clean)" "list_all valid_rule (z_outbound_rules lx_clean)"
    using ex_public_rules by (simp_all add: lx_clean_def lx_group_def)
  ultimately show ?thesis by simp
qed

lemma lx_awaiting_ok: "valid_remediation_proposal ex_L lx_awaiting"
  using lx_proposal_ok by (simp add: lx_awaiting_def valid_remediation_proposal_def action_payload_def stable_fingerprint_def)

lemma lx_request_ok: "valid_local_request ex_L lx_request"
  using lx_words by (simp add: valid_local_request_def lx_request_def)

lemma lx_effect_ok: "mutation_effect_ok RemediationOperation.REVOKE_PUBLIC_INGRESS (Sg lx_group) (Some (Sg lx_clean))"
proof -
  have "same_dict (z_tags lx_clean) (z_tags lx_group)" by code_simp
  then show ?thesis by (simp add: lx_clean_def lx_group_def)
qed

lemma lx_receipt_ok: "valid_receipt ex_L lx_receipt"
  using lx_words lx_group_ok lx_clean_ok lx_effect_ok
  by (simp add: valid_receipt_def lx_receipt_def del: valid_resource.simps mutation_effect_ok.simps)
    (simp add: lx_group_def)

lemma lx_readback_ok: "valid_local_verification ex_L lx_readback"
  using lx_words lx_clean_ok
  by (simp add: valid_local_verification_def lx_readback_def observation_ok_def del: valid_resource.simps)
    (simp add: lx_clean_def lx_group_def)

lemma lx_bound:
  "proposal_bound (ex_uuid CHR ''1'') (Some lx_evidence) lx_awaiting"
  "request_bound (ex_uuid CHR ''1'') (Some lx_awaiting) lx_request"
  "approval_bound (ex_uuid CHR ''1'') (Some lx_request) lx_decision"
  "intent_bound (ex_uuid CHR ''1'') (Some lx_awaiting) (Some lx_decision) lx_intent"
  "receipt_bound (ex_uuid CHR ''1'') (Some lx_intent) lx_receipt"
  by (simp_all add: bound_defs lx_awaiting_def lx_proposal_def lx_evidence_def lx_request_def lx_decision_def lx_intent_def lx_receipt_def)

lemma lx_readback_bound: "verification_bound (ex_uuid CHR ''1'') (Some lx_receipt) lx_readback"
  using same_resource_refl [OF lx_clean_ok]
  by (simp add: bound_defs lx_readback_def lx_receipt_def del: same_resource.simps)

lemma lx_checkpoint_ok:
  assumes "safe \<notin> {WorkflowState.EXECUTING, WorkflowState.VERIFYING}"
    and "(r, v) \<in> {(None, None), (Some lx_receipt, None), (Some lx_receipt, Some lx_readback)}"
  shows "valid_checkpoint ex_L (lx_checkpoint safe r v)"
  using assms lx_evidence_ok lx_awaiting_ok lx_request_ok lx_decision_ok lx_intent_ok lx_receipt_ok lx_readback_ok
    lx_bound lx_readback_bound
  by (auto simp: valid_checkpoint_def checkpoint_bindings_def lx_checkpoint_def dict_ok_def)

lemma lx_store_ok:
  assumes "valid_checkpoint ex_L c" and "c_run_id c = ex_uuid CHR ''1''"
  shows "repo_ok ex_L (lx_store s c)"
proof -
  have "valid_run (ex_run_at s 7)" by (rule ex_valid_run_at) simp
  moreover have "r_run_id (ex_run_at s 7) = ex_uuid CHR ''1''" by (simp add: ex_run_at_def ex_run_def)
  ultimately show ?thesis using assms
    by (simp add: repo_ok_def repo_ok_defs lx_store_def empty_repo_def dict_ok_def MAX_DURABLE_RUNS_def count_audit_events_def)
qed

subsection \<open>The calls\<close>

abbreviation lx_flow :: "(Repo \<times> HitlWorld) LocalHitlExecutionFlow" where
  "lx_flow \<equiv> hitl_system (mem_repository ex_L) ex_L (\<lambda>_. None) default_mock_resources 600"

lemma lx_stored [simp]:
  "dget (d_runs (lx_store s c)) (ex_uuid CHR ''1'') = Some (ex_run_at s 7)"
  "dget (d_checkpoints (lx_store s c)) (ex_uuid CHR ''1'') = Some c"
  by (simp_all add: lx_store_def)

lemma lx_fields [simp]:
  "c_run_id (lx_checkpoint s r v) = ex_uuid CHR ''1''" "c_resource_evidence (lx_checkpoint s r v) = Some lx_evidence"
  "c_remediation_proposal (lx_checkpoint s r v) = Some lx_awaiting"
  "c_local_approval (lx_checkpoint s r v) = Some lx_decision" "c_local_approval_request (lx_checkpoint s r v) = Some lx_request"
  "c_local_execution_intent (lx_checkpoint s r v) = Some lx_intent"
  "c_local_execution_receipt (lx_checkpoint s r v) = r" "c_local_verification (lx_checkpoint s r v) = v"
  "c_last_safe_state (lx_checkpoint s r v) = s"
  "la_actor_session_id lx_decision = ''operator''" "la_decision lx_decision = ApprovalDecision.APPROVED"
  "rp_expires_at lx_awaiting = 86400000106" "r_state (ex_run_at s 7) = s" "r_run_id (ex_run_at s 7) = ex_uuid CHR ''1''"
  "r_updated_at (ex_run_at s 7) = 106"
  by (simp_all add: lx_checkpoint_def lx_decision_def lx_awaiting_def lx_proposal_def ex_run_at_def ex_run_def)

lemma lx_context: "local_context_bound (ex_run_at s 7) lx_evidence lx_awaiting"
  by (simp add: local_context_bound_def lx_evidence_def lx_awaiting_def lx_proposal_def ex_run_at_def ex_run_def)

lemma lx_load: "hitl_load lx_flow (ex_uuid CHR ''1'') (lx_store s (lx_checkpoint safe r v), w)
   = (Inr (Inr (ex_run_at s 7, lx_checkpoint safe r v, lx_evidence, lx_awaiting)), lx_store s (lx_checkpoint safe r v), w)"
  by (rule hitl_load_mem) (simp_all add: lx_context)

lemma lx_completed:
  "hitl_resume ex_L lx_flow (ex_uuid CHR ''1'') ''operator''
     (lx_store WorkflowState.SUCCESS_WITH_EVIDENCE (lx_checkpoint WorkflowState.SUCCESS_WITH_EVIDENCE (Some lx_receipt) (Some lx_readback)), w)
   = (Inr (Succeeded \<lparr>lp_run_id = ex_uuid CHR ''1'', lp_proposal_id = ex_uuid CHR ''4'', lp_decision = ApprovalDecision.APPROVED,
        lp_final_state = WorkflowState.SUCCESS_WITH_EVIDENCE, lp_approval = lx_decision, lp_receipt = Some lx_receipt,
        lp_verification = Some lx_readback, lp_reconciled = True\<rparr>),
      lx_store WorkflowState.SUCCESS_WITH_EVIDENCE (lx_checkpoint WorkflowState.SUCCESS_WITH_EVIDENCE (Some lx_receipt) (Some lx_readback)), w)"
proof -
  have "rp_proposal_id lx_awaiting = ex_uuid CHR ''4''" "lr_run_id lx_receipt = ex_uuid CHR ''1''"
    "lr_proposal_id lx_receipt = ex_uuid CHR ''4''" "lv_receipt_hash lx_readback = lr_receipt_hash lx_receipt"
    by (simp_all add: lx_awaiting_def lx_proposal_def lx_receipt_def lx_readback_def)
  then show ?thesis
    by (simp add: hitl_resume_def hitl_loaded_def andThen_def lx_load hitl_resume_success_def hitl_completed_def
        lift_def validated_def valid_local_completion_def ret_def)
qed

theorem local_success_has_proof_witness:
  "\<exists>run (c :: Checkpoint). dget (d_runs (lx_store WorkflowState.SUCCESS_WITH_EVIDENCE
        (lx_checkpoint WorkflowState.SUCCESS_WITH_EVIDENCE (Some lx_receipt) (Some lx_readback)))) (ex_uuid CHR ''1'') = Some run
     \<and> r_state run = WorkflowState.SUCCESS_WITH_EVIDENCE
     \<and> (\<exists>i r v. c_local_execution_intent c = Some i \<and> c_local_execution_receipt c = Some r \<and> c_local_verification c = Some v
          \<and> lr_intent_hash r = li_intent_hash i \<and> lv_receipt_hash v = lr_receipt_hash r)"
proof -
  have "repo_ok ex_L (lx_store WorkflowState.SUCCESS_WITH_EVIDENCE
      (lx_checkpoint WorkflowState.SUCCESS_WITH_EVIDENCE (Some lx_receipt) (Some lx_readback)))"
    by (rule lx_store_ok [OF lx_checkpoint_ok]) simp_all
  from local_success_has_proof [OF mem.durable_truth_axioms this lx_completed] show ?thesis by simp blast
qed

theorem expired_terminal_resume_raises_witness:
  "hitl_resume ex_L lx_flow (ex_uuid CHR ''1'') ''operator''
     (lx_store WorkflowState.VERIFICATION_FAILED (lx_checkpoint WorkflowState.APPROVED (Some lx_receipt) None),
      lx_process [Utc 86400000107, Utc 86400000108])
   = (Inl WorkflowTransitionError, lx_store WorkflowState.VERIFICATION_FAILED (lx_checkpoint WorkflowState.APPROVED (Some lx_receipt) None),
      (lx_process [Utc 86400000107, Utc 86400000108])\<lparr>lw_clock := []\<rparr>)"
  by (rule expired_terminal_resume_raises [where c = "lx_checkpoint WorkflowState.APPROVED (Some lx_receipt) None" and run = "ex_run_at WorkflowState.VERIFICATION_FAILED 7" and e = lx_evidence
        and p = lx_awaiting and a = lx_decision and now = 86400000107 and later_now = "Utc 86400000108"])
    (simp_all add: lx_context lx_process_def TERMINAL_WORKFLOW_STATES_def)

theorem expired_execution_stays_unverified_witness:
  "\<exists>d. hitl_resume ex_L lx_flow (ex_uuid CHR ''1'') ''operator''
     (lx_store WorkflowState.VERIFYING (lx_checkpoint WorkflowState.APPROVED (Some lx_receipt) None),
      lx_process [Utc 86400000107, Utc 86400000108])
   = (Inr (hitl_failed FailureKind.RECOVERY_REQUIREMENT ''LOCAL_APPROVAL_EXPIRED_BEFORE_EXECUTION''
         ''Approved proposal expired before protected execution''), d,
      (lx_process [Utc 86400000107, Utc 86400000108])\<lparr>lw_clock := []\<rparr>)"
proof -
  have "valid_run (ex_run_at WorkflowState.VERIFYING 7)" by (rule ex_valid_run_at) simp
  note unverified = expired_execution_stays_unverified [where c = "lx_checkpoint WorkflowState.APPROVED (Some lx_receipt) None"
      and run = "ex_run_at WorkflowState.VERIFYING 7" and e = lx_evidence and p = lx_awaiting and a = lx_decision
      and now = 86400000107 and t = 86400000108 and ts = "[]", OF _ _ _ _ _ lx_context _ _ _ _ this]
  show ?thesis by (rule exI, rule unverified) (simp_all add: lx_process_def)
qed

lemma lx_flow_simps:
  "lh_repository lx_flow = store_side (mem_repository ex_L)" "lh_clock lx_flow = on_process local_clock"
  "le_get_receipt (lh_executor lx_flow) key = on_process (inventory_call ex_L (\<lambda>_. None) default_mock_resources
     (store_read ex_L default_mock_resources (find_receipt key)))"
  "le_execute (lh_executor lx_flow) p e a i = on_process (mock_execute ex_L (\<lambda>_. None) default_mock_resources p e a i)"
  by (simp_all add: hitl_system_def mock_executor_def)

lemma lx_no_receipt: "find_receipt key (initial_inventory default_mock_resources) = Inr None"
  by (simp add: find_receipt_def initial_inventory_def)

lemma lx_changes:
  "\<exists>w'. hitl_resume ex_L lx_flow (ex_uuid CHR ''1'') ''operator''
     (lx_store WorkflowState.EXECUTING (lx_checkpoint WorkflowState.APPROVED None None), lx_process [Utc 109, Utc 110])
   = (Inl OtherError, lx_store WorkflowState.EXECUTING (lx_checkpoint WorkflowState.APPROVED None None), w')
   \<and> lw_mutation_calls w' = 1"
proof -
  let ?d = "lx_store WorkflowState.EXECUTING (lx_checkpoint WorkflowState.APPROVED None None)"
  let ?c = "lx_checkpoint WorkflowState.APPROVED None None" and ?run = "ex_run_at WorkflowState.EXECUTING 7"
  from lx_executes obtain r f where e: "lx_execute Quiet NoInventory = (Inr (r, True), f)" by blast
  have m: "\<lparr>mu_proposal = lx_awaiting, mu_evidence = lx_evidence, mu_approval = lx_decision, mu_intent = lx_intent,
      mu_executed_at = Utc 110\<rparr> = lx_mutation"
    by (simp add: lx_mutation_def lx_awaiting_def)
  have read: "le_get_receipt (lh_executor lx_flow) (li_idempotency_key lx_intent) (?d, lx_process [Utc 110])
      = (Inr None, ?d, lx_process [Utc 110])"
    by (simp add: lx_flow_simps on_process_def inventory_call_def store_read_def other_executions_def lx_process_def
        load_inventory_def lx_no_receipt)
  define w where "w = (lx_process [])\<lparr>lw_file := f, lw_execute_calls := 1, lw_mutation_calls := 1\<rparr>"
  have call: "le_execute (lh_executor lx_flow) lx_awaiting lx_evidence lx_decision lx_intent (?d, lx_process [Utc 110])
      = (Inr r, ?d, w)"
    using e by (simp add: lx_flow_simps on_process_def mock_execute_def andThen_def local_clock_def lx_process_def
        inventory_call_def other_executions_def m lx_execute_def w_def)
  have last: "on_process local_clock (?d, w) = (Inl OtherError, ?d, w)"
    by (simp add: on_process_def local_clock_def w_def lx_process_def)
  have "hitl_execute ex_L lx_flow lx_evidence lx_awaiting lx_decision (?run, ?c) (?d, lx_process [Utc 110]) = (Inl OtherError, ?d, w)"
    by (simp add: hitl_execute_def tryThen_def andThen_def hitl_obtain_receipt_def read call hitl_file_receipt_def
        hitl_save_def hitl_next_checkpoint_def lx_flow_simps(2) last hitl_execution_error_def ret_def)
  moreover have "on_process local_clock (?d, lx_process [Utc 109, Utc 110]) = (Inr (Utc 109), ?d, lx_process [Utc 110])"
    by (simp add: on_process_def local_clock_def lx_process_def)
  ultimately have "hitl_resume ex_L lx_flow (ex_uuid CHR ''1'') ''operator'' (?d, lx_process [Utc 109, Utc 110]) = (Inl OtherError, ?d, w)"
    by (simp add: hitl_resume_def hitl_loaded_def andThen_def lx_load hitl_resume_active_def lx_flow_simps(2) lift_def hitl_now_def
        hitl_continue_def hitl_own_def ret_def)
  then show ?thesis by (simp add: w_def)
qed


definition lx_answer :: LocalDecisionRequest where
  "lx_answer = \<lparr>ld_request_id = ex_uuid CHR ''5'', ld_run_id = ex_uuid CHR ''1'', ld_proposal_id = ex_uuid CHR ''4'',
     ld_request_hash = ex_hash, ld_proposal_hash = ex_hash, ld_evidence_hash = ex_hash, ld_proposal_version = 1,
     ld_decision = ApprovalDecision.APPROVED, ld_decision_nonce = ''0123456789abcdef''\<rparr>"

lemma lx_decides:
  "hitl_decide ex_L lx_flow lx_answer ''operator''
     (lx_store WorkflowState.APPROVED (lx_checkpoint WorkflowState.APPROVED None None), w)
   = (Inr (Succeeded \<lparr>ls_run_id = ex_uuid CHR ''1'', ls_proposal_id = ex_uuid CHR ''4'', ls_request_id = ex_uuid CHR ''5'',
        ls_request_hash = ex_hash, ls_decision_hash = ex_hash, ls_decision = ApprovalDecision.APPROVED,
        ls_final_state = WorkflowState.APPROVED, ls_reconciled = True\<rparr>),
      lx_store WorkflowState.APPROVED (lx_checkpoint WorkflowState.APPROVED None None), w)"
proof -
  let ?d = "lx_store WorkflowState.APPROVED (lx_checkpoint WorkflowState.APPROVED None None)"
  have nonce: "sha256_hex ex_L n = ex_hash" for n by (simp add: example_platform_def ex_hash_def)
  have match: "decision_matches_request ex_L lx_answer ''operator'' lx_request"
    by (simp add: decision_matches_request_def nonce lx_answer_def lx_request_def)
  have fields: "ld_run_id lx_answer = ex_uuid CHR ''1''" "la_request_id lx_decision = ld_request_id lx_answer"
    "la_request_hash lx_decision = ld_request_hash lx_answer" "ld_decision lx_answer = ApprovalDecision.APPROVED"
    "la_decision_nonce_hash lx_decision = ex_hash" "la_proposal_id lx_decision = ex_uuid CHR ''4''"
    "ld_request_id lx_answer = ex_uuid CHR ''5''" "ld_request_hash lx_answer = ex_hash" "la_decision_hash lx_decision = ex_hash"
    by (simp_all add: lx_answer_def lx_decision_def)
  show ?thesis
    by (simp add: hitl_decide_def hitl_loaded_def andThen_def fields lx_load match hitl_replay_decision_def nonce
        hitl_apply_decision_state_def tryThen_def ret_def decision_state_def lift_def local_resolution_def
        validated_def valid_resolution_def)
qed

theorem decision_recorded_matches_challenge_witness:
  "\<exists>(q :: LocalApprovalRequestRecord) (a :: LocalApprovalDecisionRecord). sha256_hex ex_L ''0123456789abcdef'' = lq_decision_nonce_hash q
     \<and> la_decision a = ApprovalDecision.APPROVED \<and> la_request_hash a = lq_request_hash q \<and> la_actor_session_id a = ''operator''"
proof -
  have "repo_ok ex_L (lx_store WorkflowState.APPROVED (lx_checkpoint WorkflowState.APPROVED None None))"
    by (rule lx_store_ok [OF lx_checkpoint_ok]) simp_all
  from decision_recorded_matches_challenge [OF mem.durable_truth_axioms this lx_decides, of "lx_process []"]
  obtain q :: LocalApprovalRequestRecord and a :: LocalApprovalDecisionRecord where "sha256_hex ex_L (ld_decision_nonce lx_answer) = lq_decision_nonce_hash q" "la_decision a = ld_decision lx_answer"
    "la_request_hash a = lq_request_hash q" "la_actor_session_id a = ''operator''" by blast
  then show ?thesis by (intro exI [of _ q] exI [of _ a]) (simp add: lx_answer_def)
qed

end
