(* ===== verification/Local_First.thy ===== *)
theory Local_First
  imports Local_Hitl
begin

text \<open>
  \<open>agent/local_first.py\<close>: the read-only half of the local workflow as a durable flow. A run is created
  or reconciled, the resource is queried, the evidence is checkpointed, the model's plan is compared with
  policy, and the run stops at the approval boundary or at a terminal state that needs no approval.
\<close>

subsection \<open>Python text of a JSON value\<close>

text \<open>
  \<open>str(x)\<close>: a string is itself, anything else its \<open>repr\<close>. A string is quoted with single quotes unless it
  contains one and no double quote; backslash, the quote, and unprintable characters are escaped.
\<close>

definition repr_char :: "nat \<Rightarrow> char \<Rightarrow> string" where
  "repr_char quote c =
     (let n = of_char c :: nat; b = char_of (92 :: nat) in
      if n = 92 \<or> n = quote then [b, c]
      else if n = 10 then [b, CHR ''n'']
      else if n = 13 then [b, CHR ''r'']
      else if n = 9 then [b, CHR ''t'']
      else if n < 32 \<or> (127 \<le> n \<and> n \<le> 160) \<or> n = 173
      then [b, CHR ''x'', hex_digit (n div 16), hex_digit (n mod 16)]
      else [c])"

definition repr_string :: "string \<Rightarrow> string" where
  "repr_string s =
     (let quote = (if char_of (39 :: nat) \<in> set s \<and> char_of (34 :: nat) \<notin> set s then 34 else 39 :: nat) in
      [char_of quote] @ concat (map (repr_char quote) s) @ [char_of quote])"

fun join_comma_space :: "string list \<Rightarrow> string" where
  "join_comma_space [] = []"
| "join_comma_space [x] = x"
| "join_comma_space (x # y # zs) = x @ '', '' @ join_comma_space (y # zs)"

fun py_repr :: "json \<Rightarrow> string" where
  "py_repr JNull = ''None''"
| "py_repr (JBool b) = (if b then ''True'' else ''False'')"
| "py_repr (JInt i) = digits_int i"
| "py_repr (JStr s) = repr_string s"
| "py_repr (JArr xs) = ''['' @ join_comma_space (map py_repr xs) @ '']''"
| "py_repr (JObj kvs) =
     ''{'' @ join_comma_space (map (\<lambda>(k, v). repr_string k @ '': '' @ py_repr v) kvs) @ ''}''"

fun py_str :: "json \<Rightarrow> string" where
  "py_str (JStr s) = s"
| "py_str v = py_repr v"

subsection \<open>The digest of a new run\<close>

text \<open>\<open>run.model_dump(mode="json")\<close>.\<close>

definition budget_json :: "BudgetCounters \<Rightarrow> json" where
  "budget_json b = JObj
     [(''max_turns'', JInt (b_max_turns b)), (''max_tokens'', JInt (b_max_tokens b)),
      (''max_elapsed_seconds'', JInt (b_max_elapsed_seconds b)), (''turns_used'', JInt (b_turns_used b)),
      (''tokens_used'', JInt (b_tokens_used b)),
      (''elapsed_milliseconds_used'', JInt (b_elapsed_milliseconds_used b))]"

definition run_json :: "Platform \<Rightarrow> Run \<Rightarrow> json" where
  "run_json L r = JObj
     [(''run_id'', JStr (r_run_id r)), (''trace_id'', JStr (r_trace_id r)),
      (''correlation_id'', JStr (r_correlation_id r)), (''idempotency_key'', JStr (r_idempotency_key r)),
      (''state'', JStr (WorkflowState_value (r_state r))),
      (''created_at'', JStr (json_datetime L (r_created_at r))),
      (''updated_at'', JStr (json_datetime L (r_updated_at r))),
      (''budget'', budget_json (r_budget r)), (''version'', JInt (r_version r))]"

subsection \<open>The deterministic model\<close>

text \<open>\<open>providers/model.py\<close>: the plan text of \<open>MockModelProvider\<close>, or the failure it is told to raise.\<close>

datatype MockModelFailure =
    NONE | MALFORMED | TRUNCATED | INVALID_STRUCTURED | PROVIDER_ERROR | TIMEOUT | CONNECTION_FAILURE | RATE_LIMIT
  | MODEL_UNAVAILABLE | CONFIGURATION_ERROR | POLICY_INVALID | EMPTY | APPROVAL_REQUIRED | DENIED_ACTION
  | RETRYABLE_ERROR | NON_RETRYABLE_ERROR

fun scripted_failure :: "MockModelFailure \<Rightarrow> exc option" where
  "scripted_failure MockModelFailure.PROVIDER_ERROR = Some ModelProviderError"
| "scripted_failure MockModelFailure.TIMEOUT = Some ModelProviderTimeoutError"
| "scripted_failure MockModelFailure.RETRYABLE_ERROR = Some ModelProviderRetryableError"
| "scripted_failure MockModelFailure.CONNECTION_FAILURE = Some ModelProviderRetryableError"
| "scripted_failure MockModelFailure.RATE_LIMIT = Some ModelProviderRetryableError"
| "scripted_failure MockModelFailure.NON_RETRYABLE_ERROR = Some ModelProviderNonRetryableError"
| "scripted_failure MockModelFailure.MODEL_UNAVAILABLE = Some ModelProviderNonRetryableError"
| "scripted_failure MockModelFailure.CONFIGURATION_ERROR = Some ModelProviderNonRetryableError"
| "scripted_failure _ = None"

text \<open>\<open>candidate.model_dump(mode="json", exclude_none=True)\<close>.\<close>

definition candidate_json :: "ModelPlanCandidate \<Rightarrow> json" where
  "candidate_json c = JObj
     ([(''disposition'', JStr (PlanDisposition_value (mc_disposition c)))]
      @ (case mc_operation_type c of None \<Rightarrow> [] | Some x \<Rightarrow> [(''operation_type'', JStr (RemediationOperation_value x))])
      @ (case mc_target_resource_type c of None \<Rightarrow> []
         | Some x \<Rightarrow> [(''target_resource_type'', JStr (CloudResourceType_value x))])
      @ (case mc_target_resource_id c of None \<Rightarrow> [] | Some x \<Rightarrow> [(''target_resource_id'', JStr x)])
      @ (case mc_normalized_parameters c of None \<Rightarrow> [] | Some x \<Rightarrow> [(''normalized_parameters'', JObj x)])
      @ (case mc_claimed_authority c of None \<Rightarrow> [] | Some x \<Rightarrow> [(''claimed_authority'', JStr (AuthorityGate_value x))]))"

definition scripted_plan :: "ResourceEvidence \<Rightarrow> string \<Rightarrow> AuthorityGate \<Rightarrow> string" where
  "scripted_plan evidence operation authority = dumps (JObj
     [(''disposition'', JStr (PlanDisposition_value PlanDisposition.PROPOSAL)),
      (''operation_type'', JStr operation),
      (''target_resource_type'', JStr (CloudResourceType_value (res_type (re_resource evidence)))),
      (''target_resource_id'', JStr (res_id (re_resource evidence))),
      (''normalized_parameters'', JObj [(''target'', JStr (res_id (re_resource evidence)))]),
      (''claimed_authority'', JStr (AuthorityGate_value authority))])"

definition mock_create_plan :: "MockModelFailure \<Rightarrow> ResourceEvidence \<Rightarrow> exc + string" where
  "mock_create_plan told evidence =
     (case scripted_failure told of Some e \<Rightarrow> Inl e
      | None \<Rightarrow>
          if told = MockModelFailure.MALFORMED then Inr ''{not-json''
          else if told = MockModelFailure.TRUNCATED
          then Inr (''{'' @ quote_string ''disposition'' @ '':'' @ quote_string ''PROPOSAL'')
          else if told = MockModelFailure.INVALID_STRUCTURED
          then Inr (''{'' @ quote_string ''unexpected'' @ '': '' @ quote_string ''provider-shape'' @ ''}'')
          else if told = MockModelFailure.EMPTY then Inr []
          else if told = MockModelFailure.POLICY_INVALID
          then Inr (scripted_plan evidence ''RELEASE_ELASTIC_IP'' AuthorityGate.AUTO)
          else if told = MockModelFailure.DENIED_ACTION
          then Inr (scripted_plan evidence ''TERMINATE_INSTANCE'' AuthorityGate.NEVER_AUTONOMOUS)
          else (case canonical_model_candidate evidence of
              Inl e \<Rightarrow> Inl e | Inr candidate \<Rightarrow> Inr (dumps (candidate_json candidate))))"

subsection \<open>Results\<close>

record LocalFirstCompletion =
  fc_run_id :: uuid
  fc_trace_id :: uuid
  fc_correlation_id :: uuid
  fc_evidence :: ResourceEvidence
  fc_plan :: RemediationPlan
  fc_final_state :: WorkflowState
  fc_public_state :: ExecutionState
  fc_approval_status :: ApprovalStatus
  fc_reconciled :: bool

definition LOCAL_FIRST_FINAL_STATES :: "WorkflowState set" where
  "LOCAL_FIRST_FINAL_STATES =
     {WorkflowState.AWAITING_APPROVAL, WorkflowState.NO_ACTION_REQUIRED, WorkflowState.RECOMMENDATION_ONLY}"

text \<open>\<open>authorizes_execution\<close> of a proposal is the literal \<open>False\<close>, so its checks always pass.\<close>

definition valid_first_completion :: "LocalFirstCompletion \<Rightarrow> bool" where
  "valid_first_completion y \<longleftrightarrow>
     uuid7 (fc_run_id y) \<and> uuid7 (fc_trace_id y) \<and> uuid7 (fc_correlation_id y)
     \<and> fc_final_state y \<in> LOCAL_FIRST_FINAL_STATES
     \<and> re_run_id (fc_evidence y) = fc_run_id y \<and> re_trace_id (fc_evidence y) = fc_trace_id y
     \<and> re_correlation_id (fc_evidence y) = fc_correlation_id y
     \<and> pl_evidence_hash (fc_plan y) = re_evidence_hash (fc_evidence y)
     \<and> (if fc_final_state y = WorkflowState.AWAITING_APPROVAL
        then fc_public_state y = ExecutionState.PENDING
          \<and> fc_approval_status y = ApprovalStatus.PENDING_APPROVAL
          \<and> pl_disposition (fc_plan y) = PlanDisposition.PROPOSAL
          \<and> (case pl_proposal (fc_plan y) of None \<Rightarrow> False
             | Some p \<Rightarrow> rp_status p = ProposalState.AWAITING_APPROVAL)
        else fc_public_state y = ExecutionState.SUCCESS \<and> fc_approval_status y = ApprovalStatus.NOT_REQUIRED)"

subsection \<open>The flow\<close>

text \<open>
  \<open>ph_parse\<close> is the strict parse of the planner; the model is a program that returns the text of a plan
  or raises.
\<close>

record 's LocalFirstPhaseOneFlow =
  ph_query :: "'s QueryResource"
  ph_parse :: "string \<Rightarrow> ModelPlanCandidate option"
  ph_model :: "ResourceEvidence \<Rightarrow> ('s, string) prog"
  ph_repository :: "'s DurableTruthRepository"
  ph_clock :: "('s, datetime) prog"
  ph_proposal_id_factory :: "('s, uuid) prog"
  ph_event_id_factory :: "('s, uuid) prog"

type_synonym LocalFirstResult = "LocalFirstCompletion ControlResult"

definition first_failed :: "FailureKind \<Rightarrow> string \<Rightarrow> string \<Rightarrow> LocalFirstResult" where
  "first_failed kind reason message = Failed (failure kind reason message False)"

definition first_storage_failed :: "string \<Rightarrow> LocalFirstResult" where
  "first_storage_failed message =
     Failed (failure FailureKind.STORAGE_FAILURE ''LOCAL_STATE_STORE_UNAVAILABLE'' message True)"

text \<open>\<open>except (StorageConflictError, StorageDependencyError): return ...\<close>.\<close>

definition on_storage :: "('s, 'a) prog \<Rightarrow> exc \<Rightarrow> ('s, 'a) prog option" where
  "on_storage m e = (if e \<in> storage_errors then Some m else None)"

definition first_transition ::
    "'s LocalFirstPhaseOneFlow \<Rightarrow> Run \<Rightarrow> WorkflowState \<Rightarrow> ('s, Run) prog" where
  "first_transition F run next_state =
     andThen (ph_clock F) (\<lambda>now.
     op_transition_run (ph_repository F) (r_run_id run) next_state (r_state run) (r_version run) now None None)"

definition first_append_event ::
    "'s LocalFirstPhaseOneFlow \<Rightarrow> Run \<Rightarrow> AuditEventType \<Rightarrow> string \<Rightarrow> string \<Rightarrow> (string, string) dict
     \<Rightarrow> ('s, unit) prog" where
  "first_append_event F run event_type payload_hash source metadata =
     emit_event (ph_repository F) (ph_clock F) (ph_event_id_factory F) source None (r_run_id run)
       event_type payload_hash
       (dmerge [(''trace_id'', r_trace_id run), (''correlation_id'', r_correlation_id run)] metadata)"

definition first_persist_failure ::
    "'s LocalFirstPhaseOneFlow \<Rightarrow> Run \<Rightarrow> FailureDetail \<Rightarrow> ('s, LocalFirstCompletion) handler" where
  "first_persist_failure F run f =
     tryThen (first_transition F run (workflow_state_for_failure f))
       (on_storage (ret (first_storage_failed ''Typed local failure could not be persisted'')))
       (\<lambda>_. ret (Failed f))"

definition first_completion ::
    "Run \<Rightarrow> ResourceEvidence \<Rightarrow> RemediationPlan \<Rightarrow> bool \<Rightarrow> exc + LocalFirstCompletion" where
  "first_completion run evidence plan reconciled =
     (let pending = (r_state run = WorkflowState.AWAITING_APPROVAL) in
      validated valid_first_completion
        \<lparr>fc_run_id = r_run_id run, fc_trace_id = r_trace_id run, fc_correlation_id = r_correlation_id run,
         fc_evidence = evidence, fc_plan = plan, fc_final_state = r_state run,
         fc_public_state = (if pending then ExecutionState.PENDING else ExecutionState.SUCCESS),
         fc_approval_status = (if pending then ApprovalStatus.PENDING_APPROVAL else ApprovalStatus.NOT_REQUIRED),
         fc_reconciled = reconciled\<rparr>)"

definition first_succeeded ::
    "Run \<Rightarrow> ResourceEvidence \<Rightarrow> RemediationPlan \<Rightarrow> ('s, LocalFirstCompletion) handler" where
  "first_succeeded run evidence plan =
     andThen (lift (first_completion run evidence plan False)) (\<lambda>y. ret (Succeeded y))"

text \<open>A checkpoint of this phase.\<close>

definition first_checkpoint ::
    "Platform \<Rightarrow> Run \<Rightarrow> WorkflowState \<Rightarrow> (string, json) dict \<Rightarrow> (string, string) dict \<Rightarrow> ResourceEvidence
     \<Rightarrow> RemediationProposal option \<Rightarrow> datetime \<Rightarrow> int \<Rightarrow> exc + Checkpoint" where
  "first_checkpoint L run safe metadata hashes evidence proposal now version =
     (case utc_field now of Inl e \<Rightarrow> Inl e
      | Inr created_at \<Rightarrow> validated (valid_checkpoint L)
          \<lparr>c_run_id = r_run_id run, c_last_safe_state = safe, c_resume_metadata = metadata,
           c_tool_result_hashes = hashes, c_resource_evidence = Some evidence,
           c_remediation_proposal = proposal, c_local_approval_request = None, c_local_approval = None,
           c_local_execution_intent = None, c_local_execution_receipt = None, c_local_verification = None,
           c_created_at = created_at, c_version = version\<rparr>)"

definition first_save ::
    "Platform \<Rightarrow> 's LocalFirstPhaseOneFlow \<Rightarrow> Run \<Rightarrow> WorkflowState \<Rightarrow> (string, json) dict
     \<Rightarrow> (string, string) dict \<Rightarrow> ResourceEvidence \<Rightarrow> RemediationProposal option \<Rightarrow> int \<Rightarrow> int option
     \<Rightarrow> ('s, Checkpoint) prog" where
  "first_save L F run safe metadata hashes evidence proposal version expected_version =
     andThen (ph_clock F) (\<lambda>now.
     andThen (lift (first_checkpoint L run safe metadata hashes evidence proposal now version)) (\<lambda>c.
     op_save_checkpoint (ph_repository F) c expected_version))"

definition first_reconcile ::
    "'s LocalFirstPhaseOneFlow \<Rightarrow> Run \<Rightarrow> ('s, LocalFirstCompletion) handler" where
  "first_reconcile F run =
     (if r_state run \<notin> LOCAL_FIRST_FINAL_STATES
      then ret (first_failed FailureKind.RECOVERY_REQUIREMENT ''LOCAL_RUN_ALREADY_ACTIVE''
             ''Existing local run requires explicit recovery'')
      else tryThen (op_get_checkpoint (ph_repository F) (r_run_id run))
        (\<lambda>e. if e = StorageDependencyError
             then Some (ret (first_storage_failed ''Local completion checkpoint is unavailable'')) else None)
        (\<lambda>found. case Option.bind found (\<lambda>c. map_option (Pair c) (c_resource_evidence c)) of
           None \<Rightarrow> ret (first_failed FailureKind.RECOVERY_REQUIREMENT ''LOCAL_CHECKPOINT_MISSING''
                     ''Terminal local run has no complete checkpoint'')
         | Some (c, evidence) \<Rightarrow>
             (let complete = (\<lambda>plan. andThen (lift (validated valid_plan plan)) (\<lambda>plan.
                case first_completion run evidence plan True of
                  Inr y \<Rightarrow> ret (Succeeded y)
                | Inl e \<Rightarrow> if is_value_error e
                    then ret (first_failed FailureKind.RECOVERY_REQUIREMENT ''LOCAL_CHECKPOINT_INVALID''
                           ''Terminal local checkpoint is internally inconsistent'')
                    else raise e)) in
              if r_state run = WorkflowState.NO_ACTION_REQUIRED
              then complete \<lparr>pl_disposition = PlanDisposition.NO_ACTION,
                     pl_evidence_hash = re_evidence_hash evidence, pl_proposal = None,
                     pl_reason = (case dget (c_resume_metadata c) ''reason'' of
                        None \<Rightarrow> ''No action required'' | Some v \<Rightarrow> py_str v)\<rparr>
              else (case c_remediation_proposal c of
                  None \<Rightarrow> ret (first_failed FailureKind.RECOVERY_REQUIREMENT ''LOCAL_PROPOSAL_MISSING''
                            ''Terminal local run has no durable proposal'')
                | Some proposal \<Rightarrow> complete
                    \<lparr>pl_disposition = (if r_state run = WorkflowState.AWAITING_APPROVAL
                        then PlanDisposition.PROPOSAL else PlanDisposition.NON_EXECUTABLE_RECOMMENDATION),
                     pl_evidence_hash = re_evidence_hash evidence, pl_proposal = Some proposal,
                     pl_reason = rp_risk_summary proposal\<rparr>))))"

text \<open>\<open>execute\<close> up to the point where a fresh run is known: a missing run is created, unless another
  client was first.\<close>

definition first_raced ::
    "'s LocalFirstPhaseOneFlow \<Rightarrow> uuid \<Rightarrow> ('s, LocalFirstCompletion) handler" where
  "first_raced F run_id =
     tryThen (op_get_run (ph_repository F) run_id)
       (\<lambda>e. if e = StorageDependencyError
            then Some (ret (first_storage_failed ''Local run reconciliation is unavailable'')) else None)
       (\<lambda>raced. case raced of
          None \<Rightarrow> ret (first_storage_failed ''Local run creation conflicted'')
        | Some run \<Rightarrow> first_reconcile F run)"

definition first_create ::
    "Platform \<Rightarrow> 's LocalFirstPhaseOneFlow \<Rightarrow> Run \<Rightarrow> ('s, LocalFirstResult + Run) prog" where
  "first_create L F run =
     tryThen
       (andThen (op_create_run (ph_repository F) run) (\<lambda>current.
        andThen (first_append_event F current AuditEventType.RUN_CREATED (compute_evidence_digest L (run_json L run))
           ''local-nz-control'' []) (\<lambda>_. ret current)))
       (\<lambda>e. if e = StorageConflictError then Some (ended (first_raced F (r_run_id run)))
            else if e = StorageDependencyError
            then Some (ended (ret (first_storage_failed ''Local run creation is unavailable'')))
            else None)
       (\<lambda>current. ret (Inr current))"

definition first_open ::
    "Platform \<Rightarrow> 's LocalFirstPhaseOneFlow \<Rightarrow> Run \<Rightarrow> ('s, LocalFirstResult + Run) prog" where
  "first_open L F run =
     tryThen (op_get_run (ph_repository F) (r_run_id run))
       (\<lambda>e. if e = StorageDependencyError
            then Some (ended (ret (first_storage_failed ''Local run lookup is unavailable''))) else None)
       (\<lambda>found. case found of
          None \<Rightarrow> first_create L F run
        | Some current \<Rightarrow> if current \<noteq> run then ended (first_reconcile F current) else ret (Inr current))"

definition model_fault :: "exc \<Rightarrow> FailureDetail option" where
  "model_fault e =
     (if e = ModelProviderTimeoutError
      then Some (failure FailureKind.PROVIDER_FAILURE ''MODEL_PROVIDER_TIMEOUT''
             ''Model provider exhausted its bounded response time'' False)
      else if e = ModelProviderNonRetryableError
      then Some (failure FailureKind.PROVIDER_FAILURE ''MODEL_PROVIDER_NON_RETRYABLE_FAILURE''
             ''Model provider returned a permanent failure'' False)
      else if e = ModelProviderRetryableError
      then Some (failure FailureKind.PROVIDER_FAILURE ''MODEL_PROVIDER_RETRYABLE_FAILURE''
             ''Model provider returned a retryable failure'' True)
      else if e = ModelProviderError
      then Some (failure FailureKind.PROVIDER_FAILURE ''MODEL_PROVIDER_FAILED'' ''Model provider is unavailable'' True)
      else if is_exception e
      then Some (failure FailureKind.PROVIDER_FAILURE ''MODEL_PROVIDER_INVALID_FAILURE''
             ''Model provider failed outside its typed contract'' False)
      else None)"

text \<open>\<open>_complete_safe_terminal\<close>.\<close>

definition first_safe_terminal ::
    "Platform \<Rightarrow> 's LocalFirstPhaseOneFlow \<Rightarrow> Run \<Rightarrow> ResourceEvidence \<Rightarrow> RemediationPlan \<Rightarrow> WorkflowState
     \<Rightarrow> AuditEventType \<Rightarrow> ('s, LocalFirstCompletion) handler" where
  "first_safe_terminal L F run evidence plan target event_type =
     (let plan_hash = (case pl_proposal plan of None \<Rightarrow> re_evidence_hash evidence | Some p \<Rightarrow> rp_proposal_hash p) in
      tryThen
        (andThen (first_transition F run target) (\<lambda>current.
         andThen (first_save L F current target
            [(''phase'', JStr ''LOCAL_1''), (''plan_disposition'', JStr (PlanDisposition_value (pl_disposition plan))),
             (''reason'', JStr (pl_reason plan))]
            [(''plan_remediation'', plan_hash), (''query_resource'', re_evidence_hash evidence)]
            evidence (pl_proposal plan) 2 (Some 1)) (\<lambda>_.
         andThen (first_append_event F current event_type plan_hash ''plan-remediation'' []) (\<lambda>_. ret current))))
        (on_storage (ret (first_storage_failed ''Safe terminal plan persistence failed'')))
        (\<lambda>current. first_succeeded current evidence plan))"

text \<open>The protected end of \<open>execute\<close>: the proposal is stored as awaiting approval, then the run waits.\<close>

definition awaiting_proposal :: "Platform \<Rightarrow> RemediationProposal \<Rightarrow> exc + RemediationProposal" where
  "awaiting_proposal L proposal = validated (valid_remediation_proposal L)
     (proposal\<lparr>rp_status := ProposalState.AWAITING_APPROVAL, rp_version := rp_version proposal + 1\<rparr>)"

definition first_await_approval ::
    "Platform \<Rightarrow> 's LocalFirstPhaseOneFlow \<Rightarrow> Run \<Rightarrow> ResourceEvidence \<Rightarrow> RemediationPlan \<Rightarrow> RemediationProposal
     \<Rightarrow> ('s, LocalFirstCompletion) handler" where
  "first_await_approval L F run evidence plan proposal =
     tryThen
       (andThen (first_transition F run WorkflowState.REMEDIATION_PROPOSED) (\<lambda>current.
        andThen (lift (awaiting_proposal L proposal)) (\<lambda>awaiting.
        andThen (first_save L F current WorkflowState.AWAITING_APPROVAL
           [(''phase'', JStr ''LOCAL_1''), (''proposal_hash'', JStr (rp_proposal_hash awaiting)),
            (''proposal_id'', JStr (rp_proposal_id awaiting))]
           [(''plan_remediation'', rp_proposal_hash awaiting), (''query_resource'', re_evidence_hash evidence)]
           evidence (Some awaiting) 2 (Some 1)) (\<lambda>_.
        andThen (first_transition F current WorkflowState.AWAITING_APPROVAL) (\<lambda>current.
        andThen (first_append_event F current AuditEventType.REMEDIATION_PLANNED (rp_proposal_hash awaiting)
           ''plan-remediation''
           [(''proposal_id'', rp_proposal_id awaiting),
            (''authority'', AuthorityGate_value (rp_authority_class awaiting))]) (\<lambda>_.
        andThen (first_append_event F current AuditEventType.APPROVAL_REQUESTED (rp_proposal_hash awaiting)
           ''local-approval-boundary'' [(''proposal_id'', rp_proposal_id awaiting)]) (\<lambda>_.
        ret (current, awaiting))))))))
       (\<lambda>e. if e = StorageConflictError \<or> e = StorageDependencyError \<or> is_value_error e
            then Some (ret (first_storage_failed ''Protected proposal persistence or transition failed'')) else None)
       (\<lambda>(current, awaiting). first_succeeded current evidence (plan\<lparr>pl_proposal := Some awaiting\<rparr>))"

text \<open>What is done with a plan the planner accepted.\<close>

definition first_conclude ::
    "Platform \<Rightarrow> 's LocalFirstPhaseOneFlow \<Rightarrow> Run \<Rightarrow> ResourceEvidence \<Rightarrow> RemediationPlan
     \<Rightarrow> ('s, LocalFirstCompletion) handler" where
  "first_conclude L F run evidence plan =
     (if pl_disposition plan = PlanDisposition.NO_ACTION
      then first_safe_terminal L F run evidence plan WorkflowState.NO_ACTION_REQUIRED AuditEventType.NO_ACTION_RECORDED
      else if pl_disposition plan = PlanDisposition.NON_EXECUTABLE_RECOMMENDATION
      then first_safe_terminal L F run evidence plan WorkflowState.RECOMMENDATION_ONLY
             AuditEventType.RECOMMENDATION_RECORDED
      else (case pl_proposal plan of
          None \<Rightarrow> first_persist_failure F run (failure FailureKind.POLICY_DENIAL ''PROTECTED_PROPOSAL_INVALID''
                    ''Protected plan did not produce inert proposal data'' False)
        | Some proposal \<Rightarrow> first_await_approval L F run evidence plan proposal))"

text \<open>From durable evidence to a plan: the model, then the planner.\<close>

definition first_plan ::
    "Platform \<Rightarrow> 's LocalFirstPhaseOneFlow \<Rightarrow> Run \<Rightarrow> ResourceEvidence \<Rightarrow> ('s, LocalFirstCompletion) handler" where
  "first_plan L F run evidence =
     tryThen (ph_model F evidence) (\<lambda>e. map_option (first_persist_failure F run) (model_fault e)) (\<lambda>raw_plan.
     andThen (ph_proposal_id_factory F) (\<lambda>proposal_id.
     andThen (ph_clock F) (\<lambda>now.
     andThen (lift (plan_execute L (ph_parse F) evidence raw_plan proposal_id now)) (\<lambda>result.
     case result of
       Failed f \<Rightarrow>
         tryThen (first_append_event F run AuditEventType.MODEL_OUTPUT_REJECTED (re_evidence_hash evidence)
             ''local-plan-policy'' [(''failure_code'', f_code f)])
           (on_storage (ret (first_storage_failed ''Rejected model plan audit is unavailable'')))
           (\<lambda>_. first_persist_failure F run f)
     | Succeeded plan \<Rightarrow> first_conclude L F run evidence plan))))"

definition evidence_lost :: FailureDetail where
  "evidence_lost = failure FailureKind.STORAGE_FAILURE ''EVIDENCE_PERSISTENCE_FAILED''
     ''Resource evidence could not be persisted'' True"

text \<open>
  The evidence is audited, the run advances and the first checkpoint is written; a storage error leaves
  \<open>current\<close> as far as it got.
\<close>

definition first_record_evidence ::
    "Platform \<Rightarrow> 's LocalFirstPhaseOneFlow \<Rightarrow> Run \<Rightarrow> ResourceEvidence \<Rightarrow> ('s, LocalFirstResult + Run) prog" where
  "first_record_evidence L F run evidence =
     tryThen
       (andThen (first_append_event F run AuditEventType.RESOURCE_QUERIED (re_evidence_hash evidence) ''query-resource''
          [(''resource_id'', res_id (re_resource evidence)),
           (''resource_type'', CloudResourceType_value (res_type (re_resource evidence)))]) (\<lambda>_.
        first_transition F run WorkflowState.EVIDENCE_READY))
       (on_storage (ended (first_persist_failure F run evidence_lost)))
       (\<lambda>current.
     tryThen
       (first_save L F current WorkflowState.EVIDENCE_READY [(''phase'', JStr ''LOCAL_1'')]
          [(''query_resource'', re_evidence_hash evidence)] evidence None 1 None)
       (on_storage (ended (first_persist_failure F current evidence_lost)))
       (\<lambda>_. ret (Inr current)))"

definition first_investigate ::
    "Platform \<Rightarrow> 's LocalFirstPhaseOneFlow \<Rightarrow> ResourceQuery \<Rightarrow> Run \<Rightarrow> ('s, LocalFirstCompletion) handler" where
  "first_investigate L F query current =
     andThen (ph_clock F) (\<lambda>observed_at.
     andThen (query_execute L (ph_query F) query current observed_at) (\<lambda>result. case result of
       Failed f \<Rightarrow> first_persist_failure F current f
     | Succeeded evidence \<Rightarrow>
         andThen (first_record_evidence L F current evidence) (\<lambda>recorded. case recorded of
           Inl r \<Rightarrow> ret r
         | Inr current \<Rightarrow> first_plan L F current evidence)))"

definition first_execute ::
    "Platform \<Rightarrow> 's LocalFirstPhaseOneFlow \<Rightarrow> Run \<Rightarrow> ResourceQuery \<Rightarrow> ('s, LocalFirstCompletion) handler" where
  "first_execute L F run query =
     andThen (first_open L F run) (\<lambda>opened. case opened of Inl r \<Rightarrow> ret r
     | Inr current \<Rightarrow>
         if r_state current \<noteq> WorkflowState.RECEIVED
         then ret (first_failed FailureKind.RECOVERY_REQUIREMENT ''LOCAL_RUN_STATE_INVALID''
                ''Local flow can start only from RECEIVED'')
         else tryThen (first_transition F current WorkflowState.INVESTIGATING)
           (on_storage (ret (first_storage_failed ''Durable INVESTIGATING transition failed'')))
           (first_investigate L F query))"

end
