(* ===== verification/Local_First_Guarantees.thy ===== *)
theory Local_First_Guarantees
  imports Local_First Durable_Assertions
begin

text \<open>
  What a call of \<open>LocalFirstPhaseOneFlow.execute\<close> establishes over any durable store with other clients:
  a success it reports is backed by a stored run and a stored checkpoint, and a fresh plan is the one
  policy derives from the stored evidence, whatever the model answered.
\<close>

subsection \<open>The environment of the flow\<close>

text \<open>No collaborator touches the store or \<open>rest\<close>.\<close>

locale first_environment = durable_truth L R view rest
  for L :: Platform and R :: "'s DurableTruthRepository" and view :: "'s \<Rightarrow> Repo" and rest :: "'s \<Rightarrow> 'r" +
  fixes F :: "'s LocalFirstPhaseOneFlow"
  assumes repository: "ph_repository F = R"
    and clock: "bystander L view rest (ph_clock F)"
    and proposal_ids: "bystander L view rest (ph_proposal_id_factory F)"
    and event_ids: "bystander L view rest (ph_event_id_factory F)"
    and model: "bystander L view rest (ph_model F e)"
    and inventory: "bystander L view rest (qr_get_resource (ph_query F) q)"

subsection \<open>What a completion is backed by\<close>

definition plan_by_policy :: "ResourceEvidence \<Rightarrow> RemediationPlan \<Rightarrow> bool" where
  "plan_by_policy e plan \<longleftrightarrow> (case pl_proposal plan of
       None \<Rightarrow> pl_disposition plan = PlanDisposition.NO_ACTION \<and> re_findings e = [CloudFinding.CLEAN]
     | Some p \<Rightarrow> policy_action e (pl_disposition plan) (rp_operation_type p) (rp_normalized_parameters p)
         (rp_authority_class p))"

definition before_approval :: "Checkpoint \<Rightarrow> bool" where
  "before_approval c \<longleftrightarrow> c_local_approval_request c = None \<and> c_local_approval c = None
     \<and> c_local_execution_intent c = None \<and> c_local_execution_receipt c = None \<and> c_local_verification c = None"

definition completion_backed :: "Run \<Rightarrow> Checkpoint \<Rightarrow> LocalFirstCompletion \<Rightarrow> bool" where
  "completion_backed run c y \<longleftrightarrow> valid_first_completion y \<and> fc_final_state y = r_state run \<and> fc_run_id y = r_run_id run
     \<and> c_resource_evidence c = Some (fc_evidence y)
     \<and> (r_state run \<noteq> WorkflowState.NO_ACTION_REQUIRED \<longrightarrow>
          (\<exists>p. pl_proposal (fc_plan y) = Some p \<and> c_remediation_proposal c = Some p
             \<and> local_context_bound run (fc_evidence y) p))
     \<and> (\<not> fc_reconciled y \<longrightarrow> plan_by_policy (fc_evidence y) (fc_plan y) \<and> before_approval c)"

lemma first_completion_Inr:
  "first_completion run e plan rec = Inr y \<Longrightarrow> valid_first_completion y \<and> fc_final_state y = r_state run
     \<and> fc_run_id y = r_run_id run \<and> fc_trace_id y = r_trace_id run \<and> fc_correlation_id y = r_correlation_id run
     \<and> fc_evidence y = e \<and> fc_plan y = plan \<and> fc_reconciled y = rec"
  by (auto simp: first_completion_def Let_def)

lemma completion_context:
  assumes "first_completion run e plan rec = Inr y" and "checkpoint_bindings c" and "c_run_id c = r_run_id run"
    and "c_resource_evidence c = Some e" and "c_remediation_proposal c = Some p"
  shows "local_context_bound run e p"
  using first_completion_Inr [OF assms(1)] assms(2-5)
  by (auto simp: valid_first_completion_def local_context_bound_def checkpoint_bindings_def proposal_bound_def)

definition first_result :: "Platform \<Rightarrow> ('s \<Rightarrow> Repo) \<Rightarrow> Repo \<Rightarrow> uuid \<Rightarrow> LocalFirstResult \<Rightarrow> 's \<Rightarrow> bool" where
  "first_result L view origin rid r s \<longleftrightarrow> (\<forall>y. r = Succeeded y \<longrightarrow>
     (\<exists>run c. saw_run L view origin rid run s \<and> saw_checkpoint L view origin rid c s \<and> completion_backed run c y))"

lemma first_result_failed [simp]:
  "first_result L view origin rid (Failed f) s" "first_result L view origin rid (first_failed k a b) s"
  "first_result L view origin rid (first_storage_failed m) s"
  by (simp_all add: first_result_def first_failed_def first_storage_failed_def)

subsection \<open>The steps\<close>

context first_environment begin

lemma first_transition_ensures:
  assumes "steady L view rest B" and "\<And>s. B s \<Longrightarrow> since L view origin s" and "r_run_id run = rid"
  shows "ensures B (first_transition F run target)
    (\<lambda>run' s. B s \<and> saw_run L view origin rid run' s \<and> r_state run' = target) (\<lambda>_. B)"
  unfolding first_transition_def repository
  by (rule ensures_andThen [OF ensures_bystander [OF clock assms(1)]])
    (use op_transition_ensures [OF assms(1,2)] assms(3) in simp)

lemma first_event_ensures:
  "steady L view rest B \<Longrightarrow> ensures B (first_append_event F run ty h src md) (\<lambda>_. B) (\<lambda>_. B)"
  unfolding first_append_event_def repository
  by (rule ensures_bystander [OF emit_event_bystander [OF clock event_ids]])

lemma first_save_ensures:
  assumes B: "steady L view rest B" "\<And>s. B s \<Longrightarrow> since L view origin s" and rid: "r_run_id run = rid"
  shows "ensures B (first_save L F run safe md hs e p v ev)
    (\<lambda>c s. B s \<and> saw_checkpoint L view origin rid c s \<and> c_resource_evidence c = Some e
       \<and> c_remediation_proposal c = p \<and> before_approval c) (\<lambda>_. B)"
  unfolding first_save_def repository
proof (rule ensures_andThen [OF ensures_bystander [OF clock B(1)]], rule ensures_andThen [OF ensures_pure])
  fix now c assume "first_checkpoint L run safe md hs e p now v = Inr c"
  then show "valid_checkpoint L c \<and> c_run_id c = rid \<and> c_resource_evidence c = Some e
      \<and> c_remediation_proposal c = p \<and> before_approval c"
    using rid by (auto simp: first_checkpoint_def before_approval_def split: sum.splits)
next
  fix c
  show "ensures (\<lambda>s. B s \<and> valid_checkpoint L c \<and> c_run_id c = rid \<and> c_resource_evidence c = Some e
      \<and> c_remediation_proposal c = p \<and> before_approval c) (op_save_checkpoint R c ev)
    (\<lambda>c s. B s \<and> saw_checkpoint L view origin rid c s \<and> c_resource_evidence c = Some e
       \<and> c_remediation_proposal c = p \<and> before_approval c) (\<lambda>_. B)"
  proof (rule ensures_frame_pure)
    assume c: "valid_checkpoint L c \<and> c_run_id c = rid \<and> c_resource_evidence c = Some e
      \<and> c_remediation_proposal c = p \<and> before_approval c"
    show ?thesis
      by (rule ensures_conseq [OF op_save_ensures [OF B, where c = c and v = ev and rid = rid]]) (use c in auto)
  qed simp
qed

lemma first_persist_failure_ensures:
  assumes B: "steady L view rest B" "\<And>s. B s \<Longrightarrow> since L view origin s"
  shows "ensures B (first_persist_failure F run f) (\<lambda>r s. B s \<and> first_result L view origin rid r s) (\<lambda>_. B)"
  unfolding first_persist_failure_def
  by (rule ensures_tryThen [OF first_transition_ensures [OF B refl]])
    (auto simp: on_storage_def split: if_splits intro: ensures_ret)

lemma first_succeeded_ensures:
  assumes "\<And>s. B s \<Longrightarrow> saw_run L view origin rid run s \<and> saw_checkpoint L view origin rid c s"
    and "c_resource_evidence c = Some e" and "before_approval c" and "plan_by_policy e plan"
    and "r_state run \<noteq> WorkflowState.NO_ACTION_REQUIRED \<Longrightarrow> \<exists>p. pl_proposal plan = Some p \<and> c_remediation_proposal c = Some p"
  shows "ensures B (first_succeeded run e plan) (\<lambda>r s. B s \<and> first_result L view origin rid r s) (\<lambda>_. B)"
  unfolding first_succeeded_def ensures_def
proof (intro allI impI)
  fix s assume s: "B s"
  show "case andThen (lift (first_completion run e plan False)) (\<lambda>y. ret (Succeeded y)) s of
      (Inr r, s') \<Rightarrow> B s' \<and> first_result L view origin rid r s' | (Inl _, s') \<Rightarrow> B s'"
  proof (cases "first_completion run e plan False")
    case (Inl x)
    with s show ?thesis by (simp add: andThen_def lift_def)
  next
    case (Inr y)
    note saw = assms(1) [OF s]
    then have "checkpoint_bindings c" "c_run_id c = r_run_id run"
      by (auto simp: saw_checkpoint_def saw_run_def valid_checkpoint_def)
    from completion_context [OF Inr this assms(2)] assms(2-5) first_completion_Inr [OF Inr]
    have "completion_backed run c y" by (auto simp: completion_backed_def)
    with saw s Inr show ?thesis by (auto simp: andThen_def lift_def ret_def first_result_def)
  qed
qed


text \<open>The calls as steps of a longer program.\<close>

lemma event_then:
  assumes "steady L view rest P" and "\<And>s. P s \<Longrightarrow> B s" and "ensures P k Q (\<lambda>_. B)"
  shows "ensures P (andThen (first_append_event F run ty h src md) (\<lambda>_. k)) Q (\<lambda>_. B)"
  by (rule ensures_andThen [where M = "\<lambda>_. P"], rule ensures_conseq [OF first_event_ensures [OF assms(1)]])
    (use assms(2,3) in auto)

lemma transition_then:
  assumes P: "steady L view rest P" "\<And>s. P s \<Longrightarrow> since L view origin s" and "\<And>s. P s \<Longrightarrow> r_run_id run = rid"
    and "\<And>s. P s \<Longrightarrow> B s"
    and k: "\<And>run. ensures (\<lambda>s. P s \<and> saw_run L view origin rid run s \<and> r_state run = target) (k run) Q (\<lambda>_. B)"
  shows "ensures P (andThen (first_transition F run target) k) Q (\<lambda>_. B)"
proof (rule ensures_frame_pure [OF assms(3)])
  assume id: "r_run_id run = rid"
  show ?thesis
    by (rule ensures_andThen [OF ensures_conseq [OF first_transition_ensures [OF P id]] k]) (use assms(4) in auto)
qed

lemma save_then:
  assumes P: "steady L view rest P" "\<And>s. P s \<Longrightarrow> since L view origin s" and "\<And>s. P s \<Longrightarrow> r_run_id run = rid"
    and "\<And>s. P s \<Longrightarrow> B s"
    and k: "\<And>c. ensures (\<lambda>s. P s \<and> saw_checkpoint L view origin rid c s \<and> c_resource_evidence c = Some e
       \<and> c_remediation_proposal c = p \<and> before_approval c) k Q (\<lambda>_. B)"
  shows "ensures P (andThen (first_save L F run safe md hs e p v ev) (\<lambda>_. k)) Q (\<lambda>_. B)"
proof (rule ensures_frame_pure [OF assms(3)])
  assume id: "r_run_id run = rid"
  show ?thesis
    by (rule ensures_andThen [OF ensures_conseq [OF first_save_ensures [OF P id]] k]) (use assms(4) in auto)
qed

text \<open>A stored run in its final state with the checkpoint the completion will report.\<close>

definition concluded :: "Repo \<Rightarrow> uuid \<Rightarrow> ('s \<Rightarrow> bool) \<Rightarrow> WorkflowState \<Rightarrow> ResourceEvidence \<Rightarrow> RemediationProposal option
    \<Rightarrow> Run \<Rightarrow> Checkpoint \<Rightarrow> 's \<Rightarrow> bool" where
  "concluded origin rid B target e p run c s \<longleftrightarrow> B s \<and> saw_run L view origin rid run s \<and> r_state run = target
     \<and> saw_checkpoint L view origin rid c s \<and> c_resource_evidence c = Some e
     \<and> c_remediation_proposal c = p \<and> before_approval c"

lemma steady_concluded:
  "steady L view rest B \<Longrightarrow> steady L view rest (concluded origin rid B target e p run c)"
  unfolding concluded_def by (intro steady_intros)

lemma concluded_ensures:
  assumes "plan_by_policy e plan" and "pl_proposal plan = p" and "p = None \<Longrightarrow> target = WorkflowState.NO_ACTION_REQUIRED"
  shows "ensures (\<lambda>s. \<exists>c. concluded origin rid B target e p run c s) (first_succeeded run e plan)
    (\<lambda>r s. B s \<and> first_result L view origin rid r s) (\<lambda>_. B)"
proof (rule ensures_exI)
  fix c
  let ?P = "concluded origin rid B target e p run c"
  have "ensures ?P (first_succeeded run e plan) (\<lambda>r s. ?P s \<and> first_result L view origin rid r s) (\<lambda>_. ?P)"
  proof (rule ensures_frame_pure)
    assume c: "c_remediation_proposal c = p \<and> c_resource_evidence c = Some e \<and> before_approval c \<and> r_state run = target"
    show ?thesis
    proof (rule first_succeeded_ensures [where c = c])
      show "\<exists>q. pl_proposal plan = Some q \<and> c_remediation_proposal c = Some q"
        if "r_state run \<noteq> WorkflowState.NO_ACTION_REQUIRED"
        using that c assms(2,3) by (cases p) simp_all
    qed (use c assms(1) in \<open>simp_all add: concluded_def\<close>)
  qed (simp add: concluded_def)
  then show "ensures ?P (first_succeeded run e plan) (\<lambda>r s. B s \<and> first_result L view origin rid r s) (\<lambda>_. B)"
    by (rule ensures_conseq) (simp_all add: concluded_def)
qed

lemma first_safe_terminal_ensures:
  assumes B: "steady L view rest B" "\<And>s. B s \<Longrightarrow> since L view origin s" and rid: "r_run_id run = rid"
    and plan: "plan_by_policy e plan"
    and target: "pl_proposal plan = None \<Longrightarrow> target = WorkflowState.NO_ACTION_REQUIRED"
  shows "ensures B (first_safe_terminal L F run e plan target ty)
    (\<lambda>r s. B s \<and> first_result L view origin rid r s) (\<lambda>_. B)"
  unfolding first_safe_terminal_def Let_def
proof (rule ensures_tryThen [where M = "\<lambda>run s. \<exists>c. concluded origin rid B target e (pl_proposal plan) run c s" and F = "\<lambda>_. B"])
  let ?h = "case pl_proposal plan of None \<Rightarrow> re_evidence_hash e | Some p \<Rightarrow> rp_proposal_hash p"
  show "ensures B (andThen (first_transition F run target) (\<lambda>current.
       andThen (first_save L F current target
          [(''phase'', JStr ''LOCAL_1''), (''plan_disposition'', JStr (PlanDisposition_value (pl_disposition plan))),
           (''reason'', JStr (pl_reason plan))]
          [(''plan_remediation'', ?h), (''query_resource'', re_evidence_hash e)] e (pl_proposal plan) 2 (Some 1)) (\<lambda>_.
       andThen (first_append_event F current ty ?h ''plan-remediation'' []) (\<lambda>_. ret current))))
     (\<lambda>run s. \<exists>c. concluded origin rid B target e (pl_proposal plan) run c s) (\<lambda>_. B)"
  proof (rule transition_then [OF B rid])
    fix run' show "ensures (\<lambda>s. B s \<and> saw_run L view origin rid run' s \<and> r_state run' = target)
       (andThen (first_save L F run' target
          [(''phase'', JStr ''LOCAL_1''), (''plan_disposition'', JStr (PlanDisposition_value (pl_disposition plan))),
           (''reason'', JStr (pl_reason plan))]
          [(''plan_remediation'', ?h), (''query_resource'', re_evidence_hash e)] e (pl_proposal plan) 2 (Some 1)) (\<lambda>_.
       andThen (first_append_event F run' ty ?h ''plan-remediation'' []) (\<lambda>_. ret run')))
     (\<lambda>run s. \<exists>c. concluded origin rid B target e (pl_proposal plan) run c s) (\<lambda>_. B)"
    proof (rule save_then)
      fix c show "ensures (\<lambda>s. (B s \<and> saw_run L view origin rid run' s \<and> r_state run' = target)
          \<and> saw_checkpoint L view origin rid c s \<and> c_resource_evidence c = Some e
          \<and> c_remediation_proposal c = pl_proposal plan \<and> before_approval c)
         (andThen (first_append_event F run' ty ?h ''plan-remediation'' []) (\<lambda>_. ret run'))
         (\<lambda>run s. \<exists>c. concluded origin rid B target e (pl_proposal plan) run c s) (\<lambda>_. B)"
        by (rule event_then) (auto simp: concluded_def intro!: steady_intros B(1) ensures_ret)
    qed (use B in \<open>auto dest: saw_run_id intro!: steady_intros\<close>)
  qed
qed (use concluded_ensures [OF plan refl target] in \<open>auto simp: on_storage_def split: if_splits intro: ensures_ret\<close>)


lemma first_await_approval_ensures:
  assumes B: "steady L view rest B" "\<And>s. B s \<Longrightarrow> since L view origin s" and rid: "r_run_id run = rid"
    and plan: "plan_by_policy e plan" and p: "pl_proposal plan = Some p"
  shows "ensures B (first_await_approval L F run e plan p)
    (\<lambda>r s. B s \<and> first_result L view origin rid r s) (\<lambda>_. B)"
  unfolding first_await_approval_def
proof (rule ensures_tryThen [where F = "\<lambda>_. B" and M = "\<lambda>(run, aw) s. awaiting_proposal L p = Inr aw
      \<and> (\<exists>c. concluded origin rid B WorkflowState.AWAITING_APPROVAL e (Some aw) run c s)"])
  let ?M = "\<lambda>(run, aw) s. awaiting_proposal L p = Inr aw
      \<and> (\<exists>c. concluded origin rid B WorkflowState.AWAITING_APPROVAL e (Some aw) run c s)"
  let ?close = "\<lambda>aw current.
        andThen (first_append_event F current AuditEventType.REMEDIATION_PLANNED (rp_proposal_hash aw)
           ''plan-remediation''
           [(''proposal_id'', rp_proposal_id aw),
            (''authority'', AuthorityGate_value (rp_authority_class aw))]) (\<lambda>_.
        andThen (first_append_event F current AuditEventType.APPROVAL_REQUESTED (rp_proposal_hash aw)
           ''local-approval-boundary'' [(''proposal_id'', rp_proposal_id aw)]) (\<lambda>_.
        ret (current, aw)))"
  let ?save = "\<lambda>aw current. andThen (first_save L F current WorkflowState.AWAITING_APPROVAL
           [(''phase'', JStr ''LOCAL_1''), (''proposal_hash'', JStr (rp_proposal_hash aw)),
            (''proposal_id'', JStr (rp_proposal_id aw))]
           [(''plan_remediation'', rp_proposal_hash aw), (''query_resource'', re_evidence_hash e)]
           e (Some aw) 2 (Some 1)) (\<lambda>_. andThen (first_transition F current WorkflowState.AWAITING_APPROVAL) (?close aw))"
  show "ensures B (andThen (first_transition F run WorkflowState.REMEDIATION_PROPOSED) (\<lambda>current.
      andThen (lift (awaiting_proposal L p)) (\<lambda>aw. ?save aw current))) ?M (\<lambda>_. B)"
  proof (rule transition_then [OF B rid])
    fix run1
    let ?P1 = "\<lambda>s. B s \<and> saw_run L view origin rid run1 s \<and> r_state run1 = WorkflowState.REMEDIATION_PROPOSED"
    show "ensures ?P1 (andThen (lift (awaiting_proposal L p)) (\<lambda>aw. ?save aw run1)) ?M (\<lambda>_. B)"
    proof (rule ensures_andThen [where M = "\<lambda>aw s. ?P1 s \<and> awaiting_proposal L p = Inr aw"])
      show "ensures ?P1 (lift (awaiting_proposal L p)) (\<lambda>aw s. ?P1 s \<and> awaiting_proposal L p = Inr aw) (\<lambda>_. B)"
        by (rule ensures_conseq [OF ensures_pure [where B = ?P1 and Q = "\<lambda>aw. awaiting_proposal L p = Inr aw"]]) auto
      fix aw show "ensures (\<lambda>s. ?P1 s \<and> awaiting_proposal L p = Inr aw) (?save aw run1) ?M (\<lambda>_. B)"
      proof (rule save_then)
        fix c show "ensures (\<lambda>s. (?P1 s \<and> awaiting_proposal L p = Inr aw) \<and> saw_checkpoint L view origin rid c s
            \<and> c_resource_evidence c = Some e \<and> c_remediation_proposal c = Some aw \<and> before_approval c)
          (andThen (first_transition F run1 WorkflowState.AWAITING_APPROVAL) (?close aw)) ?M (\<lambda>_. B)"
        proof (rule transition_then)
          fix run2 show "ensures (\<lambda>s. ((?P1 s \<and> awaiting_proposal L p = Inr aw) \<and> saw_checkpoint L view origin rid c s
              \<and> c_resource_evidence c = Some e \<and> c_remediation_proposal c = Some aw \<and> before_approval c)
              \<and> saw_run L view origin rid run2 s \<and> r_state run2 = WorkflowState.AWAITING_APPROVAL)
            (?close aw run2) ?M (\<lambda>_. B)"
            by (intro event_then ensures_ret) (auto simp: concluded_def intro!: steady_intros B(1))
        qed (use B in \<open>auto dest: saw_run_id intro!: steady_intros\<close>)
      qed (use B in \<open>auto dest: saw_run_id intro!: steady_intros\<close>)
    qed
  qed
  show "ensures (?M x) (case x of (current, aw) \<Rightarrow> first_succeeded current e (plan\<lparr>pl_proposal := Some aw\<rparr>))
      (\<lambda>r s. B s \<and> first_result L view origin rid r s) (\<lambda>_. B)" for x
  proof (cases x)
    case (Pair run aw)
    have "ensures (?M x) (first_succeeded run e (plan\<lparr>pl_proposal := Some aw\<rparr>))
        (\<lambda>r s. B s \<and> first_result L view origin rid r s) (\<lambda>_. B)"
    proof (rule ensures_frame_pure [where b = "awaiting_proposal L p = Inr aw"])
      assume "awaiting_proposal L p = Inr aw"
      then have "aw = p\<lparr>rp_status := ProposalState.AWAITING_APPROVAL, rp_version := rp_version p + 1\<rparr>"
        by (simp add: awaiting_proposal_def)
      with plan p have "plan_by_policy e (plan\<lparr>pl_proposal := Some aw\<rparr>)" by (simp add: plan_by_policy_def)
      from concluded_ensures [OF this, of "Some aw" WorkflowState.AWAITING_APPROVAL origin rid B run]
      show "ensures (?M x) (first_succeeded run e (plan\<lparr>pl_proposal := Some aw\<rparr>))
        (\<lambda>r s. B s \<and> first_result L view origin rid r s) (\<lambda>_. B)"
        by (rule ensures_conseq) (simp_all add: Pair)
    qed (simp add: Pair)
    then show ?thesis by (simp add: Pair)
  qed
qed (auto simp: split: if_splits intro: ensures_ret)


lemma first_conclude_ensures:
  assumes B: "steady L view rest B" "\<And>s. B s \<Longrightarrow> since L view origin s" and rid: "r_run_id run = rid"
    and plan: "plan_by_policy e plan"
  shows "ensures B (first_conclude L F run e plan)
    (\<lambda>r s. B s \<and> first_result L view origin rid r s) (\<lambda>_. B)"
proof -
  have none: "pl_disposition plan = PlanDisposition.NO_ACTION \<and> re_findings e = [CloudFinding.CLEAN]"
    if "pl_proposal plan = None"
    using plan that by (simp add: plan_by_policy_def)
  show ?thesis
    unfolding first_conclude_def
    by (auto split: option.splits dest!: none intro!: ensures_if first_safe_terminal_ensures [OF B rid plan]
      first_await_approval_ensures [OF B rid plan] dest: none)
qed

lemma first_plan_ensures:
  assumes B: "steady L view rest B" "\<And>s. B s \<Longrightarrow> since L view origin s" and rid: "r_run_id run = rid"
  shows "ensures B (first_plan L F run e) (\<lambda>r s. B s \<and> first_result L view origin rid r s) (\<lambda>_. B)"
  unfolding first_plan_def
proof (rule ensures_tryThen [OF ensures_bystander [OF model B(1)]])
  note failure = first_persist_failure_ensures [OF B]
  show "ensures B g (\<lambda>r s. B s \<and> first_result L view origin rid r s) (\<lambda>_. B)"
    if "map_option (first_persist_failure F run) (model_fault x) = Some g" for x g
    using that by (auto intro: failure)
  fix raw
  show "ensures B (andThen (ph_proposal_id_factory F) (\<lambda>proposal_id.
     andThen (ph_clock F) (\<lambda>now.
     andThen (lift (plan_execute L (ph_parse F) e raw proposal_id now)) (\<lambda>result.
     case result of
       Failed f \<Rightarrow>
         tryThen (first_append_event F run AuditEventType.MODEL_OUTPUT_REJECTED (re_evidence_hash e)
             ''local-plan-policy'' [(''failure_code'', f_code f)])
           (on_storage (ret (first_storage_failed ''Rejected model plan audit is unavailable'')))
           (\<lambda>_. first_persist_failure F run f)
     | Succeeded plan \<Rightarrow> first_conclude L F run e plan))))
    (\<lambda>r s. B s \<and> first_result L view origin rid r s) (\<lambda>_. B)"
  proof (rule ensures_andThen [OF ensures_bystander [OF proposal_ids B(1)]],
      rule ensures_andThen [OF ensures_bystander [OF clock B(1)]], rule ensures_andThen [OF ensures_pure])
    fix pid now
    let ?planned = "\<lambda>result. plan_execute L (ph_parse F) e raw pid now = Inr result"
    show "?planned result" if "?planned result" for result using that .
    fix result
    show "ensures (\<lambda>s. B s \<and> ?planned result) (case result of
         Failed f \<Rightarrow>
           tryThen (first_append_event F run AuditEventType.MODEL_OUTPUT_REJECTED (re_evidence_hash e)
               ''local-plan-policy'' [(''failure_code'', f_code f)])
             (on_storage (ret (first_storage_failed ''Rejected model plan audit is unavailable'')))
             (\<lambda>_. first_persist_failure F run f)
       | Succeeded plan \<Rightarrow> first_conclude L F run e plan)
      (\<lambda>r s. B s \<and> first_result L view origin rid r s) (\<lambda>_. B)"
    proof (rule ensures_frame_pure [where b = "?planned result"])
      assume planned: "?planned result"
      show ?thesis
      proof (cases result)
        case (Failed f)
        have "ensures B (tryThen (first_append_event F run AuditEventType.MODEL_OUTPUT_REJECTED (re_evidence_hash e)
             ''local-plan-policy'' [(''failure_code'', f_code f)])
           (on_storage (ret (first_storage_failed ''Rejected model plan audit is unavailable'')))
           (\<lambda>_. first_persist_failure F run f)) (\<lambda>r s. B s \<and> first_result L view origin rid r s) (\<lambda>_. B)"
          by (rule ensures_tryThen [OF first_event_ensures [OF B(1)] failure])
            (auto simp: on_storage_def split: if_splits intro: ensures_ret)
        then show ?thesis unfolding Failed ControlResult.case by (rule ensures_conseq) simp_all
      next
        case (Succeeded plan)
        from plan_content [OF planned [unfolded Succeeded]] have "plan_by_policy e plan"
          by (auto simp: plan_by_policy_def split: option.splits)
        from first_conclude_ensures [OF B rid this] show ?thesis
          unfolding Succeeded ControlResult.case by (rule ensures_conseq) simp_all
      qed
    qed simp
  qed
qed simp


lemma first_record_evidence_ensures:
  assumes B: "steady L view rest B" "\<And>s. B s \<Longrightarrow> since L view origin s" and rid: "r_run_id run = rid"
  shows "ensures B (first_record_evidence L F run e)
    (\<lambda>x s. B s \<and> (case x of Inl r \<Rightarrow> first_result L view origin rid r s | Inr run' \<Rightarrow> r_run_id run' = rid)) (\<lambda>_. B)"
    (is "ensures B _ ?Q _")
proof -
  have ended: "ensures B (ended (first_persist_failure F run' f)) ?Q (\<lambda>_. B)" for run' f
    unfolding ended_def by (rule ensures_andThen [OF first_persist_failure_ensures [OF B]]) (auto intro: ensures_ret)
  let ?M = "\<lambda>run' s. B s \<and> saw_run L view origin rid run' s \<and> r_state run' = WorkflowState.EVIDENCE_READY"
  have step: "ensures (?M run') (tryThen
       (first_save L F run' WorkflowState.EVIDENCE_READY md hs e None 1 None)
       (on_storage (ended (first_persist_failure F run' evidence_lost)))
       (\<lambda>_. ret (Inr run'))) ?Q (\<lambda>_. B)" for run' md hs
  proof (rule ensures_frame_pure)
    show "r_run_id run' = rid" if "?M run' s" for s using that by (auto dest: saw_run_id)
    assume id: "r_run_id run' = rid"
    have "ensures B (tryThen
       (first_save L F run' WorkflowState.EVIDENCE_READY md hs e None 1 None)
       (on_storage (ended (first_persist_failure F run' evidence_lost)))
       (\<lambda>_. ret (Inr run'))) ?Q (\<lambda>_. B)"
      by (rule ensures_tryThen [OF first_save_ensures [OF B id]])
        (auto simp: on_storage_def id split: if_splits intro: ensures_ret ended)
    then show ?thesis by (rule ensures_conseq) simp_all
  qed
  have "ensures B (andThen (first_append_event F run ty h src md) (\<lambda>_. first_transition F run WorkflowState.EVIDENCE_READY))
      ?M (\<lambda>_. B)" for ty h src md
    by (rule event_then [OF B(1)]) (auto intro: first_transition_ensures [OF B rid])
  then show ?thesis unfolding first_record_evidence_def
    by (rule ensures_tryThen) (auto simp: on_storage_def split: if_splits intro: step ended)
qed

lemma first_reconcile_ensures:
  assumes B: "steady L view rest B" "\<And>s. B s \<Longrightarrow> since L view origin s"
    and run: "\<And>s. B s \<Longrightarrow> saw_run L view origin rid run s"
  shows "ensures B (first_reconcile F run) (\<lambda>r s. B s \<and> first_result L view origin rid r s) (\<lambda>_. B)"
proof (rule ensures_frame_pure)
  show "r_run_id run = rid" if "B s" for s using run [OF that] by (rule saw_run_id)
  assume id: "r_run_id run = rid"
  let ?Q = "\<lambda>r s. B s \<and> first_result L view origin rid r s"
  have complete: "ensures (\<lambda>s. B s \<and> saw_checkpoint L view origin rid c s)
      (andThen (lift (validated valid_plan plan)) (\<lambda>plan. case first_completion run e plan True of
          Inr y \<Rightarrow> ret (Succeeded y)
        | Inl x \<Rightarrow> if is_value_error x
            then ret (first_failed FailureKind.RECOVERY_REQUIREMENT ''LOCAL_CHECKPOINT_INVALID''
                   ''Terminal local checkpoint is internally inconsistent'')
            else raise x)) ?Q (\<lambda>_. B)"
    if c: "c_resource_evidence c = Some e"
      and p: "r_state run \<noteq> WorkflowState.NO_ACTION_REQUIRED \<Longrightarrow> c_remediation_proposal c = pl_proposal plan \<and> pl_proposal plan \<noteq> None"
    for c plan e
    unfolding ensures_def
  proof (intro allI impI, elim conjE)
    fix s assume s: "B s" "saw_checkpoint L view origin rid c s"
    show "case andThen (lift (validated valid_plan plan)) (\<lambda>plan. case first_completion run e plan True of
          Inr y \<Rightarrow> ret (Succeeded y)
        | Inl x \<Rightarrow> if is_value_error x
            then ret (first_failed FailureKind.RECOVERY_REQUIREMENT ''LOCAL_CHECKPOINT_INVALID''
                   ''Terminal local checkpoint is internally inconsistent'')
            else raise x) s of (Inl x, s') \<Rightarrow> B s' | (Inr r, s') \<Rightarrow> ?Q r s'"
    proof (cases "first_completion run e plan True")
      case (Inl x)
      with s show ?thesis by (auto simp: andThen_def lift_def validated_def ret_def raise_def)
    next
      case (Inr y)
      from s(2) have "checkpoint_bindings c" "c_run_id c = r_run_id run"
        using id by (auto simp: saw_checkpoint_def valid_checkpoint_def)
      from completion_context [OF Inr this c] p c first_completion_Inr [OF Inr]
      have "completion_backed run c y" by (auto simp: completion_backed_def)
      with run [OF s(1)] s Inr show ?thesis
        by (auto simp: andThen_def lift_def validated_def ret_def first_result_def)
    qed
  qed
  have got: "ensures B (op_get_checkpoint R (r_run_id run))
      (\<lambda>x s. B s \<and> (\<forall>c. x = Some c \<longrightarrow> saw_checkpoint L view origin rid c s)) (\<lambda>_. B)"
    unfolding id by (rule op_get_checkpoint_ensures [OF B])
  show ?thesis
  proof (cases "r_state run \<in> LOCAL_FIRST_FINAL_STATES")
    case False
    then show ?thesis by (simp add: first_reconcile_def ensures_ret)
  next
    case True
    show ?thesis
    unfolding first_reconcile_def repository Let_def
    by (simp only: True not_not if_False simp_thms, rule ensures_tryThen [OF got])
      (auto split: option.splits if_splits simp: bind_eq_Some_conv intro!: ensures_ret ensures_if
        intro: ensures_conseq [OF complete])
  qed
qed


lemma first_ended_ensures:
  assumes "ensures P m (\<lambda>r s. B s \<and> first_result L view origin rid r s) (\<lambda>_. B)"
  shows "ensures P (ended m) (\<lambda>x s. B s \<and> (case x of Inl r \<Rightarrow> first_result L view origin rid r s | Inr run' \<Rightarrow> r_run_id run' = rid)) (\<lambda>_. B)"
  unfolding ended_def by (rule ensures_andThen [OF assms]) (auto intro: ensures_ret)

lemma first_found_ensures:
  assumes B: "steady L view rest B" "\<And>s. B s \<Longrightarrow> since L view origin s"
  shows "ensures (\<lambda>s. B s \<and> (\<forall>run. Some run' = Some run \<longrightarrow> saw_run L view origin rid run s)) (first_reconcile F run')
    (\<lambda>r s. B s \<and> first_result L view origin rid r s) (\<lambda>_. B)"
proof -
  have "steady L view rest (\<lambda>s. B s \<and> saw_run L view origin rid run' s)" using B(1) by (intro steady_intros)
  from first_reconcile_ensures [OF this, of origin rid run'] B(2)
  have "ensures (\<lambda>s. B s \<and> saw_run L view origin rid run' s) (first_reconcile F run')
      (\<lambda>r s. (B s \<and> saw_run L view origin rid run' s) \<and> first_result L view origin rid r s)
      (\<lambda>_ s. B s \<and> saw_run L view origin rid run' s)" by blast
  then show ?thesis by (rule ensures_conseq) auto
qed

lemma first_open_ensures:
  assumes B: "steady L view rest B" "\<And>s. B s \<Longrightarrow> since L view origin s" and run: "valid_run run" "r_run_id run = rid"
  shows "ensures B (first_open L F run)
    (\<lambda>x s. B s \<and> (case x of Inl r \<Rightarrow> first_result L view origin rid r s | Inr run' \<Rightarrow> r_run_id run' = rid)) (\<lambda>_. B)"
    (is "ensures B _ ?Q _")
proof -
  note failed = first_ended_ensures [OF ensures_ret]
  have got: "ensures B (op_get_run R (r_run_id run))
      (\<lambda>x s. B s \<and> (\<forall>run. x = Some run \<longrightarrow> saw_run L view origin rid run s)) (\<lambda>_. B)"
    unfolding run(2) by (rule op_get_run_ensures [OF B])
  have raced: "ensures B (first_raced F (r_run_id run)) (\<lambda>r s. B s \<and> first_result L view origin rid r s) (\<lambda>_. B)"
    unfolding first_raced_def repository
    by (rule ensures_tryThen [OF got])
      (auto split: option.splits if_splits intro: ensures_ret first_found_ensures [OF B, simplified])
  have "ensures B (andThen (op_create_run R run) (\<lambda>c.
      andThen (first_append_event F c ty h src md) (\<lambda>_. ret c))) (\<lambda>c s. B s \<and> r_run_id c = rid) (\<lambda>_. B)" for ty h src md
  proof (rule ensures_andThen [OF op_create_run_ensures [OF B run(1)]])
    show "ensures (\<lambda>s. B s \<and> c = run \<and> saw_run L view origin (r_run_id run) run s)
      (andThen (first_append_event F c ty h src md) (\<lambda>_. ret c)) (\<lambda>c s. B s \<and> r_run_id c = rid) (\<lambda>_. B)" for c
      by (rule event_then) (auto intro!: steady_intros B(1) ensures_ret simp: run(2))
  qed
  then have create: "ensures B (first_create L F run) ?Q (\<lambda>_. B)"
    unfolding first_create_def repository
    by (rule ensures_tryThen) (auto split: if_splits intro: ensures_ret first_ended_ensures [OF raced] failed)
  show ?thesis unfolding first_open_def repository
  proof (rule ensures_tryThen [OF got])
    fix x
    show "ensures (\<lambda>s. B s \<and> (\<forall>run. x = Some run \<longrightarrow> saw_run L view origin rid run s)) (case x of
          None \<Rightarrow> first_create L F run
        | Some current \<Rightarrow> if current \<noteq> run then ended (first_reconcile F current) else ret (Inr current)) ?Q (\<lambda>_. B)"
    proof (cases x)
      case None
      with create show ?thesis by simp
    next
      case (Some c)
      show ?thesis unfolding Some option.case
      proof (rule ensures_if)
        show "ensures (\<lambda>s. B s \<and> (\<forall>run. Some c = Some run \<longrightarrow> saw_run L view origin rid run s))
            (ended (first_reconcile F c)) ?Q (\<lambda>_. B)"
          by (rule first_ended_ensures [OF first_found_ensures [OF B]])
      qed (use run(2) in \<open>auto intro: ensures_ret\<close>)
    qed
  qed (auto split: if_splits intro: failed)
qed

lemma first_query_bystander: "bystander L view rest (query_execute L (ph_query F) query run t)"
  unfolding query_execute_def query_failed_def query_on_error_def
  by (intro bystander_intros inventory) (auto simp: query_failed_def split: if_splits intro: bystander_intros)

lemma first_investigate_ensures:
  assumes B: "steady L view rest B" "\<And>s. B s \<Longrightarrow> since L view origin s" and id: "r_run_id run = rid"
  shows "ensures B (first_investigate L F query run) (\<lambda>r s. B s \<and> first_result L view origin rid r s) (\<lambda>_. B)"
    (is "ensures _ _ ?Q _")
proof -
  have "ensures (\<lambda>s. B s \<and> (case x of Inl r \<Rightarrow> first_result L view origin rid r s | Inr run' \<Rightarrow> r_run_id run' = rid))
      (case x of Inl r \<Rightarrow> ret r | Inr current \<Rightarrow> first_plan L F current e) ?Q (\<lambda>_. B)" for x e
  proof (cases x)
    case (Inr current)
    show ?thesis
    proof (rule ensures_frame_pure [where b = "r_run_id current = rid"])
      assume "r_run_id current = rid"
      from first_plan_ensures [OF B this, of e] show ?thesis by (simp add: Inr ensures_def)
    qed (simp add: Inr)
  qed (auto intro: ensures_ret)
  note last = this
  have after: "ensures B (andThen (first_record_evidence L F run e) (\<lambda>x.
      case x of Inl r \<Rightarrow> ret r | Inr current \<Rightarrow> first_plan L F current e)) ?Q (\<lambda>_. B)" for e
    by (rule ensures_andThen [OF first_record_evidence_ensures [OF B id] last])
  show ?thesis unfolding first_investigate_def
    by (rule ensures_andThen [OF ensures_bystander [OF clock B(1)]],
        rule ensures_andThen [OF ensures_bystander [OF first_query_bystander B(1)]])
      (auto split: ControlResult.splits intro: after first_persist_failure_ensures [OF B])
qed

lemma first_execute_ensures:
  assumes run: "valid_run run" "r_run_id run = rid"
  shows "ensures (since L view origin) (first_execute L F run query)
    (\<lambda>r s. since L view origin s \<and> first_result L view origin rid r s) (\<lambda>_. since L view origin)"
    (is "ensures ?B _ ?Q _")
proof -
  have B: "steady L view rest ?B" "\<And>s. ?B s \<Longrightarrow> since L view origin s" by (rule steady_since)
  have go: "ensures ?B (tryThen (first_transition F run' WorkflowState.INVESTIGATING)
       (on_storage (ret (first_storage_failed ''Durable INVESTIGATING transition failed'')))
       (first_investigate L F query)) ?Q (\<lambda>_. ?B)" if "r_run_id run' = rid" for run'
  proof (rule ensures_tryThen [where M = "\<lambda>run s. ?B s \<and> r_run_id run = rid" and F = "\<lambda>_. ?B"])
    show "ensures ?B (first_transition F run' WorkflowState.INVESTIGATING) (\<lambda>run s. ?B s \<and> r_run_id run = rid) (\<lambda>_. ?B)"
      by (rule ensures_conseq [OF first_transition_ensures [OF B that]]) (auto dest: saw_run_id)
    show "ensures (\<lambda>s. ?B s \<and> r_run_id current = rid) (first_investigate L F query current) ?Q (\<lambda>_. ?B)" for current
    proof (rule ensures_frame_pure [where b = "r_run_id current = rid"])
      assume "r_run_id current = rid"
      from first_investigate_ensures [OF B this, of query] show ?thesis by (simp add: ensures_def)
    qed simp
  qed (auto simp: on_storage_def split: if_splits intro: ensures_ret)
  show ?thesis unfolding first_execute_def
  proof (rule ensures_andThen [OF first_open_ensures [OF B run]])
    fix x
    show "ensures (\<lambda>s. ?B s \<and> (case x of Inl r \<Rightarrow> first_result L view origin rid r s | Inr run' \<Rightarrow> r_run_id run' = rid))
     (case x of Inl r \<Rightarrow> ret r
     | Inr current \<Rightarrow>
         if r_state current \<noteq> WorkflowState.RECEIVED
         then ret (first_failed FailureKind.RECOVERY_REQUIREMENT ''LOCAL_RUN_STATE_INVALID''
                ''Local flow can start only from RECEIVED'')
         else tryThen (first_transition F current WorkflowState.INVESTIGATING)
           (on_storage (ret (first_storage_failed ''Durable INVESTIGATING transition failed'')))
           (first_investigate L F query)) ?Q (\<lambda>_. ?B)"
    proof (cases x)
      case (Inr current)
      show ?thesis
      proof (rule ensures_frame_pure [where b = "r_run_id current = rid"])
        assume "r_run_id current = rid"
        from go [OF this] show ?thesis by (simp add: Inr ensures_def ret_def)
      qed (simp add: Inr)
    qed (auto intro: ensures_ret)
  qed
qed

end

end
