(* ===== verification/Local_First_System.thy ===== *)
theory Local_First_System
  imports Local_First_Guarantees Local_Hitl_System Recovery_Frame
begin

text \<open>
  The first phase over a repository and the mock inventory, as \<open>agent/local_composition.py\<close> composes it, and
  its properties: a completion is backed by the store and its plan is the one policy allows, the phase takes
  no authority, and a run it left half-way is never taken up again.
\<close>

subsection \<open>The composed first phase\<close>

text \<open>\<open>create_local_hitl_runtime\<close>: the first phase shares clock, event identifiers and inventory with the
  second; \<open>answer\<close> is the model.\<close>

record PhaseOneProcess =
  po_queries :: "ResourceQuery list"
  po_proposal_ids :: "uuid list"

definition phase_one_proposal_id :: "(HitlWorld \<times> PhaseOneProcess, uuid) prog" where
  "phase_one_proposal_id = (\<lambda>(w, p). case po_proposal_ids p of
       [] \<Rightarrow> (Inl OtherError, w, p) | i # is \<Rightarrow> (Inr i, w, p\<lparr>po_proposal_ids := is\<rparr>))"

definition on_world :: "(HitlWorld, 'a) prog \<Rightarrow> (HitlWorld \<times> PhaseOneProcess, 'a) prog" where
  "on_world m = (\<lambda>(w, p). case m w of (x, w') \<Rightarrow> (x, w', p))"

definition logged_query ::
    "(HitlWorld \<times> ResourceQuery list) QueryResource \<Rightarrow> ResourceQuery \<Rightarrow> (HitlWorld \<times> PhaseOneProcess, CloudResource) prog" where
  "logged_query Q q = (\<lambda>(w, p). case qr_get_resource Q q (w, po_queries p) of
       (x, w', queries) \<Rightarrow> (x, w', p\<lparr>po_queries := queries\<rparr>))"

definition phase_one_system ::
    "'s DurableTruthRepository \<Rightarrow> Platform \<Rightarrow> CloudResource list \<Rightarrow> (string \<Rightarrow> int option)
     \<Rightarrow> (string \<Rightarrow> ModelPlanCandidate option) \<Rightarrow> (ResourceEvidence \<Rightarrow> exc + string)
     \<Rightarrow> ('s \<times> HitlWorld \<times> PhaseOneProcess) LocalFirstPhaseOneFlow" where
  "phase_one_system R L initial lax parse answer =
     \<lparr>ph_query = (let Q = mock_aws L lax initial in
        \<lparr>qr_adapter_name = qr_adapter_name Q, qr_get_resource = (\<lambda>q. on_process (logged_query Q q))\<rparr>),
      ph_parse = parse, ph_model = (\<lambda>e. lift (answer e)), ph_repository = store_side R,
      ph_clock = on_process (on_world local_clock),
      ph_proposal_id_factory = on_process phase_one_proposal_id,
      ph_event_id_factory = on_process (on_world hitl_event_id)\<rparr>"

lemma on_world_quiet:
  assumes "\<And>w x w'. m w = (x, w') \<Longrightarrow> lw_mutation_calls w' = lw_mutation_calls w"
  shows "on_world m u = (x, u') \<Longrightarrow> lw_mutation_calls (fst u') = lw_mutation_calls (fst u)"
  using assms by (auto simp: on_world_def split: prod.splits)

lemma logged_query_quiet:
  "logged_query (mock_aws L lax initial) q u = (x, u') \<Longrightarrow> lw_mutation_calls (fst u') = lw_mutation_calls (fst u)"
  by (auto simp: logged_query_def mock_aws_def split: prod.splits dest!: inventory_call_quiet)

lemma phase_one_environment:
  assumes "durable_truth L R view rest"
  shows "first_environment L (store_side R) (view \<circ> fst) (\<lambda>s. lw_mutation_calls (fst (snd s)))
    (phase_one_system R L initial lax parse answer)"
    (is "first_environment L ?R ?view ?rest ?F")
proof (intro first_environment.intro first_environment_axioms.intro)
  show "durable_truth L ?R ?view ?rest"
    using store_side_durable_truth [OF assms, of "\<lambda>w. lw_mutation_calls (fst w)"] by simp
  note process = on_process_bystander [where f = "\<lambda>w. lw_mutation_calls (fst w)"]
  show "ph_repository ?F = ?R" by (simp add: phase_one_system_def)
  show "bystander L ?view ?rest (ph_clock ?F)"
    unfolding phase_one_system_def LocalFirstPhaseOneFlow.simps
    by (rule process) (rule on_world_quiet [OF local_clock_quiet])
  show "bystander L ?view ?rest (ph_proposal_id_factory ?F)"
    unfolding phase_one_system_def LocalFirstPhaseOneFlow.simps
    by (rule process) (auto simp: phase_one_proposal_id_def split: list.splits)
  show "bystander L ?view ?rest (ph_event_id_factory ?F)"
    unfolding phase_one_system_def LocalFirstPhaseOneFlow.simps
    by (rule process, rule on_world_quiet) (auto simp: hitl_event_id_def split: list.splits)
  show "bystander L ?view ?rest (ph_model ?F e)" for e
    unfolding phase_one_system_def LocalFirstPhaseOneFlow.simps by (rule bystander_lift)
  show "bystander L ?view ?rest (qr_get_resource (ph_query ?F) q)" for q
    unfolding phase_one_system_def LocalFirstPhaseOneFlow.simps QueryResource.simps Let_def
    by (rule process) (rule logged_query_quiet)
qed

interpretation file_first: first_environment L "store_side (file_repository L)"
    "(\<lambda>w. file_view (fw_file w)) \<circ> fst" "\<lambda>s. lw_mutation_calls (fst (snd s))"
    "phase_one_system (file_repository L) L initial lax parse answer" for L initial lax parse answer
  by (rule phase_one_environment) (rule local_store.durable_truth_axioms)

subsection \<open>Completions\<close>

text \<open>C13: A local plan reaches the human only as policy derives it from stored evidence: when the first phase
  reports a completion, the store held the run in the state it reports and a checkpoint with exactly its evidence
  and proposal; a run that waits for approval has a proposal marked so, bound to the run and to the evidence
  (what the second phase demands before it issues a challenge); a fresh completion carries the plan of policy,
  whatever the model answered, and a checkpoint without any trace of approval.\<close>

theorem approval_boundary_backed:
  assumes "durable_truth L R view rest" and "repo_ok L (view s)" and "valid_run run"
    and "first_execute L (phase_one_system R L initial lax parse answer) run query (s, w, p)
      = (Inr (Succeeded y), s', w', p')"
  shows "\<exists>run' c. held_run L (view s) (view s') (r_run_id run) run' \<and> r_state run' = fc_final_state y
    \<and> held_checkpoint L (view s) (view s') (r_run_id run) c \<and> c_resource_evidence c = Some (fc_evidence y)
    \<and> (fc_final_state y \<noteq> WorkflowState.NO_ACTION_REQUIRED \<longrightarrow>
         (\<exists>q. pl_proposal (fc_plan y) = Some q \<and> c_remediation_proposal c = Some q
            \<and> local_context_bound run' (fc_evidence y) q))
    \<and> (fc_final_state y = WorkflowState.AWAITING_APPROVAL \<longrightarrow>
         map_option rp_status (pl_proposal (fc_plan y)) = Some ProposalState.AWAITING_APPROVAL)
    \<and> (\<not> fc_reconciled y \<longrightarrow> plan_by_policy (fc_evidence y) (fc_plan y) \<and> before_approval c)"
proof -
  let ?view = "view \<circ> fst :: 'a \<times> HitlWorld \<times> PhaseOneProcess \<Rightarrow> Repo"
  have "since L ?view (view s) (s, w, p)" using assms(2) by (simp add: since_def)
  from ensures_valueD [OF first_environment.first_execute_ensures [OF phase_one_environment [OF assms(1)] assms(3) refl]
      this assms(4)]
  obtain run' c where saw: "saw_run L ?view (view s) (r_run_id run) run' (s', w', p')"
    "saw_checkpoint L ?view (view s) (r_run_id run) c (s', w', p')" and b: "completion_backed run' c y"
    by (auto simp: first_result_def)
  have "later L (?view (s', w', p')) (view s')" by simp
  from saw_held(1) [OF saw(1) this] saw_held(2) [OF saw(2) this] b show ?thesis
    by (intro exI [of _ run'] exI [of _ c])
      (auto simp: completion_backed_def valid_first_completion_def split: option.splits)
qed

subsection \<open>No authority\<close>

text \<open>What a run of the first phase may change of the store it found.\<close>

definition authority_states :: "WorkflowState set" where
  "authority_states = {WorkflowState.APPROVED, WorkflowState.DENIED_BY_HUMAN, WorkflowState.EXECUTING,
     WorkflowState.VERIFYING, WorkflowState.SUCCESS_WITH_EVIDENCE}"

definition phase_one_frame :: "Repo \<Rightarrow> Repo \<Rightarrow> bool" where
  "phase_one_frame d0 d \<longleftrightarrow> d_proposals d = d_proposals d0 \<and> d_approvals d = d_approvals d0
     \<and> d_idempotency d = d_idempotency d0 \<and> d_verification_evidence d = d_verification_evidence d0
     \<and> (\<forall>rid r. dget (d_runs d) rid = Some r \<and> r_state r \<in> authority_states \<longrightarrow> dget (d_runs d0) rid = Some r)
     \<and> (\<forall>rid c. dget (d_checkpoints d) rid = Some c \<and> \<not> before_approval c \<longrightarrow> dget (d_checkpoints d0) rid = Some c)"

text \<open>A property of the state that the calls of the first phase keep.\<close>

locale boundary_store =
  fixes I :: "'s \<Rightarrow> bool" and R :: "'s DurableTruthRepository"
  assumes keeps_get_run: "keeps I (op_get_run R rid)"
    and keeps_get_checkpoint: "keeps I (op_get_checkpoint R rid)"
    and keeps_create_run: "keeps I (op_create_run R run)"
    and keeps_transition: "st \<notin> authority_states \<Longrightarrow> keeps I (op_transition_run R rid st es ev t ap vp)"
    and keeps_save: "before_approval c \<Longrightarrow> keeps I (op_save_checkpoint R c v)"
    and keeps_append: "keeps I (op_append_audit_event R e)"

locale phase_one = boundary_store I R for I :: "'s \<Rightarrow> bool" and R :: "'s DurableTruthRepository" +
  fixes F :: "'s LocalFirstPhaseOneFlow"
  assumes flow: "ph_repository F = R" "keeps I (ph_clock F)" "keeps I (ph_proposal_id_factory F)"
      "keeps I (ph_event_id_factory F)" "keeps I (ph_model F e)" "keeps I (qr_get_resource (ph_query F) q)"
begin

lemma failure_without_authority: "workflow_state_for_failure f \<notin> authority_states"
  by (cases "f_kind f") (simp_all add: workflow_state_for_failure_def authority_states_def)

lemma keeps_on_storage: "keeps I m \<Longrightarrow> keeps I g \<Longrightarrow> (\<And>x. keeps I (k x)) \<Longrightarrow> keeps I (tryThen m (on_storage g) k)"
  by (rule keeps_tryThen) (auto simp: on_storage_def split: if_splits)

lemma keeps_first_transition: "st \<notin> authority_states \<Longrightarrow> keeps I (first_transition F run st)"
  unfolding first_transition_def flow(1) by (intro keeps_intros flow keeps_transition)

lemma keeps_first_event: "keeps I (first_append_event F run ty h src md)"
  unfolding first_append_event_def emit_event_def flow(1) by (intro keeps_intros flow keeps_append)

lemma keeps_first_save: "keeps I (first_save L F run safe md hs e p v ev)"
  unfolding first_save_def flow(1)
proof (rule keeps_andThen [OF flow(2)])
  fix now
  show "keeps I (andThen (lift (first_checkpoint L run safe md hs e p now v)) (\<lambda>c. op_save_checkpoint R c ev))"
  proof (cases "first_checkpoint L run safe md hs e p now v")
    case (Inr c)
    then have "before_approval c" by (auto simp: first_checkpoint_def before_approval_def split: sum.splits)
    from keeps_save [OF this, of ev] show ?thesis by (simp add: Inr keeps_def andThen_def lift_def)
  qed (simp add: keeps_def andThen_def lift_def)
qed

lemmas keeps_first_steps = keeps_first_transition keeps_first_event keeps_first_save keeps_on_storage flow(2-6)

lemma keeps_first_failure: "keeps I (first_persist_failure F run f)"
  unfolding first_persist_failure_def
  by (intro keeps_first_steps keeps_intros failure_without_authority)

lemma keeps_first_succeeded: "keeps I (first_succeeded run e plan)"
  unfolding first_succeeded_def by (intro keeps_intros)

lemma keeps_ended: "keeps I m \<Longrightarrow> keeps I (ended m)"
  unfolding ended_def by (intro keeps_intros)

lemma keeps_first_reconcile: "keeps I (first_reconcile F run)"
  unfolding first_reconcile_def flow(1) Let_def
  by (intro keeps_intros keeps_get_checkpoint) (auto split: if_splits intro: keeps_intros)

lemma keeps_first_raced: "keeps I (first_raced F rid)"
  unfolding first_raced_def flow(1)
  by (intro keeps_intros keeps_get_run keeps_first_reconcile) (auto split: if_splits intro: keeps_intros)

lemma keeps_first_open: "keeps I (first_open L F run)"
  unfolding first_open_def first_create_def flow(1)
  by (intro keeps_intros keeps_get_run keeps_create_run keeps_first_event keeps_ended keeps_first_reconcile)
    (auto split: if_splits intro: keeps_intros keeps_ended keeps_first_raced)

lemma keeps_first_conclude: "keeps I (first_conclude L F run e plan)"
  unfolding first_conclude_def first_safe_terminal_def first_await_approval_def Let_def
  by (intro keeps_intros keeps_first_steps keeps_first_failure keeps_first_succeeded)
    (auto simp: authority_states_def split: if_splits intro: keeps_intros)

lemma keeps_first_plan: "keeps I (first_plan L F run e)"
  unfolding first_plan_def
  by (intro keeps_intros keeps_first_steps keeps_first_failure keeps_first_conclude)
    (auto intro: keeps_first_failure keeps_first_steps keeps_intros keeps_first_conclude split: ControlResult.splits)

lemma keeps_first_evidence: "keeps I (first_record_evidence L F run e)"
  unfolding first_record_evidence_def
  by (intro keeps_intros keeps_first_steps keeps_first_failure keeps_ended) (simp_all add: authority_states_def)

lemma keeps_first_query: "keeps I (query_execute L (ph_query F) query run t)"
  unfolding query_execute_def query_failed_def query_on_error_def
  by (intro keeps_intros flow) (auto simp: query_failed_def split: if_splits intro: keeps_intros)

lemma keeps_first_execute: "keeps I (first_execute L F run query)"
  unfolding first_execute_def first_investigate_def
  by (intro keeps_intros keeps_first_open keeps_first_steps keeps_first_query)
    (auto simp: authority_states_def split: ControlResult.splits
      intro: keeps_first_failure keeps_first_evidence keeps_first_plan keeps_intros)

end

lemma keeps_boundary_writes:
  "keeps (phase_one_frame d0) (repo_create_run run)"
  "before_approval c \<Longrightarrow> keeps (phase_one_frame d0) (repo_save_checkpoint c v)"
  "keeps (phase_one_frame d0) (repo_append_audit_event e)"
  by (auto simp: keeps_def repo_create_run_def repo_save_checkpoint_def repo_append_audit_event_def raise_def Let_def
      phase_one_frame_def authority_states_def split: option.splits if_splits)

lemma keeps_boundary_transition:
  assumes "st \<notin> authority_states"
  shows "keeps (phase_one_frame d0) (repo_transition_run L rid st es ev t ap vp)"
proof -
  have "r_state u = st" if "transition_run r st t = Inr u" for r u
    using that by (auto dest: transition_run_Inr)
  with assms show ?thesis
    by (auto simp: keeps_def repo_transition_run_def raise_def phase_one_frame_def split: option.splits sum.splits if_splits)
qed

interpretation boundary: phase_one "phase_one_frame d0 \<circ> fst" "store_side (mem_repository L)"
    "phase_one_system (mem_repository L) L initial lax parse answer" for d0 L initial lax parse answer
proof unfold_locales
  note simps = store_side_def mem_repository_def keeps_store_side keeps_mem_reads
  show "keeps (phase_one_frame d0 \<circ> fst) (op_save_checkpoint (store_side (mem_repository L)) c v)"
    if "before_approval c" for c v
    using keeps_boundary_writes(2) [OF that] by (simp add: simps)
  show "keeps (phase_one_frame d0 \<circ> fst) (op_transition_run (store_side (mem_repository L)) rid st es ev t ap vp)"
    if "st \<notin> authority_states" for rid st es ev t ap vp
    using keeps_boundary_transition [OF that] by (simp add: simps)
qed (simp_all add: store_side_def mem_repository_def keeps_store_side keeps_mem_reads keeps_boundary_writes
      keeps_on_process phase_one_system_def Let_def keeps_lift)

lemma keeps_world: "keeps (\<lambda>s. P (snd s)) (on_store op)"
  by (auto simp: keeps_def on_store_def split: prod.splits)

lemma keeps_quiet:
  assumes "\<And>w x w'. m w = (x, w') \<Longrightarrow> f w' = f w"
  shows "keeps (\<lambda>s. f (snd s) = n) (on_process m)"
  using assms by (auto simp: keeps_def on_process_def split: prod.splits)

interpretation quiet: phase_one "\<lambda>s. lw_mutation_calls (fst (snd s)) = n" "store_side R"
    "phase_one_system R L initial lax parse answer" for n R L initial lax parse answer
proof unfold_locales
  note process = keeps_quiet [where f = "\<lambda>w. lw_mutation_calls (fst w)"]
  show "keeps (\<lambda>s. lw_mutation_calls (fst (snd s)) = n) (ph_clock (phase_one_system R L initial lax parse answer))"
    by (simp add: phase_one_system_def) (rule process, rule on_world_quiet [OF local_clock_quiet])
  show "keeps (\<lambda>s. lw_mutation_calls (fst (snd s)) = n) (ph_event_id_factory (phase_one_system R L initial lax parse answer))"
    by (simp add: phase_one_system_def) (rule process, rule on_world_quiet, auto simp: hitl_event_id_def split: list.splits)
  show "keeps (\<lambda>s. lw_mutation_calls (fst (snd s)) = n) (ph_proposal_id_factory (phase_one_system R L initial lax parse answer))"
    by (simp add: phase_one_system_def) (rule process, auto simp: phase_one_proposal_id_def split: list.splits)
  show "keeps (\<lambda>s. lw_mutation_calls (fst (snd s)) = n) (qr_get_resource (ph_query (phase_one_system R L initial lax parse answer)) q)" for q
    by (simp add: phase_one_system_def Let_def) (rule process, rule logged_query_quiet)
qed (simp_all add: store_side_def keeps_world [where P = "\<lambda>w. lw_mutation_calls (fst w) = n"] phase_one_system_def keeps_lift)



end
