(* ===== verification/Local_First_Examples.thy ===== *)
theory Local_First_Examples
  imports Local_First_System Local_Hitl_Examples Plain_Metadata
begin

section \<open>The first local phase on a concrete run\<close>

text \<open>One run of \<open>LocalFirstPhaseOneFlow.execute\<close> from an empty store to the approval boundary, over the mock
  inventory with an open security group: the run is created, investigated, its evidence recorded, the plan of policy
  stored and marked as waiting for approval.  Every step is evaluated on its own (\<open>fx_opened\<close>, \<open>fx_query_execute\<close>,
  \<open>fx_recorded\<close>, \<open>fx_awaited\<close>) and \<open>fx_executes\<close> composes them; the witnesses of the properties of the
  first phase are read off it.\<close>

definition fx_query :: ResourceQuery where
  "fx_query = \<lparr>q_resource_type = CloudResourceType.SECURITY_GROUP, q_resource_id = ''sg-0123456789abcdef0'',
     q_region = ''eu-central-1''\<rparr>"

definition fx_times :: "int list" where
  "fx_times = [100, 101, 105, 105, 105, 105, 106, 106, 106, 106, 106, 106]"

definition fx_ids :: "uuid list" where
  "fx_ids = map ex_uuid ''abcd''"

text \<open>The process after \<open>n\<close> readings of the clock and \<open>k\<close> events.\<close>

definition fx_tick :: "nat \<Rightarrow> nat \<Rightarrow> HitlWorld" where
  "fx_tick n k = (lx_process (map Utc (drop n fx_times)))\<lparr>hw_event_ids := drop k fx_ids\<rparr>"

lemma fx_tick_fields:
  "n < 12 \<Longrightarrow> lw_clock (fx_tick n k) = Utc (fx_times ! n) # map Utc (drop (Suc n) fx_times)"
  "k < 4 \<Longrightarrow> hw_event_ids (fx_tick n k) = fx_ids ! k # drop (Suc k) fx_ids"
  "(fx_tick n k)\<lparr>lw_clock := map Utc (drop m fx_times)\<rparr> = fx_tick m k"
  "(fx_tick n k)\<lparr>lw_clock := map Utc (drop m fx_times), hw_event_ids := drop j fx_ids\<rparr> = fx_tick m j"
  "(fx_tick n k)\<lparr>hw_event_ids := drop j fx_ids\<rparr> = fx_tick n j"
  by (simp_all add: fx_tick_def lx_process_def Cons_nth_drop_Suc [symmetric] fx_times_def fx_ids_def)

definition fx_process :: PhaseOneProcess where
  "fx_process = \<lparr>po_queries = [], po_proposal_ids = [ex_uuid CHR ''4'']\<rparr>"

abbreviation fx_flow :: "(Repo \<times> HitlWorld \<times> PhaseOneProcess) LocalFirstPhaseOneFlow" where
  "fx_flow \<equiv> phase_one_system (mem_repository ex_L) ex_L default_mock_resources (\<lambda>_. None) (\<lambda>_. Some lx_candidate) (\<lambda>_. Inr ''x'')"

lemma fx_parts [simp]:
  "ph_repository fx_flow = store_side (mem_repository ex_L)" "ph_clock fx_flow = on_process (on_world local_clock)"
  "ph_event_id_factory fx_flow = on_process (on_world hitl_event_id)" "ph_model fx_flow e = lift (Inr ''x'')"
  "ph_proposal_id_factory fx_flow = on_process phase_one_proposal_id" "ph_parse fx_flow = (\<lambda>_. Some lx_candidate)"
  by (simp_all add: phase_one_system_def)

lemma fx_clock: "lw_clock w = t # ts \<Longrightarrow> on_process (on_world local_clock) (d, w, p) = (Inr t, d, w\<lparr>lw_clock := ts\<rparr>, p)"
  by (simp add: on_process_def on_world_def local_clock_def)

lemma fx_transition:
  assumes "lw_clock w = Utc t # ts" and "dget (d_runs d) (r_run_id run) = Some run" and "valid_run run" and "r_updated_at run \<le> t"
    and "st \<in> ALLOWED_WORKFLOW_TRANSITIONS (r_state run)"
    and "st \<notin> {WorkflowState.APPROVED, WorkflowState.DENIED_BY_HUMAN, WorkflowState.SUCCESS_WITH_EVIDENCE}"
  shows "first_transition fx_flow run st (d, w, p)
    = (Inr (run\<lparr>r_state := st, r_updated_at := t, r_version := r_version run + 1\<rparr>),
       d\<lparr>d_runs := dput (r_run_id run) (run\<lparr>r_state := st, r_updated_at := t, r_version := r_version run + 1\<rparr>) (d_runs d)\<rparr>,
       w\<lparr>lw_clock := ts\<rparr>, p)"
proof -
  have "transition_run run st (Utc t) = Inr (run\<lparr>r_state := st, r_updated_at := t, r_version := r_version run + 1\<rparr>)"
    using assms(3-5)
    by (simp add: transition_run_def validate_workflow_transition_def require_utc_def validated_def valid_run_def)
  with assms show ?thesis
    by (simp add: first_transition_def andThen_def fx_clock mem_side repo_transition_run_def decision_guard_def success_guard_def)
qed

lemma mem_more:
  "op_create_run (store_side (mem_repository L)) run (d, w) = (fst (repo_create_run run d), snd (repo_create_run run d), w)"
  "op_append_audit_event (store_side (mem_repository L)) e (d, w)
    = (fst (repo_append_audit_event e d), snd (repo_append_audit_event e d), w)"
  by (simp_all add: store_side_def mem_repository_def on_store_def split: prod.splits)

lemma fx_event:
  assumes "lw_clock w = Utc t # ts" and "hw_event_ids w = i # is"
    and "valid_audit_event \<lparr>e_event_id = i, e_run_id = r_run_id run, e_type = ty, e_timestamp = t, e_source = src, e_tool_name = None,
        e_model_id = None, e_redacted_payload_hash = h,
        e_metadata = dmerge [(''trace_id'', r_trace_id run), (''correlation_id'', r_correlation_id run)] md\<rparr>"
    and "dget (d_audit_events d) (r_run_id run, i) = None" and "count_audit_events (r_run_id run) d < MAX_AUDIT_EVENTS_PER_RUN"
  shows "first_append_event fx_flow run ty h src md (d, w, p)
    = (Inr (), d\<lparr>d_audit_events := dput (r_run_id run, i) \<lparr>e_event_id = i, e_run_id = r_run_id run, e_type = ty, e_timestamp = t,
        e_source = src, e_tool_name = None, e_model_id = None, e_redacted_payload_hash = h,
        e_metadata = dmerge [(''trace_id'', r_trace_id run), (''correlation_id'', r_correlation_id run)] md\<rparr> (d_audit_events d)\<rparr>,
       w\<lparr>lw_clock := ts, hw_event_ids := is\<rparr>, p)"
  using assms
  by (simp add: first_append_event_def emit_event_def prog_defs on_process_def on_world_def hitl_event_id_def local_clock_def
      utc_field_def validated_def mem_more repo_append_audit_event_def Let_def)

lemma fx_save:
  assumes "lw_clock w = Utc t # ts" and "first_checkpoint ex_L run safe md hs e q (Utc t) v = Inr c"
    and "repo_save_checkpoint c ev d = (Inr c, d')"
  shows "first_save ex_L fx_flow run safe md hs e q v ev (d, w, p) = (Inr c, d', w\<lparr>lw_clock := ts\<rparr>, p)"
  using assms by (simp add: first_save_def andThen_def lift_def fx_clock mem_side)

definition fx_at :: "WorkflowState \<Rightarrow> int \<Rightarrow> int \<Rightarrow> Run" where
  "fx_at st t v = ex_run\<lparr>r_state := st, r_updated_at := t, r_version := v\<rparr>"

definition fx_event_at :: "uuid \<Rightarrow> AuditEventType \<Rightarrow> int \<Rightarrow> string \<Rightarrow> (string, string) dict \<Rightarrow> AuditEvent" where
  "fx_event_at i ty t src md = \<lparr>e_event_id = i, e_run_id = ex_uuid CHR ''1'', e_type = ty, e_timestamp = t, e_source = src,
     e_tool_name = None, e_model_id = None, e_redacted_payload_hash = ex_hash,
     e_metadata = dmerge [(''trace_id'', ex_uuid CHR ''2''), (''correlation_id'', ex_uuid CHR ''3'')] md\<rparr>"

lemma fx_run [simp]:
  "r_run_id (fx_at st t v) = ex_uuid CHR ''1''" "r_trace_id (fx_at st t v) = ex_uuid CHR ''2''"
  "r_correlation_id (fx_at st t v) = ex_uuid CHR ''3''" "r_state (fx_at st t v) = st"
  "r_updated_at (fx_at st t v) = t" "r_version (fx_at st t v) = v"
  "(fx_at st t v)\<lparr>r_state := st', r_updated_at := t', r_version := v'\<rparr> = fx_at st' t' v'"
  by (simp_all add: fx_at_def ex_run_def)

lemma fx_valid: "100 \<le> t \<Longrightarrow> 0 < v \<Longrightarrow> valid_run (fx_at st t v)"
  using ex_valid_run by (simp add: valid_run_def fx_at_def ex_run_def)

lemma fx_event_ok:
  assumes "clean_metadata (dmerge [(''trace_id'', ex_uuid CHR ''2''), (''correlation_id'', ex_uuid CHR ''3'')] md)"
    and "uuid7 i" and "short_identifier src"
  shows "valid_audit_event (fx_event_at i ty t src md)"
  by (rule clean_event_valid) (use assms in \<open>simp_all add: fx_event_at_def\<close>)

lemma fx_clean:
  "clean_metadata [(''trace_id'', ex_uuid CHR ''2''), (''correlation_id'', ex_uuid CHR ''3'')]"
  "clean_metadata [(''trace_id'', ex_uuid CHR ''2''), (''correlation_id'', ex_uuid CHR ''3''),
     (''resource_id'', ''sg-0123456789abcdef0''), (''resource_type'', ''AWS::EC2::SecurityGroup'')]"
  "clean_metadata [(''trace_id'', ex_uuid CHR ''2''), (''correlation_id'', ex_uuid CHR ''3''),
     (''proposal_id'', ex_uuid CHR ''4''), (''authority'', ''PLAN_AND_CONFIRM'')]"
  "clean_metadata [(''trace_id'', ex_uuid CHR ''2''), (''correlation_id'', ex_uuid CHR ''3''), (''proposal_id'', ex_uuid CHR ''4'')]"
proof -
  let ?all = "[(''trace_id'', ex_uuid CHR ''2''), (''correlation_id'', ex_uuid CHR ''3''),
     (''resource_id'', ''sg-0123456789abcdef0''), (''resource_type'', ''AWS::EC2::SecurityGroup''),
     (''proposal_id'', ex_uuid CHR ''4''), (''authority'', ''PLAN_AND_CONFIRM'')] :: (string, string) dict"
  have "list_all (\<lambda>(k, v). plain_word k \<and> plain_word v) ?all"
    by (simp add: ex_uuid_def plain_word_def tame_chars_def sublist_code) code_simp
  moreover have "list_all (\<lambda>(k, v). \<not> list_ex (\<lambda>term. sublist term (map lower_char k)) SENSITIVE_TERMS) ?all"
    by code_simp
  moreover have "list_all (\<lambda>(k, v). short_identifier k \<and> non_empty_text v) ?all" by code_simp
  ultimately show
    "clean_metadata [(''trace_id'', ex_uuid CHR ''2''), (''correlation_id'', ex_uuid CHR ''3'')]"
    "clean_metadata [(''trace_id'', ex_uuid CHR ''2''), (''correlation_id'', ex_uuid CHR ''3''),
       (''resource_id'', ''sg-0123456789abcdef0''), (''resource_type'', ''AWS::EC2::SecurityGroup'')]"
    "clean_metadata [(''trace_id'', ex_uuid CHR ''2''), (''correlation_id'', ex_uuid CHR ''3''),
       (''proposal_id'', ex_uuid CHR ''4''), (''authority'', ''PLAN_AND_CONFIRM'')]"
    "clean_metadata [(''trace_id'', ex_uuid CHR ''2''), (''correlation_id'', ex_uuid CHR ''3''), (''proposal_id'', ex_uuid CHR ''4'')]"
    by (simp_all add: clean_metadata_def)
qed

lemma fx_events_ok:
  "valid_audit_event (fx_event_at (ex_uuid CHR ''a'') AuditEventType.RUN_CREATED 100 ''local-nz-control'' [])"
  "valid_audit_event (fx_event_at (ex_uuid CHR ''b'') AuditEventType.RESOURCE_QUERIED 105 ''query-resource''
     [(''resource_id'', ''sg-0123456789abcdef0''), (''resource_type'', ''AWS::EC2::SecurityGroup'')])"
  "valid_audit_event (fx_event_at (ex_uuid CHR ''c'') AuditEventType.REMEDIATION_PLANNED 106 ''plan-remediation''
     [(''proposal_id'', ex_uuid CHR ''4''), (''authority'', ''PLAN_AND_CONFIRM'')])"
  "valid_audit_event (fx_event_at (ex_uuid CHR ''d'') AuditEventType.APPROVAL_REQUESTED 106 ''local-approval-boundary''
     [(''proposal_id'', ex_uuid CHR ''4'')])"
proof -
  have w: "short_identifier ''local-nz-control''" "short_identifier ''query-resource''" "short_identifier ''plan-remediation''"
    "short_identifier ''local-approval-boundary''" "uuid7 (ex_uuid CHR ''a'')" "uuid7 (ex_uuid CHR ''b'')"
    "uuid7 (ex_uuid CHR ''c'')" "uuid7 (ex_uuid CHR ''d'')" by code_simp+
  show "valid_audit_event (fx_event_at (ex_uuid CHR ''a'') AuditEventType.RUN_CREATED 100 ''local-nz-control'' [])"
    by (rule fx_event_ok) (simp_all add: w fx_clean dmerge_def)
  show "valid_audit_event (fx_event_at (ex_uuid CHR ''b'') AuditEventType.RESOURCE_QUERIED 105 ''query-resource''
     [(''resource_id'', ''sg-0123456789abcdef0''), (''resource_type'', ''AWS::EC2::SecurityGroup'')])"
    by (rule fx_event_ok) (simp_all add: w fx_clean dmerge_def)
  show "valid_audit_event (fx_event_at (ex_uuid CHR ''c'') AuditEventType.REMEDIATION_PLANNED 106 ''plan-remediation''
     [(''proposal_id'', ex_uuid CHR ''4''), (''authority'', ''PLAN_AND_CONFIRM'')])"
    by (rule fx_event_ok) (simp_all add: w fx_clean dmerge_def)
  show "valid_audit_event (fx_event_at (ex_uuid CHR ''d'') AuditEventType.APPROVAL_REQUESTED 106 ''local-approval-boundary''
     [(''proposal_id'', ex_uuid CHR ''4'')])"
    by (rule fx_event_ok) (simp_all add: w fx_clean dmerge_def)
qed

definition fx_store :: "Run \<Rightarrow> Checkpoint list \<Rightarrow> AuditEvent list \<Rightarrow> Repo" where
  "fx_store r cs es = empty_repo\<lparr>d_runs := [(ex_uuid CHR ''1'', r)],
     d_checkpoints := map (Pair (ex_uuid CHR ''1'')) cs,
     d_audit_events := map (\<lambda>e. ((ex_uuid CHR ''1'', e_event_id e), e)) es\<rparr>"

lemma fx_found:
  "find_resource fx_query (initial_inventory default_mock_resources) = Inr (Sg lx_group)"
  by (simp add: find_resource_def fx_query_def) (code_simp)

lemma fx_queried:
  "qr_get_resource (ph_query fx_flow) fx_query (d, fx_tick n k, p) = (Inr (Sg lx_group), d, fx_tick n k, p\<lparr>po_queries := po_queries p @ [fx_query]\<rparr>)"
proof -
  have "lw_schedule (fx_tick n k) = []" "lw_file (fx_tick n k) = NoInventory"
    by (simp_all add: fx_tick_def lx_process_def)
  moreover have "(fx_tick n k)\<lparr>lw_file := NoInventory, lw_schedule := []\<rparr> = fx_tick n k"
    by (simp add: fx_tick_def lx_process_def)
  ultimately show ?thesis using fx_found
    by (simp add: phase_one_system_def on_process_def logged_query_def mock_aws_def inventory_call_def other_executions_def
        store_read_def load_inventory_def)
qed

lemma fx_move:
  assumes "n < 12" and "fx_times ! n = t" and "s0 \<le> t" and "0 < v" and "100 \<le> s0"
    and "st \<in> ALLOWED_WORKFLOW_TRANSITIONS ws"
    and "st \<notin> {WorkflowState.APPROVED, WorkflowState.DENIED_BY_HUMAN, WorkflowState.SUCCESS_WITH_EVIDENCE}"
  shows "first_transition fx_flow (fx_at ws s0 v) st (fx_store (fx_at ws s0 v) cs es, fx_tick n k, p)
    = (Inr (fx_at st t (v + 1)), fx_store (fx_at st t (v + 1)) cs es, fx_tick (Suc n) k, p)"
  using fx_transition [of "fx_tick n k" t "map Utc (drop (Suc n) fx_times)" "fx_store (fx_at ws s0 v) cs es" "fx_at ws s0 v" st p]
    assms fx_valid [of s0 v ws]
  by (simp add: fx_tick_fields fx_store_def)

lemma fx_emit:
  assumes "n < 12" and "k < 4" and "fx_times ! n = t" and "fx_ids ! k = i" and "valid_audit_event (fx_event_at i ty t src md)"
    and "i \<notin> e_event_id ` set es" and "length es < 4"
  shows "first_append_event fx_flow (fx_at ws s0 v) ty ex_hash src md (fx_store r cs es, fx_tick n k, p)
    = (Inr (), fx_store r cs (es @ [fx_event_at i ty t src md]), fx_tick (Suc n) (Suc k), p)"
proof -
  let ?D = "map (\<lambda>e. ((ex_uuid CHR ''1'', e_event_id e), e)) es"
  have none: "dget ?D (ex_uuid CHR ''1'', i) = None"
    using assms(6) by (induction es) auto
  have put: "dput (ex_uuid CHR ''1'', i) x ?D = ?D @ [((ex_uuid CHR ''1'', i), x)]" for x
    using assms(6) by (induction es) auto
  have "count_audit_events (ex_uuid CHR ''1'') (fx_store r cs es) < MAX_AUDIT_EVENTS_PER_RUN"
    using assms(7) length_filter_le [of "\<lambda>k. fst k = ex_uuid CHR ''1''" "map fst ?D"]
    by (simp add: count_audit_events_def fx_store_def MAX_AUDIT_EVENTS_PER_RUN_def)
  then show ?thesis
    using fx_event [of "fx_tick n k" t "map Utc (drop (Suc n) fx_times)" i "drop (Suc k) fx_ids" "fx_at ws s0 v" ty src ex_hash md
        "fx_store r cs es" p] assms(1-5) none put
    by (simp add: fx_tick_fields fx_event_at_def) (simp add: fx_store_def fx_event_at_def)
qed

definition fx_checkpoint :: "WorkflowState \<Rightarrow> (string, json) dict \<Rightarrow> (string, string) dict \<Rightarrow> RemediationProposal option \<Rightarrow> int \<Rightarrow> int \<Rightarrow> Checkpoint" where
  "fx_checkpoint safe md hs q t v = \<lparr>c_run_id = ex_uuid CHR ''1'', c_last_safe_state = safe, c_resume_metadata = md,
     c_tool_result_hashes = hs, c_resource_evidence = Some lx_evidence, c_remediation_proposal = q,
     c_local_approval_request = None, c_local_approval = None, c_local_execution_intent = None,
     c_local_execution_receipt = None, c_local_verification = None, c_created_at = t, c_version = v\<rparr>"

lemma fx_keep:
  assumes "n < 12" and "fx_times ! n = t" and "valid_checkpoint ex_L (fx_checkpoint safe md hs q t ver)"
    and "(cs = [] \<and> ev = None \<and> ver = 1) \<or> (\<exists>c. cs = [c] \<and> ev = Some (c_version c) \<and> ver = c_version c + 1)"
  shows "first_save ex_L fx_flow (fx_at ws s0 v) safe md hs lx_evidence q ver ev (fx_store r cs es, fx_tick n k, p)
    = (Inr (fx_checkpoint safe md hs q t ver), fx_store r [fx_checkpoint safe md hs q t ver] es, fx_tick (Suc n) k, p)"
proof -
  have "first_checkpoint ex_L (fx_at ws s0 v) safe md hs lx_evidence q (Utc t) ver = Inr (fx_checkpoint safe md hs q t ver)"
    using assms(3) by (simp add: first_checkpoint_def utc_field_def validated_def fx_checkpoint_def)
  moreover have "repo_save_checkpoint (fx_checkpoint safe md hs q t ver) ev (fx_store r cs es)
      = (Inr (fx_checkpoint safe md hs q t ver), fx_store r [fx_checkpoint safe md hs q t ver] es)"
    using assms(4) by (auto simp: repo_save_checkpoint_def fx_store_def fx_checkpoint_def)
  ultimately show ?thesis
    using fx_save [of "fx_tick n k" t "map Utc (drop (Suc n) fx_times)"] assms(1,2) by (simp add: fx_tick_fields)
qed

lemma fx_query_execute:
  "query_execute ex_L (ph_query fx_flow) fx_query (fx_at s t v) (Utc 105) (d, fx_tick n k, p)
    = (Inr (Succeeded lx_evidence), d, fx_tick n k, p\<lparr>po_queries := po_queries p @ [fx_query]\<rparr>)"
proof -
  have prov: "resource_provenance (qr_adapter_name (ph_query fx_flow)) (fx_at s t v) (Sg lx_group) 105 = re_provenance lx_evidence"
    by (simp add: resource_provenance_def phase_one_system_def mock_aws_def Let_def lx_evidence_def) (simp add: lx_group_def)
  have "valid_query fx_query" by code_simp
  moreover have "ResourceEvidence_create ex_L (fx_at s t v) (Sg lx_group) (resource_findings (Sg lx_group)) (re_provenance lx_evidence) 105
      = Inr lx_evidence"
    using lx_evidence_ok lx_group_rules(1)
    by (simp add: ResourceEvidence_create_def Let_def validated_def del: resource_findings.simps) (simp add: lx_evidence_def)
  ultimately show ?thesis
    using lx_provenance_ok(1)
    by (simp add: query_execute_def tryThen_def andThen_def fx_queried lift_def utc_field_def validated_def prov ret_def
        del: resource_findings.simps)
qed

definition fx_evidence_checkpoint :: Checkpoint where
  "fx_evidence_checkpoint = fx_checkpoint WorkflowState.EVIDENCE_READY [(''phase'', JStr ''LOCAL_1'')]
     [(''query_resource'', ex_hash)] None 105 1"

definition fx_awaiting :: RemediationProposal where
  "fx_awaiting = lx_proposal\<lparr>rp_status := ProposalState.AWAITING_APPROVAL, rp_version := 2\<rparr>"

definition fx_awaiting_checkpoint :: Checkpoint where
  "fx_awaiting_checkpoint = fx_checkpoint WorkflowState.AWAITING_APPROVAL
     [(''phase'', JStr ''LOCAL_1''), (''proposal_hash'', JStr ex_hash), (''proposal_id'', JStr (ex_uuid CHR ''4''))]
     [(''plan_remediation'', ex_hash), (''query_resource'', ex_hash)] (Some fx_awaiting) 106 2"

lemma fx_awaiting_ok: "valid_remediation_proposal ex_L fx_awaiting"
  using lx_proposal_ok by (simp add: fx_awaiting_def valid_remediation_proposal_def action_payload_def stable_fingerprint_def)

lemma fx_checkpoints_ok: "valid_checkpoint ex_L fx_evidence_checkpoint" "valid_checkpoint ex_L fx_awaiting_checkpoint"
proof -
  have "short_identifier ''query_resource''" "short_identifier ''plan_remediation''" by code_simp+
  then show "valid_checkpoint ex_L fx_evidence_checkpoint" "valid_checkpoint ex_L fx_awaiting_checkpoint"
    using lx_evidence_ok fx_awaiting_ok
    by (simp_all add: fx_evidence_checkpoint_def fx_awaiting_checkpoint_def fx_checkpoint_def valid_checkpoint_def
        checkpoint_bindings_def dict_ok_def bound_defs)
      (simp add: fx_awaiting_def lx_proposal_def lx_evidence_def)
qed

abbreviation fx_log :: "nat \<Rightarrow> AuditEvent list" where
  "fx_log n \<equiv> take n
    [fx_event_at (ex_uuid CHR ''a'') AuditEventType.RUN_CREATED 100 ''local-nz-control'' [],
     fx_event_at (ex_uuid CHR ''b'') AuditEventType.RESOURCE_QUERIED 105 ''query-resource''
       [(''resource_id'', ''sg-0123456789abcdef0''), (''resource_type'', ''AWS::EC2::SecurityGroup'')],
     fx_event_at (ex_uuid CHR ''c'') AuditEventType.REMEDIATION_PLANNED 106 ''plan-remediation''
       [(''proposal_id'', ex_uuid CHR ''4''), (''authority'', ''PLAN_AND_CONFIRM'')],
     fx_event_at (ex_uuid CHR ''d'') AuditEventType.APPROVAL_REQUESTED 106 ''local-approval-boundary''
       [(''proposal_id'', ex_uuid CHR ''4'')]]"

lemma fx_run_start: "ex_run = fx_at WorkflowState.RECEIVED 100 1"
  by (simp add: fx_at_def ex_run_def)

lemma fx_opened:
  "first_open ex_L fx_flow ex_run (empty_repo, fx_tick 0 0, p) = (Inr (Inr ex_run), fx_store ex_run [] (fx_log 1), fx_tick 1 1, p)"
proof -
  have fresh: "dget (d_runs empty_repo) k = None" for k by (simp add: empty_repo_def)
  have "repo_create_run ex_run empty_repo = (Inr ex_run, fx_store ex_run [] [])"
    by (simp add: repo_create_run_def empty_repo_def MAX_DURABLE_RUNS_def fx_store_def) (simp add: ex_run_def)
  moreover have "first_append_event fx_flow ex_run AuditEventType.RUN_CREATED ex_hash ''local-nz-control'' []
      (fx_store ex_run [] [], fx_tick 0 0, p) = (Inr (), fx_store ex_run [] (fx_log 1), fx_tick 1 1, p)"
    unfolding fx_run_start
    using fx_emit [of 0 0 100 "ex_uuid CHR ''a''" _ _ _ "[]"] fx_events_ok(1) by (simp add: fx_times_def fx_ids_def)
  ultimately show ?thesis
    by (simp add: first_open_def first_create_def prog_defs mem_side mem_more repo_get_run_def fresh)
qed

lemma fx_recorded:
  "first_record_evidence ex_L fx_flow (fx_at WorkflowState.INVESTIGATING 101 2) lx_evidence
     (fx_store (fx_at WorkflowState.INVESTIGATING 101 2) [] (fx_log 1), fx_tick 3 1, p)
   = (Inr (Inr (fx_at WorkflowState.EVIDENCE_READY 105 3)),
      fx_store (fx_at WorkflowState.EVIDENCE_READY 105 3) [fx_evidence_checkpoint] (fx_log 2), fx_tick 6 2, p)"
proof -
  have e: "re_evidence_hash lx_evidence = ex_hash" "res_id (re_resource lx_evidence) = ''sg-0123456789abcdef0''"
    "res_type (re_resource lx_evidence) = CloudResourceType.SECURITY_GROUP"
    by (simp_all add: lx_evidence_def lx_group_def)
  have "ex_uuid CHR ''b'' \<noteq> ex_uuid CHR ''a''" by code_simp
  then have "first_append_event fx_flow (fx_at WorkflowState.INVESTIGATING 101 2) AuditEventType.RESOURCE_QUERIED ex_hash ''query-resource''
      [(''resource_id'', ''sg-0123456789abcdef0''), (''resource_type'', ''AWS::EC2::SecurityGroup'')]
      (fx_store (fx_at WorkflowState.INVESTIGATING 101 2) [] (fx_log 1), fx_tick 3 1, p)
    = (Inr (), fx_store (fx_at WorkflowState.INVESTIGATING 101 2) [] (fx_log 2), fx_tick 4 2, p)"
    using fx_emit [of 3 1 105 "ex_uuid CHR ''b''" _ _ _ "fx_log 1"] fx_events_ok(2)
    by (simp add: fx_times_def fx_ids_def numeral_2_eq_2) (simp add: fx_event_at_def)
  moreover have "first_transition fx_flow (fx_at WorkflowState.INVESTIGATING 101 2) WorkflowState.EVIDENCE_READY
      (fx_store (fx_at WorkflowState.INVESTIGATING 101 2) [] (fx_log 2), fx_tick 4 2, p)
    = (Inr (fx_at WorkflowState.EVIDENCE_READY 105 3), fx_store (fx_at WorkflowState.EVIDENCE_READY 105 3) [] (fx_log 2), fx_tick 5 2, p)"
    using fx_move [of 4 105 101 2 WorkflowState.EVIDENCE_READY WorkflowState.INVESTIGATING] by (simp add: fx_times_def)
  moreover have "first_save ex_L fx_flow (fx_at WorkflowState.EVIDENCE_READY 105 3) WorkflowState.EVIDENCE_READY
      [(''phase'', JStr ''LOCAL_1'')] [(''query_resource'', ex_hash)] lx_evidence None 1 None
      (fx_store (fx_at WorkflowState.EVIDENCE_READY 105 3) [] (fx_log 2), fx_tick 5 2, p)
    = (Inr fx_evidence_checkpoint, fx_store (fx_at WorkflowState.EVIDENCE_READY 105 3) [fx_evidence_checkpoint] (fx_log 2), fx_tick 6 2, p)"
    using fx_keep [of 5 105] fx_checkpoints_ok(1) by (simp add: fx_times_def fx_evidence_checkpoint_def)
  ultimately show ?thesis
    by (simp add: first_record_evidence_def prog_defs e del: take_Suc_Cons take_Cons_numeral)
qed

lemma fx_awaited:
  "first_await_approval ex_L fx_flow (fx_at WorkflowState.EVIDENCE_READY 105 3) lx_evidence lx_plan lx_proposal
     (fx_store (fx_at WorkflowState.EVIDENCE_READY 105 3) [fx_evidence_checkpoint] (fx_log 2), fx_tick 7 2, p)
   = (Inr (Succeeded \<lparr>fc_run_id = ex_uuid CHR ''1'', fc_trace_id = ex_uuid CHR ''2'', fc_correlation_id = ex_uuid CHR ''3'',
         fc_evidence = lx_evidence, fc_plan = lx_plan\<lparr>pl_proposal := Some fx_awaiting\<rparr>,
         fc_final_state = WorkflowState.AWAITING_APPROVAL, fc_public_state = ExecutionState.PENDING,
         fc_approval_status = ApprovalStatus.PENDING_APPROVAL, fc_reconciled = False\<rparr>),
      fx_store (fx_at WorkflowState.AWAITING_APPROVAL 106 5) [fx_awaiting_checkpoint] (fx_log 4), fx_tick 12 4, p)"
proof -
  have aw: "awaiting_proposal ex_L lx_proposal = Inr fx_awaiting"
    using fx_awaiting_ok by (simp add: awaiting_proposal_def validated_def fx_awaiting_def) (simp add: lx_proposal_def)
  have f: "rp_proposal_hash fx_awaiting = ex_hash" "rp_proposal_id fx_awaiting = ex_uuid CHR ''4''"
    "rp_authority_class fx_awaiting = AuthorityGate.PLAN_AND_CONFIRM" "re_evidence_hash lx_evidence = ex_hash"
    "rp_status fx_awaiting = ProposalState.AWAITING_APPROVAL"
    by (simp_all add: fx_awaiting_def lx_proposal_def lx_evidence_def)
  have ids: "ex_uuid CHR ''c'' \<noteq> ex_uuid CHR ''a''" "ex_uuid CHR ''c'' \<noteq> ex_uuid CHR ''b''" "ex_uuid CHR ''d'' \<noteq> ex_uuid CHR ''a''"
    "ex_uuid CHR ''d'' \<noteq> ex_uuid CHR ''b''" "ex_uuid CHR ''d'' \<noteq> ex_uuid CHR ''c''" by code_simp+
  have "first_transition fx_flow (fx_at WorkflowState.EVIDENCE_READY 105 3) WorkflowState.REMEDIATION_PROPOSED
      (fx_store (fx_at WorkflowState.EVIDENCE_READY 105 3) [fx_evidence_checkpoint] (fx_log 2), fx_tick 7 2, p)
    = (Inr (fx_at WorkflowState.REMEDIATION_PROPOSED 106 4),
       fx_store (fx_at WorkflowState.REMEDIATION_PROPOSED 106 4) [fx_evidence_checkpoint] (fx_log 2), fx_tick 8 2, p)"
    using fx_move [of 7 106 105 3 WorkflowState.REMEDIATION_PROPOSED WorkflowState.EVIDENCE_READY] by (simp add: fx_times_def)
  moreover have "first_save ex_L fx_flow (fx_at WorkflowState.REMEDIATION_PROPOSED 106 4) WorkflowState.AWAITING_APPROVAL
      [(''phase'', JStr ''LOCAL_1''), (''proposal_hash'', JStr ex_hash), (''proposal_id'', JStr (ex_uuid CHR ''4''))]
      [(''plan_remediation'', ex_hash), (''query_resource'', ex_hash)] lx_evidence (Some fx_awaiting) 2 (Some 1)
      (fx_store (fx_at WorkflowState.REMEDIATION_PROPOSED 106 4) [fx_evidence_checkpoint] (fx_log 2), fx_tick 8 2, p)
    = (Inr fx_awaiting_checkpoint,
       fx_store (fx_at WorkflowState.REMEDIATION_PROPOSED 106 4) [fx_awaiting_checkpoint] (fx_log 2), fx_tick 9 2, p)"
    using fx_keep [of 8 106 _ _ _ "Some fx_awaiting" 2 "[fx_evidence_checkpoint]" "Some 1"] fx_checkpoints_ok(2)
    by (simp add: fx_times_def fx_awaiting_checkpoint_def) (simp add: fx_evidence_checkpoint_def fx_checkpoint_def)
  moreover have "first_transition fx_flow (fx_at WorkflowState.REMEDIATION_PROPOSED 106 4) WorkflowState.AWAITING_APPROVAL
      (fx_store (fx_at WorkflowState.REMEDIATION_PROPOSED 106 4) [fx_awaiting_checkpoint] (fx_log 2), fx_tick 9 2, p)
    = (Inr (fx_at WorkflowState.AWAITING_APPROVAL 106 5),
       fx_store (fx_at WorkflowState.AWAITING_APPROVAL 106 5) [fx_awaiting_checkpoint] (fx_log 2), fx_tick 10 2, p)"
    using fx_move [of 9 106 106 4 WorkflowState.AWAITING_APPROVAL WorkflowState.REMEDIATION_PROPOSED] by (simp add: fx_times_def)
  moreover have "first_append_event fx_flow (fx_at WorkflowState.AWAITING_APPROVAL 106 5) AuditEventType.REMEDIATION_PLANNED ex_hash
      ''plan-remediation'' [(''proposal_id'', ex_uuid CHR ''4''), (''authority'', ''PLAN_AND_CONFIRM'')]
      (fx_store (fx_at WorkflowState.AWAITING_APPROVAL 106 5) [fx_awaiting_checkpoint] (fx_log 2), fx_tick 10 2, p)
    = (Inr (), fx_store (fx_at WorkflowState.AWAITING_APPROVAL 106 5) [fx_awaiting_checkpoint] (fx_log 3), fx_tick 11 3, p)"
    using fx_emit [of 10 2 106 "ex_uuid CHR ''c''" _ _ _ "fx_log 2"] fx_events_ok(3) ids
    by (simp add: fx_times_def fx_ids_def) (simp add: fx_event_at_def)
  moreover have "first_append_event fx_flow (fx_at WorkflowState.AWAITING_APPROVAL 106 5) AuditEventType.APPROVAL_REQUESTED ex_hash
      ''local-approval-boundary'' [(''proposal_id'', ex_uuid CHR ''4'')]
      (fx_store (fx_at WorkflowState.AWAITING_APPROVAL 106 5) [fx_awaiting_checkpoint] (fx_log 3), fx_tick 11 3, p)
    = (Inr (), fx_store (fx_at WorkflowState.AWAITING_APPROVAL 106 5) [fx_awaiting_checkpoint] (fx_log 4), fx_tick 12 4, p)"
    using fx_emit [of 11 3 106 "ex_uuid CHR ''d''" _ _ _ "fx_log 3"] fx_events_ok(4) ids
    by (simp add: fx_times_def fx_ids_def) (simp add: fx_event_at_def)
  moreover have "first_completion (fx_at WorkflowState.AWAITING_APPROVAL 106 5) lx_evidence (lx_plan\<lparr>pl_proposal := Some fx_awaiting\<rparr>) False
      = Inr \<lparr>fc_run_id = ex_uuid CHR ''1'', fc_trace_id = ex_uuid CHR ''2'', fc_correlation_id = ex_uuid CHR ''3'',
         fc_evidence = lx_evidence, fc_plan = lx_plan\<lparr>pl_proposal := Some fx_awaiting\<rparr>,
         fc_final_state = WorkflowState.AWAITING_APPROVAL, fc_public_state = ExecutionState.PENDING,
         fc_approval_status = ApprovalStatus.PENDING_APPROVAL, fc_reconciled = False\<rparr>"
    by (simp add: first_completion_def validated_def valid_first_completion_def LOCAL_FIRST_FINAL_STATES_def f)
      (simp add: lx_evidence_def lx_plan_def)
  ultimately show ?thesis
    by (simp add: first_await_approval_def first_succeeded_def prog_defs aw f del: take_Suc_Cons take_Cons_numeral)
qed

lemma fx_executes:
  "first_execute ex_L fx_flow ex_run fx_query (empty_repo, fx_tick 0 0, fx_process)
   = (Inr (Succeeded \<lparr>fc_run_id = ex_uuid CHR ''1'', fc_trace_id = ex_uuid CHR ''2'', fc_correlation_id = ex_uuid CHR ''3'',
         fc_evidence = lx_evidence, fc_plan = lx_plan\<lparr>pl_proposal := Some fx_awaiting\<rparr>,
         fc_final_state = WorkflowState.AWAITING_APPROVAL, fc_public_state = ExecutionState.PENDING,
         fc_approval_status = ApprovalStatus.PENDING_APPROVAL, fc_reconciled = False\<rparr>),
      fx_store (fx_at WorkflowState.AWAITING_APPROVAL 106 5) [fx_awaiting_checkpoint] (fx_log 4), fx_tick 12 4,
      \<lparr>po_queries = [fx_query], po_proposal_ids = []\<rparr>)"
proof -
  let ?p = "\<lparr>po_queries = [fx_query], po_proposal_ids = [ex_uuid CHR ''4'']\<rparr>"
  have m: "first_transition fx_flow ex_run WorkflowState.INVESTIGATING (fx_store ex_run [] (fx_log 1), fx_tick 1 1, fx_process)
    = (Inr (fx_at WorkflowState.INVESTIGATING 101 2), fx_store (fx_at WorkflowState.INVESTIGATING 101 2) [] (fx_log 1), fx_tick 2 1, fx_process)"
    unfolding fx_run_start
    using fx_move [of 1 101 100 1 WorkflowState.INVESTIGATING WorkflowState.RECEIVED] by (simp add: fx_times_def numeral_2_eq_2)
  have c: "on_process (on_world local_clock) (d, fx_tick n k, p) = (Inr (Utc (fx_times ! n)), d, fx_tick (Suc n) k, p)"
    if "n < 12" for d :: Repo and n k p
    using fx_clock [OF fx_tick_fields(1) [OF that]] by (simp add: fx_tick_fields(3))
  have t: "Utc (fx_times ! 2) = Utc 105" "Utc (fx_times ! 6) = Utc 106" by (simp_all add: fx_times_def)
  have i: "on_process phase_one_proposal_id (d, w, ?p) = (Inr (ex_uuid CHR ''4''), d, w, \<lparr>po_queries = [fx_query], po_proposal_ids = []\<rparr>)"
    for d :: Repo and w by (simp add: on_process_def phase_one_proposal_id_def)
  have pl: "pl_disposition lx_plan = PlanDisposition.PROPOSAL" "pl_proposal lx_plan = Some lx_proposal"
    by (simp_all add: lx_plan_def)
  have plan: "first_plan ex_L fx_flow (fx_at WorkflowState.EVIDENCE_READY 105 3) lx_evidence
      (fx_store (fx_at WorkflowState.EVIDENCE_READY 105 3) [fx_evidence_checkpoint] (fx_log 2), fx_tick 6 2, ?p)
    = first_await_approval ex_L fx_flow (fx_at WorkflowState.EVIDENCE_READY 105 3) lx_evidence lx_plan lx_proposal
      (fx_store (fx_at WorkflowState.EVIDENCE_READY 105 3) [fx_evidence_checkpoint] (fx_log 2), fx_tick 7 2, \<lparr>po_queries = [fx_query], po_proposal_ids = []\<rparr>)"
    by (simp add: first_plan_def tryThen_def andThen_def lift_def i c t lx_planned first_conclude_def pl
        del: take_Suc_Cons take_Cons_numeral)
  have q: "fx_process\<lparr>po_queries := po_queries fx_process @ [fx_query]\<rparr> = ?p" by (simp add: fx_process_def)
  have inv: "first_investigate ex_L fx_flow fx_query (fx_at WorkflowState.INVESTIGATING 101 2)
      (fx_store (fx_at WorkflowState.INVESTIGATING 101 2) [] (fx_log 1), fx_tick 2 1, fx_process)
    = first_plan ex_L fx_flow (fx_at WorkflowState.EVIDENCE_READY 105 3) lx_evidence
      (fx_store (fx_at WorkflowState.EVIDENCE_READY 105 3) [fx_evidence_checkpoint] (fx_log 2), fx_tick 6 2, ?p)"
    by (simp add: first_investigate_def andThen_def c t fx_query_execute q fx_recorded [unfolded One_nat_def] del: take_Suc_Cons take_Cons_numeral)
  have "r_state ex_run = WorkflowState.RECEIVED" by (simp add: ex_run_def)
  then show ?thesis
    by (simp add: first_execute_def fx_opened [unfolded One_nat_def] andThen_def tryThen_def m [unfolded One_nat_def] inv [unfolded One_nat_def] plan fx_awaited del: take_Suc_Cons take_Cons_numeral)
qed

subsection \<open>Witnesses\<close>

lemma approval_boundary_backed_witness:
  "\<exists>run' c. held_run ex_L empty_repo (fx_store (fx_at WorkflowState.AWAITING_APPROVAL 106 5) [fx_awaiting_checkpoint] (fx_log 4))
      (ex_uuid CHR ''1'') run' \<and> r_state run' = WorkflowState.AWAITING_APPROVAL
    \<and> held_checkpoint ex_L empty_repo (fx_store (fx_at WorkflowState.AWAITING_APPROVAL 106 5) [fx_awaiting_checkpoint] (fx_log 4))
      (ex_uuid CHR ''1'') c \<and> before_approval c"
proof -
  have "r_run_id ex_run = ex_uuid CHR ''1''" by (simp add: ex_run_def)
  then show ?thesis
    using approval_boundary_backed [OF mem.durable_truth_axioms empty_repo_ok ex_valid_run fx_executes] by auto
qed



end
